(* ===== verification/Prelude.thy ===== *)
theory Prelude imports Complex_Main "HOL-Library.AList" begin

text \<open>
  Shared vocabulary of the development: HTTP exceptions as values, the service monad in which
  every handler of the API is written, table operations of the database client, strings, JSON
  values, and the collections of facts the component proofs use.

  A handler of the service is an asynchronous TypeScript method that reads and writes database
  tables and may throw. It is modelled as a function from the database to a result and the new
  database. An exception does not undo the writes made before it: the database reached when it
  was thrown is part of the result. Only \<open>transaction\<close> (the client's \<open>$transaction\<close>) restores the
  database it started from.
\<close>

section \<open>Exceptions and the service monad\<close>

text \<open>
  The exception classes of the web framework the handlers throw. The argument is the message,
  or the \<open>code\<close> property when the source throws an object that has one. \<open>PrismaError\<close> is what the
  database client throws itself (a unique row that an update does not find).
\<close>

datatype exn =
    Unauthorized string
  | Forbidden string
  | NotFound string
  | BadRequest string
  | Conflict string
  | ServiceUnavailable string
  | BadGateway string
  | InternalServerError string
  | PrismaError string

type_synonym ('s, 'a) svc = "'s \<Rightarrow> (exn + 'a) \<times> 's"

definition ret :: "'a \<Rightarrow> ('s, 'a) svc" where
  "ret x = (\<lambda>s. (Inr x, s))"

definition throw :: "exn \<Rightarrow> ('s, 'a) svc" where
  "throw e = (\<lambda>s. (Inl e, s))"

definition bnd :: "('s, 'a) svc \<Rightarrow> ('a \<Rightarrow> ('s, 'b) svc) \<Rightarrow> ('s, 'b) svc" where
  "bnd m f = (\<lambda>s. case m s of (r, t) \<Rightarrow> (case r of Inl e \<Rightarrow> (Inl e, t) | Inr x \<Rightarrow> f x t))"

abbreviation sq :: "('s, 'a) svc \<Rightarrow> ('s, 'b) svc \<Rightarrow> ('s, 'b) svc" where
  "sq m k \<equiv> bnd m (\<lambda>_. k)"

definition throw_if :: "bool \<Rightarrow> exn \<Rightarrow> ('s, unit) svc" where
  "throw_if c e = (if c then throw e else ret ())"

definition when_do :: "bool \<Rightarrow> ('s, unit) svc \<Rightarrow> ('s, unit) svc" where
  "when_do c m = (if c then m else ret ())"

definition gets :: "('s \<Rightarrow> 'a) \<Rightarrow> ('s, 'a) svc" where
  "gets f = (\<lambda>s. (Inr (f s), s))"

definition modify :: "('s \<Rightarrow> 's) \<Rightarrow> ('s, unit) svc" where
  "modify f = (\<lambda>s. (Inr (), f s))"

definition require :: "exn \<Rightarrow> 'a option \<Rightarrow> ('s, 'a) svc" where
  "require e x = (case x of None \<Rightarrow> throw e | Some y \<Rightarrow> ret y)"

definition catch :: "('s, 'a) svc \<Rightarrow> (exn \<Rightarrow> ('s, 'a) svc) \<Rightarrow> ('s, 'a) svc" where
  "catch m h = (\<lambda>s. case m s of (r, t) \<Rightarrow> (case r of Inl e \<Rightarrow> h e t | Inr x \<Rightarrow> (Inr x, t)))"

definition transaction :: "('s, 'a) svc \<Rightarrow> ('s, 'a) svc" where
  "transaction m = (\<lambda>s. case m s of (r, t) \<Rightarrow> (case r of Inl e \<Rightarrow> (Inl e, s) | Inr x \<Rightarrow> (Inr x, t)))"

primrec for_each :: "'a list \<Rightarrow> ('a \<Rightarrow> ('s, unit) svc) \<Rightarrow> ('s, unit) svc" where
  "for_each [] f = ret ()"
| "for_each (x # xs) f = sq (f x) (for_each xs f)"

named_theorems svc_run \<open>how each combinator runs on a database\<close>
named_theorems keeps_rules \<open>how each combinator keeps an invariant\<close>

lemma run_ret [svc_run, simp]: "ret x s = (Inr x, s)"
  by (simp add: ret_def)

lemma run_throw [svc_run, simp]: "throw e s = (Inl e, s)"
  by (simp add: throw_def)

lemma run_gets [svc_run, simp]: "gets f s = (Inr (f s), s)"
  by (simp add: gets_def)

lemma run_modify [svc_run, simp]: "modify f s = (Inr (), f s)"
  by (simp add: modify_def)

lemma run_throw_if [svc_run, simp]:
  "throw_if c e s = (if c then (Inl e, s) else (Inr (), s))"
  by (simp add: throw_if_def)

lemma run_when_do [svc_run, simp]: "when_do c m s = (if c then m s else (Inr (), s))"
  by (simp add: when_do_def)

lemma run_require [svc_run, simp]:
  "require e x s = (case x of None \<Rightarrow> (Inl e, s) | Some y \<Rightarrow> (Inr y, s))"
  by (simp add: require_def split: option.split)

lemma run_bnd [svc_run]:
  "bnd m f s = (case m s of (r, t) \<Rightarrow> (case r of Inl e \<Rightarrow> (Inl e, t) | Inr x \<Rightarrow> f x t))"
  by (simp add: bnd_def)

lemma bnd_Inr [simp]: "m s = (Inr x, t) \<Longrightarrow> bnd m f s = f x t"
  by (simp add: bnd_def)

lemma bnd_Inl [simp]: "m s = (Inl e, t) \<Longrightarrow> bnd m f s = (Inl e, t)"
  by (simp add: bnd_def)

lemma run_catch [svc_run]:
  "catch m h s = (case m s of (r, t) \<Rightarrow> (case r of Inl e \<Rightarrow> h e t | Inr x \<Rightarrow> (Inr x, t)))"
  by (simp add: catch_def)

lemma run_transaction [svc_run]:
  "transaction m s = (case m s of (r, t) \<Rightarrow> (case r of Inl e \<Rightarrow> (Inl e, s) | Inr x \<Rightarrow> (Inr x, t)))"
  by (simp add: transaction_def)

lemma bnd_assoc: "bnd (bnd m f) g = bnd m (\<lambda>x. bnd (f x) g)"
  by (rule ext) (simp add: bnd_def split: prod.split sum.split)

text \<open>Inversion of a run: which part failed, or what both parts did.\<close>

lemma bndE:
  assumes "bnd m f s = (r, t)"
  obtains (err) e where "m s = (Inl e, t)" "r = Inl e"
    | (ok) x u where "m s = (Inr x, u)" "f x u = (r, t)"
  using assms by (auto simp: bnd_def split: prod.splits sum.splits)

lemma bnd_InrE:
  assumes "bnd m f s = (Inr y, t)"
  obtains x u where "m s = (Inr x, u)" "f x u = (Inr y, t)"
  using assms by (auto elim: bndE)

lemma throw_ifE:
  assumes "throw_if c e s = (r, t)"
  obtains (thrown) "c" "r = Inl e" "t = s" | (passed) "\<not> c" "r = Inr ()" "t = s"
  using assms by (auto split: if_splits)

lemma transaction_error:
  assumes "transaction m s = (Inl e, t)"
  shows "t = s"
  using assms by (auto simp: transaction_def split: prod.splits sum.splits)

section \<open>Invariants over runs\<close>

text \<open>\<open>keeps I m\<close>: the handler leaves a database that satisfies \<open>I\<close>, whether it returns or throws.\<close>

definition keeps :: "('s \<Rightarrow> bool) \<Rightarrow> ('s, 'a) svc \<Rightarrow> bool" where
  "keeps I m \<longleftrightarrow> (\<forall>s. I s \<longrightarrow> I (snd (m s)))"

lemma keepsI: "(\<And>s r t. I s \<Longrightarrow> m s = (r, t) \<Longrightarrow> I t) \<Longrightarrow> keeps I m"
  by (metis keeps_def surjective_pairing)

lemma keepsD: "keeps I m \<Longrightarrow> m s = (r, t) \<Longrightarrow> I s \<Longrightarrow> I t"
  by (metis keeps_def snd_conv)

lemma keeps_ret [keeps_rules]: "keeps I (ret x)"
  and keeps_throw [keeps_rules]: "keeps I (throw e)"
  and keeps_throw_if [keeps_rules]: "keeps I (throw_if c e)"
  and keeps_gets [keeps_rules]: "keeps I (gets g)"
  and keeps_require [keeps_rules]: "keeps I (require e y)"
  by (simp_all add: keeps_def split: option.split)

lemma keeps_bnd [keeps_rules]:
  assumes "keeps I m" and "\<And>x. keeps I (f x)"
  shows "keeps I (bnd m f)"
proof (rule keepsI)
  fix s r t
  assume "I s" and "bnd m f s = (r, t)"
  then show "I t"
    using assms by (elim bndE) (blast dest: keepsD)+
qed

lemma keeps_when_do [keeps_rules]: "keeps I m \<Longrightarrow> keeps I (when_do c m)"
  by (simp add: keeps_def)

lemma keeps_if [keeps_rules]: "keeps I a \<Longrightarrow> keeps I b \<Longrightarrow> keeps I (if c then a else b)"
  by simp

lemma keeps_case_option [keeps_rules]:
  "keeps I a \<Longrightarrow> (\<And>x. keeps I (b x)) \<Longrightarrow> keeps I (case y of None \<Rightarrow> a | Some x \<Rightarrow> b x)"
  by (simp split: option.split)

lemma keeps_catch [keeps_rules]:
  "keeps I m \<Longrightarrow> (\<And>e. keeps I (h e)) \<Longrightarrow> keeps I (catch m h)"
  unfolding keeps_def catch_def
  by (clarsimp split: prod.splits sum.splits) (metis snd_conv)

lemma keeps_transaction [keeps_rules]: "keeps I m \<Longrightarrow> keeps I (transaction m)"
  unfolding keeps_def transaction_def
  by (clarsimp split: prod.splits sum.splits) (metis snd_conv)

lemma keeps_for_each [keeps_rules]:
  "(\<And>x. keeps I (f x)) \<Longrightarrow> keeps I (for_each xs f)"
  by (induction xs) (auto intro: keeps_rules)

section \<open>Quiet computations\<close>

text \<open>
  \<open>quiet v m\<close>: the computation never throws and leaves the part \<open>v\<close> of the database unchanged.
  Notification, activity and audit writes are quiet for the business tables.
\<close>

definition quiet :: "('s \<Rightarrow> 'v) \<Rightarrow> ('s, 'a) svc \<Rightarrow> bool" where
  "quiet v m \<longleftrightarrow> (\<forall>s. \<exists>x t. m s = (Inr x, t) \<and> v t = v s)"

named_theorems quiet_rules \<open>which computations are quiet\<close>

lemma quietI: "(\<And>s. \<exists>x t. m s = (Inr x, t) \<and> v t = v s) \<Longrightarrow> quiet v m"
  by (simp add: quiet_def)

lemma quietE:
  assumes "quiet v m" and "m s = (r, t)"
  obtains x where "r = Inr x" "v t = v s"
  using assms unfolding quiet_def by (metis Pair_inject)

lemma quiet_runs:
  assumes "quiet v m"
  obtains x t where "m s = (Inr x, t)" "v t = v s"
  using assms unfolding quiet_def by blast

lemma quiet_ret [quiet_rules]: "quiet v (ret x)"
  and quiet_gets [quiet_rules]: "quiet v (gets g)"
  by (simp_all add: quiet_def)

lemma quiet_modify: "(\<And>s. v (f s) = v s) \<Longrightarrow> quiet v (modify f)"
  by (simp add: quiet_def)

lemma quiet_bnd [quiet_rules]:
  assumes "quiet v m" and "\<And>x. quiet v (f x)"
  shows "quiet v (bnd m f)"
proof (rule quietI)
  fix s
  from assms(1) obtain x t where m: "m s = (Inr x, t)" "v t = v s"
    by (rule quiet_runs)
  from assms(2) obtain y u where "f x t = (Inr y, u)" "v u = v t"
    by (rule quiet_runs)
  with m show "\<exists>z w. bnd m f s = (Inr z, w) \<and> v w = v s"
    by simp
qed

lemma quiet_when_do [quiet_rules]: "quiet v m \<Longrightarrow> quiet v (when_do c m)"
  by (simp add: quiet_def)

lemma quiet_if [quiet_rules]: "quiet v a \<Longrightarrow> quiet v b \<Longrightarrow> quiet v (if c then a else b)"
  by simp

lemma quiet_case_option [quiet_rules]:
  "quiet v a \<Longrightarrow> (\<And>x. quiet v (b x)) \<Longrightarrow> quiet v (case y of None \<Rightarrow> a | Some x \<Rightarrow> b x)"
  by (simp split: option.split)

lemma quiet_for_each [quiet_rules]:
  "(\<And>x. quiet v (f x)) \<Longrightarrow> quiet v (for_each xs f)"
  by (induction xs) (auto intro: quiet_rules)

lemma quiet_tail:
  assumes "quiet v m" and "bnd m (\<lambda>_. ret y) s = (r, t)"
  shows "r = Inr y \<and> v t = v s"
  using assms(2)
proof (cases rule: bndE)
  case (err e)
  then show ?thesis using assms(1) by (auto elim: quietE)
next
  case (ok x u)
  then show ?thesis using assms(1) by (auto elim: quietE)
qed

section \<open>Table operations of the database client\<close>

text \<open>
  A table is a list of rows in the order the database returns them when no order is asked for.
  \<open>row_update\<close> is \<open>update\<close> with a unique \<open>where\<close>: it throws when no row matches. \<open>find\<close> is
  \<open>findUnique\<close> and \<open>findFirst\<close>.
\<close>

definition upd_rows :: "('r \<Rightarrow> bool) \<Rightarrow> ('r \<Rightarrow> 'r) \<Rightarrow> 'r list \<Rightarrow> 'r list" where
  "upd_rows P f rows = map (\<lambda>r. if P r then f r else r) rows"

lemma length_upd_rows [simp]: "length (upd_rows P f rows) = length rows"
  by (simp add: upd_rows_def)

lemma upd_rows_Nil [simp]: "upd_rows P f [] = []"
  and upd_rows_Cons [simp]: "upd_rows P f (r # rows) = (if P r then f r else r) # upd_rows P f rows"
  by (simp_all add: upd_rows_def)

lemma in_upd_rows: "x \<in> set (upd_rows P f rows) \<longleftrightarrow> (\<exists>r\<in>set rows. x = (if P r then f r else r))"
  by (auto simp: upd_rows_def)

lemma map_upd_rows: "(\<And>r. g (f r) = g r) \<Longrightarrow> map g (upd_rows P f rows) = map g rows"
  by (simp add: upd_rows_def)

lemma find_upd_rows_same:
  assumes "\<And>r. key (f r) = key r" and "find (\<lambda>r. key r = k) rows = Some r"
  shows "find (\<lambda>r. key r = k) (upd_rows (\<lambda>r. key r = k) f rows) = Some (f r)"
  using assms by (induction rows) (auto split: if_splits)

lemma find_upd_rows_other:
  assumes "\<And>r. key (f r) = key r" and "k \<noteq> k'"
  shows "find (\<lambda>r. key r = k') (upd_rows (\<lambda>r. key r = k) f rows) = find (\<lambda>r. key r = k') rows"
  using assms by (induction rows) (auto split: if_splits)

lemma find_cong_on: "(\<And>x. x \<in> set xs \<Longrightarrow> P x = Q x) \<Longrightarrow> find P xs = find Q xs"
  by (induction xs) auto

lemma find_SomeD: "find P xs = Some x \<Longrightarrow> P x \<and> x \<in> set xs"
  by (auto simp: find_Some_iff)

lemma find_distinct_key:
  assumes "distinct (map key rows)" and "r \<in> set rows"
  shows "find (\<lambda>x. key x = key r) rows = Some r"
  using assms by (induction rows) (auto simp: image_iff)

section \<open>Strings\<close>

text \<open>
  Strings are lists of characters, restricted to ASCII where the case mappings and \<open>trim\<close> are
  concerned: code points above 127 are left alone by both. \<open>truthy\<close> is the truth value of an
  optional string, \<open>nonempty\<close> is \<open>value || null\<close>.
\<close>

definition is_space :: "char \<Rightarrow> bool" where
  "is_space c \<longleftrightarrow> (let n = of_char c :: nat in 9 \<le> n \<and> n \<le> 13 \<or> n = 32)"

definition trim :: "string \<Rightarrow> string" where
  "trim s = rev (dropWhile is_space (rev (dropWhile is_space s)))"

definition upper_char :: "char \<Rightarrow> char" where
  "upper_char c = (let n = of_char c :: nat in if 97 \<le> n \<and> n \<le> 122 then char_of (n - 32) else c)"

definition lower_char :: "char \<Rightarrow> char" where
  "lower_char c = (let n = of_char c :: nat in if 65 \<le> n \<and> n \<le> 90 then char_of (n + 32) else c)"

definition toUpperCase :: "string \<Rightarrow> string" where
  "toUpperCase s = map upper_char s"

definition toLowerCase :: "string \<Rightarrow> string" where
  "toLowerCase s = map lower_char s"

primrec starts_with :: "string \<Rightarrow> string \<Rightarrow> bool" where
  "starts_with s [] = True"
| "starts_with s (c # cs) = (case s of [] \<Rightarrow> False | d # ds \<Rightarrow> d = c \<and> starts_with ds cs)"

primrec contains :: "string \<Rightarrow> string \<Rightarrow> bool" where
  "contains [] p = (p = [])"
| "contains (c # cs) p = (starts_with (c # cs) p \<or> contains cs p)"

definition truthy :: "string option \<Rightarrow> bool" where
  "truthy x = (case x of None \<Rightarrow> False | Some s \<Rightarrow> s \<noteq> [])"

definition nonempty :: "string option \<Rightarrow> string option" where
  "nonempty x = (case x of None \<Rightarrow> None | Some s \<Rightarrow> if s = [] then None else Some s)"

definition coalesce :: "'a option \<Rightarrow> 'a option \<Rightarrow> 'a option" where
  "coalesce a b = (case a of None \<Rightarrow> b | Some x \<Rightarrow> Some x)"

definition trimmed :: "string option \<Rightarrow> string option" where
  "trimmed x = nonempty (map_option trim x)"

definition quoted :: "string \<Rightarrow> string" where
  "quoted s = CHR 0x22 # s @ [CHR 0x22]"

definition or_else :: "'a option \<Rightarrow> 'a \<Rightarrow> 'a" where
  "or_else x d = (case x of None \<Rightarrow> d | Some y \<Rightarrow> y)"

lemma truthy_simps [simp]: "truthy None = False" "truthy (Some s) = (s \<noteq> [])"
  by (simp_all add: truthy_def)

lemma nonempty_simps [simp]: "nonempty None = None" "nonempty (Some s) = (if s = [] then None else Some s)"
  by (simp_all add: nonempty_def)

lemma truthy_nonempty: "truthy x \<longleftrightarrow> (\<exists>y. nonempty x = Some y)"
  by (cases x) simp_all

lemma coalesce_simps [simp]: "coalesce None b = b" "coalesce (Some x) b = Some x"
  by (simp_all add: coalesce_def)

lemma or_else_simps [simp]: "or_else None d = d" "or_else (Some x) d = x"
  by (simp_all add: or_else_def)

lemma rev_dropWhile_prefix: "\<exists>ys. s = rev (dropWhile P (rev s)) @ ys"
  by (metis rev_append rev_rev_ident takeWhile_dropWhile_id)

lemma rstrip_hd: "rev (dropWhile P (rev s)) \<noteq> [] \<Longrightarrow> hd (rev (dropWhile P (rev s))) = hd s"
  by (metis hd_append2 rev_dropWhile_prefix)

lemma trim_idem [simp]: "trim (trim s) = trim s"
proof -
  let ?a = "dropWhile is_space s"
  let ?b = "rev (dropWhile is_space (rev ?a))"
  have "dropWhile is_space ?b = ?b"
  proof (cases "?b = []")
    case False
    then have "?a \<noteq> []" by (metis dropWhile.simps(1) rev.simps(1))
    then have "\<not> is_space (hd ?b)"
      using rstrip_hd[of is_space ?a] False hd_dropWhile[of is_space s] by simp
    with False show ?thesis by (cases ?b) simp_all
  next
    case True
    show ?thesis unfolding True by simp
  qed
  then show ?thesis
    by (simp add: trim_def dropWhile_idem)
qed

lemma trimmed_nonempty: "trimmed x = Some y \<Longrightarrow> y \<noteq> []"
  by (cases x) (auto simp: trimmed_def split: if_splits)

lemma contains_self [simp]: "contains p p"
proof -
  have "starts_with p p" by (induction p) auto
  then show ?thesis by (cases p) auto
qed

lemma contains_Nil [simp]: "contains s []"
  by (cases s) auto

section \<open>Lists and numbers as text\<close>

text \<open>\<open>uniq\<close> is \<open>[...new Set(list)]\<close>: the first occurrence of every element stays.\<close>

definition uniq :: "'a list \<Rightarrow> 'a list" where
  "uniq xs = rev (remdups (rev xs))"

lemma set_uniq [simp]: "set (uniq xs) = set xs"
  and distinct_uniq [simp]: "distinct (uniq xs)"
  by (simp_all add: uniq_def)

primrec join :: "string \<Rightarrow> string list \<Rightarrow> string" where
  "join sep [] = []"
| "join sep (x # xs) = (if xs = [] then x else x @ sep @ join sep xs)"

fun nat_text :: "nat \<Rightarrow> string" where
  "nat_text n = (if n < 10 then [char_of (48 + n)] else nat_text (n div 10) @ [char_of (48 + n mod 10)])"

declare nat_text.simps [simp del]

definition int_text :: "int \<Rightarrow> string" where
  "int_text i = (if i < 0 then CHR 0x2D # nat_text (nat (- i)) else nat_text (nat i))"

fun fraction_text :: "nat \<Rightarrow> rat \<Rightarrow> string" where
  "fraction_text 0 r = []"
| "fraction_text (Suc k) r =
     (if r = 0 then [] else char_of (48 + nat \<lfloor>10 * r\<rfloor>) # fraction_text k (10 * r - of_int \<lfloor>10 * r\<rfloor>))"

definition num_text :: "rat \<Rightarrow> string" where
  "num_text r =
     (let a = \<bar>r\<bar>; f = a - of_int \<lfloor>a\<rfloor> in
      (if r < 0 then ''-'' else []) @ nat_text (nat \<lfloor>a\<rfloor>) @ (if f = 0 then [] else CHR 0x2E # fraction_text 17 f))"

definition pad_left :: "nat \<Rightarrow> string \<Rightarrow> string" where
  "pad_left w s = replicate (w - length s) CHR 0x30 @ s"

text \<open>
  \<open>Date.prototype.toISOString\<close> of an instant in milliseconds (years 0 to 9999): the civil date of a
  day number, counted in eras of 400 years from the first of March of year 0.
\<close>

definition civil_date :: "int \<Rightarrow> int \<times> int \<times> int" where
  "civil_date days =
     (let z = days + 719468;
          era = z div 146097;
          doe = z - era * 146097;
          yoe = (doe - doe div 1460 + doe div 36524 - doe div 146096) div 365;
          doy = doe - (365 * yoe + yoe div 4 - yoe div 100);
          mp = (5 * doy + 2) div 153;
          d = doy - (153 * mp + 2) div 5 + 1;
          m = (if mp < 10 then mp + 3 else mp - 9)
      in (yoe + era * 400 + (if m \<le> 2 then 1 else 0), m, d))"

definition toISOString :: "int \<Rightarrow> string" where
  "toISOString t =
     (case civil_date (t div 86400000) of (y, m, d) \<Rightarrow>
        let ms = t mod 86400000; two = (\<lambda>i. pad_left 2 (int_text i)) in
        pad_left 4 (int_text y) @ ''-'' @ two m @ ''-'' @ two d @ ''T'' @ two (ms div 3600000) @ '':'' @
        two (ms div 60000 mod 60) @ '':'' @ two (ms div 1000 mod 60) @ ''.'' @
        pad_left 3 (int_text (ms mod 1000)) @ ''Z'')"

section \<open>JSON values\<close>

text \<open>
  The values of JSON columns and of audit metadata. Objects keep the insertion order of their keys
  and have no key twice. A number is the decimal it is written as. \<open>json_text\<close> is \<open>String(value ?? '')\<close>;
  numbers are written in plain decimal notation with at most 17 fraction digits.
\<close>

datatype json =
    JNull
  | JBool bool
  | JNum rat
  | JStr string
  | JArr "json list"
  | JObj "(string \<times> json) list"

primrec json_text :: "json \<Rightarrow> string" where
  "json_text JNull = []"
| "json_text (JBool b) = (if b then ''true'' else ''false'')"
| "json_text (JNum r) = num_text r"
| "json_text (JStr s) = s"
| "json_text (JArr xs) = join '','' (map json_text xs)"
| "json_text (JObj kvs) = ''[object Object]''"

definition jopt :: "('a \<Rightarrow> json) \<Rightarrow> 'a option \<Rightarrow> json" where
  "jopt f x = (case x of None \<Rightarrow> JNull | Some y \<Rightarrow> f y)"

definition jfield :: "string \<Rightarrow> ('a \<Rightarrow> json) \<Rightarrow> 'a option \<Rightarrow> (string \<times> json) list" where
  "jfield k f x = (case x of None \<Rightarrow> [] | Some y \<Rightarrow> [(k, f y)])"

definition jget :: "string \<Rightarrow> json \<Rightarrow> json option" where
  "jget k j = (case j of JObj kvs \<Rightarrow> map_of kvs k | _ \<Rightarrow> None)"

definition jint :: "int \<Rightarrow> json" where
  "jint i = JNum (of_int i)"

text \<open>
  The update of one key of a JSON object written as \<open>{ ...object, [key]: value }\<close>: an existing key
  keeps its position, a new key goes to the end.
\<close>

definition jset :: "string \<Rightarrow> json \<Rightarrow> (string \<times> json) list \<Rightarrow> (string \<times> json) list" where
  "jset k v kvs = AList.update k v kvs"

text \<open>\<open>{ ...object, ...more }\<close>.\<close>

definition spread :: "(string \<times> json) list \<Rightarrow> (string \<times> json) list \<Rightarrow> (string \<times> json) list" where
  "spread kvs more = foldl (\<lambda>acc kv. jset (fst kv) (snd kv) acc) kvs more"

lemma map_of_jset [simp]: "map_of (jset k v kvs) = (map_of kvs)(k \<mapsto> v)"
  by (simp add: jset_def update_conv')

end
