(* ===== verification/Schema.thy ===== *)
theory Schema imports Prelude begin

text \<open>
  The data model of \<open>prisma/schema.prisma\<close> as the services use it: the enumerations, the rows of the
  tables the modelled services read and write, the database, the authenticated user of a request
  and the configuration a service instance reads from its environment.

  Field names are the column names with a letter for the table. Identifiers are strings, instants
  are milliseconds, coordinates are rationals.
\<close>

section \<open>Enumerations\<close>

datatype user_role =
    PLATFORM_SUPER_ADMIN
  | PLATFORM_OWNER
  | EXECUTIVE_SUPER_ADMIN
  | TECHNICAL_ADMIN
  | OPERATIONS_ADMIN
  | ORGANIZATION_ONBOARDING_ADMIN
  | PROVIDER_ADMIN
  | FINANCE_BILLING_ADMIN
  | BILLING_ADMIN
  | LEGAL_ADMIN
  | ASSIGNMENT_ADMIN
  | ASSET_ADMIN
  | ASSET_INTELLIGENCE_ADMIN
  | COMPLIANCE_ADMIN
  | COMPLIANCE_AUDIT_ADMIN
  | REGULATORY_ADMIN
  | SECURITY_ADMIN
  | INVESTIGATION_ADMIN
  | RELEASE_OPERATIONS_ADMIN
  | BACKUP_RECOVERY_ADMIN
  | SUPPORT_ADMIN
  | SUPER_ADMIN
  | ORG_ADMIN
  | DISPATCH_OFFICER
  | PROVIDER
  | PENDING_PROVIDER
  | CITIZEN

datatype report_status =
    TRIAGE
  | ORG_REVIEW
  | PENDING
  | ASSIGNED
  | IN_PROGRESS
  | COMPLETED_BY_PROVIDER
  | CLOSED

datatype completion_policy =
    CITIZEN_CONFIRMATION_REQUIRED
  | ORGANIZATION_CONFIRMATION_REQUIRED
  | BOTH_REQUIRED
  | CITIZEN_OR_ORGANIZATION
  | ADMIN_RESOLUTION_REQUIRED
  | AUTO_CLOSE_AFTER_REVIEW_WINDOW

datatype completion_decision =
    D_PENDING
  | CONFIRMED
  | VERIFIED
  | REWORK_REQUESTED
  | DISPUTED
  | ESCALATED

datatype assignment_outcome = REJECTED | TIMED_OUT

datatype subscription_plan = FREE | DEMO | STARTER | PROFESSIONAL | GOVERNMENT | ENTERPRISE

datatype billing_status = B_TRIAL | B_ACTIVE | B_PAST_DUE | B_SUSPENDED | B_CANCELLED

datatype account_status = PENDING_INVITE | PENDING_APPROVAL | ACTIVE | SUSPENDED | DEACTIVATED

datatype organization_status = O_ACTIVE | O_SUSPENDED | O_ARCHIVED

datatype organization_type =
    OT_FEDERAL
  | OT_STATE
  | OT_LOCAL_GOVERNMENT
  | OT_AGENCY
  | OT_CORPORATE
  | OT_ESTATE
  | OT_CAMPUS
  | OT_COMMUNITY
  | OT_GOVERNMENT
  | OT_FEDERAL_AGENCY
  | OT_STATE_AGENCY
  | OT_UNIVERSITY
  | OT_HOSPITAL
  | OT_UTILITY_COMPANY
  | OT_PRIVATE_FACILITY
  | OT_OTHER

datatype engagement_type = INTERNAL_STAFF | EXTERNAL_CONTRACTOR

datatype identity_status =
    IS_UNVERIFIED
  | IS_PHONE_VERIFIED
  | IS_EMAIL_VERIFIED
  | IS_ID_PENDING
  | IS_ID_VERIFIED
  | IS_FACE_PENDING
  | IS_FACE_VERIFIED
  | IS_ADDRESS_PENDING
  | IS_ADDRESS_VERIFIED
  | IS_BUSINESS_VERIFIED
  | IS_ENTERPRISE_VERIFIED

datatype mfa_enrollment_status = ME_PENDING | ME_ACTIVE | ME_DISABLED

datatype mfa_purpose = ENROLLMENT | CHALLENGE

datatype payment_environment = TEST | LIVE

datatype payment_status =
    P_INITIALIZED
  | P_PENDING
  | P_PROCESSING
  | P_PAID
  | P_VERIFIED
  | P_FAILED
  | P_ABANDONED
  | P_EXPIRED
  | P_REFUNDED
  | P_REVIEW_REQUIRED

datatype subscription_status = S_TRIAL | S_ACTIVE | S_PAST_DUE | S_SUSPENDED | S_CANCELLED | S_EXPIRED

datatype receipt_status = ISSUED | R_REFUNDED | VOIDED

datatype identity_type =
    INDIVIDUAL
  | PROVIDER_INDIVIDUAL
  | BUSINESS
  | ORGANIZATION_REPRESENTATIVE
  | GOVERNMENT_REPRESENTATIVE

datatype entitlement_plan = E_FREE | E_VERIFIED | E_PERSONAL_PLUS | E_PROFESSIONAL | E_BUSINESS | E_ENTERPRISE | E_GOVERNMENT

datatype upgrade_status = UP_PENDING | UP_APPROVED | UP_REJECTED | UP_CANCELLED | UP_COMPLETED

datatype invitation_status = IV_PENDING | IV_ACCEPTED | IV_DECLINED | IV_CANCELLED | IV_REVOKED | IV_EXPIRED

datatype internal_assignment_status = IA_ACTIVE | IA_INACTIVE | IA_REVOKED | IA_EXPIRED | IA_PENDING_APPROVAL

datatype internal_scope_type = SC_PLATFORM | SC_MODULE | SC_ORGANIZATION | SC_JURISDICTION

datatype approval_status = AP_PENDING | AP_APPROVED | AP_REJECTED | AP_CANCELLED | AP_EXECUTION_BLOCKED

datatype privileged_operation =
    PLATFORM_SUPER_ADMIN_GRANT
  | ROLE_DEFINITION_CHANGE
  | PRODUCTION_RESTORE_AUTHORIZATION
  | ENTERPRISE_FEATURE_ENABLEMENT
  | PAYMENT_CONFIGURATION_CHANGE
  | HIGH_VALUE_REFUND_APPROVAL

datatype ownership_status = OW_UNKNOWN | OW_PENDING | OW_VERIFIED | OW_DISPUTED

datatype asset_claim_status = CL_PENDING | CL_APPROVED | CL_DECLINED | CL_DISPUTED | CL_CANCELLED

text \<open>
  The two enumerations whose values the code lists with \<open>Object.values\<close> are instances of the
  library's class of finite enumerations; \<open>enum_class.enum\<close> lists them in declaration order.
\<close>

instantiation report_status :: enum
begin

definition enum_report_status :: "report_status list" where
  "enum_report_status = [TRIAGE, ORG_REVIEW, PENDING, ASSIGNED, IN_PROGRESS, COMPLETED_BY_PROVIDER, CLOSED]"

definition enum_all_report_status :: "(report_status \<Rightarrow> bool) \<Rightarrow> bool" where
  "enum_all_report_status P = list_all P [TRIAGE, ORG_REVIEW, PENDING, ASSIGNED, IN_PROGRESS, COMPLETED_BY_PROVIDER, CLOSED]"

definition enum_ex_report_status :: "(report_status \<Rightarrow> bool) \<Rightarrow> bool" where
  "enum_ex_report_status P = list_ex P [TRIAGE, ORG_REVIEW, PENDING, ASSIGNED, IN_PROGRESS, COMPLETED_BY_PROVIDER, CLOSED]"

instance
proof
  have every: "(UNIV :: report_status set) =
      {TRIAGE, ORG_REVIEW, PENDING, ASSIGNED, IN_PROGRESS, COMPLETED_BY_PROVIDER, CLOSED}"
    by (auto intro: report_status.exhaust)
  show "(UNIV :: report_status set) = set enum_class.enum"
    by (simp add: enum_report_status_def every)
  show "distinct (enum_class.enum :: report_status list)"
    by (simp add: enum_report_status_def)
  show "enum_class.enum_all P \<longleftrightarrow> Ball UNIV P" for P :: "report_status \<Rightarrow> bool"
    by (simp add: enum_all_report_status_def every)
  show "enum_class.enum_ex P \<longleftrightarrow> Bex UNIV P" for P :: "report_status \<Rightarrow> bool"
    by (simp add: enum_ex_report_status_def every)
qed

end

instantiation completion_policy :: enum
begin

definition enum_completion_policy :: "completion_policy list" where
  "enum_completion_policy = [CITIZEN_CONFIRMATION_REQUIRED, ORGANIZATION_CONFIRMATION_REQUIRED,
     BOTH_REQUIRED, CITIZEN_OR_ORGANIZATION, ADMIN_RESOLUTION_REQUIRED, AUTO_CLOSE_AFTER_REVIEW_WINDOW]"

definition enum_all_completion_policy :: "(completion_policy \<Rightarrow> bool) \<Rightarrow> bool" where
  "enum_all_completion_policy P = list_all P [CITIZEN_CONFIRMATION_REQUIRED, ORGANIZATION_CONFIRMATION_REQUIRED,
     BOTH_REQUIRED, CITIZEN_OR_ORGANIZATION, ADMIN_RESOLUTION_REQUIRED, AUTO_CLOSE_AFTER_REVIEW_WINDOW]"

definition enum_ex_completion_policy :: "(completion_policy \<Rightarrow> bool) \<Rightarrow> bool" where
  "enum_ex_completion_policy P = list_ex P [CITIZEN_CONFIRMATION_REQUIRED, ORGANIZATION_CONFIRMATION_REQUIRED,
     BOTH_REQUIRED, CITIZEN_OR_ORGANIZATION, ADMIN_RESOLUTION_REQUIRED, AUTO_CLOSE_AFTER_REVIEW_WINDOW]"

instance
proof
  have every: "(UNIV :: completion_policy set) = {CITIZEN_CONFIRMATION_REQUIRED,
      ORGANIZATION_CONFIRMATION_REQUIRED, BOTH_REQUIRED, CITIZEN_OR_ORGANIZATION,
      ADMIN_RESOLUTION_REQUIRED, AUTO_CLOSE_AFTER_REVIEW_WINDOW}"
    by (auto intro: completion_policy.exhaust)
  show "(UNIV :: completion_policy set) = set enum_class.enum"
    by (simp add: enum_completion_policy_def every)
  show "distinct (enum_class.enum :: completion_policy list)"
    by (simp add: enum_completion_policy_def)
  show "enum_class.enum_all P \<longleftrightarrow> Ball UNIV P" for P :: "completion_policy \<Rightarrow> bool"
    by (simp add: enum_all_completion_policy_def every)
  show "enum_class.enum_ex P \<longleftrightarrow> Bex UNIV P" for P :: "completion_policy \<Rightarrow> bool"
    by (simp add: enum_ex_completion_policy_def every)
qed

end

text \<open>The string an enumeration value is at run time.\<close>

primrec report_status_name :: "report_status \<Rightarrow> string" where
  "report_status_name TRIAGE = ''TRIAGE''"
| "report_status_name ORG_REVIEW = ''ORG_REVIEW''"
| "report_status_name PENDING = ''PENDING''"
| "report_status_name ASSIGNED = ''ASSIGNED''"
| "report_status_name IN_PROGRESS = ''IN_PROGRESS''"
| "report_status_name COMPLETED_BY_PROVIDER = ''COMPLETED_BY_PROVIDER''"
| "report_status_name CLOSED = ''CLOSED''"

primrec completion_policy_name :: "completion_policy \<Rightarrow> string" where
  "completion_policy_name CITIZEN_CONFIRMATION_REQUIRED = ''CITIZEN_CONFIRMATION_REQUIRED''"
| "completion_policy_name ORGANIZATION_CONFIRMATION_REQUIRED = ''ORGANIZATION_CONFIRMATION_REQUIRED''"
| "completion_policy_name BOTH_REQUIRED = ''BOTH_REQUIRED''"
| "completion_policy_name CITIZEN_OR_ORGANIZATION = ''CITIZEN_OR_ORGANIZATION''"
| "completion_policy_name ADMIN_RESOLUTION_REQUIRED = ''ADMIN_RESOLUTION_REQUIRED''"
| "completion_policy_name AUTO_CLOSE_AFTER_REVIEW_WINDOW = ''AUTO_CLOSE_AFTER_REVIEW_WINDOW''"

primrec completion_decision_name :: "completion_decision \<Rightarrow> string" where
  "completion_decision_name D_PENDING = ''PENDING''"
| "completion_decision_name CONFIRMED = ''CONFIRMED''"
| "completion_decision_name VERIFIED = ''VERIFIED''"
| "completion_decision_name REWORK_REQUESTED = ''REWORK_REQUESTED''"
| "completion_decision_name DISPUTED = ''DISPUTED''"
| "completion_decision_name ESCALATED = ''ESCALATED''"

primrec subscription_plan_name :: "subscription_plan \<Rightarrow> string" where
  "subscription_plan_name FREE = ''FREE''"
| "subscription_plan_name DEMO = ''DEMO''"
| "subscription_plan_name STARTER = ''STARTER''"
| "subscription_plan_name PROFESSIONAL = ''PROFESSIONAL''"
| "subscription_plan_name GOVERNMENT = ''GOVERNMENT''"
| "subscription_plan_name ENTERPRISE = ''ENTERPRISE''"

primrec entitlement_plan_name :: "entitlement_plan \<Rightarrow> string" where
  "entitlement_plan_name E_FREE = ''FREE''"
| "entitlement_plan_name E_VERIFIED = ''VERIFIED''"
| "entitlement_plan_name E_PERSONAL_PLUS = ''PERSONAL_PLUS''"
| "entitlement_plan_name E_PROFESSIONAL = ''PROFESSIONAL''"
| "entitlement_plan_name E_BUSINESS = ''BUSINESS''"
| "entitlement_plan_name E_ENTERPRISE = ''ENTERPRISE''"
| "entitlement_plan_name E_GOVERNMENT = ''GOVERNMENT''"

primrec user_role_name :: "user_role \<Rightarrow> string" where
  "user_role_name PLATFORM_SUPER_ADMIN = ''PLATFORM_SUPER_ADMIN''"
| "user_role_name PLATFORM_OWNER = ''PLATFORM_OWNER''"
| "user_role_name EXECUTIVE_SUPER_ADMIN = ''EXECUTIVE_SUPER_ADMIN''"
| "user_role_name TECHNICAL_ADMIN = ''TECHNICAL_ADMIN''"
| "user_role_name OPERATIONS_ADMIN = ''OPERATIONS_ADMIN''"
| "user_role_name ORGANIZATION_ONBOARDING_ADMIN = ''ORGANIZATION_ONBOARDING_ADMIN''"
| "user_role_name PROVIDER_ADMIN = ''PROVIDER_ADMIN''"
| "user_role_name FINANCE_BILLING_ADMIN = ''FINANCE_BILLING_ADMIN''"
| "user_role_name BILLING_ADMIN = ''BILLING_ADMIN''"
| "user_role_name LEGAL_ADMIN = ''LEGAL_ADMIN''"
| "user_role_name ASSIGNMENT_ADMIN = ''ASSIGNMENT_ADMIN''"
| "user_role_name ASSET_ADMIN = ''ASSET_ADMIN''"
| "user_role_name ASSET_INTELLIGENCE_ADMIN = ''ASSET_INTELLIGENCE_ADMIN''"
| "user_role_name COMPLIANCE_ADMIN = ''COMPLIANCE_ADMIN''"
| "user_role_name COMPLIANCE_AUDIT_ADMIN = ''COMPLIANCE_AUDIT_ADMIN''"
| "user_role_name REGULATORY_ADMIN = ''REGULATORY_ADMIN''"
| "user_role_name SECURITY_ADMIN = ''SECURITY_ADMIN''"
| "user_role_name INVESTIGATION_ADMIN = ''INVESTIGATION_ADMIN''"
| "user_role_name RELEASE_OPERATIONS_ADMIN = ''RELEASE_OPERATIONS_ADMIN''"
| "user_role_name BACKUP_RECOVERY_ADMIN = ''BACKUP_RECOVERY_ADMIN''"
| "user_role_name SUPPORT_ADMIN = ''SUPPORT_ADMIN''"
| "user_role_name SUPER_ADMIN = ''SUPER_ADMIN''"
| "user_role_name ORG_ADMIN = ''ORG_ADMIN''"
| "user_role_name DISPATCH_OFFICER = ''DISPATCH_OFFICER''"
| "user_role_name PROVIDER = ''PROVIDER''"
| "user_role_name PENDING_PROVIDER = ''PENDING_PROVIDER''"
| "user_role_name CITIZEN = ''CITIZEN''"

primrec internal_scope_type_name :: "internal_scope_type \<Rightarrow> string" where
  "internal_scope_type_name SC_PLATFORM = ''PLATFORM''"
| "internal_scope_type_name SC_MODULE = ''MODULE''"
| "internal_scope_type_name SC_ORGANIZATION = ''ORGANIZATION''"
| "internal_scope_type_name SC_JURISDICTION = ''JURISDICTION''"

primrec privileged_operation_name :: "privileged_operation \<Rightarrow> string" where
  "privileged_operation_name PLATFORM_SUPER_ADMIN_GRANT = ''PLATFORM_SUPER_ADMIN_GRANT''"
| "privileged_operation_name ROLE_DEFINITION_CHANGE = ''ROLE_DEFINITION_CHANGE''"
| "privileged_operation_name PRODUCTION_RESTORE_AUTHORIZATION = ''PRODUCTION_RESTORE_AUTHORIZATION''"
| "privileged_operation_name ENTERPRISE_FEATURE_ENABLEMENT = ''ENTERPRISE_FEATURE_ENABLEMENT''"
| "privileged_operation_name PAYMENT_CONFIGURATION_CHANGE = ''PAYMENT_CONFIGURATION_CHANGE''"
| "privileged_operation_name HIGH_VALUE_REFUND_APPROVAL = ''HIGH_VALUE_REFUND_APPROVAL''"

lemma report_status_name_inj: "report_status_name a = report_status_name b \<Longrightarrow> a = b"
  by (cases a; cases b) simp_all

lemma completion_policy_name_inj: "completion_policy_name a = completion_policy_name b \<Longrightarrow> a = b"
  by (cases a; cases b) simp_all

section \<open>Rows\<close>

record report =
  r_id :: string
  r_title :: string
  r_description :: string
  r_category :: string
  r_location :: string
  r_locationName :: "string option"
  r_locationAddress :: "string option"
  r_locationLandmark :: "string option"
  r_latitude :: "rat option"
  r_longitude :: "rat option"
  r_locationAccuracy :: "rat option"
  r_locationCapturedAt :: "int option"
  r_locationReceivedAt :: "int option"
  r_locationSource :: "string option"
  r_locationPermissionState :: "string option"
  r_locationValidationOutcome :: "string option"
  r_locationSchemaVersion :: int
  r_status :: report_status
  r_organizationId :: string
  r_citizenId :: string
  r_assignedProviderId :: "string option"
  r_assignedOrganizationId :: "string option"
  r_organizationAssignedById :: "string option"
  r_organizationAssignedAt :: "int option"
  r_organizationAssignmentSource :: "string option"
  r_assignedAt :: "int option"
  r_assignmentDeadlineAt :: "int option"
  r_lastAssignmentOutcome :: "assignment_outcome option"
  r_lastAssignmentReason :: "string option"
  r_lastAssignmentAt :: "int option"
  r_lastAssignmentProviderId :: "string option"
  r_completionNote :: "string option"
  r_completionImageUrl :: "string option"
  r_completionImagePath :: "string option"
  r_completionLatitude :: "rat option"
  r_completionLongitude :: "rat option"
  r_completionAccuracy :: "rat option"
  r_completionLocationCapturedAt :: "int option"
  r_completionLocationSource :: "string option"
  r_evidenceImageUrl :: "string option"
  r_evidenceImagePath :: "string option"
  r_completedByProviderAt :: "int option"
  r_citizenRating :: "int option"
  r_citizenFeedback :: "string option"
  r_completionRejectionReason :: "string option"
  r_completionPolicy :: "completion_policy option"
  r_completionPolicySource :: "string option"
  r_completionReviewState :: "string option"
  r_completionReviewDeadlineAt :: "int option"
  r_completionReviewProcessedAt :: "int option"
  r_completionFallbackRule :: "string option"
  r_completionFinalActorType :: "string option"
  r_completionGovernanceHoldReason :: "string option"
  r_citizenCompletionDecision :: "completion_decision option"
  r_citizenCompletionDecidedAt :: "int option"
  r_organizationCompletionDecision :: "completion_decision option"
  r_organizationCompletionDecidedAt :: "int option"
  r_organizationCompletionDecidedById :: "string option"
  r_organizationCompletionReason :: "string option"
  r_completionFinalizedAt :: "int option"
  r_completionFinalizedById :: "string option"
  r_completionFinalizedByRole :: "user_role option"
  r_completionClosureReason :: "string option"
  r_completionDisputeReason :: "string option"
  r_isDemo :: bool
  r_createdAt :: int

record user =
  u_id :: string
  u_email :: "string option"
  u_phone :: "string option"
  u_firebaseUid :: "string option"
  u_providerId :: "string option"
  u_passwordHash :: "string option"
  u_fullName :: string
  u_role :: user_role
  u_accountStatus :: account_status
  u_organizationId :: "string option"
  u_serviceCategories :: "json option"
  u_coverageAreas :: "json option"
  u_profileData :: "json option"
  u_subscriptionPlan :: "subscription_plan option"
  u_providerEngagementType :: "engagement_type option"
  u_secureZoneId :: "string option"
  u_identityVerificationStatus :: identity_status
  u_identityVerificationLevel :: int
  u_trustScore :: int
  u_identityType :: identity_type
  u_phoneVerifiedAt :: "int option"
  u_emailVerifiedAt :: "int option"
  u_tokenVersion :: int
  u_createdAt :: int

record organization =
  o_id :: string
  o_name :: string
  o_type :: organization_type
  o_status :: organization_status
  o_parentId :: "string option"
  o_tenantCode :: "string option"
  o_contactEmail :: "string option"
  o_contactPhone :: "string option"
  o_address :: "string option"
  o_state :: "string option"
  o_lga :: "string option"
  o_country :: "string option"
  o_profileData :: "json option"
  o_subscriptionPlan :: subscription_plan
  o_billingStatus :: billing_status
  o_subscriptionStartAt :: "int option"
  o_subscriptionEndAt :: "int option"
  o_allowedUsers :: "int option"
  o_allowedProviders :: "int option"
  o_allowedReportsPerMonth :: "int option"
  o_allowedStorageMb :: "int option"
  o_enabledModules :: "json option"
  o_createdAt :: int

record provider_link =
  l_providerId :: string
  l_organizationId :: string
  l_isPrimary :: bool
  l_active :: bool

record user_entitlement =
  ue_userId :: string
  ue_plan :: entitlement_plan
  ue_canAccessServiceModule :: bool
  ue_requiredVerificationLevel :: int

record evidence_record =
  ev_relatedEntityType :: string
  ev_relatedEntityId :: string
  ev_fileUrl :: string

record payment_transaction =
  t_id :: string
  t_organizationId :: string
  t_requestingUserId :: "string option"
  t_environment :: payment_environment
  t_internalReference :: string
  t_providerReference :: "string option"
  t_providerAccessCode :: "string option"
  t_providerAuthorizationUrl :: "string option"
  t_planCode :: subscription_plan
  t_amountMinor :: int
  t_currency :: string
  t_status :: payment_status
  t_initializedAt :: int
  t_paidAt :: "int option"
  t_verifiedAt :: "int option"
  t_failedAt :: "int option"
  t_abandonedAt :: "int option"
  t_refundedAt :: "int option"
  t_providerEventReference :: "string option"
  t_lastReconciledAt :: "int option"
  t_reviewReason :: "string option"
  t_sanitizedMetadata :: "json option"
  t_createdAt :: int

record organization_subscription =
  s_id :: string
  s_organizationId :: string
  s_planCode :: subscription_plan
  s_status :: subscription_status
  s_currentPeriodStartAt :: int
  s_currentPeriodEndAt :: "int option"
  s_sourceTransactionId :: "string option"
  s_externalCustomerRef :: "string option"
  s_entitlementAppliedAt :: "int option"
  s_createdAt :: int

record payment_receipt =
  rc_id :: string
  rc_transactionId :: string
  rc_organizationId :: string
  rc_receiptNumber :: string
  rc_paidAt :: int
  rc_organizationName :: string
  rc_planCode :: subscription_plan
  rc_planNameKey :: string
  rc_amountMinor :: int
  rc_currency :: string
  rc_providerReference :: "string option"
  rc_status :: receipt_status
  rc_metadata :: "json option"

record upgrade_request =
  ur_id :: string
  ur_organizationId :: string
  ur_currentPlan :: subscription_plan
  ur_requestedPlan :: subscription_plan
  ur_requestedByUserId :: string
  ur_status :: upgrade_status
  ur_requestNote :: "string option"
  ur_reviewNote :: "string option"
  ur_reviewedByUserId :: "string option"
  ur_requestedAt :: int
  ur_reviewedAt :: "int option"
  ur_completedAt :: "int option"

record invitation =
  iv_id :: string
  iv_email :: "string option"
  iv_phone :: "string option"
  iv_fullName :: string
  iv_role :: user_role
  iv_status :: invitation_status
  iv_inviteCode :: string
  iv_organizationId :: "string option"
  iv_invitedById :: string
  iv_acceptedUserId :: "string option"
  iv_metadata :: "json option"
  iv_expiresAt :: "int option"
  iv_acceptedAt :: "int option"
  iv_declinedAt :: "int option"
  iv_revokedAt :: "int option"
  iv_tokenHash :: "string option"
  iv_resentAt :: "int option"
  iv_lastNotificationAt :: "int option"
  iv_createdAt :: int

record internal_role_assignment =
  ia_id :: string
  ia_userId :: string
  ia_role :: user_role
  ia_status :: internal_assignment_status
  ia_scopeType :: internal_scope_type
  ia_scopeRef :: "string option"
  ia_organizationId :: "string option"
  ia_moduleKey :: "string option"
  ia_jurisdiction :: "json option"
  ia_permissionsSnapshot :: json
  ia_roleDefinitionVersion :: int
  ia_assignedById :: string
  ia_reason :: "string option"
  ia_startsAt :: int
  ia_expiresAt :: "int option"
  ia_revokedAt :: "int option"
  ia_revokedById :: "string option"
  ia_revocationReason :: "string option"

record privileged_approval =
  pa_id :: string
  pa_operationType :: privileged_operation
  pa_status :: approval_status
  pa_requesterId :: string
  pa_approverId :: "string option"
  pa_targetUserId :: "string option"
  pa_organizationId :: "string option"
  pa_requestedRole :: "user_role option"
  pa_requestedScope :: "json option"
  pa_payload :: "json option"
  pa_reason :: "string option"
  pa_decisionReason :: "string option"
  pa_decidedAt :: "int option"
  pa_executionBlocked :: bool

record jurisdiction_zone =
  jz_id :: string
  jz_organizationId :: "string option"
  jz_name :: string
  jz_zoneType :: string
  jz_state :: "string option"
  jz_lga :: "string option"
  jz_country :: "string option"
  jz_active :: bool
  jz_metadata :: "json option"
  jz_createdById :: "string option"
  jz_createdAt :: int

record potential_asset =
  as_id :: string
  as_organizationId :: "string option"
  as_category :: "string option"
  as_locationText :: "string option"
  as_ownershipStatus :: ownership_status

record asset_candidate_owner =
  ao_potentialAssetId :: "string option"
  ao_organizationId :: "string option"
  ao_ownershipStatus :: ownership_status

record asset_claim =
  ac_potentialAssetId :: "string option"
  ac_claimantOrganizationId :: "string option"
  ac_status :: asset_claim_status

record mfa_enrollment =
  me_id :: string
  me_userId :: string
  me_status :: mfa_enrollment_status
  me_encryptedTotpSecret :: string
  me_enabledAt :: "int option"
  me_enforcedAt :: "int option"
  me_lastVerifiedAt :: "int option"
  me_lastVerifiedStep :: "int option"
  me_disabledAt :: "int option"
  me_createdAt :: int

record mfa_backup_code =
  mb_id :: string
  mb_enrollmentId :: string
  mb_userId :: string
  mb_codeDigest :: string
  mb_usedAt :: "int option"

record mfa_session =
  ms_id :: string
  ms_userId :: string
  ms_tokenDigest :: string
  ms_purpose :: mfa_purpose
  ms_expiresAt :: int
  ms_consumedAt :: "int option"
  ms_failedAttempts :: int
  ms_lockedAt :: "int option"

record password_reset =
  pr_id :: string
  pr_userId :: string
  pr_tokenDigest :: string
  pr_expiresAt :: int
  pr_usedAt :: "int option"
  pr_supersededAt :: "int option"
  pr_requestedById :: "string option"
  pr_deliveryStatus :: string
  pr_createdAt :: int

record notification =
  n_userId :: string
  n_reportId :: "string option"
  n_type :: string
  n_title :: string
  n_message :: string

record report_activity =
  a_reportId :: string
  a_organizationId :: string
  a_actorUserId :: "string option"
  a_actorRole :: user_role
  a_actorName :: "string option"
  a_action :: string
  a_fromStatus :: "report_status option"
  a_toStatus :: "report_status option"
  a_providerId :: "string option"
  a_reason :: "string option"
  a_note :: "string option"
  a_metadata :: "json option"
  a_createdAt :: int

record compliance_audit =
  c_action :: string
  c_actorId :: "string option"
  c_actorRole :: "user_role option"
  c_organizationId :: "string option"
  c_entityType :: "string option"
  c_entityId :: "string option"
  c_metadata :: "(string \<times> json) list"

record login_history =
  lh_userId :: "string option"
  lh_email :: "string option"
  lh_ipAddress :: "string option"
  lh_userAgent :: "string option"
  lh_success :: bool
  lh_failureReason :: "string option"

record demo_audit =
  d_action :: string
  d_actorUserId :: string
  d_metadata :: "(string \<times> json) list"

section \<open>The database\<close>

text \<open>
  The tables that hold business state come first; the tables to which handlers only append
  (notifications, activities, audit logs, logins) extend them, so that \<open>tables.truncate\<close> is the business
  state of a database.
\<close>

record tables =
  reports :: "report list"
  users :: "user list"
  organizations :: "organization list"
  providerOrganizations :: "provider_link list"
  platformSettings :: "(string \<times> json) list"
  paymentTransactions :: "payment_transaction list"
  organizationSubscriptions :: "organization_subscription list"
  paymentReceipts :: "payment_receipt list"
  userEntitlements :: "user_entitlement list"
  evidenceRecords :: "evidence_record list"
  upgradeRequests :: "upgrade_request list"
  invitations :: "invitation list"
  internalRoleAssignments :: "internal_role_assignment list"
  approvalRequests :: "privileged_approval list"
  jurisdictionZones :: "jurisdiction_zone list"
  potentialAssets :: "potential_asset list"
  assetCandidateOwners :: "asset_candidate_owner list"
  assetClaims :: "asset_claim list"
  mfaEnrollments :: "mfa_enrollment list"
  mfaBackupCodes :: "mfa_backup_code list"
  mfaSessions :: "mfa_session list"
  passwordResetTokens :: "password_reset list"

record db = tables +
  notifications :: "notification list"
  reportActivities :: "report_activity list"
  complianceAuditLogs :: "compliance_audit list"
  demoAuditLogs :: "demo_audit list"
  loginHistory :: "login_history list"

type_synonym 'a handler = "(db, 'a) svc"

section \<open>Requests and configuration\<close>

record jwt_user =
  j_id :: "string option"
  j_userId :: "string option"
  j_sub :: "string option"
  j_email :: "string option"
  j_phone :: "string option"
  j_fullName :: "string option"
  j_role :: user_role
  j_organizationId :: "string option"

text \<open>
  What a request reads from outside the database: the clock (one reading for a request) and the
  environment variables, with the numbers already read from them. \<open>reviewWindowHours\<close> is None
  when the variable is not a finite number; \<open>envVar\<close> gives the text of any other variable.

  The rest stands for code that is not in the repository: the runtime's URL parser (\<open>urlPathname\<close>:
  the pathname of \<open>new URL(text)\<close>, or None when the text is no absolute URL), its date parser
  (\<open>parseDate\<close>) and collation (\<open>collate\<close>: a list of strings sorted with \<open>localeCompare\<close>), its
  cryptography (\<open>hmacSha512\<close> of a key and a text and \<open>sha256\<close> of a text, as hexadecimal digits; random
  bytes as hexadecimal digits and as an address-safe text, \<open>randomHex\<close> and \<open>randomToken\<close>), the ids the
  database client generates for the rows a request creates (\<open>freshId\<close>, by their order), and the HTTP
  client (\<open>httpFetch\<close>: the response to a request for a path with a body, its \<open>ok\<close> flag and parsed body,
  or None when the request fails). \<open>callbackAddress\<close> is the address \<open>new URL\<close> makes of a base, a path
  and the reference parameter, and \<open>parseJson\<close> is \<open>JSON.parse\<close>; None when they throw.
\<close>

record env =
  now :: int
  assignmentTimeoutMinutes :: int
  completionPolicyEnv :: "string option"
  categoryPoliciesEnv :: "json option"
  reviewWindowHours :: "int option"
  reconciliationBatchSize :: int
  reconciliationMinAgeMinutes :: int
  envVar :: "string \<Rightarrow> string option"
  urlPathname :: "string \<Rightarrow> string option"
  callbackAddress :: "string \<Rightarrow> string \<Rightarrow> string option"
  parseDate :: "string \<Rightarrow> int option"
  parseJson :: "string \<Rightarrow> json option"
  collate :: "string list \<Rightarrow> string list"
  hmacSha512 :: "string \<Rightarrow> string \<Rightarrow> string"
  randomHex :: string
  randomToken :: string
  sha256 :: "string \<Rightarrow> string"
  freshId :: "nat \<Rightarrow> string"
  httpFetch :: "string \<Rightarrow> json option \<Rightarrow> (bool \<times> json) option"

end
