(* ===== verification/Tables.thy ===== *)
theory Tables imports Schema begin

text \<open>
  The database client: reading a row by its key and updating it. The laws of a table (what a read
  returns after an update, which rows and which other tables an update leaves alone) are stated
  once, as a locale over a table's accessors, and interpreted for every table of the schema that
  handlers update. The second half gives the shape most handlers have: guards that only read,
  one row update, and effects that only append to logs.
\<close>

section \<open>Rows by key\<close>

definition row_find :: "('s \<Rightarrow> 'r list) \<Rightarrow> ('r \<Rightarrow> 'k) \<Rightarrow> 'k \<Rightarrow> 's \<Rightarrow> 'r option" where
  "row_find get key k s = find (\<lambda>r. key r = k) (get s)"

definition row_put :: "('s \<Rightarrow> 'r list) \<Rightarrow> ('r list \<Rightarrow> 's \<Rightarrow> 's) \<Rightarrow> ('r \<Rightarrow> 'k) \<Rightarrow> 'k \<Rightarrow> ('r \<Rightarrow> 'r) \<Rightarrow> 's \<Rightarrow> 's" where
  "row_put get put key k f s = put (upd_rows (\<lambda>r. key r = k) f (get s)) s"

text \<open>\<open>update({ where: { id }, data })\<close>: the client throws when no row has the key.\<close>

definition row_update ::
    "('s \<Rightarrow> 'r list) \<Rightarrow> ('r list \<Rightarrow> 's \<Rightarrow> 's) \<Rightarrow> ('r \<Rightarrow> 'k) \<Rightarrow> 'k \<Rightarrow> ('r \<Rightarrow> 'r) \<Rightarrow> ('s, 'r) svc" where
  "row_update get put key k f = (\<lambda>s. case row_find get key k s of
     None \<Rightarrow> (Inl (PrismaError ''P2025''), s)
   | Some r \<Rightarrow> (Inr (f r), row_put get put key k f s))"

locale keyed_table =
  fixes get :: "'s \<Rightarrow> 'r list" and put :: "'r list \<Rightarrow> 's \<Rightarrow> 's" and key :: "'r \<Rightarrow> 'k"
  assumes get_put: "get (put rs s) = rs"
    and put_get: "put (get s) s = s"
    and put_put: "put rs (put rs' s) = put rs s"
begin

lemma find_put_same:
  assumes "\<And>r. key (f r) = key r" and "row_find get key k s = Some r"
  shows "row_find get key k (row_put get put key k f s) = Some (f r)"
  using assms unfolding row_find_def row_put_def get_put by (rule find_upd_rows_same)

lemma find_put_other:
  assumes "\<And>r. key (f r) = key r" and "k \<noteq> k'"
  shows "row_find get key k' (row_put get put key k f s) = row_find get key k' s"
  using assms unfolding row_find_def row_put_def get_put by (rule find_upd_rows_other)

lemma keys_put:
  assumes "\<And>r. key (f r) = key r"
  shows "map key (get (row_put get put key k f s)) = map key (get s)"
  using assms by (simp add: row_put_def get_put map_upd_rows)

lemma update_runs:
  assumes "row_find get key k s = Some r"
  shows "row_update get put key k f s = (Inr (f r), row_put get put key k f s)"
  using assms by (simp add: row_update_def)

lemma update_missing:
  assumes "row_find get key k s = None"
  shows "row_update get put key k f s = (Inl (PrismaError ''P2025''), s)"
  using assms by (simp add: row_update_def)

lemma updateE:
  assumes "row_update get put key k f s = (res, t)"
  obtains (missing) "row_find get key k s = None" "res = Inl (PrismaError ''P2025'')" "t = s"
    | (updated) r where "row_find get key k s = Some r" "res = Inr (f r)"
        "t = row_put get put key k f s"
  using assms by (auto simp: row_update_def split: option.splits)

lemma put_twice:
  assumes "\<And>r. key (f r) = key r"
  shows "row_put get put key k g (row_put get put key k f s) = row_put get put key k (g \<circ> f) s"
proof -
  have "upd_rows (\<lambda>r. key r = k) g (upd_rows (\<lambda>r. key r = k) f rs) = upd_rows (\<lambda>r. key r = k) (g \<circ> f) rs" for rs
    by (induction rs) (simp_all add: assms)
  then show ?thesis
    by (simp add: row_put_def get_put put_put)
qed

end

text \<open>The tables of the schema.\<close>

definition find_report :: "string \<Rightarrow> 's tables_scheme \<Rightarrow> report option" where
  "find_report = row_find reports r_id"

definition put_report :: "string \<Rightarrow> (report \<Rightarrow> report) \<Rightarrow> 's tables_scheme \<Rightarrow> 's tables_scheme" where
  "put_report = row_put reports (\<lambda>rs. reports_update (\<lambda>_. rs)) r_id"

definition update_report :: "string \<Rightarrow> (report \<Rightarrow> report) \<Rightarrow> ('s tables_scheme, report) svc" where
  "update_report = row_update reports (\<lambda>rs. reports_update (\<lambda>_. rs)) r_id"

definition find_user :: "string \<Rightarrow> 's tables_scheme \<Rightarrow> user option" where
  "find_user = row_find users u_id"

definition find_organization :: "string \<Rightarrow> 's tables_scheme \<Rightarrow> organization option" where
  "find_organization = row_find organizations o_id"

definition put_user :: "string \<Rightarrow> (user \<Rightarrow> user) \<Rightarrow> 's tables_scheme \<Rightarrow> 's tables_scheme" where
  "put_user = row_put users (\<lambda>rs. users_update (\<lambda>_. rs)) u_id"

definition update_user :: "string \<Rightarrow> (user \<Rightarrow> user) \<Rightarrow> ('s tables_scheme, user) svc" where
  "update_user = row_update users (\<lambda>rs. users_update (\<lambda>_. rs)) u_id"

definition put_organization :: "string \<Rightarrow> (organization \<Rightarrow> organization) \<Rightarrow> 's tables_scheme \<Rightarrow> 's tables_scheme" where
  "put_organization = row_put organizations (\<lambda>rs. organizations_update (\<lambda>_. rs)) o_id"

definition update_organization ::
    "string \<Rightarrow> (organization \<Rightarrow> organization) \<Rightarrow> ('s tables_scheme, organization) svc" where
  "update_organization = row_update organizations (\<lambda>rs. organizations_update (\<lambda>_. rs)) o_id"

definition find_transaction :: "string \<Rightarrow> 's tables_scheme \<Rightarrow> payment_transaction option" where
  "find_transaction = row_find paymentTransactions t_id"

definition put_transaction ::
    "string \<Rightarrow> (payment_transaction \<Rightarrow> payment_transaction) \<Rightarrow> 's tables_scheme \<Rightarrow> 's tables_scheme" where
  "put_transaction = row_put paymentTransactions (\<lambda>rs. paymentTransactions_update (\<lambda>_. rs)) t_id"

definition update_transaction ::
    "string \<Rightarrow> (payment_transaction \<Rightarrow> payment_transaction) \<Rightarrow> ('s tables_scheme, payment_transaction) svc" where
  "update_transaction = row_update paymentTransactions (\<lambda>rs. paymentTransactions_update (\<lambda>_. rs)) t_id"

interpretation report_table:
  keyed_table reports "\<lambda>rs. reports_update (\<lambda>_. rs)" r_id
  rewrites "row_find reports r_id = find_report"
    and "row_put reports (\<lambda>rs. reports_update (\<lambda>_. rs)) r_id = put_report"
    and "row_update reports (\<lambda>rs. reports_update (\<lambda>_. rs)) r_id = update_report"
  by unfold_locales (simp_all add: find_report_def put_report_def update_report_def)

interpretation user_table:
  keyed_table users "\<lambda>rs. users_update (\<lambda>_. rs)" u_id
  rewrites "row_find users u_id = find_user"
    and "row_put users (\<lambda>rs. users_update (\<lambda>_. rs)) u_id = put_user"
    and "row_update users (\<lambda>rs. users_update (\<lambda>_. rs)) u_id = update_user"
  by unfold_locales (simp_all add: find_user_def put_user_def update_user_def)

interpretation organization_table:
  keyed_table organizations "\<lambda>rs. organizations_update (\<lambda>_. rs)" o_id
  rewrites "row_find organizations o_id = find_organization"
    and "row_put organizations (\<lambda>rs. organizations_update (\<lambda>_. rs)) o_id = put_organization"
    and "row_update organizations (\<lambda>rs. organizations_update (\<lambda>_. rs)) o_id = update_organization"
  by unfold_locales (simp_all add: find_organization_def put_organization_def update_organization_def)

interpretation transaction_table:
  keyed_table paymentTransactions "\<lambda>rs. paymentTransactions_update (\<lambda>_. rs)" t_id
  rewrites "row_find paymentTransactions t_id = find_transaction"
    and "row_put paymentTransactions (\<lambda>rs. paymentTransactions_update (\<lambda>_. rs)) t_id = put_transaction"
    and "row_update paymentTransactions (\<lambda>rs. paymentTransactions_update (\<lambda>_. rs)) t_id = update_transaction"
  by unfold_locales (simp_all add: find_transaction_def put_transaction_def update_transaction_def)

section \<open>The business state\<close>

abbreviation business :: "'s tables_scheme \<Rightarrow> tables" where
  "business \<equiv> tables.truncate"

lemma business_fields [simp]:
  "reports (business s) = reports s"
  "users (business s) = users s"
  "organizations (business s) = organizations s"
  "providerOrganizations (business s) = providerOrganizations s"
  "platformSettings (business s) = platformSettings s"
  "paymentTransactions (business s) = paymentTransactions s"
  "organizationSubscriptions (business s) = organizationSubscriptions s"
  "paymentReceipts (business s) = paymentReceipts s"
  "userEntitlements (business s) = userEntitlements s"
  "evidenceRecords (business s) = evidenceRecords s"
  "upgradeRequests (business s) = upgradeRequests s"
  "invitations (business s) = invitations s"
  "internalRoleAssignments (business s) = internalRoleAssignments s"
  "approvalRequests (business s) = approvalRequests s"
  "jurisdictionZones (business s) = jurisdictionZones s"
  "potentialAssets (business s) = potentialAssets s"
  "assetCandidateOwners (business s) = assetCandidateOwners s"
  "assetClaims (business s) = assetClaims s"
  "mfaEnrollments (business s) = mfaEnrollments s"
  "mfaBackupCodes (business s) = mfaBackupCodes s"
  "mfaSessions (business s) = mfaSessions s"
  "passwordResetTokens (business s) = passwordResetTokens s"
  by (simp_all add: tables.defs)

lemma business_eq_fields:
  assumes "business t = business s"
  shows "reports t = reports s" "users t = users s" "organizations t = organizations s"
    "providerOrganizations t = providerOrganizations s" "platformSettings t = platformSettings s"
    "paymentTransactions t = paymentTransactions s"
    "organizationSubscriptions t = organizationSubscriptions s" "paymentReceipts t = paymentReceipts s"
    "userEntitlements t = userEntitlements s" "evidenceRecords t = evidenceRecords s"
    "upgradeRequests t = upgradeRequests s"
    "invitations t = invitations s"
    "internalRoleAssignments t = internalRoleAssignments s"
    "approvalRequests t = approvalRequests s"
    "jurisdictionZones t = jurisdictionZones s"
    "potentialAssets t = potentialAssets s"
    "assetCandidateOwners t = assetCandidateOwners s"
    "assetClaims t = assetClaims s"
    "mfaEnrollments t = mfaEnrollments s"
    "mfaBackupCodes t = mfaBackupCodes s"
    "mfaSessions t = mfaSessions s"
    "passwordResetTokens t = passwordResetTokens s"
  using assms by (metis business_fields)+

lemma find_report_business [simp]: "find_report k (business s) = find_report k s"
  and find_user_business [simp]: "find_user k (business s) = find_user k s"
  and find_organization_business [simp]: "find_organization k (business s) = find_organization k s"
  and find_transaction_business [simp]: "find_transaction k (business s) = find_transaction k s"
  by (simp_all add: find_report_def find_user_def find_organization_def find_transaction_def row_find_def)

lemma business_put_report [simp]: "business (put_report k f s) = put_report k f (business s)"
  by (simp add: put_report_def row_put_def tables.defs)

lemma business_put_organization [simp]:
  "business (put_organization k f s) = put_organization k f (business s)"
  by (simp add: put_organization_def row_put_def tables.defs)

lemma business_put_transaction [simp]:
  "business (put_transaction k f s) = put_transaction k f (business s)"
  by (simp add: put_transaction_def row_put_def tables.defs)

lemma put_report_fields [simp]:
  "users (put_report k f s) = users s"
  "organizations (put_report k f s) = organizations s"
  "providerOrganizations (put_report k f s) = providerOrganizations s"
  "platformSettings (put_report k f s) = platformSettings s"
  "paymentTransactions (put_report k f s) = paymentTransactions s"
  "organizationSubscriptions (put_report k f s) = organizationSubscriptions s"
  "paymentReceipts (put_report k f s) = paymentReceipts s"
  "userEntitlements (put_report k f s) = userEntitlements s"
  "evidenceRecords (put_report k f s) = evidenceRecords s"
  "upgradeRequests (put_report k f s) = upgradeRequests s"
  "invitations (put_report k f s) = invitations s"
  "internalRoleAssignments (put_report k f s) = internalRoleAssignments s"
  "approvalRequests (put_report k f s) = approvalRequests s"
  "jurisdictionZones (put_report k f s) = jurisdictionZones s"
  "potentialAssets (put_report k f s) = potentialAssets s"
  "assetCandidateOwners (put_report k f s) = assetCandidateOwners s"
  "assetClaims (put_report k f s) = assetClaims s"
  "mfaEnrollments (put_report k f s) = mfaEnrollments s"
  "mfaBackupCodes (put_report k f s) = mfaBackupCodes s"
  "mfaSessions (put_report k f s) = mfaSessions s"
  "passwordResetTokens (put_report k f s) = passwordResetTokens s"
  by (simp_all add: put_report_def row_put_def)

lemma reports_put_report: "reports (put_report k f s) = upd_rows (\<lambda>r. r_id r = k) f (reports s)"
  by (simp add: put_report_def row_put_def)

lemma find_report_SomeD: "find_report k s = Some r \<Longrightarrow> r_id r = k \<and> r \<in> set (reports s)"
  by (auto simp: find_report_def row_find_def dest: find_SomeD)

lemma find_organization_SomeD: "find_organization k s = Some r \<Longrightarrow> o_id r = k \<and> r \<in> set (organizations s)"
  by (auto simp: find_organization_def row_find_def dest: find_SomeD)

lemma find_transaction_SomeD:
  "find_transaction k s = Some r \<Longrightarrow> t_id r = k \<and> r \<in> set (paymentTransactions s)"
  by (auto simp: find_transaction_def row_find_def dest: find_SomeD)

lemma find_user_SomeD: "find_user k s = Some u \<Longrightarrow> u_id u = k \<and> u \<in> set (users s)"
  by (auto simp: find_user_def row_find_def dest: find_SomeD)

lemma find_report_cong: "reports t = reports s \<Longrightarrow> find_report k t = find_report k s"
  by (simp add: find_report_def row_find_def)

section \<open>Handlers that read, update one report and record\<close>

text \<open>\<open>reads m\<close>: the computation leaves the database as it is, whether it returns or throws.\<close>

definition reads :: "('s, 'a) svc \<Rightarrow> bool" where
  "reads m \<longleftrightarrow> (\<forall>s. snd (m s) = s)"

named_theorems reads_rules \<open>which computations only read\<close>

lemma readsD: "reads m \<Longrightarrow> m s = (r, t) \<Longrightarrow> t = s"
  by (metis reads_def snd_conv)

lemma readsI: "(\<And>s r t. m s = (r, t) \<Longrightarrow> t = s) \<Longrightarrow> reads m"
  by (metis reads_def surjective_pairing)

lemma reads_basic [reads_rules]:
  "reads (ret x)" "reads (throw e)" "reads (throw_if c e)" "reads (gets g)" "reads (require e y)"
  by (simp_all add: reads_def split: option.split)

lemma reads_bnd [reads_rules]:
  assumes "reads m" and "\<And>x. reads (f x)"
  shows "reads (bnd m f)"
proof (rule readsI)
  fix s r t
  assume "bnd m f s = (r, t)"
  then show "t = s"
    using assms by (elim bndE) (auto dest: readsD)
qed

lemma reads_if [reads_rules]: "reads a \<Longrightarrow> reads b \<Longrightarrow> reads (if c then a else b)"
  and reads_when_do [reads_rules]: "reads m \<Longrightarrow> reads (when_do c m)"
  and reads_case_option [reads_rules]:
    "reads a \<Longrightarrow> (\<And>x. reads (g x)) \<Longrightarrow> reads (case y of None \<Rightarrow> a | Some x \<Rightarrow> g x)"
  by (simp_all add: reads_def split: option.split)

lemma reads_case_prod [reads_rules]: "(\<And>x y. reads (g x y)) \<Longrightarrow> reads (case p of (x, y) \<Rightarrow> g x y)"
  by (simp split: prod.split)

text \<open>\<open>leaves v m\<close>: the computation leaves the part \<open>v\<close> as it is, whether it returns or throws.\<close>

definition leaves :: "('s \<Rightarrow> 'v) \<Rightarrow> ('s, 'a) svc \<Rightarrow> bool" where
  "leaves v m \<longleftrightarrow> (\<forall>s. v (snd (m s)) = v s)"

named_theorems leaves_rules \<open>which computations leave a part of the database\<close>

lemma leavesD: "leaves v m \<Longrightarrow> m s = (r, t) \<Longrightarrow> v t = v s"
  by (metis leaves_def snd_conv)

lemma leavesI: "(\<And>s r t. m s = (r, t) \<Longrightarrow> v t = v s) \<Longrightarrow> leaves v m"
  by (metis leaves_def surjective_pairing)

lemma leaves_reads: "reads m \<Longrightarrow> leaves v m"
  by (simp add: reads_def leaves_def)

lemma leaves_quiet: "quiet v m \<Longrightarrow> leaves v m"
  by (rule leavesI) (auto elim: quietE)

lemma leaves_basic [leaves_rules]:
  "leaves v (ret x)" "leaves v (throw e)" "leaves v (throw_if c e)" "leaves v (gets g)" "leaves v (require e y)"
  by (simp_all add: leaves_reads reads_basic)

lemma leaves_modify: "(\<And>s. v (f s) = v s) \<Longrightarrow> leaves v (modify f)"
  by (simp add: leaves_def)

lemma leaves_bnd [leaves_rules]:
  assumes "leaves v m" and "\<And>x. leaves v (f x)"
  shows "leaves v (bnd m f)"
proof (rule leavesI)
  fix s r t
  assume "bnd m f s = (r, t)"
  then show "v t = v s"
    using assms by (elim bndE) (metis leavesD)+
qed

lemma leaves_if [leaves_rules]: "leaves v a \<Longrightarrow> leaves v b \<Longrightarrow> leaves v (if c then a else b)"
  and leaves_when_do [leaves_rules]: "leaves v m \<Longrightarrow> leaves v (when_do c m)"
  and leaves_case_option [leaves_rules]:
    "leaves v a \<Longrightarrow> (\<And>x. leaves v (g x)) \<Longrightarrow> leaves v (case y of None \<Rightarrow> a | Some x \<Rightarrow> g x)"
  by (simp_all add: leaves_def split: option.split)

text \<open>
  The whole run of such a handler: rejected by a guard with the database untouched, or accepted,
  and then the row the guard found has been replaced and nothing else of the business state has
  changed.
\<close>

lemma guarded_updateE:
  assumes run: "bnd g (\<lambda>r. bnd (update_report (ident r) (d r)) (\<lambda>u. sq (eff r u) (ret (out r u)))) s = (res, t)"
    and reads: "reads g" and quiet: "\<And>r u. quiet business (eff r u)"
  obtains (rejected) e where "g s = (Inl e, s)" "res = Inl e" "t = s"
    | (missing) r where "g s = (Inr r, s)" "find_report (ident r) s = None"
        "res = Inl (PrismaError ''P2025'')" "t = s"
    | (accepted) r row where "g s = (Inr r, s)" "find_report (ident r) s = Some row"
        "res = Inr (out r (d r row))" "business t = put_report (ident r) (d r) (business s)"
  using run
proof (cases rule: bndE)
  case (err e)
  then show thesis using rejected readsD[OF reads err(1)] by simp
next
  case (ok r u)
  then have g: "g s = (Inr r, s)" using readsD[OF reads ok(1)] by simp
  from ok(2) g readsD[OF reads ok(1)]
  have "bnd (update_report (ident r) (d r)) (\<lambda>u. sq (eff r u) (ret (out r u))) s = (res, t)" by simp
  then show thesis
  proof (cases rule: bndE)
    case (err e)
    from err(1) show thesis
      by (cases rule: report_table.updateE) (use err missing g in auto)
  next
    case (ok x w)
    from ok(1) obtain row where row: "find_report (ident r) s = Some row" "x = d r row"
        "w = put_report (ident r) (d r) s"
      by (cases rule: report_table.updateE) auto
    from quiet_tail[OF quiet ok(2)] row show thesis
      by (intro accepted[OF g]) auto
  qed
qed

end
