(* ===== verification/Platform_Modules.thy ===== *)
theory Platform_Modules imports Tables begin

text \<open>
  \<open>platform-modules/platform-modules.service.ts\<close>: the registry of service modules, the reading of
  an organization's \<open>enabledModules\<close> column, and the decision whether a user may enter a module.
\<close>

section \<open>The registry\<close>

record platform_module =
  m_key :: string
  m_displayName :: string
  m_moduleName :: string
  m_description :: string
  m_serviceCategories :: "string list"
  m_clientRoles :: "string list"
  m_professionalRoles :: "string list"
  m_workflowStages :: "string list"
  m_assignmentRules :: "string list"
  m_slaRules :: "string list"
  m_analyticsVisibility :: "string list"
  m_billingFeatureFlags :: "string list"
  m_activeProduction :: bool
  m_metadataOnly :: bool
  m_rolloutStage :: "string option"
  m_rolloutDescription :: "string option"
  m_icon :: "string option"
  m_color :: "string option"
  m_visibility :: "string option"
  m_organizationAvailability :: "string option"
  m_providerCapabilityRequirements :: "string list option"
  m_requiredVerificationLevel :: "int option"
  m_requiredSubscriptionPlans :: "string list option"

definition ACTIVE_PRODUCTION_MODULE_KEY :: string where
  "ACTIVE_PRODUCTION_MODULE_KEY = ''maintenance''"

definition maintenance_module :: platform_module where
  "maintenance_module = \<lparr>
     m_key = ''maintenance'',
     m_displayName = ''Maintenance Services'',
     m_moduleName = ''FixZone'',
     m_description = ''FixZone maintenance operations for reports, dispatch, providers, evidence, validation and municipal service analytics.'',
     m_serviceCategories = [''Road'', ''Drainage'', ''Water'', ''Electricity'', ''Waste'', ''Public Safety''],
     m_clientRoles = [''Citizen'', ''Organization requester''],
     m_professionalRoles = [''Provider'', ''Dispatch officer'', ''Organization administrator''],
     m_workflowStages = [''Submitted'', ''Reviewed'', ''Assigned'', ''Accepted'', ''In Progress'', ''Completed'', ''Validated'', ''Closed''],
     m_assignmentRules = [''Organization scope'', ''Provider service category'', ''Coverage area'', ''Availability'', ''Priority''],
     m_slaRules = [''Priority-based response time'', ''Assignment timeout'', ''Completion review window''],
     m_analyticsVisibility = [''Super Admin'', ''Organization Admin'', ''Dispatch Officer'', ''Provider''],
     m_billingFeatureFlags = [''report_quota'', ''provider_quota'', ''user_quota'', ''storage_quota''],
     m_activeProduction = True,
     m_metadataOnly = False,
     m_rolloutStage = Some ''PRODUCTION'',
     m_rolloutDescription = Some ''Operational production service.'',
     m_icon = Some ''construction'',
     m_color = Some ''#138A7F'',
     m_visibility = Some ''production'',
     m_organizationAvailability = Some ''enabled_by_default'',
     m_providerCapabilityRequirements = Some [''electrical'', ''civil_works'', ''plumbing_water''],
     m_requiredVerificationLevel = Some 0,
     m_requiredSubscriptionPlans = Some [] \<rparr>"

definition healthcare_module :: platform_module where
  "healthcare_module = \<lparr>
     m_key = ''healthcare'',
     m_displayName = ''Healthcare'',
     m_moduleName = ''Healthcare'',
     m_description = ''Future healthcare service requests, patient/provider workflows, facilities and care coordination.'',
     m_serviceCategories = [''Primary Care'', ''Diagnostics'', ''Emergency'', ''Pharmacy''],
     m_clientRoles = [''Patient'', ''Guardian''],
     m_professionalRoles = [''Clinician'', ''Facility Admin''],
     m_workflowStages = [''Requested'', ''Triaged'', ''Assigned'', ''In Care'', ''Reviewed'', ''Closed''],
     m_assignmentRules = [''Facility scope'', ''Specialty'', ''Availability''],
     m_slaRules = [''Triage time'', ''Appointment window''],
     m_analyticsVisibility = [''Organization Admin'', ''Clinical Admin''],
     m_billingFeatureFlags = [''appointments'', ''facility_users''],
     m_activeProduction = False,
     m_metadataOnly = True,
     m_rolloutStage = None,
     m_rolloutDescription = None,
     m_icon = None,
     m_color = None,
     m_visibility = None,
     m_organizationAvailability = None,
     m_providerCapabilityRequirements = None,
     m_requiredVerificationLevel = None,
     m_requiredSubscriptionPlans = None \<rparr>"

definition legal_module :: platform_module where
  "legal_module = \<lparr>
     m_key = ''legal'',
     m_displayName = ''Legal Services'',
     m_moduleName = ''Legal Services'',
     m_description = ''Future legal intake, case routing, consultation and matter-management workflows.'',
     m_serviceCategories = [''Consultation'', ''Contracts'', ''Disputes'', ''Compliance''],
     m_clientRoles = [''Client''],
     m_professionalRoles = [''Lawyer'', ''Paralegal'', ''Firm Admin''],
     m_workflowStages = [''Intake'', ''Conflict Check'', ''Assigned'', ''In Review'', ''Resolved''],
     m_assignmentRules = [''Practice area'', ''Jurisdiction'', ''Availability''],
     m_slaRules = [''Intake response'', ''Review deadline''],
     m_analyticsVisibility = [''Firm Admin''],
     m_billingFeatureFlags = [''matters'', ''professionals''],
     m_activeProduction = False,
     m_metadataOnly = True,
     m_rolloutStage = None,
     m_rolloutDescription = None,
     m_icon = None,
     m_color = None,
     m_visibility = None,
     m_organizationAvailability = None,
     m_providerCapabilityRequirements = None,
     m_requiredVerificationLevel = None,
     m_requiredSubscriptionPlans = None \<rparr>"

definition architecture_engineering_module :: platform_module where
  "architecture_engineering_module = \<lparr>
     m_key = ''architecture_engineering'',
     m_displayName = ''Architecture & Engineering'',
     m_moduleName = ''Architecture & Engineering'',
     m_description = ''Future project intake, technical review, site visit and professional assignment workflows.'',
     m_serviceCategories = [''Architecture'', ''Civil Engineering'', ''Structural'', ''MEP''],
     m_clientRoles = [''Client'', ''Property Owner''],
     m_professionalRoles = [''Architect'', ''Engineer'', ''Practice Admin''],
     m_workflowStages = [''Brief'', ''Reviewed'', ''Assigned'', ''Design'', ''Inspection'', ''Delivered''],
     m_assignmentRules = [''Discipline'', ''Project location'', ''License''],
     m_slaRules = [''Review time'', ''Milestone deadline''],
     m_analyticsVisibility = [''Practice Admin''],
     m_billingFeatureFlags = [''projects'', ''professional_seats''],
     m_activeProduction = False,
     m_metadataOnly = True,
     m_rolloutStage = None,
     m_rolloutDescription = None,
     m_icon = None,
     m_color = None,
     m_visibility = None,
     m_organizationAvailability = None,
     m_providerCapabilityRequirements = None,
     m_requiredVerificationLevel = None,
     m_requiredSubscriptionPlans = None \<rparr>"

definition ict_module :: platform_module where
  "ict_module = \<lparr>
     m_key = ''ict'',
     m_displayName = ''ICT Services'',
     m_moduleName = ''ICT Services'',
     m_description = ''Future IT support, implementation, managed-service and professional technology workflows.'',
     m_serviceCategories = [''Support'', ''Networking'', ''Software'', ''Cybersecurity''],
     m_clientRoles = [''Client'', ''Employee''],
     m_professionalRoles = [''Technician'', ''Engineer'', ''Service Desk Admin''],
     m_workflowStages = [''Ticket'', ''Triaged'', ''Assigned'', ''In Progress'', ''Resolved'', ''Closed''],
     m_assignmentRules = [''Skill'', ''Severity'', ''Availability''],
     m_slaRules = [''Severity response'', ''Resolution target''],
     m_analyticsVisibility = [''Service Admin''],
     m_billingFeatureFlags = [''tickets'', ''agents''],
     m_activeProduction = False,
     m_metadataOnly = True,
     m_rolloutStage = None,
     m_rolloutDescription = None,
     m_icon = None,
     m_color = None,
     m_visibility = None,
     m_organizationAvailability = None,
     m_providerCapabilityRequirements = None,
     m_requiredVerificationLevel = None,
     m_requiredSubscriptionPlans = None \<rparr>"

definition agriculture_module :: platform_module where
  "agriculture_module = \<lparr>
     m_key = ''agriculture'',
     m_displayName = ''Agriculture'',
     m_moduleName = ''Agriculture'',
     m_description = ''Future agricultural advisory, cooperative, extension, equipment and field-service workflows.'',
     m_serviceCategories = [''Advisory'', ''Inputs'', ''Mechanization'', ''Extension''],
     m_clientRoles = [''Farmer'', ''Cooperative member''],
     m_professionalRoles = [''Extension Officer'', ''Agronomist'', ''Cooperative Admin''],
     m_workflowStages = [''Requested'', ''Reviewed'', ''Assigned'', ''Field Visit'', ''Completed''],
     m_assignmentRules = [''Crop type'', ''Location'', ''Expertise''],
     m_slaRules = [''Seasonal priority'', ''Visit window''],
     m_analyticsVisibility = [''Cooperative Admin''],
     m_billingFeatureFlags = [''members'', ''field_requests''],
     m_activeProduction = False,
     m_metadataOnly = True,
     m_rolloutStage = None,
     m_rolloutDescription = None,
     m_icon = None,
     m_color = None,
     m_visibility = None,
     m_organizationAvailability = None,
     m_providerCapabilityRequirements = None,
     m_requiredVerificationLevel = None,
     m_requiredSubscriptionPlans = None \<rparr>"

definition education_module :: platform_module where
  "education_module = \<lparr>
     m_key = ''education'',
     m_displayName = ''Education'',
     m_moduleName = ''Education'',
     m_description = ''Future institution support, student services, facilities, advisory and academic operations workflows.'',
     m_serviceCategories = [''Student Services'', ''Facilities'', ''Advisory'', ''Administration''],
     m_clientRoles = [''Student'', ''Parent'', ''Staff''],
     m_professionalRoles = [''Advisor'', ''Instructor'', ''Institution Admin''],
     m_workflowStages = [''Submitted'', ''Reviewed'', ''Assigned'', ''In Progress'', ''Closed''],
     m_assignmentRules = [''Department'', ''Campus'', ''Role''],
     m_slaRules = [''Response target'', ''Academic calendar priority''],
     m_analyticsVisibility = [''Institution Admin''],
     m_billingFeatureFlags = [''students'', ''staff_users''],
     m_activeProduction = False,
     m_metadataOnly = True,
     m_rolloutStage = None,
     m_rolloutDescription = None,
     m_icon = None,
     m_color = None,
     m_visibility = None,
     m_organizationAvailability = None,
     m_providerCapabilityRequirements = None,
     m_requiredVerificationLevel = None,
     m_requiredSubscriptionPlans = None \<rparr>"

definition security_module :: platform_module where
  "security_module = \<lparr>
     m_key = ''security'',
     m_displayName = ''Security Services'',
     m_moduleName = ''Security Services'',
     m_description = ''Future incident intake, guard assignment, patrol, escalation and emergency response workflows.'',
     m_serviceCategories = [''Incident'', ''Patrol'', ''Emergency'', ''Access Control''],
     m_clientRoles = [''Resident'', ''Staff'', ''Client''],
     m_professionalRoles = [''Security Officer'', ''Supervisor'', ''Security Admin''],
     m_workflowStages = [''Reported'', ''Triaged'', ''Dispatched'', ''Responding'', ''Resolved''],
     m_assignmentRules = [''Zone'', ''Severity'', ''Team availability''],
     m_slaRules = [''Incident response'', ''Escalation time''],
     m_analyticsVisibility = [''Security Admin'', ''Super Admin''],
     m_billingFeatureFlags = [''guards'', ''zones'', ''incidents''],
     m_activeProduction = False,
     m_metadataOnly = True,
     m_rolloutStage = None,
     m_rolloutDescription = None,
     m_icon = None,
     m_color = None,
     m_visibility = None,
     m_organizationAvailability = None,
     m_providerCapabilityRequirements = None,
     m_requiredVerificationLevel = None,
     m_requiredSubscriptionPlans = None \<rparr>"

definition property_facilities_module :: platform_module where
  "property_facilities_module = \<lparr>
     m_key = ''property_facilities'',
     m_displayName = ''Property / Facilities'',
     m_moduleName = ''Property / Facilities'',
     m_description = ''Pilot reference module for property operations, facilities requests, inspections, cleaning, tenant issues and vendor coordination.'',
     m_serviceCategories = [''Facilities'', ''Inspection'', ''Tenant Request'', ''Vendor''],
     m_clientRoles = [''Tenant'', ''Property Owner''],
     m_professionalRoles = [''Facility Manager'', ''Vendor'', ''Property Admin''],
     m_workflowStages = [''Requested'', ''Approved'', ''Assigned'', ''In Progress'', ''Closed''],
     m_assignmentRules = [''Property'', ''Unit'', ''Vendor category''],
     m_slaRules = [''Tenant response'', ''Vendor completion''],
     m_analyticsVisibility = [''Property Admin''],
     m_billingFeatureFlags = [''properties'', ''units'', ''vendors''],
     m_activeProduction = False,
     m_metadataOnly = True,
     m_rolloutStage = Some ''PILOT'',
     m_rolloutDescription = Some ''Controlled reference-module metadata only; normal user workflows are not exposed.'',
     m_icon = Some ''domain'',
     m_color = Some ''#2563EB'',
     m_visibility = Some ''admin_internal'',
     m_organizationAvailability = Some ''opt_in_metadata_only'',
     m_providerCapabilityRequirements = Some [''property_management'', ''facilities'', ''cleaning'', ''plumbing_water'', ''electrical'', ''civil_works'', ''security'', ''inspection''],
     m_requiredVerificationLevel = Some 1,
     m_requiredSubscriptionPlans = Some [''PROFESSIONAL'', ''GOVERNMENT'', ''ENTERPRISE''] \<rparr>"

definition cleaning_home_module :: platform_module where
  "cleaning_home_module = \<lparr>
     m_key = ''cleaning_home'',
     m_displayName = ''Cleaning / Home Services'',
     m_moduleName = ''Cleaning / Home Services'',
     m_description = ''Future bookings, service professionals, household jobs and recurring home-service workflows.'',
     m_serviceCategories = [''Cleaning'', ''Repairs'', ''Home Care'', ''Errands''],
     m_clientRoles = [''Customer'', ''Homeowner''],
     m_professionalRoles = [''Service Professional'', ''Supervisor''],
     m_workflowStages = [''Booked'', ''Confirmed'', ''Assigned'', ''In Service'', ''Completed''],
     m_assignmentRules = [''Service area'', ''Skill'', ''Schedule''],
     m_slaRules = [''Booking confirmation'', ''Arrival window''],
     m_analyticsVisibility = [''Service Admin''],
     m_billingFeatureFlags = [''bookings'', ''professionals''],
     m_activeProduction = False,
     m_metadataOnly = True,
     m_rolloutStage = None,
     m_rolloutDescription = None,
     m_icon = None,
     m_color = None,
     m_visibility = None,
     m_organizationAvailability = None,
     m_providerCapabilityRequirements = None,
     m_requiredVerificationLevel = None,
     m_requiredSubscriptionPlans = None \<rparr>"

definition government_module :: platform_module where
  "government_module = \<lparr>
     m_key = ''government'',
     m_displayName = ''Government Services'',
     m_moduleName = ''Government Services'',
     m_description = ''Future public-sector service intake, department routing, case management and citizen engagement workflows.'',
     m_serviceCategories = [''Public Service'', ''Permit'', ''Complaint'', ''Engagement''],
     m_clientRoles = [''Citizen'', ''Business''],
     m_professionalRoles = [''Officer'', ''Department Admin''],
     m_workflowStages = [''Submitted'', ''Department Review'', ''Assigned'', ''Actioned'', ''Closed''],
     m_assignmentRules = [''Department'', ''Jurisdiction'', ''Priority''],
     m_slaRules = [''Public response'', ''Department SLA''],
     m_analyticsVisibility = [''Agency Admin'', ''Super Admin''],
     m_billingFeatureFlags = [''departments'', ''public_cases''],
     m_activeProduction = False,
     m_metadataOnly = True,
     m_rolloutStage = None,
     m_rolloutDescription = None,
     m_icon = None,
     m_color = None,
     m_visibility = None,
     m_organizationAvailability = None,
     m_providerCapabilityRequirements = None,
     m_requiredVerificationLevel = None,
     m_requiredSubscriptionPlans = None \<rparr>"

definition multi_service_module :: platform_module where
  "multi_service_module = \<lparr>
     m_key = ''multi_service'',
     m_displayName = ''Multi-Service Organization'',
     m_moduleName = ''Multi-Service Organization'',
     m_description = ''A future-ready tenant profile for organizations operating multiple SecureZone service modules.'',
     m_serviceCategories = [''Multiple modules''],
     m_clientRoles = [''Client''],
     m_professionalRoles = [''Professional'', ''Organization Admin''],
     m_workflowStages = [''Module-defined''],
     m_assignmentRules = [''Module-defined''],
     m_slaRules = [''Module-defined''],
     m_analyticsVisibility = [''Organization Admin'', ''Super Admin''],
     m_billingFeatureFlags = [''module_bundle'', ''cross_module_users''],
     m_activeProduction = False,
     m_metadataOnly = True,
     m_rolloutStage = None,
     m_rolloutDescription = None,
     m_icon = None,
     m_color = None,
     m_visibility = None,
     m_organizationAvailability = None,
     m_providerCapabilityRequirements = None,
     m_requiredVerificationLevel = None,
     m_requiredSubscriptionPlans = None \<rparr>"

definition PLATFORM_MODULES :: "platform_module list" where
  "PLATFORM_MODULES = [maintenance_module, healthcare_module, legal_module,
     architecture_engineering_module, ict_module, agriculture_module, education_module,
     security_module, property_facilities_module, cleaning_home_module, government_module,
     multi_service_module]"

lemmas module_defs = maintenance_module_def healthcare_module_def legal_module_def
  architecture_engineering_module_def ict_module_def agriculture_module_def education_module_def
  security_module_def property_facilities_module_def cleaning_home_module_def government_module_def
  multi_service_module_def

text \<open>The four facts about the registry that the rest of the theory uses.\<close>

lemma module_keys: "map m_key PLATFORM_MODULES =
    [''maintenance'', ''healthcare'', ''legal'', ''architecture_engineering'', ''ict'', ''agriculture'',
     ''education'', ''security'', ''property_facilities'', ''cleaning_home'', ''government'', ''multi_service'']"
  by (simp add: PLATFORM_MODULES_def module_defs)

lemma find_maintenance: "find (\<lambda>m. m_key m = ''maintenance'') PLATFORM_MODULES = Some maintenance_module"
  by (simp add: PLATFORM_MODULES_def maintenance_module_def)

lemma module_active_iff:
  "m \<in> set PLATFORM_MODULES \<Longrightarrow> m_activeProduction m \<longleftrightarrow> m_key m = ''maintenance''"
  by (auto simp: PLATFORM_MODULES_def module_defs)

lemma module_metadata_iff:
  "m \<in> set PLATFORM_MODULES \<Longrightarrow> m_metadataOnly m \<longleftrightarrow> m_key m \<noteq> ''maintenance''"
  by (auto simp: PLATFORM_MODULES_def module_defs)

section \<open>Enabled modules of an organization\<close>

definition extract_array :: "json list \<Rightarrow> string list" where
  "extract_array items = filter (\<lambda>x. x \<noteq> []) (map (\<lambda>item. trim (json_text item)) items)"

definition extractKeys :: "json option \<Rightarrow> string list" where
  "extractKeys value = (case value of
     Some (JArr items) \<Rightarrow> extract_array items
   | Some (JObj kvs) \<Rightarrow>
       (case map_of kvs ''enabledModuleKeys'' of
          Some (JArr items) \<Rightarrow> extract_array items
        | _ \<Rightarrow> (case map_of kvs ''modules'' of
            Some (JArr items) \<Rightarrow> extract_array items
          | _ \<Rightarrow> [ACTIVE_PRODUCTION_MODULE_KEY]))
   | _ \<Rightarrow> [ACTIVE_PRODUCTION_MODULE_KEY])"

definition normalizeEnabledModules :: "json option \<Rightarrow> string list" where
  "normalizeEnabledModules value =
     (let rawKeys = extractKeys value;
          validKeys = set (map m_key PLATFORM_MODULES);
          normalized = filter (\<lambda>key. key \<in> validKeys) rawKeys
      in uniq (if ACTIVE_PRODUCTION_MODULE_KEY \<in> set normalized then normalized
               else ACTIVE_PRODUCTION_MODULE_KEY # normalized))"

definition withRollout :: "platform_module \<Rightarrow> platform_module" where
  "withRollout mdl =
     (let production = (m_key mdl = ACTIVE_PRODUCTION_MODULE_KEY) in
      if truthy (m_rolloutStage mdl) then mdl
      else mdl\<lparr> m_rolloutStage := Some (if production then ''PRODUCTION'' else ''INTERNAL''),
                   m_rolloutDescription := Some (if production then ''Operational production service.''
                     else ''Metadata/configuration only; not operational.'') \<rparr>)"

record organization_module_summary =
  enabledModuleKeys :: "string list"
  activeProductionModuleKeys :: "string list"
  metadataOnlyModuleKeys :: "string list"
  activeModules :: "platform_module list"
  metadataOnlyModules :: "platform_module list"
  maintenanceActive :: bool

definition organizationModuleSummary :: "json option \<Rightarrow> organization_module_summary" where
  "organizationModuleSummary value =
     (let keys = normalizeEnabledModules value;
          enabledModules = map withRollout
            (List.map_filter (\<lambda>key. find (\<lambda>m. m_key m = key) PLATFORM_MODULES) keys);
          active = filter m_activeProduction enabledModules;
          metadata = filter (\<lambda>m. \<not> m_activeProduction m) enabledModules
      in \<lparr> enabledModuleKeys = keys,
           activeProductionModuleKeys = map m_key active,
           metadataOnlyModuleKeys = map m_key metadata,
           activeModules = active,
           metadataOnlyModules = metadata,
           maintenanceActive = ACTIVE_PRODUCTION_MODULE_KEY \<in> set keys \<rparr>)"

section \<open>Access to a mdl\<close>

record module_access_user =
  mu_role :: "user_role option"
  mu_organizationId :: "string option"
  mu_identityVerificationLevel :: "int option"
  mu_subscriptionPlan :: "string option"
  mu_organizationSubscriptionPlan :: "string option"

record module_access_requirement =
  q_moduleKey :: string
  q_requiredRoles :: "user_role list option"
  q_requiredVerificationLevel :: "int option"
  q_requiredSubscriptionPlans :: "string list option"
  q_requiresOrganization :: bool
  q_hiddenWhenDenied :: bool

datatype access_state = Allowed | Locked | Hidden

record module_access_result =
  x_moduleKey :: string
  x_state :: access_state
  x_allowed :: bool
  x_visible :: bool
  x_reason :: string
  x_requirements :: module_access_requirement
  x_module :: "platform_module option"

definition denied ::
    "module_access_requirement \<Rightarrow> access_state \<Rightarrow> string \<Rightarrow> platform_module option \<Rightarrow> module_access_result" where
  "denied requirement state reason mdl =
     \<lparr> x_moduleKey = q_moduleKey requirement, x_state = state, x_allowed = False,
       x_visible = (state \<noteq> Hidden), x_reason = reason, x_requirements = requirement, x_module = mdl \<rparr>"

definition role_missing :: "module_access_user \<Rightarrow> module_access_requirement \<Rightarrow> bool" where
  "role_missing user requirement =
     (case q_requiredRoles requirement of
        None \<Rightarrow> False
      | Some required \<Rightarrow> required \<noteq> [] \<and>
          (case mu_role user of None \<Rightarrow> True | Some role \<Rightarrow> role \<notin> set required))"

definition level_missing :: "module_access_user \<Rightarrow> module_access_requirement \<Rightarrow> bool" where
  "level_missing user requirement =
     (case q_requiredVerificationLevel requirement of
        None \<Rightarrow> False
      | Some level \<Rightarrow> or_else (mu_identityVerificationLevel user) 0 < level)"

definition plan_missing :: "module_access_user \<Rightarrow> module_access_requirement \<Rightarrow> bool" where
  "plan_missing user requirement =
     (case q_requiredSubscriptionPlans requirement of
        None \<Rightarrow> False
      | Some plans \<Rightarrow> plans \<noteq> [] \<and>
          (case nonempty (coalesce (mu_subscriptionPlan user) (mu_organizationSubscriptionPlan user)) of
             None \<Rightarrow> True
           | Some plan \<Rightarrow> plan \<notin> set plans))"

definition evaluateAccess ::
    "module_access_user \<Rightarrow> module_access_requirement \<Rightarrow> 's tables_scheme \<Rightarrow> module_access_result" where
  "evaluateAccess user requirement s =
     (case find (\<lambda>item. m_key item = q_moduleKey requirement) PLATFORM_MODULES of
        None \<Rightarrow> denied requirement Hidden ''Module does not exist.'' None
      | Some mdl \<Rightarrow>
          if m_metadataOnly mdl \<or> \<not> m_activeProduction mdl then
            denied requirement Locked
              ''This service module is metadata-only and has no active workflow yet.'' (Some mdl)
          else if role_missing user requirement then
            denied requirement (if q_hiddenWhenDenied requirement then Hidden else Locked)
              ''User role is not allowed for this module area.'' (Some mdl)
          else if q_requiresOrganization requirement \<and> mu_role user \<noteq> Some SUPER_ADMIN \<and>
                  \<not> truthy (mu_organizationId user) then
            denied requirement Locked
              ''Organization workspace is required for this module area.'' (Some mdl)
          else if q_requiresOrganization requirement \<and> mu_role user \<noteq> Some SUPER_ADMIN \<and>
                  m_key mdl \<notin> set (normalizeEnabledModules
                    (Option.bind (Option.bind (mu_organizationId user) (\<lambda>i. find_organization i s)) o_enabledModules)) then
            denied requirement Locked ''This module is not enabled for the organization.'' (Some mdl)
          else if level_missing user requirement then
            denied requirement Locked
              ''Additional identity verification will be required for this module.'' (Some mdl)
          else if plan_missing user requirement then
            denied requirement Locked
              ''A higher subscription entitlement will be required for this module.'' (Some mdl)
          else
            \<lparr> x_moduleKey = m_key mdl, x_state = Allowed, x_allowed = True, x_visible = True,
              x_reason = ''Access allowed.'', x_requirements = requirement, x_module = Some mdl \<rparr>)"

section \<open>Correctness\<close>

lemma maintenance_enabled: "''maintenance'' \<in> set (normalizeEnabledModules value)"
  by (auto simp: normalizeEnabledModules_def Let_def ACTIVE_PRODUCTION_MODULE_KEY_def)

lemma normalized_keys_registered:
  "set (normalizeEnabledModules value) \<subseteq> set (map m_key PLATFORM_MODULES)"
  by (auto simp: normalizeEnabledModules_def Let_def ACTIVE_PRODUCTION_MODULE_KEY_def module_keys
      simp del: set_map)

lemma normalized_keys_distinct: "distinct (normalizeEnabledModules value)"
  by (simp add: normalizeEnabledModules_def Let_def)

lemma find_module_key:
  "find (\<lambda>m. m_key m = key) PLATFORM_MODULES = Some m \<Longrightarrow> m_key m = key \<and> m \<in> set PLATFORM_MODULES"
  by (auto dest: find_SomeD)

text \<open>Only the production module can be entered, whatever a requirement asks for.\<close>

lemma access_allowed_maintenance:
  assumes "x_allowed (evaluateAccess user requirement s)"
  shows "q_moduleKey requirement = ''maintenance''"
proof (cases "find (\<lambda>item. m_key item = q_moduleKey requirement) PLATFORM_MODULES")
  case None
  then show ?thesis using assms by (simp add: evaluateAccess_def denied_def)
next
  case (Some m)
  then have "m_metadataOnly m \<longleftrightarrow> m_key m \<noteq> ''maintenance''" and "m_key m = q_moduleKey requirement"
    using find_module_key module_metadata_iff by blast+
  then show ?thesis
    using assms Some by (auto simp: evaluateAccess_def denied_def split: if_splits)
qed

lemma access_maintenance_iff:
  assumes "q_moduleKey requirement = ''maintenance''"
  shows "x_allowed (evaluateAccess user requirement s) \<longleftrightarrow>
     \<not> role_missing user requirement \<and> \<not> level_missing user requirement \<and> \<not> plan_missing user requirement \<and>
     (q_requiresOrganization requirement \<longrightarrow> mu_role user = Some SUPER_ADMIN \<or> truthy (mu_organizationId user))"
proof -
  have m: "m_metadataOnly maintenance_module = False" "m_activeProduction maintenance_module = True"
      "m_key maintenance_module = ''maintenance''"
    by (simp_all add: maintenance_module_def)
  show ?thesis
    unfolding evaluateAccess_def assms find_maintenance option.case m
    using maintenance_enabled by (auto simp: denied_def)
qed

end
