(* ===== verification/Recording.thy ===== *)
theory Recording imports Tables begin

text \<open>
  The part of \<open>ReportService\<close> that records what happened: the user of a request, audit rows,
  the activity timeline of a report, and notifications (\<open>report/report.service.ts\<close>, lines
  4945-4954, 7080-7268 and 7447-7604). Every operation here appends to a log and is quiet for the
  business state; the proofs of the handlers use only that.
\<close>

section \<open>The user of a request\<close>

definition actor_id :: "jwt_user \<Rightarrow> string option" where
  "actor_id user = coalesce (coalesce (j_id user) (j_userId user)) (j_sub user)"

definition getUserId :: "jwt_user \<Rightarrow> ('s, string) svc" where
  "getUserId user = require (Forbidden ''User id missing'') (nonempty (actor_id user))"

definition requireUserOrganizationId :: "jwt_user \<Rightarrow> ('s, string) svc" where
  "requireUserOrganizationId user = require (Forbidden ''No org'') (nonempty (j_organizationId user))"

definition isSuperAdmin :: "jwt_user \<Rightarrow> bool" where
  "isSuperAdmin user = (j_role user = SUPER_ADMIN)"

definition isAdmin :: "jwt_user \<Rightarrow> bool" where
  "isAdmin user = (j_role user = ORG_ADMIN)"

definition isDispatch :: "jwt_user \<Rightarrow> bool" where
  "isDispatch user = (j_role user = DISPATCH_OFFICER)"

definition isProvider :: "jwt_user \<Rightarrow> bool" where
  "isProvider user = (j_role user = PROVIDER)"

lemmas role_defs = isSuperAdmin_def isAdmin_def isDispatch_def isProvider_def

lemma reads_getUserId [reads_rules]: "reads (getUserId user)"
  and reads_requireUserOrganizationId [reads_rules]: "reads (requireUserOrganizationId user)"
  by (simp_all add: getUserId_def requireUserOrganizationId_def reads_rules)

lemma getUserId_InrD: "getUserId user s = (Inr i, t) \<Longrightarrow> actor_id user = Some i \<and> i \<noteq> [] \<and> t = s"
  by (auto simp: getUserId_def nonempty_def split: option.splits if_splits)

lemma requireUserOrganizationId_InrD:
  "requireUserOrganizationId user s = (Inr i, t) \<Longrightarrow> j_organizationId user = Some i \<and> i \<noteq> [] \<and> t = s"
  by (auto simp: requireUserOrganizationId_def nonempty_def split: option.splits if_splits)

section \<open>Audit and activity rows\<close>

definition meta_string :: "string \<Rightarrow> (string \<times> json) list \<Rightarrow> string option" where
  "meta_string k metadata = (case map_of metadata k of Some (JStr x) \<Rightarrow> Some x | _ \<Rightarrow> None)"

definition audit_row :: "string \<Rightarrow> jwt_user \<Rightarrow> (string \<times> json) list \<Rightarrow> compliance_audit" where
  "audit_row action user metadata =
     \<lparr> c_action = action,
       c_actorId = actor_id user,
       c_actorRole = Some (j_role user),
       c_organizationId = coalesce (meta_string ''organizationId'' metadata) (j_organizationId user),
       c_entityType = coalesce (meta_string ''targetType'' metadata) (meta_string ''entityType'' metadata),
       c_entityId = coalesce (meta_string ''targetId'' metadata) (meta_string ''entityId'' metadata),
       c_metadata = metadata \<rparr>"

definition audit :: "string \<Rightarrow> jwt_user \<Rightarrow> (string \<times> json) list \<Rightarrow> unit handler" where
  "audit action user metadata =
     sq (modify (complianceAuditLogs_update (\<lambda>rows. rows @ [audit_row action user metadata])))
        (case nonempty (actor_id user) of
           None \<Rightarrow> ret ()
         | Some i \<Rightarrow> modify (demoAuditLogs_update (\<lambda>rows. rows @
             [\<lparr> d_action = action, d_actorUserId = i, d_metadata = metadata \<rparr>])))"

record activity_details =
  ad_organizationId :: string
  ad_fromStatus :: "report_status option"
  ad_toStatus :: "report_status option"
  ad_providerId :: "string option"
  ad_reason :: "string option"
  ad_note :: "string option"
  ad_metadata :: "json option"

definition activity_row :: "int \<Rightarrow> string \<Rightarrow> string \<Rightarrow> jwt_user \<Rightarrow> activity_details \<Rightarrow> report_activity" where
  "activity_row at_time reportId action user details =
     \<lparr> a_reportId = reportId,
       a_organizationId = ad_organizationId details,
       a_actorUserId = actor_id user,
       a_actorRole = j_role user,
       a_actorName = coalesce (j_fullName user) (j_email user),
       a_action = action,
       a_fromStatus = ad_fromStatus details,
       a_toStatus = ad_toStatus details,
       a_providerId = ad_providerId details,
       a_reason = ad_reason details,
       a_note = ad_note details,
       a_metadata = ad_metadata details,
       a_createdAt = at_time \<rparr>"

definition recordReportActivity ::
    "env \<Rightarrow> string \<Rightarrow> string \<Rightarrow> jwt_user \<Rightarrow> activity_details \<Rightarrow> unit handler" where
  "recordReportActivity env reportId action user details =
     modify (reportActivities_update (\<lambda>rows. rows @ [activity_row (now env) reportId action user details]))"

primrec activityActionForStatus :: "report_status \<Rightarrow> string" where
  "activityActionForStatus TRIAGE = ''REPORT_STATUS_CHANGED''"
| "activityActionForStatus ORG_REVIEW = ''REPORT_STATUS_CHANGED''"
| "activityActionForStatus PENDING = ''REPORT_STATUS_CHANGED''"
| "activityActionForStatus ASSIGNED = ''PROVIDER_ASSIGNED''"
| "activityActionForStatus IN_PROGRESS = ''PROVIDER_STARTED_WORK''"
| "activityActionForStatus COMPLETED_BY_PROVIDER = ''PROVIDER_SUBMITTED_COMPLETION''"
| "activityActionForStatus CLOSED = ''REPORT_CLOSED''"

section \<open>Notifications\<close>

definition notice :: "string \<Rightarrow> string \<Rightarrow> string \<Rightarrow> string \<Rightarrow> string \<Rightarrow> notification" where
  "notice userId reportId type title message =
     \<lparr> n_userId = userId, n_reportId = Some reportId, n_type = type, n_title = title, n_message = message \<rparr>"

text \<open>A notification whose five fields equal those of an existing row is not created again.\<close>

definition createNotification :: "notification \<Rightarrow> unit handler" where
  "createNotification data =
     bnd (gets (\<lambda>s. find (\<lambda>n. n = data) (notifications s)))
       (\<lambda>existing. case existing of
          Some n \<Rightarrow> ret ()
        | None \<Rightarrow> modify (notifications_update (\<lambda>rows. rows @ [data])))"

definition organization_operators :: "string \<Rightarrow> db \<Rightarrow> user list" where
  "organization_operators organizationId s =
     filter (\<lambda>u. u_organizationId u = Some organizationId \<and> u_role u \<in> {ORG_ADMIN, DISPATCH_OFFICER}
                 \<and> u_accountStatus u = ACTIVE) (users s)"

definition notifyOrganizationOperators ::
    "string \<Rightarrow> string \<Rightarrow> string \<Rightarrow> string \<Rightarrow> string \<Rightarrow> unit handler" where
  "notifyOrganizationOperators organizationId reportId type title message =
     bnd (gets (organization_operators organizationId))
       (\<lambda>operators. for_each operators (\<lambda>operator.
          createNotification (notice (u_id operator) reportId type title message)))"

definition platform_resolvers :: "db \<Rightarrow> user list" where
  "platform_resolvers s = take 50
     (filter (\<lambda>u. u_role u \<in> {SUPER_ADMIN, ASSIGNMENT_ADMIN, ASSET_ADMIN, COMPLIANCE_ADMIN, REGULATORY_ADMIN}
                  \<and> u_accountStatus u = ACTIVE) (users s))"

definition notifyPlatformResolvers :: "string \<Rightarrow> string \<Rightarrow> string \<Rightarrow> string \<Rightarrow> unit handler" where
  "notifyPlatformResolvers reportId type title message =
     bnd (gets platform_resolvers)
       (\<lambda>resolvers. for_each resolvers (\<lambda>resolver.
          createNotification (notice (u_id resolver) reportId type title message)))"

definition citizen_reviews :: "completion_policy \<Rightarrow> bool" where
  "citizen_reviews policy = (policy \<in> {CITIZEN_CONFIRMATION_REQUIRED, BOTH_REQUIRED,
     CITIZEN_OR_ORGANIZATION, AUTO_CLOSE_AFTER_REVIEW_WINDOW})"

definition organization_reviews :: "completion_policy \<Rightarrow> bool" where
  "organization_reviews policy = (policy \<in> {ORGANIZATION_CONFIRMATION_REQUIRED, BOTH_REQUIRED,
     CITIZEN_OR_ORGANIZATION, AUTO_CLOSE_AFTER_REVIEW_WINDOW})"

definition notifyCompletionReviewers :: "report \<Rightarrow> unit handler" where
  "notifyCompletionReviewers report =
     (let policy = or_else (r_completionPolicy report) CITIZEN_CONFIRMATION_REQUIRED in
      sq (when_do (citizen_reviews policy)
            (createNotification (notice (r_citizenId report) (r_id report) ''completion_review'' ''Ready for review''
               (''The provider marked '' @ quoted (r_title report) @ '' complete. Please review it.''))))
     (sq (when_do (organization_reviews policy)
            (notifyOrganizationOperators (r_organizationId report) (r_id report)
               ''organization_completion_review'' ''Completion verification required''
               (''Provider submitted completion evidence for '' @ quoted (r_title report) @ ''.'')))
         (when_do (policy = ADMIN_RESOLUTION_REQUIRED)
            (notifyPlatformResolvers (r_id report) ''admin_completion_resolution_required''
               ''Completion resolution required''
               (''Completion for '' @ quoted (r_title report) @ '' requires platform resolution.'')))))"

text \<open>Type, title and message of the notification a status sends to the citizen, if it sends one.\<close>

primrec messageByStatus :: "report_status \<Rightarrow> string \<Rightarrow> (string \<times> string \<times> string) option" where
  "messageByStatus TRIAGE title = None"
| "messageByStatus ORG_REVIEW title = None"
| "messageByStatus PENDING title = None"
| "messageByStatus ASSIGNED title = Some (''assigned'', ''Report assigned'',
     ''Your report '' @ quoted title @ '' has been assigned to a provider.'')"
| "messageByStatus IN_PROGRESS title = Some (''status_update'', ''Work started'',
     ''A provider has started work on '' @ quoted title @ ''.'')"
| "messageByStatus COMPLETED_BY_PROVIDER title = Some (''completion_review'', ''Ready for review'',
     ''The provider marked '' @ quoted title @ '' complete. Please review it.'')"
| "messageByStatus CLOSED title = Some (''resolved'', ''Report closed'',
     ''Your report '' @ quoted title @ '' has been closed.'')"

definition notifyStatusChange :: "report \<Rightarrow> unit handler" where
  "notifyStatusChange report =
     (case messageByStatus (r_status report) (r_title report) of
        None \<Rightarrow> ret ()
      | Some (type, title, message) \<Rightarrow>
          createNotification (notice (r_citizenId report) (r_id report) type title message))"

definition notifyAuthoritativeCompletionClosure :: "report \<Rightarrow> unit handler" where
  "notifyAuthoritativeCompletionClosure report =
     sq (notifyStatusChange report)
        (case nonempty (r_assignedProviderId report) of
           None \<Rightarrow> ret ()
         | Some providerId \<Rightarrow> createNotification (notice providerId (r_id report) ''completion_confirmed''
             ''Completion confirmed''
             (''Completion for '' @ quoted (r_title report) @ '' has been confirmed and the report is closed.'')))"

section \<open>Recording is quiet\<close>

lemma quiet_log:
  "quiet business (modify (complianceAuditLogs_update f))"
  "quiet business (modify (demoAuditLogs_update g))"
  "quiet business (modify (reportActivities_update h))"
  "quiet business (modify (notifications_update k))"
  "quiet business (modify (loginHistory_update l))"
  by (rule quiet_modify, simp add: tables.defs)+

lemma quiet_audit [quiet_rules]: "quiet business (audit action user metadata)"
  unfolding audit_def by (intro quiet_rules quiet_log)

lemma quiet_recordReportActivity [quiet_rules]: "quiet business (recordReportActivity env i action user d)"
  unfolding recordReportActivity_def by (rule quiet_log)

lemma quiet_createNotification [quiet_rules]: "quiet business (createNotification n)"
  unfolding createNotification_def by (auto intro!: quiet_rules quiet_log split: option.splits)

lemma quiet_notifyOrganizationOperators [quiet_rules]:
  "quiet business (notifyOrganizationOperators organizationId reportId type title message)"
  unfolding notifyOrganizationOperators_def by (intro quiet_rules)

lemma quiet_notifyPlatformResolvers [quiet_rules]:
  "quiet business (notifyPlatformResolvers reportId type title message)"
  unfolding notifyPlatformResolvers_def by (intro quiet_rules)

lemma quiet_notifyCompletionReviewers [quiet_rules]: "quiet business (notifyCompletionReviewers report)"
  unfolding notifyCompletionReviewers_def Let_def by (intro quiet_rules)

lemma quiet_notifyStatusChange [quiet_rules]: "quiet business (notifyStatusChange report)"
  unfolding notifyStatusChange_def by (auto intro!: quiet_rules split: option.splits)

lemma quiet_notifyAuthoritativeCompletionClosure [quiet_rules]:
  "quiet business (notifyAuthoritativeCompletionClosure report)"
  unfolding notifyAuthoritativeCompletionClosure_def by (intro quiet_rules)

section \<open>What is recorded\<close>

lemma createNotification_notifications:
  "notifications (snd (createNotification n s)) =
     (if n \<in> set (notifications s) then notifications s else notifications s @ [n])"
  by (auto simp: createNotification_def svc_run find_None_iff split: option.splits dest: find_SomeD)

lemma createNotification_run:
  "createNotification n s = (Inr (), s\<lparr>notifications :=
     (if n \<in> set (notifications s) then notifications s else notifications s @ [n])\<rparr>)"
  by (auto simp: createNotification_def svc_run find_None_iff split: option.splits dest: find_SomeD)

lemma for_each_createNotification:
  "for_each xs (\<lambda>x. createNotification (f x)) s = (r, t) \<Longrightarrow>
     set (notifications t) = set (notifications s) \<union> f ` set xs"
proof (induction xs arbitrary: s)
  case (Cons x xs)
  obtain u where u: "createNotification (f x) s = (Inr (), u)"
    using createNotification_run by blast
  have "notifications u = (if f x \<in> set (notifications s) then notifications s else notifications s @ [f x])"
    using createNotification_notifications[of "f x" s] u by simp
  moreover have "for_each xs (\<lambda>x. createNotification (f x)) u = (r, t)"
    using Cons.prems u by simp
  ultimately show ?case
    using Cons.IH by (auto split: if_splits)
qed simp

lemma notifyOrganizationOperators_set:
  "set (notifications (snd (notifyOrganizationOperators organizationId reportId type title message s))) =
     set (notifications s) \<union>
     (\<lambda>u. notice (u_id u) reportId type title message) ` set (organization_operators organizationId s)"
proof -
  have run: "notifyOrganizationOperators organizationId reportId type title message s =
      for_each (organization_operators organizationId s)
        (\<lambda>u. createNotification (notice (u_id u) reportId type title message)) s"
    by (simp add: notifyOrganizationOperators_def)
  show ?thesis
    unfolding run by (rule for_each_createNotification) (rule surjective_pairing)
qed

end
