(* ===== verification/Business_Logic.thy ===== *)
theory Business_Logic imports Platform_Modules Recording begin

text \<open>
  \<open>business-logic/\<close>: the workflow orchestrator that report handlers call after a decision, with its
  policy engine, notification pipeline and audit pipeline. The analytics pipeline only writes to
  the process log and is left out of \<open>publish\<close>.
\<close>

section \<open>Policy engine\<close>

definition module_requirement :: "string \<Rightarrow> module_access_requirement" where
  "module_requirement key =
     \<lparr> q_moduleKey = key, q_requiredRoles = None, q_requiredVerificationLevel = None,
       q_requiredSubscriptionPlans = None, q_requiresOrganization = False, q_hiddenWhenDenied = False \<rparr>"

definition assertMaintenanceActive :: "('s tables_scheme, unit) svc" where
  "assertMaintenanceActive =
     bnd (gets (evaluateAccess
            \<lparr> mu_role = Some CITIZEN, mu_organizationId = None, mu_identityVerificationLevel = None,
              mu_subscriptionPlan = None, mu_organizationSubscriptionPlan = None \<rparr>
            (module_requirement ''maintenance'')))
         (\<lambda>access. throw_if (\<not> x_allowed access) (Forbidden ''Maintenance Services is not active''))"

definition assertCitizenCanReviewCompletion :: "report \<Rightarrow> string \<Rightarrow> ('s, unit) svc" where
  "assertCitizenCanReviewCompletion report userId =
     sq (throw_if (r_citizenId report \<noteq> userId) (Forbidden ''Not your report''))
        (throw_if (r_status report \<noteq> COMPLETED_BY_PROVIDER)
           (Forbidden ''Report is not awaiting citizen review''))"

definition assertRatingAllowed :: "report \<Rightarrow> int option \<Rightarrow> ('s, unit) svc" where
  "assertRatingAllowed report rating =
     throw_if (rating \<noteq> None \<and> r_status report \<noteq> COMPLETED_BY_PROVIDER)
       (Forbidden ''Provider rating is only allowed during completion approval'')"

text \<open>The maintenance module is in the registry and asks a citizen for nothing, so the check passes.\<close>

lemma assertMaintenanceActive_passes: "assertMaintenanceActive s = (Inr (), s)"
proof -
  have "x_allowed (evaluateAccess u (module_requirement ''maintenance'') s)" for u
    by (subst access_maintenance_iff)
      (simp_all add: module_requirement_def role_missing_def level_missing_def plan_missing_def)
  then show ?thesis
    by (simp add: assertMaintenanceActive_def svc_run)
qed

lemma quiet_assertMaintenanceActive [quiet_rules]: "quiet v assertMaintenanceActive"
  by (rule quietI) (simp add: assertMaintenanceActive_passes)

section \<open>Workflow events\<close>

record workflow_input =
  w_reportId :: string
  w_organizationId :: string
  w_actorId :: "string option"
  w_actorRole :: "user_role option"
  w_fromStatus :: "report_status option"
  w_toStatus :: "report_status option"
  w_providerId :: "string option"
  w_citizenId :: "string option"
  w_metadata :: "(string \<times> json) list"

record workflow_event = workflow_input +
  e_type :: string
  e_moduleKey :: string
  e_occurredAt :: int

definition create_event :: "env \<Rightarrow> string \<Rightarrow> workflow_input \<Rightarrow> workflow_event" where
  "create_event env type input =
     workflow_input.extend input \<lparr> e_type = type, e_moduleKey = ''maintenance'', e_occurredAt = now env \<rparr>"

text \<open>
  The pipeline creates its notifications without looking for an existing one, unlike
  \<open>ReportService.createNotification\<close>.
\<close>

definition append_notification :: "notification \<Rightarrow> unit handler" where
  "append_notification n = modify (notifications_update (\<lambda>rows. rows @ [n]))"

definition pipeline_notifyProvider :: "workflow_event \<Rightarrow> string \<Rightarrow> string \<Rightarrow> string \<Rightarrow> nat handler" where
  "pipeline_notifyProvider event type title message =
     (case nonempty (w_providerId event) of
        None \<Rightarrow> ret 0
      | Some providerId \<Rightarrow>
          if w_reportId event = [] then ret 0
          else sq (append_notification (notice providerId (w_reportId event) type title message)) (ret 1))"

definition pipeline_notifyOrganizationOperators ::
    "workflow_event \<Rightarrow> string \<Rightarrow> string \<Rightarrow> string \<Rightarrow> nat handler" where
  "pipeline_notifyOrganizationOperators event type title message =
     (if w_organizationId event = [] \<or> w_reportId event = [] then ret 0
      else bnd (gets (organization_operators (w_organizationId event)))
        (\<lambda>operators. sq (for_each operators (\<lambda>operator.
             append_notification (notice (u_id operator) (w_reportId event) type title message)))
           (ret (length operators))))"

definition notification_emit :: "workflow_event \<Rightarrow> nat handler" where
  "notification_emit event =
     (if w_reportId event = [] then ret 0
      else if e_type event = ''provider_completed_report'' then ret 0
      else if e_type event = ''citizen_confirmed_completion'' then ret 0
      else if e_type event = ''citizen_rejected_completion'' then
        bnd (pipeline_notifyProvider event ''completion_rejected'' ''Completion needs review''
               ''The citizen marked the work incomplete. Please review the feedback.'')
          (\<lambda>providerSent. bnd (pipeline_notifyOrganizationOperators event ''completion_review_requested''
               ''Citizen requested completion review'' ''A citizen marked provider work incomplete.'')
             (\<lambda>operatorSent. ret (providerSent + operatorSent)))
      else if w_toStatus event = Some ASSIGNED \<and> truthy (w_providerId event) then
        pipeline_notifyProvider event ''assignment_created'' ''New assignment''
          ''A report has been assigned to you.''
      else ret 0)"

fun split_underscore :: "string \<Rightarrow> string list" where
  "split_underscore [] = [[]]"
| "split_underscore (c # cs) =
     (if c = CHR 0x5F then [] # split_underscore cs
      else (case split_underscore cs of [] \<Rightarrow> [[c]] | w # ws \<Rightarrow> (c # w) # ws))"

definition capitalize :: "string \<Rightarrow> string" where
  "capitalize part = (case part of [] \<Rightarrow> [] | c # cs \<Rightarrow> upper_char c # cs)"

definition actionFor :: "string \<Rightarrow> string" where
  "actionFor type = ''Workflow '' @ join '' '' (map capitalize (split_underscore type))"

definition audit_emit :: "workflow_event \<Rightarrow> unit handler" where
  "audit_emit event =
     modify (complianceAuditLogs_update (\<lambda>rows. rows @
       [\<lparr> c_action = actionFor (e_type event),
          c_actorId = w_actorId event,
          c_actorRole = w_actorRole event,
          c_organizationId = Some (w_organizationId event),
          c_entityType = Some (if w_reportId event \<noteq> [] then ''Report'' else ''WorkflowEvent''),
          c_entityId = Some (w_reportId event),
          c_metadata = spread [(''moduleKey'', JStr (e_moduleKey event)),
            (''fromStatus'', jopt (JStr \<circ> report_status_name) (w_fromStatus event)),
            (''toStatus'', jopt (JStr \<circ> report_status_name) (w_toStatus event)),
            (''providerId'', jopt JStr (w_providerId event)),
            (''citizenId'', jopt JStr (w_citizenId event))] (w_metadata event) \<rparr>]))"

definition publish :: "env \<Rightarrow> string \<Rightarrow> workflow_input \<Rightarrow> unit handler" where
  "publish env type input =
     (let event = create_event env type input in
      bnd (notification_emit event) (\<lambda>sent. audit_emit event))"

definition providerCompletedReport :: "env \<Rightarrow> workflow_input \<Rightarrow> unit handler" where
  "providerCompletedReport env input =
     sq assertMaintenanceActive (publish env ''provider_completed_report'' input)"

definition citizenConfirmedCompletion :: "env \<Rightarrow> workflow_input \<Rightarrow> unit handler" where
  "citizenConfirmedCompletion env input =
     sq assertMaintenanceActive (publish env ''citizen_confirmed_completion'' input)"

definition citizenRejectedCompletion :: "env \<Rightarrow> workflow_input \<Rightarrow> unit handler" where
  "citizenRejectedCompletion env input =
     sq assertMaintenanceActive (publish env ''citizen_rejected_completion'' input)"

definition assignmentChanged :: "env \<Rightarrow> workflow_input \<Rightarrow> unit handler" where
  "assignmentChanged env input = publish env ''assignment_changed'' input"

section \<open>The orchestrator is quiet\<close>

lemma quiet_append_notification [quiet_rules]: "quiet business (append_notification n)"
  unfolding append_notification_def by (rule quiet_log)

lemma quiet_notification_emit [quiet_rules]: "quiet business (notification_emit event)"
  unfolding notification_emit_def pipeline_notifyProvider_def pipeline_notifyOrganizationOperators_def
  by (intro quiet_rules)

lemma quiet_publish [quiet_rules]: "quiet business (publish env type input)"
  unfolding publish_def Let_def audit_emit_def by (intro quiet_rules quiet_log)

lemma quiet_orchestrator [quiet_rules]:
  "quiet business (providerCompletedReport env input)"
  "quiet business (citizenConfirmedCompletion env input)"
  "quiet business (citizenRejectedCompletion env input)"
  "quiet business (assignmentChanged env input)"
  unfolding providerCompletedReport_def citizenConfirmedCompletion_def citizenRejectedCompletion_def
    assignmentChanged_def
  by (intro quiet_rules)+

end
