(* ===== verification/Category.thy ===== *)
theory Category imports Tables begin

text \<open>
  Service categories as \<open>ReportService\<close> compares them: the normal form of a category name, the
  capabilities a category stands for, and compatibility of two categories
  (\<open>report/report.service.ts\<close>, lines 446-464 and 5830-5870). The alias table is an object literal;
  the model looks up its own keys only (an object also answers for inherited names, of which the
  normal form can reach just one, \<open>constructor\<close>).
\<close>

section \<open>Normal form\<close>

definition is_lower_alnum :: "char \<Rightarrow> bool" where
  "is_lower_alnum c \<longleftrightarrow> (let n = of_char c :: nat in 97 \<le> n \<and> n \<le> 122 \<or> 48 \<le> n \<and> n \<le> 57)"

definition expand_ampersand :: "string \<Rightarrow> string" where
  "expand_ampersand s = concat (map (\<lambda>c. if c = CHR 0x26 then ''and'' else [c]) s)"

fun squash :: "bool \<Rightarrow> string \<Rightarrow> string" where
  "squash in_run [] = []"
| "squash in_run (c # cs) =
     (if is_lower_alnum c then c # squash False cs
      else if in_run then squash True cs
      else CHR 0x5F # squash True cs)"

definition strip_underscores :: "string \<Rightarrow> string" where
  "strip_underscores s = rev (dropWhile (\<lambda>c. c = CHR 0x5F) (rev (dropWhile (\<lambda>c. c = CHR 0x5F) s)))"

definition normalizeResponsibilityCategory :: "string \<Rightarrow> string" where
  "normalizeResponsibilityCategory value =
     strip_underscores (squash False (expand_ampersand (toLowerCase (trim value))))"

section \<open>Capabilities and compatibility\<close>

definition CATEGORY_CAPABILITY_ALIASES :: "(string \<times> string list) list" where
  "CATEGORY_CAPABILITY_ALIASES =
    [(''telecom'', [''ict'', ''electrical'']),
     (''telecommunications'', [''ict'', ''electrical'']),
     (''internet'', [''ict'', ''electrical'']),
     (''network'', [''ict'', ''electrical'']),
     (''fibre'', [''ict'', ''electrical'']),
     (''fiber'', [''ict'', ''electrical'']),
     (''road'', [''civil_works'']),
     (''pothole'', [''civil_works'']),
     (''drainage'', [''civil_works'', ''plumbing'']),
     (''water'', [''plumbing'']),
     (''plumbing'', [''plumbing'']),
     (''electrical'', [''electrical'']),
     (''electricity'', [''electrical'']),
     (''light'', [''electrical'']),
     (''lighting'', [''electrical'']),
     (''waste'', [''facilities'']),
     (''cleaning'', [''facilities''])]"

definition capabilityIdsForCategory :: "string \<Rightarrow> string list" where
  "capabilityIdsForCategory normalizedCategory =
     (if normalizedCategory = [] then []
      else let direct = or_else (map_of CATEGORY_CAPABILITY_ALIASES normalizedCategory) [];
               fuzzy = concat (map snd (filter
                 (\<lambda>(category, capabilities). contains normalizedCategory category \<or> contains category normalizedCategory)
                 CATEGORY_CAPABILITY_ALIASES))
           in uniq (direct @ fuzzy))"

definition categoriesCompatible :: "string \<Rightarrow> string \<Rightarrow> bool" where
  "categoriesCompatible left right =
     (if left = [] \<or> right = [] then True
      else if left = right then True
      else if contains left right \<or> contains right left then True
      else list_ex (\<lambda>item. item \<in> set (capabilityIdsForCategory right)) (capabilityIdsForCategory left))"

definition jsonStringList :: "json option \<Rightarrow> string list" where
  "jsonStringList value = (case value of
     Some (JArr items) \<Rightarrow> filter (\<lambda>item. item \<noteq> []) (map (\<lambda>item. trim (json_text item)) items)
   | _ \<Rightarrow> [])"

text \<open>The known categories: an alias, a category of an existing report, or one a provider serves.\<close>

definition assertKnownCompletionCategory :: "string \<Rightarrow> unit handler" where
  "assertKnownCompletionCategory normalizedCategory =
     (if map_of CATEGORY_CAPABILITY_ALIASES normalizedCategory \<noteq> None then ret ()
      else bnd (gets (\<lambda>s. take 250 (filter (\<lambda>r. r_category r \<noteq> []) (reports s)))) (\<lambda>rows.
        if list_ex (\<lambda>r. categoriesCompatible (normalizeResponsibilityCategory (r_category r)) normalizedCategory) rows
        then ret ()
        else bnd (gets (\<lambda>s. take 250 (filter (\<lambda>u. u_serviceCategories u \<notin> {None, Some JNull}) (users s)))) (\<lambda>providers.
          let providerCategories = concat (map (\<lambda>u. jsonStringList (u_serviceCategories u)) providers) in
          if list_ex (\<lambda>item. categoriesCompatible (normalizeResponsibilityCategory item) normalizedCategory)
               providerCategories
          then ret ()
          else throw (BadRequest ''Unknown service category''))))"

lemma reads_assertKnownCompletionCategory [reads_rules]: "reads (assertKnownCompletionCategory c)"
  unfolding assertKnownCompletionCategory_def Let_def by (intro reads_rules)

section \<open>The normal form is a normal form\<close>

text \<open>
  A name in normal form: lower-case letters and digits in words separated by single underscores,
  none at either end.
\<close>

fun words_ok :: "bool \<Rightarrow> string \<Rightarrow> bool" where
  "words_ok in_run [] \<longleftrightarrow> True"
| "words_ok in_run (c # cs) \<longleftrightarrow>
     (if is_lower_alnum c then words_ok False cs else c = CHR 0x5F \<and> \<not> in_run \<and> words_ok True cs)"

definition category_normal :: "string \<Rightarrow> bool" where
  "category_normal s \<longleftrightarrow> words_ok False s \<and> (s \<noteq> [] \<longrightarrow> hd s \<noteq> CHR 0x5F \<and> last s \<noteq> CHR 0x5F)"

lemma underscore_not_alnum [simp]: "\<not> is_lower_alnum CHR 0x5F"
  by (simp add: is_lower_alnum_def)

lemma squash_words_ok: "words_ok r (squash r s)"
  by (induction r s rule: squash.induct) simp_all

lemma words_ok_weaken: "words_ok r s \<Longrightarrow> words_ok False s"
  by (cases s) (simp_all split: if_splits)

lemma words_ok_tl: "words_ok r (c # cs) \<Longrightarrow> words_ok False cs"
  using words_ok_weaken[of True cs] by (auto split: if_splits)

lemma words_ok_dropWhile: "words_ok False s \<Longrightarrow> words_ok False (dropWhile P s)"
proof (induction s)
  case (Cons c cs)
  then show ?case
    using words_ok_tl[OF Cons.prems] by (cases "P c") simp_all
qed simp

lemma words_ok_prefix: "words_ok r (xs @ ys) \<Longrightarrow> words_ok r xs"
  by (induction r xs rule: words_ok.induct) (simp_all split: if_splits)

lemma words_ok_rstrip: "words_ok r s \<Longrightarrow> words_ok r (rev (dropWhile P (rev s)))"
  by (metis rev_dropWhile_prefix words_ok_prefix)

lemma rstrip_last: "rev (dropWhile P (rev s)) \<noteq> [] \<Longrightarrow> \<not> P (last (rev (dropWhile P (rev s))))"
  by (metis hd_dropWhile last_rev rev_is_Nil_conv)

lemma strip_normal: "words_ok False s \<Longrightarrow> category_normal (strip_underscores s)"
proof -
  let ?P = "\<lambda>c. c = CHR 0x5F"
  let ?d = "dropWhile ?P s"
  assume "words_ok False s"
  then have "words_ok False (strip_underscores s)"
    unfolding strip_underscores_def by (intro words_ok_rstrip words_ok_dropWhile)
  moreover have "strip_underscores s \<noteq> [] \<Longrightarrow> \<not> ?P (last (strip_underscores s))"
    unfolding strip_underscores_def by (rule rstrip_last)
  moreover have "\<not> ?P (hd (strip_underscores s))" if ne: "strip_underscores s \<noteq> []"
  proof -
    from ne have "?d \<noteq> []"
      unfolding strip_underscores_def by (metis dropWhile.simps(1) rev.simps(1))
    then have "\<not> ?P (hd ?d)" by (rule hd_dropWhile)
    then show ?thesis using ne rstrip_hd[of ?P ?d] by (simp add: strip_underscores_def)
  qed
  ultimately show ?thesis
    unfolding category_normal_def by blast
qed

lemma words_ok_char: "words_ok r s \<Longrightarrow> c \<in> set s \<Longrightarrow> is_lower_alnum c \<or> c = CHR 0x5F"
  by (induction r s rule: words_ok.induct) (simp, simp split: if_splits, blast+)

lemma normal_char_facts:
  assumes "is_lower_alnum c \<or> c = CHR 0x5F"
  shows "lower_char c = c" "\<not> is_space c" "c \<noteq> CHR 0x26"
proof -
  have "(of_char c :: nat) \<noteq> 38 \<and> \<not> is_space c \<and> lower_char c = c"
    using assms by (auto simp: is_lower_alnum_def lower_char_def is_space_def Let_def)
  then show "lower_char c = c" "\<not> is_space c" "c \<noteq> CHR 0x26"
    by auto
qed

lemma squash_words_ok_id: "words_ok r s \<Longrightarrow> squash r s = s"
  by (induction r s rule: words_ok.induct) (simp_all split: if_splits)

lemma dropWhile_none: "(\<And>x. x \<in> set xs \<Longrightarrow> \<not> P x) \<Longrightarrow> dropWhile P xs = xs"
  by (cases xs) auto

lemma strip_normal_id:
  assumes "category_normal s"
  shows "strip_underscores s = s"
proof (cases s rule: rev_cases)
  case (snoc ys y)
  have "hd s \<noteq> CHR 0x5F" "y \<noteq> CHR 0x5F"
    using assms snoc by (auto simp: category_normal_def)
  then show ?thesis
    using snoc by (cases ys) (auto simp: strip_underscores_def)
qed (simp add: strip_underscores_def)

lemma normalize_normal: "category_normal (normalizeResponsibilityCategory v)"
  unfolding normalizeResponsibilityCategory_def by (intro strip_normal squash_words_ok)

lemma normalize_of_normal:
  assumes "category_normal s"
  shows "normalizeResponsibilityCategory s = s"
proof -
  have ok: "words_ok False s"
    using assms by (simp add: category_normal_def)
  note facts = normal_char_facts[OF words_ok_char[OF ok]]
  have "trim s = s"
    using facts(2) dropWhile_none[of s is_space] dropWhile_none[of "rev s" is_space] by (simp add: trim_def)
  moreover have "toLowerCase s = s"
    using facts(1) by (simp add: toLowerCase_def map_idI)
  moreover have "expand_ampersand t = t" if "CHR 0x26 \<notin> set t" for t
    using that by (induction t) (auto simp: expand_ampersand_def)
  ultimately show ?thesis
    using assms ok facts(3)
    by (metis normalizeResponsibilityCategory_def squash_words_ok_id strip_normal_id)
qed

section \<open>Compatibility\<close>

lemma categoriesCompatible_refl [simp]: "categoriesCompatible c c"
  by (simp add: categoriesCompatible_def)

lemma compatible_commute: "categoriesCompatible a b = categoriesCompatible b a"
  by (auto simp: categoriesCompatible_def list_ex_iff)

lemma compatible_shared_capability:
  assumes "k \<in> set (capabilityIdsForCategory a)" and "k \<in> set (capabilityIdsForCategory b)"
  shows "categoriesCompatible a b"
  using assms by (auto simp: categoriesCompatible_def list_ex_iff)

end
