(* ===== verification/Completion_Policy.thy ===== *)
theory Completion_Policy imports Category begin

text \<open>
  The completion policy of a report and what it asks for (\<open>report/report.service.ts\<close>, lines
  4028-4404 and 4616-4644): where the policy comes from, when a pair of decisions satisfies it,
  the review state shown while it is not satisfied, and what blocks a decision.
\<close>

section \<open>Where the policy comes from\<close>

definition normalizeCompletionPolicy :: "json option \<Rightarrow> completion_policy option" where
  "normalizeCompletionPolicy value = (case value of
     Some (JStr text) \<Rightarrow>
       (let normalized = toUpperCase (trim text)
        in find (\<lambda>p. completion_policy_name p = normalized) enum_class.enum)
   | _ \<Rightarrow> None)"

definition policyForReport :: "env \<Rightarrow> report \<Rightarrow> completion_policy" where
  "policyForReport env report =
     or_else (coalesce (r_completionPolicy report)
                (normalizeCompletionPolicy (map_option JStr (completionPolicyEnv env))))
       CITIZEN_CONFIRMATION_REQUIRED"

definition completionPolicyFromProfile :: "json option \<Rightarrow> completion_policy option" where
  "completionPolicyFromProfile profileData = (case profileData of
     Some (JObj profile) \<Rightarrow> normalizeCompletionPolicy (map_of profile ''completionPolicy'')
   | _ \<Rightarrow> None)"

primrec first_category_policy :: "(string \<times> json) list \<Rightarrow> string \<Rightarrow> completion_policy option" where
  "first_category_policy [] normalizedCategory = None"
| "first_category_policy (entry # entries) normalizedCategory =
     (if categoriesCompatible (normalizeResponsibilityCategory (fst entry)) normalizedCategory
      then (case normalizeCompletionPolicy (Some (snd entry)) of
              Some p \<Rightarrow> Some p
            | None \<Rightarrow> first_category_policy entries normalizedCategory)
      else first_category_policy entries normalizedCategory)"

definition policyFromCategoryRecord :: "json option \<Rightarrow> string \<Rightarrow> completion_policy option" where
  "policyFromCategoryRecord value normalizedCategory = (case value of
     Some (JObj entries) \<Rightarrow> first_category_policy entries normalizedCategory
   | _ \<Rightarrow> None)"

text \<open>None stands for a missing key as well as for the \<open>null\<close> a path stops with.\<close>

primrec profilePath :: "json option \<Rightarrow> string list \<Rightarrow> json option" where
  "profilePath current [] = current"
| "profilePath current (key # path) =
     profilePath (case current of Some (JObj kvs) \<Rightarrow> map_of kvs key | _ \<Rightarrow> None) path"

primrec first_policy :: "json option list \<Rightarrow> string \<Rightarrow> completion_policy option" where
  "first_policy [] c = None"
| "first_policy (m # ms) c = (case policyFromCategoryRecord m c of Some p \<Rightarrow> Some p | None \<Rightarrow> first_policy ms c)"

definition completionPolicyFromCategoryMap :: "json option \<Rightarrow> string \<Rightarrow> completion_policy option" where
  "completionPolicyFromCategoryMap profileData category =
     (let normalizedCategory = normalizeResponsibilityCategory category in
      if normalizedCategory = [] then None
      else (case profileData of
          Some (JObj profile) \<Rightarrow> first_policy
            [map_of profile ''completionPoliciesByCategory'',
             map_of profile ''categoryCompletionPolicies'',
             profilePath profileData [''serviceConfiguration'', ''completionPoliciesByCategory'']]
            normalizedCategory
        | _ \<Rightarrow> None))"

definition completionPolicyFromPlatformCategory ::
    "env \<Rightarrow> string \<Rightarrow> 's tables_scheme \<Rightarrow> completion_policy option" where
  "completionPolicyFromPlatformCategory env category s =
     (let normalizedCategory = normalizeResponsibilityCategory category in
      if normalizedCategory = [] then None
      else coalesce
        (policyFromCategoryRecord (map_of (platformSettings s) ''completionPoliciesByCategory'') normalizedCategory)
        (policyFromCategoryRecord (categoryPoliciesEnv env) normalizedCategory))"

definition requiresDualCompletionByDefault :: "string \<Rightarrow> bool" where
  "requiresDualCompletionByDefault category =
     (let normalized = normalizeResponsibilityCategory category in
      list_ex (\<lambda>item. categoriesCompatible normalized (normalizeResponsibilityCategory item))
        [''road'', ''roads'', ''road maintenance'', ''road infrastructure'', ''infrastructure'',
         ''civil works'', ''drainage'', ''bridge'', ''street lighting'', ''public works''])"

record completion_policy_resolution =
  cpr_policy :: completion_policy
  cpr_source :: string

definition resolved :: "completion_policy \<Rightarrow> string \<Rightarrow> completion_policy_resolution" where
  "resolved policy source = \<lparr> cpr_policy = policy, cpr_source = source \<rparr>"

definition resolveCompletionPolicy ::
    "env \<Rightarrow> completion_policy option \<Rightarrow> string \<Rightarrow> json option \<Rightarrow> 's tables_scheme \<Rightarrow> completion_policy_resolution" where
  "resolveCompletionPolicy env override category profileData s =
     (case override of
        Some p \<Rightarrow> resolved p ''REPORT_OVERRIDE''
      | None \<Rightarrow>
     (case completionPolicyFromCategoryMap profileData category of
        Some p \<Rightarrow> resolved p ''ORGANIZATION_SERVICE_CATEGORY''
      | None \<Rightarrow>
     (case completionPolicyFromPlatformCategory env category s of
        Some p \<Rightarrow> resolved p ''PLATFORM_SERVICE_CATEGORY''
      | None \<Rightarrow>
     (case completionPolicyFromProfile profileData of
        Some p \<Rightarrow> resolved p ''ORGANIZATION_PROFILE''
      | None \<Rightarrow>
     (case normalizeCompletionPolicy (map_option JStr (completionPolicyEnv env)) of
        Some p \<Rightarrow> resolved p ''PLATFORM_ENV''
      | None \<Rightarrow>
        if requiresDualCompletionByDefault category
        then resolved BOTH_REQUIRED ''BUILT_IN_OPERATIONAL_CATEGORY_DEFAULT''
        else resolved CITIZEN_CONFIRMATION_REQUIRED ''PLATFORM_DEFAULT'')))))"

definition hour_ms :: int where "hour_ms = 3600000"

text \<open>The server runs on a clock without changes of its offset, so an hour is 3,600,000 ms.\<close>

definition reviewDeadlineFor :: "env \<Rightarrow> completion_policy \<Rightarrow> int option" where
  "reviewDeadlineFor env policy =
     (if policy \<noteq> AUTO_CLOSE_AFTER_REVIEW_WINDOW then None
      else Some (now env + or_else (reviewWindowHours env) 72 * hour_ms))"

section \<open>What the policy asks for\<close>

definition reviewStateFor ::
    "completion_policy \<Rightarrow> completion_decision option \<Rightarrow> completion_decision option \<Rightarrow> string" where
  "reviewStateFor policy citizenDecision organizationDecision =
     (if citizenDecision = Some DISPUTED \<or> organizationDecision = Some ESCALATED then ''DISPUTED''
      else if citizenDecision = Some REWORK_REQUESTED \<or> organizationDecision = Some REWORK_REQUESTED then
        ''REWORK_REQUESTED''
      else if policy = BOTH_REQUIRED \<and> citizenDecision = Some CONFIRMED then
        ''AWAITING_ORGANIZATION_VERIFICATION''
      else if policy = BOTH_REQUIRED \<and> organizationDecision = Some VERIFIED then ''AWAITING_CITIZEN_REVIEW''
      else if policy = ORGANIZATION_CONFIRMATION_REQUIRED then ''AWAITING_ORGANIZATION_VERIFICATION''
      else if policy = ADMIN_RESOLUTION_REQUIRED then ''AWAITING_ADMIN_RESOLUTION''
      else if policy = AUTO_CLOSE_AFTER_REVIEW_WINDOW then ''AWAITING_REVIEW_WINDOW''
      else if policy = BOTH_REQUIRED then ''AWAITING_BOTH''
      else ''AWAITING_CITIZEN_REVIEW'')"

definition isCompletionSatisfied ::
    "completion_policy \<Rightarrow> completion_decision option \<Rightarrow> completion_decision option \<Rightarrow> bool" where
  "isCompletionSatisfied policy citizenDecision organizationDecision =
     (let citizenConfirmed = (citizenDecision = Some CONFIRMED);
          organizationVerified = (organizationDecision = Some VERIFIED)
      in case policy of
           CITIZEN_CONFIRMATION_REQUIRED \<Rightarrow> citizenConfirmed
         | ORGANIZATION_CONFIRMATION_REQUIRED \<Rightarrow> organizationVerified
         | BOTH_REQUIRED \<Rightarrow> citizenConfirmed \<and> organizationVerified
         | CITIZEN_OR_ORGANIZATION \<Rightarrow> citizenConfirmed \<or> organizationVerified
         | AUTO_CLOSE_AFTER_REVIEW_WINDOW \<Rightarrow> citizenConfirmed \<or> organizationVerified
         | ADMIN_RESOLUTION_REQUIRED \<Rightarrow> False)"

definition under_dispute :: "report \<Rightarrow> bool" where
  "under_dispute report \<longleftrightarrow>
     r_completionReviewState report = Some ''DISPUTED'' \<or>
     r_citizenCompletionDecision report = Some DISPUTED \<or>
     r_organizationCompletionDecision report = Some ESCALATED"

definition rework_required :: "report \<Rightarrow> bool" where
  "rework_required report \<longleftrightarrow>
     r_completionReviewState report = Some ''REWORK_REQUESTED'' \<or>
     r_citizenCompletionDecision report = Some REWORK_REQUESTED \<or>
     r_organizationCompletionDecision report = Some REWORK_REQUESTED"

definition assertNoActiveCompletionBlockers :: "report \<Rightarrow> ('s, unit) svc" where
  "assertNoActiveCompletionBlockers report =
     sq (throw_if (r_status report = CLOSED) (Conflict ''Report is already closed''))
    (sq (throw_if (under_dispute report) (Conflict ''Completion is under dispute''))
    (sq (throw_if (truthy (r_completionGovernanceHoldReason report))
           (Conflict ''Completion is on governance hold''))
        (throw_if (rework_required report) (Conflict ''Completion rework is required''))))"

definition assertCitizenCanRequestCompletionRework :: "report \<Rightarrow> ('s, unit) svc" where
  "assertCitizenCanRequestCompletionRework report =
     sq (throw_if (r_citizenCompletionDecision report = Some CONFIRMED)
           (Conflict ''Citizen completion decision has already been submitted for this attempt''))
        (throw_if (r_citizenCompletionDecision report = Some REWORK_REQUESTED)
           (Conflict ''Citizen completion rework has already been requested for this attempt''))"

definition assertOrganizationCanRequestCompletionRework :: "report \<Rightarrow> ('s, unit) svc" where
  "assertOrganizationCanRequestCompletionRework report =
     sq (throw_if (r_organizationCompletionDecision report = Some VERIFIED)
           (Conflict ''Organization completion decision has already been submitted for this attempt''))
        (throw_if (r_organizationCompletionDecision report = Some REWORK_REQUESTED)
           (Conflict ''Organization completion rework has already been requested for this attempt''))"

definition completionDeadlineSkipReason :: "report \<Rightarrow> string option" where
  "completionDeadlineSkipReason report =
     (if r_status report = CLOSED then Some ''already_closed''
      else if r_completionReviewProcessedAt report \<noteq> None then Some ''already_processed''
      else if truthy (r_completionGovernanceHoldReason report) then Some ''governance_hold''
      else if under_dispute report then Some ''active_dispute''
      else if rework_required report then Some ''active_rework''
      else None)"

record completion_governance_summary =
  cg_policy :: completion_policy
  cg_policySource :: string
  cg_reviewState :: string
  cg_reviewDeadlineAt :: "int option"
  cg_reviewProcessedAt :: "int option"
  cg_fallbackRule :: "string option"
  cg_finalActorType :: "string option"
  cg_governanceHoldReason :: "string option"
  cg_citizenDecision :: "completion_decision option"
  cg_citizenDecidedAt :: "int option"
  cg_organizationDecision :: "completion_decision option"
  cg_organizationDecidedAt :: "int option"
  cg_organizationDecidedById :: "string option"
  cg_organizationReason :: "string option"
  cg_finalizedAt :: "int option"
  cg_finalizedById :: "string option"
  cg_finalizedByRole :: "user_role option"
  cg_closureReason :: "string option"
  cg_disputeReason :: "string option"

definition completionGovernanceSummary :: "report \<Rightarrow> completion_governance_summary" where
  "completionGovernanceSummary report =
     \<lparr> cg_policy = or_else (r_completionPolicy report) CITIZEN_CONFIRMATION_REQUIRED,
       cg_policySource = or_else (r_completionPolicySource report) ''LEGACY_DEFAULT'',
       cg_reviewState = or_else (r_completionReviewState report)
         (if r_completionFinalizedAt report \<noteq> None then ''CLOSED'' else ''AWAITING_CITIZEN_REVIEW''),
       cg_reviewDeadlineAt = r_completionReviewDeadlineAt report,
       cg_reviewProcessedAt = r_completionReviewProcessedAt report,
       cg_fallbackRule = r_completionFallbackRule report,
       cg_finalActorType = r_completionFinalActorType report,
       cg_governanceHoldReason = r_completionGovernanceHoldReason report,
       cg_citizenDecision = r_citizenCompletionDecision report,
       cg_citizenDecidedAt = r_citizenCompletionDecidedAt report,
       cg_organizationDecision = r_organizationCompletionDecision report,
       cg_organizationDecidedAt = r_organizationCompletionDecidedAt report,
       cg_organizationDecidedById = r_organizationCompletionDecidedById report,
       cg_organizationReason = r_organizationCompletionReason report,
       cg_finalizedAt = r_completionFinalizedAt report,
       cg_finalizedById = r_completionFinalizedById report,
       cg_finalizedByRole = r_completionFinalizedByRole report,
       cg_closureReason = r_completionClosureReason report,
       cg_disputeReason = r_completionDisputeReason report \<rparr>"

section \<open>Lemmas\<close>

lemma reads_completion_guards [reads_rules]:
  "reads (assertNoActiveCompletionBlockers report)"
  "reads (assertCitizenCanRequestCompletionRework report)"
  "reads (assertOrganizationCanRequestCompletionRework report)"
  unfolding assertNoActiveCompletionBlockers_def assertCitizenCanRequestCompletionRework_def
    assertOrganizationCanRequestCompletionRework_def
  by (intro reads_rules)+

text \<open>Nothing blocks a decision exactly when the deadline processor, for a report it has not processed, would close it.\<close>

definition blocked :: "report \<Rightarrow> bool" where
  "blocked report \<longleftrightarrow> r_status report = CLOSED \<or> under_dispute report \<or>
     truthy (r_completionGovernanceHoldReason report) \<or> rework_required report"

lemma assertNoActiveCompletionBlockers_Inr:
  "assertNoActiveCompletionBlockers report s = (Inr x, t) \<longleftrightarrow> \<not> blocked report \<and> t = s"
  by (auto simp: assertNoActiveCompletionBlockers_def blocked_def svc_run)

lemma assertCitizenCanRequestCompletionRework_Inr:
  "assertCitizenCanRequestCompletionRework report s = (Inr x, t) \<longleftrightarrow>
     r_citizenCompletionDecision report \<notin> {Some CONFIRMED, Some REWORK_REQUESTED} \<and> t = s"
  by (auto simp: assertCitizenCanRequestCompletionRework_def svc_run)

lemma assertOrganizationCanRequestCompletionRework_Inr:
  "assertOrganizationCanRequestCompletionRework report s = (Inr x, t) \<longleftrightarrow>
     r_organizationCompletionDecision report \<notin> {Some VERIFIED, Some REWORK_REQUESTED} \<and> t = s"
  by (auto simp: assertOrganizationCanRequestCompletionRework_def svc_run)

lemma completionDeadlineSkipReason_None:
  "completionDeadlineSkipReason report = None \<longleftrightarrow>
     \<not> blocked report \<and> r_completionReviewProcessedAt report = None"
  by (auto simp: completionDeadlineSkipReason_def blocked_def)

lemma toUpperCase_policy_name [simp]: "toUpperCase (trim (completion_policy_name p)) = completion_policy_name p"
  by (cases p) (simp_all add: trim_def toUpperCase_def upper_char_def is_space_def)

lemma normalizeCompletionPolicy_name [simp]:
  "normalizeCompletionPolicy (Some (JStr (completion_policy_name p))) = Some p"
proof -
  have "find (\<lambda>q. completion_policy_name q = completion_policy_name p) enum_class.enum = Some p"
    by (cases p) (simp_all add: enum_completion_policy_def)
  then show ?thesis
    by (simp add: normalizeCompletionPolicy_def Let_def)
qed

lemma first_category_policy_append_hit:
  assumes "first_category_policy xs c = Some p"
  shows "first_category_policy (xs @ ys) c = Some p"
  using assms by (induction xs) (auto split: if_splits option.splits)

lemma first_category_policy_append_miss:
  assumes "first_category_policy xs c = None"
  shows "first_category_policy (xs @ ys) c = first_category_policy ys c"
  using assms by (induction xs) (auto split: if_splits option.splits)

end
