(* ===== verification/Report_Handler.thy ===== *)
theory Report_Handler imports Business_Logic Completion_Policy begin

text \<open>
  The contract that the handlers of \<open>ReportService\<close> which change one report share, as a locale: a
  run on a valid input (a user the authentication layer let in) is rejected without any business change, answers without a change, or replaces exactly the
  targeted row by a function of it. Each handler's theory interprets the locale with its own guard
  and change; the lemmas here (other rows and other tables are left alone, an invariant of rows is
  kept, every row takes one step) then hold for it.
\<close>

lemma list_all2_in_right: "list_all2 P xs ys \<Longrightarrow> y \<in> set ys \<Longrightarrow> \<exists>x\<in>set xs. P x y"
  by (induction rule: list_all2_induct) auto

definition report_ids_ok :: "'s tables_scheme \<Rightarrow> bool" where
  "report_ids_ok s \<longleftrightarrow> distinct (map r_id (reports s))"

lemma find_report_of_member:
  "report_ids_ok s \<Longrightarrow> r \<in> set (reports s) \<Longrightarrow> find_report (r_id r) s = Some r"
  by (simp add: report_ids_ok_def find_report_def row_find_def find_distinct_key)

locale report_handler =
  fixes run :: "'i \<Rightarrow> report handler"
    and valid :: "'i \<Rightarrow> bool"
    and target :: "'i \<Rightarrow> string"
    and accepts :: "'i \<Rightarrow> db \<Rightarrow> report \<Rightarrow> bool"
    and change :: "'i \<Rightarrow> report \<Rightarrow> report"
  assumes outcome: "valid i \<Longrightarrow> run i s = (res, t) \<Longrightarrow>
      (\<exists>e. res = Inl e \<and> business t = business s) \<or>
      (\<exists>r. res = Inr r \<and> find_report (target i) s = Some r \<and> business t = business s) \<or>
      (\<exists>r. find_report (target i) s = Some r \<and> accepts i s r \<and> res = Inr (change i r) \<and>
           business t = put_report (target i) (change i) (business s))"
    and change_id: "r_id (change i r) = r_id r"
begin

lemma runE:
  assumes "valid i" and "run i s = (res, t)"
  obtains (rejected) e where "res = Inl e" "business t = business s"
    | (answered) r where "res = Inr r" "find_report (target i) s = Some r" "business t = business s"
    | (changed) r where "find_report (target i) s = Some r" "accepts i s r" "res = Inr (change i r)"
        "business t = put_report (target i) (change i) (business s)"
  using outcome[OF assms] by blast

lemma error_changes_nothing: "valid i \<Longrightarrow> run i s = (Inl e, t) \<Longrightarrow> business t = business s"
  by (erule (1) runE) simp_all

lemma tables_kept:
  assumes "valid i" and "run i s = (res, t)"
  shows "users t = users s" "organizations t = organizations s"
    "providerOrganizations t = providerOrganizations s" "platformSettings t = platformSettings s"
  by (rule runE[OF assms]; metis business_fields put_report_fields)+

lemma other_reports_kept:
  assumes "valid i" and "run i s = (res, t)" and "k \<noteq> target i"
  shows "find_report k t = find_report k s"
  using assms(1,2)
proof (cases rule: runE)
  case (changed r)
  then have "find_report k t = find_report k (put_report (target i) (change i) (business s))"
    by (metis find_report_business)
  then show ?thesis
    using assms(3) by (simp add: report_table.find_put_other change_id)
qed (metis find_report_business)+

lemma result_stored:
  assumes "valid i" and "run i s = (Inr r, t)"
  shows "find_report (target i) t = Some r"
  using assms
proof (cases rule: runE)
  case (changed x)
  then have "find_report (target i) t = find_report (target i) (put_report (target i) (change i) (business s))"
    by (metis find_report_business)
  then show ?thesis
    using changed by (simp add: report_table.find_put_same change_id)
next
  case (answered x)
  then show ?thesis by simp (metis find_report_business)
qed simp

lemma rows:
  assumes "run i s = (res, t)" and "valid i" and "report_ids_ok s"
  shows "list_all2 (\<lambda>r r'. r' = r \<or> (accepts i s r \<and> r_id r = target i) \<and> r' = change i r) (reports s) (reports t)"
proof (rule runE[OF assms(2,1)])
  fix x
  assume x: "find_report (target i) s = Some x" "accepts i s x"
    and t: "business t = put_report (target i) (change i) (business s)"
  have "reports t = map (\<lambda>r. if r_id r = target i then change i r else r) (reports s)"
    using t by (metis business_fields(1) reports_put_report upd_rows_def)
  moreover have "r = x" if "r \<in> set (reports s)" "r_id r = target i" for r
    using find_report_of_member[OF assms(3) that(1)] that(2) x(1) by simp
  ultimately show ?thesis
    using x(2) by (auto simp: list.rel_map list_all2_same)
qed (auto dest!: business_eq_fields(1) simp: list_all2_same)

end

text \<open>
  A weaker contract, for operations that may change several reports or change one and then throw:
  every row of the table takes at most one step of a relation, and rows keep their ids and places.
  The contract above gives it.
\<close>

locale row_contract =
  fixes run :: "'i \<Rightarrow> (db, 'a) svc"
    and valid :: "'i \<Rightarrow> bool"
    and steps :: "'i \<Rightarrow> db \<Rightarrow> report \<Rightarrow> report \<Rightarrow> bool"
  assumes row_steps: "run i s = (res, t) \<Longrightarrow> valid i \<Longrightarrow> report_ids_ok s \<Longrightarrow>
      list_all2 (\<lambda>r r'. r' = r \<or> steps i s r r') (reports s) (reports t)"
    and steps_id: "steps i s r r' \<Longrightarrow> r_id r' = r_id r"
begin

lemma ids_kept:
  assumes "run i s = (res, t)" and "valid i" and "report_ids_ok s"
  shows "map r_id (reports t) = map r_id (reports s)"
  using row_steps[OF assms]
  by (induction rule: list_all2_induct) (auto dest: steps_id)

lemma ids_ok:
  assumes "run i s = (res, t)" and "valid i" and "report_ids_ok s"
  shows "report_ids_ok t"
  using assms(3) ids_kept[OF assms] by (simp add: report_ids_ok_def)

lemma row_history:
  assumes "run i s = (res, t)" and "valid i" and "report_ids_ok s" and "r' \<in> set (reports t)"
  shows "\<exists>r\<in>set (reports s). r' = r \<or> steps i s r r'"
  by (rule list_all2_in_right[OF row_steps[OF assms(1-3)] assms(4)])

lemma row_future:
  assumes "run i s = (res, t)" and "valid i" and "report_ids_ok s" and "find_report k s = Some r"
  shows "\<exists>r'. find_report k t = Some r' \<and> (r' = r \<or> steps i s r r')"
proof -
  have "r \<in> set (reports s)" "r_id r = k"
    using find_report_SomeD[OF assms(4)] by simp_all
  then obtain n where n: "n < length (reports s)" "reports s ! n = r"
    by (auto simp: in_set_conv_nth)
  let ?r' = "reports t ! n"
  have len: "length (reports t) = length (reports s)"
    using row_steps[OF assms(1-3)] by (simp add: list_all2_lengthD)
  have step: "?r' = r \<or> steps i s r ?r'"
    using row_steps[OF assms(1-3)] n by (auto simp: list_all2_conv_all_nth)
  then have "r_id ?r' = k"
    using \<open>r_id r = k\<close> by (auto dest: steps_id)
  moreover have "?r' \<in> set (reports t)"
    using n(1) len by simp
  ultimately have "find_report k t = Some ?r'"
    using find_report_of_member[OF ids_ok[OF assms(1-3)]] by blast
  with step show ?thesis by blast
qed

lemma invariant_kept:
  assumes "run i s = (res, t)" and "valid i" and "report_ids_ok s"
    and "\<And>r. r \<in> set (reports s) \<Longrightarrow> I r"
    and "\<And>r r'. steps i s r r' \<Longrightarrow> I r \<Longrightarrow> I r'" and "r' \<in> set (reports t)"
  shows "I r'"
  using row_history[OF assms(1-3,6)] assms(4,5) by blast

end

sublocale report_handler \<subseteq> row_contract run valid
    "\<lambda>i s r r'. (accepts i s r \<and> r_id r = target i) \<and> r' = change i r"
proof (unfold_locales, goal_cases)
  case (1 i s res t)
  then show ?case by (rule rows)
next
  case (2 i s r r')
  then show ?case by (simp add: change_id)
qed

section \<open>Reading a report\<close>

definition getReportById :: "string \<Rightarrow> jwt_user \<Rightarrow> report handler" where
  "getReportById reportId user =
     bnd (getUserId user) (\<lambda>userId.
     bnd (gets (find_report reportId)) (\<lambda>found.
     bnd (require (NotFound ''Report not found'') found) (\<lambda>report.
       let sameOrg = truthy (j_organizationId user) \<and> j_organizationId user = Some (r_organizationId report);
           assignedReviewOrg = truthy (j_organizationId user) \<and>
             r_assignedOrganizationId report = j_organizationId user \<and> r_status report = ORG_REVIEW
       in
       if isSuperAdmin user then ret report
       else if r_citizenId report = userId then ret report
       else if r_assignedProviderId report = Some userId \<and> isProvider user then ret report
       else if (isAdmin user \<or> isDispatch user) \<and> (sameOrg \<or> assignedReviewOrg) \<and> r_status report \<noteq> TRIAGE
         then ret report
       else throw (Forbidden ''Access denied''))))"

lemma reads_getReportById [reads_rules]: "reads (getReportById i user)"
  unfolding getReportById_def Let_def by (intro reads_rules)

lemma getReportById_Inr:
  assumes "getReportById i user s = (Inr r, t)"
  shows "find_report i s = Some r" "t = s"
proof -
  show "t = s" by (rule readsD[OF reads_getReportById assms])
  from assms show "find_report i s = Some r"
    unfolding getReportById_def Let_def
    by (elim bnd_InrE) (auto dest!: getUserId_InrD split: if_splits option.splits)
qed

definition requiredGovernanceReason :: "string option \<Rightarrow> ('s, string) svc" where
  "requiredGovernanceReason reason = require (BadRequest ''Reason is required'') (trimmed reason)"

lemma reads_requiredGovernanceReason [reads_rules]: "reads (requiredGovernanceReason reason)"
  unfolding requiredGovernanceReason_def by (intro reads_rules)

lemma requiredGovernanceReason_InrD:
  "requiredGovernanceReason reason s = (Inr x, t) \<Longrightarrow> trimmed reason = Some x \<and> x \<noteq> [] \<and> t = s"
  by (auto simp: requiredGovernanceReason_def trimmed_nonempty split: option.splits)

section \<open>Handlers that decide on one report\<close>

text \<open>
  The shape of a deciding handler: guards find the report, a decision already recorded may be
  answered with the report as it is, further guards compute an argument (a reason), the row is
  updated, and the effects are recorded.
\<close>

lemma decision_runE:
  assumes run: "bnd g0 (\<lambda>r. if c r then m r else bnd (g1 r) (\<lambda>x. bnd (update_report (r_id r) (d x))
      (\<lambda>u. sq (eff x r u) (ret u)))) s = (res, t)"
    and reads: "reads g0" "\<And>r. reads (m r)" "\<And>r. reads (g1 r)"
    and quiet: "\<And>x r u. quiet business (eff x r u)"
    and found: "\<And>r. g0 s = (Inr r, s) \<Longrightarrow> find_report i s = Some r"
  obtains (rejected) e where "res = Inl e" "business t = business s"
    | (answered) r where "g0 s = (Inr r, s)" "c r" "m r s = (res, t)" "t = s"
    | (changed) r x where "g0 s = (Inr r, s)" "\<not> c r" "g1 r s = (Inr x, s)" "find_report i s = Some r"
        "res = Inr (d x r)" "business t = put_report i (d x) (business s)"
  using run
proof (cases rule: bndE)
  case (err e)
  then show thesis using rejected readsD[OF reads(1) err(1)] by simp
next
  case (ok r u)
  have u: "u = s" by (rule readsD[OF reads(1) ok(1)])
  then have g0: "g0 s = (Inr r, s)" using ok(1) by simp
  then have r: "find_report i s = Some r" by (rule found)
  have i: "i = r_id r" using find_report_SomeD[OF r] by simp
  show thesis
  proof (cases "c r")
    case True
    then have "m r s = (res, t)" using ok(2) u by simp
    then show thesis using answered[OF g0 True] readsD[OF reads(2)] by blast
  next
    case False
    then have "bnd (g1 r) (\<lambda>x. bnd (update_report (r_id r) (d x)) (\<lambda>u. sq (eff x r u) (ret u))) s = (res, t)"
      using ok(2) u by simp
    then show thesis
    proof (cases rule: bndE)
      case (err e)
      then show thesis using rejected readsD[OF reads(3) err(1)] by simp
    next
      case (ok x w)
      have w: "w = s" by (rule readsD[OF reads(3) ok(1)])
      have g1: "g1 r s = (Inr x, s)" using ok(1) w by simp
      from ok(2)
      have "bnd (update_report (r_id r) (d x)) (\<lambda>u. sq (eff x r u) (ret u)) s = (res, t)"
        by (simp add: w)
      moreover have "update_report (r_id r) (d x) s = (Inr (d x r), put_report i (d x) s)"
        using r i by (simp add: report_table.update_runs)
      ultimately have "sq (eff x r (d x r)) (ret (d x r)) (put_report i (d x) s) = (res, t)"
        by simp
      from quiet_tail[OF quiet this] show thesis
        using changed[OF g0 False g1 r] by simp
    qed
  qed
qed

lemma decision_outcome:
  assumes run: "bnd g0 (\<lambda>r. if c r then m r else bnd (g1 r) (\<lambda>x. bnd (update_report (r_id r) (d x))
      (\<lambda>u. sq (eff x r u) (ret u)))) s = (res, t)"
    and reads: "reads g0" "\<And>r. reads (m r)" "\<And>r. reads (g1 r)"
    and quiet: "\<And>x r u. quiet business (eff x r u)"
    and found: "\<And>r. g0 s = (Inr r, s) \<Longrightarrow> find_report i s = Some r"
    and answer: "\<And>r r'. m r s = (Inr r', t) \<Longrightarrow> find_report i s = Some r'"
    and accept: "\<And>r x. g0 s = (Inr r, s) \<Longrightarrow> \<not> c r \<Longrightarrow> g1 r s = (Inr x, s) \<Longrightarrow> A r \<and> d x = f"
  shows "(\<exists>e. res = Inl e \<and> business t = business s) \<or>
      (\<exists>r. res = Inr r \<and> find_report i s = Some r \<and> business t = business s) \<or>
      (\<exists>r. find_report i s = Some r \<and> A r \<and> res = Inr (f r) \<and> business t = put_report i f (business s))"
proof (rule decision_runE[OF run reads quiet found])
  show ?thesis if "res = Inl e" and "business t = business s" for e
    using that by simp
  show ?thesis if "m r s = (res, t)" and "t = s" for r
    using that answer[of r] by (cases res) auto
  show ?thesis if "g0 s = (Inr r, s)" "\<not> c r" "g1 r s = (Inr x, s)" "find_report i s = Some r"
      "res = Inr (d x r)" "business t = put_report i (d x) (business s)" for r x
    using that accept[of r x] by auto
qed

text \<open>The same without an early answer.\<close>

lemma decision_outcome_plain:
  assumes run: "bnd g0 (\<lambda>r. bnd (g1 r) (\<lambda>x. bnd (update_report (r_id r) (d x))
      (\<lambda>u. sq (eff x r u) (ret u)))) s = (res, t)"
    and reads: "reads g0" "\<And>r. reads (g1 r)"
    and quiet: "\<And>x r u. quiet business (eff x r u)"
    and found: "\<And>r. g0 s = (Inr r, s) \<Longrightarrow> find_report i s = Some r"
    and accept: "\<And>r x. g0 s = (Inr r, s) \<Longrightarrow> g1 r s = (Inr x, s) \<Longrightarrow> A r \<and> d x = f"
  shows "(\<exists>e. res = Inl e \<and> business t = business s) \<or>
      (\<exists>r. res = Inr r \<and> find_report i s = Some r \<and> business t = business s) \<or>
      (\<exists>r. find_report i s = Some r \<and> A r \<and> res = Inr (f r) \<and> business t = put_report i f (business s))"
proof (rule decision_outcome[where c = "\<lambda>r. False" and m = "\<lambda>r. throw (NotFound [])"])
  show "bnd g0 (\<lambda>r. if False then throw (NotFound []) else bnd (g1 r) (\<lambda>x. bnd (update_report (r_id r) (d x))
      (\<lambda>u. sq (eff x r u) (ret u)))) s = (res, t)"
    using run by simp
qed (use reads quiet found accept in \<open>auto intro: reads_rules\<close>)

text \<open>A guard in front of the rest of a handler.\<close>

lemma reads_bndE:
  assumes "bnd m f s = (res, t)" and "reads m"
  obtains (err) e where "m s = (Inl e, s)" "res = Inl e" "t = s"
    | (ok) x where "m s = (Inr x, s)" "f x s = (res, t)"
  using assms(1)
proof (cases rule: bndE)
  case (err e)
  then show thesis using that(1) readsD[OF assms(2)] by blast
next
  case (ok x u)
  then show thesis using that(2) readsD[OF assms(2)] by blast
qed

lemma reads_bnd_pairE:
  assumes "bnd m (\<lambda>(a, b). f a b) s = (res, t)" and "reads m"
  obtains (err) e where "res = Inl e" "t = s"
    | (ok) a b where "m s = (Inr (a, b), s)" "f a b s = (res, t)"
  using assms by (auto elim: reads_bndE)

lemma update_effects_run:
  assumes "bnd (update_report i d) (\<lambda>u. sq (eff u) (ret u)) s = (res, t)" and "find_report i s = Some r"
    and "\<And>u. quiet business (eff u)"
  shows "res = Inr (d r) \<and> business t = put_report i d (business s)"
proof -
  have "sq (eff (d r)) (ret (d r)) (put_report i d s) = (res, t)"
    using assms(1) report_table.update_runs[OF assms(2), of d] by simp
  then show ?thesis
    using quiet_tail[OF assms(3)] by fastforce
qed

section \<open>Loops that update one report after another\<close>

text \<open>The rows after an update of every row that satisfies \<open>Q\<close>.\<close>

definition map_rows :: "(report \<Rightarrow> bool) \<Rightarrow> (report \<Rightarrow> report) \<Rightarrow> report list \<Rightarrow> report list" where
  "map_rows Q d rows = map (\<lambda>r. if Q r then d r else r) rows"

lemma map_rows_upd:
  "(\<And>r. r_id (d r) = r_id r) \<Longrightarrow> k \<notin> K \<Longrightarrow>
     map_rows (\<lambda>r. r_id r \<in> K) d (upd_rows (\<lambda>r. r_id r = k) d rows) = map_rows (\<lambda>r. r_id r \<in> insert k K) d rows"
  by (auto simp: map_rows_def upd_rows_def)

lemma for_each_update:
  assumes quiet: "\<And>r u. quiet business (eff r u)" and id: "\<And>r. r_id (d r) = r_id r"
    and "report_ids_ok s" and "distinct (map r_id rs)" and "set rs \<subseteq> set (reports s)"
  shows "\<exists>t. for_each rs (\<lambda>r. bnd (update_report (r_id r) d) (eff r)) s = (Inr (), t) \<and>
    business t = business s\<lparr>reports := map_rows (\<lambda>r. r_id r \<in> r_id ` set rs) d (reports s)\<rparr>"
  using assms(3-5)
proof (induction rs arbitrary: s)
  case Nil
  have "map_rows (\<lambda>r. False) d (reports s) = reports s"
    by (simp add: map_rows_def)
  then show ?case by (simp add: tables.defs)
next
  case (Cons r rs)
  have r: "find_report (r_id r) s = Some r"
    using Cons.prems by (intro find_report_of_member) simp_all
  let ?u = "put_report (r_id r) d s"
  obtain x v where v: "eff r (d r) ?u = (Inr x, v)" "business v = business ?u"
    by (rule quiet_runs[OF quiet])
  have step: "bnd (update_report (r_id r) d) (eff r) s = (Inr (), v)"
    using report_table.update_runs[OF r, of d] v(1) by simp
  have rows: "reports v = upd_rows (\<lambda>x. r_id x = r_id r) d (reports s)"
    using v(2) by (metis business_fields(1) reports_put_report)
  have ids: "report_ids_ok v"
    using Cons.prems(1) by (simp add: report_ids_ok_def rows map_upd_rows id)
  have notin: "r_id r \<notin> r_id ` set rs" and dist: "distinct (map r_id rs)"
    using Cons.prems(2) by simp_all
  have "x \<in> set (reports v)" if x: "x \<in> set rs" for x
  proof -
    have ne: "r_id x \<noteq> r_id r" using notin x by (metis imageI)
    have mem: "x \<in> set (reports s)" using x Cons.prems(3) by (simp add: subset_iff)
    show ?thesis unfolding rows in_upd_rows by (rule bexI[OF _ mem]) (simp add: ne)
  qed
  then have sub: "set rs \<subseteq> set (reports v)" by blast
  from Cons.IH[OF ids dist sub] obtain t where
    t: "for_each rs (\<lambda>r. bnd (update_report (r_id r) d) (eff r)) v = (Inr (), t)"
       "business t = business v\<lparr>reports := map_rows (\<lambda>x. r_id x \<in> r_id ` set rs) d (reports v)\<rparr>" by blast
  have "business v\<lparr>reports := y\<rparr> = business s\<lparr>reports := y\<rparr>" for y
    using v(2) by (simp add: put_report_def row_put_def tables.defs)
  moreover have "map_rows (\<lambda>x. r_id x \<in> r_id ` set rs) d (reports v) =
      map_rows (\<lambda>x. r_id x \<in> r_id ` set (r # rs)) d (reports s)"
    unfolding rows using map_rows_upd[OF id notin] by simp
  ultimately have "business t = business s\<lparr>reports := map_rows (\<lambda>x. r_id x \<in> r_id ` set (r # rs)) d (reports s)\<rparr>"
    using t(2) by simp
  moreover have "for_each (r # rs) (\<lambda>r. bnd (update_report (r_id r) d) (eff r)) s = (Inr (), t)"
    using step t(1) by simp
  ultimately show ?case by blast
qed

lemma map_rows_filter:
  assumes "distinct (map r_id rows)"
  shows "map_rows (\<lambda>r. r_id r \<in> r_id ` set (filter Q rows)) d rows = map_rows Q d rows"
proof -
  have "r_id r \<in> r_id ` set (filter Q rows) \<longleftrightarrow> Q r" if "r \<in> set rows" for r
    using assms that by (auto simp: distinct_map dest: inj_onD)
  then show ?thesis by (simp add: map_rows_def cong: map_cong)
qed

text \<open>Update every row that satisfies a condition, with quiet effects.\<close>

lemma for_each_filter_update:
  assumes "\<And>r u. quiet business (eff r u)" and "\<And>r. r_id (d r) = r_id r" and "report_ids_ok s"
  shows "\<exists>t. for_each (filter Q (reports s)) (\<lambda>r. bnd (update_report (r_id r) d) (eff r)) s = (Inr (), t) \<and>
    business t = business s\<lparr>reports := map_rows Q d (reports s)\<rparr>"
proof -
  have "distinct (map r_id (reports s))"
    using assms(3) by (simp add: report_ids_ok_def)
  then have "map_rows (\<lambda>r. r_id r \<in> r_id ` set (filter Q (reports s))) d (reports s) = map_rows Q d (reports s)"
      and "distinct (map r_id (filter Q (reports s)))"
    by (rule map_rows_filter, rule distinct_map_filter)
  then show ?thesis
    using for_each_update[OF assms(1,2,3), of "filter Q (reports s)"] by auto
qed

lemma map_rows_steps:
  "list_all2 (\<lambda>r r'. r' = r \<or> Q r \<and> r' = d r) rows (map_rows Q d rows)"
  by (simp add: map_rows_def list.rel_map list_all2_same)

lemma steps_compose:
  assumes "list_all2 (\<lambda>r r'. r' = r \<or> A r r') xs ys" and "list_all2 (\<lambda>r r'. r' = r \<or> B r r') ys zs"
  shows "list_all2 (\<lambda>r r'. r' = r \<or> A r r' \<or> B r r' \<or> (\<exists>m. A r m \<and> B m r')) xs zs"
  using list_all2_trans[OF _ assms] by (rule list_all2_mono) auto

end
