(* ===== verification/Completion_Handlers.thy ===== *)
theory Completion_Handlers imports Report_Handler begin

text \<open>
  The four decisions on a completed report (\<open>report/report.service.ts\<close>, lines 2578-2893 and
  3968-4026): the citizen confirms or asks for rework, the organization verifies or asks for
  rework. Every handler is its guards, the columns it writes (\<open>..._data\<close>), what it records
  (\<open>..._effects\<close>) and the handler that runs them in the order of the source.
\<close>

section \<open>The report under review\<close>

definition getCitizenReviewReport :: "string \<Rightarrow> jwt_user \<Rightarrow> report handler" where
  "getCitizenReviewReport reportId user =
     bnd (getUserId user) (\<lambda>userId.
     sq (throw_if (j_role user \<noteq> CITIZEN) (Forbidden ''Only citizens can review completion''))
    (bnd (gets (find_report reportId)) (\<lambda>found.
     bnd (require (NotFound ''Report not found'') found) (\<lambda>report.
     sq (throw_if (r_citizenId report \<noteq> userId) (Forbidden ''Not your report''))
    (let duplicateClosedConfirmation =
           r_status report = CLOSED \<and> r_citizenCompletionDecision report = Some CONFIRMED in
     sq (throw_if (r_status report \<noteq> COMPLETED_BY_PROVIDER \<and> \<not> duplicateClosedConfirmation)
           (Forbidden ''Report is not awaiting citizen review''))
        (ret report))))))"

definition getOrganizationCompletionReviewReport :: "string \<Rightarrow> jwt_user \<Rightarrow> bool \<Rightarrow> report handler" where
  "getOrganizationCompletionReviewReport reportId user allowGovernanceStates =
     sq (throw_if (\<not> isAdmin user \<and> \<not> isDispatch user) (Forbidden ''Only organization operators can verify''))
    (bnd (requireUserOrganizationId user) (\<lambda>organizationId.
     bnd (gets (find_report reportId)) (\<lambda>found.
     bnd (require (NotFound ''Report not found'') found) (\<lambda>report.
     sq (throw_if (r_organizationId report \<noteq> organizationId)
           (Forbidden ''Organization cannot verify this report''))
    (let duplicateClosedVerification =
           r_status report = CLOSED \<and> r_organizationCompletionDecision report = Some VERIFIED;
         governanceReviewState =
           allowGovernanceStates \<and> r_status report = COMPLETED_BY_PROVIDER \<and>
           or_else (r_completionReviewState report) [] \<in> {''DISPUTED'', ''REWORK_REQUESTED'', ''AWAITING_ADMIN_RESOLUTION''} in
     sq (throw_if (r_status report \<noteq> COMPLETED_BY_PROVIDER \<and> \<not> duplicateClosedVerification
                   \<and> \<not> governanceReviewState)
           (Forbidden ''Report is not awaiting completion verification''))
        (ret report))))))"

lemma reads_review_reports [reads_rules]:
  "reads (getCitizenReviewReport i user)"
  "reads (getOrganizationCompletionReviewReport i user allow)"
  unfolding getCitizenReviewReport_def getOrganizationCompletionReviewReport_def Let_def
  by (intro reads_rules)+

text \<open>Who the reviewers are: what a guard that passed says of the user and of the row.\<close>

definition citizen_may_review :: "jwt_user \<Rightarrow> report \<Rightarrow> bool" where
  "citizen_may_review user r \<longleftrightarrow> j_role user = CITIZEN \<and> actor_id user = Some (r_citizenId r) \<and> r_citizenId r \<noteq> []"

definition operator_may_review :: "jwt_user \<Rightarrow> report \<Rightarrow> bool" where
  "operator_may_review user r \<longleftrightarrow>
     j_role user \<in> {ORG_ADMIN, DISPATCH_OFFICER} \<and> j_organizationId user = Some (r_organizationId r)"

lemma getCitizenReviewReport_InrD:
  assumes "getCitizenReviewReport i user s = (Inr r, t)"
  shows "t = s \<and> find_report i s = Some r \<and> citizen_may_review user r \<and>
    (r_status r = COMPLETED_BY_PROVIDER \<or> r_status r = CLOSED \<and> r_citizenCompletionDecision r = Some CONFIRMED)"
  using assms unfolding getCitizenReviewReport_def Let_def citizen_may_review_def
  by (elim bnd_InrE) (auto dest!: getUserId_InrD split: if_splits option.splits)

lemma getOrganizationCompletionReviewReport_InrD:
  assumes "getOrganizationCompletionReviewReport i user False s = (Inr r, t)"
  shows "t = s \<and> find_report i s = Some r \<and> operator_may_review user r \<and>
    (r_status r = COMPLETED_BY_PROVIDER \<or> r_status r = CLOSED \<and> r_organizationCompletionDecision r = Some VERIFIED)"
  using assms unfolding getOrganizationCompletionReviewReport_def Let_def operator_may_review_def role_defs
  by (elim bnd_InrE) (auto dest!: requireUserOrganizationId_InrD split: if_splits option.splits)

section \<open>The citizen confirms\<close>

record confirm_dto =
  cd_rating :: int
  cd_feedback :: "string option"

definition confirm_closes :: "env \<Rightarrow> report \<Rightarrow> bool" where
  "confirm_closes env report = isCompletionSatisfied (policyForReport env report) (Some CONFIRMED)
     (Some (or_else (r_organizationCompletionDecision report) D_PENDING))"

definition confirm_data :: "env \<Rightarrow> confirm_dto \<Rightarrow> jwt_user \<Rightarrow> report \<Rightarrow> report" where
  "confirm_data env dto user report =
     (let closes = confirm_closes env report in
      report\<lparr> r_status := (if closes then CLOSED else COMPLETED_BY_PROVIDER),
        r_citizenRating := Some (cd_rating dto),
        r_citizenFeedback := trimmed (cd_feedback dto),
        r_citizenCompletionDecision := Some CONFIRMED,
        r_citizenCompletionDecidedAt := Some (now env),
        r_completionRejectionReason := None,
        r_completionReviewState := Some (if closes then ''CLOSED''
          else reviewStateFor (policyForReport env report) (Some CONFIRMED)
                 (Some (or_else (r_organizationCompletionDecision report) D_PENDING))),
        r_completionFinalizedAt := (if closes then Some (now env) else None),
        r_completionFinalizedById := (if closes then actor_id user else None),
        r_completionFinalizedByRole := (if closes then Some (j_role user) else None),
        r_completionClosureReason :=
          (if closes then Some ''Citizen confirmation satisfied completion policy.'' else None) \<rparr>)"

definition jpolicy :: "completion_policy \<Rightarrow> json" where
  "jpolicy p = JStr (completion_policy_name p)"

definition workflow_input_for :: "string \<Rightarrow> jwt_user \<Rightarrow> report \<Rightarrow> report \<Rightarrow> (string \<times> json) list \<Rightarrow> workflow_input" where
  "workflow_input_for reportId user report updated metadata =
     \<lparr> w_reportId = reportId,
       w_organizationId = r_organizationId updated,
       w_actorId = actor_id user,
       w_actorRole = Some (j_role user),
       w_fromStatus = Some (r_status report),
       w_toStatus = Some (r_status updated),
       w_providerId = r_assignedProviderId updated,
       w_citizenId = Some (r_citizenId updated),
       w_metadata = metadata \<rparr>"

definition decision_activity :: "report \<Rightarrow> report \<Rightarrow> string option \<Rightarrow> string option \<Rightarrow> json option \<Rightarrow> activity_details" where
  "decision_activity report updated reason nt metadata =
     \<lparr> ad_organizationId = r_organizationId updated,
       ad_fromStatus = Some (r_status report),
       ad_toStatus = Some (r_status updated),
       ad_providerId = r_assignedProviderId updated,
       ad_reason = reason,
       ad_note = nt,
       ad_metadata = metadata \<rparr>"

definition confirm_effects ::
    "env \<Rightarrow> string \<Rightarrow> confirm_dto \<Rightarrow> jwt_user \<Rightarrow> report \<Rightarrow> report \<Rightarrow> unit handler" where
  "confirm_effects env reportId dto user report updated =
     (let policy = policyForReport env report; closes = confirm_closes env report in
      sq (if closes then notifyAuthoritativeCompletionClosure updated
          else notifyOrganizationOperators (r_organizationId updated) reportId
            ''citizen_completion_confirmed'' ''Citizen confirmed completion''
            (''Citizen confirmed '' @ quoted (r_title updated) @ ''. Organization verification is still required.''))
     (sq (audit ''Citizen Confirmed Completion'' user
            [(''targetType'', JStr ''Report''), (''targetId'', JStr reportId),
             (''rating'', jint (cd_rating dto)), (''completionPolicy'', jpolicy policy), (''closed'', JBool closes)])
     (sq (recordReportActivity env reportId ''CITIZEN_CONFIRMED_COMPLETION'' user
            (decision_activity report updated None (trimmed (cd_feedback dto))
              (Some (JObj [(''rating'', jint (cd_rating dto)), (''completionPolicy'', jpolicy policy),
                 (''completionReviewState'', jopt JStr (r_completionReviewState updated)),
                 (''closed'', JBool closes)]))))
         (when_do closes (citizenConfirmedCompletion env (workflow_input_for reportId user report updated
            [(''rating'', jint (cd_rating dto)), (''feedback'', jopt JStr (trimmed (cd_feedback dto))),
             (''completionPolicy'', jpolicy policy)]))))))"

definition confirmCitizenCompletion :: "env \<Rightarrow> string \<Rightarrow> confirm_dto \<Rightarrow> jwt_user \<Rightarrow> report handler" where
  "confirmCitizenCompletion env reportId dto user =
     bnd (getCitizenReviewReport reportId user) (\<lambda>report.
       if r_citizenCompletionDecision report = Some CONFIRMED then getReportById reportId user
       else sq (assertNoActiveCompletionBlockers report)
         (bnd (update_report (r_id report) (confirm_data env dto user))
           (\<lambda>updated. sq (confirm_effects env reportId dto user report updated) (ret updated))))"

lemma quiet_confirm_effects [quiet_rules]: "quiet business (confirm_effects env i dto user r u)"
  unfolding confirm_effects_def Let_def by (intro quiet_rules)

definition confirm_accepts :: "jwt_user \<Rightarrow> report \<Rightarrow> bool" where
  "confirm_accepts user r \<longleftrightarrow> citizen_may_review user r \<and> r_status r = COMPLETED_BY_PROVIDER \<and>
     r_citizenCompletionDecision r \<noteq> Some CONFIRMED \<and> \<not> blocked r"

lemma confirm_outcome:
  assumes "confirmCitizenCompletion env i dto user s = (res, t)"
  shows "(\<exists>e. res = Inl e \<and> business t = business s) \<or>
      (\<exists>r. res = Inr r \<and> find_report i s = Some r \<and> business t = business s) \<or>
      (\<exists>r. find_report i s = Some r \<and> confirm_accepts user r \<and> res = Inr (confirm_data env dto user r) \<and>
           business t = put_report i (confirm_data env dto user) (business s))"
  using assms unfolding confirmCitizenCompletion_def
  by (rule decision_outcome)
    (auto intro!: reads_rules quiet_rules dest!: getCitizenReviewReport_InrD dest: getReportById_Inr(1)
      simp: confirm_accepts_def blocked_def assertNoActiveCompletionBlockers_Inr)

interpretation confirm: report_handler
  "\<lambda>(env, i, dto, user). confirmCitizenCompletion env i dto user"
  "\<lambda>_. True"
  "\<lambda>(env, i, dto, user). i"
  "\<lambda>(env, i, dto, user) s r. confirm_accepts user r"
  "\<lambda>(env, i, dto, user). confirm_data env dto user"
  by unfold_locales (auto simp: confirm_data_def Let_def dest!: confirm_outcome)

section \<open>The citizen asks for rework\<close>

definition citizen_rework_data :: "env \<Rightarrow> string \<Rightarrow> report \<Rightarrow> report" where
  "citizen_rework_data env reason report =
     report\<lparr> r_status := ASSIGNED,
       r_completionRejectionReason := Some reason,
       r_citizenCompletionDecision := Some REWORK_REQUESTED,
       r_citizenCompletionDecidedAt := Some (now env),
       r_completionReviewState := Some ''REWORK_REQUESTED'',
       r_completionDisputeReason := Some reason \<rparr>"

definition citizen_rework_effects ::
    "env \<Rightarrow> string \<Rightarrow> string \<Rightarrow> jwt_user \<Rightarrow> report \<Rightarrow> report \<Rightarrow> unit handler" where
  "citizen_rework_effects env reportId reason user report updated =
     sq (notifyStatusChange updated)
    (sq (audit ''Citizen Requested Completion Review'' user
           [(''targetType'', JStr ''Report''), (''targetId'', JStr reportId), (''reason'', JStr reason)])
    (sq (recordReportActivity env reportId ''CITIZEN_MARKED_WORK_INCOMPLETE'' user
           (decision_activity report updated (Some reason) None None))
    (sq (notifyOrganizationOperators (r_organizationId updated) reportId
           ''completion_review_requested'' ''Citizen requested review''
           (''Citizen marked '' @ quoted (r_title updated) @ '' as still incomplete.''))
        (citizenRejectedCompletion env
           (workflow_input_for reportId user report updated [(''reason'', JStr reason)])))))"

definition rejectCitizenCompletion :: "env \<Rightarrow> string \<Rightarrow> string option \<Rightarrow> jwt_user \<Rightarrow> report handler" where
  "rejectCitizenCompletion env reportId dto_reason user =
     bnd (getCitizenReviewReport reportId user) (\<lambda>report.
     bnd (sq (assertCitizenCanRequestCompletionRework report) (requiredGovernanceReason dto_reason)) (\<lambda>reason.
     bnd (update_report (r_id report) (citizen_rework_data env reason)) (\<lambda>updated.
     sq (citizen_rework_effects env reportId reason user report updated) (ret updated))))"

lemma quiet_citizen_rework_effects [quiet_rules]:
  "quiet business (citizen_rework_effects env i reason user r u)"
  unfolding citizen_rework_effects_def by (intro quiet_rules)

definition citizen_rework_accepts :: "jwt_user \<Rightarrow> string option \<Rightarrow> report \<Rightarrow> bool" where
  "citizen_rework_accepts user dto_reason r \<longleftrightarrow> citizen_may_review user r \<and>
     r_status r = COMPLETED_BY_PROVIDER \<and>
     r_citizenCompletionDecision r \<notin> {Some CONFIRMED, Some REWORK_REQUESTED} \<and> trimmed dto_reason \<noteq> None"

lemma citizen_rework_outcome:
  assumes "rejectCitizenCompletion env i reason user s = (res, t)"
  shows "(\<exists>e. res = Inl e \<and> business t = business s) \<or>
      (\<exists>r. res = Inr r \<and> find_report i s = Some r \<and> business t = business s) \<or>
      (\<exists>r. find_report i s = Some r \<and> citizen_rework_accepts user reason r \<and>
           res = Inr (citizen_rework_data env (or_else (trimmed reason) []) r) \<and>
           business t = put_report i (citizen_rework_data env (or_else (trimmed reason) [])) (business s))"
  using assms unfolding rejectCitizenCompletion_def
  by (rule decision_outcome_plain)
    (auto intro!: reads_rules quiet_rules elim!: bnd_InrE
      dest!: getCitizenReviewReport_InrD requiredGovernanceReason_InrD
      simp: citizen_rework_accepts_def assertCitizenCanRequestCompletionRework_Inr
      split: if_splits)

interpretation citizen_rework: report_handler
  "\<lambda>(env, i, reason, user). rejectCitizenCompletion env i reason user"
  "\<lambda>_. True"
  "\<lambda>(env, i, reason, user). i"
  "\<lambda>(env, i, reason, user) s r. citizen_rework_accepts user reason r"
  "\<lambda>(env, i, reason, user). citizen_rework_data env (or_else (trimmed reason) [])"
  by unfold_locales (auto simp: citizen_rework_data_def dest!: citizen_rework_outcome)

section \<open>The organization verifies\<close>

definition verify_closes :: "env \<Rightarrow> report \<Rightarrow> bool" where
  "verify_closes env report = isCompletionSatisfied (policyForReport env report)
     (Some (or_else (r_citizenCompletionDecision report) D_PENDING)) (Some VERIFIED)"

definition verify_data :: "env \<Rightarrow> string option \<Rightarrow> jwt_user \<Rightarrow> report \<Rightarrow> report" where
  "verify_data env dto_reason user report =
     (let closes = verify_closes env report in
      report\<lparr> r_status := (if closes then CLOSED else COMPLETED_BY_PROVIDER),
        r_organizationCompletionDecision := Some VERIFIED,
        r_organizationCompletionDecidedAt := Some (now env),
        r_organizationCompletionDecidedById := actor_id user,
        r_organizationCompletionReason := trimmed dto_reason,
        r_completionReviewState := Some (if closes then ''CLOSED''
          else reviewStateFor (policyForReport env report)
                 (Some (or_else (r_citizenCompletionDecision report) D_PENDING)) (Some VERIFIED)),
        r_completionFinalizedAt := (if closes then Some (now env) else None),
        r_completionFinalizedById := (if closes then actor_id user else None),
        r_completionFinalizedByRole := (if closes then Some (j_role user) else None),
        r_completionClosureReason :=
          (if closes then Some (or_else (trimmed dto_reason) ''Organization verification satisfied completion policy.'')
           else None) \<rparr>)"

definition verify_effects ::
    "env \<Rightarrow> string \<Rightarrow> string option \<Rightarrow> jwt_user \<Rightarrow> report \<Rightarrow> report \<Rightarrow> unit handler" where
  "verify_effects env reportId dto_reason user report updated =
     (let policy = policyForReport env report; closes = verify_closes env report in
      sq (if closes then notifyAuthoritativeCompletionClosure updated
          else createNotification (notice (r_citizenId updated) reportId
            ''organization_completion_verified'' ''Organization verified completion''
            (''Organization verified '' @ quoted (r_title updated) @ ''. Your confirmation is still required.'')))
     (sq (audit ''Organization Verified Completion'' user
            [(''targetType'', JStr ''Report''), (''targetId'', JStr reportId),
             (''organizationId'', JStr (r_organizationId updated)),
             (''completionPolicy'', jpolicy policy), (''closed'', JBool closes)])
         (recordReportActivity env reportId ''ORGANIZATION_VERIFIED_COMPLETION'' user
            (decision_activity report updated (trimmed dto_reason) None
              (Some (JObj [(''completionPolicy'', jpolicy policy),
                 (''completionReviewState'', jopt JStr (r_completionReviewState updated)),
                 (''closed'', JBool closes)]))))))"

definition verifyOrganizationCompletion :: "env \<Rightarrow> string \<Rightarrow> string option \<Rightarrow> jwt_user \<Rightarrow> report handler" where
  "verifyOrganizationCompletion env reportId dto_reason user =
     bnd (getOrganizationCompletionReviewReport reportId user False) (\<lambda>report.
       if r_organizationCompletionDecision report = Some VERIFIED then getReportById reportId user
       else bnd (sq (assertNoActiveCompletionBlockers report)
                (sq (throw_if (policyForReport env report = ADMIN_RESOLUTION_REQUIRED)
                       (Forbidden ''This completion requires platform resolution.''))
                    (getUserId user))) (\<lambda>userId.
         bnd (update_report (r_id report) (verify_data env dto_reason user)) (\<lambda>updated.
         sq (verify_effects env reportId dto_reason user report updated) (ret updated))))"

lemma quiet_verify_effects [quiet_rules]: "quiet business (verify_effects env i dto_reason user r u)"
  unfolding verify_effects_def Let_def by (intro quiet_rules)

definition verify_accepts :: "env \<Rightarrow> jwt_user \<Rightarrow> report \<Rightarrow> bool" where
  "verify_accepts env user r \<longleftrightarrow> operator_may_review user r \<and> r_status r = COMPLETED_BY_PROVIDER \<and>
     r_organizationCompletionDecision r \<noteq> Some VERIFIED \<and> \<not> blocked r \<and>
     policyForReport env r \<noteq> ADMIN_RESOLUTION_REQUIRED \<and> actor_id user \<noteq> None"

lemma verify_outcome:
  assumes "verifyOrganizationCompletion env i dto_reason user s = (res, t)"
  shows "(\<exists>e. res = Inl e \<and> business t = business s) \<or>
      (\<exists>r. res = Inr r \<and> find_report i s = Some r \<and> business t = business s) \<or>
      (\<exists>r. find_report i s = Some r \<and> verify_accepts env user r \<and> res = Inr (verify_data env dto_reason user r) \<and>
           business t = put_report i (verify_data env dto_reason user) (business s))"
  using assms unfolding verifyOrganizationCompletion_def
  by (rule decision_outcome)
    (auto intro!: reads_rules quiet_rules elim!: bnd_InrE
      dest!: getOrganizationCompletionReviewReport_InrD getUserId_InrD dest: getReportById_Inr(1)
      simp: verify_accepts_def blocked_def assertNoActiveCompletionBlockers_Inr split: if_splits)

interpretation verify: report_handler
  "\<lambda>(env, i, dto_reason, user). verifyOrganizationCompletion env i dto_reason user"
  "\<lambda>_. True"
  "\<lambda>(env, i, dto_reason, user). i"
  "\<lambda>(env, i, dto_reason, user) s r. verify_accepts env user r"
  "\<lambda>(env, i, dto_reason, user). verify_data env dto_reason user"
  by unfold_locales (auto simp: verify_data_def Let_def dest!: verify_outcome)

section \<open>The organization asks for rework\<close>

definition organization_rework_data :: "env \<Rightarrow> string \<Rightarrow> jwt_user \<Rightarrow> report \<Rightarrow> report" where
  "organization_rework_data env reason user report =
     report\<lparr> r_status := ASSIGNED,
       r_organizationCompletionDecision := Some REWORK_REQUESTED,
       r_organizationCompletionDecidedAt := Some (now env),
       r_organizationCompletionDecidedById := actor_id user,
       r_organizationCompletionReason := Some reason,
       r_completionRejectionReason := Some reason,
       r_completionReviewState := Some ''REWORK_REQUESTED'',
       r_completionDisputeReason := Some reason \<rparr>"

definition organization_rework_effects ::
    "env \<Rightarrow> string \<Rightarrow> string \<Rightarrow> jwt_user \<Rightarrow> report \<Rightarrow> report \<Rightarrow> unit handler" where
  "organization_rework_effects env reportId reason user report updated =
     (let message = ''Organization requested rework on '' @ quoted (r_title updated) @ ''.'' in
      sq (case nonempty (r_assignedProviderId updated) of
            None \<Rightarrow> ret ()
          | Some providerId \<Rightarrow> createNotification (notice providerId reportId
              ''completion_rework_requested'' ''Completion rework requested'' message))
     (sq (createNotification (notice (r_citizenId updated) reportId
            ''completion_rework_requested'' ''Completion rework requested'' message))
     (sq (audit ''Organization Requested Completion Rework'' user
            [(''targetType'', JStr ''Report''), (''targetId'', JStr reportId),
             (''organizationId'', JStr (r_organizationId updated)), (''reason'', JStr reason)])
         (recordReportActivity env reportId ''ORGANIZATION_REQUESTED_COMPLETION_REWORK'' user
            (decision_activity report updated (Some reason) None None)))))"

definition requestOrganizationCompletionRework ::
    "env \<Rightarrow> string \<Rightarrow> string option \<Rightarrow> jwt_user \<Rightarrow> report handler" where
  "requestOrganizationCompletionRework env reportId dto_reason user =
     bnd (getOrganizationCompletionReviewReport reportId user False) (\<lambda>report.
     bnd (sq (assertOrganizationCanRequestCompletionRework report)
           (bnd (requiredGovernanceReason dto_reason) (\<lambda>reason. sq (getUserId user) (ret reason)))) (\<lambda>reason.
     bnd (update_report (r_id report) (organization_rework_data env reason user)) (\<lambda>updated.
     sq (organization_rework_effects env reportId reason user report updated) (ret updated))))"

lemma quiet_organization_rework_effects [quiet_rules]:
  "quiet business (organization_rework_effects env i reason user r u)"
  unfolding organization_rework_effects_def Let_def by (intro quiet_rules)

definition organization_rework_accepts :: "jwt_user \<Rightarrow> string option \<Rightarrow> report \<Rightarrow> bool" where
  "organization_rework_accepts user dto_reason r \<longleftrightarrow> operator_may_review user r \<and>
     r_status r = COMPLETED_BY_PROVIDER \<and>
     r_organizationCompletionDecision r \<notin> {Some VERIFIED, Some REWORK_REQUESTED} \<and>
     trimmed dto_reason \<noteq> None \<and> actor_id user \<noteq> None"

lemma organization_rework_outcome:
  assumes "requestOrganizationCompletionRework env i reason user s = (res, t)"
  shows "(\<exists>e. res = Inl e \<and> business t = business s) \<or>
      (\<exists>r. res = Inr r \<and> find_report i s = Some r \<and> business t = business s) \<or>
      (\<exists>r. find_report i s = Some r \<and> organization_rework_accepts user reason r \<and>
           res = Inr (organization_rework_data env (or_else (trimmed reason) []) user r) \<and>
           business t = put_report i (organization_rework_data env (or_else (trimmed reason) []) user) (business s))"
  using assms unfolding requestOrganizationCompletionRework_def
  by (rule decision_outcome_plain)
    (auto intro!: reads_rules quiet_rules elim!: bnd_InrE
      dest!: getOrganizationCompletionReviewReport_InrD requiredGovernanceReason_InrD getUserId_InrD
      simp: organization_rework_accepts_def assertOrganizationCanRequestCompletionRework_Inr
      split: if_splits)

interpretation organization_rework: report_handler
  "\<lambda>(env, i, reason, user). requestOrganizationCompletionRework env i reason user"
  "\<lambda>_. True"
  "\<lambda>(env, i, reason, user). i"
  "\<lambda>(env, i, reason, user) s r. organization_rework_accepts user reason r"
  "\<lambda>(env, i, reason, user). organization_rework_data env (or_else (trimmed reason) []) user"
  by unfold_locales (auto simp: organization_rework_data_def dest!: organization_rework_outcome)

end
