(* ===== verification/Governance.thy ===== *)
theory Governance imports Completion_Handlers begin

text \<open>
  Completion governance by the platform's super administrators (\<open>report/report.service.ts\<close>, lines
  3100-3423, 4729-4752 and 4870-4943): close, return for rework, hold, release, reopen, override
  the policy of one report, and set the policy of a service category.
\<close>

section \<open>Shared parts\<close>

definition assertSuperAdmin :: "jwt_user \<Rightarrow> ('s, unit) svc" where
  "assertSuperAdmin user = throw_if (j_role user \<noteq> SUPER_ADMIN) (Forbidden ''Super Admin completion governance required'')"

definition getAdminGovernanceReport :: "string \<Rightarrow> report handler" where
  "getAdminGovernanceReport reportId =
     bnd (gets (find_report reportId)) (\<lambda>found. require (NotFound ''Report not found'') found)"

record admin_governance_actions =
  ga_resolveAndClose :: bool
  ga_returnForRework :: bool
  ga_placeHold :: bool
  ga_removeHold :: bool
  ga_reopen :: bool
  ga_overridePolicy :: bool

definition adminGovernanceActionsFor :: "report \<Rightarrow> admin_governance_actions" where
  "adminGovernanceActionsFor report =
     (let closed = (r_status report = CLOSED) in
      \<lparr> ga_resolveAndClose = \<not> closed,
        ga_returnForRework = \<not> closed,
        ga_placeHold = \<not> truthy (r_completionGovernanceHoldReason report),
        ga_removeHold = truthy (r_completionGovernanceHoldReason report),
        ga_reopen = closed,
        ga_overridePolicy = True \<rparr>)"

definition jstate :: "report \<Rightarrow> json" where
  "jstate report = JObj
     [(''status'', JStr (report_status_name (r_status report))),
      (''completionReviewState'', jopt JStr (r_completionReviewState report)),
      (''completionPolicy'', jopt jpolicy (r_completionPolicy report)),
      (''hold'', JBool (truthy (r_completionGovernanceHoldReason report)))]"

record governance_input =
  gi_action :: string
  gi_auditAction :: string
  gi_reason :: string
  gi_notifyType :: string
  gi_notifyTitle :: string
  gi_metadata :: "(string \<times> json) list"

definition recordGovernanceAction ::
    "env \<Rightarrow> report \<Rightarrow> report \<Rightarrow> jwt_user \<Rightarrow> governance_input \<Rightarrow> unit handler" where
  "recordGovernanceAction env previous updated user input =
     bnd (getUserId user) (\<lambda>userId.
     let metadata = spread
           [(''previousState'', jstate previous), (''newState'', jstate updated), (''actorId'', JStr userId),
            (''actorRole'', JStr (user_role_name (j_role user))), (''timestamp'', JStr (toISOString (now env)))]
           (gi_metadata input);
         message = ''Governance updated '' @ quoted (r_title updated) @ ''.'' in
     sq (recordReportActivity env (r_id updated) (gi_action input) user
           (decision_activity previous updated (Some (gi_reason input)) None (Some (JObj metadata))))
    (sq (audit (gi_auditAction input) user (spread
           [(''targetType'', JStr ''Report''), (''targetId'', JStr (r_id updated)),
            (''organizationId'', JStr (r_organizationId updated)), (''reason'', JStr (gi_reason input))] metadata))
    (sq (createNotification (notice (r_citizenId updated) (r_id updated) (gi_notifyType input)
           (gi_notifyTitle input) message))
        (notifyOrganizationOperators (r_organizationId updated) (r_id updated) (gi_notifyType input)
           (gi_notifyTitle input) message))))"

text \<open>A user the authentication layer let in carries an id.\<close>

definition has_user_id :: "jwt_user \<Rightarrow> bool" where
  "has_user_id user \<longleftrightarrow> truthy (actor_id user)"

lemma getUserId_valid: "has_user_id user \<Longrightarrow> getUserId user = ret (the (actor_id user))"
  by (auto simp: has_user_id_def getUserId_def truthy_def require_def split: option.splits)

lemma quiet_recordGovernanceAction [quiet_rules]:
  "has_user_id user \<Longrightarrow> quiet business (recordGovernanceAction env p u user input)"
  unfolding recordGovernanceAction_def Let_def
  by (simp add: getUserId_valid) (intro quiet_rules)

lemma reads_governance_guards [reads_rules]:
  "reads (assertSuperAdmin user)" "reads (getAdminGovernanceReport i)"
  unfolding assertSuperAdmin_def getAdminGovernanceReport_def by (intro reads_rules)+

text \<open>Every governance handler first checks the role and finds the report.\<close>

definition governed_report :: "string \<Rightarrow> jwt_user \<Rightarrow> report handler" where
  "governed_report reportId user = sq (assertSuperAdmin user) (getAdminGovernanceReport reportId)"

lemma reads_governed_report [reads_rules]: "reads (governed_report i user)"
  unfolding governed_report_def by (intro reads_rules)

lemma governed_report_InrD:
  "governed_report i user s = (Inr r, t) \<Longrightarrow> t = s \<and> find_report i s = Some r \<and> j_role user = SUPER_ADMIN"
  by (auto simp: governed_report_def assertSuperAdmin_def getAdminGovernanceReport_def svc_run
      split: if_splits option.splits)

section \<open>Resolve and close\<close>

definition resolve_data :: "env \<Rightarrow> string \<Rightarrow> jwt_user \<Rightarrow> report \<Rightarrow> report" where
  "resolve_data env reason user report =
     report\<lparr> r_status := CLOSED,
       r_completionReviewState := Some ''CLOSED'',
       r_completionFinalizedAt := Some (now env),
       r_completionFinalizedById := actor_id user,
       r_completionFinalizedByRole := Some (j_role user),
       r_completionFinalActorType := Some ''SUPER_ADMIN_GOVERNANCE'',
       r_completionClosureReason := Some reason \<rparr>"

definition adminResolveAndClose :: "env \<Rightarrow> string \<Rightarrow> string option \<Rightarrow> jwt_user \<Rightarrow> report handler" where
  "adminResolveAndClose env reportId dto_reason user =
     bnd (governed_report reportId user) (\<lambda>report.
     bnd (sq (throw_if (r_status report = CLOSED) (Conflict ''Report is already closed''))
         (sq (throw_if (truthy (r_completionGovernanceHoldReason report))
                (Conflict ''Remove governance hold before resolving''))
         (bnd (requiredGovernanceReason dto_reason) (\<lambda>reason. sq (getUserId user) (ret reason))))) (\<lambda>reason.
     bnd (update_report (r_id report) (resolve_data env reason user)) (\<lambda>updated.
     sq (recordGovernanceAction env report updated user
           \<lparr> gi_action = ''ADMIN_COMPLETION_RESOLVED_CLOSED'',
             gi_auditAction = ''Admin Completion Resolved And Closed'', gi_reason = reason,
             gi_notifyType = ''governance_resolution_closed'',
             gi_notifyTitle = ''Report closed by governance resolution'', gi_metadata = [] \<rparr>)
        (ret updated))))"

section \<open>Return for rework\<close>

definition admin_rework_data :: "string \<Rightarrow> report \<Rightarrow> report" where
  "admin_rework_data reason report =
     report\<lparr> r_status := ASSIGNED,
       r_completionReviewState := Some ''REWORK_REQUESTED'',
       r_organizationCompletionDecision := Some ESCALATED,
       r_organizationCompletionReason := Some reason,
       r_completionRejectionReason := Some reason,
       r_completionDisputeReason := Some reason \<rparr>"

definition adminReturnForCompletionRework :: "env \<Rightarrow> string \<Rightarrow> string option \<Rightarrow> jwt_user \<Rightarrow> report handler" where
  "adminReturnForCompletionRework env reportId dto_reason user =
     bnd (governed_report reportId user) (\<lambda>report.
     bnd (sq (throw_if (r_status report = CLOSED) (Conflict ''Closed reports must be reopened before rework''))
         (sq (throw_if (r_completionReviewState report = Some ''REWORK_REQUESTED'')
                (Conflict ''Report is already returned for rework''))
             (requiredGovernanceReason dto_reason))) (\<lambda>reason.
     bnd (update_report (r_id report) (admin_rework_data reason)) (\<lambda>updated.
     sq (sq (recordGovernanceAction env report updated user
              \<lparr> gi_action = ''ADMIN_COMPLETION_RETURNED_FOR_REWORK'',
                gi_auditAction = ''Admin Completion Returned For Rework'', gi_reason = reason,
                gi_notifyType = ''governance_rework_requested'',
                gi_notifyTitle = ''Report returned for provider rework'', gi_metadata = [] \<rparr>)
            (case nonempty (r_assignedProviderId updated) of
               None \<Rightarrow> ret ()
             | Some providerId \<Rightarrow> createNotification (notice providerId reportId
                 ''governance_rework_requested'' ''Report returned for rework''
                 (''Governance returned '' @ quoted (r_title updated) @ '' for provider rework.''))))
        (ret updated))))"

section \<open>Hold and release\<close>

definition place_hold_data :: "string \<Rightarrow> report \<Rightarrow> report" where
  "place_hold_data reason report =
     report\<lparr> r_completionGovernanceHoldReason := Some reason,
       r_completionReviewState := Some ''GOVERNANCE_HOLD'' \<rparr>"

definition adminPlaceCompletionHold :: "env \<Rightarrow> string \<Rightarrow> string option \<Rightarrow> jwt_user \<Rightarrow> report handler" where
  "adminPlaceCompletionHold env reportId dto_reason user =
     bnd (governed_report reportId user) (\<lambda>report.
     bnd (sq (throw_if (r_status report = CLOSED) (Conflict ''Reopen closed reports before placing hold''))
         (bnd (requiredGovernanceReason dto_reason) (\<lambda>reason.
           sq (throw_if (truthy (r_completionGovernanceHoldReason report))
                 (Conflict ''Report is already on governance hold''))
              (ret reason)))) (\<lambda>reason.
     bnd (update_report (r_id report) (place_hold_data reason)) (\<lambda>updated.
     sq (recordGovernanceAction env report updated user
           \<lparr> gi_action = ''ADMIN_COMPLETION_HOLD_PLACED'',
             gi_auditAction = ''Admin Completion Hold Placed'', gi_reason = reason,
             gi_notifyType = ''completion_governance_hold'',
             gi_notifyTitle = ''Report placed on governance hold'', gi_metadata = [] \<rparr>)
        (ret updated))))"

definition remove_hold_data :: "env \<Rightarrow> report \<Rightarrow> report" where
  "remove_hold_data env report =
     report\<lparr> r_completionGovernanceHoldReason := None,
       r_completionReviewState := Some (if r_status report = CLOSED then ''CLOSED''
         else reviewStateFor (policyForReport env report) (r_citizenCompletionDecision report)
                (r_organizationCompletionDecision report)) \<rparr>"

definition adminRemoveCompletionHold :: "env \<Rightarrow> string \<Rightarrow> string option \<Rightarrow> jwt_user \<Rightarrow> report handler" where
  "adminRemoveCompletionHold env reportId dto_reason user =
     bnd (governed_report reportId user) (\<lambda>report.
     bnd (bnd (requiredGovernanceReason dto_reason) (\<lambda>reason.
           sq (throw_if (\<not> truthy (r_completionGovernanceHoldReason report))
                 (Conflict ''Report is not on governance hold''))
              (ret reason))) (\<lambda>reason.
     bnd (update_report (r_id report) (remove_hold_data env)) (\<lambda>updated.
     sq (recordGovernanceAction env report updated user
           \<lparr> gi_action = ''ADMIN_COMPLETION_HOLD_REMOVED'',
             gi_auditAction = ''Admin Completion Hold Removed'', gi_reason = reason,
             gi_notifyType = ''completion_governance_hold_removed'',
             gi_notifyTitle = ''Governance hold removed'', gi_metadata = [] \<rparr>)
        (ret updated))))"

section \<open>Reopen\<close>

definition reopen_data :: "env \<Rightarrow> report \<Rightarrow> report" where
  "reopen_data env report =
     report\<lparr> r_status := COMPLETED_BY_PROVIDER,
       r_completionReviewState := Some (reviewStateFor (policyForReport env report)
         (r_citizenCompletionDecision report) (r_organizationCompletionDecision report)) \<rparr>"

definition adminReopenCompletion :: "env \<Rightarrow> string \<Rightarrow> string option \<Rightarrow> jwt_user \<Rightarrow> report handler" where
  "adminReopenCompletion env reportId dto_reason user =
     bnd (governed_report reportId user) (\<lambda>report.
     bnd (sq (throw_if (r_status report \<noteq> CLOSED) (Conflict ''Only closed reports can be reopened''))
             (requiredGovernanceReason dto_reason)) (\<lambda>reason.
     bnd (update_report (r_id report) (reopen_data env)) (\<lambda>updated.
     sq (recordGovernanceAction env report updated user
           \<lparr> gi_action = ''ADMIN_COMPLETION_REOPENED'',
             gi_auditAction = ''Admin Completion Reopened'', gi_reason = reason,
             gi_notifyType = ''completion_governance_reopened'',
             gi_notifyTitle = ''Report reopened by governance'', gi_metadata = [] \<rparr>)
        (ret updated))))"

section \<open>Override the policy of a report\<close>

definition override_data :: "completion_policy \<Rightarrow> report \<Rightarrow> report" where
  "override_data policy report =
     report\<lparr> r_completionPolicy := Some policy,
       r_completionPolicySource := Some ''SUPER_ADMIN_REPORT_OVERRIDE'',
       r_completionReviewState := Some (reviewStateFor policy (r_citizenCompletionDecision report)
         (r_organizationCompletionDecision report)) \<rparr>"

definition adminOverrideCompletionPolicy ::
    "env \<Rightarrow> string \<Rightarrow> completion_policy \<Rightarrow> string option \<Rightarrow> jwt_user \<Rightarrow> report handler" where
  "adminOverrideCompletionPolicy env reportId dto_policy dto_reason user =
     bnd (governed_report reportId user) (\<lambda>report.
     bnd (bnd (requiredGovernanceReason dto_reason) (\<lambda>reason.
           sq (throw_if (r_status report = CLOSED) (Conflict ''Reopen closed reports before overriding policy''))
          (sq (throw_if (policyForReport env report = dto_policy) (Conflict ''Report already uses this policy''))
              (ret reason)))) (\<lambda>reason.
     bnd (update_report (r_id report) (override_data dto_policy)) (\<lambda>updated.
     sq (recordGovernanceAction env report updated user
           \<lparr> gi_action = ''ADMIN_COMPLETION_POLICY_OVERRIDDEN'',
             gi_auditAction = ''Admin Completion Policy Overridden'', gi_reason = reason,
             gi_notifyType = ''completion_policy_overridden'',
             gi_notifyTitle = ''Completion policy overridden'',
             gi_metadata = [(''previousPolicy'', jpolicy (policyForReport env report)),
                            (''newPolicy'', jpolicy dto_policy)] \<rparr>)
        (ret updated))))"

section \<open>Outcomes\<close>

definition resolve_accepts :: "jwt_user \<Rightarrow> string option \<Rightarrow> report \<Rightarrow> bool" where
  "resolve_accepts user reason r \<longleftrightarrow> j_role user = SUPER_ADMIN \<and> r_status r \<noteq> CLOSED \<and>
     \<not> truthy (r_completionGovernanceHoldReason r) \<and> trimmed reason \<noteq> None"

lemma resolve_outcome:
  assumes "adminResolveAndClose env i reason user s = (res, t)" and "has_user_id user"
  shows "(\<exists>e. res = Inl e \<and> business t = business s) \<or>
      (\<exists>r. res = Inr r \<and> find_report i s = Some r \<and> business t = business s) \<or>
      (\<exists>r. find_report i s = Some r \<and> resolve_accepts user reason r \<and>
           res = Inr (resolve_data env (or_else (trimmed reason) []) user r) \<and>
           business t = put_report i (resolve_data env (or_else (trimmed reason) []) user) (business s))"
  using assms(1) unfolding adminResolveAndClose_def
  by (rule decision_outcome_plain)
    (use assms(2) in \<open>auto intro!: reads_rules quiet_rules elim!: bnd_InrE
      dest!: governed_report_InrD requiredGovernanceReason_InrD getUserId_InrD
      simp: resolve_accepts_def split: if_splits\<close>)

interpretation resolve: report_handler
  "\<lambda>(env, i, reason, user). adminResolveAndClose env i reason user"
  "\<lambda>(env, i, reason, user). has_user_id user"
  "\<lambda>(env, i, reason, user). i"
  "\<lambda>(env, i, reason, user) s r. resolve_accepts user reason r"
  "\<lambda>(env, i, reason, user). resolve_data env (or_else (trimmed reason) []) user"
  by unfold_locales (auto simp: resolve_data_def dest!: resolve_outcome)

definition admin_rework_accepts :: "jwt_user \<Rightarrow> string option \<Rightarrow> report \<Rightarrow> bool" where
  "admin_rework_accepts user reason r \<longleftrightarrow> j_role user = SUPER_ADMIN \<and> r_status r \<noteq> CLOSED \<and>
     r_completionReviewState r \<noteq> Some ''REWORK_REQUESTED'' \<and> trimmed reason \<noteq> None"

lemma admin_rework_outcome:
  assumes "adminReturnForCompletionRework env i reason user s = (res, t)" and "has_user_id user"
  shows "(\<exists>e. res = Inl e \<and> business t = business s) \<or>
      (\<exists>r. res = Inr r \<and> find_report i s = Some r \<and> business t = business s) \<or>
      (\<exists>r. find_report i s = Some r \<and> admin_rework_accepts user reason r \<and>
           res = Inr (admin_rework_data (or_else (trimmed reason) []) r) \<and>
           business t = put_report i (admin_rework_data (or_else (trimmed reason) [])) (business s))"
  using assms(1) unfolding adminReturnForCompletionRework_def
  by (rule decision_outcome_plain)
    (use assms(2) in \<open>auto intro!: reads_rules quiet_rules elim!: bnd_InrE
      dest!: governed_report_InrD requiredGovernanceReason_InrD
      simp: admin_rework_accepts_def split: if_splits\<close>)

interpretation admin_rework: report_handler
  "\<lambda>(env, i, reason, user). adminReturnForCompletionRework env i reason user"
  "\<lambda>(env, i, reason, user). has_user_id user"
  "\<lambda>(env, i, reason, user). i"
  "\<lambda>(env, i, reason, user) s r. admin_rework_accepts user reason r"
  "\<lambda>(env, i, reason, user). admin_rework_data (or_else (trimmed reason) [])"
  by unfold_locales (auto simp: admin_rework_data_def dest!: admin_rework_outcome)

definition place_hold_accepts :: "jwt_user \<Rightarrow> string option \<Rightarrow> report \<Rightarrow> bool" where
  "place_hold_accepts user reason r \<longleftrightarrow> j_role user = SUPER_ADMIN \<and> r_status r \<noteq> CLOSED \<and>
     \<not> truthy (r_completionGovernanceHoldReason r) \<and> trimmed reason \<noteq> None"

lemma place_hold_outcome:
  assumes "adminPlaceCompletionHold env i reason user s = (res, t)" and "has_user_id user"
  shows "(\<exists>e. res = Inl e \<and> business t = business s) \<or>
      (\<exists>r. res = Inr r \<and> find_report i s = Some r \<and> business t = business s) \<or>
      (\<exists>r. find_report i s = Some r \<and> place_hold_accepts user reason r \<and>
           res = Inr (place_hold_data (or_else (trimmed reason) []) r) \<and>
           business t = put_report i (place_hold_data (or_else (trimmed reason) [])) (business s))"
  using assms(1) unfolding adminPlaceCompletionHold_def
  by (rule decision_outcome_plain)
    (use assms(2) in \<open>auto intro!: reads_rules quiet_rules elim!: bnd_InrE
      dest!: governed_report_InrD requiredGovernanceReason_InrD
      simp: place_hold_accepts_def split: if_splits\<close>)

interpretation place_hold: report_handler
  "\<lambda>(env, i, reason, user). adminPlaceCompletionHold env i reason user"
  "\<lambda>(env, i, reason, user). has_user_id user"
  "\<lambda>(env, i, reason, user). i"
  "\<lambda>(env, i, reason, user) s r. place_hold_accepts user reason r"
  "\<lambda>(env, i, reason, user). place_hold_data (or_else (trimmed reason) [])"
  by unfold_locales (auto simp: place_hold_data_def dest!: place_hold_outcome)

definition remove_hold_accepts :: "jwt_user \<Rightarrow> string option \<Rightarrow> report \<Rightarrow> bool" where
  "remove_hold_accepts user reason r \<longleftrightarrow> j_role user = SUPER_ADMIN \<and>
     truthy (r_completionGovernanceHoldReason r) \<and> trimmed reason \<noteq> None"

lemma remove_hold_outcome:
  assumes "adminRemoveCompletionHold env i reason user s = (res, t)" and "has_user_id user"
  shows "(\<exists>e. res = Inl e \<and> business t = business s) \<or>
      (\<exists>r. res = Inr r \<and> find_report i s = Some r \<and> business t = business s) \<or>
      (\<exists>r. find_report i s = Some r \<and> remove_hold_accepts user reason r \<and>
           res = Inr (remove_hold_data env r) \<and> business t = put_report i (remove_hold_data env) (business s))"
  using assms(1) unfolding adminRemoveCompletionHold_def
  by (rule decision_outcome_plain)
    (use assms(2) in \<open>auto intro!: reads_rules quiet_rules elim!: bnd_InrE
      dest!: governed_report_InrD requiredGovernanceReason_InrD
      simp: remove_hold_accepts_def split: if_splits\<close>)

interpretation remove_hold: report_handler
  "\<lambda>(env, i, reason, user). adminRemoveCompletionHold env i reason user"
  "\<lambda>(env, i, reason, user). has_user_id user"
  "\<lambda>(env, i, reason, user). i"
  "\<lambda>(env, i, reason, user) s r. remove_hold_accepts user reason r"
  "\<lambda>(env, i, reason, user). remove_hold_data env"
  by unfold_locales (auto simp: remove_hold_data_def dest!: remove_hold_outcome)

definition reopen_accepts :: "jwt_user \<Rightarrow> string option \<Rightarrow> report \<Rightarrow> bool" where
  "reopen_accepts user reason r \<longleftrightarrow> j_role user = SUPER_ADMIN \<and> r_status r = CLOSED \<and> trimmed reason \<noteq> None"

lemma reopen_outcome:
  assumes "adminReopenCompletion env i reason user s = (res, t)" and "has_user_id user"
  shows "(\<exists>e. res = Inl e \<and> business t = business s) \<or>
      (\<exists>r. res = Inr r \<and> find_report i s = Some r \<and> business t = business s) \<or>
      (\<exists>r. find_report i s = Some r \<and> reopen_accepts user reason r \<and>
           res = Inr (reopen_data env r) \<and> business t = put_report i (reopen_data env) (business s))"
  using assms(1) unfolding adminReopenCompletion_def
  by (rule decision_outcome_plain)
    (use assms(2) in \<open>auto intro!: reads_rules quiet_rules elim!: bnd_InrE
      dest!: governed_report_InrD requiredGovernanceReason_InrD
      simp: reopen_accepts_def split: if_splits\<close>)

interpretation reopen: report_handler
  "\<lambda>(env, i, reason, user). adminReopenCompletion env i reason user"
  "\<lambda>(env, i, reason, user). has_user_id user"
  "\<lambda>(env, i, reason, user). i"
  "\<lambda>(env, i, reason, user) s r. reopen_accepts user reason r"
  "\<lambda>(env, i, reason, user). reopen_data env"
  by unfold_locales (auto simp: reopen_data_def dest!: reopen_outcome)

definition override_accepts :: "env \<Rightarrow> completion_policy \<Rightarrow> jwt_user \<Rightarrow> string option \<Rightarrow> report \<Rightarrow> bool" where
  "override_accepts env policy user reason r \<longleftrightarrow> j_role user = SUPER_ADMIN \<and> r_status r \<noteq> CLOSED \<and>
     policyForReport env r \<noteq> policy \<and> trimmed reason \<noteq> None"

lemma override_outcome:
  assumes "adminOverrideCompletionPolicy env i policy reason user s = (res, t)" and "has_user_id user"
  shows "(\<exists>e. res = Inl e \<and> business t = business s) \<or>
      (\<exists>r. res = Inr r \<and> find_report i s = Some r \<and> business t = business s) \<or>
      (\<exists>r. find_report i s = Some r \<and> override_accepts env policy user reason r \<and>
           res = Inr (override_data policy r) \<and> business t = put_report i (override_data policy) (business s))"
  using assms(1) unfolding adminOverrideCompletionPolicy_def
  by (rule decision_outcome_plain)
    (use assms(2) in \<open>auto intro!: reads_rules quiet_rules elim!: bnd_InrE
      dest!: governed_report_InrD requiredGovernanceReason_InrD
      simp: override_accepts_def split: if_splits\<close>)

interpretation override: report_handler
  "\<lambda>(env, i, policy, reason, user). adminOverrideCompletionPolicy env i policy reason user"
  "\<lambda>(env, i, policy, reason, user). has_user_id user"
  "\<lambda>(env, i, policy, reason, user). i"
  "\<lambda>(env, i, policy, reason, user) s r. override_accepts env policy user reason r"
  "\<lambda>(env, i, policy, reason, user). override_data policy"
  by unfold_locales (auto simp: override_data_def dest!: override_outcome)

end
