(* ===== verification/Review_Deadlines.thy ===== *)
theory Review_Deadlines imports Governance "HOL-Library.List_Lexorder" "HOL-Library.Char_ord" "HOL-Library.Product_Lexorder"
  "HOL-Library.Multiset" begin

text \<open>
  The processor of completion review deadlines (\<open>report/report.service.ts\<close>, lines 3481-3624): it
  selects at most \<open>limit\<close> reports with the review-window policy, in the order of their deadlines,
  and closes those whose window has passed and that nothing blocks.
\<close>

section \<open>Candidates\<close>

text \<open>Ascending deadlines, reports without one last, then ascending ids.\<close>

definition deadline_key :: "report \<Rightarrow> (nat \<times> int) \<times> string" where
  "deadline_key r =
     ((case r_completionReviewDeadlineAt r of Some d \<Rightarrow> (0, d) | None \<Rightarrow> (1, 0)), r_id r)"

definition deadline_candidates :: "nat \<Rightarrow> 's tables_scheme \<Rightarrow> report list" where
  "deadline_candidates limit s = take limit (sort_key deadline_key
     (filter (\<lambda>r. r_completionPolicy r = Some AUTO_CLOSE_AFTER_REVIEW_WINDOW) (reports s)))"

text \<open>Why the processor skips a candidate; None when it is eligible.\<close>

definition deadline_skip :: "int \<Rightarrow> report \<Rightarrow> string option" where
  "deadline_skip at_time report = (case r_completionReviewDeadlineAt report of
     None \<Rightarrow> Some ''missing_deadline''
   | Some deadline \<Rightarrow>
       if deadline > at_time then Some ''not_yet_due''
       else (case completionDeadlineSkipReason report of
           Some reason \<Rightarrow> Some reason
         | None \<Rightarrow> if r_status report \<noteq> COMPLETED_BY_PROVIDER then Some ''not_awaiting_review'' else None))"

section \<open>Counters\<close>

record deadline_counts =
  dc_eligible :: nat
  dc_blockedByDispute :: nat
  dc_blockedByRework :: nat
  dc_blockedByHold :: nat
  dc_alreadyProcessed :: nat
  dc_alreadyClosed :: nat
  dc_notYetDue :: nat
  dc_invalidIncomplete :: nat
  dc_processed :: nat
  dc_skipped :: nat

definition no_counts :: deadline_counts where
  "no_counts = \<lparr> dc_eligible = 0, dc_blockedByDispute = 0, dc_blockedByRework = 0, dc_blockedByHold = 0,
     dc_alreadyProcessed = 0, dc_alreadyClosed = 0, dc_notYetDue = 0, dc_invalidIncomplete = 0,
     dc_processed = 0, dc_skipped = 0 \<rparr>"

definition count_skip :: "string \<Rightarrow> deadline_counts \<Rightarrow> deadline_counts" where
  "count_skip reason c =
     (if reason = ''missing_deadline'' \<or> reason = ''not_awaiting_review'' then c\<lparr>dc_invalidIncomplete := dc_invalidIncomplete c + 1\<rparr>
      else if reason = ''not_yet_due'' then c\<lparr>dc_notYetDue := dc_notYetDue c + 1\<rparr>
      else if reason = ''active_dispute'' then c\<lparr>dc_blockedByDispute := dc_blockedByDispute c + 1\<rparr>
      else if reason = ''active_rework'' then c\<lparr>dc_blockedByRework := dc_blockedByRework c + 1\<rparr>
      else if reason = ''governance_hold'' then c\<lparr>dc_blockedByHold := dc_blockedByHold c + 1\<rparr>
      else if reason = ''already_processed'' then c\<lparr>dc_alreadyProcessed := dc_alreadyProcessed c + 1\<rparr>
      else if reason = ''already_closed'' then c\<lparr>dc_alreadyClosed := dc_alreadyClosed c + 1\<rparr>
      else c)"

record deadline_progress =
  dp_processed :: "string list"
  dp_skipped :: "(string \<times> string) list"
  dp_counts :: deadline_counts

section \<open>Closing one report\<close>

definition COMPLETION_REVIEW_WINDOW_FALLBACK_RULE :: string where
  "COMPLETION_REVIEW_WINDOW_FALLBACK_RULE = ''AUTO_CLOSE_AFTER_REVIEW_WINDOW_DEADLINE_EXPIRED''"

definition fallback_data :: "env \<Rightarrow> jwt_user \<Rightarrow> report \<Rightarrow> report" where
  "fallback_data env user report =
     report\<lparr> r_status := CLOSED,
       r_completionReviewState := Some ''CLOSED'',
       r_completionReviewProcessedAt := Some (now env),
       r_completionFallbackRule := Some COMPLETION_REVIEW_WINDOW_FALLBACK_RULE,
       r_completionFinalActorType := Some ''SYSTEM_REVIEW_WINDOW'',
       r_completionFinalizedAt := Some (now env),
       r_completionFinalizedById := actor_id user,
       r_completionFinalizedByRole := Some (j_role user),
       r_completionClosureReason := Some ''Review window expired; fallback closure authority applied without recording citizen or organization approval.'' \<rparr>"

definition fallback_effects :: "env \<Rightarrow> jwt_user \<Rightarrow> report \<Rightarrow> unit handler" where
  "fallback_effects env user updated =
     sq (notifyStatusChange updated)
    (sq (recordReportActivity env (r_id updated) ''COMPLETION_REVIEW_WINDOW_FALLBACK_CLOSED'' user
           \<lparr> ad_organizationId = r_organizationId updated,
             ad_fromStatus = Some COMPLETED_BY_PROVIDER, ad_toStatus = Some CLOSED,
             ad_providerId = r_assignedProviderId updated,
             ad_reason = r_completionClosureReason updated, ad_note = None,
             ad_metadata = Some (JObj
               [(''policy'', jpolicy AUTO_CLOSE_AFTER_REVIEW_WINDOW),
                (''deadlineAt'', jopt (JStr \<circ> toISOString) (r_completionReviewDeadlineAt updated)),
                (''processedAt'', JStr (toISOString (now env))),
                (''fallbackRule'', JStr COMPLETION_REVIEW_WINDOW_FALLBACK_RULE),
                (''finalActorType'', JStr ''SYSTEM_REVIEW_WINDOW'')]) \<rparr>)
        (audit ''Completion Review Window Fallback Closed'' user
           [(''targetType'', JStr ''Report''), (''targetId'', JStr (r_id updated)),
            (''organizationId'', JStr (r_organizationId updated)),
            (''completionPolicy'', jpolicy AUTO_CLOSE_AFTER_REVIEW_WINDOW),
            (''fallbackRule'', JStr COMPLETION_REVIEW_WINDOW_FALLBACK_RULE)]))"

text \<open>\<open>update({ where: { id, status } })\<close>: the row must still be completed by the provider.\<close>

definition close_by_fallback :: "env \<Rightarrow> jwt_user \<Rightarrow> report \<Rightarrow> report handler" where
  "close_by_fallback env user report =
     sq (getUserId user)
    (bnd (gets (find_report (r_id report))) (\<lambda>found.
     bnd (case found of
            Some row \<Rightarrow> if r_status row = COMPLETED_BY_PROVIDER
              then update_report (r_id report) (fallback_data env user)
              else throw (PrismaError ''P2025'')
          | None \<Rightarrow> throw (PrismaError ''P2025'')) (\<lambda>updated.
     sq (fallback_effects env user updated) (ret updated))))"

section \<open>The loop\<close>

primrec process_candidates ::
    "env \<Rightarrow> jwt_user \<Rightarrow> bool \<Rightarrow> report list \<Rightarrow> deadline_progress \<Rightarrow> deadline_progress handler" where
  "process_candidates env user dryRun [] p = ret p"
| "process_candidates env user dryRun (report # rest) p =
     (case deadline_skip (now env) report of
        Some reason \<Rightarrow> process_candidates env user dryRun rest
          (p\<lparr> dp_skipped := dp_skipped p @ [(r_id report, reason)], dp_counts := count_skip reason (dp_counts p) \<rparr>)
      | None \<Rightarrow>
          (let counts = (dp_counts p)\<lparr> dc_eligible := dc_eligible (dp_counts p) + 1 \<rparr> in
           if dryRun then process_candidates env user dryRun rest
             (p\<lparr> dp_processed := dp_processed p @ [r_id report], dp_counts := counts \<rparr>)
           else bnd (close_by_fallback env user report) (\<lambda>updated.
             process_candidates env user dryRun rest
               (p\<lparr> dp_processed := dp_processed p @ [r_id updated],
                   dp_counts := counts\<lparr> dc_processed := dc_processed counts + 1 \<rparr> \<rparr>))))"

record deadline_dto =
  dd_limit :: "nat option"
  dd_dryRun :: bool
  dd_reason :: "string option"

record deadline_result =
  dr_processedCount :: nat
  dr_skippedCount :: nat
  dr_counts :: deadline_counts
  dr_processed :: "string list"
  dr_skipped :: "(string \<times> string) list"
  dr_dryRun :: bool

definition jcounts :: "deadline_counts \<Rightarrow> json" where
  "jcounts c = JObj
     [(''eligible'', jint (int (dc_eligible c))), (''blockedByDispute'', jint (int (dc_blockedByDispute c))),
      (''blockedByRework'', jint (int (dc_blockedByRework c))), (''blockedByHold'', jint (int (dc_blockedByHold c))),
      (''alreadyProcessed'', jint (int (dc_alreadyProcessed c))), (''alreadyClosed'', jint (int (dc_alreadyClosed c))),
      (''notYetDue'', jint (int (dc_notYetDue c))), (''invalidIncomplete'', jint (int (dc_invalidIncomplete c))),
      (''processed'', jint (int (dc_processed c))), (''skipped'', jint (int (dc_skipped c)))]"

definition processCompletionReviewDeadlines :: "env \<Rightarrow> jwt_user \<Rightarrow> deadline_dto \<Rightarrow> deadline_result handler" where
  "processCompletionReviewDeadlines env user dto =
     sq (throw_if (j_role user \<notin> {SUPER_ADMIN, COMPLIANCE_ADMIN, REGULATORY_ADMIN})
           (Forbidden ''Platform completion processing required''))
    (let limit = or_else (dd_limit dto) 100; dryRun = dd_dryRun dto in
     bnd (if dryRun then ret (map_option trim (dd_reason dto))
          else bnd (requiredGovernanceReason (dd_reason dto)) (\<lambda>reason. ret (Some reason))) (\<lambda>executionReason.
     bnd (gets (deadline_candidates limit)) (\<lambda>candidates.
     bnd (process_candidates env user dryRun candidates
            \<lparr> dp_processed = [], dp_skipped = [], dp_counts = no_counts \<rparr>) (\<lambda>p.
     let counts = (dp_counts p)\<lparr> dc_skipped := length (dp_skipped p) \<rparr> in
     sq (audit ''Completion Review Deadline Processor Executed'' user
           [(''targetType'', JStr ''Report''), (''targetId'', JStr ''completion-review-deadline-processor''),
            (''dryRun'', JBool dryRun), (''limit'', jint (int limit)), (''reason'', jopt JStr executionReason),
            (''counts'', jcounts counts)])
        (ret \<lparr> dr_processedCount = length (dp_processed p), dr_skippedCount = length (dp_skipped p),
               dr_counts = counts, dr_processed = dp_processed p, dr_skipped = dp_skipped p,
               dr_dryRun = dryRun \<rparr>)))))"

section \<open>The candidates\<close>

lemma candidates_subset:
  "r \<in> set (deadline_candidates limit s) \<Longrightarrow>
     r \<in> set (reports s) \<and> r_completionPolicy r = Some AUTO_CLOSE_AFTER_REVIEW_WINDOW"
  by (auto simp: deadline_candidates_def dest: in_set_takeD)

lemma candidates_distinct: "report_ids_ok s \<Longrightarrow> distinct (map r_id (deadline_candidates limit s))"
proof -
  let ?rows = "filter (\<lambda>r. r_completionPolicy r = Some AUTO_CLOSE_AFTER_REVIEW_WINDOW) (reports s)"
  assume "report_ids_ok s"
  then have "distinct (map r_id ?rows)"
    unfolding report_ids_ok_def by (rule distinct_map_filter)
  then have "distinct (map r_id (sort_key deadline_key ?rows))"
    by (simp add: distinct_map)
  then show ?thesis
    unfolding deadline_candidates_def take_map[symmetric] by (rule distinct_take)
qed

lemma sorted_take_count:
  assumes "sorted (map key xs)" and "x \<in> set (take n xs)"
  shows "length (filter (\<lambda>y. key y < (key x :: 'k :: linorder)) xs) < n"
proof -
  from assms(2) obtain j where j: "j < n" "j < length xs" "x = xs ! j"
    by (auto simp: in_set_conv_nth)
  have "key x \<le> key y" if "y \<in> set (drop j xs)" for y
  proof -
    from that obtain k where "k < length (drop j xs)" "y = drop j xs ! k"
      by (auto simp: in_set_conv_nth)
    then show ?thesis
      using sorted_nth_mono[OF assms(1), of j "j + k"] j by simp
  qed
  then have "filter (\<lambda>y. key y < key x) (drop j xs) = []"
    by (auto simp: filter_empty_conv not_less)
  then have "length (filter (\<lambda>y. key y < key x) xs) = length (filter (\<lambda>y. key y < key x) (take j xs))"
    by (metis append_Nil2 append_take_drop_id filter_append)
  also have "\<dots> \<le> j"
    using j(2) by (intro order_trans[OF length_filter_le]) simp
  finally show ?thesis
    using j(1) by simp
qed

lemma insort_key_map: "(\<And>y. k (f y) = k y) \<Longrightarrow> insort_key k (f x) (map f xs) = map f (insort_key k x xs)"
  by (induction xs) simp_all

lemma sort_key_map: "(\<And>y. k (f y) = k y) \<Longrightarrow> sort_key k (map f xs) = map f (sort_key k xs)"
  by (induction xs) (simp_all add: insort_key_map)

section \<open>One closure\<close>

lemma deadline_skip_None:
  "deadline_skip at_time r = None \<longleftrightarrow>
     r_status r = COMPLETED_BY_PROVIDER \<and> r_completionReviewProcessedAt r = None \<and> \<not> blocked r \<and>
     (\<exists>d. r_completionReviewDeadlineAt r = Some d \<and> d \<le> at_time)"
  using completionDeadlineSkipReason_None[of r]
  by (cases "completionDeadlineSkipReason r") (auto simp: deadline_skip_def split: option.splits)

lemma fallback_id [simp]: "r_id (fallback_data env user r) = r_id r"
  by (simp add: fallback_data_def)

lemma quiet_fallback_effects [quiet_rules]: "quiet business (fallback_effects env user r)"
  unfolding fallback_effects_def by (intro quiet_rules)

lemma close_by_fallback_runs:
  assumes "has_user_id user" and "find_report (r_id r) s = Some r" and "r_status r = COMPLETED_BY_PROVIDER"
  obtains t where "close_by_fallback env user r s = (Inr (fallback_data env user r), t)"
    "business t = put_report (r_id r) (fallback_data env user) (business s)"
proof -
  let ?u = "put_report (r_id r) (fallback_data env user) s"
  have upd: "update_report (r_id r) (fallback_data env user) s = (Inr (fallback_data env user r), ?u)"
    using assms(2) by (rule report_table.update_runs)
  obtain x t where eff: "fallback_effects env user (fallback_data env user r) ?u = (Inr x, t)"
      "business t = business ?u"
    by (rule quiet_runs[OF quiet_fallback_effects])
  show thesis
  proof (rule that)
    show "close_by_fallback env user r s = (Inr (fallback_data env user r), t)"
      using assms upd eff(1) by (simp add: close_by_fallback_def getUserId_valid)
    show "business t = put_report (r_id r) (fallback_data env user) (business s)"
      using eff(2) by simp
  qed
qed

section \<open>The loop\<close>

definition eligible :: "int \<Rightarrow> report list \<Rightarrow> report list" where
  "eligible at_time rs = filter (\<lambda>r. deadline_skip at_time r = None) rs"

definition skips :: "int \<Rightarrow> report list \<Rightarrow> (string \<times> string) list" where
  "skips at_time rs = List.map_filter (\<lambda>r. map_option (\<lambda>reason. (r_id r, reason)) (deadline_skip at_time r)) rs"

definition closed_rows :: "env \<Rightarrow> jwt_user \<Rightarrow> report list \<Rightarrow> report list \<Rightarrow> report list" where
  "closed_rows env user closing rows =
     map (\<lambda>r. if r_id r \<in> r_id ` set closing then fallback_data env user r else r) rows"

lemma dry_run_progress:
  "\<exists>p'. process_candidates env user True rs p s = (Inr p', s) \<and>
     dp_processed p' = dp_processed p @ map r_id (eligible (now env) rs) \<and>
     dp_skipped p' = dp_skipped p @ skips (now env) rs"
proof (induction rs arbitrary: p)
  case (Cons r rs)
  show ?case
  proof (cases "deadline_skip (now env) r")
    case None
    let ?q = "p\<lparr> dp_processed := dp_processed p @ [r_id r],
        dp_counts := (dp_counts p)\<lparr> dc_eligible := dc_eligible (dp_counts p) + 1 \<rparr> \<rparr>"
    show ?thesis
      using Cons.IH[of ?q] None by (auto simp: eligible_def skips_def List.map_filter_simps)
  next
    case (Some reason)
    let ?q = "p\<lparr> dp_skipped := dp_skipped p @ [(r_id r, reason)], dp_counts := count_skip reason (dp_counts p) \<rparr>"
    show ?thesis
      using Cons.IH[of ?q] Some by (auto simp: eligible_def skips_def List.map_filter_simps)
  qed
qed (simp add: eligible_def skips_def List.map_filter_simps)

lemma closed_rows_Cons:
  assumes "distinct (map r_id rows)" and "r \<in> set rows" and "r_id r \<notin> r_id ` set rest"
  shows "closed_rows env user rest (upd_rows (\<lambda>x. r_id x = r_id r) (fallback_data env user) rows) =
    closed_rows env user (r # rest) rows"
  using assms by (auto simp: closed_rows_def upd_rows_def)

lemma process_progress:
  assumes "has_user_id user" and "report_ids_ok s" and "distinct (map r_id rs)" and "set rs \<subseteq> set (reports s)"
  shows "\<exists>p' t. process_candidates env user False rs p s = (Inr p', t) \<and>
     dp_processed p' = dp_processed p @ map r_id (eligible (now env) rs) \<and>
     dp_skipped p' = dp_skipped p @ skips (now env) rs \<and>
     business t = business s\<lparr>reports := closed_rows env user (eligible (now env) rs) (reports s)\<rparr>"
  using assms(2-4)
proof (induction rs arbitrary: p s)
  case Nil
  then show ?case
    by (simp add: eligible_def skips_def closed_rows_def List.map_filter_simps tables.defs)
next
  case (Cons r rs)
  show ?case
  proof (cases "deadline_skip (now env) r")
    case (Some reason)
    let ?q = "p\<lparr> dp_skipped := dp_skipped p @ [(r_id r, reason)], dp_counts := count_skip reason (dp_counts p) \<rparr>"
    show ?thesis
      using Some Cons.prems Cons.IH[of s ?q] by (auto simp: eligible_def skips_def List.map_filter_simps)
  next
    case None
    have r: "find_report (r_id r) s = Some r"
      using Cons.prems by (intro find_report_of_member) auto
    obtain u where u: "close_by_fallback env user r s = (Inr (fallback_data env user r), u)"
        "business u = put_report (r_id r) (fallback_data env user) (business s)"
      by (rule close_by_fallback_runs[OF assms(1) r]) (use None in \<open>simp add: deadline_skip_None\<close>)
    have rows: "reports u = upd_rows (\<lambda>x. r_id x = r_id r) (fallback_data env user) (reports s)"
      using u(2) by (metis business_fields(1) reports_put_report)
    have ids: "report_ids_ok u"
      using Cons.prems(1) by (simp add: report_ids_ok_def rows map_upd_rows)
    have "x \<in> set (reports u)" if "x \<in> set rs" for x
    proof -
      have "r_id r \<notin> r_id ` set rs" using Cons.prems(2) by simp
      then have ne: "r_id x \<noteq> r_id r" using that by (metis imageI)
      have x: "x \<in> set (reports s)" using that Cons.prems(3) by (simp add: subset_iff)
      show ?thesis unfolding rows in_upd_rows by (rule bexI[OF _ x]) (simp add: ne)
    qed
    then have sub: "set rs \<subseteq> set (reports u)" by blast
    let ?counts = "(dp_counts p)\<lparr> dc_eligible := dc_eligible (dp_counts p) + 1 \<rparr>"
    let ?q = "p\<lparr> dp_processed := dp_processed p @ [r_id r],
        dp_counts := ?counts\<lparr> dc_processed := dc_processed ?counts + 1 \<rparr> \<rparr>"
    from Cons.IH[OF ids _ sub, of ?q] Cons.prems(2) obtain p' t where
      run: "process_candidates env user False rs ?q u = (Inr p', t)" and
      p': "dp_processed p' = dp_processed ?q @ map r_id (eligible (now env) rs)"
          "dp_skipped p' = dp_skipped ?q @ skips (now env) rs" and
      t: "business t = business u\<lparr>reports := closed_rows env user (eligible (now env) rs) (reports u)\<rparr>"
      by auto
    have "closed_rows env user (eligible (now env) rs) (reports u) =
        closed_rows env user (r # eligible (now env) rs) (reports s)"
      unfolding rows using Cons.prems
      by (intro closed_rows_Cons) (auto simp: report_ids_ok_def eligible_def)
    moreover have "business u\<lparr>reports := y\<rparr> = business s\<lparr>reports := y\<rparr>" for y
      using u(2) by (simp add: put_report_def row_put_def tables.defs)
    ultimately have "business t = business s\<lparr>reports := closed_rows env user (eligible (now env) (r # rs)) (reports s)\<rparr>"
      using t None by (simp add: eligible_def)
    moreover have "process_candidates env user False (r # rs) p s = (Inr p', t)"
      using None u(1) run by simp
    ultimately show ?thesis
      using p' None by (simp add: eligible_def skips_def List.map_filter_simps)
  qed
qed

section \<open>A run of the processor\<close>

definition may_process :: "jwt_user \<Rightarrow> bool" where
  "may_process user \<longleftrightarrow> j_role user \<in> {SUPER_ADMIN, COMPLIANCE_ADMIN, REGULATORY_ADMIN} \<and> has_user_id user"

lemma deadline_run:
  assumes "may_process user" and "report_ids_ok s" and "\<not> dd_dryRun dto" and "trimmed (dd_reason dto) \<noteq> None"
  defines "cands \<equiv> deadline_candidates (or_else (dd_limit dto) 100) s"
  shows "\<exists>res t. processCompletionReviewDeadlines env user dto s = (Inr res, t) \<and>
    dr_processed res = map r_id (eligible (now env) cands) \<and> dr_skipped res = skips (now env) cands \<and>
    dr_processedCount res = length (dr_processed res) \<and> dr_skippedCount res = length (dr_skipped res) \<and>
    business t = business s\<lparr>reports := closed_rows env user (eligible (now env) cands) (reports s)\<rparr>"
proof -
  let ?p = "\<lparr> dp_processed = [], dp_skipped = [], dp_counts = no_counts \<rparr>"
  have user: "has_user_id user" "j_role user \<in> {SUPER_ADMIN, COMPLIANCE_ADMIN, REGULATORY_ADMIN}"
    using assms(1) by (simp_all add: may_process_def)
  have "distinct (map r_id cands)" "set cands \<subseteq> set (reports s)"
    using candidates_distinct[OF assms(2)] candidates_subset unfolding cands_def by blast+
  from process_progress[OF user(1) assms(2) this, of env ?p] obtain p' t where
    run: "process_candidates env user False cands ?p s = (Inr p', t)" and
    p': "dp_processed p' = map r_id (eligible (now env) cands)" "dp_skipped p' = skips (now env) cands" and
    t: "business t = business s\<lparr>reports := closed_rows env user (eligible (now env) cands) (reports s)\<rparr>"
    by auto
  obtain reason where "trimmed (dd_reason dto) = Some reason"
    using assms(4) by blast
  then have reason: "requiredGovernanceReason (dd_reason dto) s = (Inr reason, s)"
    by (simp add: requiredGovernanceReason_def)
  let ?counts = "(dp_counts p')\<lparr> dc_skipped := length (dp_skipped p') \<rparr>"
  let ?m = "[(''targetType'', JStr ''Report''), (''targetId'', JStr ''completion-review-deadline-processor''),
      (''dryRun'', JBool False), (''limit'', jint (int (or_else (dd_limit dto) 100))),
      (''reason'', jopt JStr (Some reason)), (''counts'', jcounts ?counts)]"
  obtain x u where a: "audit ''Completion Review Deadline Processor Executed'' user ?m t = (Inr x, u)"
      "business u = business t"
    by (rule quiet_runs[OF quiet_audit])
  show ?thesis
    using user(2) assms(3) reason run p' t a
    by (simp add: processCompletionReviewDeadlines_def Let_def cands_def)
qed

lemma dry_run_business:
  assumes "processCompletionReviewDeadlines env user dto s = (r, t)" and "dd_dryRun dto"
  shows "business t = business s"
proof -
  let ?p = "\<lparr> dp_processed = [], dp_skipped = [], dp_counts = no_counts \<rparr>"
  let ?cands = "deadline_candidates (or_else (dd_limit dto) 100) s"
  obtain p' where "process_candidates env user True ?cands ?p s = (Inr p', s)"
    using dry_run_progress by blast
  then show ?thesis
    using assms
    by (cases "j_role user \<in> {SUPER_ADMIN, COMPLIANCE_ADMIN, REGULATORY_ADMIN}")
      (auto simp: processCompletionReviewDeadlines_def Let_def dest!: quiet_tail[OF quiet_audit])
qed

section \<open>Running again, and running with a full window\<close>

lemma closed_rows_deadline_key [simp]: "deadline_key (fallback_data env user r) = deadline_key r"
  by (simp add: deadline_key_def fallback_data_def)

lemma candidates_after:
  assumes "reports t = closed_rows env user closing (reports s)"
  shows "deadline_candidates limit t =
    map (\<lambda>r. if r_id r \<in> r_id ` set closing then fallback_data env user r else r) (deadline_candidates limit s)"
proof -
  let ?f = "\<lambda>r. if r_id r \<in> r_id ` set closing then fallback_data env user r else r"
  let ?P = "\<lambda>r. r_completionPolicy r = Some AUTO_CLOSE_AFTER_REVIEW_WINDOW"
  have "?P (?f r) = ?P r" for r by (simp add: fallback_data_def)
  then have "filter ?P (map ?f rows) = map ?f (filter ?P rows)" for rows
    by (induction rows) simp_all
  then show ?thesis
    unfolding deadline_candidates_def assms closed_rows_def
    by (simp add: sort_key_map take_map)
qed

lemma fallback_not_eligible: "deadline_skip at_time (fallback_data env user r) \<noteq> None"
  by (simp add: deadline_skip_None fallback_data_def)

lemma nothing_left:
  assumes "reports t = closed_rows env user (eligible (now env) (deadline_candidates limit s)) (reports s)"
  shows "eligible (now env) (deadline_candidates limit t) = []"
proof -
  have "deadline_skip (now env) x \<noteq> None" if "x \<in> set (deadline_candidates limit t)" for x
  proof -
    from that obtain r where r: "r \<in> set (deadline_candidates limit s)" and
      x: "x = (if r_id r \<in> r_id ` set (eligible (now env) (deadline_candidates limit s))
               then fallback_data env user r else r)"
      unfolding candidates_after[OF assms] by auto
    show ?thesis
    proof (cases "r_id r \<in> r_id ` set (eligible (now env) (deadline_candidates limit s))")
      case True
      then show ?thesis using x fallback_not_eligible by simp
    next
      case False
      then have "r \<notin> set (eligible (now env) (deadline_candidates limit s))" by blast
      then show ?thesis using x False r by (auto simp: eligible_def)
    qed
  qed
  then show ?thesis by (auto simp: eligible_def filter_empty_conv)
qed

text \<open>A report is not selected when \<open>limit\<close> reports of the policy have earlier keys, closed or not.\<close>

lemma crowded_out:
  assumes "limit \<le> length (filter (\<lambda>r. r_completionPolicy r = Some AUTO_CLOSE_AFTER_REVIEW_WINDOW \<and>
      deadline_key r < deadline_key victim) (reports s))"
  shows "victim \<notin> set (deadline_candidates limit s)"
proof
  let ?P = "\<lambda>r. r_completionPolicy r = Some AUTO_CLOSE_AFTER_REVIEW_WINDOW"
  let ?rows = "filter ?P (reports s)"
  assume "victim \<in> set (deadline_candidates limit s)"
  then have "length (filter (\<lambda>r. deadline_key r < deadline_key victim) (sort_key deadline_key ?rows)) < limit"
    unfolding deadline_candidates_def by (intro sorted_take_count) simp_all
  moreover have "length (filter (\<lambda>r. deadline_key r < deadline_key victim) (sort_key deadline_key ?rows)) =
      length (filter (\<lambda>r. deadline_key r < deadline_key victim) ?rows)"
    by (metis mset_filter mset_sort size_mset)
  ultimately show False
    using assms by (simp add: conj_commute)
qed

section \<open>Rows under a run of the processor\<close>

lemma eligible_candidate_row:
  assumes "report_ids_ok s" and "r \<in> set (reports s)"
    and "r_id r \<in> r_id ` set (eligible at_time (deadline_candidates limit s))"
  shows "r_completionPolicy r = Some AUTO_CLOSE_AFTER_REVIEW_WINDOW \<and> deadline_skip at_time r = None"
proof -
  from assms(3) obtain x where x: "x \<in> set (deadline_candidates limit s)" "deadline_skip at_time x = None" "r_id x = r_id r"
    by (auto simp: eligible_def)
  then have "x \<in> set (reports s)" using candidates_subset by blast
  then have "x = r"
    using assms(1,2) x(3) by (auto simp: report_ids_ok_def distinct_map dest: inj_onD)
  then show ?thesis using x candidates_subset by blast
qed

lemma deadline_rows:
  assumes "processCompletionReviewDeadlines env user dto s = (res, t)" and "has_user_id user" and "report_ids_ok s"
  shows "list_all2 (\<lambda>r r'. r' = r \<or> may_process user \<and> r_completionPolicy r = Some AUTO_CLOSE_AFTER_REVIEW_WINDOW \<and>
    deadline_skip (now env) r = None \<and> r' = fallback_data env user r) (reports s) (reports t)"
proof (cases "may_process user \<and> \<not> dd_dryRun dto \<and> trimmed (dd_reason dto) \<noteq> None")
  case True
  let ?closing = "eligible (now env) (deadline_candidates (or_else (dd_limit dto) 100) s)"
  from True have "business t = business s\<lparr>reports := closed_rows env user ?closing (reports s)\<rparr>"
    using deadline_run[of user s dto env] assms(1,3) by auto
  from arg_cong[OF this, of reports] have t: "reports t = closed_rows env user ?closing (reports s)" by simp
  show ?thesis
    unfolding t closed_rows_def list.rel_map
    using True eligible_candidate_row[OF assms(3)] by (auto simp: list_all2_same)
next
  case False
  have "business t = business s"
  proof (cases "dd_dryRun dto")
    case True
    then show ?thesis by (rule dry_run_business[OF assms(1)])
  next
    case live: False
    then show ?thesis
      using False assms(1,2)
      by (auto simp: processCompletionReviewDeadlines_def may_process_def Let_def requiredGovernanceReason_def
          svc_run split: if_splits)
  qed
  from business_eq_fields(1)[OF this] show ?thesis by (simp add: list_all2_same)
qed

interpretation deadline: row_contract
  "\<lambda>(env, user, dto). processCompletionReviewDeadlines env user dto"
  "\<lambda>(env, user, dto). has_user_id user"
  "\<lambda>(env, user, dto) s r r'. may_process user \<and> r_completionPolicy r = Some AUTO_CLOSE_AFTER_REVIEW_WINDOW \<and>
    deadline_skip (now env) r = None \<and> r' = fallback_data env user r"
  by unfold_locales (auto dest: deadline_rows)

end
