(* ===== verification/Report_Workflow.thy ===== *)
theory Report_Workflow imports Schema begin

text \<open>
  \<open>report/report-workflow.ts\<close>: the table of allowed status transitions and the functions that read
  it from strings.
\<close>

primrec ALLOWED_REPORT_TRANSITIONS :: "report_status \<Rightarrow> report_status list" where
  "ALLOWED_REPORT_TRANSITIONS TRIAGE = [ORG_REVIEW]"
| "ALLOWED_REPORT_TRANSITIONS ORG_REVIEW = [PENDING, TRIAGE]"
| "ALLOWED_REPORT_TRANSITIONS PENDING = [ASSIGNED, ORG_REVIEW]"
| "ALLOWED_REPORT_TRANSITIONS ASSIGNED = [IN_PROGRESS]"
| "ALLOWED_REPORT_TRANSITIONS IN_PROGRESS = [COMPLETED_BY_PROVIDER]"
| "ALLOWED_REPORT_TRANSITIONS COMPLETED_BY_PROVIDER = [CLOSED]"
| "ALLOWED_REPORT_TRANSITIONS CLOSED = []"

definition normalizeReportStatus :: "string \<Rightarrow> report_status option" where
  "normalizeReportStatus status =
     (let normalizedStatus = toUpperCase status
      in find (\<lambda>v. report_status_name v = normalizedStatus) enum_class.enum)"

definition canTransitionReportStatus :: "string \<Rightarrow> string \<Rightarrow> bool" where
  "canTransitionReportStatus currentStatus nextStatus =
     (case (normalizeReportStatus currentStatus, normalizeReportStatus nextStatus) of
        (Some c, Some n) \<Rightarrow> n \<in> set (ALLOWED_REPORT_TRANSITIONS c)
      | _ \<Rightarrow> False)"

lemma toUpperCase_status_name [simp]: "toUpperCase (report_status_name v) = report_status_name v"
  by (cases v) (simp_all add: toUpperCase_def upper_char_def)

lemma normalizeReportStatus_name [simp]: "normalizeReportStatus (report_status_name v) = Some v"
proof -
  have "find (\<lambda>w. report_status_name w = report_status_name v) enum_class.enum = Some v"
    by (cases v) (simp_all add: enum_report_status_def)
  then show ?thesis
    by (simp add: normalizeReportStatus_def Let_def)
qed

lemma normalizeReportStatus_Some_iff:
  "normalizeReportStatus x = Some v \<longleftrightarrow> toUpperCase x = report_status_name v"
proof
  assume "normalizeReportStatus x = Some v"
  then show "toUpperCase x = report_status_name v"
    by (auto simp: normalizeReportStatus_def Let_def dest: find_SomeD)
next
  assume "toUpperCase x = report_status_name v"
  then have "normalizeReportStatus x = normalizeReportStatus (report_status_name v)"
    by (simp add: normalizeReportStatus_def)
  then show "normalizeReportStatus x = Some v"
    by simp
qed

lemma canTransition_names [simp]:
  "canTransitionReportStatus (report_status_name a) (report_status_name b) \<longleftrightarrow>
     b \<in> set (ALLOWED_REPORT_TRANSITIONS a)"
  by (simp add: canTransitionReportStatus_def)

text \<open>
  The transition relation of the table, and its states in the order of the life of a report. The
  only way to close a report in the table is from a provider's completion.
\<close>

definition workflow_step :: "report_status \<Rightarrow> report_status \<Rightarrow> bool" where
  "workflow_step a b \<longleftrightarrow> b \<in> set (ALLOWED_REPORT_TRANSITIONS a)"

lemma workflow_step_cases:
  assumes "workflow_step a b"
  obtains "a = TRIAGE" "b = ORG_REVIEW" | "a = ORG_REVIEW" "b = PENDING" | "a = ORG_REVIEW" "b = TRIAGE"
    | "a = PENDING" "b = ASSIGNED" | "a = PENDING" "b = ORG_REVIEW" | "a = ASSIGNED" "b = IN_PROGRESS"
    | "a = IN_PROGRESS" "b = COMPLETED_BY_PROVIDER" | "a = COMPLETED_BY_PROVIDER" "b = CLOSED"
  using assms by (cases a) (auto simp: workflow_step_def)

lemma workflow_step_names:
  "canTransitionReportStatus (report_status_name a) (report_status_name b) = workflow_step a b"
  by (simp add: workflow_step_def)

end
