(* ===== verification/Trust.thy ===== *)
theory Trust imports Recording begin

text \<open>
  The part of \<open>trust/trust.service.ts\<close> a provider passes before starting work: the enforcement
  settings of the organization, the user's identity and entitlement (created when missing), and
  the decision. Lines 586-625, 769-829 and 1106-1209. The year of an identity number is the year
  of the clock in UTC.
\<close>

record trust_user =
  tu_id :: string
  tu_role :: user_role
  tu_organizationId :: "string option"

definition trust_audit ::
    "trust_user \<Rightarrow> string \<Rightarrow> string \<Rightarrow> string \<Rightarrow> (string \<times> json) list \<Rightarrow> unit handler" where
  "trust_audit user action entityType entityId metadata =
     modify (complianceAuditLogs_update (\<lambda>rows. rows @
       [\<lparr> c_action = action, c_actorId = Some (tu_id user), c_actorRole = Some (tu_role user),
          c_organizationId = tu_organizationId user, c_entityType = Some entityType,
          c_entityId = Some entityId, c_metadata = metadata \<rparr>]))"

section \<open>Enforcement settings\<close>

record trust_enforcement_settings =
  te_requireVerifiedIdentityForDisputes :: bool
  te_requireVerifiedIdentityForProviderJobAcceptance :: bool
  te_requireVerifiedIdentityForEvidenceUpload :: bool
  te_requireEntitlementPlanForPriorityWorkflows :: bool
  te_requiredPriorityPlan :: entitlement_plan

definition entitlement_plans :: "entitlement_plan list" where
  "entitlement_plans = [E_FREE, E_VERIFIED, E_PERSONAL_PLUS, E_PROFESSIONAL, E_BUSINESS, E_ENTERPRISE, E_GOVERNMENT]"

definition parsePlan :: "string \<Rightarrow> entitlement_plan" where
  "parsePlan value =
     (let normalized = toUpperCase (trim value)
      in or_else (find (\<lambda>p. entitlement_plan_name p = normalized) entitlement_plans) E_FREE)"

primrec planRank :: "entitlement_plan \<Rightarrow> nat" where
  "planRank E_FREE = 0"
| "planRank E_VERIFIED = 1"
| "planRank E_PERSONAL_PLUS = 2"
| "planRank E_PROFESSIONAL = 3"
| "planRank E_BUSINESS = 4"
| "planRank E_ENTERPRISE = 5"
| "planRank E_GOVERNMENT = 6"

definition enforcementSettingKey :: "string option \<Rightarrow> string" where
  "enforcementSettingKey organizationId = ''trust_enforcement:'' @ or_else organizationId ''global''"

definition readEnforcementSettings :: "string option \<Rightarrow> 's tables_scheme \<Rightarrow> trust_enforcement_settings" where
  "readEnforcementSettings organizationId s =
     (let value = (case map_of (platformSettings s) (enforcementSettingKey organizationId) of
            Some (JObj kvs) \<Rightarrow> kvs | _ \<Rightarrow> []);
          flag = (\<lambda>k. map_of value k = Some (JBool True))
      in \<lparr> te_requireVerifiedIdentityForDisputes = flag ''requireVerifiedIdentityForDisputes'',
           te_requireVerifiedIdentityForProviderJobAcceptance =
             flag ''requireVerifiedIdentityForProviderJobAcceptance'',
           te_requireVerifiedIdentityForEvidenceUpload = flag ''requireVerifiedIdentityForEvidenceUpload'',
           te_requireEntitlementPlanForPriorityWorkflows = flag ''requireEntitlementPlanForPriorityWorkflows'',
           te_requiredPriorityPlan = (case map_of value ''requiredPriorityPlan'' of
              None \<Rightarrow> E_FREE | Some JNull \<Rightarrow> E_FREE | Some v \<Rightarrow> parsePlan (json_text v)) \<rparr>)"

section \<open>Identity and entitlement\<close>

definition identityTypeForRole :: "user_role \<Rightarrow> identity_type" where
  "identityTypeForRole role =
     (if role = PROVIDER \<or> role = PENDING_PROVIDER then PROVIDER_INDIVIDUAL
      else if role = ORG_ADMIN \<or> role = DISPATCH_OFFICER then ORGANIZATION_REPRESENTATIVE
      else if role = SUPER_ADMIN then GOVERNMENT_REPRESENTATIVE
      else INDIVIDUAL)"

definition zone_prefix :: "int \<Rightarrow> string" where
  "zone_prefix at_time = ''SZ-'' @ int_text (fst (civil_date (at_time div 86400000))) @ ''-''"

primrec zone_attempts :: "nat list \<Rightarrow> string \<Rightarrow> 's tables_scheme \<Rightarrow> string option" where
  "zone_attempts [] prefix s = None"
| "zone_attempts (attempt # later) prefix s =
     (let count = length (filter (\<lambda>u. \<exists>z\<in>set_option (u_secureZoneId u). starts_with z prefix) (users s));
          candidate = prefix @ pad_left 6 (nat_text (count + 1 + attempt))
      in if list_ex (\<lambda>u. u_secureZoneId u = Some candidate) (users s) then zone_attempts later prefix s
         else Some candidate)"

definition nextSecureZoneId :: "env \<Rightarrow> 's tables_scheme \<Rightarrow> string" where
  "nextSecureZoneId env s =
     (let prefix = zone_prefix (now env) in
      or_else (zone_attempts [0, 1, 2, 3, 4] prefix s)
        (prefix @ (let digits = int_text (now env) in drop (length digits - 6) digits)))"

definition ensureIdentity :: "env \<Rightarrow> string \<Rightarrow> user handler" where
  "ensureIdentity env userId =
     bnd (gets (find_user userId)) (\<lambda>found.
     bnd (require (NotFound ''User not found'') found) (\<lambda>user.
       if truthy (u_secureZoneId user) then ret user
       else bnd (gets (nextSecureZoneId env)) (\<lambda>zone.
         update_user userId (\<lambda>u. u\<lparr> u_secureZoneId := Some zone, u_identityType := identityTypeForRole (u_role user) \<rparr>))))"

definition ensureEntitlement :: "string \<Rightarrow> user_entitlement handler" where
  "ensureEntitlement userId =
     bnd (gets (\<lambda>s. find (\<lambda>e. ue_userId e = userId) (userEntitlements s))) (\<lambda>existing.
       case existing of
         Some e \<Rightarrow> ret e
       | None \<Rightarrow>
           (let created = \<lparr> ue_userId = userId, ue_plan = E_FREE, ue_canAccessServiceModule = True,
                            ue_requiredVerificationLevel = 0 \<rparr>
            in sq (modify (userEntitlements_update (\<lambda>rows. rows @ [created]))) (ret created)))"

section \<open>The decision\<close>

record access_requirements =
  ar_requiredVerificationLevel :: "int option"
  ar_requiredPlan :: "entitlement_plan option"
  ar_organizationId :: "string option"

record access_decision =
  ax_allowed :: bool
  ax_canAccessServiceModule :: bool
  ax_organizationAllowed :: bool
  ax_verificationAllowed :: bool
  ax_planAllowed :: bool
  ax_currentVerificationLevel :: int
  ax_requiredVerificationLevel :: int
  ax_currentPlan :: entitlement_plan
  ax_requiredPlan :: "entitlement_plan option"

definition decide_access ::
    "trust_user \<Rightarrow> access_requirements \<Rightarrow> user \<Rightarrow> user_entitlement \<Rightarrow> access_decision" where
  "decide_access user requirements identity entitlement =
     (let requiredLevel = or_else (ar_requiredVerificationLevel requirements) (ue_requiredVerificationLevel entitlement);
          organizationAllowed = (\<not> truthy (ar_organizationId requirements) \<or> tu_role user = SUPER_ADMIN \<or>
            tu_organizationId user = ar_organizationId requirements);
          verificationAllowed = (u_identityVerificationLevel identity \<ge> requiredLevel);
          planAllowed = (case ar_requiredPlan requirements of None \<Rightarrow> True
            | Some p \<Rightarrow> planRank (ue_plan entitlement) \<ge> planRank p)
      in \<lparr> ax_allowed = (ue_canAccessServiceModule entitlement \<and> organizationAllowed \<and> verificationAllowed \<and> planAllowed),
           ax_canAccessServiceModule = ue_canAccessServiceModule entitlement,
           ax_organizationAllowed = organizationAllowed,
           ax_verificationAllowed = verificationAllowed,
           ax_planAllowed = planAllowed,
           ax_currentVerificationLevel = u_identityVerificationLevel identity,
           ax_requiredVerificationLevel = requiredLevel,
           ax_currentPlan = ue_plan entitlement,
           ax_requiredPlan = ar_requiredPlan requirements \<rparr>)"

definition checkAccessRequirements :: "env \<Rightarrow> trust_user \<Rightarrow> access_requirements \<Rightarrow> access_decision handler" where
  "checkAccessRequirements env user requirements =
     bnd (ensureIdentity env (tu_id user)) (\<lambda>identity.
     bnd (ensureEntitlement (tu_id user)) (\<lambda>entitlement.
       ret (decide_access user requirements identity entitlement)))"

datatype trust_action = Open_dispute | Evidence_upload | Provider_job_acceptance

primrec trust_action_name :: "trust_action \<Rightarrow> string" where
  "trust_action_name Open_dispute = ''open_dispute''"
| "trust_action_name Evidence_upload = ''evidence_upload''"
| "trust_action_name Provider_job_acceptance = ''provider_job_acceptance''"

primrec requires_verified :: "trust_enforcement_settings \<Rightarrow> trust_action \<Rightarrow> bool" where
  "requires_verified settings Open_dispute = te_requireVerifiedIdentityForDisputes settings"
| "requires_verified settings Evidence_upload = te_requireVerifiedIdentityForEvidenceUpload settings"
| "requires_verified settings Provider_job_acceptance =
     te_requireVerifiedIdentityForProviderJobAcceptance settings"

definition jaccess :: "access_decision \<Rightarrow> json" where
  "jaccess a = JObj
     [(''allowed'', JBool (ax_allowed a)), (''canAccessServiceModule'', JBool (ax_canAccessServiceModule a)),
      (''organizationAllowed'', JBool (ax_organizationAllowed a)),
      (''verificationAllowed'', JBool (ax_verificationAllowed a)), (''planAllowed'', JBool (ax_planAllowed a)),
      (''currentVerificationLevel'', jint (ax_currentVerificationLevel a)),
      (''requiredVerificationLevel'', jint (ax_requiredVerificationLevel a)),
      (''currentPlan'', JStr (entitlement_plan_name (ax_currentPlan a))),
      (''requiredPlan'', jopt (JStr \<circ> entitlement_plan_name) (ax_requiredPlan a))]"

definition assertEnforcementAllows :: "env \<Rightarrow> trust_user \<Rightarrow> trust_action \<Rightarrow> unit handler" where
  "assertEnforcementAllows env user action =
     bnd (gets (readEnforcementSettings (tu_organizationId user))) (\<lambda>settings.
     bnd (checkAccessRequirements env user
            \<lparr> ar_requiredVerificationLevel = Some (if requires_verified settings action then 1 else 0),
              ar_requiredPlan = (if te_requireEntitlementPlanForPriorityWorkflows settings
                 then Some (te_requiredPriorityPlan settings) else None),
              ar_organizationId = tu_organizationId user \<rparr>) (\<lambda>access.
       if ax_allowed access then ret ()
       else sq (trust_audit user ''Trust Enforcement Blocked'' ''TrustPolicy'' (trust_action_name action)
                  [(''action'', JStr (trust_action_name action)), (''access'', jaccess access)])
          (throw (Forbidden ''SecureZone Trust policy requires additional verification or entitlement before this action can continue.''))))"

definition assertProviderJobAcceptanceAllowed :: "env \<Rightarrow> trust_user \<Rightarrow> unit handler" where
  "assertProviderJobAcceptanceAllowed env user = assertEnforcementAllows env user Provider_job_acceptance"

section \<open>Lemmas\<close>

lemma leaves_reports_update_user: "leaves reports (update_user k f)"
  by (rule leavesI)
    (auto elim!: user_table.updateE simp: put_user_def row_put_def)

lemma leaves_reports_modify [leaves_rules]:
  "leaves reports (modify (complianceAuditLogs_update f))"
  "leaves reports (modify (userEntitlements_update g))"
  by (simp_all add: leaves_modify)

lemma leaves_reports_trust [leaves_rules]: "leaves reports (assertProviderJobAcceptanceAllowed env user)"
  unfolding assertProviderJobAcceptanceAllowed_def assertEnforcementAllows_def checkAccessRequirements_def
    ensureIdentity_def ensureEntitlement_def trust_audit_def Let_def
  by (intro leaves_rules leaves_reports_update_user)

text \<open>An identity number taken from the sequence is not in use.\<close>

lemma zone_attempts_fresh:
  "zone_attempts attempts prefix s = Some z \<Longrightarrow> Some z \<notin> u_secureZoneId ` set (users s)"
  by (induction attempts) (auto simp: Let_def list_ex_iff image_iff split: if_splits)

text \<open>Access that was granted names a user with the required level and an entitlement that covers the plan.\<close>

lemma decide_access_allowed:
  "ax_allowed (decide_access user q identity e) \<longleftrightarrow>
     ue_canAccessServiceModule e \<and>
     (truthy (ar_organizationId q) \<longrightarrow> tu_role user = SUPER_ADMIN \<or> tu_organizationId user = ar_organizationId q) \<and>
     or_else (ar_requiredVerificationLevel q) (ue_requiredVerificationLevel e) \<le> u_identityVerificationLevel identity \<and>
     (\<forall>p. ar_requiredPlan q = Some p \<longrightarrow> planRank p \<le> planRank (ue_plan e))"
  by (auto simp: decide_access_def Let_def split: option.split)

end
