(* ===== verification/Assignment.thy ===== *)
theory Assignment imports Report_Handler Report_Workflow Trust begin

text \<open>
  Assignment of providers (\<open>report/report.service.ts\<close>, lines 1741-2087 and 7270-7445, 7626-7685):
  overdue assignments return to dispatch, an operator assigns, cancels and reassigns, a provider
  declines. A report's columns of the last assignment tell how it ended.
\<close>

section \<open>Overdue assignments\<close>

record expire_filter =
  ef_providerId :: "string option"
  ef_organizationId :: "string option"
  ef_actor :: "jwt_user option"

definition system_actor :: jwt_user where
  "system_actor = \<lparr> j_id = None, j_userId = None, j_sub = None, j_email = None, j_phone = None, j_fullName = Some ''System'',
     j_role = DISPATCH_OFFICER, j_organizationId = None \<rparr>"

definition overdue :: "env \<Rightarrow> expire_filter \<Rightarrow> report \<Rightarrow> bool" where
  "overdue env flt r \<longleftrightarrow>
     r_status r = ASSIGNED \<and>
     (case r_assignmentDeadlineAt r of None \<Rightarrow> False | Some d \<Rightarrow> d < now env) \<and>
     (truthy (ef_providerId flt) \<longrightarrow> r_assignedProviderId r = ef_providerId flt) \<and>
     (truthy (ef_organizationId flt) \<longrightarrow> Some (r_organizationId r) = ef_organizationId flt)"

definition expire_data :: "env \<Rightarrow> report \<Rightarrow> report" where
  "expire_data env report =
     report\<lparr> r_status := PENDING,
       r_assignedProviderId := None,
       r_assignedAt := None,
       r_assignmentDeadlineAt := None,
       r_lastAssignmentOutcome := Some TIMED_OUT,
       r_lastAssignmentReason := Some ''Assignment acceptance window expired'',
       r_lastAssignmentAt := Some (now env),
       r_lastAssignmentProviderId := r_assignedProviderId report \<rparr>"

definition expire_effects :: "env \<Rightarrow> expire_filter \<Rightarrow> report \<Rightarrow> unit handler" where
  "expire_effects env flt report =
     (let actor = or_else (ef_actor flt) system_actor; title = quoted (r_title report) in
      sq (recordReportActivity env (r_id report) ''ASSIGNMENT_TIMED_OUT'' actor
            \<lparr> ad_organizationId = r_organizationId report, ad_fromStatus = Some ASSIGNED, ad_toStatus = Some PENDING,
              ad_providerId = r_assignedProviderId report,
              ad_reason = Some ''Assignment acceptance window expired'', ad_note = None,
              ad_metadata = Some (JObj [(''autoUnassigned'', JBool True)]) \<rparr>)
     (sq (notifyOrganizationOperators (r_organizationId report) (r_id report) ''assignment_timeout''
            ''Assignment timed out'' (''Assignment for '' @ title @ '' timed out and returned to dispatch.''))
     (sq (case nonempty (r_assignedProviderId report) of
            None \<Rightarrow> ret ()
          | Some providerId \<Rightarrow> createNotification (notice providerId (r_id report) ''assignment_timeout''
              ''Assignment timed out'' (''Your assignment for '' @ title @ '' expired and was returned to dispatch.'')))
     (sq (createNotification (notice (r_citizenId report) (r_id report) ''assignment_timeout'' ''Assignment update''
            (''The provider assignment for '' @ title @ '' timed out. Dispatch will reassign it.'')))
         (audit ''Assignment Timed Out'' actor
            [(''targetType'', JStr ''Report''), (''targetId'', JStr (r_id report)),
             (''previousProviderId'', jopt JStr (r_assignedProviderId report)),
             (''organizationId'', JStr (r_organizationId report))])))))"

record expired_assignment =
  xa_id :: string
  xa_title :: string
  xa_organizationId :: string
  xa_previousProviderId :: "string option"

definition expired_assignment_of :: "report \<Rightarrow> expired_assignment" where
  "expired_assignment_of report =
     \<lparr> xa_id = r_id report, xa_title = r_title report, xa_organizationId = r_organizationId report,
       xa_previousProviderId = r_assignedProviderId report \<rparr>"

definition expireOverdueAssignments :: "env \<Rightarrow> expire_filter \<Rightarrow> expired_assignment list handler" where
  "expireOverdueAssignments env flt =
     bnd (gets (\<lambda>s. filter (overdue env flt) (reports s))) (\<lambda>overdueReports.
     sq (for_each overdueReports (\<lambda>report.
           bnd (update_report (r_id report) (expire_data env)) (\<lambda>updated. expire_effects env flt report)))
        (ret (map expired_assignment_of overdueReports)))"

record overdue_result =
  ov_expired :: nat
  ov_reports :: "expired_assignment list"
  ov_timeoutMinutes :: int

definition processOverdueAssignments :: "env \<Rightarrow> jwt_user \<Rightarrow> overdue_result handler" where
  "processOverdueAssignments env user =
     sq (throw_if (\<not> isAdmin user \<and> \<not> isDispatch user \<and> \<not> isSuperAdmin user) (Forbidden ''Not allowed''))
    (bnd (expireOverdueAssignments env
            \<lparr> ef_providerId = None,
              ef_organizationId = (if isSuperAdmin user then None else j_organizationId user),
              ef_actor = Some user \<rparr>) (\<lambda>result.
       ret \<lparr> ov_expired = length result, ov_reports = result, ov_timeoutMinutes = assignmentTimeoutMinutes env \<rparr>))"

section \<open>Checks on providers\<close>

definition assertActiveProvider :: "string \<Rightarrow> unit handler" where
  "assertActiveProvider userId =
     bnd (gets (find_user userId)) (\<lambda>found.
     bnd (require (Forbidden ''Provider account not found'') found) (\<lambda>u.
     sq (throw_if (u_role u \<noteq> PROVIDER) (Forbidden ''Provider account not found''))
        (throw_if (u_accountStatus u = SUSPENDED) (Forbidden ''Provider account is suspended''))))"

definition authorizedProviderOrganizationIds :: "jwt_user \<Rightarrow> string list handler" where
  "authorizedProviderOrganizationIds user =
     bnd (getUserId user) (\<lambda>userId.
     bnd (gets (\<lambda>s. filter (\<lambda>l. l_providerId l = userId \<and> l_active l) (providerOrganizations s))) (\<lambda>links.
       ret (uniq ((case nonempty (j_organizationId user) of None \<Rightarrow> [] | Some i \<Rightarrow> [i]) @
                  filter (\<lambda>i. i \<noteq> []) (map l_organizationId links)))))"

definition assertProviderCanAccessReport :: "jwt_user \<Rightarrow> string \<Rightarrow> string option \<Rightarrow> unit handler" where
  "assertProviderCanAccessReport user organizationId assignedProviderId =
     (if \<not> isProvider user then ret ()
      else bnd (if truthy assignedProviderId then bnd (getUserId user) (\<lambda>i. ret (assignedProviderId = Some i))
                else ret False) (\<lambda>own.
        if own then ret ()
        else bnd (authorizedProviderOrganizationIds user) (\<lambda>organizationIds.
          throw_if (organizationId \<notin> set organizationIds) (Forbidden ''Provider organization access denied''))))"

definition assertAssignmentStillAcceptable :: "env \<Rightarrow> report \<Rightarrow> jwt_user \<Rightarrow> string \<Rightarrow> unit handler" where
  "assertAssignmentStillAcceptable env report user userId =
     (if r_status report \<noteq> ASSIGNED \<or> r_assignedProviderId report \<noteq> Some userId \<or>
         (case r_assignmentDeadlineAt report of None \<Rightarrow> True | Some d \<Rightarrow> d \<ge> now env)
      then ret ()
      else sq (expireOverdueAssignments env
                 \<lparr> ef_providerId = Some userId, ef_organizationId = None, ef_actor = Some user \<rparr>)
              (throw (Conflict ''Assignment acceptance window expired'')))"

definition assertAssignmentAllowed :: "report \<Rightarrow> string option \<Rightarrow> bool \<Rightarrow> jwt_user \<Rightarrow> ('s, unit) svc" where
  "assertAssignmentAllowed report providerOrganizationId providerLinkedToReportOrg user =
     sq (throw_if (normalizeReportStatus (report_status_name (r_status report)) \<noteq> Some PENDING)
           (Forbidden ''Report cannot be assigned in its current status''))
    (sq (throw_if (truthy (r_assignedProviderId report)) (Forbidden ''Report already has an assigned provider''))
        (when_do (\<not> isSuperAdmin user)
          (sq (throw_if (j_organizationId user \<noteq> Some (r_organizationId report)) (Forbidden ''Cross-org not allowed''))
              (throw_if (providerOrganizationId \<noteq> j_organizationId user \<and> \<not> providerLinkedToReportOrg)
                 (Forbidden ''Provider must be same org'')))))"

section \<open>Cancelling\<close>

definition cancel_data :: "env \<Rightarrow> string \<Rightarrow> report \<Rightarrow> report" where
  "cancel_data env reason report =
     report\<lparr> r_status := PENDING,
       r_assignedProviderId := None,
       r_assignedAt := None,
       r_assignmentDeadlineAt := None,
       r_lastAssignmentOutcome := Some REJECTED,
       r_lastAssignmentReason := Some reason,
       r_lastAssignmentAt := Some (now env),
       r_lastAssignmentProviderId := r_assignedProviderId report \<rparr>"

definition cancel_effects ::
    "env \<Rightarrow> string \<Rightarrow> string \<Rightarrow> jwt_user \<Rightarrow> report \<Rightarrow> report \<Rightarrow> unit handler" where
  "cancel_effects env reportId reason user report updated =
     (let previous = or_else (r_assignedProviderId report) []; title = quoted (r_title updated) in
      sq (audit ''Assignment Cancelled'' user
            [(''targetType'', JStr ''Report''), (''targetId'', JStr reportId), (''reason'', JStr reason),
             (''previousProviderId'', JStr previous), (''organizationId'', JStr (r_organizationId updated))])
     (sq (recordReportActivity env reportId ''ASSIGNMENT_CANCELLED'' user
            \<lparr> ad_organizationId = r_organizationId updated, ad_fromStatus = Some (r_status report),
              ad_toStatus = Some (r_status updated), ad_providerId = Some previous, ad_reason = Some reason,
              ad_note = None, ad_metadata = Some (JObj [(''returnedToDispatchQueue'', JBool True)]) \<rparr>)
     (sq (createNotification (notice previous reportId ''assignment_cancelled'' ''Assignment cancelled''
            (''Your assignment for '' @ title @ '' was cancelled. Reason: '' @ reason)))
         (notifyOrganizationOperators (r_organizationId updated) reportId ''assignment_cancelled''
            ''Assignment returned to dispatch'' (title @ '' was returned to the dispatch queue.'')))))"

definition cancelAssignment :: "env \<Rightarrow> string \<Rightarrow> string option \<Rightarrow> jwt_user \<Rightarrow> report handler" where
  "cancelAssignment env reportId reason user =
     (let cleanReason = or_else (trimmed reason) ''Assignment cancelled by administrator'' in
      bnd (sq (throw_if (\<not> isAdmin user \<and> \<not> isDispatch user \<and> \<not> isSuperAdmin user) (Forbidden ''Not allowed''))
          (bnd (gets (find_report reportId)) (\<lambda>found. require (NotFound ''Report not found'') found))) (\<lambda>report.
      bnd (sq (throw_if (\<not> isSuperAdmin user \<and> j_organizationId user \<noteq> Some (r_organizationId report))
                 (Forbidden ''Wrong org''))
              (throw_if (\<not> truthy (r_assignedProviderId report) \<or> r_status report = PENDING)
                 (Forbidden ''Report has no active assignment''))) (\<lambda>_.
      bnd (update_report (r_id report) (cancel_data env cleanReason)) (\<lambda>updated.
      sq (cancel_effects env reportId cleanReason user report updated) (ret updated)))))"

section \<open>Assigning\<close>

record assign_options =
  ao_overrideOrganizationRouting :: bool
  ao_overrideReason :: "string option"

definition no_options :: assign_options where
  "no_options = \<lparr> ao_overrideOrganizationRouting = False, ao_overrideReason = None \<rparr>"

definition minute_ms :: int where "minute_ms = 60 * 1000"

definition assign_data :: "env \<Rightarrow> string \<Rightarrow> report \<Rightarrow> report" where
  "assign_data env providerId report =
     report\<lparr> r_assignedProviderId := Some providerId,
       r_status := ASSIGNED,
       r_assignedAt := Some (now env),
       r_assignmentDeadlineAt := Some (now env + assignmentTimeoutMinutes env * minute_ms),
       r_lastAssignmentOutcome := None,
       r_lastAssignmentReason := None,
       r_lastAssignmentAt := None,
       r_lastAssignmentProviderId := None \<rparr>"

definition linked_to :: "string \<Rightarrow> string \<Rightarrow> 's tables_scheme \<Rightarrow> bool" where
  "linked_to providerId organizationId s =
     list_ex (\<lambda>l. l_providerId l = providerId \<and> l_organizationId l = organizationId \<and> l_active l)
       (providerOrganizations s)"

definition belongs_to :: "user \<Rightarrow> string \<Rightarrow> 's tables_scheme \<Rightarrow> bool" where
  "belongs_to provider organizationId s \<longleftrightarrow>
     u_organizationId provider = Some organizationId \<or> linked_to (u_id provider) organizationId s"

definition assign_effects ::
    "env \<Rightarrow> string \<Rightarrow> string \<Rightarrow> jwt_user \<Rightarrow> bool \<Rightarrow> string option \<Rightarrow> report \<Rightarrow> report \<Rightarrow> unit handler" where
  "assign_effects env reportId providerId user override overrideReason report updated =
     sq (notifyStatusChange updated)
    (sq (notifyOrganizationOperators (r_organizationId updated) reportId ''assignment'' ''Provider assigned''
           (''A provider was assigned to '' @ quoted (r_title updated) @ ''.''))
    (sq (createNotification (notice providerId reportId ''assignment'' ''New assignment''
           (''You have been assigned '' @ quoted (r_title updated) @ ''. Accept before '' @
            or_else (map_option toISOString (r_assignmentDeadlineAt updated)) ''the timeout window expires'' @ ''.'')))
    (sq (audit ''Report Assigned'' user
           [(''targetType'', JStr ''Report''), (''targetId'', JStr reportId), (''providerId'', JStr providerId),
            (''organizationId'', JStr (r_organizationId updated)), (''override'', JBool override),
            (''overrideReason'', jopt JStr overrideReason)])
        (recordReportActivity env reportId ''PROVIDER_ASSIGNED'' user
           \<lparr> ad_organizationId = r_organizationId updated, ad_fromStatus = Some (r_status report),
             ad_toStatus = Some (r_status updated), ad_providerId = Some providerId, ad_reason = overrideReason,
             ad_note = None,
             ad_metadata = Some (JObj
               [(''override'', JBool override),
                (''assignmentDeadlineAt'', jopt (JStr \<circ> toISOString) (r_assignmentDeadlineAt updated)),
                (''previousProviderId'', jopt JStr (r_assignedProviderId report)),
                (''actorRole'', JStr (user_role_name (j_role user)))]) \<rparr>))))"

text \<open>The guards of \<open>assignProviderById\<close> after the report is found: the provider and the routing override.\<close>

definition assignment_guards ::
    "string \<Rightarrow> jwt_user \<Rightarrow> assign_options \<Rightarrow> report \<Rightarrow> (bool \<times> string option) handler" where
  "assignment_guards providerId user options report =
     bnd (gets (find_user providerId)) (\<lambda>found.
     bnd (require (Forbidden ''Invalid provider'') found) (\<lambda>provider.
     sq (throw_if (u_role provider \<noteq> PROVIDER) (Forbidden ''Invalid provider''))
    (sq (throw_if (u_accountStatus provider \<noteq> ACTIVE) (Forbidden ''Provider account is not active''))
    (bnd (gets (linked_to providerId (r_organizationId report))) (\<lambda>providerLinkedToReportOrg.
     let providerPrimaryInReportOrg = (u_organizationId provider = Some (r_organizationId report));
         providerBelongsToReportOrg = (providerPrimaryInReportOrg \<or> providerLinkedToReportOrg);
         requiresSuperAdminOverride = (isSuperAdmin user \<and> \<not> providerBelongsToReportOrg);
         overrideReason = map_option trim (ao_overrideReason options) in
     sq (throw_if (requiresSuperAdminOverride \<and>
                   (\<not> ao_overrideOrganizationRouting options \<or> \<not> truthy overrideReason))
           (Forbidden ''ORGANIZATION_ROUTING_OVERRIDE_REQUIRED''))
    (sq (assertAssignmentAllowed report (u_organizationId provider) providerLinkedToReportOrg user)
    (sq (throw_if (\<not> isSuperAdmin user \<and> \<not> providerBelongsToReportOrg)
           (Forbidden ''Provider must have active membership in the report organization''))
        (ret (requiresSuperAdminOverride, overrideReason)))))))))"

definition assignProviderById ::
    "env \<Rightarrow> string \<Rightarrow> string \<Rightarrow> jwt_user \<Rightarrow> assign_options \<Rightarrow> report handler" where
  "assignProviderById env reportId providerId user options =
     bnd (sq (throw_if (\<not> isAdmin user \<and> \<not> isDispatch user \<and> \<not> isSuperAdmin user) (Forbidden ''Not allowed''))
         (bnd (gets (find_report reportId)) (\<lambda>found. require (NotFound ''Report not found'') found))) (\<lambda>report.
     bnd (assignment_guards providerId user options report) (\<lambda>override.
     bnd (update_report (r_id report) (assign_data env providerId)) (\<lambda>updated.
     sq (assign_effects env reportId providerId user (fst override) (snd override) report updated) (ret updated))))"

section \<open>Reassigning\<close>

definition reassign_effects ::
    "env \<Rightarrow> string \<Rightarrow> string \<Rightarrow> string option \<Rightarrow> jwt_user \<Rightarrow> string option \<Rightarrow> report \<Rightarrow> unit handler" where
  "reassign_effects env reportId providerId reason user previousProviderId updated =
     sq (audit ''Report Reassigned'' user
           [(''targetType'', JStr ''Report''), (''targetId'', JStr reportId),
            (''previousProviderId'', jopt JStr previousProviderId), (''newProviderId'', JStr providerId),
            (''reason'', jopt JStr (trimmed reason)), (''organizationId'', JStr (r_organizationId updated))])
    (sq (recordReportActivity env reportId ''PROVIDER_REASSIGNED'' user
           \<lparr> ad_organizationId = r_organizationId updated, ad_fromStatus = Some PENDING,
             ad_toStatus = Some (r_status updated), ad_providerId = Some providerId, ad_reason = trimmed reason,
             ad_note = None, ad_metadata = Some (JObj [(''previousProviderId'', jopt JStr previousProviderId)]) \<rparr>)
    (sq (case nonempty previousProviderId of
           None \<Rightarrow> ret ()
         | Some previous \<Rightarrow> createNotification (notice previous reportId ''assignment_reassigned''
             ''Assignment reassigned'' (quoted (r_title updated) @ '' was reassigned to another provider.'')))
        (createNotification (notice providerId reportId ''assignment'' ''New assignment''
           (''You have been assigned '' @ quoted (r_title updated) @ ''.'')))))"

definition reassignProvider ::
    "env \<Rightarrow> string \<Rightarrow> string \<Rightarrow> string option \<Rightarrow> jwt_user \<Rightarrow> report handler" where
  "reassignProvider env reportId providerId reason user =
     bnd (gets (find_report reportId)) (\<lambda>found.
     bnd (require (NotFound ''Report not found'') found) (\<lambda>report.
     let previousProviderId = r_assignedProviderId report in
     sq (if truthy previousProviderId
         then sq (cancelAssignment env reportId
                   (Some (or_else (trimmed reason) ''Reassigned by administrator'')) user) (ret ())
         else ret ())
    (bnd (assignProviderById env reportId providerId user no_options) (\<lambda>updated.
     sq (reassign_effects env reportId providerId reason user previousProviderId updated) (ret updated)))))"

section \<open>Declining\<close>

definition decline_data :: "env \<Rightarrow> string \<Rightarrow> string \<Rightarrow> report \<Rightarrow> report" where
  "decline_data env reason userId report =
     report\<lparr> r_status := PENDING,
       r_assignedProviderId := None,
       r_assignedAt := None,
       r_assignmentDeadlineAt := None,
       r_lastAssignmentOutcome := Some REJECTED,
       r_lastAssignmentReason := Some reason,
       r_lastAssignmentAt := Some (now env),
       r_lastAssignmentProviderId := Some userId \<rparr>"

definition decline_effects ::
    "env \<Rightarrow> string \<Rightarrow> string \<Rightarrow> string \<Rightarrow> jwt_user \<Rightarrow> report \<Rightarrow> report \<Rightarrow> unit handler" where
  "decline_effects env reportId reason userId user report updated =
     sq (audit ''Provider Rejected Assignment'' user
           [(''targetType'', JStr ''Report''), (''targetId'', JStr reportId), (''reason'', JStr reason)])
    (sq (recordReportActivity env reportId ''PROVIDER_REJECTED'' user
           \<lparr> ad_organizationId = r_organizationId updated, ad_fromStatus = Some (r_status report),
             ad_toStatus = Some (r_status updated), ad_providerId = Some userId, ad_reason = Some reason,
             ad_note = None, ad_metadata = Some (JObj [(''returnedToQueue'', JBool True)]) \<rparr>)
        (notifyOrganizationOperators (r_organizationId updated) reportId ''assignment_rejected''
           ''Assignment rejected''
           (''Provider rejected '' @ quoted (r_title updated) @ ''. Reason: '' @ reason)))"

text \<open>The checks of \<open>rejectAssignment\<close> before the deadline is looked at; they give the provider's id and the report.\<close>

definition decline_checks :: "string \<Rightarrow> jwt_user \<Rightarrow> (string \<times> report) handler" where
  "decline_checks reportId user =
     bnd (getUserId user) (\<lambda>userId.
     sq (throw_if (\<not> isProvider user) (Forbidden ''Only providers can reject assignments''))
    (sq (assertActiveProvider userId)
    (bnd (gets (find_report reportId)) (\<lambda>found.
     bnd (require (NotFound ''Report not found'') found) (\<lambda>report.
     sq (throw_if (r_assignedProviderId report \<noteq> Some userId) (Forbidden ''Not your report''))
    (sq (assertProviderCanAccessReport user (r_organizationId report) (r_assignedProviderId report))
        (ret (userId, report))))))))"

definition rejectAssignment :: "env \<Rightarrow> string \<Rightarrow> string \<Rightarrow> jwt_user \<Rightarrow> report handler" where
  "rejectAssignment env reportId dto_reason user =
     bnd (decline_checks reportId user) (\<lambda>(userId, report).
     let reason = trim dto_reason in
     sq (assertAssignmentStillAcceptable env report user userId)
    (sq (throw_if (r_status report \<noteq> ASSIGNED) (Forbidden ''Only new assignments can be rejected''))
    (bnd (update_report reportId (decline_data env reason userId)) (\<lambda>updated.
     sq (decline_effects env reportId reason userId user report updated) (ret updated)))))"

section \<open>Effects are quiet, checks only read\<close>

lemma quiet_assignment_effects [quiet_rules]:
  "quiet business (expire_effects env flt r)"
  "quiet business (cancel_effects env i reason user r u)"
  "quiet business (assign_effects env i p user override reason' r u)"
  "quiet business (reassign_effects env i p reason'' user previous u)"
  "quiet business (decline_effects env i reason userId user r u)"
  unfolding expire_effects_def cancel_effects_def assign_effects_def reassign_effects_def decline_effects_def Let_def
  by (intro quiet_rules)+

lemma reads_assignment_checks [reads_rules]:
  "reads (assertActiveProvider userId)"
  "reads (authorizedProviderOrganizationIds user)"
  "reads (assertProviderCanAccessReport user organizationId p)"
  "reads (assertAssignmentAllowed report porg linked user)"
  unfolding assertActiveProvider_def authorizedProviderOrganizationIds_def assertProviderCanAccessReport_def
    assertAssignmentAllowed_def
  by (intro reads_rules)+

lemma reads_assignment_guards [reads_rules]:
  "reads (assignment_guards providerId user options report)"
  "reads (decline_checks i user)"
  unfolding assignment_guards_def decline_checks_def Let_def by (intro reads_rules)+

section \<open>Outcomes\<close>

lemma expire_id [simp]: "r_id (expire_data env r) = r_id r"
  by (simp add: expire_data_def)

lemma expire_run:
  assumes "report_ids_ok s"
  obtains t where "expireOverdueAssignments env flt s =
      (Inr (map expired_assignment_of (filter (overdue env flt) (reports s))), t)"
    and "business t = business s\<lparr>reports := map_rows (overdue env flt) (expire_data env) (reports s)\<rparr>"
proof -
  from for_each_filter_update[of "\<lambda>r u. expire_effects env flt r" "expire_data env", OF _ _ assms]
  obtain t where "for_each (filter (overdue env flt) (reports s))
        (\<lambda>r. bnd (update_report (r_id r) (expire_data env)) (\<lambda>u. expire_effects env flt r)) s = (Inr (), t)"
      "business t = business s\<lparr>reports := map_rows (overdue env flt) (expire_data env) (reports s)\<rparr>"
    by (auto intro: quiet_rules)
  then show thesis
    by (intro that[of t]) (simp_all add: expireOverdueAssignments_def)
qed

definition user_expire_filter :: "jwt_user \<Rightarrow> expire_filter" where
  "user_expire_filter user = \<lparr> ef_providerId = None,
     ef_organizationId = (if isSuperAdmin user then None else j_organizationId user), ef_actor = Some user \<rparr>"

definition dispatcher :: "jwt_user \<Rightarrow> bool" where
  "dispatcher user \<longleftrightarrow> j_role user \<in> {ORG_ADMIN, DISPATCH_OFFICER, SUPER_ADMIN}"

lemma process_overdue_run:
  assumes "report_ids_ok s" and "dispatcher user"
  obtains t where "processOverdueAssignments env user s =
      (let expired = filter (overdue env (user_expire_filter user)) (reports s) in
       (Inr \<lparr> ov_expired = length expired, ov_reports = map expired_assignment_of expired,
              ov_timeoutMinutes = assignmentTimeoutMinutes env \<rparr>, t))"
    and "business t = business s\<lparr>reports := map_rows (overdue env (user_expire_filter user)) (expire_data env) (reports s)\<rparr>"
proof -
  obtain t where "expireOverdueAssignments env (user_expire_filter user) s =
      (Inr (map expired_assignment_of (filter (overdue env (user_expire_filter user)) (reports s))), t)"
    and "business t = business s\<lparr>reports := map_rows (overdue env (user_expire_filter user)) (expire_data env) (reports s)\<rparr>"
    by (rule expire_run[OF assms(1)])
  then show thesis
    using assms(2)
    by (intro that[of t])
      (auto simp: processOverdueAssignments_def user_expire_filter_def dispatcher_def role_defs Let_def)
qed

interpretation overdue_run: row_contract
  "\<lambda>(env, user). processOverdueAssignments env user"
  "\<lambda>_. True"
  "\<lambda>(env, user) s r r'. overdue env (user_expire_filter user) r \<and> r' = expire_data env r"
proof (unfold_locales, goal_cases)
  case (1 i s res t)
  obtain env user where i: "i = (env, user)" by (cases i)
  show ?case
  proof (cases "dispatcher user")
    case True
    obtain u where "processOverdueAssignments env user s =
        (let expired = filter (overdue env (user_expire_filter user)) (reports s) in
         (Inr \<lparr> ov_expired = length expired, ov_reports = map expired_assignment_of expired,
                ov_timeoutMinutes = assignmentTimeoutMinutes env \<rparr>, u))"
      and u: "business u = business s\<lparr>reports := map_rows (overdue env (user_expire_filter user)) (expire_data env) (reports s)\<rparr>"
      by (rule process_overdue_run[OF 1(3) True])
    then have "t = u" using 1(1) i by (simp add: Let_def)
    then have "reports t = map_rows (overdue env (user_expire_filter user)) (expire_data env) (reports s)"
      using arg_cong[OF u, of reports] by simp
    then show ?thesis using i map_rows_steps by simp
  next
    case False
    then have "t = s" using 1(1) i
      by (auto simp: processOverdueAssignments_def dispatcher_def role_defs)
    then show ?thesis by (simp add: list_all2_same)
  qed
qed auto

definition cancel_accepts :: "jwt_user \<Rightarrow> report \<Rightarrow> bool" where
  "cancel_accepts user r \<longleftrightarrow> dispatcher user \<and>
     (j_role user = SUPER_ADMIN \<or> j_organizationId user = Some (r_organizationId r)) \<and>
     truthy (r_assignedProviderId r) \<and> r_status r \<noteq> PENDING"

definition cancel_reason :: "string option \<Rightarrow> string" where
  "cancel_reason reason = or_else (trimmed reason) ''Assignment cancelled by administrator''"

lemma found_report_InrD:
  "bnd (gets (find_report i)) (\<lambda>found. require e found) s = (Inr r, t) \<Longrightarrow> find_report i s = Some r \<and> t = s"
  by (auto simp: svc_run split: option.splits)

lemma cancel_outcome:
  assumes "cancelAssignment env i reason user s = (res, t)"
  shows "(\<exists>e. res = Inl e \<and> business t = business s) \<or>
      (\<exists>r. res = Inr r \<and> find_report i s = Some r \<and> business t = business s) \<or>
      (\<exists>r. find_report i s = Some r \<and> cancel_accepts user r \<and> res = Inr (cancel_data env (cancel_reason reason) r) \<and>
           business t = put_report i (cancel_data env (cancel_reason reason)) (business s))"
  using assms unfolding cancelAssignment_def Let_def cancel_reason_def
  by (rule decision_outcome_plain)
    (auto intro!: reads_rules quiet_rules elim!: bnd_InrE
      simp: cancel_accepts_def dispatcher_def role_defs split: if_splits option.splits)

interpretation cancel: report_handler
  "\<lambda>(env, i, reason, user). cancelAssignment env i reason user"
  "\<lambda>_. True"
  "\<lambda>(env, i, reason, user). i"
  "\<lambda>(env, i, reason, user) s r. cancel_accepts user r"
  "\<lambda>(env, i, reason, user). cancel_data env (cancel_reason reason)"
  by unfold_locales (auto simp: cancel_data_def dest!: cancel_outcome)

definition assign_accepts ::
    "string \<Rightarrow> jwt_user \<Rightarrow> assign_options \<Rightarrow> db \<Rightarrow> report \<Rightarrow> bool" where
  "assign_accepts providerId user options s r \<longleftrightarrow> dispatcher user \<and>
     r_status r = PENDING \<and> \<not> truthy (r_assignedProviderId r) \<and>
     (j_role user = SUPER_ADMIN \<or> j_organizationId user = Some (r_organizationId r)) \<and>
     (\<exists>provider. find_user providerId s = Some provider \<and> u_role provider = PROVIDER \<and>
        u_accountStatus provider = ACTIVE \<and>
        (belongs_to provider (r_organizationId r) s \<or>
         j_role user = SUPER_ADMIN \<and> ao_overrideOrganizationRouting options \<and>
         trimmed (ao_overrideReason options) \<noteq> None))"

lemma assignment_guards_InrD:
  assumes "assignment_guards providerId user options r s = (Inr x, t)" and "dispatcher user"
  shows "assign_accepts providerId user options s r"
proof -
  from assms(1) obtain provider where p: "find_user providerId s = Some provider"
      "u_role provider = PROVIDER" "u_accountStatus provider = ACTIVE"
    by (auto simp: assignment_guards_def svc_run split: option.splits if_splits)
  then have "u_id provider = providerId"
    using find_user_SomeD by blast
  with assms p show ?thesis
    by (auto simp: assignment_guards_def assertAssignmentAllowed_def Let_def assign_accepts_def belongs_to_def
        role_defs trimmed_def truthy_nonempty dispatcher_def svc_run split: if_splits option.splits)
qed

lemma assign_outcome:
  assumes "assignProviderById env i providerId user options s = (res, t)"
  shows "(\<exists>e. res = Inl e \<and> business t = business s) \<or>
      (\<exists>r. res = Inr r \<and> find_report i s = Some r \<and> business t = business s) \<or>
      (\<exists>r. find_report i s = Some r \<and> assign_accepts providerId user options s r \<and>
           res = Inr (assign_data env providerId r) \<and>
           business t = put_report i (assign_data env providerId) (business s))"
proof (cases "dispatcher user")
  case True
  show ?thesis
    using assms unfolding assignProviderById_def
    by (rule decision_outcome_plain)
      (use True in \<open>auto intro!: reads_rules quiet_rules elim!: bnd_InrE
        dest: assignment_guards_InrD split: if_splits option.splits\<close>)
next
  case False
  then show ?thesis
    using assms by (auto simp: assignProviderById_def dispatcher_def role_defs svc_run)
qed

interpretation assign: report_handler
  "\<lambda>(env, i, providerId, user, options). assignProviderById env i providerId user options"
  "\<lambda>_. True"
  "\<lambda>(env, i, providerId, user, options). i"
  "\<lambda>(env, i, providerId, user, options) s r. assign_accepts providerId user options s r"
  "\<lambda>(env, i, providerId, user, options). assign_data env providerId"
  by unfold_locales (auto simp: assign_data_def dest!: assign_outcome)

text \<open>A reassignment is a cancellation, if there is an assignment, and an assignment.\<close>

definition reassign_steps ::
    "env \<Rightarrow> string \<Rightarrow> string \<Rightarrow> string option \<Rightarrow> jwt_user \<Rightarrow> report \<Rightarrow> report \<Rightarrow> bool" where
  "reassign_steps env i providerId reason user r r' \<longleftrightarrow> r_id r = i \<and>
     (let cancelled = cancel_data env (or_else (trimmed reason) ''Reassigned by administrator'') r in
      cancel_accepts user r \<and> r' = cancelled \<or>
      (\<exists>s. assign_accepts providerId user no_options s r) \<and> r' = assign_data env providerId r \<or>
      cancel_accepts user r \<and> (\<exists>s. assign_accepts providerId user no_options s cancelled) \<and>
        r' = assign_data env providerId cancelled)"

lemma trimmed_or_else [simp]:
  "d \<noteq> [] \<Longrightarrow> trim d = d \<Longrightarrow> trimmed (Some (or_else (trimmed x) d)) = Some (or_else (trimmed x) d)"
  by (auto simp: trimmed_def nonempty_def split: option.splits if_splits)

lemma reassign_first_step:
  assumes "(if truthy previous
            then sq (cancelAssignment env i (Some (or_else (trimmed reason) ''Reassigned by administrator'')) user) (ret ())
            else ret ()) s = (res, u)" and "report_ids_ok s"
  shows "report_ids_ok u \<and> list_all2 (\<lambda>r r'. r' = r \<or> (cancel_accepts user r \<and> r_id r = i) \<and>
      r' = cancel_data env (or_else (trimmed reason) ''Reassigned by administrator'') r) (reports s) (reports u)"
proof (cases "truthy previous")
  case True
  let ?reason = "Some (or_else (trimmed reason) ''Reassigned by administrator'')"
  have cr: "cancel_reason ?reason = or_else (trimmed reason) ''Reassigned by administrator''"
    by (simp add: cancel_reason_def trim_def is_space_def)
  obtain res' where run: "cancelAssignment env i ?reason user s = (res', u)"
    using assms(1) True by (auto elim: bndE)
  show ?thesis
    using cancel.row_steps[of "(env, i, ?reason, user)" s res' u] run assms(2) cr
      cancel.ids_ok[of "(env, i, ?reason, user)" s res' u] by simp
qed (use assms in \<open>simp add: list_all2_same\<close>)

lemma reassign_rows:
  assumes "reassignProvider env i providerId reason user s = (res, t)" and "report_ids_ok s"
  shows "list_all2 (\<lambda>r r'. r' = r \<or> reassign_steps env i providerId reason user r r') (reports s) (reports t)"
proof -
  let ?c = "cancel_data env (or_else (trimmed reason) ''Reassigned by administrator'')"
  let ?A = "\<lambda>r r'. (cancel_accepts user r \<and> r_id r = i) \<and> r' = ?c r"
  let ?B = "\<lambda>r r'. ((\<exists>s. assign_accepts providerId user no_options s r) \<and> r_id r = i) \<and> r' = assign_data env providerId r"
  show ?thesis
  proof (cases "find_report i s")
    case None
    then have "t = s" using assms(1) by (simp add: reassignProvider_def)
    then show ?thesis by (simp add: list_all2_same)
  next
    case (Some report)
    then have "sq (if truthy (r_assignedProviderId report)
         then sq (cancelAssignment env i (Some (or_else (trimmed reason) ''Reassigned by administrator'')) user) (ret ())
         else ret ())
       (bnd (assignProviderById env i providerId user no_options)
         (\<lambda>updated. sq (reassign_effects env i providerId reason user (r_assignedProviderId report) updated) (ret updated)))
       s = (res, t)"
      using assms(1) by (simp add: reassignProvider_def Let_def)
    then show ?thesis
    proof (cases rule: bndE)
      case (err e)
      from reassign_first_step[OF err(1) assms(2)] show ?thesis
        by (auto simp: reassign_steps_def Let_def elim!: list_all2_mono)
    next
      case (ok x u)
      note first = reassign_first_step[OF ok(1) assms(2)]
      obtain res' v where assign: "assignProviderById env i providerId user no_options u = (res', v)"
          and v: "reports t = reports v"
        using ok(2)
      proof (cases rule: bndE)
        case (err e)
        then show thesis using that by blast
      next
        case (ok y w)
        from quiet_tail[OF quiet_assignment_effects(4) ok(2)] that[OF ok(1)] show thesis
          by (auto dest: business_eq_fields(1))
      qed
      have "list_all2 (\<lambda>r r'. r' = r \<or> ?B r r') (reports u) (reports v)"
        using assign.row_steps[of "(env, i, providerId, user, no_options)" u res' v] assign first
        by (auto elim!: list_all2_mono)
      with first have "list_all2 (\<lambda>r r'. r' = r \<or> ?A r r' \<or> ?B r r' \<or> (\<exists>m. ?A r m \<and> ?B m r')) (reports s) (reports v)"
        by (intro steps_compose) simp_all
      then show ?thesis
        unfolding v by (rule list_all2_mono) (auto simp: reassign_steps_def Let_def)
    qed
  qed
qed

interpretation reassign: row_contract
  "\<lambda>(env, i, providerId, reason, user). reassignProvider env i providerId reason user"
  "\<lambda>_. True"
  "\<lambda>(env, i, providerId, reason, user) s r r'. reassign_steps env i providerId reason user r r'"
proof (unfold_locales, goal_cases)
  case (1 i s res t)
  then show ?case by (cases i) (simp add: reassign_rows)
next
  case (2 i s r r')
  then show ?case by (cases i) (auto simp: reassign_steps_def Let_def cancel_data_def assign_data_def)
qed

section \<open>A provider's own assignments\<close>

definition provider_filter :: "jwt_user \<Rightarrow> string \<Rightarrow> expire_filter" where
  "provider_filter user userId = \<lparr> ef_providerId = Some userId, ef_organizationId = None, ef_actor = Some user \<rparr>"

definition deadline_passed :: "env \<Rightarrow> report \<Rightarrow> bool" where
  "deadline_passed env r \<longleftrightarrow> (\<exists>d. r_assignmentDeadlineAt r = Some d \<and> d < now env)"

lemma still_acceptable_cases:
  assumes "assertAssignmentStillAcceptable env r user userId s = (res, t)" and "report_ids_ok s"
  obtains (acceptable) "res = Inr ()" "t = s"
      "\<not> (r_status r = ASSIGNED \<and> r_assignedProviderId r = Some userId \<and> deadline_passed env r)"
    | (expired) "res = Inl (Conflict ''Assignment acceptance window expired'')"
      "r_status r = ASSIGNED" "r_assignedProviderId r = Some userId" "deadline_passed env r"
      "business t = business s\<lparr>reports := map_rows (overdue env (provider_filter user userId)) (expire_data env) (reports s)\<rparr>"
proof (cases "r_status r = ASSIGNED \<and> r_assignedProviderId r = Some userId \<and> deadline_passed env r")
  case True
  obtain u where "expireOverdueAssignments env (provider_filter user userId) s =
      (Inr (map expired_assignment_of (filter (overdue env (provider_filter user userId)) (reports s))), u)"
    and "business u = business s\<lparr>reports := map_rows (overdue env (provider_filter user userId)) (expire_data env) (reports s)\<rparr>"
    by (rule expire_run[OF assms(2)])
  then show thesis
    using True assms(1) expired
    by (auto simp: assertAssignmentStillAcceptable_def provider_filter_def deadline_passed_def)
next
  case False
  then show thesis
    using assms(1) acceptable
    by (auto simp: assertAssignmentStillAcceptable_def deadline_passed_def split: option.splits if_splits)
qed

definition decline_accepts :: "env \<Rightarrow> jwt_user \<Rightarrow> report \<Rightarrow> bool" where
  "decline_accepts env user r \<longleftrightarrow> j_role user = PROVIDER \<and> actor_id user \<noteq> None \<and>
     r_assignedProviderId r = actor_id user \<and> r_status r = ASSIGNED \<and> \<not> deadline_passed env r"

definition own_overdue :: "env \<Rightarrow> jwt_user \<Rightarrow> report \<Rightarrow> bool" where
  "own_overdue env user r \<longleftrightarrow> (\<exists>i. actor_id user = Some i \<and> overdue env (provider_filter user i) r)"

lemma decline_checks_InrD:
  "decline_checks i user s = (Inr (userId, r), t) \<Longrightarrow> j_role user = PROVIDER \<and> actor_id user = Some userId \<and>
     find_report i s = Some r \<and> r_assignedProviderId r = Some userId"
  unfolding decline_checks_def isProvider_def
  by (elim bnd_InrE)
    (auto dest!: getUserId_InrD readsD[OF reads_assignment_checks(1)] readsD[OF reads_assignment_checks(3)]
      split: if_splits option.splits)

lemma reject_assignment_outcome:
  assumes "rejectAssignment env i reason user s = (res, t)" and "report_ids_ok s"
  shows "(\<exists>e. res = Inl e \<and> business t = business s) \<or>
    (\<exists>e. res = Inl e \<and> business t = business s\<lparr>reports := map_rows (own_overdue env user) (expire_data env) (reports s)\<rparr>) \<or>
    (\<exists>r. find_report i s = Some r \<and> decline_accepts env user r \<and>
       res = Inr (decline_data env (trim reason) (the (actor_id user)) r) \<and>
       business t = put_report i (decline_data env (trim reason) (the (actor_id user))) (business s))"
  using assms(1) unfolding rejectAssignment_def Let_def
proof (rule reads_bndE)
  fix x
  assume checks: "decline_checks i user s = (Inr x, s)"
    and run: "(case x of (userId, report) \<Rightarrow> sq (assertAssignmentStillAcceptable env report user userId)
       (sq (throw_if (r_status report \<noteq> ASSIGNED) (Forbidden ''Only new assignments can be rejected''))
         (bnd (update_report i (decline_data env (trim reason) userId))
           (\<lambda>updated. sq (decline_effects env i (trim reason) userId user report updated) (ret updated))))) s = (res, t)"
  obtain userId report where x: "x = (userId, report)" by (cases x)
  note facts = decline_checks_InrD[OF checks[unfolded x]]
  have overdue: "overdue env (provider_filter user userId) = own_overdue env user"
    by (rule ext) (simp add: own_overdue_def facts)
  have rest: "sq (assertAssignmentStillAcceptable env report user userId)
       (sq (throw_if (r_status report \<noteq> ASSIGNED) (Forbidden ''Only new assignments can be rejected''))
         (bnd (update_report i (decline_data env (trim reason) userId))
           (\<lambda>updated. sq (decline_effects env i (trim reason) userId user report updated) (ret updated)))) s = (res, t)"
    using run x by simp
  from rest show ?thesis
  proof (cases rule: bndE)
    case (err e)
    from err(1) assms(2) show ?thesis
      by (cases rule: still_acceptable_cases) (use err(2) overdue in auto)
  next
    case (ok z u)
    from ok(1) assms(2) have u: "u = s" "\<not> (r_status report = ASSIGNED \<and> r_assignedProviderId report = Some userId \<and> deadline_passed env report)"
      by (cases rule: still_acceptable_cases; simp)+
    show ?thesis
    proof (cases "r_status report = ASSIGNED")
      case True
      then have "bnd (update_report i (decline_data env (trim reason) userId))
           (\<lambda>updated. sq (decline_effects env i (trim reason) userId user report updated) (ret updated)) s = (res, t)"
        using ok(2) u(1) by simp
      from update_effects_run[OF this _ quiet_assignment_effects(5)] show ?thesis
        using True u(2) facts by (auto simp: decline_accepts_def)
    next
      case False
      then show ?thesis using ok(2) u(1) by auto
    qed
  qed
qed (auto intro: reads_rules)

lemma put_report_steps:
  assumes "report_ids_ok s" and "find_report i s = Some x" and "A x"
    and "business t = put_report i d (business s)"
  shows "list_all2 (\<lambda>r r'. r' = r \<or> (A r \<and> r_id r = i) \<and> r' = d r) (reports s) (reports t)"
proof -
  have "reports t = map (\<lambda>r. if r_id r = i then d r else r) (reports s)"
    using assms(4) by (metis business_fields(1) reports_put_report upd_rows_def)
  moreover have "r = x" if "r \<in> set (reports s)" "r_id r = i" for r
    using find_report_of_member[OF assms(1) that(1)] that(2) assms(2) by simp
  ultimately show ?thesis
    using assms(3) by (auto simp: list.rel_map list_all2_same)
qed

interpretation decline: row_contract
  "\<lambda>(env, i, reason, user). rejectAssignment env i reason user"
  "\<lambda>_. True"
  "\<lambda>(env, i, reason, user) s r r'. own_overdue env user r \<and> r' = expire_data env r \<or>
     decline_accepts env user r \<and> r_id r = i \<and> r' = decline_data env (trim reason) (the (actor_id user)) r"
proof (unfold_locales, goal_cases)
  case (1 inp s res t)
  obtain env i reason user where inp: "inp = (env, i, reason, user)" by (cases inp)
  have run: "rejectAssignment env i reason user s = (res, t)" using 1(1) inp by simp
  let ?P = "\<lambda>r r'. r' = r \<or> own_overdue env user r \<and> r' = expire_data env r \<or>
     decline_accepts env user r \<and> r_id r = i \<and> r' = decline_data env (trim reason) (the (actor_id user)) r"
  from reject_assignment_outcome[OF run 1(3)]
  have "list_all2 ?P (reports s) (reports t)"
  proof (elim disjE exE conjE)
    assume "business t = business s"
    from business_eq_fields(1)[OF this] show ?thesis by (simp add: list_all2_same)
  next
    assume "business t = business s\<lparr>reports := map_rows (own_overdue env user) (expire_data env) (reports s)\<rparr>"
    from arg_cong[OF this, of reports] show ?thesis
      using map_rows_steps[of "own_overdue env user" "expire_data env" "reports s"] by (auto elim: list_all2_mono)
  next
    fix r
    assume "find_report i s = Some r" "decline_accepts env user r"
      "business t = put_report i (decline_data env (trim reason) (the (actor_id user))) (business s)"
    from put_report_steps[where A = "decline_accepts env user", OF 1(3) this] show ?thesis
      by (auto elim!: list_all2_mono)
  qed
  then show ?case unfolding inp by simp
next
  case (2 inp s r r')
  then show ?case by (cases inp) (auto simp: decline_data_def)
qed

end
