(* ===== verification/Evidence_Paths.thy ===== *)
theory Evidence_Paths imports Schema begin

text \<open>
  The image reference a provider hands in with a completion (\<open>report/report.service.ts\<close>, lines
  5911-6003): a path inside one of the three upload folders, an external http address, or nothing.
  The URL parser is the configuration's \<open>urlPathname\<close>.
\<close>

definition upload_folders :: "string list" where
  "upload_folders = [''report-completion/'', ''report-evidence/'', ''demo/'']"

definition path_char :: "char \<Rightarrow> bool" where
  "path_char c \<longleftrightarrow> (let n = of_char c :: nat in
     65 \<le> n \<and> n \<le> 90 \<or> 97 \<le> n \<and> n \<le> 122 \<or> 48 \<le> n \<and> n \<le> 57 \<or> n = 46 \<or> n = 95 \<or> n = 126 \<or> n = 47 \<or> n = 45)"

fun split_slash :: "string \<Rightarrow> string list" where
  "split_slash [] = [[]]"
| "split_slash (c # cs) =
     (if c = CHR 0x2F then [] # split_slash cs
      else (case split_slash cs of [] \<Rightarrow> [[c]] | w # ws \<Rightarrow> (c # w) # ws))"

definition forward_slashes :: "string \<Rightarrow> string" where
  "forward_slashes s = map (\<lambda>c. if c = CHR 0x5C then CHR 0x2F else c) s"

definition extractLocalUploadPath :: "env \<Rightarrow> string option \<Rightarrow> string option" where
  "extractLocalUploadPath env value =
     (case trimmed value of
        None \<Rightarrow> None
      | Some text \<Rightarrow>
          (let parsed = or_else (urlPathname env text) (forward_slashes text);
               rooted = dropWhile (\<lambda>c. c = CHR 0x2F) parsed;
               path = (if starts_with rooted ''uploads/'' then drop 8 rooted else rooted)
           in if \<not> list_ex (starts_with path) upload_folders then None
              else if list_ex (\<lambda>segment. segment \<in> {[], ''.'', ''..''}) (split_slash path) then None
              else if \<not> list_all path_char path then None
              else Some path))"

definition is_http :: "string \<Rightarrow> bool" where
  "is_http s \<longleftrightarrow> starts_with (toLowerCase s) ''http://'' \<or> starts_with (toLowerCase s) ''https://''"

definition normalizeExternalImageUrl :: "env \<Rightarrow> string option \<Rightarrow> string option" where
  "normalizeExternalImageUrl env value =
     (case trimmed value of
        None \<Rightarrow> None
      | Some text \<Rightarrow>
          (case extractLocalUploadPath env (Some text) of
             Some localPath \<Rightarrow> Some (''/uploads/'' @ localPath)
           | None \<Rightarrow> if is_http text then Some text else None))"

text \<open>The image address and the image path, in this order.\<close>

definition normalizeCompletionEvidenceFields ::
    "env \<Rightarrow> string option \<Rightarrow> string option \<Rightarrow> string option \<times> string option" where
  "normalizeCompletionEvidenceFields env imageUrl imagePath =
     (let path = coalesce (extractLocalUploadPath env imagePath) (extractLocalUploadPath env imageUrl);
          url = (case path of Some p \<Rightarrow> Some (''/uploads/'' @ p) | None \<Rightarrow> normalizeExternalImageUrl env imageUrl)
      in (url, path))"

text \<open>
  What is stored: a path in an upload folder whose segments cannot leave it, or an http address.
\<close>

definition safe_upload_path :: "string \<Rightarrow> bool" where
  "safe_upload_path p \<longleftrightarrow> (\<exists>f\<in>set upload_folders. starts_with p f) \<and>
     set (split_slash p) \<inter> {[], ''.'', ''..''} = {} \<and> (\<forall>c\<in>set p. path_char c)"

lemma extracted_path_safe: "extractLocalUploadPath env value = Some p \<Longrightarrow> safe_upload_path p"
  by (auto simp: extractLocalUploadPath_def safe_upload_path_def Let_def list_ex_iff list_all_iff
      split: option.splits if_splits)

lemma stored_evidence_safe:
  assumes "normalizeCompletionEvidenceFields env imageUrl imagePath = (url, path)"
  shows "(\<forall>p. path = Some p \<longrightarrow> safe_upload_path p \<and> url = Some (''/uploads/'' @ p)) \<and>
    (path = None \<longrightarrow> (\<forall>u. url = Some u \<longrightarrow> is_http u))"
proof -
  have "extractLocalUploadPath env (Some x) = extractLocalUploadPath env v" if "trimmed v = Some x" for x v
    using that by (auto simp: extractLocalUploadPath_def trimmed_def nonempty_def split: option.splits if_splits)
  then have "is_http u" if "path = None" "url = Some u" for u
    using that assms
    by (auto simp: normalizeCompletionEvidenceFields_def normalizeExternalImageUrl_def Let_def
        coalesce_def split: option.splits if_splits)
  moreover have "safe_upload_path p \<and> url = Some (''/uploads/'' @ p)" if "path = Some p" for p
    using that assms
    by (auto simp: normalizeCompletionEvidenceFields_def coalesce_def Let_def
        split: option.splits dest: extracted_path_safe)
  ultimately show ?thesis by blast
qed

end
