(* ===== verification/Status_Update.thy ===== *)
theory Status_Update imports Assignment Completion_Handlers Evidence_Paths begin

text \<open>
  \<open>ReportService.updateStatus\<close> (\<open>report/report.service.ts\<close>, lines 2089-2243 and 7687-7735): a
  provider starts work and submits the completion, operators move reports along the transition
  table. Submitting a completion needs evidence and starts a fresh review under the policy resolved
  at that moment.
\<close>

record status_dto =
  us_status :: report_status
  us_completionNote :: "string option"
  us_completionImageUrl :: "string option"
  us_completionImagePath :: "string option"
  us_completionLatitude :: "rat option"
  us_completionLongitude :: "rat option"
  us_completionAccuracy :: "rat option"
  us_completionLocationCapturedAt :: "int option"
  us_completionLocationSource :: "string option"

section \<open>Guards\<close>

definition assertStatusTransitionAllowed ::
    "report \<Rightarrow> report_status \<Rightarrow> jwt_user \<Rightarrow> string \<Rightarrow> ('s, unit) svc" where
  "assertStatusTransitionAllowed report nextStatus user userId =
     sq (throw_if (nextStatus = ASSIGNED) (Forbidden ''Use provider assignment to move a report to ASSIGNED''))
    (sq (throw_if (\<not> canTransitionReportStatus (report_status_name (r_status report)) (report_status_name nextStatus))
           (Forbidden (''Invalid status transition from '' @ report_status_name (r_status report) @ '' to '' @
              report_status_name nextStatus)))
    (if isProvider user then
       sq (throw_if (r_assignedProviderId report \<noteq> Some userId) (Forbidden ''Not your report''))
          (throw_if (nextStatus \<noteq> IN_PROGRESS \<and> nextStatus \<noteq> COMPLETED_BY_PROVIDER)
             (Forbidden ''Invalid status for provider''))
     else if isAdmin user \<or> isDispatch user then
       throw_if (j_organizationId user \<noteq> Some (r_organizationId report)) (Forbidden ''Wrong org'')
     else throw_if (\<not> isSuperAdmin user) (Forbidden ''Not allowed'')))"

text \<open>The checks before the deadline is looked at: the report exists and a provider may touch it.\<close>

definition status_checks :: "string \<Rightarrow> jwt_user \<Rightarrow> (string \<times> report) handler" where
  "status_checks reportId user =
     bnd (getUserId user) (\<lambda>userId.
     bnd (gets (find_report reportId)) (\<lambda>found.
     bnd (require (NotFound ''Report not found'') found) (\<lambda>report.
     sq (when_do (isProvider user) (assertActiveProvider userId))
    (sq (when_do (isProvider user)
          (assertProviderCanAccessReport user (r_organizationId report) (r_assignedProviderId report)))
        (ret (userId, report))))))"

section \<open>The completion a provider submits\<close>

record completion =
  co_imageUrl :: "string option"
  co_imagePath :: "string option"
  co_policy :: completion_policy_resolution

definition has_uploaded_evidence :: "string \<Rightarrow> 's tables_scheme \<Rightarrow> bool" where
  "has_uploaded_evidence reportId s =
     list_ex (\<lambda>e. ev_relatedEntityType e = ''REPORT'' \<and> ev_relatedEntityId e = reportId \<and>
       contains (ev_fileUrl e) ''report-completion'') (evidenceRecords s)"

definition completion_of :: "env \<Rightarrow> string \<Rightarrow> status_dto \<Rightarrow> report \<Rightarrow> completion handler" where
  "completion_of env reportId dto report =
     (let evidence = normalizeCompletionEvidenceFields env (us_completionImageUrl dto) (us_completionImagePath dto) in
      bnd (gets (has_uploaded_evidence reportId)) (\<lambda>uploaded.
      sq (throw_if (\<not> (truthy (snd evidence) \<or> truthy (fst evidence) \<or> uploaded))
            (BadRequest ''COMPLETION_EVIDENCE_REQUIRED''))
     (bnd (gets (\<lambda>s. resolveCompletionPolicy env (r_completionPolicy report) (r_category report)
              (Option.bind (find_organization (r_organizationId report) s) o_profileData) s)) (\<lambda>policy.
      ret \<lparr> co_imageUrl = fst evidence, co_imagePath = snd evidence, co_policy = policy \<rparr>))))"

definition completionLocationSourceFor :: "status_dto \<Rightarrow> string" where
  "completionLocationSourceFor dto =
     (if us_completionLatitude dto \<noteq> None \<and> us_completionLongitude dto \<noteq> None then ''DEVICE_GPS'' else ''UNKNOWN'')"

definition completion_data :: "env \<Rightarrow> status_dto \<Rightarrow> completion \<Rightarrow> report \<Rightarrow> report" where
  "completion_data env dto c report =
     report\<lparr> r_status := us_status dto,
       r_completionNote := trimmed (us_completionNote dto),
       r_completionImageUrl := co_imageUrl c,
       r_completionImagePath := co_imagePath c,
       r_completionLatitude := us_completionLatitude dto,
       r_completionLongitude := us_completionLongitude dto,
       r_completionAccuracy := us_completionAccuracy dto,
       r_completionLocationCapturedAt := us_completionLocationCapturedAt dto,
       r_completionLocationSource := Some (or_else (us_completionLocationSource dto) (completionLocationSourceFor dto)),
       r_completedByProviderAt := Some (now env),
       r_completionPolicy := Some (cpr_policy (co_policy c)),
       r_completionPolicySource := Some (cpr_source (co_policy c)),
       r_completionReviewState := Some (reviewStateFor (cpr_policy (co_policy c)) None None),
       r_completionReviewDeadlineAt := reviewDeadlineFor env (cpr_policy (co_policy c)),
       r_completionReviewProcessedAt := None,
       r_completionFallbackRule := None,
       r_completionFinalActorType := None,
       r_citizenCompletionDecision := Some D_PENDING,
       r_citizenCompletionDecidedAt := None,
       r_organizationCompletionDecision := Some D_PENDING,
       r_organizationCompletionDecidedAt := None,
       r_organizationCompletionDecidedById := None,
       r_organizationCompletionReason := None,
       r_completionFinalizedAt := None,
       r_completionFinalizedById := None,
       r_completionFinalizedByRole := None,
       r_completionClosureReason := None,
       r_completionDisputeReason := None,
       r_completionRejectionReason := None \<rparr>"

definition status_data :: "env \<Rightarrow> status_dto \<Rightarrow> completion option \<Rightarrow> report \<Rightarrow> report" where
  "status_data env dto c report =
     (case c of None \<Rightarrow> report\<lparr> r_status := us_status dto \<rparr> | Some x \<Rightarrow> completion_data env dto x report)"

section \<open>Effects\<close>

definition completionLocationMetadata :: "report \<Rightarrow> json" where
  "completionLocationMetadata report = JObj
     [(''latitude'', jopt JNum (r_completionLatitude report)),
      (''longitude'', jopt JNum (r_completionLongitude report)),
      (''accuracy'', jopt JNum (r_completionAccuracy report)),
      (''capturedAt'', jopt (JStr \<circ> toISOString) (r_completionLocationCapturedAt report)),
      (''source'', JStr (or_else (r_completionLocationSource report) ''UNKNOWN''))]"

definition status_effects ::
    "env \<Rightarrow> string \<Rightarrow> status_dto \<Rightarrow> jwt_user \<Rightarrow> report \<Rightarrow> report \<Rightarrow> unit handler" where
  "status_effects env reportId dto user report updated =
     sq (if us_status dto = COMPLETED_BY_PROVIDER
         then sq (notifyCompletionReviewers updated)
           (providerCompletedReport env (workflow_input_for reportId user report updated
              [(''completionNote'', jopt JStr (trimmed (us_completionNote dto))),
               (''completionImagePath'', jopt JStr (r_completionImagePath updated)),
               (''completionLocation'', completionLocationMetadata updated)]))
         else notifyStatusChange updated)
    (sq (audit ''Report Status Changed'' user
           [(''targetType'', JStr ''Report''), (''targetId'', JStr reportId),
            (''status'', JStr (report_status_name (us_status dto))),
            (''organizationId'', JStr (r_organizationId updated))])
        (recordReportActivity env reportId (activityActionForStatus (us_status dto)) user
           (decision_activity report updated None (trimmed (us_completionNote dto))
              (Some (JObj (jfield ''completionImagePath'' JStr (r_completionImagePath updated) @
                 [(''completionLocation'', completionLocationMetadata updated)]))))))"

section \<open>The handler\<close>

definition trust_user_of :: "string \<Rightarrow> jwt_user \<Rightarrow> trust_user" where
  "trust_user_of userId user =
     \<lparr> tu_id = userId, tu_role = j_role user, tu_organizationId = j_organizationId user \<rparr>"

definition updateStatus :: "env \<Rightarrow> string \<Rightarrow> status_dto \<Rightarrow> jwt_user \<Rightarrow> report handler" where
  "updateStatus env reportId dto user =
     bnd (status_checks reportId user) (\<lambda>(userId, report).
     sq (when_do (isProvider user \<and> r_status report = ASSIGNED \<and> us_status dto = IN_PROGRESS)
           (assertAssignmentStillAcceptable env report user userId))
    (sq (when_do (isProvider user \<and> us_status dto = IN_PROGRESS)
           (assertProviderJobAcceptanceAllowed env (trust_user_of userId user)))
    (sq (assertStatusTransitionAllowed report (us_status dto) user userId)
    (bnd (if us_status dto = COMPLETED_BY_PROVIDER
          then bnd (completion_of env reportId dto report) (\<lambda>c. ret (Some c)) else ret None) (\<lambda>c.
     bnd (update_report reportId (status_data env dto c)) (\<lambda>updated.
     sq (status_effects env reportId dto user report updated) (ret updated)))))))"

section \<open>Outcome\<close>

lemma quiet_status_effects [quiet_rules]: "quiet business (status_effects env i dto user r u)"
  unfolding status_effects_def by (intro quiet_rules)

lemma reads_status_guards [reads_rules]:
  "reads (assertStatusTransitionAllowed report nextStatus user userId)"
  "reads (status_checks i user)"
  "reads (completion_of env i dto report)"
  unfolding assertStatusTransitionAllowed_def status_checks_def completion_of_def Let_def
  by (intro reads_rules)+

lemma status_checks_InrD:
  "status_checks i user s = (Inr (userId, r), t) \<Longrightarrow> actor_id user = Some userId \<and> find_report i s = Some r"
  unfolding status_checks_def
  by (elim bnd_InrE)
    (auto dest!: getUserId_InrD readsD[OF reads_assignment_checks(1)] readsD[OF reads_assignment_checks(3)]
      split: if_splits option.splits)

text \<open>Who may move a report where.\<close>

definition may_move :: "jwt_user \<Rightarrow> report \<Rightarrow> report_status \<Rightarrow> bool" where
  "may_move user r nextStatus \<longleftrightarrow>
     (j_role user = PROVIDER \<and> r_assignedProviderId r = actor_id user \<and>
        nextStatus \<in> {IN_PROGRESS, COMPLETED_BY_PROVIDER}) \<or>
     (j_role user \<in> {ORG_ADMIN, DISPATCH_OFFICER} \<and> j_organizationId user = Some (r_organizationId r)) \<or>
     j_role user = SUPER_ADMIN"

definition status_accepts :: "env \<Rightarrow> status_dto \<Rightarrow> jwt_user \<Rightarrow> report \<Rightarrow> bool" where
  "status_accepts env dto user r \<longleftrightarrow>
     actor_id user \<noteq> None \<and> us_status dto \<noteq> ASSIGNED \<and> workflow_step (r_status r) (us_status dto) \<and>
     may_move user r (us_status dto) \<and>
     (j_role user = PROVIDER \<and> us_status dto = IN_PROGRESS \<longrightarrow> \<not> deadline_passed env r)"

text \<open>What a submitted completion is made of: evidence, and the policy in force.\<close>

definition completion_ok :: "env \<Rightarrow> string \<Rightarrow> status_dto \<Rightarrow> 's tables_scheme \<Rightarrow> report \<Rightarrow> completion option \<Rightarrow> bool" where
  "completion_ok env i dto s r c \<longleftrightarrow> (case c of
     None \<Rightarrow> us_status dto \<noteq> COMPLETED_BY_PROVIDER
   | Some x \<Rightarrow> us_status dto = COMPLETED_BY_PROVIDER \<and>
       (truthy (co_imagePath x) \<or> truthy (co_imageUrl x) \<or> has_uploaded_evidence i s) \<and>
       (co_imageUrl x, co_imagePath x) =
         normalizeCompletionEvidenceFields env (us_completionImageUrl dto) (us_completionImagePath dto) \<and>
       co_policy x = resolveCompletionPolicy env (r_completionPolicy r) (r_category r)
         (Option.bind (find_organization (r_organizationId r) s) o_profileData) s)"

lemma completion_part_Inr:
  assumes "(if us_status dto = COMPLETED_BY_PROVIDER
      then bnd (completion_of env i dto r) (\<lambda>c. ret (Some c)) else ret None) s = (Inr c, t)"
  shows "t = s \<and> completion_ok env i dto s r c"
  using assms
  by (auto simp: completion_of_def completion_ok_def Let_def svc_run split: if_splits)

lemma transition_allowed_Inr:
  assumes "assertStatusTransitionAllowed r nextStatus user userId s = (Inr x, t)" and "actor_id user = Some userId"
  shows "nextStatus \<noteq> ASSIGNED \<and> workflow_step (r_status r) nextStatus \<and> may_move user r nextStatus"
  using assms unfolding may_move_def
  by (auto simp: assertStatusTransitionAllowed_def role_defs workflow_step_def svc_run split: if_splits)

lemma workflow_step_to_work: "workflow_step a IN_PROGRESS \<longleftrightarrow> a = ASSIGNED"
  by (cases a) (simp_all add: workflow_step_def)

text \<open>
  Only a provider who starts work passes through the access checks, which may write users and
  entitlements; they leave the reports alone.
\<close>

lemma leaves_before_update:
  "leaves reports (when_do (isProvider user \<and> us_status dto = IN_PROGRESS)
     (assertProviderJobAcceptanceAllowed env (trust_user_of userId user)))"
  by (intro leaves_rules leaves_reports_trust)

lemma update_reports_run:
  assumes "bnd (update_report i d) (\<lambda>u. sq (eff u) (ret u)) s = (res, t)" and "find_report i s = Some r"
    and "\<And>u. quiet business (eff u)"
  shows "res = Inr (d r) \<and> reports t = reports (put_report i d s)"
  using update_effects_run[OF assms]
  by (metis business_fields(1) reports_put_report)

lemma status_tail_run:
  assumes "(sq (when_do (isProvider user \<and> us_status dto = IN_PROGRESS)
           (assertProviderJobAcceptanceAllowed env (trust_user_of userId user)))
    (sq (assertStatusTransitionAllowed report (us_status dto) user userId)
    (bnd (if us_status dto = COMPLETED_BY_PROVIDER
          then bnd (completion_of env i dto report) (\<lambda>c. ret (Some c)) else ret None) (\<lambda>c.
     bnd (update_report i (status_data env dto c)) (\<lambda>updated.
     sq (status_effects env i dto user report updated) (ret updated)))))) s = (res, t)"
    and "find_report i s = Some report" and "actor_id user = Some userId"
  shows "(\<exists>e. res = Inl e \<and> reports t = reports s) \<or>
    (\<exists>c. us_status dto \<noteq> ASSIGNED \<and> workflow_step (r_status report) (us_status dto) \<and>
       may_move user report (us_status dto) \<and> completion_ok env i dto s report c \<and>
       res = Inr (status_data env dto c report) \<and> reports t = reports (put_report i (status_data env dto c) s))"
  using assms(1)
proof (cases rule: bndE)
  case (err e)
  then show ?thesis using leavesD[OF leaves_before_update err(1)] by blast
next
  case (ok x u)
  have u: "reports u = reports s" by (rule leavesD[OF leaves_before_update ok(1)])
  have quiet_case: "us_status dto = COMPLETED_BY_PROVIDER \<Longrightarrow> u = s"
    using ok(1) by auto
  have found: "find_report i u = Some report" using assms(2) find_report_cong[OF u] by simp
  from ok(2) reads_status_guards(1) show ?thesis
  proof (cases rule: reads_bndE)
    case (err e)
    then show ?thesis using u by blast
  next
    case moved: (ok y)
    from moved(2) show ?thesis
    proof (cases rule: bndE)
      case (err e)
      then have "t = u" by (auto split: if_splits elim!: bndE dest: readsD[OF reads_status_guards(3)])
      with err u show ?thesis by blast
    next
      case c: (ok c v)
      have v: "v = u \<and> completion_ok env i dto u report c" by (rule completion_part_Inr[OF c(1)])
      then have "completion_ok env i dto s report c"
        using quiet_case by (cases c) (auto simp: completion_ok_def)
      moreover have "reports (put_report i (status_data env dto c) u) = reports (put_report i (status_data env dto c) s)"
        using u by (simp add: reports_put_report)
      ultimately show ?thesis
        using update_reports_run[OF c(2) _ quiet_status_effects] found v
          transition_allowed_Inr[OF moved(1) assms(3)] by auto
    qed
  qed
qed

lemma update_status_outcome:
  assumes "updateStatus env i dto user s = (res, t)" and "report_ids_ok s"
  shows "(\<exists>e. res = Inl e \<and> reports t = reports s) \<or>
    (\<exists>e. res = Inl e \<and> j_role user = PROVIDER \<and> us_status dto = IN_PROGRESS \<and>
       reports t = map_rows (own_overdue env user) (expire_data env) (reports s)) \<or>
    (\<exists>r c. find_report i s = Some r \<and> status_accepts env dto user r \<and> completion_ok env i dto s r c \<and>
       res = Inr (status_data env dto c r) \<and> reports t = reports (put_report i (status_data env dto c) s))"
  using assms(1)[unfolded updateStatus_def] reads_status_guards(2)
proof (cases rule: reads_bnd_pairE)
  case (err e)
  then show ?thesis by blast
next
  case (ok userId report)
  note facts = status_checks_InrD[OF ok(1)]
  have overdue: "overdue env (provider_filter user userId) = own_overdue env user"
    by (rule ext) (simp add: own_overdue_def facts)
  from ok(2) show ?thesis
  proof (cases rule: bndE)
    case (err e)
    then have "assertAssignmentStillAcceptable env report user userId s = (Inl e, t)" "isProvider user"
        "us_status dto = IN_PROGRESS"
      by (auto split: if_splits)
    then show ?thesis
      using err(2) overdue
      by (elim still_acceptable_cases[OF _ assms(2)]) (auto simp: isProvider_def dest: arg_cong[where f = reports])
  next
    case first: (ok y u)
    have u: "u = s \<and> \<not> (isProvider user \<and> us_status dto = IN_PROGRESS \<and> r_status report = ASSIGNED \<and>
        r_assignedProviderId report = Some userId \<and> deadline_passed env report)"
      using first(1) by (auto split: if_splits elim: still_acceptable_cases[OF _ assms(2)])
    have "j_role user = PROVIDER \<longrightarrow> us_status dto = IN_PROGRESS \<longrightarrow> may_move user report IN_PROGRESS \<longrightarrow>
        workflow_step (r_status report) IN_PROGRESS \<longrightarrow> \<not> deadline_passed env report"
      using u facts by (auto simp: isProvider_def may_move_def workflow_step_to_work)
    then show ?thesis
      using status_tail_run[OF first(2)[unfolded u[THEN conjunct1]]] facts by (auto simp: status_accepts_def)
  qed
qed

interpretation status: row_contract
  "\<lambda>(env, i, dto, user). updateStatus env i dto user"
  "\<lambda>_. True"
  "\<lambda>(env, i, dto, user) s r r'. own_overdue env user r \<and> r' = expire_data env r \<or>
     (\<exists>c. status_accepts env dto user r \<and> completion_ok env i dto s r c \<and> r_id r = i \<and> r' = status_data env dto c r)"
proof (unfold_locales, goal_cases)
  case (1 inp s res t)
  obtain env i dto user where inp: "inp = (env, i, dto, user)" by (cases inp)
  have run: "updateStatus env i dto user s = (res, t)" using 1(1) inp by simp
  let ?P = "\<lambda>r r'. r' = r \<or> own_overdue env user r \<and> r' = expire_data env r \<or>
     (\<exists>c. status_accepts env dto user r \<and> completion_ok env i dto s r c \<and> r_id r = i \<and> r' = status_data env dto c r)"
  from update_status_outcome[OF run 1(3)]
  have "list_all2 ?P (reports s) (reports t)"
  proof (elim disjE exE conjE)
    assume "reports t = reports s"
    then show ?thesis by (simp add: list_all2_same)
  next
    assume "reports t = map_rows (own_overdue env user) (expire_data env) (reports s)"
    then show ?thesis
      using map_rows_steps[of "own_overdue env user" "expire_data env" "reports s"] by (auto elim: list_all2_mono)
  next
    fix r c
    assume "find_report i s = Some r" "status_accepts env dto user r" "completion_ok env i dto s r c"
      and t: "reports t = reports (put_report i (status_data env dto c) s)"
    then have "list_all2 (\<lambda>r r'. r' = r \<or> ((status_accepts env dto user r \<and> completion_ok env i dto s r c) \<and> r_id r = i) \<and>
        r' = status_data env dto c r) (reports s) (reports (put_report i (status_data env dto c) s))"
      by (intro put_report_steps[where A = "\<lambda>r. status_accepts env dto user r \<and> completion_ok env i dto s r c", OF 1(3)])
        simp_all
    then show ?thesis unfolding t by (auto elim!: list_all2_mono)
  qed
  then show ?case unfolding inp by simp
next
  case (2 inp s r r')
  then show ?case
    by (cases inp) (auto simp: expire_data_def status_data_def completion_data_def split: option.splits)
qed

end
