(* ===== verification/Example_Data.thy ===== *)
theory Example_Data imports Tables begin

text \<open>
  Small concrete rows, users and databases on which the properties are instantiated.
\<close>

definition sample_report :: report where
  "sample_report = \<lparr>
     r_id = ''r1'',
     r_title = ''Pothole'',
     r_description = [],
     r_category = ''Road'',
     r_location = [],
     r_locationName = None,
     r_locationAddress = None,
     r_locationLandmark = None,
     r_latitude = None,
     r_longitude = None,
     r_locationAccuracy = None,
     r_locationCapturedAt = None,
     r_locationReceivedAt = None,
     r_locationSource = None,
     r_locationPermissionState = None,
     r_locationValidationOutcome = None,
     r_locationSchemaVersion = 1,
     r_status = COMPLETED_BY_PROVIDER,
     r_organizationId = ''org1'',
     r_citizenId = ''c1'',
     r_assignedProviderId = Some ''p1'',
     r_assignedOrganizationId = None,
     r_organizationAssignedById = None,
     r_organizationAssignedAt = None,
     r_organizationAssignmentSource = None,
     r_assignedAt = None,
     r_assignmentDeadlineAt = None,
     r_lastAssignmentOutcome = None,
     r_lastAssignmentReason = None,
     r_lastAssignmentAt = None,
     r_lastAssignmentProviderId = None,
     r_completionNote = None,
     r_completionImageUrl = None,
     r_completionImagePath = None,
     r_completionLatitude = None,
     r_completionLongitude = None,
     r_completionAccuracy = None,
     r_completionLocationCapturedAt = None,
     r_completionLocationSource = None,
     r_evidenceImageUrl = None,
     r_evidenceImagePath = None,
     r_completedByProviderAt = None,
     r_citizenRating = None,
     r_citizenFeedback = None,
     r_completionRejectionReason = None,
     r_completionPolicy = Some BOTH_REQUIRED,
     r_completionPolicySource = None,
     r_completionReviewState = Some ''AWAITING_BOTH'',
     r_completionReviewDeadlineAt = None,
     r_completionReviewProcessedAt = None,
     r_completionFallbackRule = None,
     r_completionFinalActorType = None,
     r_completionGovernanceHoldReason = None,
     r_citizenCompletionDecision = None,
     r_citizenCompletionDecidedAt = None,
     r_organizationCompletionDecision = None,
     r_organizationCompletionDecidedAt = None,
     r_organizationCompletionDecidedById = None,
     r_organizationCompletionReason = None,
     r_completionFinalizedAt = None,
     r_completionFinalizedById = None,
     r_completionFinalizedByRole = None,
     r_completionClosureReason = None,
     r_completionDisputeReason = None,
     r_isDemo = False,
     r_createdAt = 0 \<rparr>"

definition sample_user :: user where
  "sample_user = \<lparr>
     u_id = ''u1'',
     u_email = None,
     u_phone = None,
     u_firebaseUid = None,
     u_providerId = None,
     u_passwordHash = None,
     u_fullName = ''User'',
     u_role = CITIZEN,
     u_accountStatus = ACTIVE,
     u_organizationId = Some ''org1'',
     u_serviceCategories = None,
     u_coverageAreas = None,
     u_profileData = None,
     u_subscriptionPlan = None,
     u_providerEngagementType = None,
     u_secureZoneId = None,
     u_identityVerificationStatus = IS_UNVERIFIED,
     u_identityVerificationLevel = 0,
     u_trustScore = 0,
     u_identityType = INDIVIDUAL,
     u_phoneVerifiedAt = None,
     u_emailVerifiedAt = None,
     u_tokenVersion = 0,
     u_createdAt = 0 \<rparr>"

definition sample_organization :: organization where
  "sample_organization = \<lparr>
     o_id = ''org1'',
     o_name = ''Works'',
     o_type = OT_LOCAL_GOVERNMENT,
     o_status = O_ACTIVE,
     o_parentId = None,
     o_tenantCode = None,
     o_contactEmail = Some ''works@example.org'',
     o_contactPhone = None,
     o_address = None,
     o_state = Some ''Lagos'',
     o_lga = Some ''Ikeja'',
     o_country = Some ''Nigeria'',
     o_profileData = None,
     o_subscriptionPlan = FREE,
     o_billingStatus = B_TRIAL,
     o_subscriptionStartAt = None,
     o_subscriptionEndAt = None,
     o_allowedUsers = None,
     o_allowedProviders = None,
     o_allowedReportsPerMonth = None,
     o_allowedStorageMb = None,
     o_enabledModules = None,
     o_createdAt = 0 \<rparr>"

definition request_user :: "user_role \<Rightarrow> string \<Rightarrow> jwt_user" where
  "request_user role i = \<lparr> j_id = Some i, j_userId = None, j_sub = None, j_email = None, j_phone = None, j_fullName = None,
     j_role = role, j_organizationId = Some ''org1'' \<rparr>"

definition sample_env :: env where
  "sample_env = \<lparr> now = 1000000, assignmentTimeoutMinutes = 30, completionPolicyEnv = None,
     categoryPoliciesEnv = None, reviewWindowHours = None,
     reconciliationBatchSize = 25, reconciliationMinAgeMinutes = 30, envVar = (\<lambda>_. None),
     urlPathname = (\<lambda>_. None), callbackAddress = (\<lambda>base ref. Some (base @ ref)), parseDate = (\<lambda>_. None),
     parseJson = (\<lambda>_. None), collate = (\<lambda>xs. xs), hmacSha512 = (\<lambda>key text. ''ab''), randomHex = ''0123456789abcdef'',
     randomToken = ''token'', sha256 = (\<lambda>text. rev text),
     freshId = (\<lambda>n. ''new'' @ nat_text n), httpFetch = (\<lambda>path body. None) \<rparr>"

definition sample_db :: "report list \<Rightarrow> db" where
  "sample_db rows = \<lparr> reports = rows,
     users = [sample_user\<lparr>u_id := ''c1''\<rparr>, sample_user\<lparr>u_id := ''p1'', u_role := PROVIDER\<rparr>,
              sample_user\<lparr>u_id := ''a1'', u_role := ORG_ADMIN\<rparr>],
     organizations = [sample_organization],
     providerOrganizations = [], platformSettings = [], paymentTransactions = [],
     organizationSubscriptions = [], paymentReceipts = [], userEntitlements = [], evidenceRecords = [],
     upgradeRequests = [], invitations = [], internalRoleAssignments = [], approvalRequests = [], jurisdictionZones = [], potentialAssets = [], assetCandidateOwners = [], assetClaims = [],
     mfaEnrollments = [], mfaBackupCodes = [], mfaSessions = [], passwordResetTokens = [],
     notifications = [], reportActivities = [],
     complianceAuditLogs = [], demoAuditLogs = [], loginHistory = [] \<rparr>"

lemmas sample_defs = sample_report_def sample_user_def sample_organization_def request_user_def
  sample_env_def sample_db_def

text \<open>\<open>succeeds m s\<close>: the run returns; it is evaluated, and gives the result the property asks for.\<close>

definition succeeds :: "('s, 'a) svc \<Rightarrow> 's \<Rightarrow> bool" where
  "succeeds m s = (case fst (m s) of Inl e \<Rightarrow> False | Inr x \<Rightarrow> True)"

lemma succeedsE:
  assumes "succeeds m s"
  obtains x t where "m s = (Inr x, t)"
  using assms by (cases "m s"; cases "fst (m s)") (auto simp: succeeds_def)

end
