(* ===== verification/Completion_Theorems.thy ===== *)
theory Completion_Theorems imports Review_Deadlines Status_Update Example_Data begin

text \<open>
  What the completion review guarantees: who can close a report, when, and that the reviewers can
  always get there. The properties rest on the outcome of each handler (its interpretation of
  \<open>report_handler\<close>) and, in the other direction, on the runs that must succeed.
\<close>

section \<open>Accepted decisions go through\<close>

lemma update_effects_complete:
  assumes "find_report i s = Some r" and "\<And>u. quiet business (eff u)"
  obtains t where "bnd (update_report i d) (\<lambda>u. sq (eff u) (ret u)) s = (Inr (d r), t)"
    and "business t = put_report i d (business s)"
proof -
  obtain res t where "bnd (update_report i d) (\<lambda>u. sq (eff u) (ret u)) s = (res, t)"
    by (cases "bnd (update_report i d) (\<lambda>u. sq (eff u) (ret u)) s")
  with update_effects_run[OF this assms] that show thesis by simp
qed

lemma confirm_complete:
  assumes "find_report i s = Some r" and "confirm_accepts user r"
  obtains t where "confirmCitizenCompletion env i dto user s = (Inr (confirm_data env dto user r), t)"
    and "business t = put_report i (confirm_data env dto user) (business s)"
proof -
  have i: "r_id r = i" using find_report_SomeD[OF assms(1)] by simp
  have "getUserId user s = (Inr (r_citizenId r), s)"
    using assms(2) by (simp add: confirm_accepts_def citizen_may_review_def getUserId_valid has_user_id_def truthy_def)
  then have get: "getCitizenReviewReport i user s = (Inr r, s)"
    using assms by (simp add: getCitizenReviewReport_def confirm_accepts_def citizen_may_review_def Let_def)
  have block: "assertNoActiveCompletionBlockers r s = (Inr (), s)"
    using assms(2) by (simp add: assertNoActiveCompletionBlockers_Inr confirm_accepts_def)
  obtain t where "bnd (update_report i (confirm_data env dto user))
      (\<lambda>u. sq (confirm_effects env i dto user r u) (ret u)) s = (Inr (confirm_data env dto user r), t)"
    and t: "business t = put_report i (confirm_data env dto user) (business s)"
    by (rule update_effects_complete[OF assms(1) quiet_confirm_effects])
  then have "confirmCitizenCompletion env i dto user s = (Inr (confirm_data env dto user r), t)"
    using get block assms(2) i by (simp add: confirmCitizenCompletion_def confirm_accepts_def)
  with t that show thesis by blast
qed

lemma verify_complete:
  assumes "find_report i s = Some r" and "verify_accepts env user r" and "has_user_id user"
    and "truthy (j_organizationId user)"
  obtains t where "verifyOrganizationCompletion env i reason user s = (Inr (verify_data env reason user r), t)"
    and "business t = put_report i (verify_data env reason user) (business s)"
proof -
  have i: "r_id r = i" using find_report_SomeD[OF assms(1)] by simp
  have "requireUserOrganizationId user s = (Inr (r_organizationId r), s)"
    using assms(2,4) by (simp add: verify_accepts_def operator_may_review_def requireUserOrganizationId_def truthy_def)
  then have get: "getOrganizationCompletionReviewReport i user False s = (Inr r, s)"
    using assms by (auto simp: getOrganizationCompletionReviewReport_def verify_accepts_def operator_may_review_def role_defs Let_def)
  have block: "assertNoActiveCompletionBlockers r s = (Inr (), s)"
    using assms(2) by (simp add: assertNoActiveCompletionBlockers_Inr verify_accepts_def)
  obtain t where "bnd (update_report i (verify_data env reason user))
      (\<lambda>u. sq (verify_effects env i reason user r u) (ret u)) s = (Inr (verify_data env reason user r), t)"
    and t: "business t = put_report i (verify_data env reason user) (business s)"
    by (rule update_effects_complete[OF assms(1) quiet_verify_effects])
  then have "verifyOrganizationCompletion env i reason user s = (Inr (verify_data env reason user r), t)"
    using get block assms(2,3) i
    by (simp add: verifyOrganizationCompletion_def verify_accepts_def getUserId_valid)
  with t that show thesis by blast
qed

section \<open>The review in the abstract\<close>

text \<open>
  A review is a policy, the approvals given so far and whether the report is closed. An approval
  closes it as soon as the approvals contain one of the quorums of the policy.
\<close>

datatype authority = Citizen_authority | Organization_authority

primrec quorums :: "completion_policy \<Rightarrow> authority set list" where
  "quorums CITIZEN_CONFIRMATION_REQUIRED = [{Citizen_authority}]"
| "quorums ORGANIZATION_CONFIRMATION_REQUIRED = [{Organization_authority}]"
| "quorums BOTH_REQUIRED = [{Citizen_authority, Organization_authority}]"
| "quorums CITIZEN_OR_ORGANIZATION = [{Citizen_authority}, {Organization_authority}]"
| "quorums AUTO_CLOSE_AFTER_REVIEW_WINDOW = [{Citizen_authority}, {Organization_authority}]"
| "quorums ADMIN_RESOLUTION_REQUIRED = []"

record review =
  rv_policy :: completion_policy
  rv_approvals :: "authority set"
  rv_closed :: bool

definition approve :: "authority \<Rightarrow> review \<Rightarrow> review" where
  "approve a v = (let given = insert a (rv_approvals v) in
     v\<lparr> rv_approvals := given, rv_closed := rv_closed v \<or> list_ex (\<lambda>q. q \<subseteq> given) (quorums (rv_policy v)) \<rparr>)"

definition approvals :: "completion_decision option \<Rightarrow> completion_decision option \<Rightarrow> authority set" where
  "approvals citizen organization =
     (if citizen = Some CONFIRMED then {Citizen_authority} else {}) \<union>
     (if organization = Some VERIFIED then {Organization_authority} else {})"

definition review_of :: "env \<Rightarrow> report \<Rightarrow> review" where
  "review_of env r = \<lparr> rv_policy = policyForReport env r,
     rv_approvals = approvals (r_citizenCompletionDecision r) (r_organizationCompletionDecision r),
     rv_closed = (r_status r = CLOSED) \<rparr>"

lemma satisfied_quorum:
  "isCompletionSatisfied p c d \<longleftrightarrow> list_ex (\<lambda>q. q \<subseteq> approvals c d) (quorums p)"
  by (cases p) (auto simp: isCompletionSatisfied_def approvals_def)

lemma approvals_default [simp]:
  "approvals (Some (or_else c D_PENDING)) d = approvals c d" "approvals c (Some (or_else d D_PENDING)) = approvals c d"
  by (cases c; cases d; simp add: approvals_def)+

lemma confirm_data_review:
  assumes "r_status r \<noteq> CLOSED"
  shows "review_of env (confirm_data env dto user r) = approve Citizen_authority (review_of env r)"
  using assms
  by (simp add: review_of_def confirm_data_def confirm_closes_def Let_def satisfied_quorum approve_def policyForReport_def)
    (simp add: approvals_def insert_commute)

lemma verify_data_review:
  assumes "r_status r \<noteq> CLOSED"
  shows "review_of env (verify_data env reason user r) = approve Organization_authority (review_of env r)"
  using assms
  by (simp add: review_of_def verify_data_def verify_closes_def Let_def satisfied_quorum approve_def policyForReport_def)
    (simp add: approvals_def insert_commute)

lemma confirm_changed:
  assumes "confirmCitizenCompletion env i dto user s = (Inr r', t)" and "find_report i s = Some r"
    and "r_citizenCompletionDecision r \<noteq> Some CONFIRMED"
  shows "confirm_accepts user r \<and> r' = confirm_data env dto user r \<and>
    business t = put_report i (confirm_data env dto user) (business s)"
proof -
  have answered: False if "getReportById i user s = (Inr r', t)"
      and "r_citizenCompletionDecision x = Some CONFIRMED" and "getCitizenReviewReport i user s = (Inr x, s)" for x
    using getCitizenReviewReport_InrD[OF that(3)] that(2) assms(2,3) by simp
  show ?thesis
    using assms(1) unfolding confirmCitizenCompletion_def
  proof (rule decision_runE[where i = i])
    fix x
    assume "getCitizenReviewReport i user s = (Inr x, s)" "r_citizenCompletionDecision x = Some CONFIRMED"
      "getReportById i user s = (Inr r', t)"
    then show ?thesis using answered by blast
  qed (use assms in \<open>auto intro!: reads_rules quiet_rules dest!: getCitizenReviewReport_InrD
      simp: confirm_accepts_def assertNoActiveCompletionBlockers_Inr blocked_def\<close>)
qed

lemma verify_changed:
  assumes "verifyOrganizationCompletion env i reason user s = (Inr r', t)" and "find_report i s = Some r"
    and "r_organizationCompletionDecision r \<noteq> Some VERIFIED"
  shows "verify_accepts env user r \<and> r' = verify_data env reason user r \<and>
    business t = put_report i (verify_data env reason user) (business s)"
proof -
  have answered: False if "r_organizationCompletionDecision x = Some VERIFIED"
      and "getOrganizationCompletionReviewReport i user False s = (Inr x, s)" for x
    using getOrganizationCompletionReviewReport_InrD[OF that(2)] that(1) assms(2,3) by simp
  show ?thesis
    using assms(1) unfolding verifyOrganizationCompletion_def
  proof (rule decision_runE[where i = i])
    fix x
    assume "getOrganizationCompletionReviewReport i user False s = (Inr x, s)"
      "r_organizationCompletionDecision x = Some VERIFIED"
    then show ?thesis using answered by blast
  qed (use assms in \<open>auto intro!: reads_rules quiet_rules elim!: bnd_InrE
      dest!: getOrganizationCompletionReviewReport_InrD getUserId_InrD
      simp: verify_accepts_def assertNoActiveCompletionBlockers_Inr blocked_def split: if_splits\<close>)
qed

lemma has_user_id_actor: "has_user_id user \<Longrightarrow> \<exists>y. actor_id user = Some y"
  by (cases "actor_id user") (simp_all add: has_user_id_def)

lemma succeedsI: "m s = (Inr x, t) \<Longrightarrow> succeeds m s"
  by (simp add: succeeds_def)

section \<open>Confirmation and verification\<close>

text \<open>
  C7: A citizen's confirmation is accepted exactly when the citizen owns the report, the provider
  has completed it and nothing blocks it (no dispute, no hold, no open rework request). A report
  already confirmed is answered as it is and is not part of this statement.
\<close>

theorem confirm_completion_exact:
  assumes "find_report i s = Some r" and "r_citizenCompletionDecision r \<noteq> Some CONFIRMED"
  shows "succeeds (confirmCitizenCompletion env i dto user) s \<longleftrightarrow>
    citizen_may_review user r \<and> r_status r = COMPLETED_BY_PROVIDER \<and> \<not> blocked r"
proof
  assume "succeeds (confirmCitizenCompletion env i dto user) s"
  then obtain r' t where "confirmCitizenCompletion env i dto user s = (Inr r', t)"
    by (rule succeedsE)
  from confirm_changed[OF this assms] show "citizen_may_review user r \<and> r_status r = COMPLETED_BY_PROVIDER \<and> \<not> blocked r"
    by (simp add: confirm_accepts_def)
next
  assume "citizen_may_review user r \<and> r_status r = COMPLETED_BY_PROVIDER \<and> \<not> blocked r"
  then have "confirm_accepts user r"
    using assms(2) by (simp add: confirm_accepts_def)
  from confirm_complete[OF assms(1) this] show "succeeds (confirmCitizenCompletion env i dto user) s"
    by (metis succeedsI)
qed

theorem confirm_completion_exact_witness:
  "succeeds (confirmCitizenCompletion sample_env ''r1'' \<lparr> cd_rating = 5, cd_feedback = None \<rparr> (request_user CITIZEN ''c1''))
     (sample_db [sample_report]) \<longleftrightarrow>
   citizen_may_review (request_user CITIZEN ''c1'') sample_report \<and>
     r_status sample_report = COMPLETED_BY_PROVIDER \<and> \<not> blocked sample_report"
  by (rule confirm_completion_exact) code_simp+

text \<open>
  C8: A confirmation that changes the report is one approval of the abstract review: the report is
  closed exactly when the approvals given, the citizen's included, contain a quorum of its policy.
  The stored row is the returned one, and no other report changes.
\<close>

theorem confirm_refines_approval:
  assumes "confirmCitizenCompletion env i dto user s = (Inr r', t)" and "find_report i s = Some r"
    and "r_citizenCompletionDecision r \<noteq> Some CONFIRMED"
  shows "review_of env r' = approve Citizen_authority (review_of env r) \<and>
    r_status r' \<in> {CLOSED, COMPLETED_BY_PROVIDER} \<and>
    find_report i t = Some r' \<and> (\<forall>k. k \<noteq> i \<longrightarrow> find_report k t = find_report k s)"
proof -
  note changed = confirm_changed[OF assms]
  have "find_report i t = Some r'"
    using confirm.result_stored[of "(env, i, dto, user)" s r' t] assms(1) by simp
  moreover have "find_report k t = find_report k s" if "k \<noteq> i" for k
    using confirm.other_reports_kept[of "(env, i, dto, user)" s "Inr r'" t k] assms(1) that by simp
  ultimately show ?thesis
    using changed confirm_data_review[of r env dto user]
    by (auto simp: confirm_accepts_def confirm_data_def Let_def)
qed

theorem confirm_refines_approval_witness:
  "\<exists>r' t. review_of sample_env r' = approve Citizen_authority (review_of sample_env sample_report) \<and>
     find_report ''r1'' (t :: db) = Some r'"
proof -
  have "succeeds (confirmCitizenCompletion sample_env ''r1'' \<lparr> cd_rating = 5, cd_feedback = None \<rparr>
      (request_user CITIZEN ''c1'')) (sample_db [sample_report])" by code_simp
  then obtain r' t where run: "confirmCitizenCompletion sample_env ''r1'' \<lparr> cd_rating = 5, cd_feedback = None \<rparr>
      (request_user CITIZEN ''c1'') (sample_db [sample_report]) = (Inr r', t)" by (rule succeedsE)
  have "find_report ''r1'' (sample_db [sample_report]) = Some sample_report"
    by code_simp
  moreover have "r_citizenCompletionDecision sample_report \<noteq> Some CONFIRMED" by code_simp
  ultimately show ?thesis using confirm_refines_approval[OF run] by blast
qed

text \<open>
  An organization's verification is accepted exactly for an operator of the report's
  organization, on a completed report that nothing blocks and that platform resolution is not
  reserved for.
\<close>

theorem verify_completion_exact:
  assumes "find_report i s = Some r" and "r_organizationCompletionDecision r \<noteq> Some VERIFIED"
    and "has_user_id user" and "truthy (j_organizationId user)"
  shows "succeeds (verifyOrganizationCompletion env i reason user) s \<longleftrightarrow>
    operator_may_review user r \<and> r_status r = COMPLETED_BY_PROVIDER \<and> \<not> blocked r \<and>
    policyForReport env r \<noteq> ADMIN_RESOLUTION_REQUIRED"
proof
  assume "succeeds (verifyOrganizationCompletion env i reason user) s"
  then obtain r' t where "verifyOrganizationCompletion env i reason user s = (Inr r', t)"
    by (rule succeedsE)
  from verify_changed[OF this assms(1,2)]
  show "operator_may_review user r \<and> r_status r = COMPLETED_BY_PROVIDER \<and> \<not> blocked r \<and>
      policyForReport env r \<noteq> ADMIN_RESOLUTION_REQUIRED"
    by (simp add: verify_accepts_def)
next
  assume "operator_may_review user r \<and> r_status r = COMPLETED_BY_PROVIDER \<and> \<not> blocked r \<and>
    policyForReport env r \<noteq> ADMIN_RESOLUTION_REQUIRED"
  then have "verify_accepts env user r"
    using assms(2) has_user_id_actor[OF assms(3)] by (simp add: verify_accepts_def)
  from verify_complete[OF assms(1) this assms(3,4)]
  show "succeeds (verifyOrganizationCompletion env i reason user) s"
    by (metis succeedsI)
qed

theorem verify_completion_exact_witness:
  "succeeds (verifyOrganizationCompletion sample_env ''r1'' None (request_user ORG_ADMIN ''a1''))
     (sample_db [sample_report]) \<longleftrightarrow>
   operator_may_review (request_user ORG_ADMIN ''a1'') sample_report \<and>
     r_status sample_report = COMPLETED_BY_PROVIDER \<and> \<not> blocked sample_report \<and>
     policyForReport sample_env sample_report \<noteq> ADMIN_RESOLUTION_REQUIRED"
  by (rule verify_completion_exact) code_simp+

text \<open>
  A verification that changes the report is the organization's approval of the abstract
  review; no other report changes.
\<close>

theorem verify_refines_approval:
  assumes "verifyOrganizationCompletion env i reason user s = (Inr r', t)" and "find_report i s = Some r"
    and "r_organizationCompletionDecision r \<noteq> Some VERIFIED"
  shows "review_of env r' = approve Organization_authority (review_of env r) \<and>
    r_status r' \<in> {CLOSED, COMPLETED_BY_PROVIDER} \<and>
    find_report i t = Some r' \<and> (\<forall>k. k \<noteq> i \<longrightarrow> find_report k t = find_report k s)"
proof -
  note changed = verify_changed[OF assms]
  have "find_report i t = Some r'"
    using verify.result_stored[of "(env, i, reason, user)" s r' t] assms(1) by simp
  moreover have "find_report k t = find_report k s" if "k \<noteq> i" for k
    using verify.other_reports_kept[of "(env, i, reason, user)" s "Inr r'" t k] assms(1) that by simp
  ultimately show ?thesis
    using changed verify_data_review[of r env reason user]
    by (auto simp: verify_accepts_def verify_data_def Let_def)
qed

theorem verify_refines_approval_witness:
  "\<exists>r' t. review_of sample_env r' = approve Organization_authority (review_of sample_env sample_report) \<and>
     find_report ''r1'' (t :: db) = Some r'"
proof -
  have "succeeds (verifyOrganizationCompletion sample_env ''r1'' None (request_user ORG_ADMIN ''a1''))
      (sample_db [sample_report])" by code_simp
  then obtain r' t where run: "verifyOrganizationCompletion sample_env ''r1'' None (request_user ORG_ADMIN ''a1'')
      (sample_db [sample_report]) = (Inr r', t)" by (rule succeedsE)
  have "find_report ''r1'' (sample_db [sample_report]) = Some sample_report" by code_simp
  moreover have "r_organizationCompletionDecision sample_report \<noteq> Some VERIFIED" by code_simp
  ultimately show ?thesis using verify_refines_approval[OF run] by blast
qed

section \<open>The review reaches its end\<close>

lemma confirm_keeps_review_open:
  assumes "confirm_accepts user r" and "r_organizationCompletionDecision r \<noteq> Some VERIFIED"
    and "\<not> confirm_closes env r" and "operator_may_review op r" and "has_user_id op"
    and "policyForReport env r \<noteq> ADMIN_RESOLUTION_REQUIRED"
  shows "verify_accepts env op (confirm_data env dto user r)"
  using assms(1-4,6) has_user_id_actor[OF assms(5)]
  by (auto simp: verify_accepts_def confirm_accepts_def confirm_data_def Let_def operator_may_review_def blocked_def
      under_dispute_def rework_required_def policyForReport_def reviewStateFor_def
      or_else_def split: option.splits if_splits)

lemma both_approvals_close:
  assumes "policyForReport env r \<noteq> ADMIN_RESOLUTION_REQUIRED" and "\<not> confirm_closes env r"
  shows "verify_closes env (confirm_data env dto user r)"
  using assms
  by (cases "policyForReport env r")
    (simp_all add: verify_closes_def confirm_closes_def confirm_data_def Let_def policyForReport_def isCompletionSatisfied_def)

text \<open>
  C9: The reviewers can always finish: for an open review that platform resolution is not reserved
  for, the citizen's confirmation followed by the organization's verification leaves the report
  closed, under every policy.
\<close>

theorem review_reaches_closure:
  assumes "find_report i s = Some r" and "confirm_accepts user r"
    and "r_organizationCompletionDecision r \<noteq> Some VERIFIED" and "operator_may_review op r" and "has_user_id op"
    and "r_organizationId r \<noteq> []" and "policyForReport env r \<noteq> ADMIN_RESOLUTION_REQUIRED"
  shows "\<exists>r'. find_report i (snd (verifyOrganizationCompletion env i reason op
      (snd (confirmCitizenCompletion env i dto user s)))) = Some r' \<and> r_status r' = CLOSED"
proof -
  let ?r1 = "confirm_data env dto user r"
  obtain t where run: "confirmCitizenCompletion env i dto user s = (Inr ?r1, t)"
    by (rule confirm_complete[OF assms(1,2)])
  have found: "find_report i t = Some ?r1"
    using confirm.result_stored[of "(env, i, dto, user)" s ?r1 t] run by simp
  show ?thesis
  proof (cases "confirm_closes env r")
    case True
    then have closed: "r_status ?r1 = CLOSED" "r_organizationCompletionDecision ?r1 \<noteq> Some VERIFIED"
      using assms(3) by (simp_all add: confirm_data_def Let_def)
    obtain res u where v: "verifyOrganizationCompletion env i reason op t = (res, u)"
      by (cases "verifyOrganizationCompletion env i reason op t")
    have "business u = business t"
    proof (cases res)
      case (Inr x)
      from verify_changed[OF v[unfolded Inr] found closed(2)] closed(1) show ?thesis
        by (simp add: verify_accepts_def)
    qed (use verify.error_changes_nothing[of "(env, i, reason, op)" t _ u] v in simp)
    then show ?thesis
      using found closed(1) run v by (metis find_report_business snd_conv)
  next
    case False
    have org: "truthy (j_organizationId op)"
      using assms(4,6) by (simp add: operator_may_review_def truthy_def)
    obtain u where v: "verifyOrganizationCompletion env i reason op t = (Inr (verify_data env reason op ?r1), u)"
      by (rule verify_complete[OF found confirm_keeps_review_open[OF assms(2,3) False assms(4,5,7)] assms(5) org])
    have "find_report i u = Some (verify_data env reason op ?r1)"
      using verify.result_stored[of "(env, i, reason, op)" t "verify_data env reason op ?r1" u] v by simp
    moreover have "r_status (verify_data env reason op ?r1) = CLOSED"
      using both_approvals_close[OF assms(7) False] by (simp add: verify_data_def Let_def)
    ultimately show ?thesis
      using run v by simp
  qed
qed

theorem review_reaches_closure_witness:
  "\<exists>r'. find_report ''r1'' (snd (verifyOrganizationCompletion sample_env ''r1'' None (request_user ORG_ADMIN ''a1'')
      (snd (confirmCitizenCompletion sample_env ''r1'' \<lparr> cd_rating = 5, cd_feedback = None \<rparr>
        (request_user CITIZEN ''c1'') (sample_db [sample_report]))))) = Some r' \<and> r_status r' = CLOSED"
  by (rule review_reaches_closure[where r = sample_report]) code_simp+

section \<open>Closing by a status change\<close>

definition may_close_directly :: "jwt_user \<Rightarrow> report \<Rightarrow> bool" where
  "may_close_directly user r \<longleftrightarrow> j_role user = SUPER_ADMIN \<or>
     j_role user \<in> {ORG_ADMIN, DISPATCH_OFFICER} \<and> j_organizationId user = Some (r_organizationId r)"

lemma direct_close_runs:
  assumes "find_report i s = Some r" and "r_status r = COMPLETED_BY_PROVIDER" and "has_user_id user"
    and "us_status dto = CLOSED" and "may_close_directly user r"
  obtains t where "updateStatus env i dto user s = (Inr (r\<lparr>r_status := CLOSED\<rparr>), t)"
    and "business t = put_report i (\<lambda>r. r\<lparr>r_status := CLOSED\<rparr>) (business s)"
proof -
  have provider: "\<not> isProvider user"
    using assms(5) by (auto simp: may_close_directly_def isProvider_def)
  have checks: "status_checks i user s = (Inr (the (actor_id user), r), s)"
    using assms(1,3) provider by (simp add: status_checks_def getUserId_valid)
  have allowed: "assertStatusTransitionAllowed r (us_status dto) user x s = (Inr (), s)" for x
    using assms(2,4,5) provider canTransition_names[of COMPLETED_BY_PROVIDER CLOSED]
    by (auto simp: assertStatusTransitionAllowed_def may_close_directly_def role_defs)
  have data: "status_data env dto None = (\<lambda>r. r\<lparr>r_status := CLOSED\<rparr>)"
    using assms(4) by (simp add: status_data_def fun_eq_iff)
  obtain t where "bnd (update_report i (status_data env dto None))
      (\<lambda>u. sq (status_effects env i dto user r u) (ret u)) s = (Inr (status_data env dto None r), t)"
    and t: "business t = put_report i (status_data env dto None) (business s)"
    by (rule update_effects_complete[OF assms(1) quiet_status_effects])
  then have "updateStatus env i dto user s = (Inr (status_data env dto None r), t)"
    using checks allowed provider assms(4) by (simp add: updateStatus_def)
  with t data that show thesis by simp
qed

text \<open>
  An operator of the report's organization (or a super admin) closes any completed report with
  a plain status change, whatever the policy asks for: the decisions, an active dispute and a
  governance hold are not looked at, and nothing of the closure is recorded on the report.
\<close>

theorem operator_closes_past_review:
  assumes "find_report i s = Some r" and "r_status r = COMPLETED_BY_PROVIDER" and "has_user_id user"
    and "us_status dto = CLOSED" and "may_close_directly user r"
  shows "\<exists>t. updateStatus env i dto user s = (Inr (r\<lparr>r_status := CLOSED\<rparr>), t) \<and>
    find_report i t = Some (r\<lparr>r_status := CLOSED\<rparr>)"
proof -
  obtain t where run: "updateStatus env i dto user s = (Inr (r\<lparr>r_status := CLOSED\<rparr>), t)"
    and t: "business t = put_report i (\<lambda>r. r\<lparr>r_status := CLOSED\<rparr>) (business s)"
    by (rule direct_close_runs[OF assms])
  have "find_report i (business t) = Some (r\<lparr>r_status := CLOSED\<rparr>)"
    unfolding t using assms(1) by (simp add: report_table.find_put_same)
  then show ?thesis using run by simp
qed

text \<open>A report that needs both approvals, has neither, and is disputed and on hold.\<close>

definition sample_held :: report where
  "sample_held = sample_report\<lparr> r_completionGovernanceHoldReason := Some ''Investigation'',
     r_citizenCompletionDecision := Some DISPUTED \<rparr>"

definition close_dto :: status_dto where
  "close_dto = \<lparr> us_status = CLOSED, us_completionNote = None, us_completionImageUrl = None,
     us_completionImagePath = None, us_completionLatitude = None, us_completionLongitude = None,
     us_completionAccuracy = None, us_completionLocationCapturedAt = None, us_completionLocationSource = None \<rparr>"

theorem operator_closes_past_review_witness:
  "blocked sample_held \<and> policyForReport sample_env sample_held = BOTH_REQUIRED \<and>
   (\<exists>t. updateStatus sample_env ''r1'' close_dto (request_user DISPATCH_OFFICER ''a1'') (sample_db [sample_held]) =
      (Inr (sample_held\<lparr>r_status := CLOSED\<rparr>), t) \<and> find_report ''r1'' t = Some (sample_held\<lparr>r_status := CLOSED\<rparr>))"
proof (intro conjI)
  show "\<exists>t. updateStatus sample_env ''r1'' close_dto (request_user DISPATCH_OFFICER ''a1'') (sample_db [sample_held]) =
      (Inr (sample_held\<lparr>r_status := CLOSED\<rparr>), t) \<and> find_report ''r1'' t = Some (sample_held\<lparr>r_status := CLOSED\<rparr>)"
    by (rule operator_closes_past_review) code_simp+
qed (code_simp+)

end
