(* ===== verification/Assignment_Theorems.thy ===== *)
theory Assignment_Theorems imports Completion_Theorems begin

text \<open>
  What the assignment of providers guarantees, and three places where a run leaves a report in a
  state its requester did not ask for.
\<close>

section \<open>Assigning\<close>

lemma normalize_pending [simp]: "normalizeReportStatus ''PENDING'' = Some PENDING"
  using normalizeReportStatus_name[of PENDING] by (simp del: normalizeReportStatus_name)

lemma assignment_guards_complete:
  assumes "assign_accepts providerId user options s r"
  obtains x where "assignment_guards providerId user options r s = (Inr x, s)"
proof -
  obtain provider where p: "find_user providerId s = Some provider" "u_role provider = PROVIDER"
      "u_accountStatus provider = ACTIVE"
      "belongs_to provider (r_organizationId r) s \<or>
         j_role user = SUPER_ADMIN \<and> ao_overrideOrganizationRouting options \<and> trimmed (ao_overrideReason options) \<noteq> None"
    using assms unfolding assign_accepts_def by blast
  then have "u_id provider = providerId"
    using find_user_SomeD by blast
  with p(4) have member: "u_organizationId provider = Some (r_organizationId r) \<or> linked_to providerId (r_organizationId r) s \<or>
      j_role user = SUPER_ADMIN \<and> ao_overrideOrganizationRouting options \<and> truthy (map_option trim (ao_overrideReason options))"
    by (auto simp: belongs_to_def trimmed_def truthy_nonempty)
  have "assertAssignmentAllowed r (u_organizationId provider) (linked_to providerId (r_organizationId r) s) user s = (Inr (), s)"
    using assms p member
    by (auto simp: assertAssignmentAllowed_def assign_accepts_def role_defs svc_run)
  then have "\<exists>x. assignment_guards providerId user options r s = (Inr x, s)"
    using p member assms
    by (auto simp: assignment_guards_def Let_def assign_accepts_def dispatcher_def role_defs svc_run)
  then show thesis using that by blast
qed

lemma assign_complete:
  assumes "find_report i s = Some r" and "assign_accepts providerId user options s r"
  obtains t where "assignProviderById env i providerId user options s = (Inr (assign_data env providerId r), t)"
    and "business t = put_report i (assign_data env providerId) (business s)"
proof -
  have i: "r_id r = i" using find_report_SomeD[OF assms(1)] by simp
  have role: "isAdmin user \<or> isDispatch user \<or> isSuperAdmin user"
    using assms(2) by (auto simp: assign_accepts_def dispatcher_def role_defs)
  obtain x where g: "assignment_guards providerId user options r s = (Inr x, s)"
    by (rule assignment_guards_complete[OF assms(2)])
  obtain t where "bnd (update_report i (assign_data env providerId))
      (\<lambda>u. sq (assign_effects env i providerId user (fst x) (snd x) r u) (ret u)) s = (Inr (assign_data env providerId r), t)"
    and t: "business t = put_report i (assign_data env providerId) (business s)"
    by (rule update_effects_complete[OF assms(1) quiet_assignment_effects(3)])
  then have "assignProviderById env i providerId user options s = (Inr (assign_data env providerId r), t)"
    using assms(1) role g i by (auto simp: assignProviderById_def)
  with t that show thesis by blast
qed

text \<open>
  C12: An assignment is made exactly when a dispatcher who may act for the report's organization
  names an active provider that belongs to it (or a super admin overrides the routing with a reason)
  for a pending report without a provider; the provider then has the whole acceptance window.
\<close>

theorem assignment_exact:
  assumes "find_report i s = Some r"
  shows "(\<exists>t. assignProviderById env i providerId user options s = (Inr (assign_data env providerId r), t) \<and>
      find_report i t = Some (assign_data env providerId r)) = assign_accepts providerId user options s r \<and>
    (\<not> assign_accepts providerId user options s r \<longrightarrow>
      business (snd (assignProviderById env i providerId user options s)) = business s)"
proof (cases "assign_accepts providerId user options s r")
  case True
  obtain t where run: "assignProviderById env i providerId user options s = (Inr (assign_data env providerId r), t)"
    and t: "business t = put_report i (assign_data env providerId) (business s)"
    by (rule assign_complete[OF assms True])
  have "find_report i (business t) = Some (assign_data env providerId r)"
    unfolding t using assms by (simp add: report_table.find_put_same assign_data_def)
  then show ?thesis using run True by simp
next
  case False
  obtain res u where run: "assignProviderById env i providerId user options s = (res, u)"
    by (cases "assignProviderById env i providerId user options s")
  from assign_outcome[OF run] False assms have u: "business u = business s" by auto
  have "\<not> (res = Inr (assign_data env providerId r) \<and> find_report i u = Some (assign_data env providerId r))"
  proof
    assume res: "res = Inr (assign_data env providerId r) \<and> find_report i u = Some (assign_data env providerId r)"
    have "False" if "dispatcher user"
    proof -
      have "isAdmin user \<or> isDispatch user \<or> isSuperAdmin user"
        using that by (auto simp: dispatcher_def role_defs)
      then obtain x w where "assignment_guards providerId user options r s = (Inr x, w)"
        using run res assms by (auto simp: assignProviderById_def elim!: bndE)
      with that False show False using assignment_guards_InrD by blast
    qed
    moreover have False if "\<not> dispatcher user"
      using run res that by (auto simp: assignProviderById_def dispatcher_def role_defs svc_run)
    ultimately show False by blast
  qed
  then show ?thesis using run u False by auto
qed

text \<open>A pending report, and an operator of its organization who assigns a provider of that organization.\<close>

definition sample_pending :: report where
  "sample_pending = sample_report\<lparr> r_status := PENDING, r_assignedProviderId := None \<rparr>"

theorem assignment_exact_witness:
  "assign_accepts ''p1'' (request_user ORG_ADMIN ''a1'') no_options (sample_db [sample_pending]) sample_pending \<and>
   (\<exists>t. assignProviderById sample_env ''r1'' ''p1'' (request_user ORG_ADMIN ''a1'') no_options (sample_db [sample_pending]) =
      (Inr (assign_data sample_env ''p1'' sample_pending), t) \<and>
      find_report ''r1'' t = Some (assign_data sample_env ''p1'' sample_pending))"
proof -
  have found: "find_report ''r1'' (sample_db [sample_pending]) = Some sample_pending" by code_simp
  have "assign_accepts ''p1'' (request_user ORG_ADMIN ''a1'') no_options (sample_db [sample_pending]) sample_pending"
    by (simp add: assign_accepts_def dispatcher_def belongs_to_def sample_pending_def sample_defs no_options_def
        find_user_def row_find_def)
  then show ?thesis
    using assignment_exact[OF found, of sample_env "''p1''" "request_user ORG_ADMIN ''a1''" no_options] by blast
qed

section \<open>Overdue assignments\<close>

text \<open>
  A dispatcher's sweep of overdue assignments returns exactly the overdue reports of the
  dispatcher's organization (all organizations for a super admin) to dispatch, remembers the
  provider that let them lapse, and leaves every other report and table as it is.
\<close>

theorem sweep_exact:
  assumes "report_ids_ok s" and "dispatcher user"
  shows "\<exists>t. processOverdueAssignments env user s =
      (let expired = filter (overdue env (user_expire_filter user)) (reports s) in
       (Inr \<lparr> ov_expired = length expired, ov_reports = map expired_assignment_of expired,
              ov_timeoutMinutes = assignmentTimeoutMinutes env \<rparr>, t)) \<and>
    business t = business s\<lparr>reports := map (\<lambda>r. if overdue env (user_expire_filter user) r then expire_data env r else r)
      (reports s)\<rparr>"
  by (rule process_overdue_run[OF assms, of env]) (auto simp: map_rows_def)

definition sample_overdue :: report where
  "sample_overdue = sample_report\<lparr> r_status := ASSIGNED, r_assignmentDeadlineAt := Some 5 \<rparr>"

theorem sweep_exact_witness:
  "\<exists>t :: db. business t = business (sample_db [sample_overdue])\<lparr>reports := [expire_data sample_env sample_overdue]\<rparr>"
proof -
  have ids: "report_ids_ok (sample_db [sample_overdue])" by code_simp
  have user: "dispatcher (request_user DISPATCH_OFFICER ''a1'')" by code_simp
  have "overdue sample_env (user_expire_filter (request_user DISPATCH_OFFICER ''a1'')) sample_overdue" by code_simp
  moreover have "reports (sample_db [sample_overdue]) = [sample_overdue]" by (simp add: sample_db_def)
  ultimately show ?thesis
    using sweep_exact[OF ids user, of sample_env] by auto
qed

text \<open>
  A second sweep at the same instant finds nothing: the reports it would return are the ones
  the first sweep already returned.
\<close>

theorem sweep_idempotent:
  assumes "report_ids_ok s" and "dispatcher user" and "processOverdueAssignments env user s = (res, t)"
  shows "filter (overdue env (user_expire_filter user)) (reports t) = []"
proof -
  obtain u where "processOverdueAssignments env user s =
      (let expired = filter (overdue env (user_expire_filter user)) (reports s) in
       (Inr \<lparr> ov_expired = length expired, ov_reports = map expired_assignment_of expired,
              ov_timeoutMinutes = assignmentTimeoutMinutes env \<rparr>, u))"
    and u: "business u = business s\<lparr>reports := map_rows (overdue env (user_expire_filter user)) (expire_data env) (reports s)\<rparr>"
    by (rule process_overdue_run[OF assms(1,2)])
  then have "u = t" using assms(3) by (simp add: Let_def)
  then have "reports t = map_rows (overdue env (user_expire_filter user)) (expire_data env) (reports s)"
    using arg_cong[OF u, of reports] by simp
  moreover have "\<not> overdue env f (expire_data env r)" for f r
    by (simp add: overdue_def expire_data_def)
  ultimately show ?thesis
    by (auto simp: map_rows_def filter_empty_conv)
qed

theorem sweep_idempotent_witness:
  "filter (overdue sample_env (user_expire_filter (request_user DISPATCH_OFFICER ''a1'')))
     (reports (snd (processOverdueAssignments sample_env (request_user DISPATCH_OFFICER ''a1'') (sample_db [sample_overdue])))) = []"
  by (rule sweep_idempotent[where s = "sample_db [sample_overdue]"
        and res = "fst (processOverdueAssignments sample_env (request_user DISPATCH_OFFICER ''a1'') (sample_db [sample_overdue]))"])
    (code_simp, code_simp, simp)

section \<open>Runs that leave a report where nobody asked\<close>

text \<open>
  A rework request returns the report to the provider without a new acceptance window, so once
  the window of the first assignment has passed the next sweep of its organization takes the report
  away from the provider that is to redo the work.
\<close>

theorem rework_lapses_at_once:
  assumes "rejectCitizenCompletion env i reason citizen s = (Inr r', t)" and "find_report i s = Some r"
    and "r_assignmentDeadlineAt r = Some d" and "d < now env'" and "report_ids_ok s"
    and "dispatcher user" and "j_role user = SUPER_ADMIN \<or> j_organizationId user = Some (r_organizationId r)"
  shows "r_assignedProviderId r' = r_assignedProviderId r \<and> r_status r' = ASSIGNED \<and>
    find_report i (snd (processOverdueAssignments env' user t)) = Some (expire_data env' r') \<and>
    r_assignedProviderId (expire_data env' r') = None"
proof -
  have data: "r' = citizen_rework_data env (or_else (trimmed reason) []) r"
    and found: "find_report i t = Some r'"
  proof -
    show "find_report i t = Some r'"
      using citizen_rework.result_stored[of "(env, i, reason, citizen)" s r' t] assms(1) by simp
    from assms(1) show "r' = citizen_rework_data env (or_else (trimmed reason) []) r"
      unfolding rejectCitizenCompletion_def
      by (rule decision_runE[where c = "\<lambda>_. False" and i = i and m = "\<lambda>_. ret r", simplified])
        (use assms(2) in \<open>auto intro!: reads_rules quiet_rules elim!: bnd_InrE
          dest!: getCitizenReviewReport_InrD requiredGovernanceReason_InrD split: if_splits\<close>)
  qed
  have ids: "report_ids_ok t"
    using citizen_rework.ids_ok[of "(env, i, reason, citizen)" s "Inr r'" t] assms(1,5) by simp
  let ?Q = "overdue env' (user_expire_filter user)"
  obtain u where "processOverdueAssignments env' user t =
      (let expired = filter ?Q (reports t) in
       (Inr \<lparr> ov_expired = length expired, ov_reports = map expired_assignment_of expired,
              ov_timeoutMinutes = assignmentTimeoutMinutes env' \<rparr>, u))"
    and u: "business u = business t\<lparr>reports := map_rows ?Q (expire_data env') (reports t)\<rparr>"
    by (rule process_overdue_run[OF ids assms(6)])
  then have run: "snd (processOverdueAssignments env' user t) = u" by (simp add: Let_def)
  have rows: "reports u = map_rows ?Q (expire_data env') (reports t)"
    using arg_cong[OF u, of reports] by simp
  have Q: "?Q r'"
    using assms(3,4,7) by (auto simp: data citizen_rework_data_def overdue_def user_expire_filter_def isSuperAdmin_def)
  have "r' \<in> set (reports t)" "r_id r' = i"
    using find_report_SomeD[OF found] by simp_all
  then have "expire_data env' r' \<in> set (reports u)"
    using Q unfolding rows map_rows_def by force
  moreover have "report_ids_ok u"
    using ids by (simp add: report_ids_ok_def rows map_rows_def comp_def if_distrib[of r_id] cong: if_cong)
  ultimately have "find_report i u = Some (expire_data env' r')"
    using find_report_of_member \<open>r_id r' = i\<close> by fastforce
  then show ?thesis
    using run by (simp add: data citizen_rework_data_def expire_data_def)
qed

definition sample_returned :: report where
  "sample_returned = sample_report\<lparr> r_assignmentDeadlineAt := Some 5 \<rparr>"

theorem rework_lapses_at_once_witness:
  "\<exists>r'. r_assignedProviderId r' = Some ''p1'' \<and> r_assignedProviderId (expire_data sample_env r') = None"
proof -
  have "succeeds (rejectCitizenCompletion sample_env ''r1'' (Some ''Still broken'') (request_user CITIZEN ''c1''))
      (sample_db [sample_returned])" by code_simp
  then obtain r' t where run: "rejectCitizenCompletion sample_env ''r1'' (Some ''Still broken'') (request_user CITIZEN ''c1'')
      (sample_db [sample_returned]) = (Inr r', t)" by (rule succeedsE)
  have "r_assignedProviderId r' = r_assignedProviderId sample_returned \<and> r_status r' = ASSIGNED \<and>
    find_report ''r1'' (snd (processOverdueAssignments sample_env (request_user DISPATCH_OFFICER ''a1'') t)) =
      Some (expire_data sample_env r') \<and> r_assignedProviderId (expire_data sample_env r') = None"
    by (rule rework_lapses_at_once[OF run, where d = 5]) code_simp+
  moreover have "r_assignedProviderId sample_returned = Some ''p1''" by code_simp
  ultimately show ?thesis by metis
qed

text \<open>
  A cancellation also takes effect on a closed report: a dispatcher of its organization sends
  finished work back to dispatch without a provider, although the closed review state stays.
\<close>

theorem cancellation_reopens_closed:
  assumes "find_report i s = Some r" and "r_status r = CLOSED" and "truthy (r_assignedProviderId r)"
    and "dispatcher user" and "j_role user = SUPER_ADMIN \<or> j_organizationId user = Some (r_organizationId r)"
  shows "\<exists>t r'. cancelAssignment env i reason user s = (Inr r', t) \<and> find_report i t = Some r' \<and>
    r_status r' = PENDING \<and> r_assignedProviderId r' = None \<and>
    r_completionReviewState r' = r_completionReviewState r \<and> r_completionFinalizedAt r' = r_completionFinalizedAt r"
proof -
  let ?d = "cancel_data env (or_else (trimmed reason) ''Assignment cancelled by administrator'')"
  have i: "r_id r = i" using find_report_SomeD[OF assms(1)] by simp
  obtain t where "bnd (update_report i ?d)
      (\<lambda>u. sq (cancel_effects env i (or_else (trimmed reason) ''Assignment cancelled by administrator'') user r u) (ret u)) s =
      (Inr (?d r), t)"
    and t: "business t = put_report i ?d (business s)"
    by (rule update_effects_complete[OF assms(1) quiet_assignment_effects(2)])
  then have "cancelAssignment env i reason user s = (Inr (?d r), t)"
    using assms i by (auto simp: cancelAssignment_def Let_def dispatcher_def role_defs)
  moreover have "find_report i (business t) = Some (?d r)"
    unfolding t using assms(1) by (simp add: report_table.find_put_same cancel_data_def)
  ultimately show ?thesis by (auto simp: cancel_data_def)
qed

definition sample_finished :: report where
  "sample_finished = sample_report\<lparr> r_status := CLOSED, r_completionReviewState := Some ''CLOSED'',
     r_completionFinalizedAt := Some 7 \<rparr>"

theorem cancellation_reopens_closed_witness:
  "\<exists>t r'. cancelAssignment sample_env ''r1'' None (request_user DISPATCH_OFFICER ''a1'') (sample_db [sample_finished]) = (Inr r', t) \<and>
     find_report ''r1'' t = Some r' \<and> r_status r' = PENDING \<and> r_assignedProviderId r' = None \<and>
     r_completionReviewState r' = r_completionReviewState sample_finished \<and>
     r_completionFinalizedAt r' = r_completionFinalizedAt sample_finished"
  by (rule cancellation_reopens_closed) code_simp+

text \<open>
  A reassignment is not atomic: when the new provider does not qualify, the request fails and
  the report has still lost its previous provider.
\<close>

theorem failed_reassignment_unassigns:
  assumes "find_report i s = Some r" and "cancel_accepts user r" and "find_user providerId s = None"
  shows "\<exists>e. fst (reassignProvider env i providerId reason user s) = Inl e \<and>
    find_report i (snd (reassignProvider env i providerId reason user s)) =
      Some (cancel_data env (or_else (trimmed reason) ''Reassigned by administrator'') r)"
proof -
  let ?text = "or_else (trimmed reason) ''Reassigned by administrator''"
  have i: "r_id r = i" using find_report_SomeD[OF assms(1)] by simp
  have clean: "or_else (trimmed (Some ?text)) ''Assignment cancelled by administrator'' = ?text"
    using trimmed_or_else[of "''Reassigned by administrator''" reason] by (simp add: trim_def is_space_def)
  obtain t where "bnd (update_report i (cancel_data env ?text))
      (\<lambda>u. sq (cancel_effects env i ?text user r u) (ret u)) s = (Inr (cancel_data env ?text r), t)"
    and t: "business t = put_report i (cancel_data env ?text) (business s)"
    by (rule update_effects_complete[OF assms(1) quiet_assignment_effects(2)])
  then have cancelled: "cancelAssignment env i (Some ?text) user s = (Inr (cancel_data env ?text r), t)"
    using assms(1,2) i unfolding cancelAssignment_def clean
    by (auto simp: Let_def cancel_accepts_def dispatcher_def role_defs)
  have found: "find_report i t = Some (cancel_data env ?text r)"
    using cancel.result_stored[of "(env, i, Some ?text, user)" s "cancel_data env ?text r" t] cancelled by simp
  have "users t = users s"
    using cancel.tables_kept(1)[of "(env, i, Some ?text, user)" s _ t] cancelled by simp
  then have nobody: "find_user providerId t = None"
    using assms(3) by (simp add: find_user_def row_find_def)
  have role: "isAdmin user \<or> isDispatch user \<or> isSuperAdmin user"
    using assms(2) by (auto simp: cancel_accepts_def dispatcher_def role_defs)
  have "assignProviderById env i providerId user no_options t = (Inl (Forbidden ''Invalid provider''), t)"
    using found nobody role by (auto simp: assignProviderById_def assignment_guards_def svc_run)
  then show ?thesis
    using assms(1,2) cancelled found by (simp add: reassignProvider_def Let_def cancel_accepts_def)
qed

definition sample_assigned :: report where
  "sample_assigned = sample_report\<lparr> r_status := ASSIGNED \<rparr>"

theorem failed_reassignment_unassigns_witness:
  "\<exists>e. fst (reassignProvider sample_env ''r1'' ''p9'' None (request_user ORG_ADMIN ''a1'') (sample_db [sample_assigned])) = Inl e \<and>
    find_report ''r1'' (snd (reassignProvider sample_env ''r1'' ''p9'' None (request_user ORG_ADMIN ''a1'') (sample_db [sample_assigned]))) =
      Some (cancel_data sample_env (or_else (trimmed None) ''Reassigned by administrator'') sample_assigned)"
  by (rule failed_reassignment_unassigns) code_simp+

end
