(* ===== verification/Jurisdiction.thy ===== *)
theory Jurisdiction imports Tables begin

text \<open>
  The text comparison that decides whether a report lies in the jurisdiction of an organization
  (\<open>organization/routing-jurisdiction.ts\<close>): the normal form of location texts, the occurrence of a
  place in a text as whole words, the zones of an organization and the locality that replaces them
  when there are none. The sorted lists of places are given by \<open>collate\<close>.
\<close>

section \<open>Location texts\<close>

text \<open>\<open>clean\<close> of the source is \<open>trimmed\<close>. The global replacement of a non-empty text, from the left.\<close>

fun replace_all :: "string \<Rightarrow> string \<Rightarrow> string \<Rightarrow> string" where
  "replace_all pat rep [] = []"
| "replace_all pat rep (c # cs) =
     (if pat \<noteq> [] \<and> starts_with (c # cs) pat
      then rep @ replace_all pat rep (drop (length pat) (c # cs))
      else c # replace_all pat rep cs)"

text \<open>Every maximal run of characters of a kind becomes one blank.\<close>

fun blank_runs :: "(char \<Rightarrow> bool) \<Rightarrow> bool \<Rightarrow> string \<Rightarrow> string" where
  "blank_runs kind in_run [] = []"
| "blank_runs kind in_run (c # cs) =
     (if \<not> kind c then c # blank_runs kind False cs
      else if in_run then blank_runs kind True cs
      else CHR 0x20 # blank_runs kind True cs)"

definition word_char :: "char \<Rightarrow> bool" where
  "word_char c \<longleftrightarrow> (let n = of_char c :: nat in 97 \<le> n \<and> n \<le> 122 \<or> 48 \<le> n \<and> n \<le> 57)"

definition normalizeLocationText :: "string option list \<Rightarrow> string" where
  "normalizeLocationText values =
     trim (blank_runs is_space False
       (blank_runs (\<lambda>c. \<not> word_char c) False
         (replace_all ''&'' '' and ''
           (replace_all ''federal capital territory'' ''fct''
             (toLowerCase (join '' '' (List.map_filter trimmed values)))))))"

record location_input =
  li_location :: "string option"
  li_locationName :: "string option"
  li_locationAddress :: "string option"
  li_locationLandmark :: "string option"
  li_description :: "string option"
  li_title :: "string option"

definition routingLocationText :: "location_input \<Rightarrow> string" where
  "routingLocationText report = normalizeLocationText
     [li_location report, li_locationName report, li_locationAddress report, li_locationLandmark report]"

definition routingDiagnosticLocationText :: "location_input \<Rightarrow> string" where
  "routingDiagnosticLocationText report = normalizeLocationText
     [li_location report, li_locationName report, li_locationAddress report, li_locationLandmark report,
      li_description report, li_title report]"

text \<open>
  The pattern \<open>(^|\s)place($|\s)\<close> without regard to case: the place stands at the beginning or after
  a space, and at the end or before one. \<open>at_start\<close> says whether the text begins at such a boundary.
\<close>

fun whole_match :: "bool \<Rightarrow> string \<Rightarrow> string \<Rightarrow> bool" where
  "whole_match at_start [] p \<longleftrightarrow> at_start \<and> p = []"
| "whole_match at_start (c # cs) p \<longleftrightarrow>
     at_start \<and> starts_with (c # cs) p \<and>
       (case drop (length p) (c # cs) of [] \<Rightarrow> True | d # ds \<Rightarrow> is_space d)
     \<or> whole_match (is_space c) cs p"

definition containsPlace :: "string \<Rightarrow> string \<Rightarrow> bool" where
  "containsPlace locationText place =
     (let normalizedPlace = normalizeLocationText [Some place] in
      normalizedPlace \<noteq> [] \<and> whole_match True (toLowerCase locationText) (toLowerCase normalizedPlace))"

section \<open>Zones\<close>

datatype match_level = LEVEL_LGA | LEVEL_STATE | LEVEL_COUNTRY | LEVEL_NONE

datatype match_source = JURISDICTION_ZONE | LEGACY_ORGANIZATION_LOCALITY | SOURCE_NONE

datatype match_reason =
    MATCHED_LGA
  | MATCHED_STATE
  | MATCHED_COUNTRY
  | NO_JURISDICTION_CONFIGURED
  | NO_COMPARABLE_LOCATION_TEXT
  | JURISDICTION_MISMATCH

record zone =
  z_id :: "string option"
  z_name :: "string option"
  z_zoneType :: "string option"
  z_country :: "string option"
  z_state :: "string option"
  z_lga :: "string option"
  z_active :: bool

definition zone_of :: "jurisdiction_zone \<Rightarrow> zone" where
  "zone_of row = \<lparr> z_id = Some (jz_id row), z_name = Some (jz_name row), z_zoneType = Some (jz_zoneType row),
     z_country = jz_country row, z_state = jz_state row, z_lga = jz_lga row, z_active = jz_active row \<rparr>"

definition activeRoutingJurisdictionZones :: "zone list \<Rightarrow> zone list" where
  "activeRoutingJurisdictionZones zones = filter z_active zones"

definition matchZone :: "zone \<Rightarrow> string \<Rightarrow> (match_level \<times> match_reason) option" where
  "matchZone zone locationText =
     (if locationText = [] then None
      else case trimmed (z_lga zone) of
        Some lga \<Rightarrow> if containsPlace locationText lga then Some (LEVEL_LGA, MATCHED_LGA) else None
      | None \<Rightarrow>
         (case trimmed (z_state zone) of
            Some st \<Rightarrow> if containsPlace locationText st then Some (LEVEL_STATE, MATCHED_STATE) else None
          | None \<Rightarrow>
             (case trimmed (z_country zone) of
                Some country \<Rightarrow>
                  if containsPlace locationText country then Some (LEVEL_COUNTRY, MATCHED_COUNTRY) else None
              | None \<Rightarrow> None)))"

primrec firstMatchedZone :: "zone list \<Rightarrow> string \<Rightarrow> (match_level \<times> match_reason) option" where
  "firstMatchedZone [] locationText = None"
| "firstMatchedZone (zone # zones) locationText =
     (case matchZone zone locationText of Some m \<Rightarrow> Some m | None \<Rightarrow> firstMatchedZone zones locationText)"

definition legacyFallbackZone :: "organization \<Rightarrow> zone option" where
  "legacyFallbackZone organization =
     (if trimmed (o_lga organization) \<noteq> None \<or> trimmed (o_state organization) \<noteq> None
      then Some \<lparr> z_id = None, z_name = Some ''Legacy organization locality'',
             z_zoneType = Some (if trimmed (o_lga organization) \<noteq> None then ''LGA'' else ''STATE''),
             z_country = trimmed (o_country organization), z_state = trimmed (o_state organization),
             z_lga = trimmed (o_lga organization), z_active = True \<rparr>
      else None)"

definition strongestConfiguredLevel :: "zone list \<Rightarrow> match_level" where
  "strongestConfiguredLevel zones =
     (if list_ex (\<lambda>z. trimmed (z_lga z) \<noteq> None) zones then LEVEL_LGA
      else if list_ex (\<lambda>z. trimmed (z_state z) \<noteq> None) zones then LEVEL_STATE
      else if list_ex (\<lambda>z. trimmed (z_country z) \<noteq> None) zones then LEVEL_COUNTRY
      else LEVEL_NONE)"

definition zoneJurisdictionAreas :: "env \<Rightarrow> zone list \<Rightarrow> string list" where
  "zoneJurisdictionAreas env zones =
     collate env (uniq (List.map_filter trimmed (concat (map (\<lambda>z. [z_lga z, z_state z, z_country z]) zones))))"

section \<open>Evaluation\<close>

record legacy_fallback =
  lf_active :: bool
  lf_country :: "string option"
  lf_state :: "string option"
  lf_lga :: "string option"
  lf_address :: "string option"

definition legacyFallbackSummary :: "organization \<Rightarrow> bool \<Rightarrow> legacy_fallback" where
  "legacyFallbackSummary organization active =
     \<lparr> lf_active = active, lf_country = trimmed (o_country organization), lf_state = trimmed (o_state organization),
       lf_lga = trimmed (o_lga organization), lf_address = trimmed (o_address organization) \<rparr>"

record jurisdiction_match =
  jm_configured :: bool
  jm_matched :: bool
  jm_source :: match_source
  jm_level :: match_level
  jm_comparableLocationAvailable :: bool
  jm_locationText :: string
  jm_diagnosticText :: string
  jm_jurisdictionAreas :: "string list"
  jm_configuredZones :: "zone list"
  jm_legacyFallback :: legacy_fallback
  jm_reason :: match_reason

definition cleaned_zone :: "zone \<Rightarrow> zone" where
  "cleaned_zone z = z\<lparr> z_name := trimmed (z_name z), z_zoneType := trimmed (z_zoneType z),
     z_country := trimmed (z_country z), z_state := trimmed (z_state z), z_lga := trimmed (z_lga z) \<rparr>"

text \<open>The part the two configured cases share: zones and where they come from.\<close>

definition zones_match ::
    "env \<Rightarrow> organization \<Rightarrow> location_input \<Rightarrow> zone list \<Rightarrow> zone list \<Rightarrow> match_source \<Rightarrow> jurisdiction_match" where
  "zones_match env organization report configuredZones zones source =
     (let locationText = routingLocationText report;
          comparable = (locationText \<noteq> []);
          found = firstMatchedZone zones locationText
      in \<lparr> jm_configured = True,
           jm_matched = (found \<noteq> None \<and> comparable),
           jm_source = source,
           jm_level = (case found of Some (level, reason) \<Rightarrow> level | None \<Rightarrow> strongestConfiguredLevel zones),
           jm_comparableLocationAvailable = comparable,
           jm_locationText = locationText,
           jm_diagnosticText = routingDiagnosticLocationText report,
           jm_jurisdictionAreas = zoneJurisdictionAreas env zones,
           jm_configuredZones = configuredZones,
           jm_legacyFallback = legacyFallbackSummary organization (source = LEGACY_ORGANIZATION_LOCALITY),
           jm_reason = (case found of Some (level, reason) \<Rightarrow> reason
              | None \<Rightarrow> if comparable then JURISDICTION_MISMATCH else NO_COMPARABLE_LOCATION_TEXT) \<rparr>)"

definition evaluateRoutingJurisdiction ::
    "env \<Rightarrow> organization \<Rightarrow> zone list \<Rightarrow> location_input \<Rightarrow> jurisdiction_match" where
  "evaluateRoutingJurisdiction env organization zones report =
     (let activeZones = activeRoutingJurisdictionZones zones;
          configuredZones = map cleaned_zone activeZones
      in if activeZones \<noteq> []
         then zones_match env organization report configuredZones activeZones JURISDICTION_ZONE
         else case legacyFallbackZone organization of
           Some legacy \<Rightarrow> zones_match env organization report configuredZones [legacy] LEGACY_ORGANIZATION_LOCALITY
         | None \<Rightarrow>
            \<lparr> jm_configured = False, jm_matched = False, jm_source = SOURCE_NONE, jm_level = LEVEL_NONE,
              jm_comparableLocationAvailable = (routingLocationText report \<noteq> []),
              jm_locationText = routingLocationText report,
              jm_diagnosticText = routingDiagnosticLocationText report,
              jm_jurisdictionAreas = [], jm_configuredZones = configuredZones,
              jm_legacyFallback = legacyFallbackSummary organization False,
              jm_reason = NO_JURISDICTION_CONFIGURED \<rparr>)"

section \<open>Normal texts as lists of words\<close>

text \<open>The words of a text, and the texts in which single blanks separate words and stand at neither end.\<close>

function words_of :: "string \<Rightarrow> string list" where
  "words_of [] = []"
| "words_of (c # cs) =
     (if is_space c then words_of cs
      else (c # takeWhile (\<lambda>d. \<not> is_space d) cs) # words_of (dropWhile (\<lambda>d. \<not> is_space d) cs))"
  by pat_completeness auto
termination
  by (relation "measure length") (auto simp: le_imp_less_Suc length_dropWhile_le)

fun single_blanks :: "bool \<Rightarrow> string \<Rightarrow> bool" where
  "single_blanks in_run [] \<longleftrightarrow> True"
| "single_blanks in_run (c # cs) \<longleftrightarrow>
     (if is_space c then c = CHR 0x20 \<and> \<not> in_run \<and> single_blanks True cs else single_blanks False cs)"

lemma blank_is_space [simp]: "is_space CHR 0x20"
  by (simp add: is_space_def)

lemma blank_runs_single: "single_blanks r (blank_runs is_space r s)"
  by (induction "is_space" r s rule: blank_runs.induct) simp_all

lemma single_blanks_weaken: "single_blanks r s \<Longrightarrow> single_blanks False s"
  by (cases s) (simp_all split: if_splits)

lemma single_blanks_tl: "single_blanks r (c # cs) \<Longrightarrow> single_blanks False cs"
  using single_blanks_weaken[of True cs] by (auto split: if_splits)

lemma single_blanks_dropWhile: "single_blanks False s \<Longrightarrow> single_blanks False (dropWhile P s)"
proof (induction s)
  case (Cons c cs)
  then show ?case
    using single_blanks_tl[OF Cons.prems] by (cases "P c") simp_all
qed simp

lemma single_blanks_prefix: "single_blanks r (xs @ ys) \<Longrightarrow> single_blanks r xs"
  by (induction r xs rule: single_blanks.induct) (simp_all split: if_splits)

lemma trim_single_blanks: "single_blanks False s \<Longrightarrow> single_blanks False (trim s)"
  unfolding trim_def using single_blanks_prefix rev_dropWhile_prefix single_blanks_dropWhile by metis

lemma trim_ends:
  assumes "trim s \<noteq> []"
  shows "\<not> is_space (hd (trim s))" and "\<not> is_space (last (trim s))"
proof -
  have ne: "dropWhile is_space s \<noteq> []"
    using assms unfolding trim_def by (metis dropWhile.simps(1) rev.simps(1))
  show "\<not> is_space (hd (trim s))"
    using assms ne rstrip_hd[of is_space "dropWhile is_space s"] hd_dropWhile[OF ne] by (simp add: trim_def)
  show "\<not> is_space (last (trim s))"
    using assms unfolding trim_def by (metis hd_dropWhile last_rev rev_is_Nil_conv)
qed

lemma words_of_Nil: "words_of s = [] \<longleftrightarrow> (\<forall>c\<in>set s. is_space c)"
  by (induction s rule: words_of.induct) auto

lemma words_of_separated: "is_space c \<Longrightarrow> words_of (xs @ c # ys) = words_of xs @ words_of ys"
proof (induction xs rule: words_of.induct)
  case (2 d ds)
  show ?case
  proof (cases "is_space d")
    case True
    then show ?thesis using 2 by simp
  next
    case False
    show ?thesis
    proof (cases "\<forall>x\<in>set ds. \<not> is_space x")
      case True
      then have all: "takeWhile (\<lambda>x. \<not> is_space x) (ds @ c # ys) = ds"
          "dropWhile (\<lambda>x. \<not> is_space x) (ds @ c # ys) = c # ys"
          "takeWhile (\<lambda>x. \<not> is_space x) ds = ds" "dropWhile (\<lambda>x. \<not> is_space x) ds = []"
        using 2(3) by (simp_all add: takeWhile_append2 dropWhile_append2)
      show ?thesis using False 2(3)
        by (simp add: all del: takeWhile_eq_all_conv dropWhile_eq_Nil_conv)
    next
      case inner: False
      then obtain x where "x \<in> set ds" "is_space x" by blast
      then have "takeWhile (\<lambda>x. \<not> is_space x) (ds @ c # ys) = takeWhile (\<lambda>x. \<not> is_space x) ds"
          "dropWhile (\<lambda>x. \<not> is_space x) (ds @ c # ys) = dropWhile (\<lambda>x. \<not> is_space x) ds @ c # ys"
        by (simp_all add: takeWhile_append1 dropWhile_append1)
      then show ?thesis using False 2 by simp
    qed
  qed
qed simp

lemma join_words:
  "single_blanks r s \<Longrightarrow> (s \<noteq> [] \<Longrightarrow> \<not> is_space (last s)) \<Longrightarrow> join '' '' (words_of s) = dropWhile is_space s"
proof (induction s arbitrary: r rule: words_of.induct)
  case (2 c cs)
  show ?case
  proof (cases "is_space c")
    case True
    then have "cs \<noteq> []" using 2(4) by (cases cs) auto
    then show ?thesis using True 2(1)[OF True, of True] 2(3,4) by simp
  next
    case False
    let ?w = "takeWhile (\<lambda>d. \<not> is_space d) cs" and ?t = "dropWhile (\<lambda>d. \<not> is_space d) cs"
    have cs: "cs = ?w @ ?t" by simp
    have sb: "single_blanks False ?t"
      using 2(3) False single_blanks_dropWhile by simp
    have last: "?t \<noteq> [] \<Longrightarrow> \<not> is_space (last ?t)"
      using 2(4) cs by (metis last_ConsR last_appendR Nil_is_append_conv list.distinct(1))
    have ih: "join '' '' (words_of ?t) = dropWhile is_space ?t"
      by (rule 2(2)[OF False sb last])
    show ?thesis
    proof (cases "?t")
      case Nil
      then have "?w = cs" using cs by simp
      with Nil show ?thesis using False by (simp del: takeWhile_eq_all_conv dropWhile_eq_Nil_conv)
    next
      case (Cons d ds)
      have d: "is_space d"
        using Cons by (metis (mono_tags, lifting) hd_dropWhile list.sel(1) list.distinct(1))
      have "d = CHR 0x20" "single_blanks True ds"
        using sb d unfolding Cons by simp_all
      moreover have "words_of ?t \<noteq> []"
        using last Cons words_of_Nil[of ?t] by (metis last_in_set list.distinct(1))
      moreover have "dropWhile is_space ?t = ds"
        using d \<open>single_blanks True ds\<close> unfolding Cons by (cases ds) (auto split: if_splits)
      ultimately show ?thesis
        using False ih cs Cons by simp
    qed
  qed
qed simp

lemma join_append:
  "xs \<noteq> [] \<Longrightarrow> ys \<noteq> [] \<Longrightarrow> join sep (xs @ ys) = join sep xs @ sep @ join sep ys"
  by (induction xs) auto

definition tidy :: "string \<Rightarrow> bool" where
  "tidy s \<longleftrightarrow> join '' '' (words_of s) = s \<and> list_all (\<lambda>c. word_char c \<or> c = CHR 0x20) s"

lemma blank_runs_chars: "c \<in> set (blank_runs kind r s) \<Longrightarrow> c = CHR 0x20 \<or> c \<in> set s \<and> \<not> kind c"
  by (induction kind r s rule: blank_runs.induct) (auto split: if_splits)

lemma trim_subset: "set (trim s) \<subseteq> set s"
  unfolding trim_def by (metis set_dropWhileD set_rev subsetI)

lemma normal_text_tidy: "tidy (normalizeLocationText values)"
proof -
  let ?u = "blank_runs (\<lambda>c. \<not> word_char c) False (replace_all ''&'' '' and ''
           (replace_all ''federal capital territory'' ''fct'' (toLowerCase (join '' '' (List.map_filter trimmed values)))))"
  let ?v = "blank_runs is_space False ?u"
  have "single_blanks False (trim ?v)"
    by (intro trim_single_blanks blank_runs_single)
  then have "join '' '' (words_of (trim ?v)) = dropWhile is_space (trim ?v)"
    by (rule join_words) (rule trim_ends)
  also have "\<dots> = trim ?v"
    using trim_ends(1)[of ?v] by (cases "trim ?v") auto
  finally have "join '' '' (words_of (trim ?v)) = trim ?v" .
  moreover have "word_char c \<or> c = CHR 0x20" if "c \<in> set (trim ?v)" for c
  proof -
    have "c \<in> set ?v" using that trim_subset by blast
    then show ?thesis
      using blank_runs_chars[of c is_space False ?u] blank_runs_chars[of c "\<lambda>c. \<not> word_char c" False] by blast
  qed
  ultimately show ?thesis
    unfolding tidy_def normalizeLocationText_def by (simp add: list_all_iff)
qed

lemma tidy_lower: "tidy s \<Longrightarrow> toLowerCase s = s"
  unfolding tidy_def toLowerCase_def
  by (rule map_idI) (auto simp: list_all_iff word_char_def lower_char_def Let_def)

section \<open>A place in a text\<close>

lemma starts_with_iff: "starts_with s p \<longleftrightarrow> (\<exists>r. s = p @ r)"
proof (induction p arbitrary: s)
  case (Cons c cs)
  then show ?case by (cases s) auto
qed simp

lemma whole_match_iff:
  assumes "p \<noteq> []"
  shows "whole_match b s p \<longleftrightarrow>
    (\<exists>a r. s = a @ p @ r \<and> (if a = [] then b else is_space (last a)) \<and> (r = [] \<or> is_space (hd r)))"
    (is "_ \<longleftrightarrow> (\<exists>a r. ?occurs s b a r)")
proof (induction s arbitrary: b)
  case Nil
  then show ?case using assms by simp
next
  case (Cons c cs)
  have front: "(starts_with (c # cs) p \<and> (case drop (length p) (c # cs) of [] \<Rightarrow> True | d # ds \<Rightarrow> is_space d)) \<longleftrightarrow>
      (\<exists>r. c # cs = p @ r \<and> (r = [] \<or> is_space (hd r)))"
  proof -
    have boundary: "(case r of [] \<Rightarrow> True | d # ds \<Rightarrow> is_space d) \<longleftrightarrow> r = [] \<or> is_space (hd r)" for r
      by (cases r) simp_all
    have split: "(\<exists>r. x = p @ r) \<and> Q (drop (length p) x) \<longleftrightarrow> (\<exists>r. x = p @ r \<and> Q r)" for x and Q :: "string \<Rightarrow> bool"
      by auto
    show ?thesis
      unfolding starts_with_iff boundary by (rule split)
  qed
  have "(\<exists>a r. ?occurs (c # cs) b a r) \<longleftrightarrow> (\<exists>r. ?occurs (c # cs) b [] r) \<or> (\<exists>a r. ?occurs (c # cs) b (c # a) r)"
  proof
    assume "\<exists>a r. ?occurs (c # cs) b a r"
    then obtain a r where occurs: "?occurs (c # cs) b a r" by blast
    show "(\<exists>r. ?occurs (c # cs) b [] r) \<or> (\<exists>a r. ?occurs (c # cs) b (c # a) r)"
    proof (cases a)
      case Nil
      with occurs show ?thesis by blast
    next
      case (Cons d ds)
      then have "d = c" using occurs by simp
      with occurs Cons show ?thesis by blast
    qed
  qed blast
  also have "\<dots> \<longleftrightarrow> b \<and> (\<exists>r. c # cs = p @ r \<and> (r = [] \<or> is_space (hd r))) \<or> (\<exists>a r. ?occurs cs (is_space c) a r)"
    by (intro arg_cong2[of _ _ _ _ "(\<or>)"] iff_exI) auto
  finally show ?case
    using front Cons.IH by auto
qed

text \<open>
  A place occurs in a text exactly when its words are a contiguous, non-empty part of the words of the text.
\<close>

lemma containsPlace_words:
  "containsPlace (normalizeLocationText texts) place \<longleftrightarrow>
     words_of (normalizeLocationText [Some place]) \<noteq> [] \<and>
     (\<exists>us vs. words_of (normalizeLocationText texts) = us @ words_of (normalizeLocationText [Some place]) @ vs)"
proof -
  define t where "t = normalizeLocationText texts"
  define p where "p = normalizeLocationText [Some place]"
  have tidy: "join '' '' (words_of t) = t" "toLowerCase t = t" "join '' '' (words_of p) = p" "toLowerCase p = p"
    using normal_text_tidy tidy_lower unfolding t_def p_def tidy_def by blast+
  have empty: "p = [] \<longleftrightarrow> words_of p = []"
    using tidy(3) by (metis join.simps(1) words_of.simps(1))
  have "whole_match True t p \<longleftrightarrow> (\<exists>us vs. words_of t = us @ words_of p @ vs)" if p: "p \<noteq> []"
  proof
    assume "whole_match True t p"
    then obtain a r where t: "t = a @ p @ r" and a: "a = [] \<or> is_space (last a)" and r: "r = [] \<or> is_space (hd r)"
      unfolding whole_match_iff[OF p] by metis
    have "words_of (p @ r) = words_of p @ words_of (tl r)"
      using r words_of_separated[of "hd r" p "tl r"] by (cases r) auto
    moreover have "words_of (a @ p @ r) = words_of (butlast a) @ words_of (p @ r)"
    proof (cases a rule: rev_cases)
      case (snoc xs x)
      then show ?thesis using a words_of_separated[of x xs "p @ r"] by simp
    qed simp
    ultimately show "\<exists>us vs. words_of t = us @ words_of p @ vs"
      using t by (metis append_assoc)
  next
    assume "\<exists>us vs. words_of t = us @ words_of p @ vs"
    then obtain us vs where ws: "words_of t = us @ words_of p @ vs" by blast
    have ne: "words_of p \<noteq> []" using p empty by simp
    define a where "a = (if us = [] then [] else join '' '' us @ '' '')"
    define r where "r = (if vs = [] then [] else '' '' @ join '' '' vs)"
    have "join '' '' (us @ words_of p @ vs) = a @ join '' '' (words_of p) @ r"
      using ne unfolding a_def r_def by (cases "us = []"; cases "vs = []"; simp add: join_append)
    then have "t = a @ p @ r"
      unfolding ws[symmetric] tidy .
    moreover have "a = [] \<or> is_space (last a)" "r = [] \<or> is_space (hd r)"
      by (auto simp: a_def r_def)
    ultimately show "whole_match True t p"
      unfolding whole_match_iff[OF p] by auto
  qed
  then show ?thesis
    unfolding containsPlace_def Let_def t_def[symmetric] p_def[symmetric] tidy(2,4) using empty by blast
qed

end
