(* ===== verification/Candidates.thy ===== *)
theory Candidates imports Category Jurisdiction begin

text \<open>
  The evaluation of one organization as the responsible one for a report
  (\<open>report/report.service.ts\<close>, lines 5021-5425): its providers and their capabilities, its mandates
  and exclusions, the checks that decide its eligibility, each failed one leaving a reason, and the
  confidence. The diagnostics that are only logged are left out.
\<close>

section \<open>The organization and its providers\<close>

text \<open>The profile the query of an organization gives, with its active links, providers and zones.\<close>

record organization_profile =
  op_organization :: organization
  op_linked :: "user list"
  op_users :: "user list"
  op_zones :: "jurisdiction_zone list"

definition PROVIDER_CAPABILITIES_KEY :: string where
  "PROVIDER_CAPABILITIES_KEY = ''secureZoneProviderCapabilities''"

definition ACTIVE_MAINTENANCE_CAPABILITIES :: "string list" where
  "ACTIVE_MAINTENANCE_CAPABILITIES =
     [''electrical'', ''plumbing'', ''mechanical'', ''civil_works'', ''ict'', ''facilities'']"

text \<open>A map from ids to providers keeps the place of the first entry of an id.\<close>

definition providers_by_id :: "user list \<Rightarrow> user list" where
  "providers_by_id providers =
     map snd (foldl (\<lambda>m u. AList.update (u_id u) u m) []
       (filter (\<lambda>u. u_id u \<noteq> [] \<and> u_accountStatus u = ACTIVE) providers))"

definition organizationActiveProviders :: "organization_profile \<Rightarrow> user list" where
  "organizationActiveProviders profile = providers_by_id (op_linked profile @ op_users profile)"

definition organizationAcceptedProviders :: "organization_profile \<Rightarrow> user list" where
  "organizationAcceptedProviders profile = providers_by_id (op_linked profile)"

definition field_of :: "json option \<Rightarrow> string \<Rightarrow> json option" where
  "field_of value key = Option.bind value (jget key)"

definition capability_active :: "json \<Rightarrow> bool" where
  "capability_active item = (case item of
     JObj kvs \<Rightarrow>
       (case map_of kvs ''status'' of
          None \<Rightarrow> True
        | Some JNull \<Rightarrow> True
        | Some (JStr status) \<Rightarrow> status = ''ACTIVE''
        | _ \<Rightarrow> False)
   | JArr items \<Rightarrow> True
   | _ \<Rightarrow> False)"

definition activeProviderCapabilityIds :: "user \<Rightarrow> string list" where
  "activeProviderCapabilityIds provider =
     (case field_of (u_profileData provider) PROVIDER_CAPABILITIES_KEY of
        Some (JArr assignments) \<Rightarrow>
          filter (\<lambda>item. item \<noteq> [])
            (map (\<lambda>item. case jget ''id'' item of Some v \<Rightarrow> trim (json_text v) | None \<Rightarrow> [])
              (filter capability_active assignments))
      | _ \<Rightarrow> [])"

definition maintenanceModuleEnabled :: "json option \<Rightarrow> bool" where
  "maintenanceModuleEnabled value =
     (let lists_it = (\<lambda>items. ''maintenance'' \<in> set (map json_text items)) in
      case value of
        Some (JArr items) \<Rightarrow> items = [] \<or> lists_it items
      | Some (JObj kvs) \<Rightarrow>
          if map_of kvs ''maintenance'' = Some (JBool False) then False
          else (case map_of kvs ''modules'' of
                  Some (JArr items) \<Rightarrow> lists_it items
                | _ \<Rightarrow> (case map_of kvs ''enabledModules'' of
                          Some (JArr items) \<Rightarrow> lists_it items
                        | _ \<Rightarrow> True))
      | _ \<Rightarrow> True)"

definition collectStringList :: "env \<Rightarrow> string list \<Rightarrow> string list" where
  "collectStringList env values = collate env (uniq values)"

definition serves :: "string list \<Rightarrow> user \<Rightarrow> bool" where
  "serves requiredCapabilityIds provider =
     list_ex (\<lambda>i. if requiredCapabilityIds \<noteq> [] then i \<in> set requiredCapabilityIds
                  else i \<in> set ACTIVE_MAINTENANCE_CAPABILITIES) (activeProviderCapabilityIds provider)"

section \<open>Categories\<close>

text \<open>What the profile says about categories: the lists, and how they compare with the report's.\<close>

record category_evidence =
  ce_normalizedCategory :: string
  ce_requiredCapabilityIds :: "string list"
  ce_mandateCategories :: "string list"
  ce_excludedCategories :: "string list"
  ce_inheritedCategories :: "string list"
  ce_explicitCapabilities :: "string list"
  ce_capabilityProviders :: "user list"
  ce_inheritedProviders :: "user list"
  ce_inheritedMatch :: bool
  ce_mandateMatch :: bool
  ce_capabilityMatch :: bool
  ce_excluded :: bool
  ce_explicit :: bool

definition profile_lists :: "organization \<Rightarrow> string list \<Rightarrow> string list \<Rightarrow> string list" where
  "profile_lists organization profileKeys routingKeys =
     (let profileData = o_profileData organization;
          routingProfile = field_of profileData ''responsibilityRouting''
      in concat (map (\<lambda>k. jsonStringList (field_of profileData k)) profileKeys) @
         concat (map (\<lambda>k. jsonStringList (field_of routingProfile k)) routingKeys))"

definition mandate_list :: "organization \<Rightarrow> string list" where
  "mandate_list organization =
     profile_lists organization [''mandates'', ''supportedCategories''] [''mandateCategories'', ''supportedCategories'']"

definition exclusion_list :: "organization \<Rightarrow> string list" where
  "exclusion_list organization = profile_lists organization [''excludedCategories''] [''excludedCategories'']"

definition category_evidence_of :: "env \<Rightarrow> organization_profile \<Rightarrow> string \<Rightarrow> category_evidence" where
  "category_evidence_of env profile category =
     (let organization = op_organization profile;
          activeProviders = organizationActiveProviders profile;
          normalizedCategory = normalizeResponsibilityCategory category;
          required = capabilityIdsForCategory normalizedCategory;
          mandates = collectStringList env (mandate_list organization);
          exclusions = collectStringList env (exclusion_list organization);
          inherited = collectStringList env
            (concat (map (\<lambda>u. jsonStringList (u_serviceCategories u)) activeProviders));
          capable = filter (serves required) activeProviders;
          compatible = (\<lambda>item. categoriesCompatible (normalizeResponsibilityCategory item) normalizedCategory)
      in \<lparr> ce_normalizedCategory = normalizedCategory,
           ce_requiredCapabilityIds = required,
           ce_mandateCategories = mandates,
           ce_excludedCategories = exclusions,
           ce_inheritedCategories = inherited,
           ce_explicitCapabilities = collectStringList env
             (concat (map activeProviderCapabilityIds activeProviders)),
           ce_capabilityProviders = capable,
           ce_inheritedProviders = filter (\<lambda>u. jsonStringList (u_serviceCategories u) \<noteq> []) activeProviders,
           ce_inheritedMatch = (normalizedCategory = [] \<or> list_ex compatible inherited),
           ce_mandateMatch = (mandates \<noteq> [] \<and> list_ex compatible mandates),
           ce_capabilityMatch = (required \<noteq> [] \<and> capable \<noteq> []),
           ce_excluded = list_ex compatible exclusions,
           ce_explicit = (capable \<noteq> []) \<rparr>)"

section \<open>Eligibility\<close>

definition reason_if :: "bool \<Rightarrow> string \<Rightarrow> string list" where
  "reason_if c reason = (if c then [reason] else [])"

definition rejection_reasons ::
    "organization \<Rightarrow> string \<Rightarrow> category_evidence \<Rightarrow> jurisdiction_match \<Rightarrow> string list" where
  "rejection_reasons organization category evidence jurisdiction =
     reason_if (o_status organization \<noteq> O_ACTIVE) ''Organization is not active.'' @
     reason_if (\<not> maintenanceModuleEnabled (o_enabledModules organization))
       ''Maintenance Services is not enabled for this organization.'' @
     reason_if (o_billingStatus organization = B_SUSPENDED \<or> o_billingStatus organization = B_CANCELLED)
       ''Organization billing status blocks dispatch.'' @
     reason_if (\<not> truthy (o_contactEmail organization) \<and> \<not> truthy (o_contactPhone organization))
       ''Organization contact channel is missing.'' @
     reason_if (\<not> jm_configured jurisdiction) ''Organization jurisdiction or address is missing.'' @
     reason_if (\<not> jm_comparableLocationAvailable jurisdiction)
       ''Report has no comparable textual locality for jurisdiction matching.'' @
     (if ce_inheritedCategories evidence = [] \<and> ce_mandateCategories evidence = [] \<and> \<not> ce_explicit evidence
      then [''No mandate or inherited provider profile categories are configured.'']
      else reason_if (\<not> ce_inheritedMatch evidence \<and> \<not> ce_mandateMatch evidence \<and> \<not> ce_capabilityMatch evidence)
        (''No organization mandate or provider profile covers '' @ category @ ''.'')) @
     reason_if (ce_excluded evidence)
       (''Organization has an explicit responsibility exclusion for '' @ category @ ''.'') @
     reason_if (\<not> jm_matched jurisdiction) ''Organization jurisdiction does not match the report location.''"

record candidate =
  cd_organization :: organization
  cd_eligible :: bool
  cd_reasons :: "string list"
  cd_requestedCategory :: string
  cd_evidence :: category_evidence
  cd_categoryMatched :: bool
  cd_categorySource :: string
  cd_jurisdiction :: jurisdiction_match
  cd_serviceModuleReady :: bool
  cd_confidence :: string
  cd_memberCount :: nat
  cd_activeProviders :: "user list"
  cd_acceptedProviders :: "user list"
  cd_coverageAreas :: "string list"

definition category_source :: "category_evidence \<Rightarrow> string" where
  "category_source evidence =
     (if ce_explicit evidence then ''EXPLICIT_CAPABILITY_METADATA''
      else if ce_mandateMatch evidence then ''ORGANIZATION_MANDATE''
      else if ce_inheritedMatch evidence then ''INHERITED_PROVIDER_PROFILE''
      else if ce_capabilityMatch evidence then ''GOVERNED_FALLBACK_MAPPING''
      else ''NONE'')"

definition candidate_confidence :: "bool \<Rightarrow> category_evidence \<Rightarrow> jurisdiction_match \<Rightarrow> string" where
  "candidate_confidence eligible evidence jurisdiction =
     (if \<not> eligible
      then (if ce_explicit evidence \<or> ce_inheritedMatch evidence \<or> ce_mandateMatch evidence then ''LOW'' else ''NONE'')
      else (if ce_explicit evidence \<and> jm_matched jurisdiction then ''HIGH'' else ''MEDIUM''))"

definition serializeOrganizationCandidate ::
    "env \<Rightarrow> organization_profile \<Rightarrow> string \<Rightarrow> location_input \<Rightarrow> candidate" where
  "serializeOrganizationCandidate env profile category report =
     (let organization = op_organization profile;
          evidence = category_evidence_of env profile category;
          jurisdiction = evaluateRoutingJurisdiction env organization (map zone_of (op_zones profile)) report;
          reasons = rejection_reasons organization category evidence jurisdiction;
          eligible = (reasons = []);
          activeProviders = organizationActiveProviders profile
      in \<lparr> cd_organization = organization,
           cd_eligible = eligible,
           cd_reasons = reasons,
           cd_requestedCategory = category,
           cd_evidence = evidence,
           cd_categoryMatched =
             (ce_inheritedMatch evidence \<or> ce_mandateMatch evidence \<or> ce_capabilityMatch evidence),
           cd_categorySource = category_source evidence,
           cd_jurisdiction = jurisdiction,
           cd_serviceModuleReady = maintenanceModuleEnabled (o_enabledModules organization),
           cd_confidence = candidate_confidence eligible evidence jurisdiction,
           cd_memberCount = length (op_users profile),
           cd_activeProviders = activeProviders,
           cd_acceptedProviders = organizationAcceptedProviders profile,
           cd_coverageAreas = collectStringList env
             (concat (map (\<lambda>u. jsonStringList (u_coverageAreas u)) activeProviders)) \<rparr>)"

section \<open>The readiness summary\<close>

primrec match_level_name :: "match_level \<Rightarrow> string" where
  "match_level_name LEVEL_LGA = ''LGA''"
| "match_level_name LEVEL_STATE = ''STATE''"
| "match_level_name LEVEL_COUNTRY = ''COUNTRY''"
| "match_level_name LEVEL_NONE = ''NONE''"

primrec match_source_name :: "match_source \<Rightarrow> string" where
  "match_source_name JURISDICTION_ZONE = ''JURISDICTION_ZONE''"
| "match_source_name LEGACY_ORGANIZATION_LOCALITY = ''LEGACY_ORGANIZATION_LOCALITY''"
| "match_source_name SOURCE_NONE = ''NONE''"

definition jstrings :: "string list \<Rightarrow> json" where
  "jstrings xs = JArr (map JStr xs)"

definition jcount :: "'a list \<Rightarrow> json" where
  "jcount xs = jint (int (length xs))"

definition legacy_fallback_json :: "legacy_fallback \<Rightarrow> json" where
  "legacy_fallback_json f = JObj
     [(''active'', JBool (lf_active f)), (''country'', jopt JStr (lf_country f)), (''state'', jopt JStr (lf_state f)),
      (''lga'', jopt JStr (lf_lga f)), (''address'', jopt JStr (lf_address f))]"

definition readiness_json :: "candidate \<Rightarrow> json" where
  "readiness_json c =
     (let evidence = cd_evidence c; jurisdiction = cd_jurisdiction c in JObj
       [(''organizationMembers'', jint (int (cd_memberCount c))),
        (''acceptedProviders'', jcount (cd_acceptedProviders c)),
        (''activeProviders'', jcount (cd_activeProviders c)),
        (''providersWithExplicitCapabilityMetadata'', jcount (ce_capabilityProviders evidence)),
        (''providersWithInheritedProfileCategories'', jcount (ce_inheritedProviders evidence)),
        (''verifiedCapabilities'', jstrings (ce_explicitCapabilities evidence)),
        (''maintenanceServicesEnabled'', JBool (cd_serviceModuleReady c)),
        (''responsibilityCategoryConfigured'', JBool (cd_categoryMatched c)),
        (''providerDispatchCapacityAvailable'', JBool (cd_activeProviders c \<noteq> [])),
        (''jurisdictionConfigured'', JBool (jm_configured jurisdiction)),
        (''jurisdictionSource'', JStr (match_source_name (jm_source jurisdiction))),
        (''jurisdictionLevel'', JStr (match_level_name (jm_level jurisdiction))),
        (''comparableLocationAvailable'', JBool (jm_comparableLocationAvailable jurisdiction)),
        (''legacyJurisdictionFallback'', legacy_fallback_json (jm_legacyFallback jurisdiction)),
        (''mandateCategories'', jstrings (ce_mandateCategories evidence))])"

section \<open>Eligibility as conditions\<close>

text \<open>What an eligible organization is, without the reasons.\<close>

definition operational :: "organization \<Rightarrow> bool" where
  "operational organization \<longleftrightarrow>
     o_status organization = O_ACTIVE \<and>
     maintenanceModuleEnabled (o_enabledModules organization) \<and>
     o_billingStatus organization \<notin> {B_SUSPENDED, B_CANCELLED} \<and>
     (truthy (o_contactEmail organization) \<or> truthy (o_contactPhone organization))"

definition covers_category :: "category_evidence \<Rightarrow> bool" where
  "covers_category evidence \<longleftrightarrow>
     (ce_inheritedCategories evidence \<noteq> [] \<or> ce_mandateCategories evidence \<noteq> [] \<or> ce_explicit evidence) \<and>
     (ce_inheritedMatch evidence \<or> ce_mandateMatch evidence \<or> ce_capabilityMatch evidence)"

lemma matched_configured:
  "jm_matched (evaluateRoutingJurisdiction env org zones rep) \<Longrightarrow>
   jm_configured (evaluateRoutingJurisdiction env org zones rep) \<and>
   jm_comparableLocationAvailable (evaluateRoutingJurisdiction env org zones rep)"
  by (auto simp: evaluateRoutingJurisdiction_def zones_match_def Let_def split: option.splits if_splits)

lemma candidate_fields [simp]:
  "cd_organization (serializeOrganizationCandidate env profile category report) = op_organization profile"
  "cd_evidence (serializeOrganizationCandidate env profile category report) = category_evidence_of env profile category"
  "cd_jurisdiction (serializeOrganizationCandidate env profile category report) =
     evaluateRoutingJurisdiction env (op_organization profile) (map zone_of (op_zones profile)) report"
  "cd_reasons (serializeOrganizationCandidate env profile category report) =
     rejection_reasons (op_organization profile) category (category_evidence_of env profile category)
       (evaluateRoutingJurisdiction env (op_organization profile) (map zone_of (op_zones profile)) report)"
  by (simp_all add: serializeOrganizationCandidate_def Let_def)

lemma reason_if_Nil [simp]: "reason_if c reason = [] \<longleftrightarrow> \<not> c"
  and set_reason_if [simp]: "set (reason_if c reason) = (if c then {reason} else {})"
  by (simp_all add: reason_if_def)

lemma eligible_conditions:
  "cd_eligible (serializeOrganizationCandidate env profile category report) \<longleftrightarrow>
     operational (op_organization profile) \<and>
     covers_category (category_evidence_of env profile category) \<and>
     \<not> ce_excluded (category_evidence_of env profile category) \<and>
     jm_matched (evaluateRoutingJurisdiction env (op_organization profile) (map zone_of (op_zones profile)) report)"
proof -
  let ?j = "evaluateRoutingJurisdiction env (op_organization profile) (map zone_of (op_zones profile)) report"
  have "cd_eligible (serializeOrganizationCandidate env profile category report) \<longleftrightarrow>
      rejection_reasons (op_organization profile) category (category_evidence_of env profile category) ?j = []"
    by (simp add: serializeOrganizationCandidate_def Let_def)
  then show ?thesis
    using matched_configured[of env "op_organization profile" "map zone_of (op_zones profile)" report]
    by (auto simp: rejection_reasons_def operational_def covers_category_def)
qed

end
