(* ===== verification/Geo_Trust.thy ===== *)
theory Geo_Trust imports Schema begin

text \<open>
  The validation of the location sent with a new report (\<open>report/services/geo-trust.service.ts\<close>):
  \<open>normalizeReportLocation\<close>, that is \<open>normalize\<close> without a reference point and without image metadata.
  The distance computations, which need trigonometry, belong to the other callers.
\<close>

datatype geo_source =
    DEVICE_GPS
  | BROWSER_GEOLOCATION
  | USER_SELECTED_MAP
  | EXIF
  | LEGACY
  | UNAVAILABLE

datatype capture_method =
    DEVICE_SENSOR
  | BROWSER_API
  | MAP_SELECTION
  | PHOTO_EXIF
  | LEGACY_IMPORT
  | NOT_PROVIDED

datatype permission_state = GRANTED | DENIED | PROMPT | PS_UNAVAILABLE | PS_UNKNOWN

datatype validation_outcome = VALID | INSUFFICIENT_LOCATION_DATA | INVALID_METADATA

datatype trust_outcome =
    CONSISTENT
  | REVIEW_RECOMMENDED
  | TRUST_INSUFFICIENT_LOCATION_DATA
  | TRUST_INVALID_METADATA
  | LEGACY_UNASSESSED

text \<open>The limits a service instance reads from its environment.\<close>

record geo_limits =
  maxAccuracyMeters :: rat
  warningDistanceMeters :: rat
  staleCaptureMinutes :: rat

record geo_input =
  gi_latitude :: "rat option"
  gi_longitude :: "rat option"
  gi_accuracyMeters :: "rat option"
  gi_capturedAt :: "string option"
  gi_source :: "string option"
  gi_permissionState :: "string option"

record geo_metadata =
  gm_latitude :: "rat option"
  gm_longitude :: "rat option"
  gm_accuracyMeters :: "rat option"
  gm_capturedAt :: "int option"
  gm_receivedAt :: int
  gm_source :: geo_source
  gm_captureMethod :: capture_method
  gm_permissionState :: permission_state
  gm_validationOutcome :: validation_outcome
  gm_trustOutcome :: trust_outcome
  gm_warnings :: "string list"
  gm_validationReasons :: "string list"
  gm_schemaVersion :: int

primrec geo_source_name :: "geo_source \<Rightarrow> string" where
  "geo_source_name DEVICE_GPS = ''DEVICE_GPS''"
| "geo_source_name BROWSER_GEOLOCATION = ''BROWSER_GEOLOCATION''"
| "geo_source_name USER_SELECTED_MAP = ''USER_SELECTED_MAP''"
| "geo_source_name EXIF = ''EXIF''"
| "geo_source_name LEGACY = ''LEGACY''"
| "geo_source_name UNAVAILABLE = ''UNAVAILABLE''"

primrec permission_state_name :: "permission_state \<Rightarrow> string" where
  "permission_state_name GRANTED = ''GRANTED''"
| "permission_state_name DENIED = ''DENIED''"
| "permission_state_name PROMPT = ''PROMPT''"
| "permission_state_name PS_UNAVAILABLE = ''UNAVAILABLE''"
| "permission_state_name PS_UNKNOWN = ''UNKNOWN''"

primrec validation_outcome_name :: "validation_outcome \<Rightarrow> string" where
  "validation_outcome_name VALID = ''VALID''"
| "validation_outcome_name INSUFFICIENT_LOCATION_DATA = ''INSUFFICIENT_LOCATION_DATA''"
| "validation_outcome_name INVALID_METADATA = ''INVALID_METADATA''"

primrec trust_outcome_name :: "trust_outcome \<Rightarrow> string" where
  "trust_outcome_name CONSISTENT = ''CONSISTENT''"
| "trust_outcome_name REVIEW_RECOMMENDED = ''REVIEW_RECOMMENDED''"
| "trust_outcome_name TRUST_INSUFFICIENT_LOCATION_DATA = ''INSUFFICIENT_LOCATION_DATA''"
| "trust_outcome_name TRUST_INVALID_METADATA = ''INVALID_METADATA''"
| "trust_outcome_name LEGACY_UNASSESSED = ''LEGACY_UNASSESSED''"

definition GEO_SOURCES :: "geo_source list" where
  "GEO_SOURCES = [DEVICE_GPS, BROWSER_GEOLOCATION, USER_SELECTED_MAP, EXIF, LEGACY, UNAVAILABLE]"

definition PERMISSION_STATES :: "permission_state list" where
  "PERMISSION_STATES = [GRANTED, DENIED, PROMPT, PS_UNAVAILABLE, PS_UNKNOWN]"

text \<open>The checks throw with a code; a missing value passes as missing.\<close>

definition coordinate :: "rat option \<Rightarrow> rat \<Rightarrow> rat \<Rightarrow> ('s, rat option) svc" where
  "coordinate v lo hi =
     (case v of None \<Rightarrow> ret None
      | Some x \<Rightarrow> sq (throw_if (x < lo \<or> hi < x) (BadRequest ''INVALID_GEO_METADATA'')) (ret (Some x)))"

definition accuracy :: "rat option \<Rightarrow> ('s, rat option) svc" where
  "accuracy v =
     (case v of None \<Rightarrow> ret None
      | Some x \<Rightarrow> sq (throw_if (x < 0) (BadRequest ''INVALID_GEO_ACCURACY'')) (ret (Some x)))"

definition geo_date :: "env \<Rightarrow> string option \<Rightarrow> ('s, int option) svc" where
  "geo_date env v =
     (case nonempty v of None \<Rightarrow> ret None
      | Some text \<Rightarrow> bnd (require (BadRequest ''INVALID_GEO_METADATA'') (parseDate env text)) (\<lambda>d. ret (Some d)))"

definition geo_source_of :: "string option \<Rightarrow> bool \<Rightarrow> geo_source" where
  "geo_source_of v hasCoordinates =
     (case find (\<lambda>x. v = Some (geo_source_name x)) GEO_SOURCES of
        Some x \<Rightarrow> x
      | None \<Rightarrow> if hasCoordinates then DEVICE_GPS else UNAVAILABLE)"

primrec captureMethod :: "geo_source \<Rightarrow> capture_method" where
  "captureMethod BROWSER_GEOLOCATION = BROWSER_API"
| "captureMethod USER_SELECTED_MAP = MAP_SELECTION"
| "captureMethod EXIF = PHOTO_EXIF"
| "captureMethod LEGACY = LEGACY_IMPORT"
| "captureMethod DEVICE_GPS = DEVICE_SENSOR"
| "captureMethod UNAVAILABLE = NOT_PROVIDED"

definition permissionState :: "string option \<Rightarrow> permission_state" where
  "permissionState v =
     (case find (\<lambda>x. v = Some (permission_state_name x)) PERMISSION_STATES of Some x \<Rightarrow> x | None \<Rightarrow> PS_UNKNOWN)"

definition geo_result ::
    "geo_limits \<Rightarrow> env \<Rightarrow> geo_input \<Rightarrow> rat option \<Rightarrow> rat option \<Rightarrow> rat option \<Rightarrow> int option \<Rightarrow> geo_metadata" where
  "geo_result limits env input latitude longitude accuracyMeters capturedAt =
     (let located = (latitude \<noteq> None \<and> longitude \<noteq> None);
          permission = permissionState (gi_permissionState input);
          source = geo_source_of (gi_source input) located;
          warnings =
            (case accuracyMeters of Some a \<Rightarrow> if warningDistanceMeters limits < a then [''LOW_LOCATION_ACCURACY''] else []
             | None \<Rightarrow> []) @
            (case capturedAt of
               Some c \<Rightarrow> if staleCaptureMinutes limits < of_int \<bar>now env - c\<bar> / 60000
                         then [''CAPTURE_TIME_DISTANT_FROM_UPLOAD''] else []
             | None \<Rightarrow> [])
      in \<lparr> gm_latitude = latitude, gm_longitude = longitude, gm_accuracyMeters = accuracyMeters,
           gm_capturedAt = capturedAt, gm_receivedAt = now env, gm_source = source,
           gm_captureMethod = captureMethod source, gm_permissionState = permission,
           gm_validationOutcome = (if located then VALID else INSUFFICIENT_LOCATION_DATA),
           gm_trustOutcome =
             (if source = LEGACY then LEGACY_UNASSESSED
              else if located then (if warnings \<noteq> [] then REVIEW_RECOMMENDED else CONSISTENT)
              else TRUST_INSUFFICIENT_LOCATION_DATA),
           gm_warnings = warnings,
           gm_validationReasons =
             (if located then []
              else [if permission = DENIED then ''LOCATION_PERMISSION_DENIED'' else ''COORDINATES_NOT_SUPPLIED'']),
           gm_schemaVersion = 1 \<rparr>)"

definition normalizeReportLocation :: "geo_limits \<Rightarrow> env \<Rightarrow> geo_input \<Rightarrow> ('s, geo_metadata) svc" where
  "normalizeReportLocation limits env input =
     bnd (coordinate (gi_latitude input) (- 90) 90) (\<lambda>latitude.
     bnd (coordinate (gi_longitude input) (- 180) 180) (\<lambda>longitude.
     sq (throw_if ((latitude \<noteq> None) \<noteq> (longitude \<noteq> None)) (BadRequest ''INVALID_GEO_METADATA''))
    (bnd (accuracy (gi_accuracyMeters input)) (\<lambda>accuracyMeters.
     sq (throw_if (case accuracyMeters of Some a \<Rightarrow> maxAccuracyMeters limits < a | None \<Rightarrow> False)
           (BadRequest ''INVALID_GEO_ACCURACY''))
    (bnd (geo_date env (gi_capturedAt input)) (\<lambda>capturedAt.
     ret (geo_result limits env input latitude longitude accuracyMeters capturedAt)))))))"

section \<open>Accepted locations\<close>

text \<open>The inputs that pass: coordinates in range and given together, a bounded accuracy, a readable date.\<close>

definition geo_acceptable :: "geo_limits \<Rightarrow> env \<Rightarrow> geo_input \<Rightarrow> bool" where
  "geo_acceptable limits env input \<longleftrightarrow>
     (case (gi_latitude input, gi_longitude input) of
        (None, None) \<Rightarrow> True
      | (Some lat, Some lon) \<Rightarrow> - 90 \<le> lat \<and> lat \<le> 90 \<and> - 180 \<le> lon \<and> lon \<le> 180
      | _ \<Rightarrow> False) \<and>
     (case gi_accuracyMeters input of None \<Rightarrow> True | Some a \<Rightarrow> 0 \<le> a \<and> a \<le> maxAccuracyMeters limits) \<and>
     (case nonempty (gi_capturedAt input) of None \<Rightarrow> True | Some text \<Rightarrow> parseDate env text \<noteq> None)"

definition geo_metadata_of :: "geo_limits \<Rightarrow> env \<Rightarrow> geo_input \<Rightarrow> geo_metadata" where
  "geo_metadata_of limits env input =
     geo_result limits env input (gi_latitude input) (gi_longitude input) (gi_accuracyMeters input)
       (Option.bind (nonempty (gi_capturedAt input)) (parseDate env))"

lemmas geo_checks = coordinate_def accuracy_def geo_date_def

lemma normalizeReportLocation_run:
  "normalizeReportLocation limits env input s =
     (if geo_acceptable limits env input then (Inr (geo_metadata_of limits env input), s)
      else (fst (normalizeReportLocation limits env input s), s))"
  by (auto simp: normalizeReportLocation_def geo_checks geo_acceptable_def geo_metadata_of_def svc_run
      split: option.split)

lemma normalizeReportLocation_rejects:
  "\<not> geo_acceptable limits env input \<Longrightarrow> \<exists>e. normalizeReportLocation limits env input s = (Inl (BadRequest e), s)"
  by (auto simp: normalizeReportLocation_def geo_checks geo_acceptable_def svc_run split: option.split option.split_asm)

lemma normalizeReportLocation_Inr:
  "normalizeReportLocation limits env input s = (Inr m, t) \<longleftrightarrow>
     geo_acceptable limits env input \<and> m = geo_metadata_of limits env input \<and> t = s"
  using normalizeReportLocation_run[of limits env input s] normalizeReportLocation_rejects[of limits env input s]
  by (auto split: if_splits)

end
