(* ===== verification/Calendar.thy ===== *)
theory Calendar imports Prelude begin

text \<open>
  Calendar arithmetic of the runtime's \<open>Date\<close>: the day number of a civil date, its inverse
  \<open>civil_date\<close>, and the lengths of months. Days are counted from the first of January 1970 and years,
  inside the arithmetic, from the first of March, so that the leap day is the last day of a year.
\<close>

section \<open>Day numbers\<close>

definition days_of_civil :: "int \<Rightarrow> int \<Rightarrow> int \<Rightarrow> int" where
  "days_of_civil y m d =
     (let y' = (if m \<le> 2 then y - 1 else y); mp = (if m > 2 then m - 3 else m + 9) in
      365 * y' + y' div 4 - y' div 100 + y' div 400 + (153 * mp + 2) div 5 + d - 1 - 719468)"

definition next_month :: "int \<Rightarrow> int \<Rightarrow> int \<times> int" where
  "next_month y m = (if m = 12 then (y + 1, 1) else (y, m + 1))"

section \<open>Years of an era\<close>

definition year_start :: "int \<Rightarrow> int" where
  "year_start y = 365 * y + y div 4 - y div 100"

definition year_of_day :: "int \<Rightarrow> int" where
  "year_of_day n = (n - n div 1460 + n div 36524 - n div 146096) div 365"

definition year_checked :: "int \<Rightarrow> bool" where
  "year_checked y \<longleftrightarrow> year_of_day (year_start y) = y \<and> year_of_day (year_start (y + 1) - 1) = y"

lemma years_checked:
  "list_all year_checked (upto 0 99)" "list_all year_checked (upto 100 199)"
  "list_all year_checked (upto 200 299)" "list_all year_checked (upto 300 399)"
  by (simp_all add: year_checked_def year_of_day_def year_start_def upto_rec1)

lemma list_all_uptoD: "list_all P (upto a b) \<Longrightarrow> a \<le> y \<Longrightarrow> y \<le> b \<Longrightarrow> P y"
  by (simp add: list_all_iff)

lemma year_checked: "0 \<le> y \<Longrightarrow> y \<le> 399 \<Longrightarrow> year_checked y"
  using list_all_uptoD[OF years_checked(1), of y] list_all_uptoD[OF years_checked(2), of y]
    list_all_uptoD[OF years_checked(3), of y] list_all_uptoD[OF years_checked(4), of y] by linarith

lemma minus_div_mono:
  fixes a b k :: int
  assumes "a \<le> b" and "0 < k"
  shows "a - a div k \<le> b - b div k"
proof -
  have "(b - a) * 1 \<le> (b - a) * k"
    using assms by (intro mult_left_mono) simp_all
  then have "b div k \<le> (a + (b - a) * k) div k"
    using assms(2) by (intro zdiv_mono1) simp_all
  also have "\<dots> = a div k + (b - a)"
    using assms(2) by simp
  finally show ?thesis by simp
qed

lemma year_of_day_mono:
  assumes "0 \<le> a" and "a \<le> b" and "b \<le> 146096"
  shows "year_of_day a \<le> year_of_day b"
proof -
  have quarter: "x div 146096 = (if x = 146096 then 1 else 0)" if "0 \<le> x" "x \<le> 146096" for x :: int
    using that by (auto simp: div_pos_pos_trivial)
  have "a div 36524 - a div 146096 \<le> b div 36524 - b div 146096"
    using assms zdiv_mono1[of a b 36524] zdiv_mono1[of a 146095 36524]
    by (simp add: quarter del: zdiv_numeral_Bit0)
  moreover have "a - a div 1460 \<le> b - b div 1460"
    using assms by (intro minus_div_mono) simp_all
  ultimately show ?thesis
    unfolding year_of_day_def by (intro zdiv_mono1) simp_all
qed

lemma year_length: "year_start (y + 1) - year_start y \<le> 366"
  using minus_div_mono[of y "y + 1" 4] zdiv_mono1[of y "y + 1" 100] by (simp add: year_start_def)

lemma day_in_year:
  fixes n :: int
  shows "0 \<le> n \<Longrightarrow> n < year_start (int m) \<Longrightarrow> \<exists>k<m. year_start (int k) \<le> n \<and> n < year_start (int k + 1)"
proof (induction m)
  case (Suc m)
  then show ?case by (cases "n < year_start (int m)") (auto simp: less_Suc_eq add.commute)
qed (simp add: year_start_def)

lemma year_of_era:
  assumes "0 \<le> n" and "n \<le> 146096"
  shows "0 \<le> year_of_day n \<and> year_of_day n < 400 \<and> year_start (year_of_day n) \<le> n \<and>
    n \<le> year_start (year_of_day n) + 365"
proof (cases "n = 146096")
  case True
  then show ?thesis by (simp add: year_of_day_def year_start_def)
next
  case False
  then have "n < year_start (int 400)" using assms by (simp add: year_start_def)
  from day_in_year[OF assms(1) this] obtain k where k: "k < 400" "year_start (int k) \<le> n" "n < year_start (int k + 1)"
    by blast
  have checked: "year_of_day (year_start (int k)) = int k \<and> year_of_day (year_start (int k + 1) - 1) = int k"
    using year_checked[of "int k"] k(1) by (simp add: year_checked_def)
  have "0 \<le> year_start (int k)"
    using k(1) unfolding year_start_def by linarith
  moreover have "year_start (int k + 1) - 1 \<le> 146096"
  proof (cases "k = 399")
    case False
    then have "(int k + 1) div 4 \<le> 399 div 4" using k(1) by (intro zdiv_mono1) simp_all
    then show ?thesis using k(1) False by (simp add: year_start_def)
  qed (simp add: year_start_def)
  ultimately have "year_of_day n = int k"
    using checked k assms year_of_day_mono[of "year_start (int k)" n] year_of_day_mono[of n "year_start (int k + 1) - 1"]
    by simp
  with k year_length[of "int k"] show ?thesis by simp
qed

section \<open>The round trip\<close>

lemma era_years:
  fixes y :: int
  assumes "0 \<le> y" and "y < 400"
  shows "(y + era * 400) div 4 = y div 4 + era * 100" "(y + era * 400) div 100 = y div 100 + era * 4"
    "(y + era * 400) div 400 = era"
  using assms div_mult_self1[of 4 y "era * 100"] div_mult_self1[of 100 y "era * 4"] div_mult_self1[of 400 y era]
  by simp_all

lemma mp_days:
  fixes doy :: int
  assumes "0 \<le> doy" and "doy \<le> 365"
  defines "mp \<equiv> (5 * doy + 2) div 153"
  shows "(153 * mp + 2) div 5 \<le> doy \<and> doy - (153 * mp + 2) div 5 \<le> 30"
proof -
  have bounds: "153 * mp \<le> 5 * doy + 2" "5 * doy + 2 < 153 * mp + 153"
    using mult_div_mod_eq[of 153 "5 * doy + 2"] pos_mod_bound[of 153 "5 * doy + 2"] pos_mod_sign[of 153 "5 * doy + 2"]
    unfolding mp_def by linarith+
  then have "mp \<in> set (upto 0 11)" using assms(1,2) by simp
  then show ?thesis using bounds by (auto simp: upto_rec1)
qed

lemma days_of_civil_date:
  "(case civil_date n of (y, m, d) \<Rightarrow> days_of_civil y m d) = n"
  "case civil_date n of (y, m, d) \<Rightarrow> 1 \<le> m \<and> m \<le> 12 \<and> 1 \<le> d \<and> d \<le> 31"
proof -
  define z where "z = n + 719468"
  define era where "era = z div 146097"
  define doe where "doe = z - era * 146097"
  define yoe where "yoe = year_of_day doe"
  define doy where "doy = doe - (365 * yoe + yoe div 4 - yoe div 100)"
  define mp where "mp = (5 * doy + 2) div 153"
  have doe: "0 \<le> doe" "doe \<le> 146096"
    using pos_mod_bound[of 146097 z] by (simp_all add: doe_def era_def minus_div_mult_eq_mod)
  have yoe: "0 \<le> yoe" "yoe < 400" "year_start yoe \<le> doe" "doe \<le> year_start yoe + 365"
    using year_of_era[OF doe] by (simp_all add: yoe_def)
  have doy: "0 \<le> doy" "doy \<le> 365"
    using yoe(3,4) by (simp_all add: doy_def year_start_def)
  then have mp: "0 \<le> mp" "mp \<le> 11"
    using zdiv_mono1[of "5 * doy + 2" 1827 153] by (simp_all add: mp_def pos_imp_zdiv_nonneg_iff)
  have civil: "civil_date n = (yoe + era * 400 + (if mp < 10 then 0 else 1),
      if mp < 10 then mp + 3 else mp - 9, doy - (153 * mp + 2) div 5 + 1)"
    using mp unfolding civil_date_def Let_def z_def[symmetric] era_def[symmetric] doe_def[symmetric]
      year_of_day_def[symmetric] yoe_def[symmetric] doy_def[symmetric] mp_def[symmetric] by simp
  have days: "doy - (153 * mp + 2) div 5 + 1 \<ge> 1" "doy - (153 * mp + 2) div 5 + 1 \<le> 31"
    using mp_days[of doy] doy by (simp_all add: mp_def)
  show "case civil_date n of (y, m, d) \<Rightarrow> 1 \<le> m \<and> m \<le> 12 \<and> 1 \<le> d \<and> d \<le> 31"
    unfolding civil using mp days by auto
  have n: "n = doe + era * 146097 - 719468" by (simp add: doe_def z_def)
  show "(case civil_date n of (y, m, d) \<Rightarrow> days_of_civil y m d) = n"
    unfolding civil using mp yoe(1,2) n by (auto simp: days_of_civil_def Let_def era_years doy_def)
qed

section \<open>The length of a month\<close>

lemma leap_days:
  fixes y :: int
  shows "0 \<le> (y div 4 - (y - 1) div 4) - (y div 100 - (y - 1) div 100) + (y div 400 - (y - 1) div 400)"
    and "(y div 4 - (y - 1) div 4) - (y div 100 - (y - 1) div 100) + (y div 400 - (y - 1) div 400) \<le> 1"
proof -
  have centuries: "x div 100 = x div 4 div 25" and eras: "x div 400 = x div 100 div 4" for x :: int
    by (simp_all add: zdiv_zmult2_eq[symmetric])
  have "(y - 1) div 4 - (y - 1) div 100 \<le> y div 4 - y div 100"
    unfolding centuries by (intro minus_div_mono zdiv_mono1) simp_all
  moreover have "(y - 1) div 100 - (y - 1) div 400 \<le> y div 100 - y div 400"
    unfolding eras by (intro minus_div_mono zdiv_mono1) simp_all
  moreover have "(y - 1) div 400 \<le> y div 400" "(y - 1) div 100 \<le> y div 100"
    by (intro zdiv_mono1; simp)+
  moreover have "(y - 1) - (y - 1) div 4 \<le> y - y div 4" "(y - 1) - (y - 1) div 400 \<le> y - y div 400"
    by (intro minus_div_mono; simp)+
  ultimately show "0 \<le> (y div 4 - (y - 1) div 4) - (y div 100 - (y - 1) div 100) + (y div 400 - (y - 1) div 400)"
    and "(y div 4 - (y - 1) div 4) - (y div 100 - (y - 1) div 100) + (y div 400 - (y - 1) div 400) \<le> 1"
    by linarith+
qed

text \<open>
  The days before a year are kept folded in the comparisons below: linear arithmetic would split every
  quotient in them.
\<close>

definition days_before_year :: "int \<Rightarrow> int" where
  "days_before_year y = 365 * y + y div 4 - y div 100 + y div 400"

lemma days_of_civil_folded:
  "days_of_civil y m d =
     days_before_year (if m \<le> 2 then y - 1 else y) + (153 * (if m > 2 then m - 3 else m + 9) + 2) div 5 + d - 1 - 719468"
  unfolding days_of_civil_def Let_def days_before_year_def by (rule refl)

lemma days_before_year_step:
  "365 \<le> days_before_year y - days_before_year (y - 1)" "days_before_year y - days_before_year (y - 1) \<le> 366"
proof -
  have same: "365 * y + a - b + c - (365 * (y - 1) + a' - b' + c') = 365 + ((a - a') - (b - b') + (c - c'))"
    for a a' b b' c c' :: int
    by simp
  show "365 \<le> days_before_year y - days_before_year (y - 1)" "days_before_year y - days_before_year (y - 1) \<le> 366"
    unfolding days_before_year_def same
    using add_left_mono[OF leap_days(1)[of y], of 365] add_left_mono[OF leap_days(2)[of y], of 365]
    by (simp_all only: add_0_right)
qed

lemma month_length:
  fixes y m :: int
  assumes "1 \<le> m" and "m \<le> 12"
  shows "28 \<le> days_of_civil (fst (next_month y m)) (snd (next_month y m)) 1 - days_of_civil y m 1 \<and>
    days_of_civil (fst (next_month y m)) (snd (next_month y m)) 1 - days_of_civil y m 1 \<le> 31"
proof -
  have "m \<in> set (upto 1 12)" using assms by simp
  then have "m \<in> {1, 2, 3, 4, 5, 6, 7, 8, 9, 10, 11, 12}"
    by (auto simp: upto_rec1)
  then show ?thesis
    using days_before_year_step[of y] by (auto simp: next_month_def days_of_civil_folded)
qed

lemma year_length_civil:
  fixes y m :: int
  shows "365 \<le> days_of_civil (y + 1) m 1 - days_of_civil y m 1 \<and> days_of_civil (y + 1) m 1 - days_of_civil y m 1 \<le> 366"
  using days_before_year_step[of y] days_before_year_step[of "y + 1"] by (simp add: days_of_civil_folded)

end
