(* ===== verification/Organization_Intake.thy ===== *)
theory Organization_Intake imports Completion_Handlers begin

text \<open>
  An organization accepts or rejects the responsibility for a report routed to it
  (\<open>report/report.service.ts\<close>, lines 1528-1739, 6205-6216, 6251-6263 and 6421-6452). A report is
  routed when the platform assigned it, or when the recorded resolution of the responsible
  organization matched it (the legacy case of a report that stayed in triage).
\<close>

definition ORGANIZATION_ACCEPTED_SOURCE :: string where
  "ORGANIZATION_ACCEPTED_SOURCE = ''Organization accepted report''"

definition ORGANIZATION_REJECTED_SOURCE :: string where
  "ORGANIZATION_REJECTED_SOURCE = ''Organization rejected report''"

section \<open>The recorded resolution\<close>

text \<open>Rows with the same timestamp stand in the order in which they were written.\<close>

definition reportActivityTimeline :: "string \<Rightarrow> db \<Rightarrow> report_activity list" where
  "reportActivityTimeline reportId s =
     sort_key a_createdAt (filter (\<lambda>a. a_reportId a = reportId) (reportActivities s))"

definition recordObject :: "json option \<Rightarrow> (string \<times> json) list option" where
  "recordObject value = (case value of Some (JObj kvs) \<Rightarrow> Some kvs | _ \<Rightarrow> None)"

text \<open>A resolution is an object (an array is one too, without named fields).\<close>

definition resolution_of :: "report_activity \<Rightarrow> json option" where
  "resolution_of item =
     (case Option.bind (recordObject (a_metadata item)) (\<lambda>kvs. map_of kvs ''responsibilityResolution'') of
        Some (JObj kvs) \<Rightarrow> Some (JObj kvs)
      | Some (JArr xs) \<Rightarrow> Some (JArr xs)
      | _ \<Rightarrow> None)"

primrec first_resolution :: "report_activity list \<Rightarrow> json option" where
  "first_resolution [] = None"
| "first_resolution (item # items) =
     (case resolution_of item of Some r \<Rightarrow> Some r | None \<Rightarrow> first_resolution items)"

definition responsibilityResolutionFromActivity :: "report_activity list \<Rightarrow> json option" where
  "responsibilityResolutionFromActivity timeline = first_resolution (rev timeline)"

text \<open>A field of the resolution; \<open>null\<close> counts as missing.\<close>

definition resolution_field :: "json option \<Rightarrow> string \<Rightarrow> json option" where
  "resolution_field resolution key =
     (case Option.bind (recordObject resolution) (\<lambda>kvs. map_of kvs key) of Some JNull \<Rightarrow> None | x \<Rightarrow> x)"

definition isLegacyMatchedResponsibilityReview :: "report \<Rightarrow> string \<Rightarrow> json option \<Rightarrow> bool" where
  "isLegacyMatchedResponsibilityReview report organizationId resolution \<longleftrightarrow>
     organizationId \<noteq> [] \<and>
     r_status report = TRIAGE \<and>
     r_organizationId report = organizationId \<and>
     \<not> truthy (r_assignedOrganizationId report) \<and>
     \<not> truthy (r_assignedProviderId report) \<and>
     r_lastAssignmentOutcome report \<noteq> Some REJECTED \<and>
     r_organizationAssignmentSource report \<noteq> Some ORGANIZATION_REJECTED_SOURCE \<and>
     resolution_field resolution ''outcome'' = Some (JStr ''MATCHED'') \<and>
     coalesce (resolution_field resolution ''proposedOrganizationId'')
       (resolution_field resolution ''selectedCandidateId'') = Some (JStr organizationId)"

definition legacy_match :: "string \<Rightarrow> report \<Rightarrow> db \<Rightarrow> bool" where
  "legacy_match organizationId report s =
     isLegacyMatchedResponsibilityReview report organizationId
       (responsibilityResolutionFromActivity (reportActivityTimeline (r_id report) s))"

text \<open>The report, and whether it is the legacy case; it must be routed to the organization.\<close>

definition intake_report :: "string \<Rightarrow> string \<Rightarrow> (report \<times> bool) handler" where
  "intake_report organizationId reportId =
     bnd (gets (find_report reportId)) (\<lambda>found.
     bnd (require (NotFound ''Report not found'') found) (\<lambda>report.
     bnd (gets (legacy_match organizationId report)) (\<lambda>legacyMatchedReview.
     sq (throw_if (r_assignedOrganizationId report \<noteq> Some organizationId \<and> \<not> legacyMatchedReview)
           (Forbidden ''Report is not routed to your organization''))
        (ret (report, legacyMatchedReview)))))"

definition intake_operator :: "string \<Rightarrow> jwt_user \<Rightarrow> string handler" where
  "intake_operator message user =
     bnd (requireUserOrganizationId user) (\<lambda>organizationId.
     sq (throw_if (\<not> isAdmin user \<and> \<not> isDispatch user) (Forbidden message)) (ret organizationId))"

definition assertAwaitingDecision :: "report \<Rightarrow> bool \<Rightarrow> (db, unit) svc" where
  "assertAwaitingDecision report legacyMatchedReview =
     throw_if (r_status report \<noteq> ORG_REVIEW \<and> \<not> legacyMatchedReview)
       (Conflict ''Report is not awaiting organization decision'')"

section \<open>Accepting\<close>

definition accept_data :: "env \<Rightarrow> string \<Rightarrow> report \<Rightarrow> report" where
  "accept_data env organizationId report =
     report\<lparr> r_status := PENDING,
       r_organizationId := organizationId,
       r_assignedOrganizationId := Some (or_else (r_assignedOrganizationId report) organizationId),
       r_organizationAssignedAt := Some (or_else (r_organizationAssignedAt report) (now env)),
       r_organizationAssignmentSource := Some ORGANIZATION_ACCEPTED_SOURCE,
       r_lastAssignmentOutcome := None,
       r_lastAssignmentReason := None,
       r_lastAssignmentAt := Some (now env) \<rparr>"

definition jstatus :: "report_status \<Rightarrow> json" where
  "jstatus v = JStr (report_status_name v)"

definition accept_effects ::
    "env \<Rightarrow> string \<Rightarrow> string option \<Rightarrow> string \<Rightarrow> jwt_user \<Rightarrow> report \<Rightarrow> report \<Rightarrow> unit handler" where
  "accept_effects env reportId dto_note organizationId user report updated =
     sq (audit ''Organization Report Accepted'' user
           [(''targetType'', JStr ''Report''), (''targetId'', JStr reportId),
            (''organizationId'', JStr organizationId), (''previousStatus'', jstatus (r_status report)),
            (''note'', jopt JStr (map_option trim dto_note))])
    (sq (recordReportActivity env reportId ''ORGANIZATION_ACCEPTED_REPORT'' user
           \<lparr> ad_organizationId = organizationId, ad_fromStatus = Some (r_status report),
             ad_toStatus = Some (r_status updated), ad_providerId = None, ad_reason = None,
             ad_note = trimmed dto_note,
             ad_metadata = Some (JObj
               [(''assignedOrganizationId'', jopt JStr (r_assignedOrganizationId updated)),
                (''previousOrganizationId'', JStr (r_organizationId report)),
                (''authoritativeOrganizationId'', JStr organizationId),
                (''previousStatus'', jstatus (r_status report))]) \<rparr>)
    (sq (createNotification (notice (r_citizenId updated) reportId ''organization_report_accepted''
           ''Report accepted for dispatch''
           (quoted (r_title updated) @ '' was accepted by the responsible organization and is awaiting provider assignment.'')))
        (notifyOrganizationOperators organizationId reportId ''organization_report_accepted'' ''Report accepted''
           (quoted (r_title updated) @ '' is now in your dispatch queue.''))))"

definition acceptOrganizationReport :: "env \<Rightarrow> string \<Rightarrow> string option \<Rightarrow> jwt_user \<Rightarrow> report handler" where
  "acceptOrganizationReport env reportId dto_note user =
     bnd (intake_operator ''Only organization operators can accept reports'' user) (\<lambda>organizationId.
     bnd (intake_report organizationId reportId) (\<lambda>(report, legacyMatchedReview).
       if r_status report = PENDING \<and> r_organizationId report = organizationId then ret report
       else sq (assertAwaitingDecision report legacyMatchedReview)
        (bnd (update_report reportId (accept_data env organizationId)) (\<lambda>updated.
         sq (accept_effects env reportId dto_note organizationId user report updated) (ret updated)))))"

section \<open>Rejecting\<close>

definition reject_data :: "env \<Rightarrow> string \<Rightarrow> report \<Rightarrow> report" where
  "reject_data env reason report =
     report\<lparr> r_status := TRIAGE,
       r_assignedOrganizationId := None,
       r_organizationAssignedById := None,
       r_organizationAssignedAt := None,
       r_organizationAssignmentSource := Some ORGANIZATION_REJECTED_SOURCE,
       r_assignedProviderId := None,
       r_assignedAt := None,
       r_assignmentDeadlineAt := None,
       r_lastAssignmentOutcome := Some REJECTED,
       r_lastAssignmentReason := Some reason,
       r_lastAssignmentAt := Some (now env) \<rparr>"

definition suggested_organization :: "string option \<Rightarrow> organization option handler" where
  "suggested_organization suggestedOrganizationId =
     (case trimmed suggestedOrganizationId of
        None \<Rightarrow> ret None
      | Some i \<Rightarrow> bnd (gets (find_organization i)) (\<lambda>found.
          bnd (require (BadRequest ''Suggested organization was not found'') found) (\<lambda>organization. ret (Some organization))))"

definition reject_effects ::
    "env \<Rightarrow> string \<Rightarrow> string \<Rightarrow> organization option \<Rightarrow> string \<Rightarrow> jwt_user \<Rightarrow> report \<Rightarrow> report \<Rightarrow> unit handler" where
  "reject_effects env reportId reason suggested organizationId user report updated =
     sq (audit ''Organization Report Rejected'' user
           [(''targetType'', JStr ''Report''), (''targetId'', JStr reportId),
            (''organizationId'', JStr organizationId), (''previousStatus'', jstatus (r_status report)),
            (''reason'', JStr reason), (''suggestedOrganizationId'', jopt (JStr \<circ> o_id) suggested)])
    (sq (recordReportActivity env reportId ''ORGANIZATION_REJECTED_REPORT'' user
           \<lparr> ad_organizationId = organizationId, ad_fromStatus = Some (r_status report),
             ad_toStatus = Some (r_status updated), ad_providerId = None, ad_reason = Some reason, ad_note = None,
             ad_metadata = Some (JObj
               [(''returnedToSuperAdminTriage'', JBool True),
                (''previousAssignedOrganizationId'', JStr organizationId),
                (''suggestedOrganizationId'', jopt (JStr \<circ> o_id) suggested),
                (''suggestedOrganizationName'', jopt (JStr \<circ> o_name) suggested)]) \<rparr>)
    (sq (notifyPlatformResolvers reportId ''organization_report_rejected'' ''Organization rejected responsibility''
           (quoted (r_title updated) @ '' was returned to platform responsibility resolution.''))
        (createNotification (notice (r_citizenId updated) reportId ''organization_report_rejected''
           ''Report returned for platform review''
           (quoted (r_title updated) @ '' was returned for SecureZone platform triage.'')))))"

record intake_reject_dto =
  ir_reason :: "string option"
  ir_suggestedOrganizationId :: "string option"

definition rejectOrganizationReport :: "env \<Rightarrow> string \<Rightarrow> intake_reject_dto \<Rightarrow> jwt_user \<Rightarrow> report handler" where
  "rejectOrganizationReport env reportId dto user =
     bnd (intake_operator ''Only organization operators can reject reports'' user) (\<lambda>organizationId.
     bnd (require (BadRequest ''Rejection reason is required'') (trimmed (ir_reason dto))) (\<lambda>reason.
     bnd (intake_report organizationId reportId) (\<lambda>(report, legacyMatchedReview).
       if r_status report = TRIAGE \<and> \<not> legacyMatchedReview then ret report
       else sq (assertAwaitingDecision report legacyMatchedReview)
        (bnd (suggested_organization (ir_suggestedOrganizationId dto)) (\<lambda>suggested.
         bnd (update_report reportId (reject_data env reason)) (\<lambda>updated.
         sq (reject_effects env reportId reason suggested organizationId user report updated) (ret updated)))))))"

section \<open>Outcomes\<close>

lemma reads_intake [reads_rules]:
  "reads (intake_operator m user)" "reads (intake_report o' i)" "reads (assertAwaitingDecision r l)"
  "reads (suggested_organization x)"
  unfolding intake_operator_def intake_report_def assertAwaitingDecision_def suggested_organization_def
  by (intro reads_rules)+

lemma quiet_intake_effects [quiet_rules]:
  "quiet business (accept_effects env i nt o' user r u)"
  "quiet business (reject_effects env i reason x o' user r u)"
  unfolding accept_effects_def reject_effects_def by (intro quiet_rules)+

text \<open>The organization of the operator, to which the report is routed.\<close>

definition routed_to :: "string \<Rightarrow> db \<Rightarrow> report \<Rightarrow> bool" where
  "routed_to organizationId s r \<longleftrightarrow>
     r_assignedOrganizationId r = Some organizationId \<and> r_status r = ORG_REVIEW \<or> legacy_match organizationId r s"

definition intake_user :: "jwt_user \<Rightarrow> string \<Rightarrow> bool" where
  "intake_user user organizationId \<longleftrightarrow> j_role user \<in> {ORG_ADMIN, DISPATCH_OFFICER} \<and>
     j_organizationId user = Some organizationId \<and> organizationId \<noteq> []"

lemma intake_operator_InrD: "intake_operator m user s = (Inr x, t) \<Longrightarrow> intake_user user x"
  unfolding intake_operator_def intake_user_def role_defs
  by (elim bnd_InrE) (auto dest!: requireUserOrganizationId_InrD split: if_splits)

lemma intake_report_InrD:
  "intake_report organizationId i s = (Inr (r, l), t) \<Longrightarrow> find_report i s = Some r \<and> l = legacy_match organizationId r s \<and>
     (r_assignedOrganizationId r = Some organizationId \<or> l)"
  by (auto simp: intake_report_def svc_run split: option.splits if_splits)

lemma assertAwaitingDecision_Inr [simp]:
  "assertAwaitingDecision r l s = (Inr x, t) \<longleftrightarrow> (r_status r = ORG_REVIEW \<or> l) \<and> t = s"
  by (auto simp: assertAwaitingDecision_def svc_run)

definition accept_accepts :: "jwt_user \<Rightarrow> db \<Rightarrow> report \<Rightarrow> bool" where
  "accept_accepts user s r \<longleftrightarrow> (\<exists>x. intake_user user x \<and> routed_to x s r)"

lemma accept_outcome:
  assumes "acceptOrganizationReport env i nt user s = (res, t)"
  shows "(\<exists>e. res = Inl e \<and> business t = business s) \<or>
      (\<exists>r. res = Inr r \<and> find_report i s = Some r \<and> business t = business s) \<or>
      (\<exists>r. find_report i s = Some r \<and> accept_accepts user s r \<and> res = Inr (accept_data env (the (j_organizationId user)) r) \<and>
           business t = put_report i (accept_data env (the (j_organizationId user))) (business s))"
  using assms[unfolded acceptOrganizationReport_def] reads_intake(1)
proof (cases rule: reads_bndE)
  case (ok x)
  have x: "intake_user user x" "j_organizationId user = Some x"
    using intake_operator_InrD[OF ok(1)] by (simp_all add: intake_user_def)
  from ok(2) reads_intake(2) show ?thesis
  proof (cases rule: reads_bnd_pairE)
    case inner: (ok r l)
    note r = intake_report_InrD[OF inner(1)]
    show ?thesis
    proof (cases "r_status r = PENDING \<and> r_organizationId r = x")
      case False
      from inner(2) False have "sq (assertAwaitingDecision r l) (bnd (update_report i (accept_data env x)) (\<lambda>updated.
         sq (accept_effects env i nt x user r updated) (ret updated))) s = (res, t)" by simp
      then show ?thesis using reads_intake(3)
      proof (cases rule: reads_bndE)
        case go: (ok y)
        have "accept_accepts user s r"
          using go(1) r x(1) by (auto simp: accept_accepts_def routed_to_def)
        then show ?thesis
          using update_effects_run[OF go(2) _ quiet_intake_effects(1)] r x(2) by auto
      qed simp
    qed (use inner(2) r in auto)
  qed simp
qed simp

interpretation accept: report_handler
  "\<lambda>(env, i, nt, user). acceptOrganizationReport env i nt user"
  "\<lambda>_. True"
  "\<lambda>(env, i, nt, user). i"
  "\<lambda>(env, i, nt, user) s r. accept_accepts user s r"
  "\<lambda>(env, i, nt, user). accept_data env (the (j_organizationId user))"
  by unfold_locales (auto simp: accept_data_def dest!: accept_outcome)

definition reject_accepts :: "intake_reject_dto \<Rightarrow> jwt_user \<Rightarrow> db \<Rightarrow> report \<Rightarrow> bool" where
  "reject_accepts dto user s r \<longleftrightarrow> trimmed (ir_reason dto) \<noteq> None \<and> (\<exists>x. intake_user user x \<and> routed_to x s r)"

lemma reject_outcome:
  assumes "rejectOrganizationReport env i dto user s = (res, t)"
  shows "(\<exists>e. res = Inl e \<and> business t = business s) \<or>
      (\<exists>r. res = Inr r \<and> find_report i s = Some r \<and> business t = business s) \<or>
      (\<exists>r. find_report i s = Some r \<and> reject_accepts dto user s r \<and>
           res = Inr (reject_data env (the (trimmed (ir_reason dto))) r) \<and>
           business t = put_report i (reject_data env (the (trimmed (ir_reason dto)))) (business s))"
  using assms[unfolded rejectOrganizationReport_def] reads_intake(1)
proof (cases rule: reads_bndE)
  case (ok x)
  have x: "intake_user user x"
    using intake_operator_InrD[OF ok(1)] by simp
  from ok(2) reads_basic(5) show ?thesis
  proof (cases rule: reads_bndE)
    case reason: (ok reason)
    have reason': "trimmed (ir_reason dto) = Some reason"
      using reason(1) by (simp split: option.splits)
    from reason(2) reads_intake(2) show ?thesis
    proof (cases rule: reads_bnd_pairE)
      case inner: (ok r l)
      note r = intake_report_InrD[OF inner(1)]
      show ?thesis
      proof (cases "r_status r = TRIAGE \<and> \<not> l")
        case False
        from inner(2) False have "sq (assertAwaitingDecision r l)
          (bnd (suggested_organization (ir_suggestedOrganizationId dto)) (\<lambda>suggested.
           bnd (update_report i (reject_data env reason)) (\<lambda>updated.
           sq (reject_effects env i reason suggested x user r updated) (ret updated)))) s = (res, t)" by simp
        then show ?thesis using reads_intake(3)
        proof (cases rule: reads_bndE)
          case go: (ok y)
          have "reject_accepts dto user s r"
            using go(1) r x reason' by (auto simp: reject_accepts_def routed_to_def)
          from go(2) reads_intake(4) show ?thesis
          proof (cases rule: reads_bndE)
            case (ok suggested)
            then show ?thesis
              using update_effects_run[OF ok(2) _ quiet_intake_effects(2)] r reason' \<open>reject_accepts dto user s r\<close> by auto
          qed simp
        qed simp
      qed (use inner(2) r in auto)
    qed simp
  qed simp
qed simp

interpretation reject: report_handler
  "\<lambda>(env, i, dto, user). rejectOrganizationReport env i dto user"
  "\<lambda>_. True"
  "\<lambda>(env, i, dto, user). i"
  "\<lambda>(env, i, dto, user) s r. reject_accepts dto user s r"
  "\<lambda>(env, i, dto, user). reject_data env (the (trimmed (ir_reason dto)))"
  by unfold_locales (auto simp: reject_data_def dest!: reject_outcome)

end
