(* ===== verification/Routing.thy ===== *)
theory Routing
  imports Candidates Geo_Trust Calendar Organization_Intake
    "HOL-Library.Product_Lexorder" "HOL-Library.List_Lexorder" "HOL-Library.Char_ord"
begin

text \<open>
  From a new report to the organization responsible for it (\<open>report/report.service.ts\<close>, lines 499-672,
  1320-1526, 5452-5814 and 5889-5930): the resolution of the responsible organization, the creation of a
  report, and the manual assignment of an organization. The result carries the diagnostics of the resolution
  that the activity timeline keeps and the intake reads again.
\<close>

section \<open>The resolution of the responsible organization\<close>

record create_dto =
  cr_title :: string
  cr_description :: string
  cr_category :: string
  cr_location :: string
  cr_locationName :: "string option"
  cr_locationAddress :: "string option"
  cr_locationLandmark :: "string option"
  cr_latitude :: "rat option"
  cr_longitude :: "rat option"
  cr_locationAccuracy :: "rat option"
  cr_locationCapturedAt :: "string option"
  cr_locationSource :: "string option"
  cr_locationPermissionState :: "string option"

datatype outcome =
    HIGH_CONFIDENCE
  | AMBIGUOUS
  | UNMATCHED
  | RESTRICTED_OR_CONFLICTED
  | NO_LOCATION
  | NO_CATEGORY

primrec outcome_name :: "outcome \<Rightarrow> string" where
  "outcome_name HIGH_CONFIDENCE = ''HIGH_CONFIDENCE''"
| "outcome_name AMBIGUOUS = ''AMBIGUOUS''"
| "outcome_name UNMATCHED = ''UNMATCHED''"
| "outcome_name RESTRICTED_OR_CONFLICTED = ''RESTRICTED_OR_CONFLICTED''"
| "outcome_name NO_LOCATION = ''NO_LOCATION''"
| "outcome_name NO_CATEGORY = ''NO_CATEGORY''"

primrec canonicalResponsibilityOutcome :: "outcome \<Rightarrow> string" where
  "canonicalResponsibilityOutcome HIGH_CONFIDENCE = ''MATCHED''"
| "canonicalResponsibilityOutcome RESTRICTED_OR_CONFLICTED = ''RESTRICTED''"
| "canonicalResponsibilityOutcome NO_CATEGORY = ''NO_CATEGORY''"
| "canonicalResponsibilityOutcome NO_LOCATION = ''NO_LOCATION''"
| "canonicalResponsibilityOutcome AMBIGUOUS = ''AMBIGUOUS''"
| "canonicalResponsibilityOutcome UNMATCHED = ''UNMATCHED''"

primrec responsibilityReasonCode :: "outcome \<Rightarrow> candidate list \<Rightarrow> string" where
  "responsibilityReasonCode HIGH_CONFIDENCE candidates = ''MATCHED_DETERMINISTIC''"
| "responsibilityReasonCode AMBIGUOUS candidates = ''MULTIPLE_ELIGIBLE_CANDIDATES''"
| "responsibilityReasonCode RESTRICTED_OR_CONFLICTED candidates = ''EXPLICIT_EXCLUSION_OR_RESTRICTION''"
| "responsibilityReasonCode NO_LOCATION candidates = ''NO_LOCATION_PROVIDED''"
| "responsibilityReasonCode NO_CATEGORY candidates = ''NO_CATEGORY_PROVIDED''"
| "responsibilityReasonCode UNMATCHED candidates =
     (if candidates = [] then ''NO_ORGANIZATION_CANDIDATES'' else ''NO_ELIGIBLE_ORGANIZATION'')"

definition create_location :: "create_dto \<Rightarrow> location_input" where
  "create_location dto = \<lparr> li_location = Some (cr_location dto), li_locationName = cr_locationName dto,
     li_locationAddress = cr_locationAddress dto, li_locationLandmark = cr_locationLandmark dto,
     li_description = Some (cr_description dto), li_title = Some (cr_title dto) \<rparr>"

definition report_location :: "report \<Rightarrow> location_input" where
  "report_location r = \<lparr> li_location = Some (r_location r), li_locationName = r_locationName r,
     li_locationAddress = r_locationAddress r, li_locationLandmark = r_locationLandmark r,
     li_description = Some (r_description r), li_title = Some (r_title r) \<rparr>"

definition hasResponsibilityLocation :: "create_dto \<Rightarrow> bool" where
  "hasResponsibilityLocation dto = (routingLocationText (create_location dto) \<noteq> [])"

text \<open>The profile of an organization: its active links, its active providers, its active zones by age.\<close>

definition organization_zones :: "organization \<Rightarrow> 's tables_scheme \<Rightarrow> jurisdiction_zone list" where
  "organization_zones organization s =
     sort_key (\<lambda>z. (jz_createdAt z, jz_id z))
       (filter (\<lambda>z. jz_active z \<and> jz_organizationId z = Some (o_id organization)) (jurisdictionZones s))"

definition profile_of :: "'s tables_scheme \<Rightarrow> organization \<Rightarrow> organization_profile" where
  "profile_of s organization =
     \<lparr> op_organization = organization,
       op_linked = List.map_filter (\<lambda>l. find_user (l_providerId l) s)
         (filter (\<lambda>l. l_active l \<and> l_organizationId l = o_id organization) (providerOrganizations s)),
       op_users = filter (\<lambda>u. u_organizationId u = Some (o_id organization) \<and> u_role u = PROVIDER \<and>
                               u_accountStatus u = ACTIVE) (users s),
       op_zones = organization_zones organization s \<rparr>"

definition active_organizations :: "'s tables_scheme \<Rightarrow> organization list" where
  "active_organizations s =
     sort_key (\<lambda>x. (o_createdAt x, o_id x)) (filter (\<lambda>x. o_status x = O_ACTIVE) (organizations s))"

definition potential_assets :: "string \<Rightarrow> string \<Rightarrow> 's tables_scheme \<Rightarrow> potential_asset list" where
  "potential_assets category location s =
     take 25 (filter (\<lambda>a. as_category a = Some category \<and>
       (as_organizationId a \<noteq> None \<or>
        location \<noteq> [] \<and> (case as_locationText a of Some text \<Rightarrow> contains text location | None \<Rightarrow> False)))
       (potentialAssets s))"

definition present :: "string option list \<Rightarrow> string list" where
  "present xs = List.map_filter nonempty xs"

definition assetResponsibilityOrganizationIds :: "create_dto \<Rightarrow> 's tables_scheme \<Rightarrow> string list" where
  "assetResponsibilityOrganizationIds dto s =
     (let category = trim (cr_category dto); location = trim (cr_location dto) in
      if category = [] then []
      else let assets = potential_assets category location s;
               assetIds = map as_id assets;
               on_asset = (\<lambda>x. case x of Some i \<Rightarrow> i \<in> set assetIds | None \<Rightarrow> False);
               held = present (map as_organizationId
                 (filter (\<lambda>a. as_ownershipStatus a \<noteq> OW_DISPUTED \<and> as_ownershipStatus a \<noteq> OW_UNKNOWN) assets));
               owners = (if assetIds = [] then [] else take 25 (filter (\<lambda>x. on_asset (ao_potentialAssetId x) \<and>
                 ao_organizationId x \<noteq> None \<and> ao_ownershipStatus x \<in> {OW_VERIFIED, OW_PENDING})
                 (assetCandidateOwners s)));
               claims = (if assetIds = [] then [] else take 25 (filter (\<lambda>x. on_asset (ac_potentialAssetId x) \<and>
                 ac_claimantOrganizationId x \<noteq> None \<and> ac_status x = CL_APPROVED) (assetClaims s)))
           in uniq (held @ present (map ao_organizationId owners) @ present (map ac_claimantOrganizationId claims)))"

definition normalizedCategoryAliases :: "env \<Rightarrow> string \<Rightarrow> string list" where
  "normalizedCategoryAliases env normalizedCategory =
     collectStringList env (normalizedCategory #
       filter (\<lambda>alias. categoriesCompatible alias normalizedCategory) (map fst CATEGORY_CAPABILITY_ALIASES))"

definition locationSourceFor :: "create_dto \<Rightarrow> string" where
  "locationSourceFor dto =
     (let hasCoordinates = (cr_latitude dto \<noteq> None \<and> cr_longitude dto \<noteq> None);
          hasText = (trimmed (cr_locationName dto) \<noteq> None \<or> trimmed (cr_locationAddress dto) \<noteq> None \<or>
                     trimmed (cr_locationLandmark dto) \<noteq> None)
      in if hasCoordinates \<and> hasText then ''COMBINED''
         else if hasCoordinates then ''DEVICE_GPS''
         else if hasText then ''TYPED_LOCATION''
         else ''UNKNOWN'')"

primrec organization_status_name :: "organization_status \<Rightarrow> string" where
  "organization_status_name O_ACTIVE = ''ACTIVE''"
| "organization_status_name O_SUSPENDED = ''SUSPENDED''"
| "organization_status_name O_ARCHIVED = ''ARCHIVED''"

text \<open>
  An organization row has neither an identity verification status nor a verification status, so the
  verification state is always \<open>null\<close>.
\<close>

definition candidate_json :: "candidate \<Rightarrow> json" where
  "candidate_json c = JObj
     [(''organizationId'', JStr (o_id (cd_organization c))),
      (''organizationName'', JStr (o_name (cd_organization c))),
      (''organizationStatus'', JStr (organization_status_name (o_status (cd_organization c)))),
      (''organizationVerificationState'', JNull),
      (''mandateCategories'', jstrings (ce_mandateCategories (cd_evidence c))),
      (''providerCategories'', jstrings (ce_inheritedCategories (cd_evidence c))),
      (''coverageAreas'', jstrings (cd_coverageAreas c)),
      (''jurisdictionSource'', JStr (match_source_name (jm_source (cd_jurisdiction c)))),
      (''jurisdictionLevel'', JStr (match_level_name (jm_level (cd_jurisdiction c)))),
      (''eligible'', JBool (cd_eligible c)),
      (''confidence'', JStr (cd_confidence c)),
      (''reasons'', jstrings (cd_reasons c))]"

definition responsibilityResolutionDiagnostics ::
    "env \<Rightarrow> create_dto \<Rightarrow> outcome \<Rightarrow> organization option \<Rightarrow> candidate list \<Rightarrow> candidate list \<Rightarrow> json" where
  "responsibilityResolutionDiagnostics env dto result organization candidates0 allCandidates =
     (let category = trim (cr_category dto);
          normalizedCategory = (if category = [] then None else Some (normalizeResponsibilityCategory (cr_category dto)));
          candidates = (if allCandidates \<noteq> [] then allCandidates else candidates0)
      in JObj (
        [(''outcome'', JStr (canonicalResponsibilityOutcome result)),
         (''candidateCount'', jcount candidates),
         (''eligibleCandidateCount'', jcount (filter cd_eligible candidates))] @
        jfield ''proposedOrganizationId'' (JStr \<circ> o_id) organization @
        jfield ''selectedCandidateId'' (JStr \<circ> o_id) organization @
        [(''reasonCode'', JStr (responsibilityReasonCode result candidates)),
         (''evaluatedAt'', JStr (toISOString (now env))),
         (''report'', JObj
           [(''category'', jopt JStr (nonempty (Some category))),
            (''normalizedCategory'', jopt JStr normalizedCategory),
            (''normalizedCategoryAliases'', jstrings (case normalizedCategory of
               None \<Rightarrow> [] | Some c \<Rightarrow> if c = [] then [] else normalizedCategoryAliases env c)),
            (''coordinates'', JObj
              [(''latitude'', jopt JNum (cr_latitude dto)), (''longitude'', jopt JNum (cr_longitude dto))]),
            (''location'', JObj
              [(''text'', jopt JStr (trimmed (Some (cr_location dto)))),
               (''name'', jopt JStr (trimmed (cr_locationName dto))),
               (''address'', jopt JStr (trimmed (cr_locationAddress dto))),
               (''landmark'', jopt JStr (trimmed (cr_locationLandmark dto))),
               (''source'', JStr (or_else (cr_locationSource dto) (locationSourceFor dto)))])]),
         (''candidates'', JArr (map candidate_json candidates))]))"

record resolution =
  rs_outcome :: outcome
  rs_organization :: "organization option"
  rs_candidates :: "candidate list"
  rs_reasons :: "string list"
  rs_matchFactors :: "string list"
  rs_diagnostics :: json

definition responsibilityResolutionResult ::
    "env \<Rightarrow> create_dto \<Rightarrow> outcome \<Rightarrow> organization option \<Rightarrow> candidate list \<Rightarrow> candidate list \<Rightarrow>
     string list \<Rightarrow> string list \<Rightarrow> resolution" where
  "responsibilityResolutionResult env dto result organization candidates allCandidates reasons matchFactors =
     \<lparr> rs_outcome = result, rs_organization = organization, rs_candidates = candidates, rs_reasons = reasons,
       rs_matchFactors = matchFactors,
       rs_diagnostics = responsibilityResolutionDiagnostics env dto result organization candidates allCandidates \<rparr>"

definition EXCLUSION_PHRASE :: string where
  "EXCLUSION_PHRASE = ''explicit responsibility exclusion''"

definition names_exclusion :: "candidate \<Rightarrow> bool" where
  "names_exclusion c = list_ex (\<lambda>reason. contains (toLowerCase reason) EXCLUSION_PHRASE) (cd_reasons c)"

definition evaluated_candidates :: "env \<Rightarrow> create_dto \<Rightarrow> 's tables_scheme \<Rightarrow> candidate list" where
  "evaluated_candidates env dto s =
     map (\<lambda>x. serializeOrganizationCandidate env (profile_of s x) (cr_category dto) (create_location dto))
       (active_organizations s)"

definition decisive_candidates :: "create_dto \<Rightarrow> candidate list \<Rightarrow> 's tables_scheme \<Rightarrow> candidate list \<times> bool" where
  "decisive_candidates dto evaluated s =
     (let assetOrganizationIds = assetResponsibilityOrganizationIds dto s;
          assetBacked = filter (\<lambda>c. o_id (cd_organization c) \<in> set assetOrganizationIds) evaluated
      in if assetBacked \<noteq> [] then (assetBacked, True) else (evaluated, False))"

definition resolveReportResponsibility :: "env \<Rightarrow> create_dto \<Rightarrow> 's tables_scheme \<Rightarrow> resolution" where
  "resolveReportResponsibility env dto s =
     (if trim (cr_category dto) = []
      then responsibilityResolutionResult env dto NO_CATEGORY None [] [] [''Report category is missing''] []
      else if \<not> hasResponsibilityLocation dto
      then responsibilityResolutionResult env dto NO_LOCATION None [] [] [''Report location is missing''] []
      else
        let allCandidates = evaluated_candidates env dto s;
            restricted = filter names_exclusion allCandidates
        in if restricted \<noteq> []
           then responsibilityResolutionResult env dto RESTRICTED_OR_CONFLICTED None restricted allCandidates
                  (concat (map cd_reasons restricted)) [''explicit_exclusion_or_restriction'']
           else case decisive_candidates dto (filter cd_eligible allCandidates) s of (decisive, backed) \<Rightarrow>
             let matchFactors = reason_if backed ''asset_or_ownership_responsibility'' @
                   [''organization_active_status'', ''operational_availability'', ''organization_jurisdiction'',
                    ''mandate_or_supported_category'']
             in case decisive of
                  [] \<Rightarrow> responsibilityResolutionResult env dto UNMATCHED None [] allCandidates
                     [''No active operational organization matched deterministically''] matchFactors
                | [c] \<Rightarrow> responsibilityResolutionResult env dto HIGH_CONFIDENCE (Some (cd_organization c)) [c]
                     allCandidates (cd_reasons c) matchFactors
                | _ \<Rightarrow> responsibilityResolutionResult env dto AMBIGUOUS None decisive allCandidates
                     [''Multiple responsible organizations qualified''] matchFactors)"

section \<open>Creating a report\<close>

text \<open>The first instant of the current month in coordinated universal time.\<close>

definition month_start :: "int \<Rightarrow> int" where
  "month_start t = (case civil_date (t div 86400000) of (y, m, d) \<Rightarrow> days_of_civil y m 1 * 86400000)"

definition reports_since :: "string \<Rightarrow> int \<Rightarrow> 's tables_scheme \<Rightarrow> nat" where
  "reports_since organizationId start s =
     length (filter (\<lambda>r. r_organizationId r = organizationId \<and> start \<le> r_createdAt r) (reports s))"

definition enforceMonthlyReportQuota :: "env \<Rightarrow> string \<Rightarrow> unit handler" where
  "enforceMonthlyReportQuota env organizationId =
     bnd (gets (find_organization organizationId)) (\<lambda>organization.
       case Option.bind organization o_allowedReportsPerMonth of
         None \<Rightarrow> ret ()
       | Some allowed \<Rightarrow>
           bnd (gets (reports_since organizationId (month_start (now env)))) (\<lambda>reportsThisMonth.
             throw_if (allowed \<le> int reportsThisMonth) (Conflict ''REPORT_QUOTA_EXCEEDED'')))"

definition recordGeoAudit :: "string \<Rightarrow> string \<Rightarrow> jwt_user \<Rightarrow> string \<Rightarrow> geo_metadata \<Rightarrow> unit handler" where
  "recordGeoAudit reportId action user organizationId geo =
     audit action user
       [(''targetType'', JStr ''Report''), (''targetId'', JStr reportId), (''organizationId'', JStr organizationId),
        (''outcome'', JStr (validation_outcome_name (gm_validationOutcome geo))),
        (''trustOutcome'', JStr (trust_outcome_name (gm_trustOutcome geo))),
        (''reasons'', jstrings (gm_validationReasons geo))]"

definition AUTOMATIC_ORGANIZATION_REVIEW_SOURCE :: string where
  "AUTOMATIC_ORGANIZATION_REVIEW_SOURCE = ''Automatic intake match''"

definition PLATFORM_RESPONSIBILITY_RESOLUTION_SOURCE :: string where
  "PLATFORM_RESPONSIBILITY_RESOLUTION_SOURCE = ''Platform responsibility resolution''"

definition resolver_actor :: jwt_user where
  "resolver_actor = \<lparr> j_id = None, j_userId = None, j_sub = None, j_email = None, j_phone = None,
     j_fullName = Some ''SecureZone Responsibility Resolver'', j_role = SUPER_ADMIN, j_organizationId = None \<rparr>"

definition create_geo_input :: "create_dto \<Rightarrow> geo_input" where
  "create_geo_input dto = \<lparr> gi_latitude = cr_latitude dto, gi_longitude = cr_longitude dto,
     gi_accuracyMeters = cr_locationAccuracy dto, gi_capturedAt = cr_locationCapturedAt dto,
     gi_source = cr_locationSource dto, gi_permissionState = cr_locationPermissionState dto \<rparr>"

text \<open>The organization a resolution routes to; an empty id would not count.\<close>

definition routed_organization :: "resolution \<Rightarrow> string option" where
  "routed_organization route = (if rs_outcome route = HIGH_CONFIDENCE then map_option o_id (rs_organization route) else None)"

definition intake_source :: "resolution \<Rightarrow> string" where
  "intake_source route =
     (if truthy (routed_organization route) then AUTOMATIC_ORGANIZATION_REVIEW_SOURCE
      else if rs_outcome route = AMBIGUOUS then ''Ambiguous responsibility match''
      else if rs_outcome route = RESTRICTED_OR_CONFLICTED then ''Restricted or conflicted responsibility match''
      else PLATFORM_RESPONSIBILITY_RESOLUTION_SOURCE)"

definition new_report :: "env \<Rightarrow> create_dto \<Rightarrow> geo_metadata \<Rightarrow> resolution \<Rightarrow> string \<Rightarrow> string \<Rightarrow> report" where
  "new_report env dto geo route userId organizationId =
     (let routed = truthy (routed_organization route) in
      \<lparr> r_id = freshId env 0,
        r_title = cr_title dto,
        r_description = cr_description dto,
        r_category = cr_category dto,
        r_location = cr_location dto,
        r_locationName = cr_locationName dto,
        r_locationAddress = cr_locationAddress dto,
        r_locationLandmark = cr_locationLandmark dto,
        r_latitude = cr_latitude dto,
        r_longitude = cr_longitude dto,
        r_locationAccuracy = cr_locationAccuracy dto,
        r_locationCapturedAt = gm_capturedAt geo,
        r_locationReceivedAt = Some (gm_receivedAt geo),
        r_locationSource = Some (or_else (cr_locationSource dto) (geo_source_name (gm_source geo))),
        r_locationPermissionState = Some (permission_state_name (gm_permissionState geo)),
        r_locationValidationOutcome = Some (validation_outcome_name (gm_validationOutcome geo)),
        r_locationSchemaVersion = gm_schemaVersion geo,
        r_status = (if routed then ORG_REVIEW else TRIAGE),
        r_organizationId = organizationId,
        r_citizenId = userId,
        r_assignedProviderId = None,
        r_assignedOrganizationId = routed_organization route,
        r_organizationAssignedById = None,
        r_organizationAssignedAt = (if routed then Some (now env) else None),
        r_organizationAssignmentSource = Some (intake_source route),
        r_assignedAt = None,
        r_assignmentDeadlineAt = None,
        r_lastAssignmentOutcome = None,
        r_lastAssignmentReason = None,
        r_lastAssignmentAt = None,
        r_lastAssignmentProviderId = None,
        r_completionNote = None,
        r_completionImageUrl = None,
        r_completionImagePath = None,
        r_completionLatitude = None,
        r_completionLongitude = None,
        r_completionAccuracy = None,
        r_completionLocationCapturedAt = None,
        r_completionLocationSource = None,
        r_evidenceImageUrl = None,
        r_evidenceImagePath = None,
        r_completedByProviderAt = None,
        r_citizenRating = None,
        r_citizenFeedback = None,
        r_completionRejectionReason = None,
        r_completionPolicy = None,
        r_completionPolicySource = None,
        r_completionReviewState = None,
        r_completionReviewDeadlineAt = None,
        r_completionReviewProcessedAt = None,
        r_completionFallbackRule = None,
        r_completionFinalActorType = None,
        r_completionGovernanceHoldReason = None,
        r_citizenCompletionDecision = None,
        r_citizenCompletionDecidedAt = None,
        r_organizationCompletionDecision = None,
        r_organizationCompletionDecidedAt = None,
        r_organizationCompletionDecidedById = None,
        r_organizationCompletionReason = None,
        r_completionFinalizedAt = None,
        r_completionFinalizedById = None,
        r_completionFinalizedByRole = None,
        r_completionClosureReason = None,
        r_completionDisputeReason = None,
        r_isDemo = False,
        r_createdAt = now env \<rparr>)"

definition insert_report :: "report \<Rightarrow> report handler" where
  "insert_report r =
     bnd (gets (find_report (r_id r))) (\<lambda>existing.
       sq (throw_if (existing \<noteq> None) (PrismaError ''P2002''))
      (sq (modify (reports_update (\<lambda>rows. rows @ [r]))) (ret r)))"

definition plain_details :: "report \<Rightarrow> (string \<times> json) list \<Rightarrow> activity_details" where
  "plain_details report metadata =
     \<lparr> ad_organizationId = r_organizationId report, ad_fromStatus = None, ad_toStatus = Some (r_status report),
       ad_providerId = None, ad_reason = None, ad_note = None, ad_metadata = Some (JObj metadata) \<rparr>"

definition resolution_metadata :: "resolution \<Rightarrow> (string \<times> json) list" where
  "resolution_metadata route =
     [(''responsibilityOutcome'', JStr (outcome_name (rs_outcome route))),
      (''responsibilityReasons'', jstrings (rs_reasons route)),
      (''responsibilityMatchFactors'', jstrings (rs_matchFactors route)),
      (''responsibilityResolution'', rs_diagnostics route)]"

definition create_audits :: "jwt_user \<Rightarrow> geo_metadata \<Rightarrow> resolution \<Rightarrow> report \<Rightarrow> unit handler" where
  "create_audits user geo route report =
     sq (recordGeoAudit (r_id report) ''REPORT_GEO_METADATA_RECEIVED'' user (r_organizationId report) geo)
        (audit ''Report Created'' user
          [(''targetType'', JStr ''Report''), (''targetId'', JStr (r_id report)),
           (''organizationId'', JStr (r_organizationId report)), (''category'', JStr (r_category report)),
           (''responsibilityOutcome'', JStr (outcome_name (rs_outcome route))),
           (''responsibilityCandidateOrganizationId'', jopt JStr (r_assignedOrganizationId report)),
           (''responsibilityReasons'', jstrings (rs_reasons route)),
           (''responsibilityMatchFactors'', jstrings (rs_matchFactors route)),
           (''responsibilityResolution'', rs_diagnostics route)])"

definition create_activities :: "env \<Rightarrow> jwt_user \<Rightarrow> resolution \<Rightarrow> report \<Rightarrow> unit handler" where
  "create_activities env user route report =
     sq (recordReportActivity env (r_id report) ''REPORT_CREATED'' user
           (plain_details report
             ([(''category'', JStr (r_category report)),
               (''assignedOrganizationId'', jopt JStr (r_assignedOrganizationId report)),
               (''routingSource'', jopt JStr (r_organizationAssignmentSource report))] @ resolution_metadata route)))
        (recordReportActivity env (r_id report) ''RESPONSIBILITY_RESOLUTION_ATTEMPTED'' resolver_actor
           (plain_details report
             [(''outcome'', JStr (outcome_name (rs_outcome route))),
              (''candidateOrganizationId'', jopt JStr (r_assignedOrganizationId report)),
              (''candidateOrganizationIds'', jstrings (map (o_id \<circ> cd_organization) (rs_candidates route))),
              (''reasons'', jstrings (rs_reasons route)),
              (''matchFactors'', jstrings (rs_matchFactors route)),
              (''responsibilityResolution'', rs_diagnostics route)]))"

definition create_notices :: "env \<Rightarrow> resolution \<Rightarrow> report \<Rightarrow> unit handler" where
  "create_notices env route report =
     (if truthy (routed_organization route)
      then sq (recordReportActivity env (r_id report) ''RESPONSIBILITY_REVIEW_ENTERED'' resolver_actor
                ((plain_details report
                  [(''assignedOrganizationId'', jopt JStr (r_assignedOrganizationId report)),
                   (''routingSource'', jopt JStr (r_organizationAssignmentSource report)),
                   (''outcome'', JStr (outcome_name (rs_outcome route))),
                   (''responsibilityResolution'', rs_diagnostics route)])\<lparr> ad_fromStatus := Some TRIAGE \<rparr>))
              (notifyOrganizationOperators (or_else (r_assignedOrganizationId report) []) (r_id report)
                ''organization_report_offered'' ''Incoming report for review''
                (quoted (r_title report) @ '' is awaiting your organization intake decision.''))
      else when_do (rs_outcome route \<in> {AMBIGUOUS, UNMATCHED, RESTRICTED_OR_CONFLICTED})
             (notifyPlatformResolvers (r_id report) ''responsibility_resolution_required''
               ''Responsibility resolution required''
               (quoted (r_title report) @ '' requires platform responsibility resolution.'')))"

definition create_effects :: "env \<Rightarrow> jwt_user \<Rightarrow> string \<Rightarrow> geo_metadata \<Rightarrow> resolution \<Rightarrow> report \<Rightarrow> unit handler" where
  "create_effects env user userId geo route report =
     sq (createNotification (notice userId (r_id report) ''acknowledged'' ''Report received''
          (''Your report '' @ quoted (r_title report) @ '' has been received and is under review.'')))
    (sq (create_audits user geo route report)
    (sq (create_activities env user route report)
        (create_notices env route report)))"

definition createReport :: "geo_limits \<Rightarrow> env \<Rightarrow> jwt_user \<Rightarrow> create_dto \<Rightarrow> (report \<times> json) handler" where
  "createReport limits env user dto =
     bnd (getUserId user) (\<lambda>userId.
     bnd (normalizeReportLocation limits env (create_geo_input dto)) (\<lambda>geo.
     sq (throw_if (j_role user \<noteq> CITIZEN) (Forbidden ''Only citizens can create reports''))
    (bnd (require (Forbidden ''Citizen must belong to an organization'') (nonempty (j_organizationId user)))
      (\<lambda>organizationId.
     bnd (gets (resolveReportResponsibility env dto)) (\<lambda>route.
     sq (enforceMonthlyReportQuota env organizationId)
    (bnd (insert_report (new_report env dto geo route userId organizationId)) (\<lambda>report.
     sq (create_effects env user userId geo route report)
        (ret (report, rs_diagnostics route))))))))) "

section \<open>Assigning an organization by hand\<close>

record assign_organization_dto =
  ag_organizationId :: string
  ag_reason :: "string option"
  ag_establishAuthoritativeOwnership :: "bool option"
  ag_overrideReadiness :: "bool option"

definition route_source :: "assign_organization_dto \<Rightarrow> string" where
  "route_source dto =
     (let routeReason = or_else (trimmed (ag_reason dto)) ''Manual organization assignment'' in
      if ag_overrideReadiness dto = Some True then ''Super Admin override: '' @ routeReason else routeReason)"

definition route_data :: "env \<Rightarrow> assign_organization_dto \<Rightarrow> string \<Rightarrow> report \<Rightarrow> report" where
  "route_data env dto actorId report =
     (let establish = (ag_establishAuthoritativeOwnership dto = Some True) in
      report\<lparr> r_organizationId := (if establish then ag_organizationId dto else r_organizationId report),
        r_assignedOrganizationId := Some (ag_organizationId dto),
        r_organizationAssignedById := Some actorId,
        r_organizationAssignedAt := Some (now env),
        r_organizationAssignmentSource := Some (route_source dto),
        r_status := (if establish then PENDING else ORG_REVIEW),
        r_lastAssignmentOutcome := None,
        r_lastAssignmentReason := None,
        r_lastAssignmentAt := Some (now env),
        r_lastAssignmentProviderId := None \<rparr>)"

definition routing_record :: "assign_organization_dto \<Rightarrow> candidate \<Rightarrow> report \<Rightarrow> (string \<times> json) list" where
  "routing_record dto candidate report =
     [(''overrideReadiness'', JBool (ag_overrideReadiness dto = Some True)),
      (''authoritativeOwnershipEstablished'', JBool (ag_establishAuthoritativeOwnership dto = Some True)),
      (''readinessReasons'', jstrings (cd_reasons candidate)),
      (''readinessSummary'', readiness_json candidate)]"

definition route_log ::
    "env \<Rightarrow> assign_organization_dto \<Rightarrow> string \<Rightarrow> jwt_user \<Rightarrow> candidate \<Rightarrow> report \<Rightarrow> report \<Rightarrow> unit handler" where
  "route_log env dto actorId user candidate report routed =
     sq (modify (demoAuditLogs_update (\<lambda>rows. rows @
          [\<lparr> d_action = ''Report Assigned To Organization'', d_actorUserId = actorId,
             d_metadata =
               [(''targetType'', JStr ''Report''), (''targetId'', JStr (r_id report)),
                (''previousOrganizationId'', JStr (r_organizationId report)),
                (''assignedOrganizationId'', JStr (ag_organizationId dto)),
                (''organizationId'', JStr (r_organizationId routed)),
                (''reason'', jopt JStr (trimmed (ag_reason dto)))] @ routing_record dto candidate report \<rparr>])))
        (modify (reportActivities_update (\<lambda>rows. rows @
          [\<lparr> a_reportId = r_id report, a_organizationId = r_organizationId routed, a_actorUserId = Some actorId,
             a_actorRole = j_role user, a_actorName = coalesce (j_fullName user) (j_email user),
             a_action = ''ORGANIZATION_ASSIGNED'', a_fromStatus = Some (r_status report),
             a_toStatus = Some (r_status routed), a_providerId = None, a_reason = trimmed (ag_reason dto),
             a_note = None,
             a_metadata = Some (JObj (
               [(''previousOrganizationId'', JStr (r_organizationId report)),
                (''assignedOrganizationId'', JStr (ag_organizationId dto)),
                (''assignedOrganizationName'', JStr (o_name (cd_organization candidate)))] @
               routing_record dto candidate report)),
             a_createdAt = now env \<rparr>])))"

definition route_notices :: "assign_organization_dto \<Rightarrow> organization \<Rightarrow> report \<Rightarrow> unit handler" where
  "route_notices dto organization updated =
     (let establish = (ag_establishAuthoritativeOwnership dto = Some True) in
      sq (notifyOrganizationOperators (o_id organization) (r_id updated)
            (if establish then ''organization_manual_override'' else ''organization_assignment'')
            (if establish then ''Report ownership assigned by platform'' else ''Report assigned for responsibility review'')
            (if establish
             then quoted (r_title updated) @ '' was assigned to '' @ o_name organization @ '' by platform override.''
             else quoted (r_title updated) @ '' is awaiting your organization's responsibility review.''))
         (createNotification (notice (r_citizenId updated) (r_id updated)
            (if establish then ''organization_manual_override'' else ''organization_responsibility_review'')
            ''Report routing update''
            (if establish
             then quoted (r_title updated) @ '' has been routed to the responsible organization.''
             else quoted (r_title updated) @ '' is being reviewed by a responsible organization.''))))"

text \<open>The checks in the order of the source; the report and the evaluated candidate.\<close>

definition route_checks ::
    "env \<Rightarrow> string \<Rightarrow> assign_organization_dto \<Rightarrow> jwt_user \<Rightarrow> (string \<times> report \<times> candidate) handler" where
  "route_checks env reportId dto user =
     sq (throw_if (\<not> isSuperAdmin user)
           (Forbidden ''Only Super Admin can manually route organization responsibility''))
    (bnd (require (Forbidden ''Actor missing'') (nonempty (actor_id user))) (\<lambda>actorId.
     bnd (gets (find_report reportId)) (\<lambda>found.
     bnd (require (NotFound ''Report not found'') found) (\<lambda>report.
     sq (throw_if (r_status report \<notin> {PENDING, TRIAGE}) (Forbidden ''Report cannot be assigned in its current status''))
    (sq (throw_if (truthy (r_assignedProviderId report)) (Forbidden ''Report already has an assigned provider''))
    (bnd (gets (find_organization (ag_organizationId dto))) (\<lambda>found_organization.
     bnd (require (NotFound ''Organization not found'') found_organization) (\<lambda>organization.
     bnd (gets (\<lambda>s. serializeOrganizationCandidate env (profile_of s organization) (r_category report)
                     (report_location report))) (\<lambda>candidate.
     let override = (ag_overrideReadiness dto = Some True);
         establish = (isSuperAdmin user \<and> ag_establishAuthoritativeOwnership dto = Some True)
     in sq (throw_if (\<not> cd_eligible candidate \<and> \<not> (isSuperAdmin user \<and> (override \<or> establish)))
              (Forbidden ''ORGANIZATION_NOT_READY''))
       (sq (throw_if (isSuperAdmin user \<and> trimmed (ag_reason dto) = None)
              (BadRequest ''Manual routing reason is required''))
       (sq (when_do establish
              (sq (throw_if (o_status organization \<noteq> O_ACTIVE) (Forbidden ''Organization is not active''))
                  (throw_if (\<not> maintenanceModuleEnabled (o_enabledModules organization))
                    (Forbidden ''Maintenance Services is not enabled for this organization.''))))
           (ret (actorId, report, candidate)))))))))))))"

definition assignOrganization :: "env \<Rightarrow> string \<Rightarrow> assign_organization_dto \<Rightarrow> jwt_user \<Rightarrow> report handler" where
  "assignOrganization env reportId dto user =
     bnd (route_checks env reportId dto user) (\<lambda>(actorId, report, candidate).
     bnd (transaction
           (bnd (update_report reportId (route_data env dto actorId)) (\<lambda>routed.
            sq (route_log env dto actorId user candidate report routed) (ret routed)))) (\<lambda>updated.
     sq (route_notices dto (cd_organization candidate) updated) (ret updated)))"

section \<open>Outcomes\<close>

lemma quiet_create_effects [quiet_rules]:
  "quiet business (recordGeoAudit i action user x geo)"
  "quiet business (create_audits user geo route report)"
  "quiet business (create_activities env user route report)"
  "quiet business (create_notices env route report)"
  "quiet business (create_effects env user userId geo route report)"
  unfolding recordGeoAudit_def create_audits_def create_activities_def create_notices_def create_effects_def
  by (intro quiet_rules)+

lemma quiet_route_effects [quiet_rules]:
  "quiet business (route_log env dto actorId user c report routed)"
  "quiet business (route_notices dto organization updated)"
proof -
  show "quiet business (route_log env dto actorId user c report routed)"
    unfolding route_log_def by (intro quiet_rules quiet_modify) (simp_all add: tables.defs)
  show "quiet business (route_notices dto organization updated)"
    unfolding route_notices_def Let_def by (intro quiet_rules)
qed

text \<open>When a new report is accepted, and the report it becomes.\<close>

definition within_quota :: "env \<Rightarrow> string \<Rightarrow> 's tables_scheme \<Rightarrow> bool" where
  "within_quota env organizationId s \<longleftrightarrow>
     (case Option.bind (find_organization organizationId s) o_allowedReportsPerMonth of
        None \<Rightarrow> True
      | Some allowed \<Rightarrow> int (reports_since organizationId (month_start (now env)) s) < allowed)"

definition creatable :: "geo_limits \<Rightarrow> env \<Rightarrow> jwt_user \<Rightarrow> create_dto \<Rightarrow> 's tables_scheme \<Rightarrow> bool" where
  "creatable limits env user dto s \<longleftrightarrow>
     truthy (actor_id user) \<and> j_role user = CITIZEN \<and> truthy (j_organizationId user) \<and>
     geo_acceptable limits env (create_geo_input dto) \<and>
     within_quota env (the (j_organizationId user)) s \<and> find_report (freshId env 0) s = None"

definition created_report :: "geo_limits \<Rightarrow> env \<Rightarrow> jwt_user \<Rightarrow> create_dto \<Rightarrow> 's tables_scheme \<Rightarrow> report" where
  "created_report limits env user dto s =
     new_report env dto (geo_metadata_of limits env (create_geo_input dto)) (resolveReportResponsibility env dto s)
       (the (actor_id user)) (the (j_organizationId user))"

lemma enforceMonthlyReportQuota_run:
  "enforceMonthlyReportQuota env x s =
     (if within_quota env x s then (Inr (), s) else (Inl (Conflict ''REPORT_QUOTA_EXCEEDED''), s))"
  by (auto simp: enforceMonthlyReportQuota_def within_quota_def svc_run split: option.split)

lemma new_report_id [simp]: "r_id (new_report env dto geo route userId x) = freshId env 0"
  by (simp add: new_report_def Let_def)

lemma insert_report_run:
  "insert_report r s =
     (if find_report (r_id r) s = None then (Inr r, s\<lparr>reports := reports s @ [r]\<rparr>) else (Inl (PrismaError ''P2002''), s))"
  by (simp add: insert_report_def svc_run)

lemma truthy_the: "truthy x \<Longrightarrow> nonempty x = Some (the x)"
  by (cases x) auto

lemma not_truthy_nonempty: "\<not> truthy x \<Longrightarrow> nonempty x = None"
  by (cases x) auto

lemma createReport_run:
  shows "creatable limits env user dto s \<Longrightarrow>
      createReport limits env user dto s =
        (let report = created_report limits env user dto s;
             route = resolveReportResponsibility env dto s;
             geo = geo_metadata_of limits env (create_geo_input dto)
         in sq (create_effects env user (the (actor_id user)) geo route report) (ret (report, rs_diagnostics route))
              (s\<lparr>reports := reports s @ [report]\<rparr>))"
    and "\<not> creatable limits env user dto s \<Longrightarrow> \<exists>e. createReport limits env user dto s = (Inl e, s)"
proof -
  show "createReport limits env user dto s =
        (let report = created_report limits env user dto s;
             route = resolveReportResponsibility env dto s;
             geo = geo_metadata_of limits env (create_geo_input dto)
         in sq (create_effects env user (the (actor_id user)) geo route report) (ret (report, rs_diagnostics route))
              (s\<lparr>reports := reports s @ [report]\<rparr>))" if "creatable limits env user dto s"
    using that truthy_the[of "actor_id user"] truthy_the[of "j_organizationId user"]
    by (simp add: createReport_def creatable_def created_report_def getUserId_def normalizeReportLocation_run
        enforceMonthlyReportQuota_run insert_report_run bnd_def Let_def)
  show "\<exists>e. createReport limits env user dto s = (Inl e, s)" if no: "\<not> creatable limits env user dto s"
  proof (cases "truthy (actor_id user)")
    case False
    then show ?thesis
      by (simp add: createReport_def getUserId_def not_truthy_nonempty bnd_def)
  next
    case True
    show ?thesis
    proof (cases "geo_acceptable limits env (create_geo_input dto)")
      case False
      then obtain e where "normalizeReportLocation limits env (create_geo_input dto) s = (Inl (BadRequest e), s)"
        using normalizeReportLocation_rejects[of limits env "create_geo_input dto" s] by blast
      then show ?thesis
        using True by (simp add: createReport_def getUserId_def truthy_the bnd_def)
    next
      case geo: True
      show ?thesis
        using True geo no truthy_the[of "j_organizationId user"] not_truthy_nonempty[of "j_organizationId user"]
        by (cases "truthy (j_organizationId user)")
          (auto simp: createReport_def creatable_def getUserId_def truthy_the normalizeReportLocation_run
            enforceMonthlyReportQuota_run insert_report_run bnd_def)
    qed
  qed
qed

text \<open>When the platform assigns an organization by hand.\<close>

definition route_accepts :: "env \<Rightarrow> assign_organization_dto \<Rightarrow> jwt_user \<Rightarrow> db \<Rightarrow> report \<Rightarrow> bool" where
  "route_accepts env dto user s r \<longleftrightarrow>
     j_role user = SUPER_ADMIN \<and> truthy (actor_id user) \<and> trimmed (ag_reason dto) \<noteq> None \<and>
     r_status r \<in> {PENDING, TRIAGE} \<and> \<not> truthy (r_assignedProviderId r) \<and>
     (\<exists>x. find_organization (ag_organizationId dto) s = Some x \<and>
        (ag_establishAuthoritativeOwnership dto = Some True \<and> o_status x = O_ACTIVE \<and>
           maintenanceModuleEnabled (o_enabledModules x) \<or>
         ag_establishAuthoritativeOwnership dto \<noteq> Some True \<and>
           (ag_overrideReadiness dto = Some True \<or>
            cd_eligible (serializeOrganizationCandidate env (profile_of s x) (r_category r) (report_location r)))))"

lemma reads_route_checks [reads_rules]: "reads (route_checks env i dto user)"
  unfolding route_checks_def Let_def by (intro reads_rules)

text \<open>Guards one after the other: what a run that passes them all went through, and that passing suffices.\<close>

lemma guard_runs:
  "\<not> c \<Longrightarrow> bnd (throw_if c e) f s = f () s"
  "x = Some y \<Longrightarrow> bnd (require e x) g s = g y s"
  "bnd (gets h) k s = k (h s) s"
  "\<not> c \<Longrightarrow> bnd (when_do c m) f s = f () s"
  "bnd (when_do True m) f s = bnd m f s"
  by (auto simp: bnd_def split: option.split prod.split sum.split)

lemma throw_if_passE:
  assumes "bnd (throw_if c e) f s = (Inr v, t)"
  obtains "\<not> c" "f () s = (Inr v, t)"
  using assms by (cases c) (simp_all add: bnd_def)

lemma require_passE:
  assumes "bnd (require e x) g s = (Inr v, t)"
  obtains y where "x = Some y" "g y s = (Inr v, t)"
  using assms by (cases x) (simp_all add: bnd_def)

lemma gets_passE:
  assumes "bnd (gets h) k s = (Inr v, t)"
  obtains "k (h s) s = (Inr v, t)"
  using assms by (simp add: bnd_def)

lemma when_do_passE:
  assumes "bnd (when_do c (bnd m n)) f s = (Inr v, t)"
  obtains (skip) "\<not> c" "f () s = (Inr v, t)" | (run) "c" "bnd m (\<lambda>x. bnd (n x) f) s = (Inr v, t)"
  using assms by (cases c) (simp_all add: guard_runs bnd_assoc)

lemmas pass_elims = throw_if_passE require_passE gets_passE when_do_passE

lemma route_checks_pass:
  assumes "find_report i s = Some r" and "route_accepts env dto user s r"
  shows "\<exists>c. route_checks env i dto user s = (Inr (the (actor_id user), r, c), s)"
proof -
  obtain x where x: "find_organization (ag_organizationId dto) s = Some x"
      "ag_establishAuthoritativeOwnership dto = Some True \<and> o_status x = O_ACTIVE \<and>
         maintenanceModuleEnabled (o_enabledModules x) \<or>
       ag_establishAuthoritativeOwnership dto \<noteq> Some True \<and>
         (ag_overrideReadiness dto = Some True \<or>
          cd_eligible (serializeOrganizationCandidate env (profile_of s x) (r_category r) (report_location r)))"
    using assms(2) unfolding route_accepts_def by blast
  have status: "r_status r = PENDING \<or> r_status r = TRIAGE"
    using assms(2) by (simp add: route_accepts_def)
  have rest: "j_role user = SUPER_ADMIN" "trimmed (ag_reason dto) \<noteq> None"
      "\<not> truthy (r_assignedProviderId r)" "nonempty (actor_id user) = Some (the (actor_id user))"
    using assms(2) truthy_the by (auto simp: route_accepts_def)
  show ?thesis
    using x(2) status
    by (elim disjE conjE)
      (simp_all add: route_checks_def guard_runs bnd_assoc isSuperAdmin_def Let_def rest assms(1) x(1) del: not_None_eq)
qed

lemma route_checks_InrD:
  assumes "route_checks env i dto user s = (Inr v, t)"
  shows "\<exists>r. find_report i s = Some r \<and> route_accepts env dto user s r"
  using assms unfolding route_checks_def Let_def isSuperAdmin_def
proof (elim pass_elims, goal_cases)
  case (1 a r x)
  moreover have "truthy (actor_id user)" using 1 truthy_nonempty by blast
  ultimately show ?case unfolding route_accepts_def by blast
next
  case (2 a r x)
  moreover have "truthy (actor_id user)" using 2 truthy_nonempty by blast
  ultimately show ?case unfolding route_accepts_def by blast
qed

lemma route_checks_fail:
  assumes "\<nexists>r. find_report i s = Some r \<and> route_accepts env dto user s r"
  shows "\<exists>e. route_checks env i dto user s = (Inl e, s)"
proof -
  obtain v t where run: "route_checks env i dto user s = (v, t)" by fastforce
  then have "t = s" by (rule readsD[OF reads_route_checks])
  then show ?thesis
    using run assms route_checks_InrD[of env i dto user s] by (cases v) auto
qed

lemma route_update_run:
  assumes "find_report i s = Some r" and "\<And>u. quiet business (eff u)" and "\<And>u. quiet business (tail u)"
  shows "\<exists>t. bnd (transaction (bnd (update_report i d) (\<lambda>u. sq (eff u) (ret u)))) (\<lambda>u. sq (tail u) (ret u)) s = (Inr (d r), t) \<and>
     business t = put_report i d (business s)"
proof -
  obtain res u where run: "bnd (update_report i d) (\<lambda>u. sq (eff u) (ret u)) s = (res, u)"
    by (cases "bnd (update_report i d) (\<lambda>u. sq (eff u) (ret u)) s")
  have u: "res = Inr (d r)" "business u = put_report i d (business s)"
    using update_effects_run[OF run assms(1,2)] by simp_all
  have updated: "transaction (bnd (update_report i d) (\<lambda>u. sq (eff u) (ret u))) s = (Inr (d r), u)"
    using run u(1) by (simp add: transaction_def)
  obtain res' t where last: "sq (tail (d r)) (ret (d r)) u = (res', t)"
    by (cases "sq (tail (d r)) (ret (d r)) u")
  then show ?thesis
    using quiet_tail[OF assms(3) last] updated u(2) by simp
qed

lemma assignOrganization_run:
  shows "find_report i s = Some r \<Longrightarrow> route_accepts env dto user s r \<Longrightarrow>
      \<exists>t. assignOrganization env i dto user s = (Inr (route_data env dto (the (actor_id user)) r), t) \<and>
          business t = put_report i (route_data env dto (the (actor_id user))) (business s)"
    and "\<nexists>r. find_report i s = Some r \<and> route_accepts env dto user s r \<Longrightarrow>
      \<exists>e. assignOrganization env i dto user s = (Inl e, s)"
proof -
  show "\<exists>t. assignOrganization env i dto user s = (Inr (route_data env dto (the (actor_id user)) r), t) \<and>
      business t = put_report i (route_data env dto (the (actor_id user))) (business s)"
    if r: "find_report i s = Some r" and ok: "route_accepts env dto user s r"
  proof -
    obtain c where "route_checks env i dto user s = (Inr (the (actor_id user), r, c), s)"
      using route_checks_pass[OF r ok] by blast
    then show ?thesis
      using route_update_run[OF r quiet_route_effects] by (simp add: assignOrganization_def)
  qed
  show "\<exists>e. assignOrganization env i dto user s = (Inl e, s)"
    if "\<nexists>r. find_report i s = Some r \<and> route_accepts env dto user s r"
    using route_checks_fail[OF that] by (auto simp: assignOrganization_def)
qed

interpretation route: report_handler
  "\<lambda>(env, i, dto, user). assignOrganization env i dto user"
  "\<lambda>_. True"
  "\<lambda>(env, i, dto, user). i"
  "\<lambda>(env, i, dto, user) s r. route_accepts env dto user s r"
  "\<lambda>(env, i, dto, user). route_data env dto (the (actor_id user))"
proof (unfold_locales, goal_cases)
  case (1 input s res t)
  obtain env i dto user where input: "input = (env, i, dto, user)" by (cases input)
  then have run: "assignOrganization env i dto user s = (res, t)" using 1 by simp
  show ?case
  proof (cases "\<exists>r. find_report i s = Some r \<and> route_accepts env dto user s r")
    case True
    then show ?thesis using assignOrganization_run(1)[of i s _ env dto user] run input by auto
  next
    case False
    then show ?thesis using assignOrganization_run(2)[of i s env dto user] run input by auto
  qed
qed (auto simp: route_data_def Let_def)

end
