(* ===== verification/Category_Admin.thy ===== *)
theory Category_Admin imports Governance begin

text \<open>
  Setting the completion policy of a service category (\<open>report/report.service.ts\<close>, lines 3329-3423),
  for the platform or for one organization, and what the resolution of a report's policy makes of it.
\<close>

record category_policy_dto =
  cp_category :: string
  cp_policy :: completion_policy
  cp_reason :: "string option"
  cp_organizationId :: "string option"

record category_policy_result =
  cs_scope :: string
  cs_organizationId :: "string option"
  cs_category :: string
  cs_previousPolicy :: json
  cs_policy :: completion_policy

definition object_entries :: "json option \<Rightarrow> (string \<times> json) list" where
  "object_entries value = (case value of Some (JObj kvs) \<Rightarrow> kvs | _ \<Rightarrow> [])"

definition category_audit_metadata ::
    "string \<Rightarrow> string \<Rightarrow> string \<Rightarrow> json \<Rightarrow> completion_policy \<Rightarrow> string \<Rightarrow> (string \<times> json) list" where
  "category_audit_metadata targetType targetId category previous policy reason =
     [(''targetType'', JStr targetType), (''targetId'', JStr targetId), (''category'', JStr category),
      (''previousPolicy'', previous), (''newPolicy'', jpolicy policy), (''reason'', JStr reason)]"

definition set_organization_category_policy ::
    "jwt_user \<Rightarrow> category_policy_dto \<Rightarrow> string \<Rightarrow> string \<Rightarrow> string \<Rightarrow> category_policy_result handler" where
  "set_organization_category_policy user dto reason category organizationId =
     bnd (gets (find_organization organizationId)) (\<lambda>found.
     bnd (require (NotFound ''Organization not found'') found) (\<lambda>organization.
     let profile = object_entries (o_profileData organization);
         current = object_entries (map_of profile ''completionPoliciesByCategory'');
         previous = or_else (map_of current category) JNull;
         stored = jset ''completionPoliciesByCategory''
           (JObj (jset category (jpolicy (cp_policy dto)) current)) profile in
     bnd (update_organization (o_id organization) (\<lambda>org. org\<lparr> o_profileData := Some (JObj stored) \<rparr>)) (\<lambda>updated.
     sq (audit ''Organization Category Completion Policy Updated'' user
           (category_audit_metadata ''Organization'' (o_id organization) category previous (cp_policy dto) reason))
        (ret \<lparr> cs_scope = ''ORGANIZATION_SERVICE_CATEGORY'', cs_organizationId = Some (o_id organization),
               cs_category = category, cs_previousPolicy = previous, cs_policy = cp_policy dto \<rparr>))))"

definition set_platform_category_policy ::
    "jwt_user \<Rightarrow> category_policy_dto \<Rightarrow> string \<Rightarrow> string \<Rightarrow> category_policy_result handler" where
  "set_platform_category_policy user dto reason category =
     bnd (gets (\<lambda>s. map_of (platformSettings s) ''completionPoliciesByCategory'')) (\<lambda>existing.
     let current = object_entries existing;
         previous = or_else (map_of current category) JNull;
         stored = JObj (jset category (jpolicy (cp_policy dto)) current) in
     sq (modify (platformSettings_update (jset ''completionPoliciesByCategory'' stored)))
    (sq (audit ''Platform Category Completion Policy Updated'' user
           (category_audit_metadata ''PlatformSetting'' ''completionPoliciesByCategory'' category previous
              (cp_policy dto) reason))
        (ret \<lparr> cs_scope = ''PLATFORM_SERVICE_CATEGORY'', cs_organizationId = None,
               cs_category = category, cs_previousPolicy = previous, cs_policy = cp_policy dto \<rparr>)))"

definition setCategoryCompletionPolicy :: "jwt_user \<Rightarrow> category_policy_dto \<Rightarrow> category_policy_result handler" where
  "setCategoryCompletionPolicy user dto =
     sq (assertSuperAdmin user)
    (bnd (requiredGovernanceReason (cp_reason dto)) (\<lambda>reason.
     let normalizedCategory = normalizeResponsibilityCategory (cp_category dto) in
     sq (throw_if (normalizedCategory = []) (BadRequest ''Category is required''))
    (sq (assertKnownCompletionCategory normalizedCategory)
        (case nonempty (cp_organizationId dto) of
           Some organizationId \<Rightarrow>
             set_organization_category_policy user dto reason normalizedCategory organizationId
         | None \<Rightarrow> set_platform_category_policy user dto reason normalizedCategory))))"

section \<open>What a successful call stored\<close>

lemma set_platform_run:
  "\<exists>x t. set_platform_category_policy user dto reason category s = (Inr x, t) \<and>
     cs_policy x = cp_policy dto \<and>
     business t = business s\<lparr>platformSettings := jset ''completionPoliciesByCategory''
       (JObj (jset category (jpolicy (cp_policy dto))
          (object_entries (map_of (platformSettings s) ''completionPoliciesByCategory'')))) (platformSettings s)\<rparr>"
proof -
  let ?stored = "JObj (jset category (jpolicy (cp_policy dto))
      (object_entries (map_of (platformSettings s) ''completionPoliciesByCategory'')))"
  let ?u = "platformSettings_update (jset ''completionPoliciesByCategory'' ?stored) s"
  let ?m = "category_audit_metadata ''PlatformSetting'' ''completionPoliciesByCategory'' category
      (or_else (map_of (object_entries (map_of (platformSettings s) ''completionPoliciesByCategory'')) category) JNull)
      (cp_policy dto) reason"
  obtain x t where a: "audit ''Platform Category Completion Policy Updated'' user ?m ?u = (Inr x, t)"
      and t: "business t = business ?u"
    by (rule quiet_runs[OF quiet_audit])
  have "business ?u = business s\<lparr>platformSettings := jset ''completionPoliciesByCategory'' ?stored (platformSettings s)\<rparr>"
    by (simp add: tables.defs)
  then show ?thesis
    using a t by (simp add: set_platform_category_policy_def Let_def)
qed

lemma setCategoryCompletionPolicy_platform:
  assumes "setCategoryCompletionPolicy user dto s = (Inr x, t)" and "\<not> truthy (cp_organizationId dto)"
  shows "j_role user = SUPER_ADMIN \<and> normalizeResponsibilityCategory (cp_category dto) \<noteq> [] \<and>
    business t = business s\<lparr>platformSettings := jset ''completionPoliciesByCategory''
       (JObj (jset (normalizeResponsibilityCategory (cp_category dto)) (jpolicy (cp_policy dto))
          (object_entries (map_of (platformSettings s) ''completionPoliciesByCategory'')))) (platformSettings s)\<rparr>"
proof -
  let ?c = "normalizeResponsibilityCategory (cp_category dto)"
  have none: "nonempty (cp_organizationId dto) = None"
    using assms(2) by (cases "cp_organizationId dto") auto
  from assms(1) obtain reason where guards: "j_role user = SUPER_ADMIN" "?c \<noteq> []"
      and run: "set_platform_category_policy user dto reason ?c s = (Inr x, t)"
    unfolding setCategoryCompletionPolicy_def Let_def none
    by (elim bnd_InrE)
      (auto dest!: readsD[OF reads_assertKnownCompletionCategory] requiredGovernanceReason_InrD
        simp: assertSuperAdmin_def split: if_splits)
  show ?thesis
    using guards run set_platform_run[of user dto reason ?c s] by auto
qed

section \<open>What the resolution makes of it\<close>

text \<open>A stored category answers for itself when no other stored category is compatible with it.\<close>

definition isolated :: "string \<Rightarrow> (string \<times> json) list \<Rightarrow> bool" where
  "isolated c kvs \<longleftrightarrow>
     list_all (\<lambda>kv. fst kv = c \<or> \<not> categoriesCompatible (normalizeResponsibilityCategory (fst kv)) c) kvs"

lemma first_category_policy_update:
  assumes "isolated c kvs" and "normalizeResponsibilityCategory c = c"
  shows "first_category_policy (AList.update c (jpolicy p) kvs) c = Some p"
  using assms
  by (induction kvs) (auto simp: isolated_def jpolicy_def split: if_splits)

lemma platform_policy_roundtrip:
  assumes "setCategoryCompletionPolicy user dto s = (Inr x, t)" and "\<not> truthy (cp_organizationId dto)"
    and "isolated (normalizeResponsibilityCategory (cp_category dto))
           (object_entries (map_of (platformSettings s) ''completionPoliciesByCategory''))"
  shows "completionPolicyFromPlatformCategory env (cp_category dto) t = Some (cp_policy dto)"
proof -
  let ?c = "normalizeResponsibilityCategory (cp_category dto)"
  let ?old = "object_entries (map_of (platformSettings s) ''completionPoliciesByCategory'')"
  from setCategoryCompletionPolicy_platform[OF assms(1,2)]
  have c: "?c \<noteq> []" and t: "business t = business s\<lparr>platformSettings :=
      jset ''completionPoliciesByCategory'' (JObj (jset ?c (jpolicy (cp_policy dto)) ?old)) (platformSettings s)\<rparr>"
    by blast+
  have "platformSettings t = platformSettings (business t)" by simp
  then have ps: "map_of (platformSettings t) ''completionPoliciesByCategory'' =
      Some (JObj (jset ?c (jpolicy (cp_policy dto)) ?old))"
    unfolding t by simp
  have "first_category_policy (jset ?c (jpolicy (cp_policy dto)) ?old) ?c = Some (cp_policy dto)"
    unfolding jset_def using assms(3) normalize_of_normal[OF normalize_normal]
    by (rule first_category_policy_update)
  then show ?thesis
    using c ps by (simp add: completionPolicyFromPlatformCategory_def Let_def policyFromCategoryRecord_def)
qed

end
