(* ===== verification/Lifecycle.thy ===== *)
theory Lifecycle imports Completion_Theorems Routing Category_Admin begin

text \<open>
  The life of a report as a state machine: the requests that change a report, the steps a row takes
  under each of them, and what holds along every history of requests. The step relation collects
  the contracts of the handlers, so every statement about it is a statement about their runs.
\<close>

section \<open>Requests\<close>

datatype request =
    Route_report string assign_organization_dto jwt_user
  | Accept_report string "string option" jwt_user
  | Reject_report string intake_reject_dto jwt_user
  | Assign_provider string string jwt_user assign_options
  | Reassign_provider string string "string option" jwt_user
  | Cancel_assignment string "string option" jwt_user
  | Decline_assignment string string jwt_user
  | Process_overdue jwt_user
  | Update_status string status_dto jwt_user
  | Confirm_completion string confirm_dto jwt_user
  | Reject_completion string "string option" jwt_user
  | Verify_completion string "string option" jwt_user
  | Request_rework string "string option" jwt_user
  | Admin_resolve string "string option" jwt_user
  | Admin_rework string "string option" jwt_user
  | Admin_hold string "string option" jwt_user
  | Admin_release string "string option" jwt_user
  | Admin_reopen string "string option" jwt_user
  | Admin_override string completion_policy "string option" jwt_user
  | Process_deadlines jwt_user deadline_dto

definition discard :: "('s, 'a) svc \<Rightarrow> ('s, unit) svc" where
  "discard m = bnd m (\<lambda>_. ret ())"

primrec perform :: "env \<Rightarrow> request \<Rightarrow> unit handler" where
  "perform env (Route_report i dto user) = discard (assignOrganization env i dto user)"
| "perform env (Accept_report i nt user) = discard (acceptOrganizationReport env i nt user)"
| "perform env (Reject_report i dto user) = discard (rejectOrganizationReport env i dto user)"
| "perform env (Assign_provider i p user options) = discard (assignProviderById env i p user options)"
| "perform env (Reassign_provider i p reason user) = discard (reassignProvider env i p reason user)"
| "perform env (Cancel_assignment i reason user) = discard (cancelAssignment env i reason user)"
| "perform env (Decline_assignment i reason user) = discard (rejectAssignment env i reason user)"
| "perform env (Process_overdue user) = discard (processOverdueAssignments env user)"
| "perform env (Update_status i dto user) = discard (updateStatus env i dto user)"
| "perform env (Confirm_completion i dto user) = discard (confirmCitizenCompletion env i dto user)"
| "perform env (Reject_completion i reason user) = discard (rejectCitizenCompletion env i reason user)"
| "perform env (Verify_completion i reason user) = discard (verifyOrganizationCompletion env i reason user)"
| "perform env (Request_rework i reason user) = discard (requestOrganizationCompletionRework env i reason user)"
| "perform env (Admin_resolve i reason user) = discard (adminResolveAndClose env i reason user)"
| "perform env (Admin_rework i reason user) = discard (adminReturnForCompletionRework env i reason user)"
| "perform env (Admin_hold i reason user) = discard (adminPlaceCompletionHold env i reason user)"
| "perform env (Admin_release i reason user) = discard (adminRemoveCompletionHold env i reason user)"
| "perform env (Admin_reopen i reason user) = discard (adminReopenCompletion env i reason user)"
| "perform env (Admin_override i policy reason user) = discard (adminOverrideCompletionPolicy env i policy reason user)"
| "perform env (Process_deadlines user dto) = discard (processCompletionReviewDeadlines env user dto)"

text \<open>The authentication layer gives every user an id; governance requests rely on it.\<close>

primrec requester :: "request \<Rightarrow> jwt_user" where
  "requester (Route_report i dto user) = user"
| "requester (Accept_report i nt user) = user"
| "requester (Reject_report i dto user) = user"
| "requester (Assign_provider i p user options) = user"
| "requester (Reassign_provider i p reason user) = user"
| "requester (Cancel_assignment i reason user) = user"
| "requester (Decline_assignment i reason user) = user"
| "requester (Process_overdue user) = user"
| "requester (Update_status i dto user) = user"
| "requester (Confirm_completion i dto user) = user"
| "requester (Reject_completion i reason user) = user"
| "requester (Verify_completion i reason user) = user"
| "requester (Request_rework i reason user) = user"
| "requester (Admin_resolve i reason user) = user"
| "requester (Admin_rework i reason user) = user"
| "requester (Admin_hold i reason user) = user"
| "requester (Admin_release i reason user) = user"
| "requester (Admin_reopen i reason user) = user"
| "requester (Admin_override i policy reason user) = user"
| "requester (Process_deadlines user dto) = user"

definition authenticated :: "request \<Rightarrow> bool" where
  "authenticated req \<longleftrightarrow> has_user_id (requester req)"

section \<open>The steps of a row\<close>

inductive row_step :: "env \<Rightarrow> db \<Rightarrow> request \<Rightarrow> report \<Rightarrow> report \<Rightarrow> bool" for env s where
  routed: "route_accepts env dto user s r \<Longrightarrow> r_id r = i \<Longrightarrow>
    row_step env s (Route_report i dto user) r (route_data env dto (the (actor_id user)) r)"
| accepted: "accept_accepts user s r \<Longrightarrow> r_id r = i \<Longrightarrow>
    row_step env s (Accept_report i nt user) r (accept_data env (the (j_organizationId user)) r)"
| refused: "reject_accepts dto user s r \<Longrightarrow> r_id r = i \<Longrightarrow>
    row_step env s (Reject_report i dto user) r (reject_data env (the (trimmed (ir_reason dto))) r)"
| assigned: "assign_accepts p user options s r \<Longrightarrow> r_id r = i \<Longrightarrow>
    row_step env s (Assign_provider i p user options) r (assign_data env p r)"
| reassigned: "reassign_steps env i p reason user r r' \<Longrightarrow> row_step env s (Reassign_provider i p reason user) r r'"
| cancelled: "cancel_accepts user r \<Longrightarrow> r_id r = i \<Longrightarrow>
    row_step env s (Cancel_assignment i reason user) r (cancel_data env (cancel_reason reason) r)"
| expired_on_decline: "own_overdue env user r \<Longrightarrow>
    row_step env s (Decline_assignment i reason user) r (expire_data env r)"
| declined: "decline_accepts env user r \<Longrightarrow> r_id r = i \<Longrightarrow>
    row_step env s (Decline_assignment i reason user) r (decline_data env (trim reason) (the (actor_id user)) r)"
| expired: "overdue env (user_expire_filter user) r \<Longrightarrow> row_step env s (Process_overdue user) r (expire_data env r)"
| expired_on_start: "own_overdue env user r \<Longrightarrow> row_step env s (Update_status i dto user) r (expire_data env r)"
| moved: "status_accepts env dto user r \<Longrightarrow> completion_ok env i dto s r c \<Longrightarrow> r_id r = i \<Longrightarrow>
    row_step env s (Update_status i dto user) r (status_data env dto c r)"
| confirmed: "confirm_accepts user r \<Longrightarrow> r_id r = i \<Longrightarrow>
    row_step env s (Confirm_completion i dto user) r (confirm_data env dto user r)"
| citizen_returned: "citizen_rework_accepts user reason r \<Longrightarrow> r_id r = i \<Longrightarrow>
    row_step env s (Reject_completion i reason user) r (citizen_rework_data env (or_else (trimmed reason) []) r)"
| verified: "verify_accepts env user r \<Longrightarrow> r_id r = i \<Longrightarrow>
    row_step env s (Verify_completion i reason user) r (verify_data env reason user r)"
| organization_returned: "organization_rework_accepts user reason r \<Longrightarrow> r_id r = i \<Longrightarrow>
    row_step env s (Request_rework i reason user) r (organization_rework_data env (or_else (trimmed reason) []) user r)"
| resolved: "resolve_accepts user reason r \<Longrightarrow> r_id r = i \<Longrightarrow>
    row_step env s (Admin_resolve i reason user) r (resolve_data env (or_else (trimmed reason) []) user r)"
| admin_returned: "admin_rework_accepts user reason r \<Longrightarrow> r_id r = i \<Longrightarrow>
    row_step env s (Admin_rework i reason user) r (admin_rework_data (or_else (trimmed reason) []) r)"
| held: "place_hold_accepts user reason r \<Longrightarrow> r_id r = i \<Longrightarrow>
    row_step env s (Admin_hold i reason user) r (place_hold_data (or_else (trimmed reason) []) r)"
| released: "remove_hold_accepts user reason r \<Longrightarrow> r_id r = i \<Longrightarrow>
    row_step env s (Admin_release i reason user) r (remove_hold_data env r)"
| reopened: "reopen_accepts user reason r \<Longrightarrow> r_id r = i \<Longrightarrow>
    row_step env s (Admin_reopen i reason user) r (reopen_data env r)"
| overridden: "override_accepts env policy user reason r \<Longrightarrow> r_id r = i \<Longrightarrow>
    row_step env s (Admin_override i policy reason user) r (override_data policy r)"
| window_closed: "may_process user \<Longrightarrow> r_completionPolicy r = Some AUTO_CLOSE_AFTER_REVIEW_WINDOW \<Longrightarrow>
    deadline_skip (now env) r = None \<Longrightarrow>
    row_step env s (Process_deadlines user dto) r (fallback_data env user r)"

lemma discard_run: "discard m s = (res, t) \<Longrightarrow> \<exists>res'. m s = (res', t)"
  by (auto simp: discard_def elim: bndE)

lemmas data_defs = route_data_def accept_data_def reject_data_def assign_data_def cancel_data_def expire_data_def decline_data_def
  status_data_def completion_data_def confirm_data_def citizen_rework_data_def verify_data_def
  organization_rework_data_def resolve_data_def admin_rework_data_def place_hold_data_def remove_hold_data_def
  reopen_data_def override_data_def fallback_data_def

lemma row_step_id: "row_step env s req r r' \<Longrightarrow> r_id r' = r_id r"
proof (induction rule: row_step.induct)
  case (reassigned i p reason user r r')
  then show ?case by (auto simp: reassign_steps_def cancel_data_def assign_data_def Let_def)
qed (auto simp: data_defs Let_def split: option.split)

text \<open>Every run of a request takes each row at most one step.\<close>

lemma perform_rows:
  assumes "perform env req s = (res, t)" and "authenticated req" and "report_ids_ok s"
  shows "list_all2 (\<lambda>r r'. r' = r \<or> row_step env s req r r') (reports s) (reports t)"
proof (cases req)
  case (Route_report i dto user)
  with assms show ?thesis
    by (auto dest!: discard_run route.row_steps[of "(env, i, dto, user)", simplified] simp: authenticated_def
        elim!: list_all2_mono intro: row_step.intros)
next
  case (Accept_report i nt user)
  with assms show ?thesis
    by (auto dest!: discard_run accept.row_steps[of "(env, i, nt, user)", simplified] simp: authenticated_def
        elim!: list_all2_mono intro: row_step.intros)
next
  case (Reject_report i dto user)
  with assms show ?thesis
    by (auto dest!: discard_run reject.row_steps[of "(env, i, dto, user)", simplified] simp: authenticated_def
        elim!: list_all2_mono intro: row_step.intros)
next
  case (Assign_provider i p user options)
  with assms show ?thesis
    by (auto dest!: discard_run assign.row_steps[of "(env, i, p, user, options)", simplified] simp: authenticated_def
        elim!: list_all2_mono intro: row_step.intros)
next
  case (Reassign_provider i p reason user)
  with assms show ?thesis
    by (auto dest!: discard_run reassign.row_steps[of "(env, i, p, reason, user)", simplified] simp: authenticated_def
        elim!: list_all2_mono intro: row_step.intros)
next
  case (Cancel_assignment i reason user)
  with assms show ?thesis
    by (auto dest!: discard_run cancel.row_steps[of "(env, i, reason, user)", simplified] simp: authenticated_def
        elim!: list_all2_mono intro: row_step.intros)
next
  case (Decline_assignment i reason user)
  with assms show ?thesis
    by (auto dest!: discard_run decline.row_steps[of "(env, i, reason, user)", simplified] simp: authenticated_def
        elim!: list_all2_mono intro: row_step.intros)
next
  case (Process_overdue user)
  with assms show ?thesis
    by (auto dest!: discard_run overdue_run.row_steps[of "(env, user)", simplified] simp: authenticated_def
        elim!: list_all2_mono intro: row_step.intros)
next
  case (Update_status i dto user)
  with assms show ?thesis
    by (auto dest!: discard_run status.row_steps[of "(env, i, dto, user)", simplified] simp: authenticated_def
        elim!: list_all2_mono intro: row_step.intros)
next
  case (Confirm_completion i dto user)
  with assms show ?thesis
    by (auto dest!: discard_run confirm.row_steps[of "(env, i, dto, user)", simplified] simp: authenticated_def
        elim!: list_all2_mono intro: row_step.intros)
next
  case (Reject_completion i reason user)
  with assms show ?thesis
    by (auto dest!: discard_run citizen_rework.row_steps[of "(env, i, reason, user)", simplified] simp: authenticated_def
        elim!: list_all2_mono intro: row_step.intros)
next
  case (Verify_completion i reason user)
  with assms show ?thesis
    by (auto dest!: discard_run verify.row_steps[of "(env, i, reason, user)", simplified] simp: authenticated_def
        elim!: list_all2_mono intro: row_step.intros)
next
  case (Request_rework i reason user)
  with assms show ?thesis
    by (auto dest!: discard_run organization_rework.row_steps[of "(env, i, reason, user)", simplified] simp: authenticated_def
        elim!: list_all2_mono intro: row_step.intros)
next
  case (Admin_resolve i reason user)
  with assms show ?thesis
    by (auto dest!: discard_run resolve.row_steps[of "(env, i, reason, user)", simplified] simp: authenticated_def
        elim!: list_all2_mono intro: row_step.intros)
next
  case (Admin_rework i reason user)
  with assms show ?thesis
    by (auto dest!: discard_run admin_rework.row_steps[of "(env, i, reason, user)", simplified] simp: authenticated_def
        elim!: list_all2_mono intro: row_step.intros)
next
  case (Admin_hold i reason user)
  with assms show ?thesis
    by (auto dest!: discard_run place_hold.row_steps[of "(env, i, reason, user)", simplified] simp: authenticated_def
        elim!: list_all2_mono intro: row_step.intros)
next
  case (Admin_release i reason user)
  with assms show ?thesis
    by (auto dest!: discard_run remove_hold.row_steps[of "(env, i, reason, user)", simplified] simp: authenticated_def
        elim!: list_all2_mono intro: row_step.intros)
next
  case (Admin_reopen i reason user)
  with assms show ?thesis
    by (auto dest!: discard_run reopen.row_steps[of "(env, i, reason, user)", simplified] simp: authenticated_def
        elim!: list_all2_mono intro: row_step.intros)
next
  case (Admin_override i policy reason user)
  with assms show ?thesis
    by (auto dest!: discard_run override.row_steps[of "(env, i, policy, reason, user)", simplified] simp: authenticated_def
        elim!: list_all2_mono intro: row_step.intros)
next
  case (Process_deadlines user dto)
  with assms show ?thesis
    by (auto dest!: discard_run deadline.row_steps[of "(env, user, dto)", simplified] simp: authenticated_def
        elim!: list_all2_mono intro: row_step.intros)
qed

interpretation life: row_contract
  "\<lambda>(env, req). perform env req"
  "\<lambda>(env, req). authenticated req"
  "\<lambda>(env, req) s. row_step env s req"
  by unfold_locales (auto intro: perform_rows dest: row_step_id)

section \<open>Status moves\<close>

text \<open>Every status a request may take a report from, with the statuses it may take it to.\<close>

definition in_work :: "report_status list" where
  "in_work = [ASSIGNED, IN_PROGRESS, COMPLETED_BY_PROVIDER]"

fun moves :: "request \<Rightarrow> report_status \<Rightarrow> report_status list" where
  "moves (Route_report i dto user) v = (if v \<in> {PENDING, TRIAGE} then [if ag_establishAuthoritativeOwnership dto = Some True then PENDING else ORG_REVIEW] else [])"
| "moves (Accept_report i nt user) v = (if v \<in> {ORG_REVIEW, TRIAGE} then [PENDING] else [])"
| "moves (Reject_report i dto user) v = (if v \<in> {ORG_REVIEW, TRIAGE} then [TRIAGE] else [])"
| "moves (Assign_provider i p user options) v = (if v = PENDING then [ASSIGNED] else [])"
| "moves (Reassign_provider i p reason user) v = (if v = PENDING then [ASSIGNED] else [PENDING, ASSIGNED])"
| "moves (Cancel_assignment i reason user) v = (if v = PENDING then [] else [PENDING])"
| "moves (Decline_assignment i reason user) v = (if v = ASSIGNED then [PENDING] else [])"
| "moves (Process_overdue user) v = (if v = ASSIGNED then [PENDING] else [])"
| "moves (Update_status i dto user) v = (if v = ASSIGNED then [PENDING] else []) @
     (if us_status dto \<noteq> ASSIGNED \<and> workflow_step v (us_status dto) then [us_status dto] else [])"
| "moves (Confirm_completion i dto user) v = (if v = COMPLETED_BY_PROVIDER then [COMPLETED_BY_PROVIDER, CLOSED] else [])"
| "moves (Reject_completion i reason user) v = (if v = COMPLETED_BY_PROVIDER then [ASSIGNED] else [])"
| "moves (Verify_completion i reason user) v = (if v = COMPLETED_BY_PROVIDER then [COMPLETED_BY_PROVIDER, CLOSED] else [])"
| "moves (Request_rework i reason user) v = (if v = COMPLETED_BY_PROVIDER then [ASSIGNED] else [])"
| "moves (Admin_resolve i reason user) v = (if v = CLOSED then [] else [CLOSED])"
| "moves (Admin_rework i reason user) v = (if v = CLOSED then [] else [ASSIGNED])"
| "moves (Admin_hold i reason user) v = (if v = CLOSED then [] else [v])"
| "moves (Admin_release i reason user) v = [v]"
| "moves (Admin_reopen i reason user) v = (if v = CLOSED then [COMPLETED_BY_PROVIDER] else [])"
| "moves (Admin_override i policy reason user) v = (if v = CLOSED then [] else [v])"
| "moves (Process_deadlines user dto) v = (if v = COMPLETED_BY_PROVIDER then [CLOSED] else [])"

lemma routed_status: "routed_to x s r \<Longrightarrow> r_status r \<in> {ORG_REVIEW, TRIAGE}"
  by (auto simp: routed_to_def legacy_match_def isLegacyMatchedResponsibilityReview_def)

lemmas accept_defs = route_accepts_def accept_accepts_def reject_accepts_def assign_accepts_def cancel_accepts_def decline_accepts_def
  status_accepts_def confirm_accepts_def citizen_rework_accepts_def verify_accepts_def
  organization_rework_accepts_def resolve_accepts_def admin_rework_accepts_def place_hold_accepts_def
  remove_hold_accepts_def reopen_accepts_def override_accepts_def

lemma overdue_status: "overdue env f r \<Longrightarrow> r_status r = ASSIGNED" "own_overdue env user r \<Longrightarrow> r_status r = ASSIGNED"
  by (auto simp: overdue_def own_overdue_def split: option.splits)

lemma row_step_moves: "row_step env s req r r' \<Longrightarrow> r_status r' \<in> set (moves req (r_status r))"
proof (induction rule: row_step.induct)
  case (reassigned i p reason user r r')
  then show ?case
    by (auto simp: reassign_steps_def cancel_accepts_def assign_accepts_def cancel_data_def assign_data_def Let_def)
qed (auto simp: accept_defs data_defs Let_def deadline_skip_None dest!: routed_status overdue_status split: option.split)

section \<open>Closing and reopening\<close>

text \<open>What a request that closes a report has behind it.\<close>

fun closing_authority :: "env \<Rightarrow> request \<Rightarrow> report \<Rightarrow> bool" where
  "closing_authority env (Confirm_completion i dto user) r \<longleftrightarrow> citizen_may_review user r \<and> \<not> blocked r \<and>
     list_ex (\<lambda>q. q \<subseteq> approvals (Some CONFIRMED) (r_organizationCompletionDecision r)) (quorums (policyForReport env r))"
| "closing_authority env (Verify_completion i reason user) r \<longleftrightarrow> operator_may_review user r \<and> \<not> blocked r \<and>
     list_ex (\<lambda>q. q \<subseteq> approvals (r_citizenCompletionDecision r) (Some VERIFIED)) (quorums (policyForReport env r))"
| "closing_authority env (Admin_resolve i reason user) r \<longleftrightarrow> j_role user = SUPER_ADMIN \<and>
     \<not> truthy (r_completionGovernanceHoldReason r) \<and> trimmed reason \<noteq> None"
| "closing_authority env (Process_deadlines user dto) r \<longleftrightarrow> may_process user \<and> \<not> blocked r \<and>
     r_completionPolicy r = Some AUTO_CLOSE_AFTER_REVIEW_WINDOW \<and>
     (\<exists>d. r_completionReviewDeadlineAt r = Some d \<and> d \<le> now env)"
| "closing_authority env (Update_status i dto user) r \<longleftrightarrow> us_status dto = CLOSED \<and>
     r_status r = COMPLETED_BY_PROVIDER \<and>
     (j_role user = SUPER_ADMIN \<or>
      j_role user \<in> {ORG_ADMIN, DISPATCH_OFFICER} \<and> j_organizationId user = Some (r_organizationId r))"
| "closing_authority env req r \<longleftrightarrow> False"

lemma workflow_step_to_closed: "workflow_step a CLOSED \<longleftrightarrow> a = COMPLETED_BY_PROVIDER"
  by (cases a) (simp_all add: workflow_step_def)

lemma row_step_closing:
  assumes "row_step env s req r r'" and "r_status r \<noteq> CLOSED" and "r_status r' = CLOSED"
  shows "closing_authority env req r"
  using assms
proof (induction rule: row_step.induct)
  case (reassigned i p reason user r r')
  then show ?case
    by (auto simp: reassign_steps_def cancel_data_def assign_data_def Let_def)
next
  case (moved dto user r i c)
  then have "us_status dto = CLOSED"
    by (auto simp: status_data_def completion_data_def split: option.splits)
  with moved show ?case
    by (auto simp: status_accepts_def may_move_def workflow_step_to_closed)
qed (auto simp: accept_defs data_defs Let_def deadline_skip_None confirm_closes_def verify_closes_def satisfied_quorum
    split: if_splits)

text \<open>What takes a closed report out of its final status.\<close>

fun reopening_authority :: "request \<Rightarrow> report \<Rightarrow> bool" where
  "reopening_authority (Admin_reopen i reason user) r \<longleftrightarrow> j_role user = SUPER_ADMIN \<and> trimmed reason \<noteq> None"
| "reopening_authority (Cancel_assignment i reason user) r \<longleftrightarrow> cancel_accepts user r"
| "reopening_authority (Reassign_provider i p reason user) r \<longleftrightarrow> cancel_accepts user r"
| "reopening_authority req r \<longleftrightarrow> False"

lemma row_step_reopening:
  assumes "row_step env s req r r'" and "r_status r = CLOSED" and "r_status r' \<noteq> CLOSED"
  shows "reopening_authority req r"
  using assms
proof (induction rule: row_step.induct)
  case (reassigned i p reason user r r')
  then show ?case
    by (auto simp: reassign_steps_def assign_accepts_def Let_def)
qed (auto simp: accept_defs data_defs Let_def deadline_skip_None workflow_step_def
    dest!: routed_status overdue_status split: if_splits)

section \<open>Histories\<close>

text \<open>
  A history from \<open>s0\<close>: authenticated requests, each performed in an environment of its own (the clock
  and the configuration may differ), and each allowed on every report as it stands.
\<close>

inductive history :: "(request \<Rightarrow> report \<Rightarrow> bool) \<Rightarrow> db \<Rightarrow> db \<Rightarrow> bool" for allowed s0 where
  start: "history allowed s0 s0"
| next_request: "history allowed s0 s \<Longrightarrow> authenticated req \<Longrightarrow> \<forall>r\<in>set (reports s). allowed req r \<Longrightarrow>
    perform env req s = (res, t) \<Longrightarrow> history allowed s0 t"

lemma history_ids:
  assumes "history allowed s0 t" and "report_ids_ok s0"
  shows "report_ids_ok t \<and> map r_id (reports t) = map r_id (reports s0)"
  using assms(1)
proof (induction rule: history.induct)
  case (next_request s req env res t)
  have "perform env req s = (res, t)" "authenticated req" by fact+
  then show ?case
    using life.ids_kept[of "(env, req)" s res t] life.ids_ok[of "(env, req)" s res t] next_request.IH by simp
qed (use assms(2) in simp)

text \<open>
  A row invariant: what the allowed requests keep of a row. It then holds of every row along every
  history of allowed requests.
\<close>

locale row_invariant =
  fixes I :: "report \<Rightarrow> bool" and allowed :: "request \<Rightarrow> report \<Rightarrow> bool"
  assumes kept: "row_step env s req r r' \<Longrightarrow> allowed req r \<Longrightarrow> I r \<Longrightarrow> I r'"
begin

lemma holds_along:
  assumes "history allowed s0 t" and "report_ids_ok s0" and "\<forall>r\<in>set (reports s0). I r"
  shows "\<forall>r\<in>set (reports t). I r"
  using assms(1)
proof (induction rule: history.induct)
  case (next_request s req env res t)
  have run: "perform env req s = (res, t)" and auth: "authenticated req" by fact+
  have ids: "report_ids_ok s"
    using history_ids[OF next_request.hyps(1) assms(2)] by simp
  have "I r'" if "r' \<in> set (reports t)" for r'
    using life.row_history[of "(env, req)" s res t r'] run auth that next_request.IH next_request.hyps(3) ids kept
    by auto
  then show ?case by blast
qed (use assms in simp)

end

section \<open>A provider while the work is in hand\<close>

text \<open>
  Reports before dispatch have no provider; reports from assignment to closure have one. The two
  governance requests that set a status without looking at the current one are allowed only on
  reports already in work.
\<close>

definition provider_matches_status :: "report \<Rightarrow> bool" where
  "provider_matches_status r \<longleftrightarrow> (r_assignedProviderId r = None) = (r_status r \<in> {TRIAGE, ORG_REVIEW, PENDING})"

fun governed_in_work :: "request \<Rightarrow> report \<Rightarrow> bool" where
  "governed_in_work (Admin_resolve i reason user) r \<longleftrightarrow> r_id r = i \<longrightarrow> r_status r \<notin> {TRIAGE, ORG_REVIEW, PENDING}"
| "governed_in_work (Admin_rework i reason user) r \<longleftrightarrow> r_id r = i \<longrightarrow> r_status r \<notin> {TRIAGE, ORG_REVIEW, PENDING}"
| "governed_in_work req r \<longleftrightarrow> True"

lemma row_step_provider:
  assumes "row_step env s req r r'" and "governed_in_work req r" and "provider_matches_status r"
  shows "provider_matches_status r'"
  using assms
proof (induction rule: row_step.induct)
  case (reassigned i p reason user r r')
  then show ?case
    by (auto simp: provider_matches_status_def reassign_steps_def cancel_data_def assign_data_def Let_def)
next
  case (moved dto user r i c)
  then have "workflow_step (r_status r) (us_status dto)" "us_status dto \<noteq> ASSIGNED"
    by (simp_all add: status_accepts_def)
  then show ?case
    using moved(5)
    by (cases rule: workflow_step_cases)
      (auto simp: provider_matches_status_def status_data_def completion_data_def split: option.splits)
qed (auto simp: provider_matches_status_def accept_defs data_defs Let_def deadline_skip_None
    dest!: routed_status overdue_status)

interpretation provider: row_invariant provider_matches_status governed_in_work
  by unfold_locales (rule row_step_provider)

section \<open>A closed report is accounted for\<close>

text \<open>A closed report names when it was finalized and by which role, and shows the closed review state.\<close>

definition closure_recorded :: "report \<Rightarrow> bool" where
  "closure_recorded r \<longleftrightarrow> (r_status r = CLOSED \<longrightarrow> r_completionReviewState r = Some ''CLOSED'' \<and>
     r_completionFinalizedAt r \<noteq> None \<and> r_completionFinalizedByRole r \<noteq> None)"

fun closes_through_review :: "request \<Rightarrow> report \<Rightarrow> bool" where
  "closes_through_review (Update_status i dto user) r \<longleftrightarrow> us_status dto \<noteq> CLOSED"
| "closes_through_review req r \<longleftrightarrow> True"

lemma row_step_recorded:
  assumes "row_step env s req r r'" and "closes_through_review req r" and "closure_recorded r"
  shows "closure_recorded r'"
  using assms
proof (induction rule: row_step.induct)
  case (reassigned i p reason user r r')
  then show ?case
    by (auto simp: closure_recorded_def reassign_steps_def cancel_data_def assign_data_def Let_def)
qed (auto simp: closure_recorded_def accept_defs data_defs Let_def split: option.split)

interpretation recorded: row_invariant closure_recorded closes_through_review
  by unfold_locales (rule row_step_recorded)

end
