(* ===== verification/Review_Theorems.thy ===== *)
theory Review_Theorems imports Lifecycle begin

text \<open>
  What the platform's side of the review does: runs of the deadline processor and their repetition,
  reports the processor never reaches, the governance hold over every request, and the governance
  actions that leave a report where the review cannot continue.
\<close>

section \<open>Runs of the deadline processor\<close>

lemma live_run_reports:
  assumes "may_process user" and "report_ids_ok s" and "\<not> dd_dryRun dto" and "trimmed (dd_reason dto) \<noteq> None"
    and "processCompletionReviewDeadlines env user dto s = (res, t)"
  shows "reports t = closed_rows env user (eligible (now env) (deadline_candidates (or_else (dd_limit dto) 100) s))
    (reports s)"
proof -
  have "business t = business s\<lparr>reports := closed_rows env user (eligible (now env)
      (deadline_candidates (or_else (dd_limit dto) 100) s)) (reports s)\<rparr>"
    using deadline_run[OF assms(1-4), of env] assms(5) by auto
  from arg_cong[OF this, of reports] show ?thesis by simp
qed

text \<open>
  The requirement, without the processor's own selection, guards and update: the order of the windows, the batch of
  those that come first, when silence closes a report, what the closure writes, and what each reason for leaving a
  report open says about it.
\<close>

definition sooner :: "report \<Rightarrow> report \<Rightarrow> bool" where
  "sooner q r \<longleftrightarrow> (case (r_completionReviewDeadlineAt q, r_completionReviewDeadlineAt r) of
     (Some d, Some e) \<Rightarrow> d < e \<or> d = e \<and> r_id q < r_id r
   | (Some d, None) \<Rightarrow> True
   | (None, Some e) \<Rightarrow> False
   | (None, None) \<Rightarrow> r_id q < r_id r)"

definition in_batch :: "nat \<Rightarrow> report list \<Rightarrow> report \<Rightarrow> bool" where
  "in_batch limit rows r \<longleftrightarrow> r_completionPolicy r = Some AUTO_CLOSE_AFTER_REVIEW_WINDOW \<and>
     length (filter (\<lambda>q. r_completionPolicy q = Some AUTO_CLOSE_AFTER_REVIEW_WINDOW \<and> sooner q r) rows) < limit"

definition disputed :: "report \<Rightarrow> bool" where
  "disputed r \<longleftrightarrow> r_completionReviewState r = Some ''DISPUTED'' \<or> r_citizenCompletionDecision r = Some DISPUTED \<or>
     r_organizationCompletionDecision r = Some ESCALATED"

definition sent_back :: "report \<Rightarrow> bool" where
  "sent_back r \<longleftrightarrow> r_completionReviewState r = Some ''REWORK_REQUESTED'' \<or> r_citizenCompletionDecision r = Some REWORK_REQUESTED \<or>
     r_organizationCompletionDecision r = Some REWORK_REQUESTED"

definition held :: "report \<Rightarrow> bool" where
  "held r \<longleftrightarrow> r_completionGovernanceHoldReason r \<notin> {None, Some []}"

definition closed_by_silence :: "int \<Rightarrow> report \<Rightarrow> bool" where
  "closed_by_silence at_time r \<longleftrightarrow> (\<exists>d\<in>set_option (r_completionReviewDeadlineAt r). d \<le> at_time) \<and>
     r_status r = COMPLETED_BY_PROVIDER \<and> r_completionReviewProcessedAt r = None \<and> \<not> disputed r \<and> \<not> sent_back r \<and> \<not> held r"

definition silent_closure :: "int \<Rightarrow> jwt_user \<Rightarrow> report \<Rightarrow> report" where
  "silent_closure at_time user r = r\<lparr> r_status := CLOSED, r_completionReviewState := Some ''CLOSED'',
     r_completionReviewProcessedAt := Some at_time, r_completionFinalizedAt := Some at_time,
     r_completionFinalActorType := Some ''SYSTEM_REVIEW_WINDOW'', r_completionFinalizedById := actor_id user,
     r_completionFinalizedByRole := Some (j_role user),
     r_completionFallbackRule := Some ''AUTO_CLOSE_AFTER_REVIEW_WINDOW_DEADLINE_EXPIRED'',
     r_completionClosureReason := Some
       ''Review window expired; fallback closure authority applied without recording citizen or organization approval.'' \<rparr>"

definition reason_holds :: "int \<Rightarrow> string \<Rightarrow> report \<Rightarrow> bool" where
  "reason_holds at_time reason r \<longleftrightarrow> (reason, True) \<in> set
     [(''missing_deadline'', r_completionReviewDeadlineAt r = None),
      (''not_yet_due'', \<exists>d\<in>set_option (r_completionReviewDeadlineAt r). at_time < d),
      (''already_closed'', r_status r = CLOSED),
      (''already_processed'', r_completionReviewProcessedAt r \<noteq> None),
      (''governance_hold'', held r), (''active_dispute'', disputed r), (''active_rework'', sent_back r),
      (''not_awaiting_review'', r_status r \<notin> {CLOSED, COMPLETED_BY_PROVIDER})]"

lemma sooner_key: "sooner q r \<longleftrightarrow> deadline_key q < deadline_key r"
  by (auto simp: sooner_def deadline_key_def less_prod_def' split: option.splits)

lemma closed_by_silence_iff: "closed_by_silence at_time r \<longleftrightarrow> deadline_skip at_time r = None"
  unfolding deadline_skip_None closed_by_silence_def blocked_def disputed_def sent_back_def held_def under_dispute_def rework_required_def
  by (cases "r_completionGovernanceHoldReason r") (auto simp: truthy_def)

lemma silent_closure_eq: "silent_closure (now env) user r = fallback_data env user r"
  by (simp add: silent_closure_def fallback_data_def COMPLETION_REVIEW_WINDOW_FALLBACK_RULE_def)

lemma skip_reason_holds: "deadline_skip at_time r = Some reason \<Longrightarrow> reason_holds at_time reason r"
  by (cases "r_completionGovernanceHoldReason r")
    (auto simp: deadline_skip_def completionDeadlineSkipReason_def reason_holds_def disputed_def sent_back_def held_def
      under_dispute_def rework_required_def truthy_def split: option.splits if_splits)

text \<open>The first of a list in the order of a key are those that fewer others precede.\<close>

lemma take_sort_key_iff:
  fixes key :: "'a \<Rightarrow> 'k :: linorder"
  assumes "inj_on key (set xs)" and "distinct xs"
  shows "x \<in> set (take n (sort_key key xs)) \<longleftrightarrow> x \<in> set xs \<and> length (filter (\<lambda>y. key y < key x) xs) < n"
proof
  let ?ys = "sort_key key xs"
  have count: "length (filter P ?ys) = length (filter P xs)" for P
    by (metis mset_filter mset_sort size_mset)
  assume x: "x \<in> set (take n ?ys)"
  then have "length (filter (\<lambda>y. key y < key x) ?ys) < n" by (intro sorted_take_count) simp_all
  then show "x \<in> set xs \<and> length (filter (\<lambda>y. key y < key x) xs) < n"
    using in_set_takeD[OF x] by (simp add: count)
next
  let ?ys = "sort_key key xs"
  have count: "length (filter P ?ys) = length (filter P xs)" for P
    by (metis mset_filter mset_sort size_mset)
  assume x: "x \<in> set xs \<and> length (filter (\<lambda>y. key y < key x) xs) < n"
  then obtain j where j: "j < length ?ys" "x = ?ys ! j" by (metis in_set_conv_nth set_sort)
  show "x \<in> set (take n ?ys)"
  proof (rule ccontr)
    assume "x \<notin> set (take n ?ys)"
    then have n: "n \<le> j" using j by (metis in_set_conv_nth length_take min_less_iff_conj not_less nth_take)
    have "key y < key x" if "y \<in> set (take n ?ys)" for y
    proof -
      from that obtain k where k: "k < n" "k < length ?ys" "y = ?ys ! k" by (auto simp: in_set_conv_nth)
      then have "key y \<le> key x" using sorted_nth_mono[of "map key ?ys" k j] j n by simp
      moreover have "y \<noteq> x" using k j n assms(2) by (simp add: nth_eq_iff_index_eq)
      then have "key y \<noteq> key x" using assms(1) x that by (metis in_set_takeD inj_onD set_sort)
      ultimately show ?thesis by simp
    qed
    then have "filter (\<lambda>y. key y < key x) (take n ?ys) = take n ?ys" by simp
    then have "n \<le> length (filter (\<lambda>y. key y < key x) ?ys)"
      using n j(1) by (metis append_take_drop_id filter_append le_add1 length_append length_take less_imp_le min.absorb2 order_trans)
    then show False using x by (simp add: count)
  qed
qed

lemma batch_iff:
  assumes "report_ids_ok s"
  shows "r \<in> set (deadline_candidates limit s) \<longleftrightarrow> r \<in> set (reports s) \<and> in_batch limit (reports s) r"
proof -
  let ?rows = "filter (\<lambda>r. r_completionPolicy r = Some AUTO_CLOSE_AFTER_REVIEW_WINDOW) (reports s)"
  have ids: "distinct (map r_id ?rows)"
    using assms unfolding report_ids_ok_def by (rule distinct_map_filter)
  then have "inj_on deadline_key (set ?rows)"
    by (auto simp: distinct_map deadline_key_def intro!: inj_onI dest: inj_onD)
  then show ?thesis
    using take_sort_key_iff[of deadline_key ?rows r limit] ids
    by (auto simp: deadline_candidates_def in_batch_def sooner_key distinct_map conj_commute)
qed

lemma batch_parts:
  assumes "report_ids_ok s"
  shows "mset (filter P (deadline_candidates limit s)) = mset (filter (\<lambda>r. in_batch limit (reports s) r \<and> P r) (reports s))"
proof (rule set_eq_iff_mset_eq_distinct[THEN iffD1])
  show "distinct (filter P (deadline_candidates limit s))"
    using candidates_distinct[OF assms] by (simp add: distinct_map)
  show "distinct (filter (\<lambda>r. in_batch limit (reports s) r \<and> P r) (reports s))"
    using assms by (simp add: report_ids_ok_def distinct_map)
qed (auto simp: batch_iff[OF assms])

lemma skips_ids: "map fst (skips at_time rs) = map r_id (filter (\<lambda>r. \<not> closed_by_silence at_time r) rs)"
  by (induction rs) (auto simp: skips_def List.map_filter_simps closed_by_silence_iff split: option.split)

lemma skips_reasons: "(i, reason) \<in> set (skips at_time rs) \<Longrightarrow> \<exists>r\<in>set rs. r_id r = i \<and> reason_holds at_time reason r"
  using skip_reason_holds by (fastforce simp: skips_def List.map_filter_def)

lemma closed_rows_by_silence:
  assumes "report_ids_ok s"
  shows "closed_rows env user (eligible (now env) (deadline_candidates limit s)) (reports s) =
    map (\<lambda>r. if in_batch limit (reports s) r \<and> closed_by_silence (now env) r then silent_closure (now env) user r else r) (reports s)"
  unfolding closed_rows_def
proof (rule map_cong[OF refl])
  fix r
  assume r: "r \<in> set (reports s)"
  let ?closing = "eligible (now env) (deadline_candidates limit s)"
  have "r_id r \<in> r_id ` set ?closing \<longleftrightarrow> r \<in> set ?closing"
    using assms r batch_iff[OF assms] by (auto simp: report_ids_ok_def distinct_map eligible_def dest: inj_onD)
  also have "\<dots> \<longleftrightarrow> in_batch limit (reports s) r \<and> closed_by_silence (now env) r"
    using r batch_iff[OF assms] by (simp add: eligible_def closed_by_silence_iff)
  finally show "(if r_id r \<in> r_id ` set ?closing then fallback_data env user r else r) =
      (if in_batch limit (reports s) r \<and> closed_by_silence (now env) r then silent_closure (now env) user r else r)"
    by (simp add: silent_closure_eq)
qed

text \<open>
  C13: A live run of the deadline processor, with a reason and by one of the platform's roles, where report ids are
  unique, closes exactly those reports of its batch - the reports with the automatic policy that come first in the
  order of their deadlines - whose review window has passed while they wait for review undisputed, not sent back and
  not on hold. It lists each of them once as processed and every other of the batch once as skipped, with a reason
  that is true of it, and changes nothing else.
\<close>

theorem deadline_run_exact:
  assumes "may_process user" and "report_ids_ok s" and "\<not> dd_dryRun dto" and "trimmed (dd_reason dto) \<noteq> None"
  defines "batch \<equiv> in_batch (or_else (dd_limit dto) 100) (reports s)"
  shows "\<exists>res t. processCompletionReviewDeadlines env user dto s = (Inr res, t) \<and>
    business t = business s\<lparr> reports :=
      map (\<lambda>r. if batch r \<and> closed_by_silence (now env) r then silent_closure (now env) user r else r) (reports s) \<rparr> \<and>
    mset (dr_processed res) = mset (map r_id (filter (\<lambda>r. batch r \<and> closed_by_silence (now env) r) (reports s))) \<and>
    mset (map fst (dr_skipped res)) = mset (map r_id (filter (\<lambda>r. batch r \<and> \<not> closed_by_silence (now env) r) (reports s))) \<and>
    list_all (\<lambda>(i, reason). list_ex (\<lambda>r. r_id r = i \<and> reason_holds (now env) reason r) (reports s)) (dr_skipped res) \<and>
    dr_processedCount res = length (dr_processed res) \<and> dr_skippedCount res = length (dr_skipped res)"
proof -
  let ?cands = "deadline_candidates (or_else (dd_limit dto) 100) s"
  obtain res t where run: "processCompletionReviewDeadlines env user dto s = (Inr res, t)"
      "dr_processed res = map r_id (eligible (now env) ?cands)" "dr_skipped res = skips (now env) ?cands"
      "dr_processedCount res = length (dr_processed res)" "dr_skippedCount res = length (dr_skipped res)"
      "business t = business s\<lparr>reports := closed_rows env user (eligible (now env) ?cands) (reports s)\<rparr>"
    using deadline_run[OF assms(1-4), of env] by blast
  have "mset (dr_processed res) = mset (map r_id (filter (\<lambda>r. batch r \<and> closed_by_silence (now env) r) (reports s)))"
    using batch_parts[OF assms(2), of "closed_by_silence (now env)"] by (simp add: run(2) eligible_def closed_by_silence_iff assms(5))
  moreover have "mset (map fst (dr_skipped res)) = mset (map r_id (filter (\<lambda>r. batch r \<and> \<not> closed_by_silence (now env) r) (reports s)))"
    unfolding run(3) skips_ids mset_map batch_parts[OF assms(2)] assms(5) ..
  moreover have "list_all (\<lambda>(i, reason). list_ex (\<lambda>r. r_id r = i \<and> reason_holds (now env) reason r) (reports s)) (dr_skipped res)"
    using skips_reasons candidates_subset by (fastforce simp: list_all_iff list_ex_iff run(3))
  ultimately show ?thesis
    using run(1,4,5) run(6)[unfolded closed_rows_by_silence[OF assms(2)]] unfolding assms(5) by blast
qed

text \<open>An expired window, one that still runs, and a report on hold.\<close>

definition sample_window :: "string \<Rightarrow> int \<Rightarrow> report" where
  "sample_window i d = sample_report\<lparr> r_id := i, r_completionPolicy := Some AUTO_CLOSE_AFTER_REVIEW_WINDOW,
     r_completionReviewDeadlineAt := Some d \<rparr>"

definition window_rows :: "report list" where
  "window_rows = [sample_window ''w2'' 2000000, sample_window ''w1'' 900000,
     (sample_window ''w3'' 500)\<lparr> r_completionGovernanceHoldReason := Some ''Fraud check'' \<rparr>]"

definition live_run :: deadline_dto where
  "live_run = \<lparr> dd_limit = None, dd_dryRun = False, dd_reason = Some ''Nightly run'' \<rparr>"

theorem deadline_run_exact_witness:
  "\<exists>res t. processCompletionReviewDeadlines sample_env (request_user SUPER_ADMIN ''s1'') live_run (sample_db window_rows) =
      (Inr res, t) \<and> dr_processed res = [''w1''] \<and> set (map fst (dr_skipped res)) = {''w2'', ''w3''} \<and>
    map r_status (reports t) = [COMPLETED_BY_PROVIDER, CLOSED, COMPLETED_BY_PROVIDER]"
proof -
  let ?s = "sample_db window_rows" and ?u = "request_user SUPER_ADMIN ''s1''"
  let ?batch = "in_batch (or_else (dd_limit live_run) 100) (reports ?s)" and ?closes = "closed_by_silence (now sample_env)"
  have parts: "map r_id (filter (\<lambda>r. ?batch r \<and> ?closes r) (reports ?s)) = [''w1'']"
    "map r_id (filter (\<lambda>r. ?batch r \<and> \<not> ?closes r) (reports ?s)) = [''w2'', ''w3'']"
    "map r_status (map (\<lambda>r. if ?batch r \<and> ?closes r then silent_closure (now sample_env) ?u r else r) (reports ?s)) =
      [COMPLETED_BY_PROVIDER, CLOSED, COMPLETED_BY_PROVIDER]"
    by code_simp+
  have "may_process ?u" "report_ids_ok ?s" "\<not> dd_dryRun live_run" "trimmed (dd_reason live_run) \<noteq> None"
    by code_simp+
  from deadline_run_exact[OF this, of sample_env] obtain res t where run:
      "processCompletionReviewDeadlines sample_env ?u live_run ?s = (Inr res, t)"
      "business t = business ?s\<lparr> reports :=
        map (\<lambda>r. if ?batch r \<and> ?closes r then silent_closure (now sample_env) ?u r else r) (reports ?s) \<rparr>"
      "mset (dr_processed res) = mset [''w1'']" "mset (map fst (dr_skipped res)) = mset [''w2'', ''w3'']"
    unfolding parts(1,2) by blast
  have "reports t = map (\<lambda>r. if ?batch r \<and> ?closes r then silent_closure (now sample_env) ?u r else r) (reports ?s)"
    using arg_cong[OF run(2), of reports] by simp
  moreover have "dr_processed res = [''w1'']" using run(3) by simp
  moreover have "set (map fst (dr_skipped res)) = {''w2'', ''w3''}" using run(4) by (metis list.set(1,2) set_mset_mset)
  ultimately show ?thesis using run(1) parts(3) by simp
qed

text \<open>
  Running again at the same instant closes nothing, so the scheduled processor may be started
  twice.
\<close>

theorem deadline_run_idempotent:
  assumes "may_process user" and "report_ids_ok s" and "\<not> dd_dryRun dto" and "trimmed (dd_reason dto) \<noteq> None"
    and "processCompletionReviewDeadlines env user dto s = (res, t)"
  shows "\<exists>res' u. processCompletionReviewDeadlines env user dto t = (Inr res', u) \<and>
    dr_processed res' = [] \<and> reports u = reports t"
proof -
  let ?n = "or_else (dd_limit dto) 100"
  have t: "reports t = closed_rows env user (eligible (now env) (deadline_candidates ?n s)) (reports s)"
    by (rule live_run_reports[OF assms])
  have ids: "report_ids_ok t"
    using deadline.ids_ok[of "(env, user, dto)" s res t] assms(1,2,5) by (simp add: may_process_def)
  have "eligible (now env) (deadline_candidates ?n t) = []"
    by (rule nothing_left[OF t])
  then show ?thesis
    using deadline_run[OF assms(1) ids assms(3,4), of env] by (auto simp: closed_rows_def dest!: arg_cong[where f = reports])
qed

theorem deadline_run_idempotent_witness:
  "\<exists>res' u. processCompletionReviewDeadlines sample_env (request_user SUPER_ADMIN ''s1'') live_run
      (snd (processCompletionReviewDeadlines sample_env (request_user SUPER_ADMIN ''s1'') live_run (sample_db window_rows))) =
    (Inr res', u) \<and> dr_processed res' = [] \<and>
    reports u = reports (snd (processCompletionReviewDeadlines sample_env (request_user SUPER_ADMIN ''s1'') live_run
      (sample_db window_rows)))"
  by (rule deadline_run_idempotent[OF _ _ _ _ surjective_pairing]) code_simp+

section \<open>Reports the processor never reaches\<close>

text \<open>
  The processor selects candidates by policy only. Reports it has closed itself keep their policy
  and their deadline, so they stay in front of the queue.
\<close>

definition ahead_of :: "report \<Rightarrow> report list \<Rightarrow> nat" where
  "ahead_of victim rows = length (filter (\<lambda>r. r_completionPolicy r = Some AUTO_CLOSE_AFTER_REVIEW_WINDOW \<and>
     deadline_key r < deadline_key victim) rows)"

lemma ahead_of_closed_rows: "ahead_of victim (closed_rows env user closing rows) = ahead_of victim rows"
  unfolding ahead_of_def closed_rows_def
  by (induction rows) (simp_all add: fallback_data_def deadline_key_def)

text \<open>
  Once as many reports of the policy as one run looks at have earlier deadlines, whether they
  are already closed or not, an overdue report behind them is closed by no run, now or later: the
  runs keep the reports in front where they are.
\<close>

theorem deadline_starvation:
  assumes "may_process user" and "report_ids_ok s" and "find_report i s = Some victim"
    and "or_else (dd_limit dto) 100 \<le> ahead_of victim (reports s)"
    and "processCompletionReviewDeadlines env user dto s = (res, t)"
  shows "find_report i t = Some victim \<and> ahead_of victim (reports t) = ahead_of victim (reports s)"
proof (cases "dd_dryRun dto \<or> trimmed (dd_reason dto) = None")
  case True
  have "business t = business s"
  proof (cases "dd_dryRun dto")
    case True
    then show ?thesis by (rule dry_run_business[OF assms(5)])
  next
    case False
    then show ?thesis
      using assms(1,5) True
      by (auto simp: processCompletionReviewDeadlines_def may_process_def Let_def requiredGovernanceReason_def svc_run)
  qed
  then show ?thesis using assms(3) by (metis business_fields(1) find_report_business)
next
  case False
  let ?closing = "eligible (now env) (deadline_candidates (or_else (dd_limit dto) 100) s)"
  have t: "reports t = closed_rows env user ?closing (reports s)"
    using live_run_reports[OF assms(1,2) _ _ assms(5)] False by blast
  have victim: "r_id victim = i" "victim \<in> set (reports s)"
    using find_report_SomeD[OF assms(3)] by simp_all
  have out: "victim \<notin> set (deadline_candidates (or_else (dd_limit dto) 100) s)"
    using assms(4) unfolding ahead_of_def by (rule crowded_out)
  have "i \<notin> r_id ` set ?closing"
  proof
    assume "i \<in> r_id ` set ?closing"
    then obtain x where x: "x \<in> set (deadline_candidates (or_else (dd_limit dto) 100) s)" "r_id x = i"
      by (auto simp: eligible_def)
    then have "find_report i s = Some x"
      using find_report_of_member[OF assms(2), of x] candidates_subset by auto
    then show False using x out assms(3) by simp
  qed
  then have "victim \<in> set (reports t)"
    using victim by (auto simp: t closed_rows_def intro!: rev_image_eqI)
  moreover have "report_ids_ok t"
    using deadline.ids_ok[of "(env, user, dto)" s res t] assms(1,2,5) by (simp add: may_process_def)
  ultimately have "find_report i t = Some victim"
    using find_report_of_member victim(1) by blast
  then show ?thesis by (simp add: t ahead_of_closed_rows)
qed

text \<open>A run of one report at a time, with a closed report in front of an overdue one.\<close>

definition one_at_a_time :: deadline_dto where
  "one_at_a_time = live_run\<lparr> dd_limit := Some 1 \<rparr>"

definition closed_front :: report where
  "closed_front = (sample_window ''w0'' 100)\<lparr> r_status := CLOSED \<rparr>"

theorem deadline_starvation_witness:
  "deadline_skip (now sample_env) (sample_window ''w1'' 900000) = None \<and>
   find_report ''w1'' (snd (processCompletionReviewDeadlines sample_env (request_user SUPER_ADMIN ''s1'') one_at_a_time
     (sample_db [closed_front, sample_window ''w1'' 900000]))) = Some (sample_window ''w1'' 900000)"
proof (rule conjI)
  show "find_report ''w1'' (snd (processCompletionReviewDeadlines sample_env (request_user SUPER_ADMIN ''s1'') one_at_a_time
     (sample_db [closed_front, sample_window ''w1'' 900000]))) = Some (sample_window ''w1'' 900000)"
    by (rule conjunct1[OF deadline_starvation[OF _ _ _ _ surjective_pairing]]) code_simp+
qed code_simp

section \<open>The governance hold\<close>

definition on_hold :: "report \<Rightarrow> bool" where
  "on_hold r = truthy (r_completionGovernanceHoldReason r)"

text \<open>Which requests get past a hold: the release, and a plain status change.\<close>

fun passes_hold :: "request \<Rightarrow> bool" where
  "passes_hold (Admin_release i reason user) \<longleftrightarrow> j_role user = SUPER_ADMIN \<and> trimmed reason \<noteq> None"
| "passes_hold (Update_status i dto user) \<longleftrightarrow> True"
| "passes_hold req \<longleftrightarrow> False"

lemma row_step_hold:
  assumes "row_step env s req r r'" and "on_hold r" and "\<not> passes_hold req"
  shows "r_completionGovernanceHoldReason r' = r_completionGovernanceHoldReason r \<and>
    (r_status r' = CLOSED \<longrightarrow> r_status r = CLOSED)"
  using assms
proof (induction rule: row_step.induct)
  case (reassigned i p reason user r r')
  then show ?case
    by (auto simp: reassign_steps_def cancel_data_def assign_data_def Let_def)
qed (auto simp: on_hold_def accept_defs data_defs Let_def deadline_skip_None blocked_def)

text \<open>
  C14: While a report is on hold, no request closes it and none changes the hold, except the super
  admin's release (with a reason) and the status change of an operator.
\<close>

theorem hold_freezes_review:
  assumes "perform env req s = (res, t)" and "authenticated req" and "report_ids_ok s"
    and "find_report i s = Some r" and "on_hold r" and "\<not> passes_hold req"
  shows "\<exists>r'. find_report i t = Some r' \<and>
    r_completionGovernanceHoldReason r' = r_completionGovernanceHoldReason r \<and>
    (r_status r' = CLOSED \<longrightarrow> r_status r = CLOSED)"
  using life.row_future[of "(env, req)" s res t i r] row_step_hold[OF _ assms(5,6)] assms(1-4) by fastforce

text \<open>Both approvals of a held report are given, and it stays open.\<close>

definition held_review :: report where
  "held_review = sample_report\<lparr> r_completionGovernanceHoldReason := Some ''Fraud check'',
     r_organizationCompletionDecision := Some VERIFIED \<rparr>"

theorem hold_freezes_review_witness:
  "\<exists>r'. find_report ''r1'' (snd (perform sample_env (Confirm_completion ''r1'' \<lparr> cd_rating = 5, cd_feedback = None \<rparr>
        (request_user CITIZEN ''c1'')) (sample_db [held_review]))) = Some r' \<and>
    r_completionGovernanceHoldReason r' = Some ''Fraud check''"
proof -
  have "find_report ''r1'' (sample_db [held_review]) = Some held_review" "on_hold held_review"
      "authenticated (Confirm_completion ''r1'' \<lparr> cd_rating = 5, cd_feedback = None \<rparr> (request_user CITIZEN ''c1''))"
      "report_ids_ok (sample_db [held_review])"
      "\<not> passes_hold (Confirm_completion ''r1'' \<lparr> cd_rating = 5, cd_feedback = None \<rparr> (request_user CITIZEN ''c1''))"
      "r_completionGovernanceHoldReason held_review = Some ''Fraud check''"
    by code_simp+
  then show ?thesis
    using hold_freezes_review[OF surjective_pairing] by metis
qed

section \<open>Governance actions that strand a report\<close>

fun review_decision :: "request \<Rightarrow> bool" where
  "review_decision (Confirm_completion i dto user) \<longleftrightarrow> True"
| "review_decision (Reject_completion i reason user) \<longleftrightarrow> True"
| "review_decision (Verify_completion i reason user) \<longleftrightarrow> True"
| "review_decision (Request_rework i reason user) \<longleftrightarrow> True"
| "review_decision req \<longleftrightarrow> False"

lemma decided_row_stuck:
  assumes "row_step env s req r r'" and "review_decision req"
    and "r_citizenCompletionDecision r = Some CONFIRMED" and "r_organizationCompletionDecision r = Some VERIFIED"
  shows False
  using assms by (induction rule: row_step.induct) (auto simp: accept_defs)

text \<open>
  A report that both parties approved and a super admin reopens keeps both approvals, and from
  then on no decision of the citizen or the organization changes it: it can neither be confirmed or
  verified again nor sent back for rework.
\<close>

theorem reopened_review_stuck:
  assumes "adminReopenCompletion env i reason user s = (Inr r', t)" and "find_report i s = Some r"
    and "r_status r = CLOSED" and "r_citizenCompletionDecision r = Some CONFIRMED"
    and "r_organizationCompletionDecision r = Some VERIFIED" and "has_user_id user" and "report_ids_ok s"
    and "review_decision req" and "authenticated req" and "perform env' req t = (res, u)"
  shows "r_status r' = COMPLETED_BY_PROVIDER \<and> find_report i u = Some r'"
proof -
  have t: "find_report i t = Some r'"
    using reopen.result_stored[of "(env, i, reason, user)" s r' t] assms(1,6) by simp
  have "r' = r \<or> r' = reopen_data env r"
    using reopen.row_future[of "(env, i, reason, user)" s "Inr r'" t i r] assms(1,2,6,7) t by auto
  moreover have "r_status r' \<noteq> CLOSED"
    using assms(1,2,3) unfolding adminReopenCompletion_def
    by (elim decision_runE[where c = "\<lambda>_. False" and m = "\<lambda>_. throw (NotFound [])" and i = i, simplified])
      (use assms(6) in \<open>auto intro!: reads_rules quiet_rules dest!: governed_report_InrD simp: reopen_data_def\<close>)
  ultimately have r': "r' = reopen_data env r"
    using assms(3) by auto
  have "report_ids_ok t"
    using reopen.ids_ok[of "(env, i, reason, user)" s "Inr r'" t] assms(1,6,7) by simp
  then have "\<exists>x. find_report i u = Some x \<and> (x = r' \<or> row_step env' t req r' x)"
    using life.row_future[of "(env', req)" t res u i r'] assms(9,10) t by auto
  then show ?thesis
    using decided_row_stuck[of env' t req r'] assms(4,5,8) r' by (auto simp: reopen_data_def)
qed

definition approved_and_closed :: report where
  "approved_and_closed = sample_report\<lparr> r_status := CLOSED, r_citizenCompletionDecision := Some CONFIRMED,
     r_organizationCompletionDecision := Some VERIFIED \<rparr>"

theorem reopened_review_stuck_witness:
  "\<exists>r' t. adminReopenCompletion sample_env ''r1'' (Some ''Complaint'') (request_user SUPER_ADMIN ''s1'')
      (sample_db [approved_and_closed]) = (Inr r', t) \<and>
    find_report ''r1'' (snd (perform sample_env (Reject_completion ''r1'' (Some ''Still broken'') (request_user CITIZEN ''c1'')) t)) =
      Some r'"
proof -
  have "succeeds (adminReopenCompletion sample_env ''r1'' (Some ''Complaint'') (request_user SUPER_ADMIN ''s1''))
      (sample_db [approved_and_closed])" by code_simp
  then obtain r' t where run: "adminReopenCompletion sample_env ''r1'' (Some ''Complaint'') (request_user SUPER_ADMIN ''s1'')
      (sample_db [approved_and_closed]) = (Inr r', t)" by (rule succeedsE)
  have "find_report ''r1'' (snd (perform sample_env (Reject_completion ''r1'' (Some ''Still broken'') (request_user CITIZEN ''c1'')) t)) =
      Some r'"
    by (rule conjunct2[OF reopened_review_stuck[OF run _ _ _ _ _ _ _ _ surjective_pairing]]) code_simp+
  with run show ?thesis by blast
qed

fun dispatch_request :: "request \<Rightarrow> bool" where
  "dispatch_request (Assign_provider i p user options) \<longleftrightarrow> True"
| "dispatch_request (Reassign_provider i p reason user) \<longleftrightarrow> True"
| "dispatch_request (Cancel_assignment i reason user) \<longleftrightarrow> True"
| "dispatch_request (Process_overdue user) \<longleftrightarrow> True"
| "dispatch_request req \<longleftrightarrow> False"

lemma provider_less_row_stuck:
  assumes "row_step env s req r r'" and "dispatch_request req" and "r_status r = ASSIGNED"
    and "r_assignedProviderId r = None" and "r_assignmentDeadlineAt r = None"
  shows False
  using assms
proof (induction rule: row_step.induct)
  case (reassigned i p reason user r r')
  then show ?case
    by (auto simp: reassign_steps_def cancel_accepts_def assign_accepts_def cancel_data_def truthy_def Let_def)
qed (auto simp: accept_defs truthy_def overdue_def)

lemma admin_rework_run:
  assumes "find_report i s = Some r" and "admin_rework_accepts user reason r" and "has_user_id user"
  obtains t where "adminReturnForCompletionRework env i reason user s = (Inr (admin_rework_data (the (trimmed reason)) r), t)"
    and "business t = put_report i (admin_rework_data (the (trimmed reason))) (business s)"
proof -
  have i: "r_id r = i" using find_report_SomeD[OF assms(1)] by simp
  obtain x where x: "trimmed reason = Some x" "x \<noteq> []"
    using assms(2) by (auto simp: admin_rework_accepts_def trimmed_nonempty)
  have guard: "governed_report i user s = (Inr r, s)"
    using assms(1,2) by (simp add: governed_report_def admin_rework_accepts_def assertSuperAdmin_def
        getAdminGovernanceReport_def role_defs)
  let ?eff = "\<lambda>u. sq (recordGovernanceAction env r u user
              \<lparr> gi_action = ''ADMIN_COMPLETION_RETURNED_FOR_REWORK'',
                gi_auditAction = ''Admin Completion Returned For Rework'', gi_reason = x,
                gi_notifyType = ''governance_rework_requested'',
                gi_notifyTitle = ''Report returned for provider rework'', gi_metadata = [] \<rparr>)
            (case nonempty (r_assignedProviderId u) of
               None \<Rightarrow> ret ()
             | Some providerId \<Rightarrow> createNotification (notice providerId i
                 ''governance_rework_requested'' ''Report returned for rework''
                 (''Governance returned '' @ quoted (r_title u) @ '' for provider rework.'')))"
  have "quiet business (?eff u)" for u
    using assms(3) by (intro quiet_rules) auto
  then obtain t where "bnd (update_report i (admin_rework_data x)) (\<lambda>u. sq (?eff u) (ret u)) s = (Inr (admin_rework_data x r), t)"
    and t: "business t = put_report i (admin_rework_data x) (business s)"
    by (rule update_effects_complete[OF assms(1)])
  then have "adminReturnForCompletionRework env i reason user s = (Inr (admin_rework_data x r), t)"
    using guard assms(2) x i
    by (simp add: adminReturnForCompletionRework_def admin_rework_accepts_def requiredGovernanceReason_def)
  with t x that show thesis by simp
qed

text \<open>
  The platform's return for rework looks at no status but the closed one: a report still waiting
  for dispatch becomes an assignment without a provider, which no request of the dispatchers changes
  again.
\<close>

theorem rework_without_provider:
  assumes "find_report i s = Some r" and "r_status r = PENDING" and "r_assignedProviderId r = None"
    and "r_assignmentDeadlineAt r = None" and "admin_rework_accepts user reason r" and "has_user_id user"
    and "report_ids_ok s" and "dispatch_request req" and "authenticated req"
  shows "\<exists>r' t. adminReturnForCompletionRework env i reason user s = (Inr r', t) \<and> r_status r' = ASSIGNED \<and>
    r_assignedProviderId r' = None \<and> find_report i (snd (perform env' req t)) = Some r'"
proof -
  let ?r = "admin_rework_data (the (trimmed reason)) r"
  obtain t where run: "adminReturnForCompletionRework env i reason user s = (Inr ?r, t)"
    by (rule admin_rework_run[OF assms(1,5,6)])
  have t: "find_report i t = Some ?r" "report_ids_ok t"
    using admin_rework.result_stored[of "(env, i, reason, user)" s ?r t]
      admin_rework.ids_ok[of "(env, i, reason, user)" s "Inr ?r" t] run assms(6,7) by simp_all
  have "\<exists>x. find_report i (snd (perform env' req t)) = Some x \<and> (x = ?r \<or> row_step env' t req ?r x)"
    using life.row_future[of "(env', req)" t "fst (perform env' req t)" "snd (perform env' req t)" i ?r] t assms(9) by simp
  moreover have row: "r_status ?r = ASSIGNED" "r_assignedProviderId ?r = None" "r_assignmentDeadlineAt ?r = None"
    using assms(3,4) by (simp_all add: admin_rework_data_def)
  ultimately show ?thesis
    using run provider_less_row_stuck[OF _ assms(8) row] by auto
qed

definition waiting_report :: report where
  "waiting_report = sample_report\<lparr> r_status := PENDING, r_assignedProviderId := None \<rparr>"

theorem rework_without_provider_witness:
  "\<exists>r' t. adminReturnForCompletionRework sample_env ''r1'' (Some ''Redo'') (request_user SUPER_ADMIN ''s1'')
      (sample_db [waiting_report]) = (Inr r', t) \<and> r_status r' = ASSIGNED \<and> r_assignedProviderId r' = None \<and>
    find_report ''r1'' (snd (perform sample_env (Assign_provider ''r1'' ''p1'' (request_user DISPATCH_OFFICER ''d1'') no_options) t)) =
      Some r'"
  by (rule rework_without_provider[where r = waiting_report]) code_simp+

section \<open>An automatic closure without a window\<close>

text \<open>
  Overriding the policy of a report to the automatic closure sets no review window: a report
  that had none is skipped by every run of the deadline processor, at every time.
\<close>

theorem override_without_window:
  assumes "adminOverrideCompletionPolicy env i AUTO_CLOSE_AFTER_REVIEW_WINDOW reason user s = (Inr r', t)"
    and "find_report i s = Some r" and "r_completionReviewDeadlineAt r = None" and "has_user_id user"
    and "report_ids_ok s" and "has_user_id op"
  shows "find_report i (snd (processCompletionReviewDeadlines env' op dto t)) = Some r' \<and>
    deadline_skip (now env') r' = Some ''missing_deadline''"
proof -
  have t: "find_report i t = Some r'" "report_ids_ok t"
    using override.result_stored[of "(env, i, AUTO_CLOSE_AFTER_REVIEW_WINDOW, reason, user)" s r' t]
      override.ids_ok[of "(env, i, AUTO_CLOSE_AFTER_REVIEW_WINDOW, reason, user)" s "Inr r'" t] assms(1,4,5) by simp_all
  have "r' = r \<or> r' = override_data AUTO_CLOSE_AFTER_REVIEW_WINDOW r"
    using override.row_future[of "(env, i, AUTO_CLOSE_AFTER_REVIEW_WINDOW, reason, user)" s "Inr r'" t i r]
      assms(1,2,4,5) t by auto
  then have none: "r_completionReviewDeadlineAt r' = None"
    using assms(3) by (auto simp: override_data_def)
  then have skip: "deadline_skip (now env') r' = Some ''missing_deadline''"
    by (simp add: deadline_skip_def)
  have "\<exists>x. find_report i (snd (processCompletionReviewDeadlines env' op dto t)) = Some x \<and>
      (x = r' \<or> deadline_skip (now env') r' = None)"
    using deadline.row_future[of "(env', op, dto)" t "fst (processCompletionReviewDeadlines env' op dto t)"
        "snd (processCompletionReviewDeadlines env' op dto t)" i r'] t assms(6) by auto
  then show ?thesis using skip by auto
qed

theorem override_without_window_witness:
  "\<exists>r' t. adminOverrideCompletionPolicy sample_env ''r1'' AUTO_CLOSE_AFTER_REVIEW_WINDOW (Some ''Citizen silent'')
      (request_user SUPER_ADMIN ''s1'') (sample_db [sample_report]) = (Inr r', t) \<and>
    r_completionPolicy r' = Some AUTO_CLOSE_AFTER_REVIEW_WINDOW \<and>
    find_report ''r1'' (snd (processCompletionReviewDeadlines (sample_env\<lparr>now := 99999999999\<rparr>)
      (request_user SUPER_ADMIN ''s1'') live_run t)) = Some r'"
proof -
  let ?m = "adminOverrideCompletionPolicy sample_env ''r1'' AUTO_CLOSE_AFTER_REVIEW_WINDOW (Some ''Citizen silent'')
      (request_user SUPER_ADMIN ''s1'') (sample_db [sample_report])"
  have "(case fst ?m of Inl e \<Rightarrow> False | Inr r \<Rightarrow> r_completionPolicy r = Some AUTO_CLOSE_AFTER_REVIEW_WINDOW)"
    by code_simp
  then obtain r' t where run: "?m = (Inr r', t)" "r_completionPolicy r' = Some AUTO_CLOSE_AFTER_REVIEW_WINDOW"
    by (cases ?m) (auto split: sum.splits)
  have "find_report ''r1'' (snd (processCompletionReviewDeadlines (sample_env\<lparr>now := 99999999999\<rparr>)
      (request_user SUPER_ADMIN ''s1'') live_run t)) = Some r'"
    by (rule conjunct1[OF override_without_window[OF run(1)]]) code_simp+
  with run show ?thesis by blast
qed

end
