(* ===== verification/Rule_Theorems.thy ===== *)
theory Rule_Theorems imports Completion_Theorems Category_Admin Organization_Intake begin

text \<open>
  What the rules behind the handlers guarantee: the review a completion starts, category policies and
  what the resolution makes of them, category names, module access, stored image references, and the
  platform's access requirements.
\<close>

section \<open>A completion starts a fresh review\<close>

definition fresh_review :: "env \<Rightarrow> report \<Rightarrow> bool" where
  "fresh_review env r \<longleftrightarrow> r_status r = COMPLETED_BY_PROVIDER \<and>
     r_citizenCompletionDecision r = Some D_PENDING \<and> r_organizationCompletionDecision r = Some D_PENDING \<and>
     \<not> under_dispute r \<and> \<not> rework_required r \<and>
     r_completionReviewProcessedAt r = None \<and> r_completionFinalizedAt r = None \<and>
     r_completionFinalizedByRole r = None \<and> r_completionClosureReason r = None \<and>
     (r_completionReviewDeadlineAt r = None) = (policyForReport env r \<noteq> AUTO_CLOSE_AFTER_REVIEW_WINDOW)"

lemma completion_data_fresh:
  assumes "us_status dto = COMPLETED_BY_PROVIDER"
  shows "fresh_review env (completion_data env dto c r)"
  using assms
  by (auto simp: fresh_review_def completion_data_def under_dispute_def rework_required_def reviewStateFor_def
      policyForReport_def reviewDeadlineFor_def)

text \<open>
  A completion that is accepted comes from work in progress, brings evidence (an image of its
  own or one uploaded before), and starts the review afresh: nothing is left of the decisions, the
  dispute or the closure of an earlier attempt, and a window is set exactly for automatic closure.
\<close>

theorem completion_starts_review:
  assumes "updateStatus env i dto user s = (Inr r', t)" and "us_status dto = COMPLETED_BY_PROVIDER"
    and "report_ids_ok s" and "find_report i s = Some r"
  shows "fresh_review env r' \<and> r_status r = IN_PROGRESS \<and> may_move user r COMPLETED_BY_PROVIDER \<and>
    (truthy (r_completionImagePath r') \<or> truthy (r_completionImageUrl r') \<or> has_uploaded_evidence i s) \<and>
    find_report i t = Some r'"
proof -
  obtain c where c: "status_accepts env dto user r" "completion_ok env i dto s r c" "r' = status_data env dto c r"
      "reports t = reports (put_report i (status_data env dto c) s)"
    using update_status_outcome[OF assms(1,3)] assms(4) by auto
  then obtain x where x: "c = Some x" "truthy (co_imagePath x) \<or> truthy (co_imageUrl x) \<or> has_uploaded_evidence i s"
    using assms(2) by (auto simp: completion_ok_def split: option.splits)
  have r': "r' = completion_data env dto x r"
    using c(3) x(1) by (simp add: status_data_def)
  have "workflow_step (r_status r) COMPLETED_BY_PROVIDER" "may_move user r COMPLETED_BY_PROVIDER"
    using c(1) assms(2) by (simp_all add: status_accepts_def)
  moreover from this have "r_status r = IN_PROGRESS"
    by (cases "r_status r") (simp_all add: workflow_step_def)
  moreover have "find_report i t = find_report i (put_report i (status_data env dto c) s)"
    by (rule find_report_cong[OF c(4)])
  then have "find_report i t = Some r'"
    using assms(4) c(3) by (simp add: report_table.find_put_same status_data_def completion_data_def split: option.split)
  ultimately show ?thesis
    using x(2) completion_data_fresh[OF assms(2)] by (auto simp: r' completion_data_def)
qed

definition report_in_progress :: report where
  "report_in_progress = sample_report\<lparr> r_status := IN_PROGRESS, r_citizenCompletionDecision := Some REWORK_REQUESTED,
     r_completionReviewState := Some ''REWORK_REQUESTED'' \<rparr>"

definition completion_dto :: status_dto where
  "completion_dto = close_dto\<lparr> us_status := COMPLETED_BY_PROVIDER,
     us_completionImagePath := Some ''report-completion/a.png'' \<rparr>"

theorem completion_starts_review_witness:
  "\<exists>r' t. updateStatus sample_env ''r1'' completion_dto (request_user PROVIDER ''p1'') (sample_db [report_in_progress]) =
     (Inr r', t) \<and> fresh_review sample_env r'"
proof -
  have "succeeds (updateStatus sample_env ''r1'' completion_dto (request_user PROVIDER ''p1'')) (sample_db [report_in_progress])"
    by code_simp
  then obtain r' t where run: "updateStatus sample_env ''r1'' completion_dto (request_user PROVIDER ''p1'')
      (sample_db [report_in_progress]) = (Inr r', t)" by (rule succeedsE)
  have "fresh_review sample_env r'"
    by (rule conjunct1[OF completion_starts_review[OF run]]) code_simp+
  with run show ?thesis by blast
qed

section \<open>Policies of service categories\<close>

text \<open>
  What a super admin stores for a service category is what the resolution answers for it
  afterwards, under every spelling of the category, when no other stored category is compatible.
\<close>

theorem category_policy_roundtrip:
  assumes "setCategoryCompletionPolicy user dto s = (Inr x, t)" and "\<not> truthy (cp_organizationId dto)"
    and "isolated (normalizeResponsibilityCategory (cp_category dto))
           (object_entries (map_of (platformSettings s) ''completionPoliciesByCategory''))"
    and "normalizeResponsibilityCategory category = normalizeResponsibilityCategory (cp_category dto)"
  shows "completionPolicyFromPlatformCategory env category t = Some (cp_policy dto)"
  using platform_policy_roundtrip[OF assms(1-3), of env] assms(4)
  by (simp add: completionPolicyFromPlatformCategory_def Let_def)

definition road_policy :: category_policy_dto where
  "road_policy = \<lparr> cp_category = ''Road & Drainage'', cp_policy = BOTH_REQUIRED, cp_reason = Some ''Safety'',
     cp_organizationId = None \<rparr>"

theorem category_policy_roundtrip_witness:
  "\<exists>x t. setCategoryCompletionPolicy (request_user SUPER_ADMIN ''s1'') road_policy (sample_db [sample_report]) = (Inr x, t) \<and>
    completionPolicyFromPlatformCategory sample_env ''road and  DRAINAGE'' t = Some BOTH_REQUIRED"
proof -
  let ?m = "setCategoryCompletionPolicy (request_user SUPER_ADMIN ''s1'') road_policy"
  have "succeeds ?m (sample_db [sample_report])" by code_simp
  then obtain x t where run: "?m (sample_db [sample_report]) = (Inr x, t)" by (rule succeedsE)
  have "completionPolicyFromPlatformCategory sample_env ''road and  DRAINAGE'' t = Some (cp_policy road_policy)"
    by (rule category_policy_roundtrip[OF run]) code_simp+
  then show ?thesis using run by (simp add: road_policy_def)
qed

text \<open>
  A stored category in front answers for every category compatible with it: a policy stored for
  such a category is then never used.
\<close>

theorem category_policy_shadowed:
  assumes "setCategoryCompletionPolicy user dto s = (Inr x, t)" and "\<not> truthy (cp_organizationId dto)"
    and "object_entries (map_of (platformSettings s) ''completionPoliciesByCategory'') = (c, jpolicy p) # older"
    and "c \<noteq> normalizeResponsibilityCategory (cp_category dto)"
    and "categoriesCompatible (normalizeResponsibilityCategory c) (normalizeResponsibilityCategory (cp_category dto))"
  shows "completionPolicyFromPlatformCategory env (cp_category dto) t = Some p"
proof -
  let ?c = "normalizeResponsibilityCategory (cp_category dto)"
  from setCategoryCompletionPolicy_platform[OF assms(1,2)]
  have nonempty: "?c \<noteq> []" and t: "business t = business s\<lparr>platformSettings :=
      jset ''completionPoliciesByCategory'' (JObj (jset ?c (jpolicy (cp_policy dto)) ((c, jpolicy p) # older)))
        (platformSettings s)\<rparr>"
    using assms(3) by simp_all
  have "platformSettings t = platformSettings (business t)" by simp
  then have "map_of (platformSettings t) ''completionPoliciesByCategory'' =
      Some (JObj (jset ?c (jpolicy (cp_policy dto)) ((c, jpolicy p) # older)))"
    unfolding t by simp
  then show ?thesis
    using nonempty assms(4,5)
    by (simp add: completionPolicyFromPlatformCategory_def Let_def policyFromCategoryRecord_def jset_def jpolicy_def)
qed

definition road_settings :: db where
  "road_settings = sample_db [sample_report]\<lparr> platformSettings := [(''completionPoliciesByCategory'',
     JObj [(''road'', jpolicy CITIZEN_CONFIRMATION_REQUIRED)])] \<rparr>"

theorem category_policy_shadowed_witness:
  "\<exists>x t. setCategoryCompletionPolicy (request_user SUPER_ADMIN ''s1'') road_policy road_settings = (Inr x, t) \<and>
    completionPolicyFromPlatformCategory sample_env ''Road & Drainage'' t = Some CITIZEN_CONFIRMATION_REQUIRED"
proof -
  let ?m = "setCategoryCompletionPolicy (request_user SUPER_ADMIN ''s1'') road_policy"
  have "succeeds ?m road_settings" by code_simp
  then obtain x t where run: "?m road_settings = (Inr x, t)" by (rule succeedsE)
  have "completionPolicyFromPlatformCategory sample_env (cp_category road_policy) t = Some CITIZEN_CONFIRMATION_REQUIRED"
    by (rule category_policy_shadowed[OF run, where c = "''road''" and older = "[]"]) (code_simp+)
  then show ?thesis using run by (simp add: road_policy_def)
qed

section \<open>Category names\<close>

text \<open>
  C15: The normal form of a category name consists of words of lower-case letters and digits joined
  by single underscores; normalizing again changes nothing, and compatibility of two names does not
  depend on their order.
\<close>

theorem category_names_normal:
  "category_normal (normalizeResponsibilityCategory v) \<and>
   normalizeResponsibilityCategory (normalizeResponsibilityCategory v) = normalizeResponsibilityCategory v \<and>
   categoriesCompatible a b = categoriesCompatible b a"
  using normalize_normal normalize_of_normal compatible_commute by blast

section \<open>Module access\<close>

definition organization_missing :: "module_access_user \<Rightarrow> module_access_requirement \<Rightarrow> bool" where
  "organization_missing user q \<longleftrightarrow> q_requiresOrganization q \<and> mu_role user \<noteq> Some SUPER_ADMIN \<and>
     \<not> truthy (mu_organizationId user)"

text \<open>
  Access to a module is granted exactly for the maintenance module, to a user with a required
  role, level and plan who has an organization where one is needed; which modules the organization
  has enabled makes no difference.
\<close>

theorem module_access_exact:
  "x_allowed (evaluateAccess user q s) \<longleftrightarrow>
     q_moduleKey q = ''maintenance'' \<and> \<not> role_missing user q \<and> \<not> level_missing user q \<and> \<not> plan_missing user q \<and>
     \<not> organization_missing user q"
  unfolding organization_missing_def
  using access_allowed_maintenance access_maintenance_iff by blast

section \<open>Stored image references\<close>

text \<open>
  C40: Whatever image reference a provider hands in, what is stored is a path inside one of the three
  upload folders, without empty or dot segments and only of plain characters, with its address, or an
  http address, or nothing.
\<close>

theorem stored_reference_safe:
  "let (url, path) = normalizeCompletionEvidenceFields env imageUrl imagePath in
   case path of
     Some p \<Rightarrow> safe_upload_path p \<and> url = Some (''/uploads/'' @ p)
   | None \<Rightarrow> (case url of None \<Rightarrow> True | Some u \<Rightarrow> is_http u)"
  by (cases "normalizeCompletionEvidenceFields env imageUrl imagePath")
    (auto dest: stored_evidence_safe split: option.split)

end
