(* ===== verification/Internal_Roles.thy ===== *)
theory Internal_Roles imports Recording begin

text \<open>
  Delegated administration of the platform (\<open>internal-admin\<close>): the catalog of internal roles with
  their permissions (\<open>internal-role-catalog.ts\<close>), the feature flags some of them need, and the
  evaluation of a user's effective permissions and scopes (\<open>internal-admin.service.ts\<close>, lines 757-900).
\<close>

section \<open>The user of an administrative request\<close>

record admin_user = jwt_user +
  au_accountStatus :: "account_status option"
  au_preferredLocale :: "string option"

abbreviation requesting :: "admin_user \<Rightarrow> jwt_user" where
  "requesting \<equiv> jwt_user.truncate"

definition admin_actor :: "admin_user \<Rightarrow> ('s, string) svc" where
  "admin_actor user = require (Forbidden ''Actor missing.'') (nonempty (actor_id (requesting user)))"

section \<open>The catalog\<close>

definition internalAdminPermissionKeys :: "string list" where
  "internalAdminPermissionKeys =
    [''internal_admin.read'', ''internal_admin.invite'', ''internal_admin.assign_role'',
     ''internal_admin.change_scope'', ''internal_admin.suspend'', ''internal_admin.revoke_sessions'',
     ''internal_admin.view_audit'', ''organization.review'', ''organization.manage'', ''provider.review'',
     ''provider.manage'', ''report.operations'', ''support.account_assistance'', ''compliance.audit_read'',
     ''investigation.manage'', ''asset_intelligence.manage'', ''security.session_manage'',
     ''release.readiness_manage'', ''backup.verify'', ''backup.restore_request'', ''payment.plan_read'',
     ''payment.plan_manage'', ''payment.transaction_read'', ''payment.reconciliation_manage'',
     ''payment.refund_request'', ''payment.refund_approve'', ''payment.configuration_manage'']"

record role_definition =
  rd_role :: user_role
  rd_canonicalName :: string
  rd_displayName :: string
  rd_description :: string
  rd_permissions :: "string list"
  rd_defaultScopeType :: internal_scope_type
  rd_requiresEnterpriseFeature :: "string option"
  rd_highRiskGrant :: bool
  rd_reusedExistingRole :: "user_role option"
  rd_version :: int

definition internalRoleCatalog :: "role_definition list" where
  "internalRoleCatalog =
    [\<lparr> rd_role = PLATFORM_SUPER_ADMIN, rd_canonicalName = ''PLATFORM_SUPER_ADMIN'',
       rd_displayName = ''Platform Super Admin'',
       rd_description = ''Top-level internal administrator. Grants require dual approval.'',
       rd_permissions = internalAdminPermissionKeys, rd_defaultScopeType = SC_PLATFORM,
       rd_requiresEnterpriseFeature = None, rd_highRiskGrant = True,
       rd_reusedExistingRole = Some SUPER_ADMIN, rd_version = 1 \<rparr>,
     \<lparr> rd_role = OPERATIONS_ADMIN, rd_canonicalName = ''OPERATIONS_ADMIN'',
       rd_displayName = ''Operations Admin'',
       rd_description = ''Manages report operations and routing readiness.'',
       rd_permissions = [''report.operations'', ''organization.review''], rd_defaultScopeType = SC_MODULE,
       rd_requiresEnterpriseFeature = None, rd_highRiskGrant = False,
       rd_reusedExistingRole = None, rd_version = 1 \<rparr>,
     \<lparr> rd_role = ORGANIZATION_ONBOARDING_ADMIN, rd_canonicalName = ''ORGANIZATION_ONBOARDING_ADMIN'',
       rd_displayName = ''Organization Onboarding Admin'',
       rd_description = ''Reviews and manages customer organization onboarding.'',
       rd_permissions = [''organization.review'', ''organization.manage''], rd_defaultScopeType = SC_ORGANIZATION,
       rd_requiresEnterpriseFeature = None, rd_highRiskGrant = False,
       rd_reusedExistingRole = None, rd_version = 1 \<rparr>,
     \<lparr> rd_role = PROVIDER_ADMIN, rd_canonicalName = ''PROVIDER_ADMIN'',
       rd_displayName = ''Provider Admin'',
       rd_description = ''Reviews and manages provider onboarding and records.'',
       rd_permissions = [''provider.review'', ''provider.manage''], rd_defaultScopeType = SC_ORGANIZATION,
       rd_requiresEnterpriseFeature = None, rd_highRiskGrant = False,
       rd_reusedExistingRole = None, rd_version = 1 \<rparr>,
     \<lparr> rd_role = FINANCE_BILLING_ADMIN, rd_canonicalName = ''FINANCE_BILLING_ADMIN'',
       rd_displayName = ''Finance Billing Admin'',
       rd_description = ''Reads billing records and performs payment reconciliation.'',
       rd_permissions = [''payment.plan_read'', ''payment.transaction_read'', ''payment.reconciliation_manage'',
         ''payment.refund_request''], rd_defaultScopeType = SC_PLATFORM,
       rd_requiresEnterpriseFeature = None, rd_highRiskGrant = False,
       rd_reusedExistingRole = Some BILLING_ADMIN, rd_version = 1 \<rparr>,
     \<lparr> rd_role = SUPPORT_ADMIN, rd_canonicalName = ''SUPPORT_ADMIN'',
       rd_displayName = ''Support Admin'',
       rd_description = ''Assists accounts without platform finance authority.'',
       rd_permissions = [''support.account_assistance'', ''internal_admin.read''], rd_defaultScopeType = SC_PLATFORM,
       rd_requiresEnterpriseFeature = None, rd_highRiskGrant = False,
       rd_reusedExistingRole = None, rd_version = 1 \<rparr>,
     \<lparr> rd_role = COMPLIANCE_AUDIT_ADMIN, rd_canonicalName = ''COMPLIANCE_AUDIT_ADMIN'',
       rd_displayName = ''Compliance Audit Admin'',
       rd_description = ''Reads audit evidence and compliance history.'',
       rd_permissions = [''compliance.audit_read'', ''internal_admin.view_audit''], rd_defaultScopeType = SC_PLATFORM,
       rd_requiresEnterpriseFeature = None, rd_highRiskGrant = False,
       rd_reusedExistingRole = Some COMPLIANCE_ADMIN, rd_version = 1 \<rparr>,
     \<lparr> rd_role = SECURITY_ADMIN, rd_canonicalName = ''SECURITY_ADMIN'',
       rd_displayName = ''Security Admin'',
       rd_description = ''Manages privileged sessions and security review actions.'',
       rd_permissions = [''security.session_manage'', ''internal_admin.revoke_sessions'',
         ''internal_admin.view_audit''], rd_defaultScopeType = SC_PLATFORM,
       rd_requiresEnterpriseFeature = None, rd_highRiskGrant = False,
       rd_reusedExistingRole = None, rd_version = 1 \<rparr>,
     \<lparr> rd_role = INVESTIGATION_ADMIN, rd_canonicalName = ''INVESTIGATION_ADMIN'',
       rd_displayName = ''Investigation Admin'',
       rd_description = ''Reserved for the disabled investigation foundation.'',
       rd_permissions = [''investigation.manage''], rd_defaultScopeType = SC_MODULE,
       rd_requiresEnterpriseFeature = Some ''investigation'', rd_highRiskGrant = False,
       rd_reusedExistingRole = None, rd_version = 1 \<rparr>,
     \<lparr> rd_role = ASSET_INTELLIGENCE_ADMIN, rd_canonicalName = ''ASSET_INTELLIGENCE_ADMIN'',
       rd_displayName = ''Asset Intelligence Admin'',
       rd_description = ''Reserved for the disabled asset intelligence foundation.'',
       rd_permissions = [''asset_intelligence.manage''], rd_defaultScopeType = SC_MODULE,
       rd_requiresEnterpriseFeature = Some ''asset_intelligence'', rd_highRiskGrant = False,
       rd_reusedExistingRole = Some ASSET_ADMIN, rd_version = 1 \<rparr>,
     \<lparr> rd_role = RELEASE_OPERATIONS_ADMIN, rd_canonicalName = ''RELEASE_OPERATIONS_ADMIN'',
       rd_displayName = ''Release Operations Admin'',
       rd_description = ''Manages release readiness evidence, not deployments.'',
       rd_permissions = [''release.readiness_manage'', ''backup.verify''], rd_defaultScopeType = SC_PLATFORM,
       rd_requiresEnterpriseFeature = None, rd_highRiskGrant = False,
       rd_reusedExistingRole = None, rd_version = 1 \<rparr>,
     \<lparr> rd_role = BACKUP_RECOVERY_ADMIN, rd_canonicalName = ''BACKUP_RECOVERY_ADMIN'',
       rd_displayName = ''Backup Recovery Admin'',
       rd_description = ''Verifies backups and requests restore authorization.'',
       rd_permissions = [''backup.verify'', ''backup.restore_request''], rd_defaultScopeType = SC_PLATFORM,
       rd_requiresEnterpriseFeature = None, rd_highRiskGrant = False,
       rd_reusedExistingRole = None, rd_version = 1 \<rparr>]"

definition resolveInternalRoleDefinition :: "user_role \<Rightarrow> role_definition option" where
  "resolveInternalRoleDefinition role = find (\<lambda>d. rd_role d = role) internalRoleCatalog"

definition enterpriseFlagEnabled :: "string option \<Rightarrow> bool" where
  "enterpriseFlagEnabled value = (map_option (\<lambda>v. toLowerCase (trim v)) value = Some ''true'')"

text \<open>\<open>feature.toUpperCase().replace(/[^A-Z0-9]+/g, '_')\<close>.\<close>

fun env_key :: "bool \<Rightarrow> string \<Rightarrow> string" where
  "env_key in_run [] = []"
| "env_key in_run (c # cs) =
     (if (let n = of_char c :: nat in 65 \<le> n \<and> n \<le> 90 \<or> 48 \<le> n \<and> n \<le> 57) then c # env_key False cs
      else if in_run then env_key True cs
      else CHR 0x5F # env_key True cs)"

definition roleDefinitionEnabled :: "env \<Rightarrow> role_definition \<Rightarrow> bool" where
  "roleDefinitionEnabled env d =
     (case nonempty (rd_requiresEnterpriseFeature d) of
        None \<Rightarrow> True
      | Some feature \<Rightarrow>
          enterpriseFlagEnabled (envVar env ''SECUREZONE_ENTERPRISE_FOUNDATIONS_ENABLED'') \<and>
          enterpriseFlagEnabled (envVar env (''SECUREZONE_'' @ env_key False (toUpperCase feature) @ ''_ENABLED'')))"

section \<open>Effective permissions\<close>

record internal_scope =
  is_type :: internal_scope_type
  is_ref :: "string option"
  is_organizationId :: "string option"
  is_moduleKey :: "string option"
  is_jurisdiction :: "json option"

record effective_permissions =
  ep_userId :: string
  ep_role :: user_role
  ep_permissions :: "string list"
  ep_scopes :: "internal_scope list"

definition permissionsForRole :: "env \<Rightarrow> user_role \<Rightarrow> string list" where
  "permissionsForRole env role =
     (if role = SUPER_ADMIN then internalAdminPermissionKeys
      else case resolveInternalRoleDefinition role of
             None \<Rightarrow> []
           | Some d \<Rightarrow> if roleDefinitionEnabled env d then rd_permissions d else [])"

definition permissionArray :: "json \<Rightarrow> string list" where
  "permissionArray raw = (case raw of
     JArr items \<Rightarrow> List.map_filter (\<lambda>item. case item of
        JStr x \<Rightarrow> if x \<in> set internalAdminPermissionKeys then Some x else None | _ \<Rightarrow> None) items
   | _ \<Rightarrow> [])"

definition objectRecord :: "json option \<Rightarrow> (string \<times> json) list" where
  "objectRecord raw = (case raw of Some (JObj kvs) \<Rightarrow> kvs | _ \<Rightarrow> [])"

definition active_assignment :: "env \<Rightarrow> string \<Rightarrow> internal_role_assignment \<Rightarrow> bool" where
  "active_assignment env userId a \<longleftrightarrow> ia_userId a = userId \<and> ia_status a = IA_ACTIVE \<and> ia_startsAt a \<le> now env \<and>
     (case ia_expiresAt a of None \<Rightarrow> True | Some t \<Rightarrow> t > now env)"

definition assignment_scope :: "internal_role_assignment \<Rightarrow> internal_scope" where
  "assignment_scope a = \<lparr> is_type = ia_scopeType a, is_ref = ia_scopeRef a, is_organizationId = ia_organizationId a,
     is_moduleKey = ia_moduleKey a, is_jurisdiction = Some (JObj (objectRecord (ia_jurisdiction a))) \<rparr>"

definition emptyEffective :: "string \<Rightarrow> user_role \<Rightarrow> effective_permissions" where
  "emptyEffective userId role = \<lparr> ep_userId = userId, ep_role = role, ep_permissions = [], ep_scopes = [] \<rparr>"

definition effective_of ::
    "env \<Rightarrow> string \<Rightarrow> user_role \<Rightarrow> string option \<Rightarrow> 's tables_scheme \<Rightarrow> effective_permissions" where
  "effective_of env userId role organizationId s =
     (let rolePermissions = permissionsForRole env role;
          assignments = filter (active_assignment env userId) (internalRoleAssignments s)
      in \<lparr> ep_userId = userId, ep_role = role,
           ep_permissions = uniq (rolePermissions @
             concat (map (\<lambda>a. permissionArray (ia_permissionsSnapshot a)) assignments)),
           ep_scopes =
             (if rolePermissions = [] then []
              else [\<lparr> is_type = SC_PLATFORM, is_ref = None, is_organizationId = organizationId,
                      is_moduleKey = None, is_jurisdiction = None \<rparr>]) @ map assignment_scope assignments \<rparr>)"

text \<open>
  The requesting user's own row comes with the request, anyone else's from the database.
\<close>

definition effectivePermissionsForUser ::
    "env \<Rightarrow> string \<Rightarrow> admin_user option \<Rightarrow> ('s tables_scheme, effective_permissions) svc" where
  "effectivePermissionsForUser env targetUserId requestUser =
     bnd (case requestUser of None \<Rightarrow> ret None
          | Some u \<Rightarrow> bnd (admin_actor u) (\<lambda>i. ret (if i = targetUserId then Some u else None))) (\<lambda>own.
     bnd (case own of
            Some u \<Rightarrow> ret (j_role u, j_organizationId u, au_accountStatus u)
          | None \<Rightarrow> bnd (gets (find_user targetUserId)) (\<lambda>found.
              bnd (require (NotFound ''Administrator not found'') found) (\<lambda>u.
                ret (u_role u, u_organizationId u, Some (u_accountStatus u))))) (\<lambda>(role, organizationId, status).
       if status = Some SUSPENDED then ret (emptyEffective targetUserId role)
       else gets (effective_of env targetUserId role organizationId)))"

definition effectivePermissions :: "env \<Rightarrow> admin_user \<Rightarrow> ('s tables_scheme, effective_permissions) svc" where
  "effectivePermissions env user = bnd (admin_actor user) (\<lambda>i. effectivePermissionsForUser env i (Some user))"

definition scope_covers :: "string \<Rightarrow> internal_scope \<Rightarrow> bool" where
  "scope_covers organizationId scope \<longleftrightarrow> is_type scope = SC_PLATFORM \<or>
     is_organizationId scope = Some organizationId \<or> is_ref scope = Some organizationId"

definition hasPermission :: "env \<Rightarrow> admin_user \<Rightarrow> string \<Rightarrow> string option \<Rightarrow> ('s tables_scheme, bool) svc" where
  "hasPermission env user permission organizationId =
     catch
       (bnd (effectivePermissions env user) (\<lambda>effective.
          ret (permission \<in> set (ep_permissions effective) \<and>
            (case nonempty organizationId of
               None \<Rightarrow> True
             | Some i \<Rightarrow> list_ex (scope_covers i) (ep_scopes effective) \<or> j_organizationId user = Some i))))
       (\<lambda>e. ret False)"

section \<open>Audit\<close>

record request_context =
  rq_ipAddress :: "string option"
  rq_userAgent :: "string option"

definition admin_audit ::
    "string \<Rightarrow> admin_user \<Rightarrow> request_context option \<Rightarrow> string option \<Rightarrow> string option \<Rightarrow> (string \<times> json) list \<Rightarrow>
      unit handler" where
  "admin_audit action user context entityType entityId metadata =
     bnd (admin_actor user) (\<lambda>i.
       modify (complianceAuditLogs_update (\<lambda>rows. rows @
         [\<lparr> c_action = action, c_actorId = Some i, c_actorRole = Some (j_role user),
            c_organizationId = j_organizationId user, c_entityType = entityType, c_entityId = entityId,
            c_metadata = spread metadata
              [(''ipAddress'', jopt JStr (Option.bind context rq_ipAddress)),
               (''userAgent'', jopt JStr (Option.bind context rq_userAgent))] \<rparr>])))"

definition auditDenied ::
    "admin_user \<Rightarrow> request_context option \<Rightarrow> string \<Rightarrow> (string \<times> json) list \<Rightarrow> unit handler" where
  "auditDenied user context reason metadata =
     admin_audit ''Internal Admin Privilege Denied'' user context (Some ''InternalAdmin'') None
       (spread [(''reason'', JStr reason)] metadata)"

definition assertPermission ::
    "env \<Rightarrow> admin_user \<Rightarrow> string \<Rightarrow> string option \<Rightarrow> request_context option \<Rightarrow> unit handler" where
  "assertPermission env user permission organizationId context =
     bnd (hasPermission env user permission organizationId) (\<lambda>has.
       if has then ret ()
       else sq (auditDenied user context ''permission_denied''
                  [(''permission'', JStr permission), (''organizationId'', jopt JStr organizationId)])
          (throw (Forbidden (''Permission required: '' @ permission))))"

section \<open>Lemmas\<close>

text \<open>What a user's permissions are, with the request's own copy of the user's row.\<close>

definition permitted :: "env \<Rightarrow> admin_user \<Rightarrow> string \<Rightarrow> string option \<Rightarrow> 's tables_scheme \<Rightarrow> bool" where
  "permitted env user permission organizationId s \<longleftrightarrow>
     (case nonempty (actor_id (requesting user)) of
        None \<Rightarrow> False
      | Some i \<Rightarrow>
          let e = (if au_accountStatus user = Some SUSPENDED then emptyEffective i (j_role user)
                   else effective_of env i (j_role user) (j_organizationId user) s) in
          permission \<in> set (ep_permissions e) \<and>
          (case nonempty organizationId of
             None \<Rightarrow> True
           | Some org \<Rightarrow> list_ex (scope_covers org) (ep_scopes e) \<or> j_organizationId user = Some org))"

lemma hasPermission_run:
  "hasPermission env user permission organizationId s = (Inr (permitted env user permission organizationId s), s)"
  by (cases "nonempty (actor_id (requesting user))"; cases "nonempty organizationId")
    (simp_all add: hasPermission_def effectivePermissions_def effectivePermissionsForUser_def admin_actor_def
      permitted_def Let_def svc_run split: option.split)

lemma reads_hasPermission [reads_rules]: "reads (hasPermission env user permission organizationId)"
  by (simp add: reads_def hasPermission_run)

lemma leaves_admin_audit [leaves_rules]: "leaves business (admin_audit action user context ty i metadata)"
  unfolding admin_audit_def admin_actor_def
  by (intro leaves_rules leaves_modify) (simp add: tables.defs)

lemma leaves_assertPermission [leaves_rules]:
  "leaves business (assertPermission env user permission organizationId context)"
  unfolding assertPermission_def auditDenied_def
  by (intro leaves_rules leaves_reads reads_hasPermission)

lemma assertPermission_InrD:
  "assertPermission env user permission organizationId context s = (Inr x, t) \<Longrightarrow>
     permitted env user permission organizationId s \<and> t = s"
  by (auto simp: assertPermission_def hasPermission_run auditDenied_def admin_audit_def svc_run
      split: if_splits prod.splits sum.splits)

lemma assertPermission_runs:
  "permitted env user permission organizationId s \<Longrightarrow>
     assertPermission env user permission organizationId context s = (Inr (), s)"
  by (simp add: assertPermission_def hasPermission_run svc_run)

lemma permissionArray_known: "set (permissionArray raw) \<subseteq> set internalAdminPermissionKeys"
  by (auto simp: permissionArray_def map_filter_def split: json.splits if_splits)

end
