(* ===== verification/Internal_Admin.thy ===== *)
theory Internal_Admin imports Internal_Roles begin

text \<open>
  The operations of delegated administration (\<open>internal-admin/internal-admin.service.ts\<close>, lines
  180-541, 650-755 and 870-990): inviting and accepting, granting and removing roles, suspending,
  reactivating, ending sessions, and the requests for high-risk operations with their decisions. The
  queues and lists (lines 72-176, 543-648, 1064-1767) only read and are not modelled.
\<close>

section \<open>Tables\<close>

definition find_invitation :: "string \<Rightarrow> 's tables_scheme \<Rightarrow> invitation option" where
  "find_invitation = row_find invitations iv_id"

definition update_invitation :: "string \<Rightarrow> (invitation \<Rightarrow> invitation) \<Rightarrow> ('s tables_scheme, invitation) svc" where
  "update_invitation = row_update invitations (\<lambda>rs. invitations_update (\<lambda>_. rs)) iv_id"

definition find_role_assignment :: "string \<Rightarrow> 's tables_scheme \<Rightarrow> internal_role_assignment option" where
  "find_role_assignment = row_find internalRoleAssignments ia_id"

definition update_role_assignment ::
    "string \<Rightarrow> (internal_role_assignment \<Rightarrow> internal_role_assignment) \<Rightarrow>
      ('s tables_scheme, internal_role_assignment) svc" where
  "update_role_assignment = row_update internalRoleAssignments (\<lambda>rs. internalRoleAssignments_update (\<lambda>_. rs)) ia_id"

definition find_approval :: "string \<Rightarrow> 's tables_scheme \<Rightarrow> privileged_approval option" where
  "find_approval = row_find approvalRequests pa_id"

definition update_approval ::
    "string \<Rightarrow> (privileged_approval \<Rightarrow> privileged_approval) \<Rightarrow> ('s tables_scheme, privileged_approval) svc" where
  "update_approval = row_update approvalRequests (\<lambda>rs. approvalRequests_update (\<lambda>_. rs)) pa_id"

section \<open>Reading the input\<close>

definition requiredText :: "string option \<Rightarrow> string \<Rightarrow> ('s, string) svc" where
  "requiredText raw field = require (BadRequest (field @ '' is required.'')) (trimmed raw)"

definition parseInternalRole :: "string option \<Rightarrow> ('s, user_role) svc" where
  "parseInternalRole raw = bnd (requiredText raw ''role'') (\<lambda>t.
     require (BadRequest ''Invalid internal administrator role.'')
       (map_option rd_role (find (\<lambda>d. user_role_name (rd_role d) = toUpperCase t) internalRoleCatalog)))"

definition privileged_operations :: "privileged_operation list" where
  "privileged_operations = [PLATFORM_SUPER_ADMIN_GRANT, ROLE_DEFINITION_CHANGE, PRODUCTION_RESTORE_AUTHORIZATION,
     ENTERPRISE_FEATURE_ENABLEMENT, PAYMENT_CONFIGURATION_CHANGE, HIGH_VALUE_REFUND_APPROVAL]"

definition parseOperationType :: "string option \<Rightarrow> ('s, privileged_operation) svc" where
  "parseOperationType raw = bnd (requiredText raw ''operationType'') (\<lambda>t.
     require (BadRequest ''Invalid privileged operation type.'')
       (find (\<lambda>p. privileged_operation_name p = toUpperCase t) privileged_operations))"

primrec highRiskOperationPermissions :: "privileged_operation \<Rightarrow> string" where
  "highRiskOperationPermissions PLATFORM_SUPER_ADMIN_GRANT = ''internal_admin.assign_role''"
| "highRiskOperationPermissions ROLE_DEFINITION_CHANGE = ''internal_admin.assign_role''"
| "highRiskOperationPermissions PRODUCTION_RESTORE_AUTHORIZATION = ''backup.restore_request''"
| "highRiskOperationPermissions ENTERPRISE_FEATURE_ENABLEMENT = ''release.readiness_manage''"
| "highRiskOperationPermissions PAYMENT_CONFIGURATION_CHANGE = ''payment.configuration_manage''"
| "highRiskOperationPermissions HIGH_VALUE_REFUND_APPROVAL = ''payment.refund_approve''"

definition requireEnabledRole :: "env \<Rightarrow> user_role \<Rightarrow> ('s, role_definition) svc" where
  "requireEnabledRole env role =
     bnd (require (BadRequest ''Invalid internal administrator role.'') (resolveInternalRoleDefinition role)) (\<lambda>d.
     sq (throw_if (\<not> roleDefinitionEnabled env d) (Forbidden ''INTERNAL_ROLE_FEATURE_DISABLED'')) (ret d))"

definition assertGrantCeiling :: "env \<Rightarrow> admin_user \<Rightarrow> string list \<Rightarrow> ('s, unit) svc" where
  "assertGrantCeiling env user requested =
     (if j_role user = SUPER_ADMIN \<or> j_role user = PLATFORM_SUPER_ADMIN then ret ()
      else throw_if (filter (\<lambda>p. p \<notin> set (permissionsForRole env (j_role user))) requested \<noteq> [])
             (Forbidden ''Cannot grant permissions outside your effective authority.''))"

text \<open>\<open>/^[^\s@]+@[^\s@]+\.[^\s@]+$/\<close>: one at sign, and a dot inside what follows it.\<close>

definition email_shape :: "string \<Rightarrow> bool" where
  "email_shape e \<longleftrightarrow>
     (let local = takeWhile (\<lambda>c. c \<noteq> CHR 0x40) e; domain = drop (length local + 1) e in
      local \<noteq> [] \<and> length local < length e \<and> list_all (\<lambda>c. \<not> is_space c) e \<and>
      CHR 0x40 \<notin> set domain \<and> CHR 0x2E \<in> set (butlast (tl domain)))"

definition normalizeEmail :: "string option \<Rightarrow> ('s, string) svc" where
  "normalizeEmail raw = bnd (requiredText raw ''email'') (\<lambda>t.
     let email = toLowerCase t in
     sq (throw_if (\<not> email_shape email) (BadRequest ''Enter a valid email address.'')) (ret email))"

definition optionalDate :: "env \<Rightarrow> string option \<Rightarrow> ('s, int option) svc" where
  "optionalDate env raw = (case trimmed raw of
     None \<Rightarrow> ret None
   | Some t \<Rightarrow> bnd (require (BadRequest ''Invalid date.'') (parseDate env t)) (\<lambda>d. ret (Some d)))"

record scope_dto =
  sd_scopeType :: "string option"
  sd_scopeRef :: "string option"
  sd_organizationId :: "string option"
  sd_moduleKey :: "string option"

definition internal_scope_types :: "internal_scope_type list" where
  "internal_scope_types = [SC_PLATFORM, SC_MODULE, SC_ORGANIZATION, SC_JURISDICTION]"

definition scope_type_of :: "string \<Rightarrow> internal_scope_type option" where
  "scope_type_of t = find (\<lambda>x. internal_scope_type_name x = t) internal_scope_types"

definition resolveScope :: "scope_dto \<Rightarrow> internal_scope_type \<Rightarrow> admin_user \<Rightarrow> ('s, internal_scope) svc" where
  "resolveScope dto fallback user =
     bnd (case nonempty (sd_scopeType dto) of
            None \<Rightarrow> ret fallback
          | Some t \<Rightarrow> require (BadRequest ''Invalid internal admin scope type.'') (scope_type_of (toUpperCase (trim t)))) (\<lambda>ty.
     let organizationId = trimmed (sd_organizationId dto) in
     sq (throw_if (truthy (j_organizationId user) \<and> organizationId \<noteq> None \<and> organizationId \<noteq> j_organizationId user)
           (Forbidden ''Cannot widen scope outside actor organization.''))
        (ret \<lparr> is_type = ty, is_ref = trimmed (sd_scopeRef dto),
               is_organizationId = coalesce organizationId (j_organizationId user),
               is_moduleKey = trimmed (sd_moduleKey dto), is_jurisdiction = None \<rparr>))"

definition text_of :: "json option \<Rightarrow> string option" where
  "text_of raw = (case raw of Some (JStr x) \<Rightarrow> trimmed (Some x) | _ \<Rightarrow> None)"

definition scopeFromMetadata :: "(string \<times> json) list \<Rightarrow> internal_scope" where
  "scopeFromMetadata metadata =
     (let raw = (case map_of metadata ''scope'' of Some (JObj kvs) \<Rightarrow> kvs | _ \<Rightarrow> []) in
      \<lparr> is_type = or_else (case map_of raw ''type'' of Some (JStr t) \<Rightarrow> scope_type_of t | _ \<Rightarrow> None) SC_PLATFORM,
        is_ref = text_of (map_of raw ''ref''),
        is_organizationId = text_of (map_of raw ''organizationId''),
        is_moduleKey = text_of (map_of raw ''moduleKey''),
        is_jurisdiction = Some (JObj (objectRecord (map_of raw ''jurisdiction''))) \<rparr>)"

definition jscope :: "internal_scope \<Rightarrow> json" where
  "jscope scope = JObj
     [(''type'', JStr (internal_scope_type_name (is_type scope))), (''ref'', jopt JStr (is_ref scope)),
      (''organizationId'', jopt JStr (is_organizationId scope)), (''moduleKey'', jopt JStr (is_moduleKey scope)),
      (''jurisdiction'', jopt id (is_jurisdiction scope))]"

definition mfaReadiness :: json where
  "mfaReadiness = JObj
     [(''required'', JBool True), (''enforced'', JBool False), (''state'', JStr ''blocked_until_mfa_foundation''),
      (''fallbackMessage'', JStr ''MFA is required for privileged administration, but enforcement is blocked until the MFA foundation is enabled.'')]"

definition jrole :: "user_role \<Rightarrow> json" where
  "jrole role = JStr (user_role_name role)"

section \<open>Requests for high-risk operations\<close>

record approval_dto =
  pd_operationType :: "string option"
  pd_targetUserId :: "string option"
  pd_requestedRole :: "string option"
  pd_organizationId :: "string option"
  pd_reason :: "string option"

datatype admin_reply =
    Invitation_reply invitation
  | Assignment_reply internal_role_assignment
  | Approval_reply privileged_approval string

definition createApprovalRequest ::
    "env \<Rightarrow> approval_dto \<Rightarrow> admin_user \<Rightarrow> request_context option \<Rightarrow> string \<Rightarrow> admin_reply handler" where
  "createApprovalRequest env dto user context blockedReason =
     bnd (parseOperationType (pd_operationType dto)) (\<lambda>operationType.
     sq (assertPermission env user (highRiskOperationPermissions operationType) None None)
    (bnd (admin_actor user) (\<lambda>actorId.
     bnd (case nonempty (pd_requestedRole dto) of None \<Rightarrow> ret None
          | Some r \<Rightarrow> bnd (parseInternalRole (Some r)) (\<lambda>role. ret (Some role))) (\<lambda>requestedRole.
     let request = \<lparr> pa_id = freshId env 0, pa_operationType = operationType, pa_status = AP_PENDING,
           pa_requesterId = actorId, pa_approverId = None, pa_targetUserId = trimmed (pd_targetUserId dto),
           pa_organizationId = trimmed (pd_organizationId dto), pa_requestedRole = requestedRole,
           pa_requestedScope = Some (JObj [(''organizationId'', jopt JStr (trimmed (pd_organizationId dto)))]),
           pa_payload = Some (JObj [(''blockedReason'', JStr blockedReason)]),
           pa_reason = trimmed (pd_reason dto), pa_decisionReason = None, pa_decidedAt = None,
           pa_executionBlocked = True \<rparr> in
     sq (modify (approvalRequests_update (\<lambda>rows. rows @ [request])))
    (sq (admin_audit ''Privileged Approval Requested'' user context (Some ''PrivilegedApprovalRequest'')
           (Some (pa_id request))
           [(''operationType'', JStr (privileged_operation_name operationType)),
            (''targetUserId'', jopt JStr (pa_targetUserId request)),
            (''requestedRole'', jopt jrole requestedRole), (''blockedReason'', JStr blockedReason)])
        (ret (Approval_reply request blockedReason)))))))"

record decision_dto =
  de_decision :: string
  de_reason :: "string option"

definition decide_data :: "env \<Rightarrow> decision_dto \<Rightarrow> string \<Rightarrow> privileged_approval \<Rightarrow> privileged_approval" where
  "decide_data env dto actorId request =
     request\<lparr> pa_status := (if toUpperCase (de_decision dto) = ''APPROVE'' then AP_EXECUTION_BLOCKED else AP_REJECTED),
       pa_approverId := Some actorId, pa_decidedAt := Some (now env),
       pa_decisionReason := trimmed (de_reason dto), pa_executionBlocked := True \<rparr>"

definition decideApprovalRequest ::
    "env \<Rightarrow> string \<Rightarrow> decision_dto \<Rightarrow> admin_user \<Rightarrow> request_context option \<Rightarrow> admin_reply handler" where
  "decideApprovalRequest env requestId dto user context =
     bnd (gets (find_approval requestId)) (\<lambda>found.
     bnd (require (NotFound ''Approval request not found'') found) (\<lambda>request.
     bnd (admin_actor user) (\<lambda>actorId.
     sq (if pa_requesterId request = actorId
         then sq (auditDenied user context ''self_approval_denied''
                   [(''approvalRequestId'', JStr requestId),
                    (''operationType'', JStr (privileged_operation_name (pa_operationType request)))])
              (throw (Forbidden ''Requester cannot approve their own request.''))
         else ret ())
    (sq (assertPermission env user (highRiskOperationPermissions (pa_operationType request)) None None)
    (bnd (update_approval requestId (decide_data env dto actorId)) (\<lambda>updated.
     sq (admin_audit (if toUpperCase (de_decision dto) = ''APPROVE''
             then ''Privileged Approval Decision Blocked Execution'' else ''Privileged Approval Rejected'')
           user context (Some ''PrivilegedApprovalRequest'') (Some requestId)
           [(''operationType'', JStr (privileged_operation_name (pa_operationType request))),
            (''decision'', JStr (de_decision dto)), (''executionBlocked'', JBool True)])
        (ret (Approval_reply updated
           ''Approval decision recorded. Execution remains blocked until the executable workflow is separately implemented and approved.'')))))))) "

section \<open>Inviting\<close>

record invite_dto = scope_dto +
  id_fullName :: "string option"
  id_email :: "string option"
  id_role :: "string option"
  id_reason :: "string option"
  id_expiresAt :: "string option"

definition super_admin_request :: "string option \<Rightarrow> user_role \<Rightarrow> string option \<Rightarrow> approval_dto" where
  "super_admin_request targetUserId role reason =
     \<lparr> pd_operationType = Some (privileged_operation_name PLATFORM_SUPER_ADMIN_GRANT), pd_targetUserId = targetUserId,
       pd_requestedRole = Some (user_role_name role), pd_organizationId = None, pd_reason = reason \<rparr>"

definition notifyActor :: "admin_user \<Rightarrow> string \<Rightarrow> unit handler" where
  "notifyActor user key = bnd (admin_actor user) (\<lambda>i.
     modify (notifications_update (\<lambda>rows. rows @ [\<lparr> n_userId = i, n_reportId = None, n_type = key,
       n_title = ''Internal administration'', n_message = ''Internal administration event recorded.'' \<rparr>])))"

definition day_ms :: int where "day_ms = 24 * 60 * 60 * 1000"

text \<open>The invite code is a digest of random bytes; the model takes the runtime's random digits for it.\<close>

definition new_invitation ::
    "env \<Rightarrow> string \<Rightarrow> string \<Rightarrow> role_definition \<Rightarrow> internal_scope \<Rightarrow> int option \<Rightarrow> admin_user \<Rightarrow> string \<Rightarrow> invitation" where
  "new_invitation env email fullName d scope expiresAt user actorId =
     \<lparr> iv_id = freshId env 0, iv_email = Some email, iv_phone = None, iv_fullName = fullName, iv_role = rd_role d,
       iv_status = IV_PENDING, iv_inviteCode = take 24 (randomHex env), iv_organizationId = is_organizationId scope,
       iv_invitedById = actorId, iv_acceptedUserId = None,
       iv_metadata = Some (JObj
         [(''source'', JStr ''internal_admin_delegation''), (''scope'', jscope scope),
          (''roleDefinitionVersion'', jint (rd_version d)), (''mfa'', mfaReadiness),
          (''localization'', JObj [(''key'', JStr ''internal_admin.invitation_created''),
             (''params'', JObj [(''role'', jrole (rd_role d))]),
             (''preferredLocale'', JStr (or_else (au_preferredLocale user) ''en'')),
             (''fallbackLocale'', JStr ''en'')])]),
       iv_expiresAt = Some (or_else expiresAt (now env + 7 * day_ms)), iv_acceptedAt = None,
       iv_declinedAt = None, iv_revokedAt = None, iv_tokenHash = None, iv_resentAt = None,
       iv_lastNotificationAt = None, iv_createdAt = now env \<rparr>"

definition inviteAdministrator :: "env \<Rightarrow> invite_dto \<Rightarrow> admin_user \<Rightarrow> request_context option \<Rightarrow> admin_reply handler" where
  "inviteAdministrator env dto user context =
     sq (assertPermission env user ''internal_admin.invite'' None None)
    (bnd (admin_actor user) (\<lambda>actorId.
     bnd (parseInternalRole (id_role dto)) (\<lambda>role.
     bnd (requireEnabledRole env role) (\<lambda>d.
     sq (assertGrantCeiling env user (rd_permissions d))
    (if rd_highRiskGrant d then createApprovalRequest env (super_admin_request None role (id_reason dto)) user context
       ''Platform super-admin invitation requires dual approval.''
     else
     bnd (normalizeEmail (id_email dto)) (\<lambda>email.
     bnd (gets (\<lambda>s. find (\<lambda>u. u_email u = Some email) (users s))) (\<lambda>existing.
     sq (throw_if (existing \<noteq> None) (Conflict ''A user already exists with this email.''))
    (bnd (gets (\<lambda>s. find (\<lambda>v. iv_email v = Some email \<and> iv_status v = IV_PENDING \<and> iv_role v = role) (invitations s)))
       (\<lambda>duplicate. case duplicate of
          Some v \<Rightarrow> ret (Invitation_reply v)
        | None \<Rightarrow>
     bnd (resolveScope (scope_dto.truncate dto) (rd_defaultScopeType d) user) (\<lambda>scope.
     bnd (requiredText (id_fullName dto) ''fullName'') (\<lambda>fullName.
     bnd (optionalDate env (id_expiresAt dto)) (\<lambda>expiresAt.
     let invitation = new_invitation env email fullName d scope expiresAt user actorId in
     sq (modify (invitations_update (\<lambda>rows. rows @ [invitation])))
    (sq (admin_audit ''Internal Admin Invitation Created'' user context (Some ''Invitation'') (Some (iv_id invitation))
           [(''role'', jrole role), (''email'', JStr email), (''scope'', jscope scope),
            (''reason'', jopt JStr (id_reason dto))])
    (sq (notifyActor user ''internal_admin.invitation_created'')
        (ret (Invitation_reply invitation))))))))))))))))"

section \<open>Accepting\<close>

definition accepted_user :: "invitation \<Rightarrow> internal_scope \<Rightarrow> user \<Rightarrow> user" where
  "accepted_user invitation scope u =
     u\<lparr> u_role := iv_role invitation, u_accountStatus := ACTIVE,
        u_organizationId := coalesce (is_organizationId scope) (u_organizationId u),
        u_profileData := Some (JObj [(''internalAdmin'', JBool True), (''mfaReadiness'', mfaReadiness)]) \<rparr>"

definition granted_assignment ::
    "string \<Rightarrow> string \<Rightarrow> role_definition \<Rightarrow> internal_scope \<Rightarrow> string \<Rightarrow> string option \<Rightarrow> int \<Rightarrow> int option \<Rightarrow>
      internal_role_assignment" where
  "granted_assignment i userId d scope assignedById reason startsAt expiresAt =
     \<lparr> ia_id = i, ia_userId = userId, ia_role = rd_role d, ia_status = IA_ACTIVE, ia_scopeType = is_type scope,
       ia_scopeRef = is_ref scope, ia_organizationId = is_organizationId scope, ia_moduleKey = is_moduleKey scope,
       ia_jurisdiction = is_jurisdiction scope, ia_permissionsSnapshot = JArr (map JStr (rd_permissions d)),
       ia_roleDefinitionVersion = rd_version d, ia_assignedById = assignedById, ia_reason = reason,
       ia_startsAt = startsAt, ia_expiresAt = expiresAt, ia_revokedAt = None, ia_revokedById = None,
       ia_revocationReason = None \<rparr>"

definition accept_transaction ::
    "env \<Rightarrow> string \<Rightarrow> invitation \<Rightarrow> role_definition \<Rightarrow> internal_scope \<Rightarrow> unit handler" where
  "accept_transaction env actorId invitation d scope = transaction
     (sq (update_user actorId (accepted_user invitation scope))
     (sq (modify (internalRoleAssignments_update (\<lambda>rows. rows @
            [granted_assignment (freshId env 0) actorId d scope (iv_invitedById invitation)
               (Some ''Invitation accepted.'') (now env) (iv_expiresAt invitation)])))
     (sq (update_invitation (iv_id invitation)
            (\<lambda>v. v\<lparr> iv_status := IV_ACCEPTED, iv_acceptedUserId := Some actorId, iv_acceptedAt := Some (now env) \<rparr>))
         (ret ()))))"

definition acceptInvitation ::
    "env \<Rightarrow> string \<Rightarrow> admin_user \<Rightarrow> request_context option \<Rightarrow> effective_permissions handler" where
  "acceptInvitation env invitationId user context =
     bnd (admin_actor user) (\<lambda>actorId.
     bnd (gets (find_invitation invitationId)) (\<lambda>found.
     bnd (require (NotFound ''Invitation not found'') found) (\<lambda>invitation.
     sq (throw_if (iv_status invitation \<noteq> IV_PENDING) (BadRequest ''Invitation is no longer pending.''))
    (sq (if (case iv_expiresAt invitation of None \<Rightarrow> False | Some t \<Rightarrow> t \<le> now env)
         then sq (update_invitation (iv_id invitation) (\<lambda>v. v\<lparr> iv_status := IV_EXPIRED \<rparr>))
             (sq (admin_audit ''Internal Admin Invitation Expired'' user context (Some ''Invitation'')
                    (Some (iv_id invitation)) [(''role'', jrole (iv_role invitation))])
                 (throw (BadRequest ''Invitation has expired.'')))
         else ret ())
    (sq (throw_if (truthy (iv_email invitation) \<and> truthy (j_email user) \<and>
             map_option toLowerCase (iv_email invitation) \<noteq> map_option toLowerCase (j_email user))
           (Forbidden ''Invitation is not assigned to this user.''))
    (bnd (requireEnabledRole env (iv_role invitation)) (\<lambda>d.
     let scope = scopeFromMetadata (objectRecord (iv_metadata invitation)) in
     sq (accept_transaction env actorId invitation d scope)
    (sq (admin_audit ''Internal Admin Invitation Accepted'' user context (Some ''Invitation'')
           (Some (iv_id invitation)) [(''role'', jrole (iv_role invitation)), (''scope'', jscope scope)])
        (effectivePermissionsForUser env actorId None)))))))))"

section \<open>Granting and removing roles\<close>

record assign_role_dto = scope_dto +
  ra_role :: "string option"
  ra_startsAt :: "string option"
  ra_expiresAt :: "string option"
  ra_reason :: "string option"

definition assignRole ::
    "env \<Rightarrow> string \<Rightarrow> assign_role_dto \<Rightarrow> admin_user \<Rightarrow> request_context option \<Rightarrow> admin_reply handler" where
  "assignRole env targetUserId dto user context =
     sq (assertPermission env user ''internal_admin.assign_role'' None None)
    (bnd (admin_actor user) (\<lambda>actorId.
     sq (if actorId = targetUserId
         then sq (auditDenied user context ''self_promotion_denied''
                   [(''targetUserId'', JStr targetUserId), (''requestedRole'', jopt JStr (ra_role dto))])
              (throw (Forbidden ''Administrators cannot promote themselves.''))
         else ret ())
    (bnd (parseInternalRole (ra_role dto)) (\<lambda>role.
     bnd (requireEnabledRole env role) (\<lambda>d.
     sq (assertGrantCeiling env user (rd_permissions d))
    (if rd_highRiskGrant d then createApprovalRequest env (super_admin_request (Some targetUserId) role (ra_reason dto)) user context
       ''Platform super-admin grant requires dual approval.''
     else
     bnd (gets (find_user targetUserId)) (\<lambda>target.
     sq (require (NotFound ''Administrator not found'') target)
    (bnd (resolveScope (scope_dto.truncate dto) (rd_defaultScopeType d) user) (\<lambda>scope.
     bnd (optionalDate env (ra_startsAt dto)) (\<lambda>startsAt.
     bnd (optionalDate env (ra_expiresAt dto)) (\<lambda>expiresAt.
     let assignment = granted_assignment (freshId env 0) targetUserId d scope actorId (trimmed (ra_reason dto))
           (or_else startsAt (now env)) expiresAt in
     sq (modify (internalRoleAssignments_update (\<lambda>rows. rows @ [assignment])))
    (sq (admin_audit ''Internal Admin Role Assigned'' user context (Some ''InternalRoleAssignment'')
           (Some (ia_id assignment))
           [(''targetUserId'', JStr targetUserId), (''role'', jrole role), (''scope'', jscope scope),
            (''reason'', jopt JStr (ra_reason dto))])
        (ret (Assignment_reply assignment))))))))))))))"

definition super_admin_roles :: "user_role set" where
  "super_admin_roles = {SUPER_ADMIN, PLATFORM_SUPER_ADMIN}"

definition assertNotFinalActiveSuperAdmin :: "string \<Rightarrow> ('s tables_scheme, unit) svc" where
  "assertNotFinalActiveSuperAdmin targetUserId =
     bnd (gets (\<lambda>s. length (filter (\<lambda>u. u_id u \<noteq> targetUserId \<and> u_accountStatus u = ACTIVE \<and>
            u_role u \<in> super_admin_roles) (users s)))) (\<lambda>n.
       throw_if (n < 1) (Forbidden ''Cannot remove the final active platform super administrator.''))"

definition revoke_data :: "env \<Rightarrow> string \<Rightarrow> string option \<Rightarrow> internal_role_assignment \<Rightarrow> internal_role_assignment" where
  "revoke_data env actorId reason a =
     a\<lparr> ia_status := IA_REVOKED, ia_revokedAt := Some (now env), ia_revokedById := Some actorId,
        ia_revocationReason := trimmed reason \<rparr>"

definition removeRole ::
    "env \<Rightarrow> string \<Rightarrow> string option \<Rightarrow> admin_user \<Rightarrow> request_context option \<Rightarrow> admin_reply handler" where
  "removeRole env assignmentId reason user context =
     sq (assertPermission env user ''internal_admin.assign_role'' None None)
    (bnd (gets (find_role_assignment assignmentId)) (\<lambda>found.
     bnd (require (NotFound ''Role assignment not found'') found) (\<lambda>assignment.
     sq (when_do (ia_role assignment \<in> super_admin_roles) (assertNotFinalActiveSuperAdmin (ia_userId assignment)))
    (bnd (admin_actor user) (\<lambda>actorId.
     bnd (update_role_assignment assignmentId (revoke_data env actorId reason)) (\<lambda>updated.
     sq (admin_audit ''Internal Admin Role Removed'' user context (Some ''InternalRoleAssignment'') (Some assignmentId)
           [(''targetUserId'', JStr (ia_userId assignment)), (''role'', jrole (ia_role assignment)),
            (''reason'', jopt JStr reason)])
        (ret (Assignment_reply updated))))))))"

section \<open>Suspension\<close>

definition suspendAdministrator ::
    "env \<Rightarrow> string \<Rightarrow> string option \<Rightarrow> admin_user \<Rightarrow> request_context option \<Rightarrow> user handler" where
  "suspendAdministrator env targetUserId reason user context =
     sq (assertPermission env user ''internal_admin.suspend'' None None)
    (bnd (admin_actor user) (\<lambda>actorId.
     sq (throw_if (actorId = targetUserId) (Forbidden ''Administrators cannot suspend themselves.''))
    (sq (assertNotFinalActiveSuperAdmin targetUserId)
    (bnd (update_user targetUserId (\<lambda>u. u\<lparr> u_accountStatus := SUSPENDED \<rparr>)) (\<lambda>updated.
     sq (admin_audit ''Internal Admin Suspended'' user context (Some ''User'') (Some targetUserId)
           [(''reason'', jopt JStr reason)])
        (ret updated))))))"

definition reactivateAdministrator ::
    "env \<Rightarrow> string \<Rightarrow> string option \<Rightarrow> admin_user \<Rightarrow> request_context option \<Rightarrow> user handler" where
  "reactivateAdministrator env targetUserId reason user context =
     sq (assertPermission env user ''internal_admin.suspend'' None None)
    (bnd (update_user targetUserId (\<lambda>u. u\<lparr> u_accountStatus := ACTIVE \<rparr>)) (\<lambda>updated.
     sq (admin_audit ''Internal Admin Reactivated'' user context (Some ''User'') (Some targetUserId)
           [(''reason'', jopt JStr reason)])
        (ret updated)))"

section \<open>Ending sessions\<close>

definition revoked_session_data :: "env \<Rightarrow> string option \<Rightarrow> json option \<Rightarrow> user \<Rightarrow> user" where
  "revoked_session_data env reason profileData u =
     u\<lparr> u_tokenVersion := u_tokenVersion u + 1,
        u_profileData := Some (JObj (jset ''sessionRevocation''
          (JObj [(''requestedAt'', JStr (toISOString (now env))), (''reason'', jopt JStr reason),
                 (''enforcement'', JStr ''token_version_advanced'')]) (objectRecord profileData))) \<rparr>"

definition revokeSessions ::
    "env \<Rightarrow> string \<Rightarrow> string option \<Rightarrow> admin_user \<Rightarrow> request_context option \<Rightarrow> int handler" where
  "revokeSessions env targetUserId reason user context =
     sq (assertPermission env user ''internal_admin.revoke_sessions'' None None)
    (bnd (admin_actor user) (\<lambda>actorId.
     sq (throw_if (actorId = targetUserId)
           (Forbidden ''Use account security settings for self-session changes.''))
    (bnd (gets (find_user targetUserId)) (\<lambda>found.
     bnd (require (NotFound ''Administrator not found'') found) (\<lambda>target.
     bnd (update_user targetUserId (revoked_session_data env reason (u_profileData target))) (\<lambda>updated.
     sq (admin_audit ''Internal Admin Sessions Revocation Requested'' user context (Some ''User'') (Some targetUserId)
           [(''revokedAt'', JStr (toISOString (now env))), (''reason'', jopt JStr reason),
            (''enforcement'', JStr ''token_version_advanced''), (''tokenVersion'', jint (u_tokenVersion updated))])
        (ret (u_tokenVersion updated))))))))"

text \<open>
  The bearer token strategy (\<open>auth/strategies/jwt.strategy.ts\<close>): a token whose signature the
  authentication library has accepted stands for the user it names, as that user is stored now.
\<close>

record jwt_payload =
  jp_sub :: string
  jp_tokenVersion :: "json option"

definition isCurrentTokenVersion :: "json option \<Rightarrow> int \<Rightarrow> bool" where
  "isCurrentTokenVersion claimVersion storedVersion \<longleftrightarrow>
     claimVersion = Some (jint storedVersion) \<and> storedVersion \<ge> 0"

definition SUPPORTED_LOCALES :: "string list" where
  "SUPPORTED_LOCALES = [''en'', ''ha'', ''yo'', ''ig'', ''fr'', ''ar'']"

text \<open>\<open>value.trim().replace('_', '-').toLowerCase()\<close> replaces the first underscore only; then the part before the first dash.\<close>

definition normalizeLocale :: "json option \<Rightarrow> string option" where
  "normalizeLocale value = (case value of
     Some (JStr v) \<Rightarrow>
       (let t = trim v; i = length (takeWhile (\<lambda>c. c \<noteq> CHR 0x5F) t);
            language = takeWhile (\<lambda>c. c \<noteq> CHR 0x2D) (toLowerCase (take i t @ (if i < length t then CHR 0x2D # drop (i + 1) t else [])))
        in if language \<in> set SUPPORTED_LOCALES then Some language else None)
   | _ \<Rightarrow> None)"

definition preferredLocaleFromProfile :: "json option \<Rightarrow> string" where
  "preferredLocaleFromProfile profileData =
     or_else (normalizeLocale (map_of (objectRecord profileData) ''preferredLanguage'')) ''en''"

definition session_of :: "user \<Rightarrow> admin_user" where
  "session_of u = \<lparr> j_id = Some (u_id u), j_userId = Some (u_id u), j_sub = Some (u_id u), j_email = u_email u, j_phone = u_phone u,
     j_fullName = Some (u_fullName u), j_role = u_role u, j_organizationId = u_organizationId u,
     au_accountStatus = Some (u_accountStatus u),
     au_preferredLocale = Some (preferredLocaleFromProfile (u_profileData u)) \<rparr>"

definition validate_token :: "jwt_payload \<Rightarrow> admin_user handler" where
  "validate_token payload =
     bnd (gets (find_user (jp_sub payload))) (\<lambda>found. case found of
         None \<Rightarrow> throw (Unauthorized ''Unauthorized'')
       | Some u \<Rightarrow>
           if u_accountStatus u = ACTIVE \<and> isCurrentTokenVersion (jp_tokenVersion payload) (u_tokenVersion u)
           then ret (session_of u)
           else throw (Unauthorized ''Unauthorized''))"

end
