(* ===== verification/Histories.thy ===== *)
theory Histories imports Tables begin

text \<open>
  Histories of requests in general: the databases a service reaches by serving allowed requests, and
  the contract of an invariant, which every allowed request keeps and which therefore holds along
  every history. The theories that prove invariants of a service interpret it on their requests.
\<close>

inductive history_of :: "('q \<Rightarrow> ('s, unit) svc) \<Rightarrow> ('q \<Rightarrow> bool) \<Rightarrow> 's \<Rightarrow> 's \<Rightarrow> bool" for perform allowed s0 where
  history_start: "history_of perform allowed s0 s0"
| history_next: "history_of perform allowed s0 s \<Longrightarrow> allowed q \<Longrightarrow> perform q s = (res, t) \<Longrightarrow>
    history_of perform allowed s0 t"

locale service_invariant =
  fixes perform :: "'q \<Rightarrow> ('s, unit) svc" and I :: "'s \<Rightarrow> bool" and allowed :: "'q \<Rightarrow> bool"
  assumes kept: "allowed q \<Longrightarrow> keeps I (perform q)"
begin

lemma along: "history_of perform allowed s0 t \<Longrightarrow> I s0 \<Longrightarrow> I t"
  by (induction rule: history_of.induct) (auto dest: keepsD[OF kept])

end

text \<open>A request of a history drops the reply of its operation.\<close>

definition ignore_result :: "('s, 'a) svc \<Rightarrow> ('s, unit) svc" where
  "ignore_result m = bnd m (\<lambda>_. ret ())"

lemma keeps_ignore_result: "keeps I m \<Longrightarrow> keeps I (ignore_result m)"
  unfolding ignore_result_def by (intro keeps_rules)

section \<open>Keeping an invariant\<close>

lemma keeps_bnd_post:
  assumes "keeps I m" and "\<And>s x t. I s \<Longrightarrow> m s = (Inr x, t) \<Longrightarrow> Q x" and "\<And>x. Q x \<Longrightarrow> keeps I (f x)"
  shows "keeps I (bnd m f)"
proof (rule keepsI)
  fix s r t
  assume I: "I s" and run: "bnd m f s = (r, t)"
  from run show "I t"
  proof (cases rule: bndE)
    case (err e)
    then show ?thesis using assms(1) I by (blast dest: keepsD)
  next
    case (ok x u)
    then show ?thesis using assms I by (blast dest: keepsD)
  qed
qed

lemma keeps_leaves: "leaves v m \<Longrightarrow> (\<And>s t. v t = v s \<Longrightarrow> I s \<Longrightarrow> I t) \<Longrightarrow> keeps I m"
  unfolding leaves_def keeps_def by blast

lemma keeps_case_admin [keeps_rules]: "(\<And>x y. keeps I (f x y)) \<Longrightarrow> keeps I (case p of (x, y) \<Rightarrow> f x y)"
  by (simp split: prod.split)

lemma keeps_modify: "(\<And>s. I s \<Longrightarrow> I (f s)) \<Longrightarrow> keeps I (modify f)"
  by (simp add: keeps_def)

lemma keeps_row_update:
  assumes "\<And>s. I s \<Longrightarrow> I (put (upd_rows (\<lambda>r. key r = k) f (get s)) s)"
  shows "keeps I (row_update get put key k f)"
  using assms by (auto simp: keeps_def row_update_def row_put_def split: option.split)

end
