(* ===== verification/Admin_Theorems.thy ===== *)
theory Admin_Theorems imports Internal_Admin Example_Data Histories begin

text \<open>
  What delegated administration guarantees: nobody becomes a super administrator through it, grants
  stay below the grantor's authority, one active super administrator remains, and ended sessions
  stay ended; and where a scope or an expiry does not bind.
\<close>

section \<open>Requests\<close>

datatype admin_request =
    Invite_admin invite_dto
  | Accept_invite string
  | Assign_role string assign_role_dto
  | Remove_role string "string option"
  | Suspend_admin string "string option"
  | Reactivate_admin string "string option"
  | Revoke_sessions string "string option"
  | Request_approval approval_dto
  | Decide_approval string decision_dto

primrec perform_admin :: "env \<Rightarrow> admin_user \<Rightarrow> request_context option \<Rightarrow> admin_request \<Rightarrow> unit handler" where
  "perform_admin env user ctx (Invite_admin dto) = ignore_result (inviteAdministrator env dto user ctx)"
| "perform_admin env user ctx (Accept_invite i) = ignore_result (acceptInvitation env i user ctx)"
| "perform_admin env user ctx (Assign_role i dto) = ignore_result (assignRole env i dto user ctx)"
| "perform_admin env user ctx (Remove_role i reason) = ignore_result (removeRole env i reason user ctx)"
| "perform_admin env user ctx (Suspend_admin i reason) = ignore_result (suspendAdministrator env i reason user ctx)"
| "perform_admin env user ctx (Reactivate_admin i reason) = ignore_result (reactivateAdministrator env i reason user ctx)"
| "perform_admin env user ctx (Revoke_sessions i reason) = ignore_result (revokeSessions env i reason user ctx)"
| "perform_admin env user ctx (Request_approval dto) =
     ignore_result (createApprovalRequest env dto user ctx ''High-risk operation requires dual approval.'')"
| "perform_admin env user ctx (Decide_approval i dto) = ignore_result (decideApprovalRequest env i dto user ctx)"

type_synonym admin_step = "env \<times> admin_user \<times> request_context option \<times> admin_request"

definition admin_perform :: "admin_step \<Rightarrow> unit handler" where
  "admin_perform = (\<lambda>(env, user, ctx, req). perform_admin env user ctx req)"

definition admin_history :: "(admin_request \<Rightarrow> bool) \<Rightarrow> db \<Rightarrow> db \<Rightarrow> bool" where
  "admin_history allowed = history_of admin_perform (\<lambda>(env, user, ctx, req). allowed req)"

lemma admin_start: "admin_history allowed s s"
  unfolding admin_history_def by (rule history_start)

lemma admin_next:
  assumes "admin_history allowed s0 s" and "allowed req" and "perform_admin env user ctx req s = (res, t)"
  shows "admin_history allowed s0 t"
  unfolding admin_history_def
  by (rule history_next[OF assms(1)[unfolded admin_history_def], where q = "(env, user, ctx, req)" and res = res])
    (use assms(2,3) in \<open>simp_all add: admin_perform_def\<close>)

section \<open>What the operations leave alone\<close>

lemma reads_admin_input [reads_rules]:
  "reads (admin_actor user)" "reads (requiredText raw field)" "reads (parseInternalRole raw)"
  "reads (parseOperationType raw)" "reads (requireEnabledRole env role)" "reads (assertGrantCeiling env user ps)"
  "reads (normalizeEmail raw)" "reads (optionalDate env raw)" "reads (resolveScope dto fallback user)"
  "reads (assertNotFinalActiveSuperAdmin i)" "reads (effectivePermissionsForUser env i own)"
  unfolding admin_actor_def requiredText_def parseInternalRole_def parseOperationType_def requireEnabledRole_def
    assertGrantCeiling_def normalizeEmail_def optionalDate_def resolveScope_def assertNotFinalActiveSuperAdmin_def
    effectivePermissionsForUser_def Let_def admin_actor_def
  by (intro reads_rules)+

lemma leaves_notifyActor [leaves_rules]: "leaves business (notifyActor user key)"
  unfolding notifyActor_def
  by (intro leaves_rules leaves_modify leaves_reads reads_rules) (simp add: tables.defs)

lemma leaves_auditDenied [leaves_rules]: "leaves business (auditDenied user ctx reason metadata)"
  unfolding auditDenied_def by (intro leaves_rules)

section \<open>The catalog\<close>

lemma catalog_high_risk: "d \<in> set internalRoleCatalog \<Longrightarrow> rd_highRiskGrant d \<longleftrightarrow> rd_role d = PLATFORM_SUPER_ADMIN"
  by (auto simp: internalRoleCatalog_def)

lemma catalog_roles: "d \<in> set internalRoleCatalog \<Longrightarrow> rd_role d \<noteq> SUPER_ADMIN"
  by (auto simp: internalRoleCatalog_def)

lemma requireEnabledRole_InrD:
  "requireEnabledRole env role s = (Inr d, t) \<Longrightarrow>
     d \<in> set internalRoleCatalog \<and> rd_role d = role \<and> roleDefinitionEnabled env d"
  by (auto simp: requireEnabledRole_def resolveInternalRoleDefinition_def svc_run dest: find_SomeD
      split: option.splits if_splits)

section \<open>Nobody becomes a super administrator\<close>

text \<open>
  \<open>U\<close> are the users that are super administrators, \<open>A\<close> the assignments of the platform super role.
\<close>

definition dual_control :: "string set \<Rightarrow> string set \<Rightarrow> 's tables_scheme \<Rightarrow> bool" where
  "dual_control U A s \<longleftrightarrow>
     list_all (\<lambda>v. iv_role v \<noteq> PLATFORM_SUPER_ADMIN) (invitations s) \<and>
     list_all (\<lambda>u. u_id u \<in> U \<or> u_role u \<notin> super_admin_roles) (users s) \<and>
     list_all (\<lambda>a. ia_id a \<in> A \<or> ia_role a \<notin> super_admin_roles) (internalRoleAssignments s) \<and>
     list_all pa_executionBlocked (approvalRequests s)"

lemma dual_control_business:
  assumes "business t = business s" and "dual_control U A s"
  shows "dual_control U A t"
  using assms(2) by (simp add: dual_control_def business_eq_fields[OF assms(1)])

lemma dual_control_leaves:
  "leaves business m \<Longrightarrow> keeps (dual_control U A) (m :: 'a handler)"
  by (erule keeps_leaves) (rule dual_control_business)

lemma dual_control_reads: "reads m \<Longrightarrow> keeps (dual_control U A) (m :: 'a handler)"
  by (metis keepsI readsD)

lemma list_all_upd_rows: "list_all P rows \<Longrightarrow> (\<And>r. P r \<Longrightarrow> P (f r)) \<Longrightarrow> list_all P (upd_rows K f rows)"
  by (auto simp: list_all_iff in_upd_rows)

lemma dual_control_updates [keeps_rules]:
  assumes "\<And>u. u_id (f u) = u_id u" and "\<And>u. u_role (f u) \<in> super_admin_roles \<Longrightarrow> u_role u \<in> super_admin_roles"
  shows "keeps (dual_control U A) (update_user i f :: user handler)"
  unfolding update_user_def
  by (rule keeps_row_update) (use assms in \<open>auto simp: dual_control_def intro!: list_all_upd_rows\<close>)

lemma dual_control_update_invitation [keeps_rules]:
  "(\<And>v. iv_role (f v) = iv_role v) \<Longrightarrow> keeps (dual_control U A) (update_invitation i f :: invitation handler)"
  unfolding update_invitation_def
  by (rule keeps_row_update) (auto simp: dual_control_def intro!: list_all_upd_rows)

lemma dual_control_update_assignment [keeps_rules]:
  "(\<And>a. ia_id (f a) = ia_id a \<and> ia_role (f a) = ia_role a) \<Longrightarrow>
     keeps (dual_control U A) (update_role_assignment i f :: internal_role_assignment handler)"
  unfolding update_role_assignment_def
  by (rule keeps_row_update) (auto simp: dual_control_def intro!: list_all_upd_rows)

lemma dual_control_update_approval [keeps_rules]:
  "(\<And>p. pa_executionBlocked (f p)) \<Longrightarrow> keeps (dual_control U A) (update_approval i f :: privileged_approval handler)"
  unfolding update_approval_def
  by (rule keeps_row_update) (auto simp: dual_control_def intro!: list_all_upd_rows)

lemma dual_control_appends:
  "iv_role v \<noteq> PLATFORM_SUPER_ADMIN \<Longrightarrow> keeps (dual_control U A) (modify (invitations_update (\<lambda>rows. rows @ [v])))"
  "ia_role a \<notin> super_admin_roles \<Longrightarrow>
     keeps (dual_control U A) (modify (internalRoleAssignments_update (\<lambda>rows. rows @ [a])))"
  "pa_executionBlocked p \<Longrightarrow> keeps (dual_control U A) (modify (approvalRequests_update (\<lambda>rows. rows @ [p])))"
  by (rule keeps_modify; simp add: dual_control_def)+

lemmas dual_control_quiet = dual_control_leaves[OF leaves_admin_audit] dual_control_leaves[OF leaves_auditDenied]
  dual_control_leaves[OF leaves_assertPermission] dual_control_leaves[OF leaves_notifyActor]
  dual_control_reads[OF reads_admin_input(1)] dual_control_reads[OF reads_admin_input(2)]
  dual_control_reads[OF reads_admin_input(3)] dual_control_reads[OF reads_admin_input(4)]
  dual_control_reads[OF reads_admin_input(5)] dual_control_reads[OF reads_admin_input(6)]
  dual_control_reads[OF reads_admin_input(7)] dual_control_reads[OF reads_admin_input(8)]
  dual_control_reads[OF reads_admin_input(9)] dual_control_reads[OF reads_admin_input(10)]
  dual_control_reads[OF reads_admin_input(11)]

lemma keeps_createApprovalRequest [keeps_rules]:
  "keeps (dual_control U A) (createApprovalRequest env dto user ctx reason)"
  unfolding createApprovalRequest_def Let_def
  by (intro keeps_rules dual_control_quiet dual_control_appends) simp

lemma keeps_decide: "keeps (dual_control U A) (decideApprovalRequest env i dto user ctx)"
  unfolding decideApprovalRequest_def
  by (intro keeps_rules dual_control_quiet) (simp add: decide_data_def)

lemma ordinary_definition:
  "d \<in> set internalRoleCatalog \<Longrightarrow> \<not> rd_highRiskGrant d \<Longrightarrow> rd_role d \<notin> super_admin_roles"
  using catalog_high_risk catalog_roles by (auto simp: super_admin_roles_def)

lemma keeps_role_definition:
  fixes f :: "role_definition \<Rightarrow> 'a handler"
  assumes "\<And>d. d \<in> set internalRoleCatalog \<Longrightarrow> rd_role d = role \<Longrightarrow> keeps (dual_control U A) (f d)"
  shows "keeps (dual_control U A) (bnd (requireEnabledRole env role) f)"
  by (rule keeps_bnd_post[where Q = "\<lambda>d. d \<in> set internalRoleCatalog \<and> rd_role d = role"])
    (use assms in \<open>auto dest: requireEnabledRole_InrD intro: dual_control_quiet\<close>)

lemma keeps_if_not: "keeps I a \<Longrightarrow> (\<not> c \<Longrightarrow> keeps I b) \<Longrightarrow> keeps I (if c then a else b)"
  by simp

lemma dual_control_granted:
  "d \<in> set internalRoleCatalog \<Longrightarrow> \<not> rd_highRiskGrant d \<Longrightarrow>
     ia_role (granted_assignment i u d scope g reason startsAt expiresAt) \<notin> super_admin_roles \<and>
     iv_role (new_invitation env email name d scope expiresAt user a) \<noteq> PLATFORM_SUPER_ADMIN"
  using ordinary_definition[of d] by (auto simp: granted_assignment_def new_invitation_def super_admin_roles_def)

lemmas dual_control_permission = keeps_bnd[OF dual_control_leaves[OF leaves_assertPermission]]
  keeps_bnd[OF dual_control_reads[OF reads_admin_input(1)]] keeps_bnd[OF dual_control_reads[OF reads_admin_input(3)]]
  keeps_bnd[OF dual_control_reads[OF reads_admin_input(6)]]

lemma keeps_invite: "keeps (dual_control U A) (inviteAdministrator env dto user ctx)"
  unfolding inviteAdministrator_def Let_def
  apply (rule dual_control_permission)+
  apply (rule keeps_role_definition)
  apply (rule dual_control_permission keeps_if_not keeps_createApprovalRequest)+
  apply (intro keeps_rules dual_control_quiet dual_control_appends)
  apply (simp add: dual_control_granted)
  done

lemma keeps_assign: "keeps (dual_control U A) (assignRole env i dto user ctx)"
  unfolding assignRole_def Let_def
  apply (rule dual_control_permission)+
  apply (rule keeps_bnd, (intro keeps_rules dual_control_quiet)[1])
  apply (rule dual_control_permission)+
  apply (rule keeps_role_definition)
  apply (rule dual_control_permission keeps_if_not keeps_createApprovalRequest)+
  apply (intro keeps_rules dual_control_quiet dual_control_appends)
  apply (simp add: dual_control_granted)
  done

lemma keeps_remove: "keeps (dual_control U A) (removeRole env i reason user ctx)"
  unfolding removeRole_def
  by (intro keeps_rules dual_control_quiet) (simp add: revoke_data_def)

lemma keeps_sessions:
  "keeps (dual_control U A) (suspendAdministrator env i reason user ctx)"
  "keeps (dual_control U A) (reactivateAdministrator env i reason user ctx)"
  "keeps (dual_control U A) (revokeSessions env i reason user ctx)"
  unfolding suspendAdministrator_def reactivateAdministrator_def revokeSessions_def
  by (intro keeps_rules dual_control_quiet; simp add: revoked_session_data_def)+

text \<open>An invitation that is found is for no super role, so accepting one grants none.\<close>

lemma keeps_gets_found:
  assumes "\<And>s x. I s \<Longrightarrow> g s = Some x \<Longrightarrow> Q x" and "\<And>x. Q x \<Longrightarrow> keeps I (f x)"
  shows "keeps I (bnd (gets g) (\<lambda>found. bnd (require e found) f))"
  by (rule keeps_bnd_post[where Q = "\<lambda>found. \<forall>x. found = Some x \<longrightarrow> Q x"])
    (use assms in \<open>auto simp: keeps_def svc_run split: option.split\<close>)

lemma find_invitation_SomeD: "find_invitation k s = Some v \<Longrightarrow> iv_id v = k \<and> v \<in> set (invitations s)"
  by (auto simp: find_invitation_def row_find_def dest: find_SomeD)

lemma keeps_accept_transaction:
  assumes "d \<in> set internalRoleCatalog" and "rd_role d = iv_role v" and "iv_role v \<notin> super_admin_roles"
  shows "keeps (dual_control U A) (accept_transaction env actorId v d scope)"
  unfolding accept_transaction_def using assms
  by (intro keeps_rules dual_control_appends) (simp_all add: accepted_user_def granted_assignment_def)

lemma keeps_accept: "keeps (dual_control U A) (acceptInvitation env i user ctx)"
  unfolding acceptInvitation_def Let_def
  apply (rule dual_control_permission)
  apply (rule keeps_gets_found[where Q = "\<lambda>v. iv_role v \<noteq> PLATFORM_SUPER_ADMIN"])
   apply (auto simp: dual_control_def list_all_iff dest!: find_invitation_SomeD)[1]
  apply (rule keeps_bnd, rule keeps_throw_if)
  apply (rule keeps_bnd, (intro keeps_rules dual_control_quiet, simp)[1])
  apply (rule keeps_bnd, rule keeps_throw_if)
  apply (rule keeps_role_definition)
  apply (intro keeps_bnd dual_control_quiet keeps_accept_transaction)
    apply (auto simp: super_admin_roles_def dest: catalog_roles)
  done

interpretation dual: service_invariant admin_perform "dual_control U A" "\<lambda>(env, user, ctx, req). True"
proof
  show "keeps (dual_control U A) (admin_perform q)" for q
    by (cases q; cases "snd (snd (snd q))") (simp_all add: admin_perform_def keeps_ignore_result keeps_invite keeps_accept
        keeps_assign keeps_remove keeps_sessions keeps_createApprovalRequest keeps_decide)
qed

section \<open>Samples\<close>

definition admin_db :: db where
  "admin_db = (sample_db [])\<lparr> users := [sample_user\<lparr> u_id := ''s1'', u_role := SUPER_ADMIN \<rparr>,
       sample_user\<lparr> u_id := ''s2'', u_role := PLATFORM_SUPER_ADMIN \<rparr>,
       sample_user\<lparr> u_id := ''u1'', u_email := Some ''ada@example.org'', u_organizationId := None \<rparr>],
     invitations := [\<lparr> iv_id = ''i1'', iv_email = Some ''ada@example.org'', iv_phone = None, iv_fullName = ''Ada'',
       iv_role = SUPPORT_ADMIN, iv_status = IV_PENDING, iv_inviteCode = [], iv_organizationId = Some ''org1'',
       iv_invitedById = ''s1'', iv_acceptedUserId = None,
       iv_metadata = Some (JObj [(''scope'', JObj [(''type'', JStr ''ORGANIZATION''), (''organizationId'', JStr ''org1'')])]),
       iv_expiresAt = Some 2000000, iv_acceptedAt = None,
       iv_declinedAt = None, iv_revokedAt = None, iv_tokenHash = None, iv_resentAt = None,
       iv_lastNotificationAt = None, iv_createdAt = 0 \<rparr>] \<rparr>"

definition admin_session :: "string \<Rightarrow> user_role \<Rightarrow> admin_user" where
  "admin_session i role = session_of (sample_user\<lparr> u_id := i, u_role := role, u_organizationId := None \<rparr>)"

definition no_scope :: scope_dto where
  "no_scope = \<lparr> sd_scopeType = None, sd_scopeRef = None, sd_organizationId = None, sd_moduleKey = None \<rparr>"

definition grant_dto :: "string \<Rightarrow> assign_role_dto" where
  "grant_dto role = scope_dto.extend no_scope (assign_role_dto.fields (Some role) None None None)"

section \<open>Nobody becomes a super administrator\<close>

definition super_admin_ids :: "db \<Rightarrow> string set" where
  "super_admin_ids s = u_id ` {u \<in> set (users s). u_role u \<in> super_admin_roles}"

definition super_grant_ids :: "db \<Rightarrow> string set" where
  "super_grant_ids s = ia_id ` {a \<in> set (internalRoleAssignments s). ia_role a \<in> super_admin_roles}"

definition nothing_pending :: "db \<Rightarrow> bool" where
  "nothing_pending s \<longleftrightarrow> list_all (\<lambda>v. iv_role v \<noteq> PLATFORM_SUPER_ADMIN) (invitations s) \<and>
     list_all pa_executionBlocked (approvalRequests s)"

lemma dual_control_iff: "dual_control U A s \<longleftrightarrow> nothing_pending s \<and> super_admin_ids s \<subseteq> U \<and> super_grant_ids s \<subseteq> A"
  by (auto simp: dual_control_def nothing_pending_def super_admin_ids_def super_grant_ids_def list_all_iff)

text \<open>
  C16: From a database in which no invitation stands for the platform super role and every request for approval is
  blocked, nobody becomes a super administrator by delegated administration: along every history of its requests,
  acceptances included, by whomever and in whatever order, the super administrators and the grants of a super role are
  among those there were before, and every request for a high-risk operation stays blocked, also the approved ones.
  (An invitation to the super role can only come from another service, account administration.)
\<close>

theorem no_new_super_admin:
  assumes "admin_history (\<lambda>_. True) s t" and "nothing_pending s"
  shows "super_admin_ids t \<subseteq> super_admin_ids s \<and> super_grant_ids t \<subseteq> super_grant_ids s \<and>
    list_all pa_executionBlocked (approvalRequests t)"
  using dual.along[OF assms(1)[unfolded admin_history_def], of "super_admin_ids s" "super_grant_ids s"] assms(2)
  by (simp add: dual_control_iff nothing_pending_def)

definition super_grant :: admin_request where
  "super_grant = Assign_role ''u1'' (grant_dto ''PLATFORM_SUPER_ADMIN'')"

definition approve_grant :: admin_request where
  "approve_grant = Decide_approval ''new0'' \<lparr> de_decision = ''APPROVE'', de_reason = None \<rparr>"

definition after_super_grant :: db where
  "after_super_grant = snd (perform_admin sample_env (admin_session ''s2'' PLATFORM_SUPER_ADMIN) None approve_grant
     (snd (perform_admin sample_env (admin_session ''s1'' SUPER_ADMIN) None super_grant admin_db)))"

theorem no_new_super_admin_witness:
  "super_admin_ids after_super_grant \<subseteq> super_admin_ids admin_db \<and>
   list_all pa_executionBlocked (approvalRequests after_super_grant) \<and>
   map pa_status (approvalRequests after_super_grant) = [AP_EXECUTION_BLOCKED]"
proof -
  have "admin_history (\<lambda>_. True) admin_db after_super_grant"
    unfolding after_super_grant_def
    by (rule admin_next[OF admin_next[OF admin_start _ surjective_pairing] _ surjective_pairing]) simp_all
  moreover have "nothing_pending admin_db" by code_simp
  moreover have "map pa_status (approvalRequests after_super_grant) = [AP_EXECUTION_BLOCKED]" by code_simp
  ultimately show ?thesis using no_new_super_admin[of admin_db after_super_grant] by blast
qed

section \<open>One active super administrator remains\<close>

definition active_super :: "user \<Rightarrow> bool" where
  "active_super u \<longleftrightarrow> u_accountStatus u = ACTIVE \<and> u_role u \<in> super_admin_roles"

definition governed :: "db \<Rightarrow> bool" where
  "governed s \<longleftrightarrow> list_ex active_super (users s)"

lemma governed_users: "users t = users s \<Longrightarrow> governed s \<Longrightarrow> governed t"
  by (simp add: governed_def)

lemma governed_leaves: "leaves users m \<Longrightarrow> keeps governed (m :: 'a handler)"
  by (erule keeps_leaves) (rule governed_users)

lemma leaves_users: "leaves business m \<Longrightarrow> leaves users (m :: 'a handler)"
  by (rule leavesI) (metis leavesD business_fields(2))

lemma leaves_users_tables [leaves_rules]:
  "leaves users (update_invitation i f :: invitation handler)"
  "leaves users (update_role_assignment i g :: internal_role_assignment handler)"
  "leaves users (update_approval i h :: privileged_approval handler)"
  "leaves users (modify (invitations_update k) :: unit handler)"
  "leaves users (modify (internalRoleAssignments_update l) :: unit handler)"
  "leaves users (modify (approvalRequests_update m) :: unit handler)"
  by (auto simp: leaves_def update_invitation_def update_role_assignment_def update_approval_def row_update_def
      row_put_def split: option.split)

lemmas leaves_users_rules = leaves_rules leaves_users[OF leaves_admin_audit] leaves_users[OF leaves_auditDenied]
  leaves_users[OF leaves_assertPermission] leaves_users[OF leaves_notifyActor] leaves_reads[OF reads_admin_input(1)]
  leaves_reads[OF reads_admin_input(2)] leaves_reads[OF reads_admin_input(3)] leaves_reads[OF reads_admin_input(4)]
  leaves_reads[OF reads_admin_input(5)] leaves_reads[OF reads_admin_input(6)] leaves_reads[OF reads_admin_input(7)]
  leaves_reads[OF reads_admin_input(8)] leaves_reads[OF reads_admin_input(9)] leaves_reads[OF reads_admin_input(10)]

lemma leaves_createApproval: "leaves users (createApprovalRequest env dto user ctx reason)"
  unfolding createApprovalRequest_def Let_def by (intro leaves_users_rules)

lemma leaves_users_operations:
  "leaves users (inviteAdministrator env iv user ctx)" "leaves users (assignRole env i asg user ctx)"
  "leaves users (removeRole env i reason user ctx)" "leaves users (decideApprovalRequest env i de user ctx)"
  unfolding inviteAdministrator_def assignRole_def removeRole_def decideApprovalRequest_def Let_def
  by (intro leaves_users_rules leaves_createApproval)+

lemma governed_update_user:
  "(\<And>u. active_super u \<Longrightarrow> active_super (f u)) \<Longrightarrow> keeps governed (update_user i f :: user handler)"
  unfolding update_user_def by (rule keeps_row_update) (auto simp: governed_def list_ex_iff upd_rows_def)

lemma governed_suspend_other:
  "assertNotFinalActiveSuperAdmin i s = (Inr x, t) \<Longrightarrow>
     governed (t\<lparr>users := upd_rows (\<lambda>u. u_id u = i) f (users t)\<rparr>)"
  by (auto simp: assertNotFinalActiveSuperAdmin_def svc_run governed_def list_ex_iff active_super_def upd_rows_def
      filter_empty_conv split: if_splits)

lemma keeps_sq_update:
  assumes "\<And>s x t. I s \<Longrightarrow> g s = (Inr x, t) \<Longrightarrow> I t \<and> I (put (upd_rows (\<lambda>r. key r = k) f (get t)) t)" and "keeps I g"
    and "\<And>u. keeps I (h u)"
  shows "keeps I (sq g (bnd (row_update get put key k f) h))"
proof (rule keepsI)
  fix s r t
  assume "I s" and "sq g (bnd (row_update get put key k f) h) s = (r, t)"
  then show "I t" using assms
    by (elim bndE) (auto simp: row_update_def row_put_def split: option.splits dest: keepsD | metis keepsD)+
qed

lemma governed_suspend: "keeps governed (suspendAdministrator env i reason user ctx)"
  unfolding suspendAdministrator_def update_user_def
  apply (rule keeps_bnd, rule governed_leaves, (intro leaves_users_rules)[1])
  apply (rule keeps_bnd, rule governed_leaves, (intro leaves_users_rules)[1])
  apply (rule keeps_bnd, rule governed_leaves, (intro leaves_users_rules)[1])
  apply (rule keeps_sq_update)
    apply (metis governed_suspend_other readsD[OF reads_admin_input(10)])
   apply (intro governed_leaves leaves_users_rules)+
  done

lemma governed_sessions:
  "keeps governed (reactivateAdministrator env i reason user ctx)"
  "keeps governed (revokeSessions env i reason user ctx)"
  unfolding reactivateAdministrator_def revokeSessions_def
  by (rule keeps_bnd governed_update_user | (rule governed_leaves, intro leaves_users_rules; fail)
      | simp add: active_super_def revoked_session_data_def)+

definition no_acceptance :: "admin_request \<Rightarrow> bool" where
  "no_acceptance req \<longleftrightarrow> (case req of Accept_invite i \<Rightarrow> False | _ \<Rightarrow> True)"

interpretation governed: service_invariant admin_perform governed "\<lambda>(env, user, ctx, req). no_acceptance req"
proof
  show "keeps governed (admin_perform q)" if "case q of (env, user, ctx, req) \<Rightarrow> no_acceptance req" for q
    using that by (cases q; cases "snd (snd (snd q))") (simp_all add: admin_perform_def no_acceptance_def
        keeps_ignore_result governed_suspend governed_sessions governed_leaves leaves_users_operations leaves_createApproval)
qed

text \<open>
  C17: As long as nobody accepts an invitation, an active super administrator remains after every
  sequence of requests: suspending and removing roles never take the last one.
\<close>

theorem super_admin_remains:
  assumes "admin_history no_acceptance s t" and "governed s"
  shows "governed t"
  using governed.along assms unfolding admin_history_def .

definition mutual_suspension :: "(admin_user \<times> string) list" where
  "mutual_suspension = [(admin_session ''s1'' SUPER_ADMIN, ''s2''), (admin_session ''s2'' PLATFORM_SUPER_ADMIN, ''s1'')]"

definition after_suspensions :: db where
  "after_suspensions = foldl (\<lambda>s (user, i). snd (perform_admin sample_env user None (Suspend_admin i None) s))
     admin_db mutual_suspension"

theorem super_admin_remains_witness:
  "governed after_suspensions \<and> map u_accountStatus (users after_suspensions) = [ACTIVE, SUSPENDED, ACTIVE]"
proof -
  have "admin_history no_acceptance admin_db after_suspensions"
    unfolding after_suspensions_def mutual_suspension_def foldl.simps prod.case
    by (rule admin_next[OF admin_next[OF admin_start _ surjective_pairing] _ surjective_pairing])
      (simp_all add: no_acceptance_def)
  moreover have "governed admin_db" "map u_accountStatus (users after_suspensions) = [ACTIVE, SUSPENDED, ACTIVE]"
    by code_simp+
  ultimately show ?thesis using super_admin_remains by blast
qed

section \<open>Accepting an invitation\<close>

lemma permitted_session:
  assumes "u_id u \<noteq> []" and "u_accountStatus u = ACTIVE" and "p \<in> set (permissionsForRole env (u_role u))"
  shows "permitted env (session_of u) p organizationId s"
  using assms by (cases "nonempty organizationId")
    (auto simp: permitted_def session_of_def actor_id_def jwt_user.defs effective_of_def Let_def scope_covers_def)

lemma accept_transaction_user:
  assumes "accept_transaction env i v d scope s = (Inr x, t)"
  obtains u where "find_user i s = Some u" "find_user i t = Some (accepted_user v scope u)"
    "t = t\<lparr>users := users t\<rparr>"
  using assms unfolding accept_transaction_def transaction_def update_invitation_def row_update_def row_put_def
  apply (auto simp: svc_run split: prod.splits sum.splits option.splits elim!: user_table.updateE)
  apply (rule that, assumption)
   apply (drule user_table.find_put_same[rotated, where f = "accepted_user v scope"])
    apply (simp_all add: accepted_user_def find_user_def row_find_def put_user_def row_put_def)
  done

lemma acceptInvitation_InrD:
  assumes "acceptInvitation env i user ctx s = (Inr effective, t)" and "actor_id (requesting user) = Some a"
    and "find_invitation i s = Some v"
  shows "a \<noteq> [] \<and> (\<exists>d w. accept_transaction env a v d (scopeFromMetadata (objectRecord (iv_metadata v))) s = (Inr (), w) \<and>
    business t = business w)"
proof -
  have "a \<noteq> [] \<and> (\<exists>d w x. accept_transaction env a v d (scopeFromMetadata (objectRecord (iv_metadata v))) s = (Inr (), w) \<and>
      fst (admin_audit ''Internal Admin Invitation Accepted'' user ctx (Some ''Invitation'') (Some (iv_id v))
        [(''role'', jrole (iv_role v)), (''scope'', jscope (scopeFromMetadata (objectRecord (iv_metadata v))))] w) = Inr () \<and>
      snd (admin_audit ''Internal Admin Invitation Accepted'' user ctx (Some ''Invitation'') (Some (iv_id v))
        [(''role'', jrole (iv_role v)), (''scope'', jscope (scopeFromMetadata (objectRecord (iv_metadata v))))] w) = x \<and>
      snd (effectivePermissionsForUser env a None x) = t)"
    using assms unfolding acceptInvitation_def Let_def
    by (auto simp: admin_actor_def svc_run requireEnabledRole_def split: if_splits option.splits prod.splits sum.splits)
      (metis fst_conv snd_conv)+
  then show ?thesis
    using leaves_admin_audit reads_admin_input(11) unfolding leaves_def reads_def by metis
qed

text \<open>
  Once an invitation is accepted, the user's own role is the invited one, whatever it was
  before, so that the permissions of the role hold for every organization and at every later time: the
  scope and the expiry of the invitation bind nothing.
\<close>

theorem accepted_scope_void:
  assumes "acceptInvitation env i user ctx s = (Inr effective, t)" and "actor_id (requesting user) = Some a"
    and "find_invitation i s = Some v"
  shows "\<exists>u. find_user a t = Some u \<and> u_role u = iv_role v \<and> u_accountStatus u = ACTIVE \<and>
    list_all (\<lambda>p. permitted later_env (session_of u) p organizationId later) (permissionsForRole later_env (iv_role v))"
proof -
  from acceptInvitation_InrD[OF assms] obtain d w where a: "a \<noteq> []"
    and first: "accept_transaction env a v d (scopeFromMetadata (objectRecord (iv_metadata v))) s = (Inr (), w)"
    and same: "business t = business w" by blast
  from first obtain u where "find_user a w = Some (accepted_user v (scopeFromMetadata (objectRecord (iv_metadata v))) u)"
      "find_user a s = Some u"
    by (rule accept_transaction_user)
  moreover have "find_user a t = find_user a w"
    using same by (metis find_user_business)
  ultimately show ?thesis
    using a find_user_SomeD[of a s u] by (auto simp: list_all_iff accepted_user_def intro!: permitted_session)
qed

definition accepted_db :: db where
  "accepted_db = snd (acceptInvitation sample_env ''i1'' (admin_session ''u1'' CITIZEN) None admin_db)"

theorem accepted_scope_void_witness:
  "\<exists>u. find_user ''u1'' accepted_db = Some u \<and> u_role u = SUPPORT_ADMIN \<and>
     permitted (sample_env\<lparr>now := 9999999999\<rparr>) (session_of u) ''support.account_assistance'' (Some ''org2'') accepted_db"
proof -
  have "succeeds (acceptInvitation sample_env ''i1'' (admin_session ''u1'' CITIZEN) None) admin_db" by code_simp
  then obtain e t where run: "acceptInvitation sample_env ''i1'' (admin_session ''u1'' CITIZEN) None admin_db = (Inr e, t)"
    by (rule succeedsE)
  have "actor_id (requesting (admin_session ''u1'' CITIZEN)) = Some ''u1''"
    and "find_invitation ''i1'' admin_db = Some (hd (invitations admin_db))"
    and "iv_role (hd (invitations admin_db)) = SUPPORT_ADMIN"
    and "permissionsForRole (sample_env\<lparr>now := 9999999999\<rparr>) SUPPORT_ADMIN = [''support.account_assistance'', ''internal_admin.read'']"
    by code_simp+
  with accepted_scope_void[OF run this(1,2), of "sample_env\<lparr>now := 9999999999\<rparr>" "Some ''org2''" t] run
  show ?thesis by (auto simp: accepted_db_def)
qed

section \<open>The ceiling of a grant\<close>

definition within_ceiling :: "env \<Rightarrow> admin_user \<Rightarrow> string list \<Rightarrow> bool" where
  "within_ceiling env user ps \<longleftrightarrow>
     j_role user \<in> super_admin_roles \<or> set ps \<subseteq> set (permissionsForRole env (j_role user))"

lemma assertGrantCeiling_InrD:
  "assertGrantCeiling env user ps s = (Inr x, t) \<Longrightarrow> within_ceiling env user ps \<and> t = s"
  by (auto simp: assertGrantCeiling_def within_ceiling_def super_admin_roles_def filter_empty_conv svc_run split: if_splits)

lemma permissionArray_JStr: "set (permissionArray (JArr (map JStr ps))) \<subseteq> set ps"
  by (induction ps) (auto simp: permissionArray_def List.map_filter_def)

lemma reads_bnd_InrE:
  assumes "bnd m f s = (Inr y, t)" and "reads m"
  obtains x where "m s = (Inr x, s)" "f x s = (Inr y, t)"
  using assms by (elim bnd_InrE) (metis readsD)

lemma assertPermission_InrE:
  assumes "sq (assertPermission env user p organizationId ctx) k s = (Inr y, t)"
  obtains "permitted env user p organizationId s" "k s = (Inr y, t)"
  using assms by (elim bnd_InrE) (auto dest: assertPermission_InrD)

lemma admin_actor_InrD: "admin_actor user s = (Inr a, t) \<Longrightarrow> actor_id (requesting user) = Some a \<and> a \<noteq> [] \<and> t = s"
  by (auto simp: admin_actor_def nonempty_def svc_run split: option.splits if_splits)

lemma createApproval_reply: "createApprovalRequest env dto user ctx reason s \<noteq> (Inr (Assignment_reply g), t)"
  unfolding createApprovalRequest_def Let_def by (auto elim!: bnd_InrE)

lemma assignRole_InrD:
  assumes "assignRole env i dto user ctx s = (Inr (Assignment_reply g), t)"
  shows "\<exists>d scope startsAt expiresAt actor.
    permitted env user ''internal_admin.assign_role'' None s \<and> actor_id (requesting user) = Some actor \<and> actor \<noteq> i \<and>
    within_ceiling env user (rd_permissions d) \<and>
    g = granted_assignment (freshId env 0) i d scope actor (trimmed (ra_reason dto)) startsAt expiresAt \<and>
    internalRoleAssignments t = internalRoleAssignments s @ [g]"
  using assms unfolding assignRole_def Let_def
  apply (elim assertPermission_InrE)
  apply (erule reads_bnd_InrE, rule reads_admin_input)
  apply (erule bnd_InrE)
  apply (clarsimp simp: auditDenied_def admin_audit_def svc_run dest!: admin_actor_InrD split: if_splits)
  subgoal for actor
    by (auto simp: svc_run admin_audit_def createApproval_reply split: if_splits option.splits prod.splits sum.splits
        dest!: readsD[OF reads_admin_input(3)] readsD[OF reads_admin_input(5)] assertGrantCeiling_InrD
          readsD[OF reads_admin_input(9)] readsD[OF reads_admin_input(8)] admin_actor_InrD) blast+
  done

lemma effective_of_grant:
  assumes "internalRoleAssignments t = internalRoleAssignments s @ [g]"
  shows "set (ep_permissions (effective_of env i role organizationId t)) \<subseteq>
    set (ep_permissions (effective_of env i role organizationId s)) \<union>
      (if ia_userId g = i then set (permissionArray (ia_permissionsSnapshot g)) else {})"
    and "ia_userId g \<noteq> i \<Longrightarrow> effective_of env i role organizationId t = effective_of env i role organizationId s"
  using assms by (auto simp: effective_of_def Let_def active_assignment_def)

text \<open>
  A grant by an administrator who is no super administrator never reaches beyond the permissions of
  the grantor's own role, is never a grant to the grantor, and changes nobody else's permissions.
\<close>

theorem grant_ceiling:
  assumes "assignRole env i dto user ctx s = (Inr (Assignment_reply g), t)" and "j_role user \<notin> super_admin_roles"
  shows "set (ep_permissions (effective_of later_env i role organizationId t)) \<subseteq>
      set (ep_permissions (effective_of later_env i role organizationId s)) \<union> set (permissionsForRole env (j_role user)) \<and>
    actor_id (requesting user) \<noteq> Some i \<and>
    (k \<noteq> i \<longrightarrow> effective_of later_env k role organizationId t = effective_of later_env k role organizationId s)"
proof -
  from assignRole_InrD[OF assms(1)] obtain d scope startsAt expiresAt actor where
    "actor_id (requesting user) = Some actor" "actor \<noteq> i"
    and ceiling: "within_ceiling env user (rd_permissions d)"
    and g: "g = granted_assignment (freshId env 0) i d scope actor (trimmed (ra_reason dto)) startsAt expiresAt"
    and t: "internalRoleAssignments t = internalRoleAssignments s @ [g]" by blast
  moreover have "set (permissionArray (ia_permissionsSnapshot g)) \<subseteq> set (permissionsForRole env (j_role user))"
    using ceiling assms(2) permissionArray_JStr[of "rd_permissions d"] by (auto simp: within_ceiling_def g granted_assignment_def)
  moreover have "ia_userId g = i" by (simp add: g granted_assignment_def)
  ultimately show ?thesis
    using effective_of_grant[OF t] by fastforce
qed

definition granting_admin :: admin_user where
  "granting_admin = (admin_session ''u2'' SECURITY_ADMIN)"

text \<open>A security administrator holds the right to assign roles through a grant, and passes on the role's own permissions.\<close>

definition grant_db :: db where
  "grant_db = admin_db\<lparr> internalRoleAssignments :=
     [granted_assignment ''g0'' ''u2'' \<lparr> rd_role = SECURITY_ADMIN, rd_canonicalName = [], rd_displayName = [], rd_description = [],
        rd_permissions = [''internal_admin.assign_role''], rd_defaultScopeType = SC_PLATFORM,
        rd_requiresEnterpriseFeature = None, rd_highRiskGrant = False, rd_reusedExistingRole = None, rd_version = 1 \<rparr>
       \<lparr> is_type = SC_PLATFORM, is_ref = None, is_organizationId = None, is_moduleKey = None, is_jurisdiction = None \<rparr>
       ''s1'' None 0 None] \<rparr>"

theorem grant_ceiling_witness:
  "set (ep_permissions (effective_of sample_env ''u1'' CITIZEN None
      (snd (assignRole sample_env ''u1'' (grant_dto ''SECURITY_ADMIN'') granting_admin None grant_db)))) \<subseteq>
    set (ep_permissions (effective_of sample_env ''u1'' CITIZEN None grant_db)) \<union>
    set [''security.session_manage'', ''internal_admin.revoke_sessions'', ''internal_admin.view_audit'']"
proof -
  let ?run = "assignRole sample_env ''u1'' (grant_dto ''SECURITY_ADMIN'') granting_admin None"
  have "(case fst (?run grant_db) of Inr (Assignment_reply g) \<Rightarrow> True | _ \<Rightarrow> False)" by code_simp
  then obtain g t where run: "?run grant_db = (Inr (Assignment_reply g), t)"
    by (cases "?run grant_db"; cases "fst (?run grant_db)"; cases "projr (fst (?run grant_db))") auto
  have "permissionsForRole sample_env (j_role granting_admin) =
      [''security.session_manage'', ''internal_admin.revoke_sessions'', ''internal_admin.view_audit'']"
    and "j_role granting_admin \<notin> super_admin_roles"
    by code_simp+
  with grant_ceiling[OF run this(2), of sample_env CITIZEN None] show ?thesis by (simp add: run)
qed

section \<open>Ended sessions\<close>

lemma revokeSessions_InrD:
  assumes "revokeSessions env i reason user ctx s = (Inr n, t)"
  shows "\<exists>u. find_user i s = Some u \<and> n = u_tokenVersion u + 1 \<and>
    find_user i t = Some (revoked_session_data env reason (u_profileData u) u) \<and>
    (\<forall>k. k \<noteq> i \<longrightarrow> find_user k t = find_user k s)"
proof -
  from assms have "\<exists>u v w. find_user i s = Some u \<and>
      update_user i (revoked_session_data env reason (u_profileData u)) s = (Inr v, w) \<and>
      n = u_tokenVersion v \<and> business t = business w"
    unfolding revokeSessions_def
    apply (elim assertPermission_InrE)
    apply (erule reads_bnd_InrE, intro reads_rules)
    apply (erule reads_bnd_InrE, intro reads_rules)
    apply (erule reads_bnd_InrE, intro reads_rules)
    apply (erule reads_bnd_InrE, intro reads_rules)
    apply (elim bnd_InrE)
    subgoal for actor _ found u v w x y
      by (rule exI[of _ u], rule exI[of _ v], rule exI[of _ w])
        (simp add: leavesD[OF leaves_admin_audit] split: option.splits)
    done
  then obtain u v w where u: "find_user i s = Some u"
    and v: "update_user i (revoked_session_data env reason (u_profileData u)) s = (Inr v, w)"
    and n: "n = u_tokenVersion v" and t: "business t = business w" by blast
  from v show ?thesis
  proof (cases rule: user_table.updateE[where f = "revoked_session_data env reason (u_profileData u)"])
    case missing
    then show ?thesis by simp
  next
    case (updated r)
    have key: "u_id (revoked_session_data env reason (u_profileData u) w) = u_id w" for w
      by (simp add: revoked_session_data_def)
    have "find_user k t = find_user k (put_user i (revoked_session_data env reason (u_profileData u)) s)" for k
      using t updated by (metis find_user_business)
    moreover have "find_user i (put_user i (revoked_session_data env reason (u_profileData u)) s) =
        Some (revoked_session_data env reason (u_profileData u) u)"
      by (rule user_table.find_put_same[OF key u])
    moreover have "find_user k (put_user i (revoked_session_data env reason (u_profileData u)) s) = find_user k s"
      if "k \<noteq> i" for k
      using that by (intro user_table.find_put_other[OF key]) simp
    ultimately show ?thesis
      using updated u n by (simp add: revoked_session_data_def)
  qed
qed

text \<open>
  Ending a user's sessions ends every one of them: no token the platform accepted before is
  accepted afterwards, and every other user's tokens are as good as they were.
\<close>

theorem revoked_tokens_rejected:
  assumes "revokeSessions env i reason user ctx s = (Inr n, t)" and "validate_token payload s = (Inr session, s')"
  shows "if jp_sub payload = i then validate_token payload t = (Inl (Unauthorized ''Unauthorized''), t)
    else validate_token payload t = (Inr session, t)"
proof -
  from revokeSessions_InrD[OF assms(1)] obtain u where "find_user i s = Some u"
    "find_user i t = Some (revoked_session_data env reason (u_profileData u) u)"
    "\<forall>k. k \<noteq> i \<longrightarrow> find_user k t = find_user k s" by blast
  with assms(2) show ?thesis
    by (cases "jp_sub payload = i") (auto simp: validate_token_def isCurrentTokenVersion_def revoked_session_data_def
        jint_def split: option.splits if_splits)
qed

definition one_session :: jwt_payload where
  "one_session = \<lparr> jp_sub = ''u1'', jp_tokenVersion = Some (jint 0) \<rparr>"

theorem revoked_tokens_rejected_witness:
  "fst (validate_token one_session (snd (revokeSessions sample_env ''u1'' (Some ''Lost phone'')
      (admin_session ''s1'' SUPER_ADMIN) None admin_db))) = Inl (Unauthorized ''Unauthorized'')"
proof -
  let ?run = "revokeSessions sample_env ''u1'' (Some ''Lost phone'') (admin_session ''s1'' SUPER_ADMIN) None"
  have "succeeds ?run admin_db" "succeeds (validate_token one_session) admin_db" by code_simp+
  then obtain n t session s' where run: "?run admin_db = (Inr n, t)" "validate_token one_session admin_db = (Inr session, s')"
    by (auto elim!: succeedsE)
  have "jp_sub one_session = ''u1''" by (simp add: one_session_def)
  with revoked_tokens_rejected[OF run] show ?thesis by (simp add: run(1))
qed

end
