(* ===== verification/Plan_Catalog.thy ===== *)
theory Plan_Catalog imports Tables Calendar begin

text \<open>
  The commercial plans an organization can pay for (\<open>payments/plan-catalog.ts\<close>, \<open>payments/payment.types.ts\<close>)
  and the end of a billing period (\<open>payments.service.ts\<close>, \<open>addBillingPeriod\<close>).
\<close>

section \<open>Plans\<close>

datatype billing_interval = Monthly | Yearly

record plan_entitlements =
  pe_allowedUsers :: "int option"
  pe_allowedProviders :: "int option"
  pe_allowedReportsPerMonth :: "int option"
  pe_allowedStorageMb :: "int option"
  pe_enabledModules :: "string list"

record commercial_plan =
  pl_code :: subscription_plan
  pl_displayNameKey :: string
  pl_descriptionKey :: string
  pl_billingInterval :: billing_interval
  pl_currency :: string
  pl_amountMinor :: int
  pl_active :: bool
  pl_entitlements :: plan_entitlements
  pl_providerReferences :: "payment_environment \<Rightarrow> string option"

definition maintenanceOnlyModules :: "string list" where
  "maintenanceOnlyModules = [''MAINTENANCE_SERVICES'']"

definition test_reference :: "env \<Rightarrow> string \<Rightarrow> payment_environment \<Rightarrow> string option" where
  "test_reference env variable e = (case e of TEST \<Rightarrow> trimmed (envVar env variable) | LIVE \<Rightarrow> None)"

definition paymentPlanCatalog :: "env \<Rightarrow> commercial_plan list" where
  "paymentPlanCatalog env =
    [\<lparr> pl_code = STARTER,
       pl_displayNameKey = ''billing.plan.starter.name'',
       pl_descriptionKey = ''billing.plan.starter.description'',
       pl_billingInterval = Monthly,
       pl_currency = ''NGN'',
       pl_amountMinor = 500000,
       pl_active = True,
       pl_entitlements = \<lparr> pe_allowedUsers = Some 10, pe_allowedProviders = Some 5,
         pe_allowedReportsPerMonth = Some 200, pe_allowedStorageMb = Some 1024,
         pe_enabledModules = maintenanceOnlyModules \<rparr>,
       pl_providerReferences = test_reference env ''PAYSTACK_PLAN_STARTER_TEST_REF'' \<rparr>,
     \<lparr> pl_code = PROFESSIONAL,
       pl_displayNameKey = ''billing.plan.professional.name'',
       pl_descriptionKey = ''billing.plan.professional.description'',
       pl_billingInterval = Monthly,
       pl_currency = ''NGN'',
       pl_amountMinor = 2500000,
       pl_active = True,
       pl_entitlements = \<lparr> pe_allowedUsers = Some 50, pe_allowedProviders = Some 25,
         pe_allowedReportsPerMonth = Some 2000, pe_allowedStorageMb = Some 10240,
         pe_enabledModules = maintenanceOnlyModules \<rparr>,
       pl_providerReferences = test_reference env ''PAYSTACK_PLAN_PROFESSIONAL_TEST_REF'' \<rparr>,
     \<lparr> pl_code = GOVERNMENT,
       pl_displayNameKey = ''billing.plan.government.name'',
       pl_descriptionKey = ''billing.plan.government.description'',
       pl_billingInterval = Monthly,
       pl_currency = ''NGN'',
       pl_amountMinor = 10000000,
       pl_active = True,
       pl_entitlements = \<lparr> pe_allowedUsers = Some 250, pe_allowedProviders = Some 100,
         pe_allowedReportsPerMonth = Some 10000, pe_allowedStorageMb = Some 102400,
         pe_enabledModules = maintenanceOnlyModules \<rparr>,
       pl_providerReferences = test_reference env ''PAYSTACK_PLAN_GOVERNMENT_TEST_REF'' \<rparr>,
     \<lparr> pl_code = ENTERPRISE,
       pl_displayNameKey = ''billing.plan.enterprise.name'',
       pl_descriptionKey = ''billing.plan.enterprise.description'',
       pl_billingInterval = Monthly,
       pl_currency = ''NGN'',
       pl_amountMinor = 25000000,
       pl_active = False,
       pl_entitlements = \<lparr> pe_allowedUsers = None, pe_allowedProviders = None,
         pe_allowedReportsPerMonth = None, pe_allowedStorageMb = None,
         pe_enabledModules = maintenanceOnlyModules \<rparr>,
       pl_providerReferences = test_reference env ''PAYSTACK_PLAN_ENTERPRISE_TEST_REF'' \<rparr>]"

definition resolvePaymentPlan :: "env \<Rightarrow> string \<Rightarrow> commercial_plan option" where
  "resolvePaymentPlan env code =
     find (\<lambda>plan. subscription_plan_name (pl_code plan) = toUpperCase (trim code)) (paymentPlanCatalog env)"

lemma toUpperCase_plan_name [simp]:
  "toUpperCase (trim (subscription_plan_name p)) = subscription_plan_name p"
  by (cases p) (simp_all add: trim_def is_space_def toUpperCase_def upper_char_def)

lemma subscription_plan_name_inj [simp]: "subscription_plan_name a = subscription_plan_name b \<longleftrightarrow> a = b"
  by (cases a; cases b) simp_all

text \<open>Every plan is found by its own code; a plan's price and currency are fixed by the code.\<close>

lemma plan_codes: "map pl_code (paymentPlanCatalog env) = [STARTER, PROFESSIONAL, GOVERNMENT, ENTERPRISE]"
  by (simp add: paymentPlanCatalog_def)

lemma plan_names_distinct: "distinct (map (\<lambda>plan. subscription_plan_name (pl_code plan)) (paymentPlanCatalog env))"
proof -
  have "map (\<lambda>plan. subscription_plan_name (pl_code plan)) (paymentPlanCatalog env) =
      map subscription_plan_name (map pl_code (paymentPlanCatalog env))" by simp
  then show ?thesis unfolding plan_codes by simp
qed

lemma resolve_own_code:
  "plan \<in> set (paymentPlanCatalog env) \<Longrightarrow> resolvePaymentPlan env (subscription_plan_name (pl_code plan)) = Some plan"
  unfolding resolvePaymentPlan_def toUpperCase_plan_name
  by (rule find_distinct_key[OF plan_names_distinct])

lemma resolvePaymentPlan_SomeD:
  "resolvePaymentPlan env code = Some plan \<Longrightarrow>
     plan \<in> set (paymentPlanCatalog env) \<and> subscription_plan_name (pl_code plan) = toUpperCase (trim code)"
  by (auto simp: resolvePaymentPlan_def dest: find_SomeD)

section \<open>The end of a billing period\<close>

text \<open>
  \<open>setUTCMonth(getUTCMonth() + 1)\<close> and \<open>setUTCFullYear(getUTCFullYear() + 1)\<close> keep the day of the
  month and carry a day the new month does not have into the month after it.
\<close>

definition addBillingPeriod :: "int \<Rightarrow> billing_interval \<Rightarrow> int" where
  "addBillingPeriod start interval =
     (case civil_date (start div 86400000) of (y, m, d) \<Rightarrow>
        case (case interval of Yearly \<Rightarrow> (y + 1, m) | Monthly \<Rightarrow> next_month y m) of (y', m') \<Rightarrow>
          (days_of_civil y' m' 1 + d - 1) * 86400000 + start mod 86400000)"

text \<open>A monthly period is as long as the month it starts in; a yearly one from 365 to 366 days.\<close>

definition day_ms_of :: "int \<Rightarrow> int" where
  "day_ms_of n = n * 86400000"

lemma billing_period:
  "start + day_ms_of 28 \<le> addBillingPeriod start Monthly" "addBillingPeriod start Monthly \<le> start + day_ms_of 31"
  "start + day_ms_of 365 \<le> addBillingPeriod start Yearly" "addBillingPeriod start Yearly \<le> start + day_ms_of 366"
proof -
  define q r where "q = start div 86400000" and "r = start mod 86400000"
  have start: "start = q * 86400000 + r" by (simp add: q_def r_def)
  obtain y m d where civil: "civil_date q = (y, m, d)" by (metis prod_cases3)
  have day: "q = days_of_civil y m d" and m: "1 \<le> m" "m \<le> 12"
    using days_of_civil_date[of q] by (simp_all add: civil)
  obtain y' m' where following: "next_month y m = (y', m')" by (metis prod.exhaust)
  define a b c where "a = days_of_civil y m 1" and "b = days_of_civil y' m' 1" and "c = days_of_civil (y + 1) m 1"
  have q: "q = a + d - 1"
    unfolding day a_def by (simp add: days_of_civil_def Let_def)
  have month: "addBillingPeriod start Monthly = (b + d - 1) * 86400000 + r"
    and year: "addBillingPeriod start Yearly = (c + d - 1) * 86400000 + r"
    using civil following by (simp_all add: addBillingPeriod_def q_def r_def b_def c_def)
  have "28 \<le> b - a" "b - a \<le> 31" "365 \<le> c - a" "c - a \<le> 366"
    using month_length[OF m, of y] year_length_civil[of y m] following by (simp_all add: a_def b_def c_def)
  then show "start + day_ms_of 28 \<le> addBillingPeriod start Monthly" "addBillingPeriod start Monthly \<le> start + day_ms_of 31"
    "start + day_ms_of 365 \<le> addBillingPeriod start Yearly" "addBillingPeriod start Yearly \<le> start + day_ms_of 366"
    using start q unfolding day_ms_of_def month year by simp_all
qed

end
