(* ===== verification/Paystack.thy ===== *)
theory Paystack imports Plan_Catalog begin

text \<open>
  The payment provider's adapter (\<open>payments/paystack.adapter.ts\<close>): readiness, the two requests to the
  provider, the signature of webhooks and the reading of the provider's JSON. Only the HTTP client,
  the keyed digest and the date parser come from outside (\<open>env\<close>).
\<close>

section \<open>Texts and bytes\<close>

fun hex_digit :: "char \<Rightarrow> nat option" where
  "hex_digit c = (let n = of_char c :: nat in
     if 48 \<le> n \<and> n \<le> 57 then Some (n - 48)
     else if 97 \<le> n \<and> n \<le> 102 then Some (n - 87)
     else if 65 \<le> n \<and> n \<le> 70 then Some (n - 55)
     else None)"

text \<open>\<open>Buffer.from(text, 'hex')\<close> stops at the first pair that is not two hexadecimal digits.\<close>

fun hex_bytes :: "string \<Rightarrow> nat list" where
  "hex_bytes (a # b # rest) = (case (hex_digit a, hex_digit b) of
     (Some x, Some y) \<Rightarrow> (16 * x + y) # hex_bytes rest
   | _ \<Rightarrow> [])"
| "hex_bytes _ = []"

definition upper_hex :: "nat \<Rightarrow> char" where
  "upper_hex n = char_of (if n < 10 then 48 + n else 55 + n)"

definition unreserved :: "char \<Rightarrow> bool" where
  "unreserved c \<longleftrightarrow> (let n = of_char c :: nat in
     48 \<le> n \<and> n \<le> 57 \<or> 65 \<le> n \<and> n \<le> 90 \<or> 97 \<le> n \<and> n \<le> 122) \<or> c \<in> set ''-_.!~*()'' \<or> c = CHR 0x27"

definition encodeURIComponent :: "string \<Rightarrow> string" where
  "encodeURIComponent s = concat (map (\<lambda>c. if unreserved c then [c]
     else CHR 0x25 # [upper_hex (of_char c div 16), upper_hex (of_char c mod 16)]) s)"

text \<open>
  \<open>Number(text)\<close> for decimal literals: an optional sign, digits with an optional point and an optional
  exponent; blank text is zero and everything else is not a number. (Hexadecimal, octal and binary
  literals and \<open>Infinity\<close>, which no provider sends as an amount, are not numbers here.)
\<close>

definition is_digit :: "char \<Rightarrow> bool" where
  "is_digit c \<longleftrightarrow> (let n = of_char c :: nat in 48 \<le> n \<and> n \<le> 57)"

definition digits_value :: "string \<Rightarrow> nat" where
  "digits_value ds = foldl (\<lambda>acc c. 10 * acc + (of_char c - 48)) 0 ds"

definition sign_of :: "string \<Rightarrow> rat \<times> string" where
  "sign_of s = (case s of [] \<Rightarrow> (1, []) | c # cs \<Rightarrow>
     if c = CHR 0x2D then (-1, cs) else if c = CHR 0x2B then (1, cs) else (1, s))"

definition exponent_of :: "string \<Rightarrow> rat option" where
  "exponent_of s = (case s of
     [] \<Rightarrow> Some 1
   | e # rest \<Rightarrow>
       if e = CHR 0x65 \<or> e = CHR 0x45 then
         (case sign_of rest of (sg, ds) \<Rightarrow>
            if ds \<noteq> [] \<and> list_all is_digit ds
            then Some (if sg = 1 then 10 ^ digits_value ds else 1 / 10 ^ digits_value ds) else None)
       else None)"

definition number_of_text :: "string \<Rightarrow> rat option" where
  "number_of_text s =
     (let t = trim s in
      if t = [] then Some 0
      else case sign_of t of (sg, body) \<Rightarrow>
        let whole = takeWhile is_digit body;
            after = dropWhile is_digit body;
            pointed = (case after of c # cs \<Rightarrow> c = CHR 0x2E | [] \<Rightarrow> False);
            part = (if pointed then takeWhile is_digit (tl after) else []);
            rest = (if pointed then dropWhile is_digit (tl after) else after)
        in if whole @ part = [] then None
           else map_option (\<lambda>scale. sg * of_nat (digits_value (whole @ part)) / 10 ^ length part * scale)
                  (exponent_of rest))"

text \<open>\<open>Number(value ?? 0)\<close>.\<close>

definition amount_of :: "json option \<Rightarrow> rat option" where
  "amount_of value = (case value of
     None \<Rightarrow> Some 0
   | Some JNull \<Rightarrow> Some 0
   | Some (JBool b) \<Rightarrow> Some (if b then 1 else 0)
   | Some (JNum r) \<Rightarrow> Some r
   | Some j \<Rightarrow> number_of_text (json_text j))"

section \<open>Reading the provider's JSON\<close>

definition asRecord :: "json option \<Rightarrow> (string \<times> json) list" where
  "asRecord value = (case value of Some (JObj kvs) \<Rightarrow> kvs | _ \<Rightarrow> [])"

definition optionalString :: "json option \<Rightarrow> string option" where
  "optionalString value = (case value of Some (JStr t) \<Rightarrow> trimmed (Some t) | _ \<Rightarrow> None)"

definition requiredString :: "json option \<Rightarrow> ('s, string) svc" where
  "requiredString value = require (BadGateway ''PAYSTACK_RESPONSE_MALFORMED'') (optionalString value)"

text \<open>\<open>a ?? b\<close> on fields: a missing field and null give way.\<close>

definition present :: "json option \<Rightarrow> json option" where
  "present value = (case value of Some JNull \<Rightarrow> None | _ \<Rightarrow> value)"

definition provider_date :: "env \<Rightarrow> json option \<Rightarrow> int option" where
  "provider_date env value = (case optionalString value of None \<Rightarrow> None | Some t \<Rightarrow> parseDate env t)"

definition sanitizeMetadata :: "(string \<times> json) list \<Rightarrow> json" where
  "sanitizeMetadata metadata = JObj
     [(''organizationId'', jopt JStr (optionalString (map_of metadata ''organizationId''))),
      (''planCode'', jopt JStr (optionalString (map_of metadata ''planCode''))),
      (''internalReference'', jopt JStr (optionalString (map_of metadata ''internalReference'')))]"

section \<open>Readiness\<close>

definition secretKey :: "env \<Rightarrow> string" where
  "secretKey env = or_else (map_option trim (envVar env ''PAYSTACK_SECRET_KEY'')) []"

definition adapter_environment :: "env \<Rightarrow> payment_environment" where
  "adapter_environment env =
     (if toLowerCase (or_else (envVar env ''PAYSTACK_MODE'') ''test'') = ''live'' then LIVE else TEST)"

definition assertReady :: "env \<Rightarrow> ('s, unit) svc" where
  "assertReady env =
     sq (throw_if (envVar env ''PAYMENTS_ENABLED'' \<noteq> Some ''true'') (ServiceUnavailable ''PAYMENTS_DISABLED''))
    (sq (throw_if (secretKey env = []) (ServiceUnavailable ''PAYSTACK_SECRET_MISSING''))
        (throw_if (adapter_environment env = LIVE \<and> contains (secretKey env) ''test'')
           (ServiceUnavailable ''PAYSTACK_LIVE_KEY_REQUIRED'')))"

section \<open>Transactions as the provider states them\<close>

record provider_transaction =
  pt_environment :: payment_environment
  pt_providerReference :: string
  pt_internalReference :: string
  pt_status :: payment_status
  pt_amountMinor :: "rat option"
  pt_currency :: string
  pt_paidAt :: "int option"
  pt_eventId :: "string option"
  pt_metadata :: json

definition provider_status :: "string option \<Rightarrow> string option \<Rightarrow> payment_status" where
  "provider_status statusText event =
     (if event = Some ''refund.processed'' then P_REFUNDED
      else if statusText = Some ''success'' then P_PAID
      else if statusText = Some ''failed'' \<or> event = Some ''charge.failed'' then P_FAILED
      else P_PENDING)"

definition normalizeTransaction ::
    "env \<Rightarrow> (string \<times> json) list \<Rightarrow> string option \<Rightarrow> string option \<Rightarrow> ('s, provider_transaction) svc" where
  "normalizeTransaction env data eventId event =
     (let statusText = map_option toLowerCase (optionalString (map_of data ''status'')) in
      bnd (requiredString (map_of data ''reference'')) (\<lambda>reference.
      bnd (requiredString (map_of data ''currency'')) (\<lambda>currency.
        ret \<lparr> pt_environment = adapter_environment env,
              pt_providerReference = reference,
              pt_internalReference = reference,
              pt_status = provider_status statusText event,
              pt_amountMinor = amount_of (map_of data ''amount''),
              pt_currency = toUpperCase currency,
              pt_paidAt = provider_date env (coalesce (present (map_of data ''paid_at'')) (map_of data ''paidAt'')),
              pt_eventId = eventId,
              pt_metadata = sanitizeMetadata (asRecord (map_of data ''metadata'')) \<rparr>)))"

section \<open>Requests to the provider\<close>

definition fetchPaystack :: "env \<Rightarrow> string \<Rightarrow> json option \<Rightarrow> ('s, json) svc" where
  "fetchPaystack env path body = (case httpFetch env path body of
     None \<Rightarrow> throw (BadGateway ''PAYSTACK_PROVIDER_UNAVAILABLE'')
   | Some (ok, parsed) \<Rightarrow> sq (throw_if (\<not> ok) (BadGateway ''PAYSTACK_PROVIDER_ERROR'')) (ret parsed))"

definition mapData :: "json \<Rightarrow> ('s, (string \<times> json) list) svc" where
  "mapData response =
     (let body = asRecord (Some response) in
      sq (throw_if (map_of body ''status'' \<noteq> Some (JBool True)) (BadGateway ''PAYSTACK_PROVIDER_ERROR''))
         (ret (asRecord (map_of body ''data''))))"

record initialization_request =
  ir_email :: string
  ir_amountMinor :: int
  ir_currency :: string
  ir_reference :: string
  ir_callbackUrl :: string
  ir_planReference :: "string option"
  ir_metadata :: json

record initialization_result =
  in_authorizationUrl :: string
  in_accessCode :: string
  in_providerReference :: string

definition initialization_body :: "initialization_request \<Rightarrow> json" where
  "initialization_body request = JObj
     ([(''email'', JStr (ir_email request)), (''amount'', jint (ir_amountMinor request)),
       (''currency'', JStr (ir_currency request)), (''reference'', JStr (ir_reference request)),
       (''callback_url'', JStr (ir_callbackUrl request)), (''metadata'', ir_metadata request)] @
      jfield ''plan'' JStr (nonempty (ir_planReference request)))"

definition initializeTransaction :: "env \<Rightarrow> initialization_request \<Rightarrow> ('s, initialization_result) svc" where
  "initializeTransaction env request =
     sq (assertReady env)
    (bnd (fetchPaystack env ''/transaction/initialize'' (Some (initialization_body request))) (\<lambda>response.
     bnd (mapData response) (\<lambda>data.
     bnd (requiredString (map_of data ''authorization_url'')) (\<lambda>authorizationUrl.
     bnd (requiredString (map_of data ''access_code'')) (\<lambda>accessCode.
     bnd (requiredString (coalesce (present (map_of data ''reference'')) (Some (JStr (ir_reference request)))))
       (\<lambda>providerReference.
        ret \<lparr> in_authorizationUrl = authorizationUrl, in_accessCode = accessCode,
              in_providerReference = providerReference \<rparr>))))))"

definition provider_verify :: "env \<Rightarrow> string \<Rightarrow> ('s, provider_transaction) svc" where
  "provider_verify env reference =
     sq (assertReady env)
    (bnd (fetchPaystack env (''/transaction/verify/'' @ encodeURIComponent reference) None) (\<lambda>response.
     bnd (mapData response) (\<lambda>data. normalizeTransaction env data None None)))"

section \<open>Webhooks\<close>

definition validateWebhookSignature :: "env \<Rightarrow> string \<Rightarrow> string option \<Rightarrow> bool" where
  "validateWebhookSignature env rawBody signature =
     (case trimmed signature of
        None \<Rightarrow> False
      | Some provided \<Rightarrow> secretKey env \<noteq> [] \<and>
          hex_bytes (hmacSha512 env (secretKey env) rawBody) = hex_bytes provided)"

record webhook_event =
  we_event :: string
  we_eventId :: string
  we_transaction :: "provider_transaction option"

definition recognized_events :: "string list" where
  "recognized_events = [''charge.success'', ''charge.failed'', ''transfer.failed'', ''refund.processed'']"

definition parseWebhookEvent :: "env \<Rightarrow> json \<Rightarrow> ('s, webhook_event) svc" where
  "parseWebhookEvent env payload =
     (let body = asRecord (Some payload) in
      bnd (requiredString (map_of body ''event'')) (\<lambda>event.
      let data = asRecord (map_of body ''data'') in
      bnd (case coalesce (optionalString (map_of body ''id'')) (optionalString (map_of data ''id'')) of
             Some i \<Rightarrow> ret i
           | None \<Rightarrow> bnd (requiredString (map_of data ''reference'')) (\<lambda>reference. ret (event @ '':'' @ reference)))
        (\<lambda>eventId.
      bnd (if event \<in> set recognized_events
           then bnd (normalizeTransaction env data (Some eventId) (Some event)) (\<lambda>t. ret (Some t))
           else ret None) (\<lambda>transaction.
      ret \<lparr> we_event = event, we_eventId = eventId, we_transaction = transaction \<rparr>))))"

section \<open>The adapter only reads\<close>

lemma reads_requiredString [reads_rules]: "reads (requiredString value)"
  unfolding requiredString_def by (intro reads_rules)

lemma reads_adapter [reads_rules]:
  "reads (assertReady env)" "reads (fetchPaystack env path body)" "reads (mapData response)"
  "reads (normalizeTransaction env data eventId event)"
  unfolding assertReady_def fetchPaystack_def mapData_def normalizeTransaction_def Let_def
  by (intro reads_rules)+

lemma reads_provider [reads_rules]:
  "reads (initializeTransaction env request)" "reads (provider_verify env reference)"
  "reads (parseWebhookEvent env payload)"
  unfolding initializeTransaction_def provider_verify_def parseWebhookEvent_def Let_def
  by (intro reads_rules)+

text \<open>Both references of a provider's statement are the one it names, whatever the adapter read.\<close>

lemma normalizeTransaction_InrD:
  "normalizeTransaction env data eventId event s = (Inr t, s') \<Longrightarrow>
     pt_providerReference t = pt_internalReference t \<and> pt_eventId t = eventId \<and>
     pt_status t \<in> {P_REFUNDED, P_PAID, P_FAILED, P_PENDING} \<and> s' = s"
  by (auto simp: normalizeTransaction_def provider_status_def requiredString_def svc_run Let_def
      split: option.splits if_splits)

end
