(* ===== verification/Payments.thy ===== *)
theory Payments imports Paystack Internal_Roles "HOL-Library.Product_Lexorder" "HOL-Library.List_Lexorder" "HOL-Library.Char_ord" begin

text \<open>
  Organization payments (\<open>payments/payments.service.ts\<close>): the plans on offer, starting a payment, reading
  payments and receipts, the provider's webhook, verification and reconciliation, and what a payment
  the provider confirms changes. The one provider is the adapter of theory \<open>Paystack\<close>; the column that
  names it is left out of the rows.
\<close>

section \<open>Rows\<close>

text \<open>A created row whose unique columns clash with an existing row is refused by the database.\<close>

definition create_row :: "('s \<Rightarrow> 'r list) \<Rightarrow> (('r list \<Rightarrow> 'r list) \<Rightarrow> 's \<Rightarrow> 's) \<Rightarrow> ('r \<Rightarrow> 'r \<Rightarrow> bool) \<Rightarrow> 'r \<Rightarrow> ('s, 'r) svc" where
  "create_row get upd clash row = bnd (gets get) (\<lambda>rows.
     sq (throw_if (list_ex (clash row) rows) (PrismaError ''P2002''))
    (sq (modify (upd (\<lambda>rs. rs @ [row]))) (ret row)))"

definition same_transaction :: "payment_transaction \<Rightarrow> payment_transaction \<Rightarrow> bool" where
  "same_transaction a b \<longleftrightarrow> t_id a = t_id b \<or> t_internalReference a = t_internalReference b \<or>
     (t_providerReference a \<noteq> None \<and> t_providerReference a = t_providerReference b)"

definition same_subscription :: "organization_subscription \<Rightarrow> organization_subscription \<Rightarrow> bool" where
  "same_subscription a b \<longleftrightarrow> s_id a = s_id b \<or>
     (s_sourceTransactionId a \<noteq> None \<and> s_sourceTransactionId a = s_sourceTransactionId b)"

definition same_receipt :: "payment_receipt \<Rightarrow> payment_receipt \<Rightarrow> bool" where
  "same_receipt a b \<longleftrightarrow> rc_id a = rc_id b \<or> rc_transactionId a = rc_transactionId b \<or>
     rc_receiptNumber a = rc_receiptNumber b"

text \<open>\<open>findFirst\<close> with \<open>orderBy: [{ at: 'desc' }, { id: 'desc' }]\<close>.\<close>

definition newest :: "('r \<Rightarrow> int \<times> string) \<Rightarrow> 'r list \<Rightarrow> 'r option" where
  "newest key rows = (if rows = [] then None else Some (last (sort_key key rows)))"

section \<open>Audit and texts\<close>

definition payment_audit :: "string \<Rightarrow> admin_user option \<Rightarrow> (string \<times> json) list \<Rightarrow> unit handler" where
  "payment_audit action user metadata =
     modify (complianceAuditLogs_update (\<lambda>rows. rows @
       [\<lparr> c_action = action, c_actorId = Option.bind user j_sub, c_actorRole = map_option j_role user,
          c_organizationId = meta_string ''organizationId'' metadata, c_entityType = Some ''PAYMENT'',
          c_entityId = meta_string ''transactionId'' metadata, c_metadata = metadata \<rparr>]))"

definition maskReference :: "string option \<Rightarrow> string option" where
  "maskReference reference = (case nonempty reference of
     None \<Rightarrow> None
   | Some r \<Rightarrow> Some (if length r \<le> 8 then ''****'' else take 4 r @ ''...'' @ drop (length r - 4) r))"

definition createReference :: "env \<Rightarrow> string \<Rightarrow> string" where
  "createReference env organizationId = ''fz_'' @ take 8 organizationId @ ''_'' @ randomHex env"

definition receiptNumber :: "string \<Rightarrow> string" where
  "receiptNumber reference = ''RCPT-'' @ toUpperCase (drop (length reference - 12) reference)"

definition callbackUrl :: "env \<Rightarrow> string \<Rightarrow> ('s, string) svc" where
  "callbackUrl env reference =
     bnd (require (ServiceUnavailable ''PAYMENTS_CALLBACK_MISSING'') (trimmed (envVar env ''PAYMENTS_CALLBACK_BASE_URL'')))
       (\<lambda>base. require (InternalServerError ''Invalid URL'') (callbackAddress env base reference))"

definition jplan :: "subscription_plan \<Rightarrow> json" where
  "jplan plan = JStr (subscription_plan_name plan)"

definition transactionMetadata :: "string \<Rightarrow> commercial_plan \<Rightarrow> json" where
  "transactionMetadata organizationId plan = JObj
     [(''organizationId'', JStr organizationId), (''planCode'', jplan (pl_code plan)),
      (''planNameKey'', JStr (pl_displayNameKey plan)), (''source'', JStr ''organization_subscription_payment'')]"

primrec payment_status_name :: "payment_status \<Rightarrow> string" where
  "payment_status_name P_INITIALIZED = ''INITIALIZED''"
| "payment_status_name P_PENDING = ''PENDING''"
| "payment_status_name P_PROCESSING = ''PROCESSING''"
| "payment_status_name P_PAID = ''PAID''"
| "payment_status_name P_VERIFIED = ''VERIFIED''"
| "payment_status_name P_FAILED = ''FAILED''"
| "payment_status_name P_ABANDONED = ''ABANDONED''"
| "payment_status_name P_EXPIRED = ''EXPIRED''"
| "payment_status_name P_REFUNDED = ''REFUNDED''"
| "payment_status_name P_REVIEW_REQUIRED = ''REVIEW_REQUIRED''"

text \<open>The key and the fallback message of a status.\<close>

definition localizationForStatus :: "payment_status \<Rightarrow> string \<times> string" where
  "localizationForStatus status = (''payment.'' @ toLowerCase (payment_status_name status),
     (case status of
        P_INITIALIZED \<Rightarrow> ''Payment initialized.''
      | P_PENDING \<Rightarrow> ''Awaiting payment.''
      | P_PROCESSING \<Rightarrow> ''Payment verification is processing.''
      | P_PAID \<Rightarrow> ''Payment successful.''
      | P_VERIFIED \<Rightarrow> ''Payment verified.''
      | P_FAILED \<Rightarrow> ''Payment failed.''
      | P_ABANDONED \<Rightarrow> ''Payment abandoned or expired.''
      | P_EXPIRED \<Rightarrow> ''Payment abandoned or expired.''
      | P_REFUNDED \<Rightarrow> ''Refund recorded.''
      | P_REVIEW_REQUIRED \<Rightarrow> ''Payment requires review.''))"

section \<open>Views\<close>

record plan_view =
  pv_code :: subscription_plan
  pv_displayNameKey :: string
  pv_descriptionKey :: string
  pv_billingInterval :: billing_interval
  pv_currency :: string
  pv_amountMinor :: int
  pv_active :: bool
  pv_entitlements :: plan_entitlements
  pv_providerConfigured :: bool
  pv_pricingNotice :: "string option"

definition publicPlan :: "env \<Rightarrow> commercial_plan \<Rightarrow> plan_view" where
  "publicPlan env plan =
     \<lparr> pv_code = pl_code plan, pv_displayNameKey = pl_displayNameKey plan,
       pv_descriptionKey = pl_descriptionKey plan, pv_billingInterval = pl_billingInterval plan,
       pv_currency = pl_currency plan, pv_amountMinor = pl_amountMinor plan, pv_active = pl_active plan,
       pv_entitlements = pl_entitlements plan,
       pv_providerConfigured = (truthy (pl_providerReferences plan (adapter_environment env)) \<or> adapter_environment env = TEST),
       pv_pricingNotice = (if adapter_environment env = TEST
         then Some ''Placeholder test pricing. Not commercial release pricing.'' else None) \<rparr>"

record plan_listing =
  pg_environment :: payment_environment
  pg_paymentsEnabled :: bool
  pg_plans :: "plan_view list"

definition listPlans :: "env \<Rightarrow> plan_listing" where
  "listPlans env =
     \<lparr> pg_environment = adapter_environment env,
       pg_paymentsEnabled = (envVar env ''PAYMENTS_ENABLED'' = Some ''true''),
       pg_plans = map (publicPlan env) (paymentPlanCatalog env) \<rparr>"

record checkout =
  ck_reference :: string
  ck_authorizationUrl :: "string option"
  ck_accessCode :: "string option"
  ck_status :: payment_status
  ck_amountMinor :: int
  ck_currency :: string
  ck_planCode :: subscription_plan

definition checkoutResponse :: "payment_transaction \<Rightarrow> checkout" where
  "checkoutResponse t =
     \<lparr> ck_reference = t_internalReference t, ck_authorizationUrl = t_providerAuthorizationUrl t,
       ck_accessCode = t_providerAccessCode t, ck_status = t_status t, ck_amountMinor = t_amountMinor t,
       ck_currency = t_currency t, ck_planCode = t_planCode t \<rparr>"

record safe_transaction =
  sf_reference :: string
  sf_environment :: payment_environment
  sf_planCode :: subscription_plan
  sf_amountMinor :: int
  sf_currency :: string
  sf_status :: payment_status
  sf_initializedAt :: int
  sf_paidAt :: "int option"
  sf_verifiedAt :: "int option"
  sf_failedAt :: "int option"
  sf_reviewReason :: "string option"
  sf_localization :: "string \<times> string"

definition safeTransaction :: "payment_transaction \<Rightarrow> safe_transaction" where
  "safeTransaction t =
     \<lparr> sf_reference = t_internalReference t, sf_environment = t_environment t, sf_planCode = t_planCode t,
       sf_amountMinor = t_amountMinor t, sf_currency = t_currency t, sf_status = t_status t,
       sf_initializedAt = t_initializedAt t, sf_paidAt = t_paidAt t, sf_verifiedAt = t_verifiedAt t,
       sf_failedAt = t_failedAt t, sf_reviewReason = t_reviewReason t,
       sf_localization = localizationForStatus (t_status t) \<rparr>"

section \<open>Who may read and pay\<close>

definition own_billing :: "string \<Rightarrow> admin_user \<Rightarrow> bool" where
  "own_billing organizationId user \<longleftrightarrow>
     (j_role user = ORG_ADMIN \<or> j_role user = BILLING_ADMIN) \<and> j_organizationId user = Some organizationId"

definition billing_denied :: "string \<Rightarrow> string \<Rightarrow> string \<Rightarrow> string \<Rightarrow> admin_user \<Rightarrow> unit handler" where
  "billing_denied organizationId reason permission message user =
     sq (payment_audit ''Payment Authorization Denied'' (Some user)
          [(''organizationId'', JStr organizationId), (''reason'', JStr reason), (''permission'', JStr permission)])
        (throw (Forbidden message))"

definition assertBillingReader :: "env \<Rightarrow> string \<Rightarrow> admin_user \<Rightarrow> unit handler" where
  "assertBillingReader env organizationId user =
     (if own_billing organizationId user then ret ()
      else bnd (hasPermission env user ''payment.transaction_read'' (Some organizationId)) (\<lambda>has.
        if has then ret ()
        else billing_denied organizationId ''payment_read_permission_denied'' ''payment.transaction_read''
               ''Access denied'' user))"

definition assertBillingAuthority :: "env \<Rightarrow> string \<Rightarrow> admin_user \<Rightarrow> unit handler" where
  "assertBillingAuthority env organizationId user =
     sq (assertBillingReader env organizationId user)
        (if own_billing organizationId user then ret ()
         else bnd (hasPermission env user ''payment.plan_read'' (Some organizationId)) (\<lambda>has.
           if has then ret ()
           else billing_denied organizationId ''payment_initialization_permission_denied'' ''payment.plan_read''
                  ''Unauthorized billing action'' user))"

definition resolveActivePlan :: "env \<Rightarrow> string \<Rightarrow> ('s, commercial_plan) svc" where
  "resolveActivePlan env planCode =
     bnd (require (BadRequest ''INVALID_PLAN'') (resolvePaymentPlan env planCode)) (\<lambda>plan.
     sq (throw_if (\<not> pl_active plan) (BadRequest ''INVALID_PLAN'')) (ret plan))"

definition assertPlanUsableInEnvironment :: "env \<Rightarrow> commercial_plan \<Rightarrow> ('s, unit) svc" where
  "assertPlanUsableInEnvironment env plan =
     throw_if (adapter_environment env = LIVE \<and> pl_amountMinor plan < 1) (ServiceUnavailable ''LIVE_PRICE_NOT_CONFIGURED'')"

section \<open>Starting a payment\<close>

definition reusable :: "env \<Rightarrow> string \<Rightarrow> commercial_plan \<Rightarrow> payment_transaction \<Rightarrow> bool" where
  "reusable env organizationId plan t \<longleftrightarrow>
     t_organizationId t = organizationId \<and> t_planCode t = pl_code plan \<and> t_amountMinor t = pl_amountMinor plan \<and>
     t_currency t = pl_currency plan \<and> t_status t = P_PENDING \<and> t_initializedAt t \<ge> now env - 20 * 60000 \<and>
     t_providerAuthorizationUrl t \<noteq> None"

definition findReusablePendingTransaction :: "env \<Rightarrow> string \<Rightarrow> commercial_plan \<Rightarrow> payment_transaction option handler" where
  "findReusablePendingTransaction env organizationId plan =
     gets (\<lambda>s. newest (\<lambda>t. (t_initializedAt t, t_id t)) (filter (reusable env organizationId plan) (paymentTransactions s)))"

definition new_transaction :: "env \<Rightarrow> string \<Rightarrow> string \<Rightarrow> commercial_plan \<Rightarrow> payment_transaction" where
  "new_transaction env organizationId actorId plan =
     \<lparr> t_id = freshId env 0, t_organizationId = organizationId, t_requestingUserId = Some actorId,
       t_environment = adapter_environment env, t_internalReference = createReference env organizationId,
       t_providerReference = None, t_providerAccessCode = None, t_providerAuthorizationUrl = None,
       t_planCode = pl_code plan, t_amountMinor = pl_amountMinor plan, t_currency = pl_currency plan,
       t_status = P_INITIALIZED, t_initializedAt = now env, t_paidAt = None, t_verifiedAt = None, t_failedAt = None,
       t_abandonedAt = None, t_refundedAt = None, t_providerEventReference = None, t_lastReconciledAt = None,
       t_reviewReason = None, t_sanitizedMetadata = Some (transactionMetadata organizationId plan),
       t_createdAt = now env \<rparr>"

definition pending_data :: "initialization_result \<Rightarrow> payment_transaction \<Rightarrow> payment_transaction" where
  "pending_data initialized t =
     t\<lparr> t_status := P_PENDING, t_providerReference := Some (in_providerReference initialized),
        t_providerAccessCode := Some (in_accessCode initialized),
        t_providerAuthorizationUrl := Some (in_authorizationUrl initialized) \<rparr>"

definition failed_start_data :: "env \<Rightarrow> payment_transaction \<Rightarrow> payment_transaction" where
  "failed_start_data env t =
     t\<lparr> t_status := P_FAILED, t_failedAt := Some (now env), t_reviewReason := Some ''Provider initialization failed.'' \<rparr>"

text \<open>The provider's references are unique; an update that would repeat one is refused.\<close>

definition update_pending :: "string \<Rightarrow> initialization_result \<Rightarrow> payment_transaction handler" where
  "update_pending i initialized =
     bnd (gets (\<lambda>s. list_ex (\<lambda>t. t_id t \<noteq> i \<and> t_providerReference t = Some (in_providerReference initialized))
         (paymentTransactions s))) (\<lambda>taken.
     sq (throw_if taken (PrismaError ''P2002'')) (update_transaction i (pending_data initialized)))"

definition initialization_request_of :: "string \<Rightarrow> payment_transaction \<Rightarrow> string \<Rightarrow> commercial_plan \<Rightarrow> env \<Rightarrow> initialization_request" where
  "initialization_request_of email t callback plan env =
     \<lparr> ir_email = email, ir_amountMinor = pl_amountMinor plan, ir_currency = pl_currency plan,
       ir_reference = t_internalReference t, ir_callbackUrl = callback,
       ir_planReference = pl_providerReferences plan (adapter_environment env),
       ir_metadata = JObj [(''organizationId'', JStr (t_organizationId t)), (''planCode'', jplan (pl_code plan)),
         (''internalReference'', JStr (t_internalReference t))] \<rparr>"

definition start_payment :: "env \<Rightarrow> admin_user \<Rightarrow> string \<Rightarrow> string \<Rightarrow> commercial_plan \<Rightarrow> payment_transaction \<Rightarrow> checkout handler" where
  "start_payment env user email callback plan t = catch
     (bnd (initializeTransaction env (initialization_request_of email t callback plan env)) (\<lambda>initialized.
      bnd (update_pending (t_id t) initialized) (\<lambda>updated.
      sq (payment_audit ''Payment Transaction Initialized'' (Some user)
            [(''organizationId'', JStr (t_organizationId t)), (''transactionId'', JStr (t_id updated)),
             (''planCode'', jplan (pl_code plan)), (''provider'', JStr ''PAYSTACK''),
             (''reference'', jopt JStr (maskReference (Some (t_internalReference updated))))])
         (ret (checkoutResponse updated)))))
     (\<lambda>e. sq (update_transaction (t_id t) (failed_start_data env))
        (sq (payment_audit ''Payment Provider Initialization Failed'' (Some user)
               [(''organizationId'', JStr (t_organizationId t)), (''transactionId'', JStr (t_id t)),
                (''planCode'', jplan (pl_code plan))])
            (throw e)))"

definition open_payment ::
    "env \<Rightarrow> admin_user \<Rightarrow> string \<Rightarrow> string \<Rightarrow> string \<Rightarrow> string \<Rightarrow> commercial_plan \<Rightarrow> checkout handler" where
  "open_payment env user organizationId userId email callback plan =
     bnd (create_row paymentTransactions paymentTransactions_update same_transaction
           (new_transaction env organizationId userId plan))
         (start_payment env user email callback plan)"

definition initializeOrganizationPayment :: "env \<Rightarrow> string \<Rightarrow> string \<Rightarrow> admin_user \<Rightarrow> checkout handler" where
  "initializeOrganizationPayment env organizationId planCode user =
     sq (assertBillingAuthority env organizationId user)
    (bnd (resolveActivePlan env planCode) (\<lambda>plan.
     sq (assertPlanUsableInEnvironment env plan)
    (sq (assertReady env)
    (bnd (gets (find_organization organizationId)) (\<lambda>organization.
     bnd (require (PrismaError ''P2009'') (j_sub user)) (\<lambda>userId.
     bnd (gets (find_user userId)) (\<lambda>actor.
     sq (require (NotFound ''Organization not found'') organization)
    (bnd (require (BadRequest ''BILLING_EMAIL_REQUIRED'') (Option.bind actor (\<lambda>u. nonempty (u_email u)))) (\<lambda>email.
     bnd (findReusablePendingTransaction env organizationId plan) (\<lambda>found. case found of
       Some t \<Rightarrow> ret (checkoutResponse t)
     | None \<Rightarrow>
         bnd (callbackUrl env (createReference env organizationId)) (\<lambda>callback.
         open_payment env user organizationId userId email callback plan)))))))))))"

section \<open>Reading\<close>

record subscription_view =
  sv_authoritativePlan :: subscription_plan
  sv_billingStatus :: billing_status
  sv_subscription :: "organization_subscription option"
  sv_allowedUsers :: "int option"
  sv_allowedProviders :: "int option"
  sv_allowedReportsPerMonth :: "int option"
  sv_allowedStorageMb :: "int option"
  sv_enabledModules :: "json option"

definition getOrganizationSubscription :: "env \<Rightarrow> string \<Rightarrow> admin_user \<Rightarrow> subscription_view handler" where
  "getOrganizationSubscription env organizationId user =
     sq (assertBillingReader env organizationId user)
    (bnd (gets (find_organization organizationId)) (\<lambda>found.
     bnd (require (NotFound ''Organization not found'') found) (\<lambda>organization.
     gets (\<lambda>s. \<lparr> sv_authoritativePlan = o_subscriptionPlan organization, sv_billingStatus = o_billingStatus organization,
       sv_subscription = newest (\<lambda>r. (s_createdAt r, s_id r))
         (filter (\<lambda>r. s_organizationId r = organizationId) (organizationSubscriptions s)),
       sv_allowedUsers = o_allowedUsers organization, sv_allowedProviders = o_allowedProviders organization,
       sv_allowedReportsPerMonth = o_allowedReportsPerMonth organization,
       sv_allowedStorageMb = o_allowedStorageMb organization, sv_enabledModules = o_enabledModules organization \<rparr>))))"

definition organization_transaction :: "string \<Rightarrow> string \<Rightarrow> payment_transaction handler" where
  "organization_transaction organizationId reference =
     bnd (gets (\<lambda>s. find (\<lambda>t. t_organizationId t = organizationId \<and> t_internalReference t = reference)
         (paymentTransactions s))) (require (NotFound ''Transaction not found''))"

definition getTransactionStatus :: "env \<Rightarrow> string \<Rightarrow> string \<Rightarrow> admin_user \<Rightarrow> safe_transaction handler" where
  "getTransactionStatus env organizationId reference user =
     sq (assertBillingReader env organizationId user)
    (bnd (organization_transaction organizationId reference) (\<lambda>t. ret (safeTransaction t)))"

definition listPaymentHistory :: "env \<Rightarrow> string \<Rightarrow> admin_user \<Rightarrow> safe_transaction list handler" where
  "listPaymentHistory env organizationId user =
     sq (assertBillingReader env organizationId user)
        (gets (\<lambda>s. map safeTransaction (take 100 (rev (sort_key (\<lambda>t. (t_createdAt t, t_id t))
           (filter (\<lambda>t. t_organizationId t = organizationId) (paymentTransactions s)))))))"

definition getReceipt :: "env \<Rightarrow> string \<Rightarrow> string \<Rightarrow> admin_user \<Rightarrow> payment_receipt handler" where
  "getReceipt env organizationId number user =
     sq (assertBillingReader env organizationId user)
    (bnd (gets (\<lambda>s. find (\<lambda>r. rc_organizationId r = organizationId \<and> rc_receiptNumber r = number) (paymentReceipts s))) (\<lambda>found.
     bnd (require (NotFound ''Receipt not found'') found) (\<lambda>receipt.
       ret (receipt\<lparr> rc_providerReference := maskReference (rc_providerReference receipt) \<rparr>))))"

section \<open>Fulfilment\<close>

definition entitled_data :: "env \<Rightarrow> commercial_plan \<Rightarrow> organization \<Rightarrow> organization" where
  "entitled_data env plan organization =
     (let e = pl_entitlements plan in
      organization\<lparr> o_subscriptionPlan := pl_code plan,
        o_billingStatus := B_ACTIVE,
        o_subscriptionStartAt := Some (now env),
        o_subscriptionEndAt := Some (addBillingPeriod (now env) (pl_billingInterval plan)),
        o_allowedUsers := pe_allowedUsers e,
        o_allowedProviders := pe_allowedProviders e,
        o_allowedReportsPerMonth := pe_allowedReportsPerMonth e,
        o_allowedStorageMb := pe_allowedStorageMb e,
        o_enabledModules := Some (JObj [(''modules'', JArr (map JStr (pe_enabledModules e)))]) \<rparr>)"

definition event_reference :: "provider_transaction \<Rightarrow> webhook_event option \<Rightarrow> string option" where
  "event_reference trusted event = coalesce (map_option we_eventId event) (pt_eventId trusted)"

definition paid_data :: "env \<Rightarrow> provider_transaction \<Rightarrow> webhook_event option \<Rightarrow> payment_transaction \<Rightarrow> payment_transaction" where
  "paid_data env trusted event t =
     t\<lparr> t_status := P_PAID,
        t_paidAt := Some (or_else (pt_paidAt trusted) (now env)),
        t_verifiedAt := Some (now env),
        t_providerEventReference := event_reference trusted event,
        t_sanitizedMetadata := Some (pt_metadata trusted),
        t_lastReconciledAt := Some (now env) \<rparr>"

definition new_subscription :: "env \<Rightarrow> commercial_plan \<Rightarrow> payment_transaction \<Rightarrow> organization_subscription" where
  "new_subscription env plan paid =
     \<lparr> s_id = freshId env 1, s_organizationId = t_organizationId paid, s_planCode = pl_code plan, s_status = S_ACTIVE,
       s_currentPeriodStartAt = now env,
       s_currentPeriodEndAt = Some (addBillingPeriod (now env) (pl_billingInterval plan)),
       s_sourceTransactionId = Some (t_id paid), s_externalCustomerRef = None, s_entitlementAppliedAt = Some (now env),
       s_createdAt = now env \<rparr>"

definition upsert_subscription :: "env \<Rightarrow> commercial_plan \<Rightarrow> payment_transaction \<Rightarrow> unit handler" where
  "upsert_subscription env plan paid =
     bnd (gets (\<lambda>s. list_ex (\<lambda>r. s_sourceTransactionId r = Some (t_id paid)) (organizationSubscriptions s))) (\<lambda>exists.
       if exists
       then modify (organizationSubscriptions_update (upd_rows (\<lambda>r. s_sourceTransactionId r = Some (t_id paid))
              (\<lambda>r. r\<lparr> s_entitlementAppliedAt := Some (now env) \<rparr>)))
       else sq (create_row organizationSubscriptions organizationSubscriptions_update same_subscription
              (new_subscription env plan paid)) (ret ()))"

definition new_receipt :: "env \<Rightarrow> commercial_plan \<Rightarrow> organization \<Rightarrow> payment_transaction \<Rightarrow> payment_receipt" where
  "new_receipt env plan organization paid =
     \<lparr> rc_id = freshId env 2, rc_transactionId = t_id paid, rc_organizationId = o_id organization,
       rc_receiptNumber = receiptNumber (t_internalReference paid), rc_paidAt = or_else (t_paidAt paid) (now env),
       rc_organizationName = o_name organization, rc_planCode = pl_code plan, rc_planNameKey = pl_displayNameKey plan,
       rc_amountMinor = pl_amountMinor plan, rc_currency = pl_currency plan,
       rc_providerReference = t_providerReference paid, rc_status = ISSUED, rc_metadata = None \<rparr>"

definition upsert_receipt :: "env \<Rightarrow> commercial_plan \<Rightarrow> organization \<Rightarrow> payment_transaction \<Rightarrow> unit handler" where
  "upsert_receipt env plan organization paid =
     bnd (gets (\<lambda>s. list_ex (\<lambda>r. rc_transactionId r = t_id paid) (paymentReceipts s))) (\<lambda>exists.
       if exists then ret ()
       else sq (create_row paymentReceipts paymentReceipts_update same_receipt (new_receipt env plan organization paid)) (ret ()))"

definition completed_request :: "env \<Rightarrow> upgrade_request \<Rightarrow> upgrade_request" where
  "completed_request env r =
     r\<lparr> ur_status := UP_COMPLETED, ur_completedAt := Some (now env),
        ur_reviewNote := Some ''Completed by verified subscription payment.'' \<rparr>"

definition complete_upgrade_requests :: "env \<Rightarrow> string \<Rightarrow> subscription_plan \<Rightarrow> unit handler" where
  "complete_upgrade_requests env organizationId plan =
     modify (upgradeRequests_update (upd_rows
       (\<lambda>r. ur_organizationId r = organizationId \<and> ur_requestedPlan r = plan \<and> ur_status r = UP_PENDING)
       (completed_request env)))"

definition notify_activation :: "organization \<Rightarrow> unit handler" where
  "notify_activation organization =
     bnd (gets (\<lambda>s. take 50 (filter (\<lambda>u. u_organizationId u = Some (o_id organization) \<and>
         u_role u \<in> {ORG_ADMIN, BILLING_ADMIN}) (users s)))) (\<lambda>admins.
       modify (notifications_update (\<lambda>rows. rows @ map (\<lambda>admin.
         \<lparr> n_userId = u_id admin, n_reportId = None, n_type = ''payment.subscription_activated'',
           n_title = ''Subscription activated'', n_message = o_name organization @ '' subscription is active.'' \<rparr>) admins)))"

definition fulfillPayment ::
    "env \<Rightarrow> payment_transaction \<Rightarrow> provider_transaction \<Rightarrow> webhook_event option \<Rightarrow> payment_transaction handler" where
  "fulfillPayment env t trusted event =
     bnd (resolveActivePlan env (subscription_plan_name (t_planCode t))) (\<lambda>plan.
     bnd (update_organization (t_organizationId t) (entitled_data env plan)) (\<lambda>organization.
     bnd (update_transaction (t_id t) (paid_data env trusted event)) (\<lambda>paid.
     sq (upsert_subscription env plan paid)
    (sq (upsert_receipt env plan organization paid)
    (sq (complete_upgrade_requests env (o_id organization) (pl_code plan))
    (sq (notify_activation organization)
    (sq (payment_audit ''Payment Fulfillment Completed'' None
          [(''organizationId'', JStr (o_id organization)), (''transactionId'', JStr (t_id paid)),
           (''planCode'', jplan (pl_code plan)),
           (''localization'', JObj [(''key'', JStr ''payment.subscription_activated''),
             (''params'', JObj [(''organizationId'', JStr (o_id organization)), (''planCode'', jplan (pl_code plan))]),
             (''fallbackLocale'', JStr ''en'')])])
        (ret paid))))))))"

section \<open>The provider's statements\<close>

definition paymentMismatch :: "payment_transaction \<Rightarrow> provider_transaction \<Rightarrow> string option" where
  "paymentMismatch t trusted =
     (if pt_amountMinor trusted \<noteq> Some (of_int (t_amountMinor t)) then Some ''amount_mismatch''
      else if pt_currency trusted \<noteq> t_currency t then Some ''currency_mismatch''
      else if pt_internalReference trusted \<noteq> t_internalReference t \<and>
              Some (pt_providerReference trusted) \<noteq> t_providerReference t then Some ''reference_mismatch''
      else None)"

definition review_data ::
    "env \<Rightarrow> provider_transaction \<Rightarrow> webhook_event option \<Rightarrow> string \<Rightarrow> payment_transaction \<Rightarrow> payment_transaction" where
  "review_data env trusted event mismatch t =
     t\<lparr> t_status := P_REVIEW_REQUIRED, t_providerEventReference := event_reference trusted event,
        t_reviewReason := Some mismatch, t_lastReconciledAt := Some (now env) \<rparr>"

definition unpaid_status :: "payment_status \<Rightarrow> payment_status" where
  "unpaid_status status = (if status = P_REFUNDED then P_REFUNDED else if status = P_FAILED then P_FAILED else P_PROCESSING)"

definition unpaid_data :: "env \<Rightarrow> provider_transaction \<Rightarrow> webhook_event option \<Rightarrow> payment_transaction \<Rightarrow> payment_transaction" where
  "unpaid_data env trusted event t =
     (let status = unpaid_status (pt_status trusted) in
      t\<lparr> t_status := status,
         t_failedAt := (if status = P_FAILED then Some (now env) else t_failedAt t),
         t_refundedAt := (if status = P_REFUNDED then Some (now env) else t_refundedAt t),
         t_providerEventReference := event_reference trusted event,
         t_sanitizedMetadata := Some (pt_metadata trusted),
         t_lastReconciledAt := Some (now env) \<rparr>)"

definition stated_transaction :: "provider_transaction \<Rightarrow> db \<Rightarrow> payment_transaction option" where
  "stated_transaction trusted s =
     find (\<lambda>t. t_internalReference t = pt_internalReference trusted \<or>
               t_providerReference t = Some (pt_providerReference trusted)) (paymentTransactions s)"

definition settle ::
    "env \<Rightarrow> provider_transaction \<Rightarrow> webhook_event option \<Rightarrow> payment_transaction \<Rightarrow> payment_transaction handler" where
  "settle env trusted event t =
     (if t_status t = P_PAID \<or> t_status t = P_VERIFIED then ret t
      else case paymentMismatch t trusted of
        Some mismatch \<Rightarrow>
          bnd (update_transaction (t_id t) (review_data env trusted event mismatch)) (\<lambda>reviewed.
          sq (payment_audit ''Payment Review Required'' None
                [(''organizationId'', JStr (t_organizationId t)), (''transactionId'', JStr (t_id t)),
                 (''reason'', JStr mismatch)])
             (ret reviewed))
      | None \<Rightarrow>
          if pt_status trusted = P_PAID then fulfillPayment env t trusted event
          else update_transaction (t_id t) (unpaid_data env trusted event))"

definition processTrustedProviderTransaction ::
    "env \<Rightarrow> provider_transaction \<Rightarrow> webhook_event option \<Rightarrow> payment_transaction handler" where
  "processTrustedProviderTransaction env trusted event =
     bnd (gets (stated_transaction trusted)) (\<lambda>found.
     bnd (require (NotFound ''Transaction not found'') found) (\<lambda>existing.
     transaction
       (bnd (gets (find_transaction (t_id existing))) (\<lambda>found.
        bnd (require (NotFound ''Transaction not found'') found) (settle env trusted event)))))"

section \<open>Webhook, verification and reconciliation\<close>

datatype webhook_reply = Event_ignored string | Event_processed payment_status

definition handlePaystackWebhook :: "env \<Rightarrow> string \<Rightarrow> string option \<Rightarrow> webhook_reply handler" where
  "handlePaystackWebhook env rawBody signature =
     sq (if validateWebhookSignature env rawBody signature then ret ()
         else sq (payment_audit ''Payment Webhook Rejected'' None
                    [(''provider'', JStr ''PAYSTACK''), (''reason'', JStr ''invalid_signature'')])
                 (throw (Forbidden ''Invalid webhook signature'')))
    (bnd (require (InternalServerError ''SyntaxError'') (parseJson env rawBody)) (\<lambda>payload.
     bnd (parseWebhookEvent env payload) (\<lambda>event. case we_transaction event of
       None \<Rightarrow> ret (Event_ignored (we_event event))
     | Some trusted \<Rightarrow>
         bnd (processTrustedProviderTransaction env trusted (Some event)) (\<lambda>result.
           ret (Event_processed (t_status result))))))"

definition verifyTransaction :: "env \<Rightarrow> string \<Rightarrow> string \<Rightarrow> admin_user \<Rightarrow> safe_transaction handler" where
  "verifyTransaction env organizationId reference user =
     sq (assertBillingReader env organizationId user)
    (bnd (organization_transaction organizationId reference) (\<lambda>t.
     bnd (provider_verify env (or_else (t_providerReference t) (t_internalReference t))) (\<lambda>trusted.
     bnd (processTrustedProviderTransaction env trusted None) (\<lambda>result. ret (safeTransaction result)))))"

record reconciliation =
  rn_scanned :: nat
  rn_recovered :: nat
  rn_reviewRequired :: nat
  rn_providerFailed :: nat

definition reconciliation_candidates :: "env \<Rightarrow> nat \<Rightarrow> db \<Rightarrow> payment_transaction list" where
  "reconciliation_candidates env batchSize s =
     (let olderThan = now env - max 1 (reconciliationMinAgeMinutes env) * 60000 in
      take batchSize (sort_key (\<lambda>t. (t_createdAt t, t_id t))
        (filter (\<lambda>t. t_status t \<in> {P_INITIALIZED, P_PENDING, P_PROCESSING} \<and> t_createdAt t \<le> olderThan)
          (paymentTransactions s))))"

definition reconcile_one :: "env \<Rightarrow> payment_transaction \<Rightarrow> reconciliation \<Rightarrow> reconciliation handler" where
  "reconcile_one env candidate counts = catch
     (bnd (provider_verify env (or_else (t_providerReference candidate) (t_internalReference candidate))) (\<lambda>trusted.
      bnd (processTrustedProviderTransaction env trusted None) (\<lambda>result.
        ret (counts\<lparr> rn_recovered := rn_recovered counts + (if t_status result = P_PAID \<or> t_status result = P_VERIFIED then 1 else 0),
               rn_reviewRequired := rn_reviewRequired counts + (if t_status result = P_REVIEW_REQUIRED then 1 else 0) \<rparr>))))
     (\<lambda>e. ret (counts\<lparr> rn_providerFailed := rn_providerFailed counts + 1 \<rparr>))"

primrec reconcile_all :: "env \<Rightarrow> payment_transaction list \<Rightarrow> reconciliation \<Rightarrow> reconciliation handler" where
  "reconcile_all env [] counts = ret counts"
| "reconcile_all env (c # cs) counts = bnd (reconcile_one env c counts) (reconcile_all env cs)"

definition jnat :: "nat \<Rightarrow> json" where
  "jnat n = jint (int n)"

definition reconcilePending :: "env \<Rightarrow> admin_user \<Rightarrow> int option \<Rightarrow> reconciliation handler" where
  "reconcilePending env user limit =
     sq (assertPermission env user ''payment.reconciliation_manage'' None None)
    (let batchSize = nat (min (max 1 (or_else limit (reconciliationBatchSize env))) 100) in
     bnd (gets (reconciliation_candidates env batchSize)) (\<lambda>candidates.
     bnd (reconcile_all env candidates
           \<lparr> rn_scanned = length candidates, rn_recovered = 0, rn_reviewRequired = 0, rn_providerFailed = 0 \<rparr>) (\<lambda>counts.
     sq (payment_audit ''Payment Reconciliation Performed'' (Some user)
          [(''scanned'', jnat (rn_scanned counts)), (''recovered'', jnat (rn_recovered counts)),
           (''reviewRequired'', jnat (rn_reviewRequired counts)), (''providerFailed'', jnat (rn_providerFailed counts))])
        (ret counts))))"

end
