(* ===== verification/Payment_Theorems.thy ===== *)
theory Payment_Theorems imports Payments Internal_Admin Histories Example_Data begin

text \<open>
  What organization payments guarantee: the books stay consistent along every history, a payment is
  booked only for what the provider confirmed, a paid transaction never changes again (and so takes no
  refund), and only authentic webhooks change anything.
\<close>

section \<open>Runs of one statement of the provider\<close>

definition subscriptions_after :: "env \<Rightarrow> commercial_plan \<Rightarrow> payment_transaction \<Rightarrow> organization_subscription list \<Rightarrow> organization_subscription list" where
  "subscriptions_after env plan paid rows =
     (if list_ex (\<lambda>r. s_sourceTransactionId r = Some (t_id paid)) rows
      then upd_rows (\<lambda>r. s_sourceTransactionId r = Some (t_id paid)) (\<lambda>r. r\<lparr> s_entitlementAppliedAt := Some (now env) \<rparr>) rows
      else rows @ [new_subscription env plan paid])"

definition receipts_after :: "env \<Rightarrow> commercial_plan \<Rightarrow> organization \<Rightarrow> payment_transaction \<Rightarrow> payment_receipt list \<Rightarrow> payment_receipt list" where
  "receipts_after env plan organization paid rows =
     (if list_ex (\<lambda>r. rc_transactionId r = t_id paid) rows then rows
      else rows @ [new_receipt env plan organization paid])"

text \<open>The business state after a payment: entitlements, transaction, subscription, receipt, requests.\<close>

definition fulfilled ::
    "env \<Rightarrow> commercial_plan \<Rightarrow> organization \<Rightarrow> payment_transaction \<Rightarrow> provider_transaction \<Rightarrow> webhook_event option \<Rightarrow>
      tables \<Rightarrow> tables" where
  "fulfilled env plan org t trusted event s =
     (let paid = paid_data env trusted event t in
      s\<lparr> organizations := upd_rows (\<lambda>r. o_id r = t_organizationId t) (entitled_data env plan) (organizations s),
         paymentTransactions := upd_rows (\<lambda>r. t_id r = t_id t) (paid_data env trusted event) (paymentTransactions s),
         organizationSubscriptions := subscriptions_after env plan paid (organizationSubscriptions s),
         paymentReceipts := receipts_after env plan (entitled_data env plan org) paid (paymentReceipts s),
         upgradeRequests := upd_rows (\<lambda>r. ur_organizationId r = o_id org \<and> ur_requestedPlan r = pl_code plan \<and>
           ur_status r = UP_PENDING) (completed_request env) (upgradeRequests s) \<rparr>)"

lemma create_row_InrD:
  "create_row get upd clash row s = (Inr r, t) \<Longrightarrow>
     r = row \<and> \<not> list_ex (clash row) (get s) \<and> t = upd (\<lambda>rs. rs @ [row]) s"
  by (auto simp: create_row_def svc_run split: if_splits)

lemma upsert_subscription_InrD:
  "upsert_subscription env plan paid s = (Inr x, t) \<Longrightarrow>
     t = s\<lparr>organizationSubscriptions := subscriptions_after env plan paid (organizationSubscriptions s)\<rparr>"
  by (auto simp: upsert_subscription_def subscriptions_after_def svc_run split: if_splits prod.splits sum.splits
      dest!: create_row_InrD)

lemma upsert_receipt_InrD:
  "upsert_receipt env plan org paid s = (Inr x, t) \<Longrightarrow>
     t = s\<lparr>paymentReceipts := receipts_after env plan org paid (paymentReceipts s)\<rparr>"
  by (auto simp: upsert_receipt_def receipts_after_def svc_run split: if_splits prod.splits sum.splits
      dest!: create_row_InrD)

lemma resolveActivePlan_InrD:
  "resolveActivePlan env (subscription_plan_name p) s = (Inr plan, t) \<Longrightarrow>
     plan \<in> set (paymentPlanCatalog env) \<and> pl_code plan = p \<and> pl_active plan \<and> t = s"
  by (auto simp: resolveActivePlan_def svc_run dest!: resolvePaymentPlan_SomeD split: option.splits if_splits)

lemma fulfillPayment_InrD:
  assumes "fulfillPayment env t trusted event s = (Inr row, u)" and "find_transaction (t_id t) s = Some t"
  shows "\<exists>plan org. plan \<in> set (paymentPlanCatalog env) \<and> pl_code plan = t_planCode t \<and> pl_active plan \<and>
    find_organization (t_organizationId t) s = Some org \<and> row = paid_data env trusted event t \<and>
    business u = fulfilled env plan org t trusted event (business s)"
  using assms(1) unfolding fulfillPayment_def
  apply (elim bnd_InrE)
  subgoal for plan s1 org s2 paid s3 x4 s4 x5 s5 x6 s6 x7 s7 x8 s8
    using assms(2)
    apply (auto dest!: resolveActivePlan_InrD upsert_subscription_InrD upsert_receipt_InrD
        simp: complete_upgrade_requests_def notify_activation_def payment_audit_def
        elim!: organization_table.updateE transaction_table.updateE)
    apply (rule exI[of _ plan])
    apply (simp add: fulfilled_def Let_def put_organization_def put_transaction_def row_put_def find_transaction_def
        row_find_def entitled_data_def tables.defs)
    done
  done

definition final_status :: "payment_status \<Rightarrow> bool" where
  "final_status status \<longleftrightarrow> status = P_PAID \<or> status = P_VERIFIED"

lemma business_audit_row: "business (complianceAuditLogs_update f s) = business s"
  by (simp add: tables.defs)

lemma settleE:
  assumes "settle env trusted event t s = (Inr row, u)" and "find_transaction (t_id t) s = Some t"
  obtains (settled) "final_status (t_status t)" "row = t" "u = s"
  | (review) mismatch where "\<not> final_status (t_status t)" "paymentMismatch t trusted = Some mismatch"
      "row = review_data env trusted event mismatch t"
      "business u = put_transaction (t_id t) (review_data env trusted event mismatch) (business s)"
  | (booked) plan org where "\<not> final_status (t_status t)" "paymentMismatch t trusted = None" "pt_status trusted = P_PAID"
      "plan \<in> set (paymentPlanCatalog env)" "pl_code plan = t_planCode t" "pl_active plan"
      "find_organization (t_organizationId t) s = Some org" "row = paid_data env trusted event t"
      "business u = fulfilled env plan org t trusted event (business s)"
  | (unpaid) "\<not> final_status (t_status t)" "paymentMismatch t trusted = None" "pt_status trusted \<noteq> P_PAID"
      "row = unpaid_data env trusted event t"
      "business u = put_transaction (t_id t) (unpaid_data env trusted event) (business s)"
proof (cases "final_status (t_status t)")
  case True
  then have "row = t" "u = s" using assms(1) by (auto simp: settle_def final_status_def)
  with True show thesis by (rule settled)
next
  case False
  show thesis
  proof (cases "paymentMismatch t trusted")
    case (Some mismatch)
    have "row = review_data env trusted event mismatch t \<and>
        business u = put_transaction (t_id t) (review_data env trusted event mismatch) (business s)"
      using assms False Some unfolding settle_def final_status_def
      by (auto simp: payment_audit_def business_audit_row elim!: bnd_InrE transaction_table.updateE)
    with False Some show thesis using review by blast
  next
    case None
    show thesis
    proof (cases "pt_status trusted = P_PAID")
      case True
      then have "fulfillPayment env t trusted event s = (Inr row, u)"
        using assms(1) False None by (simp add: settle_def final_status_def)
      from fulfillPayment_InrD[OF this assms(2)] show thesis
        using booked[OF False None True] by blast
    next
      case Unpaid: False
      have "row = unpaid_data env trusted event t \<and>
          business u = put_transaction (t_id t) (unpaid_data env trusted event) (business s)"
        using assms False None Unpaid unfolding settle_def final_status_def
        by (auto elim!: transaction_table.updateE)
      with False None Unpaid show thesis using unpaid by blast
    qed
  qed
qed

lemma processTrusted_InlD: "processTrustedProviderTransaction env trusted event s = (Inl e, u) \<Longrightarrow> u = s"
  unfolding processTrustedProviderTransaction_def
  by (auto simp: svc_run split: option.splits prod.splits sum.splits)

lemma processTrusted_InrD:
  assumes "processTrustedProviderTransaction env trusted event s = (Inr row, u)"
  shows "\<exists>existing t. stated_transaction trusted s = Some existing \<and> find_transaction (t_id existing) s = Some t \<and>
    t_id t = t_id existing \<and> settle env trusted event t s = (Inr row, u)"
  using assms unfolding processTrustedProviderTransaction_def transaction_def
  by (auto simp: svc_run split: option.splits prod.splits sum.splits dest: find_transaction_SomeD)

section \<open>The books\<close>

text \<open>
  The price of a plan, as the catalog has it in every configuration.
\<close>

primrec plan_price :: "subscription_plan \<Rightarrow> int" where
  "plan_price FREE = 0"
| "plan_price DEMO = 0"
| "plan_price STARTER = 500000"
| "plan_price PROFESSIONAL = 2500000"
| "plan_price GOVERNMENT = 10000000"
| "plan_price ENTERPRISE = 25000000"

lemma catalog_price: "plan \<in> set (paymentPlanCatalog env) \<Longrightarrow>
    pl_amountMinor plan = plan_price (pl_code plan) \<and> pl_currency plan = ''NGN''"
  by (auto simp: paymentPlanCatalog_def)

definition receipt_for :: "payment_transaction \<Rightarrow> payment_receipt \<Rightarrow> bool" where
  "receipt_for t r \<longleftrightarrow> rc_transactionId r = t_id t \<and> rc_organizationId r = t_organizationId t \<and>
     rc_planCode r = t_planCode t \<and> rc_amountMinor r = t_amountMinor t \<and> rc_currency r = t_currency t"

definition subscription_for :: "payment_transaction \<Rightarrow> organization_subscription \<Rightarrow> bool" where
  "subscription_for t b \<longleftrightarrow> s_sourceTransactionId b = Some (t_id t) \<and> s_organizationId b = t_organizationId t \<and>
     s_planCode b = t_planCode t"

definition priced :: "payment_transaction \<Rightarrow> bool" where
  "priced t \<longleftrightarrow> t_amountMinor t = plan_price (t_planCode t) \<and> t_currency t = ''NGN''"

definition paid_ids :: "'s tables_scheme \<Rightarrow> string set" where
  "paid_ids s = t_id ` {t \<in> set (paymentTransactions s). t_status t = P_PAID}"

definition ledger :: "'s tables_scheme \<Rightarrow> bool" where
  "ledger s \<longleftrightarrow>
     distinct (map t_id (paymentTransactions s)) \<and>
     (\<forall>t\<in>set (paymentTransactions s). priced t \<and> (t_status t = P_PAID \<longrightarrow>
        (\<exists>r\<in>set (paymentReceipts s). receipt_for t r) \<and> (\<exists>b\<in>set (organizationSubscriptions s). subscription_for t b))) \<and>
     distinct (map rc_transactionId (paymentReceipts s)) \<and>
     rc_transactionId ` set (paymentReceipts s) \<subseteq> paid_ids s \<and>
     (\<forall>b\<in>set (organizationSubscriptions s). \<forall>i. s_sourceTransactionId b = Some i \<longrightarrow> i \<in> paid_ids s)"

lemma ledger_business: "business t = business s \<Longrightarrow> ledger s \<Longrightarrow> ledger t"
  using business_eq_fields[of t s] by (simp add: ledger_def paid_ids_def)

lemma ledger_leaves: "leaves business m \<Longrightarrow> keeps ledger (m :: 'a handler)"
  by (erule keeps_leaves) (rule ledger_business)

definition unbooked_change :: "(payment_transaction \<Rightarrow> payment_transaction) \<Rightarrow> bool" where
  "unbooked_change f \<longleftrightarrow> (\<forall>t. t_id (f t) = t_id t \<and> t_amountMinor (f t) = t_amountMinor t \<and> t_currency (f t) = t_currency t \<and>
     t_planCode (f t) = t_planCode t \<and> t_status (f t) \<noteq> P_PAID)"

lemma unbooked_changes:
  "unbooked_change (review_data env trusted event mismatch)" "unbooked_change (unpaid_data env trusted event)"
  "unbooked_change (pending_data initialized)" "unbooked_change (failed_start_data env)"
  by (simp_all add: unbooked_change_def review_data_def unpaid_data_def unpaid_status_def pending_data_def
      failed_start_data_def Let_def)

lemma same_key: "distinct (map key rows) \<Longrightarrow> find (\<lambda>r. key r = k) rows = Some x \<Longrightarrow> y \<in> set rows \<Longrightarrow> key y = k \<Longrightarrow> y = x"
  using find_distinct_key[of key rows y] by simp

lemma ledger_put:
  assumes "ledger s" and found: "find_transaction i s = Some t" and "t_status t \<noteq> P_PAID" and "unbooked_change f"
  shows "ledger (put_transaction i f s)"
proof -
  have same: "y = t" if "y \<in> set (paymentTransactions s)" "t_id y = i" for y
    using same_key[of t_id "paymentTransactions s" i t y] that assms(1) found
    by (simp add: ledger_def find_transaction_def row_find_def)
  have "paid_ids (put_transaction i f s) = paid_ids s"
    using same assms(3,4) by (force simp: paid_ids_def put_transaction_def row_put_def in_upd_rows unbooked_change_def image_iff)
  moreover have "map t_id (upd_rows (\<lambda>r. t_id r = i) f (paymentTransactions s)) = map t_id (paymentTransactions s)"
    using assms(4) by (intro map_upd_rows) (simp add: unbooked_change_def)
  ultimately show ?thesis
    using assms(1,4) by (auto simp: ledger_def put_transaction_def row_put_def in_upd_rows unbooked_change_def priced_def)
qed

lemma paid_data_fields: "t_id (paid_data env trusted event t) = t_id t" "t_status (paid_data env trusted event t) = P_PAID"
    "t_amountMinor (paid_data env trusted event t) = t_amountMinor t" "t_currency (paid_data env trusted event t) = t_currency t"
    "t_planCode (paid_data env trusted event t) = t_planCode t"
    "t_organizationId (paid_data env trusted event t) = t_organizationId t"
  by (simp_all add: paid_data_def)

lemma ledger_fulfilled:
  assumes "ledger s" and found: "find_transaction (t_id t) s = Some t" and "\<not> final_status (t_status t)"
    and plan: "plan \<in> set (paymentPlanCatalog env)" "pl_code plan = t_planCode t"
    and org: "find_organization (t_organizationId t) s = Some org"
  shows "ledger (fulfilled env plan org t trusted event s)"
proof -
  let ?paid = "paid_data env trusted event"
  have t: "t \<in> set (paymentTransactions s)" using find_transaction_SomeD[OF found] by simp
  have same: "y = t" if "y \<in> set (paymentTransactions s)" "t_id y = t_id t" for y
    using same_key[of t_id "paymentTransactions s" "t_id t" t y] that assms(1) found
    by (simp add: ledger_def find_transaction_def row_find_def)
  have new: "t_id t \<notin> paid_ids s"
    using same assms(3) by (auto simp: paid_ids_def final_status_def)
  then have no_receipt: "\<not> list_ex (\<lambda>r. rc_transactionId r = t_id t) (paymentReceipts s)"
    and no_subscription: "\<not> list_ex (\<lambda>r. s_sourceTransactionId r = Some (t_id t)) (organizationSubscriptions s)"
    using assms(1) by (auto simp: ledger_def list_ex_iff)
  have ids: "paid_ids (fulfilled env plan org t trusted event s) = insert (t_id t) (paid_ids s)"
    using t same by (force simp: paid_ids_def fulfilled_def Let_def in_upd_rows paid_data_fields image_iff)
  have receipt: "receipt_for (?paid t) (new_receipt env plan (entitled_data env plan org) (?paid t))"
    using catalog_price[OF plan(1)] plan(2) assms(1) t find_organization_SomeD[OF org]
    by (auto simp: receipt_for_def new_receipt_def paid_data_fields entitled_data_def Let_def ledger_def priced_def)
  have subscription: "subscription_for (?paid t) (new_subscription env plan (?paid t))"
    using plan(2) by (simp add: subscription_for_def new_subscription_def paid_data_fields)
  let ?u = "fulfilled env plan org t trusted event s"
  have receipts: "paymentReceipts ?u = paymentReceipts s @ [new_receipt env plan (entitled_data env plan org) (?paid t)]"
    and subscriptions: "organizationSubscriptions ?u = organizationSubscriptions s @ [new_subscription env plan (?paid t)]"
    using no_receipt no_subscription
    by (simp_all add: fulfilled_def Let_def receipts_after_def subscriptions_after_def paid_data_fields)
  have rows: "paymentTransactions ?u = upd_rows (\<lambda>r. t_id r = t_id t) ?paid (paymentTransactions s)"
    by (simp add: fulfilled_def Let_def)
  show ?thesis
    unfolding ledger_def
  proof (intro conjI ballI allI impI)
    show "distinct (map t_id (paymentTransactions ?u))"
      using assms(1) by (simp add: rows map_upd_rows paid_data_fields ledger_def)
    show "priced y" if "y \<in> set (paymentTransactions ?u)" for y
      using that assms(1) by (auto simp: rows in_upd_rows ledger_def priced_def paid_data_fields)
    show "\<exists>r\<in>set (paymentReceipts ?u). receipt_for y r" if y: "y \<in> set (paymentTransactions ?u)" "t_status y = P_PAID" for y
    proof (cases "t_id y = t_id t")
      case True
      then have "y = ?paid t" using y same by (auto simp: rows in_upd_rows paid_data_fields split: if_splits)
      then show ?thesis using receipt by (auto simp: receipts)
    next
      case False
      then have "y \<in> set (paymentTransactions s)" using y(1) by (auto simp: rows in_upd_rows paid_data_fields split: if_splits)
      then show ?thesis using y(2) assms(1) by (auto simp: receipts ledger_def)
    qed
    show "\<exists>b\<in>set (organizationSubscriptions ?u). subscription_for y b" if y: "y \<in> set (paymentTransactions ?u)" "t_status y = P_PAID" for y
    proof (cases "t_id y = t_id t")
      case True
      then have "y = ?paid t" using y same by (auto simp: rows in_upd_rows paid_data_fields split: if_splits)
      then show ?thesis using subscription by (auto simp: subscriptions)
    next
      case False
      then have "y \<in> set (paymentTransactions s)" using y(1) by (auto simp: rows in_upd_rows paid_data_fields split: if_splits)
      then show ?thesis using y(2) assms(1) by (auto simp: subscriptions ledger_def)
    qed
    show "distinct (map rc_transactionId (paymentReceipts ?u))"
      using assms(1) no_receipt receipt by (auto simp: receipts ledger_def list_ex_iff receipt_for_def paid_data_fields)
    show "rc_transactionId ` set (paymentReceipts ?u) \<subseteq> paid_ids ?u"
      using assms(1) receipt by (auto simp: receipts ids ledger_def receipt_for_def paid_data_fields)
    show "i \<in> paid_ids ?u" if "b \<in> set (organizationSubscriptions ?u)" "s_sourceTransactionId b = Some i" for b i
      using that assms(1) subscription by (auto simp: subscriptions ids ledger_def subscription_for_def paid_data_fields)
  qed
qed

lemma keeps_ledger_process [keeps_rules]: "keeps ledger (processTrustedProviderTransaction env trusted event)"
proof (rule keepsI)
  fix s res u
  assume books: "ledger s" and run: "processTrustedProviderTransaction env trusted event s = (res, u)"
  show "ledger u"
  proof (cases res)
    case (Inl e)
    then show ?thesis using books run by (auto dest: processTrusted_InlD)
  next
    case (Inr row)
    from processTrusted_InrD[OF run[unfolded Inr]]
    obtain existing t :: payment_transaction where found: "find_transaction (t_id existing) s = Some t" "t_id t = t_id existing"
      and settle: "settle env trusted event t s = (Inr row, u)"
      by blast
    have same: "find_transaction (t_id t) s = Some t" using found by simp
    have books': "ledger (business s)" by (rule ledger_business[OF _ books]) (simp add: tables.defs)
    have "ledger (business u)"
      using settle same
    proof (cases rule: settleE)
      case settled
      then show ?thesis using books' by simp
    next
      case (review mismatch)
      then show ?thesis
        using ledger_put[OF books', of "t_id t" t] same unbooked_changes by (auto simp: final_status_def)
    next
      case (booked plan org)
      then show ?thesis
        using ledger_fulfilled[OF books', of t] same by auto
    next
      case unpaid
      then show ?thesis
        using ledger_put[OF books', of "t_id t" t] same unbooked_changes by (auto simp: final_status_def)
    qed
    then show ?thesis by (rule ledger_business[rotated]) (simp add: tables.defs)
  qed
qed

section \<open>Requests\<close>

datatype payment_request =
    Start_payment string string
  | Provider_webhook string "string option"
  | Verify_payment string string
  | Reconcile "int option"

primrec perform_payment :: "env \<Rightarrow> admin_user \<Rightarrow> payment_request \<Rightarrow> unit handler" where
  "perform_payment env user (Start_payment organizationId planCode) =
     ignore_result (initializeOrganizationPayment env organizationId planCode user)"
| "perform_payment env user (Provider_webhook rawBody signature) =
     ignore_result (handlePaystackWebhook env rawBody signature)"
| "perform_payment env user (Verify_payment organizationId reference) =
     ignore_result (verifyTransaction env organizationId reference user)"
| "perform_payment env user (Reconcile limit) = ignore_result (reconcilePending env user limit)"

definition payment_perform :: "env \<times> admin_user \<times> payment_request \<Rightarrow> unit handler" where
  "payment_perform = (\<lambda>(env, user, req). perform_payment env user req)"

definition payment_history :: "db \<Rightarrow> db \<Rightarrow> bool" where
  "payment_history = history_of payment_perform (\<lambda>q. True)"

lemma payment_start: "payment_history s s"
  unfolding payment_history_def by (rule history_start)

lemma payment_next:
  assumes "payment_history s0 s" and "perform_payment env user req s = (res, t)"
  shows "payment_history s0 t"
  unfolding payment_history_def
  by (rule history_next[OF assms(1)[unfolded payment_history_def], where q = "(env, user, req)" and res = res])
    (use assms(2) in \<open>simp_all add: payment_perform_def\<close>)

text \<open>
  An invariant of the business state that the three writers keep (a statement of the provider, a new
  transaction, its first update) holds along every history of payment requests.
\<close>

lemma leaves_payment_audit [leaves_rules]: "leaves business (payment_audit action user metadata)"
  unfolding payment_audit_def by (rule leaves_modify) (simp add: business_audit_row)

lemma leaves_billing_guards [leaves_rules]:
  "leaves business (assertBillingReader env organizationId user)"
  "leaves business (assertBillingAuthority env organizationId user)"
  unfolding assertBillingReader_def assertBillingAuthority_def billing_denied_def
  by (intro leaves_rules leaves_reads reads_hasPermission)+

lemma reads_payment_input [reads_rules]:
  "reads (resolveActivePlan env code)" "reads (assertPlanUsableInEnvironment env plan)"
  "reads (findReusablePendingTransaction env organizationId plan)" "reads (callbackUrl env reference)"
  "reads (organization_transaction organizationId reference)"
  unfolding resolveActivePlan_def assertPlanUsableInEnvironment_def findReusablePendingTransaction_def callbackUrl_def
    organization_transaction_def
  by (intro reads_rules)+

lemma keeps_reads: "reads m \<Longrightarrow> keeps I m"
  unfolding keeps_def reads_def by simp

lemma keeps_reconcile_all:
  assumes "\<And>trusted. keeps I (processTrustedProviderTransaction env trusted None)"
  shows "keeps I (reconcile_all env cs counts)"
proof (induction cs arbitrary: counts)
  case (Cons c cs)
  show ?case
    unfolding reconcile_all.simps reconcile_one_def
    by (intro keeps_rules keeps_reads[OF reads_provider(2)] assms Cons.IH)
qed (simp add: keeps_ret)

lemma keeps_payment:
  assumes leaves: "\<And>m :: unit handler. leaves business m \<Longrightarrow> keeps I m"
    and process: "\<And>env trusted event. keeps I (processTrustedProviderTransaction env trusted event)"
    and start: "\<And>env user organizationId userId email callback plan. plan \<in> set (paymentPlanCatalog env) \<Longrightarrow>
      keeps I (open_payment env user organizationId userId email callback plan)"
  shows "keeps I (payment_perform q)"
proof -
  obtain env user req where q: "q = (env, user, req)" by (metis prod_cases3)
  note audit = leaves[OF leaves_payment_audit] and reader = leaves[OF leaves_billing_guards(1)]
    and authority = leaves[OF leaves_billing_guards(2)] and permission = leaves[OF leaves_assertPermission]
  show ?thesis
  proof (cases req)
    case (Start_payment organizationId planCode)
    have plan: "keeps I (bnd (resolveActivePlan env planCode) k)"
      if "\<And>plan. plan \<in> set (paymentPlanCatalog env) \<Longrightarrow> keeps I (k plan)" for k :: "commercial_plan \<Rightarrow> checkout handler"
    proof (rule keeps_bnd_post[where Q = "\<lambda>plan. plan \<in> set (paymentPlanCatalog env)"])
      show "keeps I (resolveActivePlan env planCode)" by (rule keeps_reads[OF reads_payment_input(1)])
      show "plan \<in> set (paymentPlanCatalog env)" if "resolveActivePlan env planCode s = (Inr plan, t)" for s plan t
        using that by (auto simp: resolveActivePlan_def svc_run dest!: resolvePaymentPlan_SomeD split: option.splits if_splits)
    qed (rule that)
    show ?thesis
      unfolding q Start_payment payment_perform_def prod.case perform_payment.simps initializeOrganizationPayment_def
      apply (rule keeps_ignore_result)
      apply (rule keeps_bnd[OF authority])
      apply (rule plan)
      apply (intro keeps_rules keeps_reads[OF reads_payment_input(2)] keeps_reads[OF reads_adapter(1)]
          keeps_reads[OF reads_payment_input(3)] keeps_reads[OF reads_payment_input(4)] start, assumption)
      done
  next
    case (Provider_webhook rawBody signature)
    show ?thesis
      unfolding q Provider_webhook payment_perform_def prod.case perform_payment.simps handlePaystackWebhook_def
      by (intro keeps_ignore_result keeps_rules keeps_reads[OF reads_provider(3)] process audit)
  next
    case (Verify_payment organizationId reference)
    show ?thesis
      unfolding q Verify_payment payment_perform_def prod.case perform_payment.simps verifyTransaction_def
      by (intro keeps_ignore_result keeps_rules keeps_reads[OF reads_provider(2)] keeps_reads[OF reads_payment_input(5)]
          process reader)
  next
    case (Reconcile limit)
    show ?thesis
      unfolding q Reconcile payment_perform_def prod.case perform_payment.simps reconcilePending_def Let_def
      by (intro keeps_ignore_result keeps_rules process keeps_reconcile_all audit permission)
  qed
qed

section \<open>The books along every history\<close>

lemma payment_audit_run: "payment_audit action user metadata s = (Inr (), snd (payment_audit action user metadata s))"
  by (simp add: payment_audit_def)

lemma business_payment_audit [simp]: "business (snd (payment_audit action user metadata s)) = business s"
  by (simp add: payment_audit_def business_audit_row)

lemma update_pendingE:
  assumes "update_pending i initialized s = (res, t)"
  obtains (refused) e where "res = Inl e" "t = s"
  | (updated) row where "res = Inr row" "t = put_transaction i (pending_data initialized) s"
proof (cases "list_ex (\<lambda>t. t_id t \<noteq> i \<and> t_providerReference t = Some (in_providerReference initialized)) (paymentTransactions s)")
  case True
  then have "res = Inl (PrismaError ''P2002'')" "t = s" using assms by (auto simp: update_pending_def svc_run)
  then show thesis by (rule refused)
next
  case False
  then have "update_transaction i (pending_data initialized) s = (res, t)" using assms by (simp add: update_pending_def)
  then show thesis
  proof (cases rule: transaction_table.updateE)
    case missing
    show thesis by (rule refused[OF missing(2,3)])
  next
    case (updated r)
    show thesis by (rule that(2)[OF updated(2,3)])
  qed
qed

lemma start_payment_cases:
  assumes "start_payment env user email callback plan t s = (res, u)"
  shows "\<exists>w. business u = business w \<and> (w = s \<or> w = put_transaction (t_id t) (failed_start_data env) s \<or>
    (\<exists>initialized. w = put_transaction (t_id t) (pending_data initialized) s))"
proof (cases "initializeTransaction env (initialization_request_of email t callback plan env) s")
  case (Pair first s')
  then have s': "s' = s" by (rule readsD[OF reads_provider(1)])
  have failed: "business u = business s \<or> business u = business (put_transaction (t_id t) (failed_start_data env) s)"
    if "sq (update_transaction (t_id t) (failed_start_data env)) (sq (payment_audit a user' m) (throw e)) s = (res, u)" for a user' m e
    using that by (elim bndE transaction_table.updateE) (auto simp: payment_audit_def business_audit_row)
  show ?thesis
  proof (cases first)
    case (Inl e)
    then show ?thesis
      using assms Pair s' failed unfolding start_payment_def run_catch by (simp del: business_put_transaction) blast
  next
    case (Inr initialized)
    show ?thesis
    proof (cases "update_pending (t_id t) initialized s")
      case step: (Pair second v)
      then show ?thesis
      proof (cases rule: update_pendingE)
        case (refused e)
        then show ?thesis
          using assms Pair s' Inr step failed unfolding start_payment_def run_catch by (simp del: business_put_transaction) blast
      next
        case (updated row)
        then have "business u = business v"
          using assms Pair s' Inr step unfolding start_payment_def run_catch
          by (auto simp: payment_audit_def business_audit_row)
        then show ?thesis using updated by blast
      qed
    qed
  qed
qed

lemma ledger_append:
  assumes "ledger s" and "priced t" and "t_status t \<noteq> P_PAID" and "\<not> list_ex (same_transaction t) (paymentTransactions s)"
  shows "ledger (paymentTransactions_update (\<lambda>rows. rows @ [t]) s)"
proof -
  have "paid_ids (paymentTransactions_update (\<lambda>rows. rows @ [t]) s) = paid_ids s"
    using assms(3) by (auto simp: paid_ids_def)
  with assms show ?thesis by (auto simp: ledger_def list_ex_iff same_transaction_def)
qed

lemma open_payment_cases:
  assumes "open_payment env user organizationId userId email callback plan s = (res, u)"
  defines "t \<equiv> new_transaction env organizationId userId plan"
  defines "opened \<equiv> paymentTransactions_update (\<lambda>rows. rows @ [t]) s"
  obtains (unchanged) "u = s"
  | (opened) w where "\<not> list_ex (same_transaction t) (paymentTransactions s)" "business u = business w"
      "w = opened \<or> w = put_transaction (t_id t) (failed_start_data env) opened \<or>
       (\<exists>initialized. w = put_transaction (t_id t) (pending_data initialized) opened)"
  using assms(1) unfolding open_payment_def
proof (cases rule: bndE)
  case (err e)
  then have "u = s" by (auto simp: create_row_def svc_run split: if_splits)
  then show thesis by (rule unchanged)
next
  case (ok row v)
  from create_row_InrD[OF ok(1)] ok(2) show thesis
    using start_payment_cases[of env user email callback plan row v res u] that(2)
    by (auto simp: t_def opened_def)
qed

lemma find_append_fresh: "\<forall>r\<in>set rows. key r \<noteq> key t \<Longrightarrow> find (\<lambda>r. key r = key t) (rows @ [t]) = Some t"
  by (induction rows) auto

lemma find_appended:
  "\<not> list_ex (same_transaction t) (paymentTransactions s) \<Longrightarrow>
     find_transaction (t_id t) (paymentTransactions_update (\<lambda>rows. rows @ [t]) s) = Some t"
  unfolding find_transaction_def row_find_def
  by (simp, rule find_append_fresh) (auto simp: list_ex_iff same_transaction_def)

lemma keeps_ledger_open:
  assumes "plan \<in> set (paymentPlanCatalog env)"
  shows "keeps ledger (open_payment env user organizationId userId email callback plan)"
proof (rule keepsI)
  fix s res u
  assume books: "ledger s" and run: "open_payment env user organizationId userId email callback plan s = (res, u)"
  from run show "ledger u"
  proof (cases rule: open_payment_cases)
    case unchanged
    then show ?thesis using books by simp
  next
    case (opened w)
    let ?t = "new_transaction env organizationId userId plan"
    let ?v = "paymentTransactions_update (\<lambda>rows. rows @ [?t]) s"
    have t: "priced ?t" "t_status ?t \<noteq> P_PAID"
      using catalog_price[OF assms] by (simp_all add: priced_def new_transaction_def)
    have v: "ledger ?v" by (rule ledger_append[OF books t opened(1)])
    have "ledger w"
      using opened(3) v ledger_put[OF v find_appended[OF opened(1)] t(2)] unbooked_changes by blast
    then show ?thesis by (rule ledger_business[OF opened(2)])
  qed
qed

interpretation books: service_invariant payment_perform ledger "\<lambda>q. True"
proof
  show "keeps ledger (payment_perform q)" for q
    by (rule keeps_payment[OF ledger_leaves keeps_ledger_process keeps_ledger_open])
qed

text \<open>
  C35: The books stay consistent along every history of payment requests, whoever sends them and in
  whatever order: transactions carry the price of their plan, every paid transaction has its receipt and
  its subscription, and every receipt and every subscription of a transaction stands for one that is paid.
\<close>

theorem books_balanced:
  assumes "payment_history s t" and "ledger s"
  shows "ledger t"
  using books.along[OF assms(1)[unfolded payment_history_def] assms(2)] .

definition live_env :: env where
  "live_env = sample_env\<lparr> envVar := (\<lambda>name. map_of [(''PAYMENTS_ENABLED'', ''true''), (''PAYSTACK_SECRET_KEY'', ''sk_test''),
       (''PAYMENTS_CALLBACK_BASE_URL'', ''https://pay.example.org'')] name),
     httpFetch := (\<lambda>path body. Some (True, JObj [(''status'', JBool True), (''data'', JObj
       [(''authorization_url'', JStr ''https://checkout''), (''access_code'', JStr ''code''), (''reference'', JStr ''ref1'')])])),
     parseJson := (\<lambda>text. Some (JObj [(''event'', JStr ''charge.success''), (''id'', JStr ''evt1''), (''data'', JObj
       [(''status'', JStr ''success''), (''reference'', JStr ''ref1''), (''amount'', JNum 500000), (''currency'', JStr ''ngn''),
        (''metadata'', JObj [])])])),
     freshId := (\<lambda>n. ''row'' @ nat_text n) \<rparr>"

definition billing_admin :: admin_user where
  "billing_admin = session_of (sample_user\<lparr> u_id := ''b1'', u_role := BILLING_ADMIN, u_organizationId := Some ''org1'' \<rparr>)"

definition payment_db :: db where
  "payment_db = (sample_db [])\<lparr> users := [sample_user\<lparr> u_id := ''b1'', u_role := BILLING_ADMIN,
     u_email := Some ''billing@example.org'' \<rparr>] \<rparr>"

definition started_db :: db where
  "started_db = snd (perform_payment live_env billing_admin (Start_payment ''org1'' ''starter'') payment_db)"

definition booked_db :: db where
  "booked_db = snd (perform_payment live_env billing_admin (Provider_webhook [] (Some ''AB'')) started_db)"

theorem books_balanced_witness:
  "ledger booked_db \<and> map t_status (paymentTransactions started_db) = [P_PENDING] \<and>
   map t_status (paymentTransactions booked_db) = [P_PAID] \<and> length (paymentReceipts booked_db) = 1"
proof -
  have "payment_history payment_db booked_db"
    unfolding booked_db_def started_db_def
    by (rule payment_next[OF payment_next[OF payment_start surjective_pairing] surjective_pairing])
  moreover have "ledger payment_db" by (simp add: ledger_def payment_db_def sample_db_def)
  moreover have "map t_status (paymentTransactions started_db) = [P_PENDING]"
    "map t_status (paymentTransactions booked_db) = [P_PAID]" "length (paymentReceipts booked_db) = 1"
    by code_simp+
  ultimately show ?thesis using books_balanced by blast
qed

section \<open>What is booked\<close>

text \<open>
  C36: A transaction becomes paid only when the provider states that it is paid, in the amount and the
  currency of the transaction and under one of its references; then the organization has exactly the
  entitlements of the plan until the end of the period, and nothing else of the business state changes but
  the transaction, its subscription, its receipt and the upgrade requests it answers.
\<close>

theorem booked_only_as_confirmed:
  assumes "processTrustedProviderTransaction env trusted event s = (Inr row, u)" and "t_status row = P_PAID"
    and "find_transaction (t_id row) s = Some t" and "\<not> final_status (t_status t)"
  shows "pt_status trusted = P_PAID \<and> pt_amountMinor trusted = Some (of_int (t_amountMinor t)) \<and>
    pt_currency trusted = t_currency t \<and>
    (\<exists>plan org. resolvePaymentPlan env (subscription_plan_name (t_planCode t)) = Some plan \<and> pl_active plan \<and>
       find_organization (t_organizationId t) s = Some org \<and>
       business u = fulfilled env plan org t trusted event (business s))"
proof -
  from processTrusted_InrD[OF assms(1)] obtain existing t' :: payment_transaction where
    found: "find_transaction (t_id existing) s = Some t'" "t_id t' = t_id existing"
    and settle: "settle env trusted event t' s = (Inr row, u)" by blast
  have same: "find_transaction (t_id t') s = Some t'" using found by simp
  have "t_id row = t_id t'"
    using settle same by (cases rule: settleE) (auto simp: review_data_def paid_data_def unpaid_data_def Let_def)
  with assms(3) found have t: "t' = t" by simp
  from settle same show ?thesis
    unfolding t
  proof (cases rule: settleE)
    case (booked plan org)
    then have "resolvePaymentPlan env (subscription_plan_name (t_planCode t)) = Some plan"
      using resolve_own_code[of plan env] by simp
    with booked show ?thesis by (auto simp: paymentMismatch_def split: if_splits)
  qed (use assms(2,4) in \<open>auto simp: final_status_def review_data_def unpaid_data_def unpaid_status_def Let_def split: if_splits\<close>)
qed

definition sample_statement :: provider_transaction where
  "sample_statement = \<lparr> pt_environment = TEST, pt_providerReference = ''ref1'', pt_internalReference = ''ref1'',
     pt_status = P_PAID, pt_amountMinor = Some 500000, pt_currency = ''NGN'', pt_paidAt = None, pt_eventId = None,
     pt_metadata = JObj [] \<rparr>"

theorem booked_only_as_confirmed_witness:
  "\<exists>row u plan org. processTrustedProviderTransaction live_env sample_statement None started_db = (Inr row, u) \<and>
     pl_active plan \<and> business u = fulfilled live_env plan org (hd (paymentTransactions started_db)) sample_statement None
       (business started_db)"
proof -
  let ?run = "processTrustedProviderTransaction live_env sample_statement None"
  have "succeeds ?run started_db" by code_simp
  then obtain row u where run: "?run started_db = (Inr row, u)" by (rule succeedsE)
  have "map_sum (\<lambda>e. ''failed'') t_id (fst (?run started_db)) = Inr ''row0''"
    "map_sum (\<lambda>e. P_FAILED) t_status (fst (?run started_db)) = Inr P_PAID"
    "find_transaction ''row0'' started_db = Some (hd (paymentTransactions started_db))"
    "\<not> final_status (t_status (hd (paymentTransactions started_db)))"
    by code_simp+
  then show ?thesis
    using booked_only_as_confirmed[OF run, of "hd (paymentTransactions started_db)"] run by auto
qed

section \<open>A paid transaction is final\<close>

definition stays :: "payment_transaction \<Rightarrow> 's tables_scheme \<Rightarrow> bool" where
  "stays x s \<longleftrightarrow> find_transaction (t_id x) s = Some x"

lemma stays_leaves: "leaves business m \<Longrightarrow> keeps (stays x) (m :: 'a handler)"
  by (erule keeps_leaves) (metis stays_def find_transaction_business)

lemma put_transaction_other:
  "unbooked_change f \<Longrightarrow> j \<noteq> t_id x \<Longrightarrow> stays x s \<Longrightarrow> stays x (put_transaction j f s)"
  by (simp add: stays_def transaction_table.find_put_other unbooked_change_def)

lemma keeps_stays_process:
  assumes "final_status (t_status x)"
  shows "keeps (stays x) (processTrustedProviderTransaction env trusted event)"
proof (rule keepsI)
  fix s res u
  assume stays: "stays x s" and run: "processTrustedProviderTransaction env trusted event s = (res, u)"
  show "stays x u"
  proof (cases res)
    case (Inl e)
    then show ?thesis using stays run by (auto dest: processTrusted_InlD)
  next
    case (Inr row)
    from processTrusted_InrD[OF run[unfolded Inr]]
    obtain existing t :: payment_transaction where found: "find_transaction (t_id existing) s = Some t" "t_id t = t_id existing"
      and settle: "settle env trusted event t s = (Inr row, u)" by blast
    have same: "find_transaction (t_id t) s = Some t" using found by simp
    show ?thesis
    proof (cases "t_id t = t_id x")
      case True
      then have "t = x" using same stays by (simp add: stays_def)
      then show ?thesis using settle assms stays by (auto simp: settle_def final_status_def)
    next
      case other: False
      have before: "stays x (business s)" using stays by (simp add: stays_def)
      have "stays x (business u)"
        using settle same
      proof (cases rule: settleE)
        case settled
        then show ?thesis using before by simp
      next
        case (review mismatch)
        then show ?thesis using put_transaction_other[OF unbooked_changes(1) other before] by simp
      next
        case (booked plan org)
        have "stays x (fulfilled env plan org t trusted event s')" if "stays x s'" for s' :: tables
          using that other find_upd_rows_other[of t_id "paid_data env trusted event" "t_id t" "t_id x" "paymentTransactions s'"]
          by (simp add: stays_def fulfilled_def Let_def find_transaction_def row_find_def paid_data_fields)
        then show ?thesis using booked before by simp
      next
        case unpaid
        then show ?thesis using put_transaction_other[OF unbooked_changes(2) other before] by simp
      qed
      then show ?thesis by (simp add: stays_def)
    qed
  qed
qed

lemma find_append_old: "find P rows = Some x \<Longrightarrow> find P (rows @ more_rows) = Some x"
  by (induction rows) auto

lemma keeps_stays_open:
  "keeps (stays x) (open_payment env user organizationId userId email callback plan)"
proof (rule keepsI)
  fix s res u
  assume stays: "stays x s" and run: "open_payment env user organizationId userId email callback plan s = (res, u)"
  from run show "stays x u"
  proof (cases rule: open_payment_cases)
    case unchanged
    then show ?thesis using stays by simp
  next
    case (opened w)
    let ?t = "new_transaction env organizationId userId plan"
    let ?v = "paymentTransactions_update (\<lambda>rows. rows @ [?t]) s"
    have v: "stays x ?v"
      using stays by (simp add: stays_def find_transaction_def row_find_def find_append_old)
    have other: "t_id ?t \<noteq> t_id x"
      using opened(1) find_transaction_SomeD[OF stays[unfolded stays_def]] by (auto simp: list_ex_iff same_transaction_def)
    have "stays x w"
      using opened(3) v put_transaction_other[OF _ other v] unbooked_changes by blast
    then show ?thesis
      using opened(2) by (metis stays_def find_transaction_business)
  qed
qed

text \<open>
  C37: A paid transaction never changes again: not along any history of payment requests, and not by any
  further statement of the provider about it. In particular a refund the provider reports for it is
  answered as received and recorded nowhere, and the organization keeps its entitlements.
\<close>

theorem paid_is_final:
  assumes "payment_history s t" and "find_transaction i s = Some x" and "final_status (t_status x)"
  shows "find_transaction i t = Some x \<and>
    (stated_transaction trusted t = Some x \<longrightarrow> processTrustedProviderTransaction env trusted event t = (Inr x, t))"
proof -
  have i: "i = t_id x" using find_transaction_SomeD[OF assms(2)] by simp
  have "service_invariant payment_perform (stays x) (\<lambda>q. True)"
    by unfold_locales (rule keeps_payment[OF stays_leaves keeps_stays_process[OF assms(3)] keeps_stays_open])
  from service_invariant.along[OF this assms(1)[unfolded payment_history_def]] have "find_transaction (t_id x) t = Some x"
    using assms(2) by (simp add: stays_def i)
  then show ?thesis
    using assms(3) by (auto simp: i processTrustedProviderTransaction_def svc_run settle_def final_status_def)
qed

definition refunded_db :: db where
  "refunded_db = snd (processTrustedProviderTransaction live_env (sample_statement\<lparr> pt_status := P_REFUNDED \<rparr>) None booked_db)"

theorem paid_is_final_witness:
  "refunded_db = booked_db \<and> map t_status (paymentTransactions refunded_db) = [P_PAID]"
proof -
  let ?x = "hd (paymentTransactions booked_db)"
  have "find_transaction ''row0'' booked_db = Some ?x" "final_status (t_status ?x)"
    "stated_transaction (sample_statement\<lparr> pt_status := P_REFUNDED \<rparr>) booked_db = Some ?x"
    "map t_status (paymentTransactions booked_db) = [P_PAID]"
    by code_simp+
  then show ?thesis
    using paid_is_final[OF payment_start] by (auto simp: refunded_db_def)
qed

section \<open>Authentic webhooks\<close>

text \<open>
  C38: A webhook changes the business state only when it carries the keyed digest of its own body under
  the configured secret, names one of the recognized events and states a transaction the platform knows;
  what changes is what that statement does.
\<close>

theorem only_authentic_webhooks:
  assumes "handlePaystackWebhook env rawBody signature s = (res, t)" and "business t \<noteq> business s"
  shows "secretKey env \<noteq> [] \<and>
    (\<exists>provided. trimmed signature = Some provided \<and> hex_bytes provided = hex_bytes (hmacSha512 env (secretKey env) rawBody)) \<and>
    (\<exists>payload event trusted row. parseJson env rawBody = Some payload \<and> parseWebhookEvent env payload s = (Inr event, s) \<and>
       we_event event \<in> set recognized_events \<and> we_transaction event = Some trusted \<and>
       processTrustedProviderTransaction env trusted (Some event) s = (Inr row, t))"
proof -
  have valid: "validateWebhookSignature env rawBody signature"
  proof (rule ccontr)
    assume "\<not> validateWebhookSignature env rawBody signature"
    then have "business t = business s"
      using assms(1) by (auto simp: handlePaystackWebhook_def svc_run payment_audit_def business_audit_row)
    with assms(2) show False by simp
  qed
  let ?rest = "bnd (require (InternalServerError ''SyntaxError'') (parseJson env rawBody)) (\<lambda>payload.
     bnd (parseWebhookEvent env payload) (\<lambda>event. case we_transaction event of
       None \<Rightarrow> ret (Event_ignored (we_event event))
     | Some trusted \<Rightarrow> bnd (processTrustedProviderTransaction env trusted (Some event)) (\<lambda>result.
           ret (Event_processed (t_status result)))))"
  have rest: "?rest s = (res, t)"
    using assms(1) valid by (simp add: handlePaystackWebhook_def)
  obtain payload where payload: "parseJson env rawBody = Some payload"
    using rest assms(2) by (cases "parseJson env rawBody") (auto simp: svc_run)
  obtain first s' where parse: "parseWebhookEvent env payload s = (first, s')" by fastforce
  then have s': "s' = s" by (rule readsD[OF reads_provider(3)])
  obtain event where event: "first = Inr event"
    using rest payload parse s' assms(2) by (cases first) (auto simp: svc_run)
  obtain trusted where trusted: "we_transaction event = Some trusted"
    using rest payload parse s' event assms(2) by (cases "we_transaction event") (auto simp: svc_run)
  have recognized: "we_event event \<in> set recognized_events"
    using parse[unfolded event] trusted unfolding parseWebhookEvent_def Let_def
    by (elim bnd_InrE) (auto split: if_splits)
  obtain row where "processTrustedProviderTransaction env trusted (Some event) s = (Inr row, t)"
  proof (cases "processTrustedProviderTransaction env trusted (Some event) s")
    case (Pair outcome w)
    then show thesis
      using rest payload parse s' event trusted assms(2) that
      by (cases outcome) (auto simp: svc_run dest: processTrusted_InlD)
  qed
  with valid payload parse s' event trusted recognized show ?thesis
    by (auto simp: validateWebhookSignature_def split: option.splits)
qed

theorem only_authentic_webhooks_witness:
  "secretKey live_env \<noteq> [] \<and> (\<exists>payload event. parseJson live_env [] = Some payload \<and>
     parseWebhookEvent live_env payload started_db = (Inr event, started_db) \<and> we_event event \<in> set recognized_events)"
proof -
  obtain res t where run: "handlePaystackWebhook live_env [] (Some ''AB'') started_db = (res, t)" by fastforce
  have "map t_status (paymentTransactions (snd (handlePaystackWebhook live_env [] (Some ''AB'') started_db))) = [P_PAID]"
    and "map t_status (paymentTransactions started_db) = [P_PENDING]"
    by code_simp+
  then have "business t \<noteq> business started_db"
    using run business_eq_fields(6)[of t started_db] by auto
  from only_authentic_webhooks[OF run this] show ?thesis by blast
qed

section \<open>The length of a billing period\<close>

text \<open>
  C39: A monthly period ends 28 to 31 days after it starts and a yearly one 365 or 366 days after, whatever
  the date it starts on, the carry of a day the next month does not have included.
\<close>

theorem billing_period_bounds:
  "start + day_ms_of (case interval of Monthly \<Rightarrow> 28 | Yearly \<Rightarrow> 365) \<le> addBillingPeriod start interval \<and>
   addBillingPeriod start interval \<le> start + day_ms_of (case interval of Monthly \<Rightarrow> 31 | Yearly \<Rightarrow> 366)"
  using billing_period[of start] by (cases interval) simp_all

end
