(* ===== verification/Routing_Theorems.thy ===== *)
theory Routing_Theorems imports Lifecycle Payment_Theorems begin

text \<open>
  What the intake guarantees: a jurisdiction matches by whole words, the resolution of the responsible
  organization is the one responsible organization of its specification, the creation of a report, its
  quota, and the way of a matched report to dispatch; and how routing fails (an exclusion anywhere vetoes
  it, a paid subscription ends it).
\<close>

section \<open>Jurisdictions as words\<close>

text \<open>The place a zone stands for: the most specific of its names, as words.\<close>

definition place_words :: "zone \<Rightarrow> string list" where
  "place_words z =
     (case coalesce (trimmed (z_lga z)) (coalesce (trimmed (z_state z)) (trimmed (z_country z))) of
        None \<Rightarrow> []
      | Some place \<Rightarrow> words_of (normalizeLocationText [Some place]))"

definition part_of :: "string list \<Rightarrow> string list \<Rightarrow> bool" where
  "part_of p ws \<longleftrightarrow> p \<noteq> [] \<and> (\<exists>us vs. ws = us @ p @ vs)"

text \<open>The zones that count: the active ones, or the organization's own locality when there are none.\<close>

definition effective_zones :: "organization \<Rightarrow> zone list \<Rightarrow> zone list" where
  "effective_zones organization zones =
     (if activeRoutingJurisdictionZones zones \<noteq> [] then activeRoutingJurisdictionZones zones
      else case legacyFallbackZone organization of Some z \<Rightarrow> [z] | None \<Rightarrow> [])"

lemma matchZone_words:
  "matchZone z (routingLocationText rep) \<noteq> None \<longleftrightarrow> part_of (place_words z) (words_of (routingLocationText rep))"
  unfolding routingLocationText_def matchZone_def place_words_def part_of_def
  using containsPlace_words[of "[li_location rep, li_locationName rep, li_locationAddress rep, li_locationLandmark rep]"]
  by (auto split: option.split)

lemma firstMatchedZone_exists: "firstMatchedZone zones text \<noteq> None \<longleftrightarrow> (\<exists>z\<in>set zones. matchZone z text \<noteq> None)"
  by (induction zones) (auto split: option.split)

lemma matchZone_text: "matchZone z text \<noteq> None \<Longrightarrow> text \<noteq> []"
  by (auto simp: matchZone_def)

lemma zones_match_iff: "jm_matched (zones_match env org rep shown zones source) \<longleftrightarrow>
    (\<exists>z\<in>set zones. matchZone z (routingLocationText rep) \<noteq> None)"
  using matchZone_text[of _ "routingLocationText rep"]
  by (auto simp: zones_match_def Let_def firstMatchedZone_exists simp del: not_None_eq)

text \<open>
  C4: A report lies in the jurisdiction of an organization exactly when, for one of its effective zones (its
  active zones, or its own locality if it has none), the words of the most specific name of the zone are a
  contiguous part of the words of the report's location.
\<close>

theorem jurisdiction_by_words:
  "jm_matched (evaluateRoutingJurisdiction env org zones rep) =
     list_ex (\<lambda>z. part_of (place_words z) (words_of (routingLocationText rep))) (effective_zones org zones)"
  unfolding evaluateRoutingJurisdiction_def Let_def effective_zones_def
  by (auto simp: zones_match_iff matchZone_words list_ex_iff split: option.split simp del: not_None_eq)

section \<open>The responsible organization\<close>

text \<open>The specification: the organizations that qualify, and which of them are responsible.\<close>

definition evidence_for :: "env \<Rightarrow> create_dto \<Rightarrow> 's tables_scheme \<Rightarrow> organization \<Rightarrow> category_evidence" where
  "evidence_for env dto s x = category_evidence_of env (profile_of s x) (cr_category dto)"

definition in_jurisdiction :: "env \<Rightarrow> create_dto \<Rightarrow> 's tables_scheme \<Rightarrow> organization \<Rightarrow> bool" where
  "in_jurisdiction env dto s x \<longleftrightarrow>
     jm_matched (evaluateRoutingJurisdiction env x (map zone_of (organization_zones x s)) (create_location dto))"

definition qualifies :: "env \<Rightarrow> create_dto \<Rightarrow> 's tables_scheme \<Rightarrow> organization \<Rightarrow> bool" where
  "qualifies env dto s x \<longleftrightarrow>
     operational x \<and> covers_category (evidence_for env dto s x) \<and> \<not> ce_excluded (evidence_for env dto s x) \<and>
     in_jurisdiction env dto s x"

definition qualifying :: "env \<Rightarrow> create_dto \<Rightarrow> 's tables_scheme \<Rightarrow> organization set" where
  "qualifying env dto s = {x \<in> set (organizations s). qualifies env dto s x}"

definition responsible :: "env \<Rightarrow> create_dto \<Rightarrow> 's tables_scheme \<Rightarrow> organization set" where
  "responsible env dto s =
     (let owners = {x \<in> qualifying env dto s. o_id x \<in> set (assetResponsibilityOrganizationIds dto s)}
      in if owners \<noteq> {} then owners else qualifying env dto s)"

text \<open>
  An active organization vetoes the routing when it excludes a compatible category, and also when the
  reason for which it does not qualify happens to contain the phrase the resolver looks for: the text of
  the category is part of that reason.
\<close>

definition phrase_leaks :: "category_evidence \<Rightarrow> string \<Rightarrow> bool" where
  "phrase_leaks evidence category \<longleftrightarrow>
     (ce_inheritedCategories evidence \<noteq> [] \<or> ce_mandateCategories evidence \<noteq> [] \<or> ce_explicit evidence) \<and>
     \<not> ce_inheritedMatch evidence \<and> \<not> ce_mandateMatch evidence \<and> \<not> ce_capabilityMatch evidence \<and>
     contains (toLowerCase (''No organization mandate or provider profile covers '' @ category @ ''.'')) EXCLUSION_PHRASE"

definition vetoes :: "env \<Rightarrow> create_dto \<Rightarrow> 's tables_scheme \<Rightarrow> organization \<Rightarrow> bool" where
  "vetoes env dto s x \<longleftrightarrow> x \<in> set (organizations s) \<and> o_status x = O_ACTIVE \<and>
     (ce_excluded (evidence_for env dto s x) \<or> phrase_leaks (evidence_for env dto s x) (cr_category dto))"

definition routing_verdict :: "env \<Rightarrow> create_dto \<Rightarrow> 's tables_scheme \<Rightarrow> outcome \<times> organization option" where
  "routing_verdict env dto s =
     (if trim (cr_category dto) = [] then (NO_CATEGORY, None)
      else if words_of (routingLocationText (create_location dto)) = [] then (NO_LOCATION, None)
      else if \<exists>x. vetoes env dto s x then (RESTRICTED_OR_CONFLICTED, None)
      else if card (responsible env dto s) = 0 then (UNMATCHED, None)
      else if card (responsible env dto s) = 1 then (HIGH_CONFIDENCE, Some (the_elem (responsible env dto s)))
      else (AMBIGUOUS, None))"

lemma starts_with_append: "starts_with a p \<Longrightarrow> starts_with (a @ b) p"
  by (auto simp: starts_with_iff)

lemma contains_append: "contains a p \<Longrightarrow> contains (a @ b) p"
proof (induction a)
  case (Cons c cs)
  then show ?case
    using starts_with_append[of "c # cs" p b] by auto
qed simp

lemma list_ex_reason_if: "list_ex P (reason_if c r) \<longleftrightarrow> c \<and> P r"
  by (simp add: reason_if_def)

lemma other_reasons:
  "\<not> contains (toLowerCase ''Organization is not active.'') EXCLUSION_PHRASE"
  "\<not> contains (toLowerCase ''Maintenance Services is not enabled for this organization.'') EXCLUSION_PHRASE"
  "\<not> contains (toLowerCase ''Organization billing status blocks dispatch.'') EXCLUSION_PHRASE"
  "\<not> contains (toLowerCase ''Organization contact channel is missing.'') EXCLUSION_PHRASE"
  "\<not> contains (toLowerCase ''Organization jurisdiction or address is missing.'') EXCLUSION_PHRASE"
  "\<not> contains (toLowerCase ''Report has no comparable textual locality for jurisdiction matching.'') EXCLUSION_PHRASE"
  "\<not> contains (toLowerCase ''No mandate or inherited provider profile categories are configured.'') EXCLUSION_PHRASE"
  "\<not> contains (toLowerCase ''Organization jurisdiction does not match the report location.'') EXCLUSION_PHRASE"
  by code_simp+

lemma exclusion_reason:
  "contains (toLowerCase (''Organization has an explicit responsibility exclusion for '' @ category @ ''.'')) EXCLUSION_PHRASE"
proof -
  have "contains (toLowerCase ''Organization has an explicit responsibility exclusion for '') EXCLUSION_PHRASE"
    by code_simp
  then show ?thesis
    unfolding toLowerCase_def map_append by (rule contains_append)
qed

lemma names_exclusion_iff:
  "names_exclusion (serializeOrganizationCandidate env profile category rep) \<longleftrightarrow>
     ce_excluded (category_evidence_of env profile category) \<or> phrase_leaks (category_evidence_of env profile category) category"
proof -
  have case_reason: "list_ex P (if c then [r] else reason_if d r') \<longleftrightarrow> c \<and> P r \<or> \<not> c \<and> d \<and> P r'"
    for P and c d :: bool and r r' :: string
    by (simp add: list_ex_reason_if)
  show ?thesis
    unfolding names_exclusion_def candidate_fields rejection_reasons_def list_ex_append list_ex_reason_if case_reason
    using other_reasons exclusion_reason[of category] unfolding phrase_leaks_def by blast
qed

definition candidate_for :: "env \<Rightarrow> create_dto \<Rightarrow> 's tables_scheme \<Rightarrow> organization \<Rightarrow> candidate" where
  "candidate_for env dto s x =
     serializeOrganizationCandidate env (profile_of s x) (cr_category dto) (create_location dto)"

lemma profile_fields [simp]:
  "op_organization (profile_of s x) = x" "op_zones (profile_of s x) = organization_zones x s"
  by (simp_all add: profile_of_def)

lemma candidate_for_facts:
  "cd_eligible (candidate_for env dto s x) \<longleftrightarrow> qualifies env dto s x"
  "names_exclusion (candidate_for env dto s x) \<longleftrightarrow>
     ce_excluded (evidence_for env dto s x) \<or> phrase_leaks (evidence_for env dto s x) (cr_category dto)"
  "cd_organization (candidate_for env dto s x) = x"
  by (simp_all add: candidate_for_def eligible_conditions names_exclusion_iff qualifies_def evidence_for_def in_jurisdiction_def)

lemma set_active_organizations: "set (active_organizations s) = {x \<in> set (organizations s). o_status x = O_ACTIVE}"
  by (simp add: active_organizations_def)

lemma qualifying_active: "set (filter (qualifies env dto s) (active_organizations s)) = qualifying env dto s"
  by (auto simp: set_active_organizations qualifying_def qualifies_def operational_def)

lemma location_words: "words_of (routingLocationText (create_location dto)) = [] \<longleftrightarrow> \<not> hasResponsibilityLocation dto"
proof -
  have "tidy (routingLocationText (create_location dto))"
    unfolding routingLocationText_def by (rule normal_text_tidy)
  then show ?thesis
    unfolding hasResponsibilityLocation_def tidy_def by (metis join.simps(1) words_of.simps(1))
qed

lemma decisive_list:
  assumes "distinct (organizations s)"
  obtains ds where "distinct ds" "set ds = responsible env dto s"
    "fst (decisive_candidates dto (filter cd_eligible (evaluated_candidates env dto s)) s) = map (candidate_for env dto s) ds"
proof -
  let ?qs = "filter (qualifies env dto s) (active_organizations s)"
  let ?owner = "\<lambda>x. o_id x \<in> set (assetResponsibilityOrganizationIds dto s)"
  let ?ds = "if filter ?owner ?qs \<noteq> [] then filter ?owner ?qs else ?qs"
  have eligible: "filter cd_eligible (evaluated_candidates env dto s) = map (candidate_for env dto s) ?qs"
    unfolding evaluated_candidates_def candidate_for_def[symmetric] filter_map by (simp add: comp_def candidate_for_facts)
  have backed: "filter (\<lambda>c. ?owner (cd_organization c)) (map (candidate_for env dto s) ?qs) =
      map (candidate_for env dto s) (filter ?owner ?qs)"
    unfolding filter_map by (simp add: comp_def candidate_for_facts)
  have "distinct ?ds"
    using assms by (auto simp: active_organizations_def)
  moreover have "set ?ds = responsible env dto s"
    unfolding responsible_def Let_def qualifying_active[symmetric] by (auto simp: filter_empty_conv)
  moreover have "fst (decisive_candidates dto (filter cd_eligible (evaluated_candidates env dto s)) s) =
      map (candidate_for env dto s) ?ds"
    unfolding decisive_candidates_def Let_def eligible backed by simp
  ultimately show thesis by (rule that)
qed

lemma veto_iff: "filter names_exclusion (evaluated_candidates env dto s) \<noteq> [] \<longleftrightarrow> (\<exists>x. vetoes env dto s x)"
  unfolding evaluated_candidates_def candidate_for_def[symmetric] vetoes_def
  by (auto simp: filter_empty_conv candidate_for_facts set_active_organizations)

lemma resolution_verdict:
  assumes "distinct (organizations s)"
  shows "(rs_outcome (resolveReportResponsibility env dto s), rs_organization (resolveReportResponsibility env dto s)) =
    routing_verdict env dto s"
proof -
  obtain ds backed where ds: "distinct ds" "set ds = responsible env dto s"
    "decisive_candidates dto (filter cd_eligible (evaluated_candidates env dto s)) s = (map (candidate_for env dto s) ds, backed)"
    using decisive_list[OF assms, of env dto] by (metis prod.collapse)
  have card: "card (responsible env dto s) = length ds"
    using ds(1,2) distinct_card by metis
  show ?thesis
  proof (cases ds rule: list.exhaust)
    case Nil
    then show ?thesis
      using ds(3) card unfolding resolveReportResponsibility_def routing_verdict_def location_words veto_iff[symmetric]
      by (simp add: responsibilityResolutionResult_def Let_def)
  next
    case (Cons x xs)
    then have "the_elem (responsible env dto s) = x" if "xs = []"
      using that ds(2) by (metis list.simps(15) set_empty2 the_elem_eq empty_set)
    then show ?thesis
      using Cons ds(3) card unfolding resolveReportResponsibility_def routing_verdict_def location_words veto_iff[symmetric]
      by (cases xs) (simp_all add: responsibilityResolutionResult_def Let_def candidate_for_facts)
  qed
qed

text \<open>
  C2: The resolution is the verdict of its specification: no veto of an active organization, and exactly one
  responsible organization - among the organizations that are operational, cover the category, do not exclude
  it and have the report in their jurisdiction, those that own a registered asset of the category, or all of
  them when none does.
\<close>

theorem resolution_refines_verdict:
  assumes "distinct (organizations s)"
  shows "(rs_outcome (resolveReportResponsibility env dto s), rs_organization (resolveReportResponsibility env dto s)) =
    routing_verdict env dto s"
  by (rule resolution_verdict[OF assms])

definition road_dto :: create_dto where
  "road_dto = \<lparr> cr_title = ''Pothole'', cr_description = ''Deep hole'', cr_category = ''Road'',
     cr_location = ''12 Allen Avenue, IKEJA.'', cr_locationName = None, cr_locationAddress = None,
     cr_locationLandmark = None, cr_latitude = None, cr_longitude = None, cr_locationAccuracy = None,
     cr_locationCapturedAt = None, cr_locationSource = None, cr_locationPermissionState = None \<rparr>"

definition road_provider :: user where
  "road_provider = sample_user\<lparr> u_id := ''p1'', u_role := PROVIDER, u_serviceCategories := Some (JArr [JStr ''Road'']) \<rparr>"

definition intake_db :: db where
  "intake_db = (sample_db [])\<lparr> users := [sample_user\<lparr>u_id := ''c1''\<rparr>, road_provider,
     sample_user\<lparr>u_id := ''a1'', u_role := ORG_ADMIN\<rparr>] \<rparr>"

definition sample_limits :: geo_limits where
  "sample_limits = \<lparr> maxAccuracyMeters = 10000, warningDistanceMeters = 250, staleCaptureMinutes = 1440 \<rparr>"

text \<open>A single organization that qualifies is the verdict.\<close>

lemma verdict_single:
  assumes "organizations s = [x]" and "qualifies env dto s x"
    and "trim (cr_category dto) \<noteq> []" and "words_of (routingLocationText (create_location dto)) \<noteq> []"
  shows "routing_verdict env dto s = (HIGH_CONFIDENCE, Some x)"
proof -
  have "qualifying env dto s = {x}"
    using assms(1,2) by (auto simp: qualifying_def)
  then have "responsible env dto s = {x}"
    unfolding responsible_def Let_def by auto
  moreover have "\<not> vetoes env dto s y" for y
    using assms(1,2) by (auto simp: vetoes_def qualifies_def phrase_leaks_def covers_category_def)
  ultimately show ?thesis
    using assms(3,4) by (simp add: routing_verdict_def)
qed

lemma sample_verdict:
  "routing_verdict sample_env road_dto intake_db = (HIGH_CONFIDENCE, Some sample_organization)"
proof (rule verdict_single)
  show "organizations intake_db = [sample_organization]" by (simp add: intake_db_def sample_db_def)
qed code_simp+

theorem resolution_refines_verdict_witness:
  "rs_outcome (resolveReportResponsibility sample_env road_dto intake_db) = HIGH_CONFIDENCE \<and>
   rs_organization (resolveReportResponsibility sample_env road_dto intake_db) = Some sample_organization"
proof -
  have "distinct (organizations intake_db)"
    by (simp add: intake_db_def sample_db_def)
  then show ?thesis
    using resolution_refines_verdict[of intake_db sample_env road_dto] sample_verdict by simp
qed

section \<open>Vetoes\<close>

text \<open>
  Any active organization vetoes the routing of every report of a category compatible with one it
  excludes, wherever it is and whatever other organization is responsible; so does the text of a category
  that contains the phrase by which the resolver recognizes exclusions. The report stays in triage.
\<close>

theorem veto_anywhere:
  assumes "distinct (organizations s)" and "vetoes env dto s x"
    and "trim (cr_category dto) \<noteq> []" and "words_of (routingLocationText (create_location dto)) \<noteq> []"
  shows "rs_outcome (resolveReportResponsibility env dto s) = RESTRICTED_OR_CONFLICTED \<and>
    routed_organization (resolveReportResponsibility env dto s) = None \<and>
    r_status (created_report limits env user dto s) = TRIAGE"
proof -
  have "routing_verdict env dto s = (RESTRICTED_OR_CONFLICTED, None)"
    using assms(2-4) by (auto simp: routing_verdict_def)
  then have "rs_outcome (resolveReportResponsibility env dto s) = RESTRICTED_OR_CONFLICTED"
    using resolution_verdict[OF assms(1), of env dto] by simp
  then show ?thesis
    by (simp add: routed_organization_def created_report_def new_report_def Let_def)
qed

definition far_organization :: organization where
  "far_organization = sample_organization\<lparr> o_id := ''org2'', o_state := Some ''Kano'', o_lga := Some ''Nassarawa'',
     o_profileData := Some (JObj [(''excludedCategories'', JArr [JStr ''pothole''])]) \<rparr>"

definition vetoed_db :: db where
  "vetoed_db = intake_db\<lparr> organizations := organizations intake_db @ [far_organization] \<rparr>"

definition leaking_dto :: create_dto where
  "leaking_dto = road_dto\<lparr> cr_category := ''Explicit responsibility exclusion'' \<rparr>"

theorem veto_anywhere_witness:
  "vetoes sample_env road_dto vetoed_db far_organization \<and>
   in_jurisdiction sample_env road_dto vetoed_db far_organization = False \<and>
   cd_eligible (candidate_for sample_env road_dto vetoed_db sample_organization) \<and>
   r_status (created_report sample_limits sample_env (request_user CITIZEN ''c1'') road_dto vetoed_db) = TRIAGE \<and>
   exclusion_list sample_organization = [] \<and>
   r_status (created_report sample_limits sample_env (request_user CITIZEN ''c1'') leaking_dto intake_db) = TRIAGE \<and>
   rs_outcome (resolveReportResponsibility sample_env leaking_dto intake_db) = RESTRICTED_OR_CONFLICTED"
proof -
  have d: "distinct (organizations vetoed_db)" "distinct (organizations intake_db)"
    by (simp_all add: vetoed_db_def intake_db_def sample_db_def far_organization_def sample_organization_def)
  have excluded: "ce_excluded (evidence_for sample_env road_dto vetoed_db far_organization)"
    by code_simp
  have leaks: "phrase_leaks (evidence_for sample_env leaking_dto intake_db sample_organization) (cr_category leaking_dto)"
    by code_simp
  have vetoes: "vetoes sample_env road_dto vetoed_db far_organization"
    "vetoes sample_env leaking_dto intake_db sample_organization"
    using excluded leaks
    by (simp_all add: vetoes_def vetoed_db_def intake_db_def sample_db_def far_organization_def sample_organization_def)
  have texts: "trim (cr_category road_dto) \<noteq> []" "words_of (routingLocationText (create_location road_dto)) \<noteq> []"
    "trim (cr_category leaking_dto) \<noteq> []" "words_of (routingLocationText (create_location leaking_dto)) \<noteq> []"
    by code_simp+
  have "in_jurisdiction sample_env road_dto vetoed_db far_organization = False"
    "cd_eligible (candidate_for sample_env road_dto vetoed_db sample_organization)" "exclusion_list sample_organization = []"
    by code_simp+
  then show ?thesis
    using veto_anywhere[OF d(1) vetoes(1) texts(1,2)] veto_anywhere[OF d(2) vetoes(2) texts(3,4)] vetoes(1) by simp
qed

section \<open>A new report\<close>

definition organization_ids_ok :: "'s tables_scheme \<Rightarrow> bool" where
  "organization_ids_ok s \<longleftrightarrow> distinct (organizations s) \<and> list_all (\<lambda>x. o_id x \<noteq> []) (organizations s)"

lemma verdict_organization:
  assumes "routing_verdict env dto s = (v, Some x)" and "distinct (organizations s)"
  shows "v = HIGH_CONFIDENCE \<and> x \<in> set (organizations s)"
proof -
  have v: "v = HIGH_CONFIDENCE" and one: "card (responsible env dto s) = 1" and x: "x = the_elem (responsible env dto s)"
    using assms(1) by (auto simp: routing_verdict_def split: if_splits)
  obtain y where "responsible env dto s = {y}"
    using one card_1_singletonE by blast
  moreover have "responsible env dto s \<subseteq> set (organizations s)"
    by (auto simp: responsible_def qualifying_def Let_def)
  ultimately show ?thesis using v x by simp
qed

lemma verdict_none: "routing_verdict env dto s = (v, None) \<Longrightarrow> v \<noteq> HIGH_CONFIDENCE"
  by (auto simp: routing_verdict_def split: if_splits)

lemma created_by_verdict:
  assumes "organization_ids_ok s"
  shows "r_status (created_report limits env user dto s) =
      (if fst (routing_verdict env dto s) = HIGH_CONFIDENCE then ORG_REVIEW else TRIAGE) \<and>
    r_assignedOrganizationId (created_report limits env user dto s) = map_option o_id (snd (routing_verdict env dto s))"
proof -
  obtain v w where verdict: "routing_verdict env dto s = (v, w)" by fastforce
  have route: "rs_outcome (resolveReportResponsibility env dto s) = v" "rs_organization (resolveReportResponsibility env dto s) = w"
    using resolution_verdict[of s env dto] assms verdict by (simp_all add: organization_ids_ok_def)
  show ?thesis
  proof (cases w)
    case None
    then show ?thesis
      using route verdict_none[of env dto s v] verdict
      by (simp add: created_report_def new_report_def Let_def routed_organization_def)
  next
    case (Some x)
    then have "v = HIGH_CONFIDENCE" "o_id x \<noteq> []"
      using verdict_organization[of env dto s v x] verdict assms by (auto simp: organization_ids_ok_def list_all_iff)
    then show ?thesis
      using route Some verdict by (simp add: created_report_def new_report_def Let_def routed_organization_def)
  qed
qed

lemma created_owner:
  "r_id (created_report limits env user dto s) = freshId env 0"
  "r_organizationId (created_report limits env user dto s) = the (j_organizationId user)"
  "r_citizenId (created_report limits env user dto s) = the (actor_id user)"
  "r_createdAt (created_report limits env user dto s) = now env"
  "r_assignedProviderId (created_report limits env user dto s) = None"
  "r_status (created_report limits env user dto s) \<in> {ORG_REVIEW, TRIAGE}"
  by (simp_all add: created_report_def new_report_def Let_def)

lemma create_outcome:
  assumes "createReport limits env user dto s = (res, t)"
  shows "if creatable limits env user dto s
    then res = Inr (created_report limits env user dto s, rs_diagnostics (resolveReportResponsibility env dto s)) \<and>
      business t = (business s)\<lparr>reports := reports s @ [created_report limits env user dto s]\<rparr>
    else (\<exists>e. res = Inl e) \<and> t = s"
proof (cases "creatable limits env user dto s")
  case True
  let ?r = "created_report limits env user dto s"
  have "sq (create_effects env user (the (actor_id user)) (geo_metadata_of limits env (create_geo_input dto))
      (resolveReportResponsibility env dto s) ?r) (ret (?r, rs_diagnostics (resolveReportResponsibility env dto s)))
      (s\<lparr>reports := reports s @ [?r]\<rparr>) = (res, t)"
    using createReport_run(1)[OF True] assms by (simp add: Let_def)
  from quiet_tail[OF quiet_create_effects(5) this] show ?thesis
    using True by (simp add: tables.defs)
next
  case False
  then show ?thesis using createReport_run(2)[OF False] assms by auto
qed

text \<open>
  C1: A report is created exactly for an identified citizen of an organization, with an acceptable location and
  within the monthly quota; then exactly one report is added, in the citizen's organization, in review by the
  responsible organization when the verdict names one and in triage otherwise. Otherwise nothing changes.
\<close>

theorem intake_exact:
  assumes "createReport limits env user dto s = (res, t)" and "organization_ids_ok s"
  shows "if creatable limits env user dto s
    then \<exists>r d. res = Inr (r, d) \<and> business t = (business s)\<lparr>reports := reports s @ [r]\<rparr> \<and>
      r_organizationId r = the (j_organizationId user) \<and> r_citizenId r = the (actor_id user) \<and>
      r_status r = (if fst (routing_verdict env dto s) = HIGH_CONFIDENCE then ORG_REVIEW else TRIAGE) \<and>
      r_assignedOrganizationId r = map_option o_id (snd (routing_verdict env dto s))
    else (\<exists>e. res = Inl e) \<and> t = s"
  using create_outcome[OF assms(1)] created_by_verdict[OF assms(2)] created_owner by (auto split: if_splits)

theorem intake_exact_witness:
  "\<exists>r d t. createReport sample_limits sample_env (request_user CITIZEN ''c1'') road_dto intake_db = (Inr (r, d), t) \<and>
     r_assignedOrganizationId r = Some ''org1'' \<and> reports t = [r]"
proof -
  let ?user = "request_user CITIZEN ''c1''"
  obtain res t where run: "createReport sample_limits sample_env ?user road_dto intake_db = (res, t)" by fastforce
  have ids: "organization_ids_ok intake_db"
    by (simp add: organization_ids_ok_def intake_db_def sample_db_def sample_organization_def)
  have ok: "creatable sample_limits sample_env ?user road_dto intake_db" by code_simp
  have rows: "reports intake_db = []" by (simp add: intake_db_def sample_db_def)
  from intake_exact[OF run ids] ok obtain r d where r: "res = Inr (r, d)" "business t = (business intake_db)\<lparr>reports := [r]\<rparr>"
      "r_assignedOrganizationId r = map_option o_id (snd (routing_verdict sample_env road_dto intake_db))"
    using rows by auto
  have "reports t = [r]"
    using arg_cong[OF r(2), of reports] by simp
  moreover have "r_assignedOrganizationId r = Some ''org1''"
    using r(3) by (simp add: sample_verdict sample_organization_def)
  ultimately show ?thesis using run r(1) by auto
qed

lemma month_start_le: "month_start t \<le> t"
proof -
  obtain y m d where civil: "civil_date (t div 86400000) = (y, m, d)" by (metis prod_cases3)
  then have "days_of_civil y m d = t div 86400000" "1 \<le> d"
    using days_of_civil_date[of "t div 86400000"] by simp_all
  moreover have "days_of_civil y m 1 \<le> days_of_civil y m d"
    using \<open>1 \<le> d\<close> by (simp add: days_of_civil_def Let_def)
  ultimately have "month_start t \<le> t div 86400000 * 86400000"
    unfolding month_start_def civil by simp
  also have "\<dots> \<le> t"
    using div_mult_mod_eq[of t 86400000] pos_mod_sign[of 86400000 t] by linarith
  finally show ?thesis .
qed

text \<open>
  C5: A creation never passes the monthly quota of the citizen's organization: it adds one report to the month,
  and the month still has no more than the quota.
\<close>

theorem monthly_quota_bound:
  assumes "createReport limits env user dto s = (Inr x, t)" and "j_organizationId user = Some i"
    and "find_organization i s = Some org" and "o_allowedReportsPerMonth org = Some quota"
  shows "reports_since i (month_start (now env)) t = reports_since i (month_start (now env)) s + 1 \<and>
    int (reports_since i (month_start (now env)) t) \<le> quota"
proof -
  let ?r = "created_report limits env user dto s"
  have ok: "creatable limits env user dto s" and after: "business t = (business s)\<lparr>reports := reports s @ [?r]\<rparr>"
    using create_outcome[OF assms(1)] by (auto split: if_splits)
  have "reports t = reports s @ [?r]"
    using arg_cong[OF after, of reports] by simp
  then have one: "reports_since i (month_start (now env)) t = reports_since i (month_start (now env)) s + 1"
    using assms(2) month_start_le[of "now env"] by (simp add: reports_since_def created_owner)
  have "int (reports_since i (month_start (now env)) s) < quota"
    using ok assms(2-4) by (simp add: creatable_def within_quota_def)
  with one show ?thesis by simp
qed

definition quota_db :: db where
  "quota_db = intake_db\<lparr> organizations := [sample_organization\<lparr>o_allowedReportsPerMonth := Some 1\<rparr>] \<rparr>"

theorem monthly_quota_bound_witness:
  "\<exists>x t. createReport sample_limits sample_env (request_user CITIZEN ''c1'') road_dto quota_db = (Inr x, t) \<and>
     reports_since ''org1'' (month_start (now sample_env)) t = 1"
proof -
  let ?user = "request_user CITIZEN ''c1''"
  obtain res t where run: "createReport sample_limits sample_env ?user road_dto quota_db = (res, t)" by fastforce
  have "creatable sample_limits sample_env ?user road_dto quota_db" by code_simp
  then obtain x where x: "res = Inr x"
    using create_outcome[OF run] by auto
  have "find_organization ''org1'' quota_db = Some (sample_organization\<lparr>o_allowedReportsPerMonth := Some 1\<rparr>)"
    by code_simp
  moreover have "reports_since ''org1'' (month_start (now sample_env)) quota_db = 0" by code_simp
  ultimately show ?thesis
    using monthly_quota_bound[OF run[unfolded x]] run x by (simp add: request_user_def)
qed

section \<open>From intake to dispatch\<close>

lemma accept_runs:
  assumes "find_report i s = Some r" and "r_status r = ORG_REVIEW" and "r_assignedOrganizationId r = Some x"
    and "j_role user \<in> {ORG_ADMIN, DISPATCH_OFFICER}" and "j_organizationId user = Some x" and "x \<noteq> []"
  shows "\<exists>t. acceptOrganizationReport env i nt user s = (Inr (accept_data env x r), t) \<and>
    business t = put_report i (accept_data env x) (business s)"
proof -
  have operator: "\<not> (\<not> isAdmin user \<and> \<not> isDispatch user)"
    using assms(4) by (auto simp: role_defs)
  have "acceptOrganizationReport env i nt user s =
      bnd (update_report i (accept_data env x)) (\<lambda>updated. sq (accept_effects env i nt x user r updated) (ret updated)) s"
    using assms(1-3,5,6) operator
    by (simp add: acceptOrganizationReport_def intake_operator_def intake_report_def requireUserOrganizationId_def
        assertAwaitingDecision_def guard_runs bnd_assoc)
  moreover obtain res t where
    run: "bnd (update_report i (accept_data env x)) (\<lambda>updated. sq (accept_effects env i nt x user r updated) (ret updated)) s = (res, t)"
    by fastforce
  ultimately show ?thesis
    using update_effects_run[OF run assms(1) quiet_intake_effects(1)] by simp
qed

lemma sample_intake_run:
  "\<exists>r d t. createReport sample_limits sample_env (request_user CITIZEN ''c1'') road_dto intake_db = (Inr (r, d), t) \<and>
     r_status r = ORG_REVIEW \<and> r_assignedOrganizationId r = Some ''org1'' \<and> reports t = [r]"
proof -
  let ?user = "request_user CITIZEN ''c1''"
  have ids: "organization_ids_ok intake_db"
    by (simp add: organization_ids_ok_def intake_db_def sample_db_def sample_organization_def)
  have ok: "creatable sample_limits sample_env ?user road_dto intake_db" by code_simp
  obtain res t where run: "createReport sample_limits sample_env ?user road_dto intake_db = (res, t)" by fastforce
  let ?r = "created_report sample_limits sample_env ?user road_dto intake_db"
  have after: "res = Inr (?r, rs_diagnostics (resolveReportResponsibility sample_env road_dto intake_db))"
      "business t = (business intake_db)\<lparr>reports := reports intake_db @ [?r]\<rparr>"
    using create_outcome[OF run] ok by simp_all
  have "reports t = [?r]"
    using arg_cong[OF after(2), of reports] by (simp add: intake_db_def sample_db_def)
  moreover have "r_status ?r = ORG_REVIEW" "r_assignedOrganizationId ?r = Some ''org1''"
    using created_by_verdict[OF ids, of sample_limits sample_env ?user road_dto]
    by (simp_all add: sample_verdict sample_organization_def)
  ultimately show ?thesis using run after(1) by auto
qed

text \<open>
  A matched report reaches dispatch: when its creation names a responsible organization, any operator of that
  organization can accept it at once, and it is then pending in the queue of that organization.
\<close>

theorem matched_report_reaches_dispatch:
  assumes "createReport limits env user dto s = (Inr (r, d), t)" and "organization_ids_ok s"
    and "r_assignedOrganizationId r = Some x"
    and "j_role operator \<in> {ORG_ADMIN, DISPATCH_OFFICER}" and "j_organizationId operator = Some x"
  shows "\<exists>r' u. acceptOrganizationReport env' (r_id r) nt operator t = (Inr r', u) \<and> find_report (r_id r) u = Some r' \<and>
    r_status r' = PENDING \<and> r_organizationId r' = x \<and> r_assignedOrganizationId r' = Some x \<and> r_citizenId r' = r_citizenId r"
proof -
  have ok: "creatable limits env user dto s" and r: "r = created_report limits env user dto s"
    and after: "business t = (business s)\<lparr>reports := reports s @ [r]\<rparr>"
    using create_outcome[OF assms(1)] by (auto split: if_splits)
  have verdict: "map_option o_id (snd (routing_verdict env dto s)) = Some x"
    using created_by_verdict[OF assms(2), of limits env user dto] assms(3) r by simp
  then obtain v y where y: "routing_verdict env dto s = (v, Some y)" "o_id y = x"
    by (cases "routing_verdict env dto s") auto
  have "v = HIGH_CONFIDENCE" "x \<noteq> []"
    using verdict_organization[OF y(1)] assms(2) y(2) by (auto simp: organization_ids_ok_def list_all_iff)
  then have status: "r_status r = ORG_REVIEW"
    using created_by_verdict[OF assms(2), of limits env user dto] y(1) r by simp
  have "reports t = reports s @ [r]"
    using arg_cong[OF after, of reports] by simp
  moreover have "find_report (r_id r) s = None"
    using ok r by (simp add: creatable_def created_owner)
  ultimately have found: "find_report (r_id r) t = Some r"
    using find_append_fresh[of "reports s" r_id r] by (simp add: find_report_def row_find_def find_None_iff)
  obtain u where u: "acceptOrganizationReport env' (r_id r) nt operator t = (Inr (accept_data env' x r), u)"
      "business u = put_report (r_id r) (accept_data env' x) (business t)"
    using accept_runs[OF found status assms(3,4,5) \<open>x \<noteq> []\<close>] by blast
  have "find_report (r_id r) u = Some (accept_data env' x r)"
    using accept.result_stored[of "(env', r_id r, nt, operator)" t "accept_data env' x r" u] u(1) by simp
  then show ?thesis
    using u(1) assms(3) by (simp add: accept_data_def)
qed

theorem matched_report_reaches_dispatch_witness:
  "\<exists>r d t r' u. createReport sample_limits sample_env (request_user CITIZEN ''c1'') road_dto intake_db = (Inr (r, d), t) \<and>
     acceptOrganizationReport sample_env (r_id r) None (request_user ORG_ADMIN ''a1'') t = (Inr r', u) \<and>
     r_status r' = PENDING \<and> r_organizationId r' = ''org1''"
proof -
  obtain r d t where run: "createReport sample_limits sample_env (request_user CITIZEN ''c1'') road_dto intake_db = (Inr (r, d), t)"
      "r_assignedOrganizationId r = Some ''org1''"
    using sample_intake_run by blast
  have "organization_ids_ok intake_db"
    by (simp add: organization_ids_ok_def intake_db_def sample_db_def sample_organization_def)
  then show ?thesis
    using matched_report_reaches_dispatch[OF run(1) _ run(2), of "request_user ORG_ADMIN ''a1''" sample_env None] run(1)
    by (auto simp: request_user_def)
qed

section \<open>Every report of the platform\<close>

text \<open>Histories in which citizens create reports while the other requests run.\<close>

inductive intake_history :: "(request \<Rightarrow> report \<Rightarrow> bool) \<Rightarrow> db \<Rightarrow> db \<Rightarrow> bool" for allowed s0 where
  begins: "intake_history allowed s0 s0"
| requested: "intake_history allowed s0 s \<Longrightarrow> authenticated req \<Longrightarrow> \<forall>r\<in>set (reports s). allowed req r \<Longrightarrow>
    perform env req s = (res, t) \<Longrightarrow> intake_history allowed s0 t"
| created: "intake_history allowed s0 s \<Longrightarrow> createReport limits env user dto s = (res, t) \<Longrightarrow>
    intake_history allowed s0 t"

lemma create_rows:
  assumes "createReport limits env user dto s = (res, t)"
  shows "reports t = reports s \<or>
    find_report (freshId env 0) s = None \<and> reports t = reports s @ [created_report limits env user dto s]"
proof (cases "creatable limits env user dto s")
  case True
  then have "business t = (business s)\<lparr>reports := reports s @ [created_report limits env user dto s]\<rparr>"
    using create_outcome[OF assms] by simp
  from arg_cong[OF this, of reports] show ?thesis
    using True by (simp add: creatable_def)
next
  case False
  then show ?thesis using create_outcome[OF assms] by simp
qed

locale intake_invariant = row_invariant I allowed for I :: "report \<Rightarrow> bool" and allowed +
  assumes new: "I (created_report limits env user dto (s :: db))"
begin

lemma holds_with_intake:
  assumes "intake_history allowed s0 t" and "reports s0 = []"
  shows "report_ids_ok t \<and> (\<forall>r\<in>set (reports t). I r)"
  using assms(1)
proof (induction rule: intake_history.induct)
  case begins
  then show ?case using assms(2) by (simp add: report_ids_ok_def)
next
  case (requested s req env res t)
  have run: "perform env req s = (res, t)" and auth: "authenticated req" by fact+
  have "I r'" if "r' \<in> set (reports t)" for r'
    using life.row_history[of "(env, req)" s res t r'] run auth that requested.IH requested.hyps(3) kept by auto
  moreover have "report_ids_ok t"
    using life.ids_ok[of "(env, req)" s res t] run auth requested.IH by simp
  ultimately show ?case by blast
next
  case (created s limits env user dto res t)
  have "createReport limits env user dto s = (res, t)" by fact
  from create_rows[OF this] show ?case
    using created.IH new
    by (fastforce simp: report_ids_ok_def find_report_def row_find_def find_None_iff created_owner)
qed

end

interpretation accountable: intake_invariant
  "\<lambda>r. provider_matches_status r \<and> closure_recorded r"
  "\<lambda>req r. governed_in_work req r \<and> closes_through_review req r"
proof (unfold_locales, goal_cases)
  case (1 env s req r r')
  then show ?case using row_step_provider row_step_recorded by blast
next
  case (2 limits env user dto s)
  have "r_status (created_report limits env user dto s) \<in> {ORG_REVIEW, TRIAGE}" by (rule created_owner(6))
  then show ?case by (auto simp: provider_matches_status_def closure_recorded_def created_owner(5))
qed

text \<open>
  C3: Along every history of a platform that starts without reports, in which governance resolves and returns only
  reports in work and operators close only through the review: report ids are unique, a report has a provider
  exactly from its assignment to its closure, and every closed report is in the closed review state with the time
  of its finalization and the role behind it.
\<close>

theorem reports_accounted_for:
  assumes "intake_history (\<lambda>req r. governed_in_work req r \<and> closes_through_review req r) s t" and "reports s = []"
  shows "report_ids_ok t \<and> list_all (\<lambda>r. provider_matches_status r \<and> closure_recorded r) (reports t)"
  using accountable.holds_with_intake[OF assms] by (simp add: list_all_iff)

theorem reports_accounted_for_witness:
  "\<exists>t :: db. report_ids_ok t \<and> map r_status (reports t) = [PENDING] \<and>
     list_all (\<lambda>r. provider_matches_status r \<and> closure_recorded r) (reports t)"
proof -
  let ?ok = "\<lambda>req r. governed_in_work req r \<and> closes_through_review req r"
  let ?operator = "request_user ORG_ADMIN ''a1''"
  obtain r d t where run: "createReport sample_limits sample_env (request_user CITIZEN ''c1'') road_dto intake_db = (Inr (r, d), t)"
      and r: "r_status r = ORG_REVIEW" "r_assignedOrganizationId r = Some ''org1''" "reports t = [r]"
    using sample_intake_run by blast
  have "find_report (r_id r) t = Some r"
    using r(3) by (simp add: find_report_def row_find_def)
  then obtain u where u: "acceptOrganizationReport sample_env (r_id r) None ?operator t = (Inr (accept_data sample_env ''org1'' r), u)"
      "business u = put_report (r_id r) (accept_data sample_env ''org1'') (business t)"
    using accept_runs[OF _ r(1,2), of "r_id r" t ?operator sample_env None] by (auto simp: request_user_def)
  have "reports intake_db = []" by (simp add: intake_db_def sample_db_def)
  have perform: "perform sample_env (Accept_report (r_id r) None ?operator) t = (Inr (), u)"
    using u(1) by (simp add: discard_def)
  have "intake_history ?ok intake_db u"
    by (rule requested[OF created[OF begins run] _ _ perform]) (simp_all add: authenticated_def has_user_id_def request_user_def actor_id_def)
  note invariant = reports_accounted_for[OF this \<open>reports intake_db = []\<close>]
  have "reports u = [accept_data sample_env ''org1'' r]"
    using arg_cong[OF u(2), of reports] r(3) by (simp add: reports_put_report)
  then have status: "map r_status (reports u) = [PENDING]"
    by (simp add: accept_data_def)
  show ?thesis
    by (rule exI[of _ u], rule conjI[OF invariant[THEN conjunct1] conjI[OF status invariant[THEN conjunct2]]])
qed

section \<open>Paying ends routing\<close>

lemma catalog_modules: "plan \<in> set (paymentPlanCatalog env) \<Longrightarrow> pe_enabledModules (pl_entitlements plan) = maintenanceOnlyModules"
  by (auto simp: paymentPlanCatalog_def)

lemma paid_not_operational:
  assumes "plan \<in> set (paymentPlanCatalog env)"
  shows "\<not> operational (entitled_data env plan org)"
  using catalog_modules[OF assms]
  by (simp add: operational_def entitled_data_def Let_def maintenanceModuleEnabled_def maintenanceOnlyModules_def)

text \<open>
  C6: An organization that pays is no longer eligible: the modules a payment stores do not name maintenance as the
  resolver looks for it, so from then on every report in its jurisdiction and of its categories finds it not ready.
\<close>

theorem paying_ends_routing:
  assumes "fulfillPayment env t trusted event s = (Inr row, u)" and "find_transaction (t_id t) s = Some t"
  shows "\<exists>org. find_organization (t_organizationId t) u = Some org \<and> o_billingStatus org = B_ACTIVE \<and>
    cd_eligible (serializeOrganizationCandidate env' (profile_of u org) category rep) = False"
proof -
  obtain plan org where plan: "plan \<in> set (paymentPlanCatalog env)" and org: "find_organization (t_organizationId t) s = Some org"
    and after: "business u = fulfilled env plan org t trusted event (business s)"
    using fulfillPayment_InrD[OF assms] by blast
  have "organizations u = upd_rows (\<lambda>r. o_id r = t_organizationId t) (entitled_data env plan) (organizations s)"
    using arg_cong[OF after, of organizations] by (simp add: fulfilled_def Let_def)
  then have "find_organization (t_organizationId t) u = Some (entitled_data env plan org)"
    using org unfolding find_organization_def row_find_def
    by (simp add: find_upd_rows_same entitled_data_def Let_def)
  moreover have "o_billingStatus (entitled_data env plan org) = B_ACTIVE"
    by (simp add: entitled_data_def Let_def)
  ultimately show ?thesis
    using paid_not_operational[OF plan, of org] by (auto simp: eligible_conditions)
qed

theorem paying_ends_routing_witness:
  "\<exists>row u org. fulfillPayment live_env (hd (paymentTransactions started_db)) sample_statement None started_db = (Inr row, u) \<and>
     find_organization ''org1'' u = Some org \<and> o_billingStatus org = B_ACTIVE \<and>
     maintenanceModuleEnabled (o_enabledModules sample_organization) \<and>
     cd_eligible (serializeOrganizationCandidate sample_env (profile_of u org) (cr_category road_dto)
       (create_location road_dto)) = False"
proof -
  let ?t = "hd (paymentTransactions started_db)"
  have "succeeds (fulfillPayment live_env ?t sample_statement None) started_db" by code_simp
  then obtain row u where run: "fulfillPayment live_env ?t sample_statement None started_db = (Inr row, u)" by (rule succeedsE)
  have "find_transaction (t_id ?t) started_db = Some ?t" "t_organizationId ?t = ''org1''"
    "maintenanceModuleEnabled (o_enabledModules sample_organization)"
    by code_simp+
  then show ?thesis
    using paying_ends_routing[OF run, of sample_env] run by auto
qed

end
