(* ===== verification/Users.thy ===== *)
theory Users imports Internal_Admin Assignment begin

text \<open>
  The administration of user accounts (\<open>users/users.service.ts\<close>, lines 312-516 and 1059-1163,
  1571-1650): who an administrator may touch, edits of a profile, suspension, the decision on provider
  requests, and the quotas of an organization. The lists and the discovery of providers (lines 37-195 and
  1196-1531) only read and are not modelled; the reset of a password is an operation of authentication.
  Replies are the row the source projects.
\<close>

section \<open>Reading the input\<close>

text \<open>
  The body of a request is an arbitrary JSON object. \<open>String(value)\<close> differs from \<open>json_text\<close> on
  null only.
\<close>

type_synonym payload = "(string \<times> json) list"

definition text_field :: "string \<Rightarrow> payload \<Rightarrow> string option" where
  "text_field k dto = (case map_of dto k of Some (JStr t) \<Rightarrow> Some t | _ \<Rightarrow> None)"

definition js_String :: "json \<Rightarrow> string" where
  "js_String j = (if j = JNull then ''null'' else json_text j)"

definition all_user_roles :: "user_role list" where
  "all_user_roles = [PLATFORM_SUPER_ADMIN, PLATFORM_OWNER, EXECUTIVE_SUPER_ADMIN, TECHNICAL_ADMIN, OPERATIONS_ADMIN,
     ORGANIZATION_ONBOARDING_ADMIN, PROVIDER_ADMIN, FINANCE_BILLING_ADMIN, BILLING_ADMIN, LEGAL_ADMIN, ASSIGNMENT_ADMIN,
     ASSET_ADMIN, ASSET_INTELLIGENCE_ADMIN, COMPLIANCE_ADMIN, COMPLIANCE_AUDIT_ADMIN, REGULATORY_ADMIN, SECURITY_ADMIN,
     INVESTIGATION_ADMIN, RELEASE_OPERATIONS_ADMIN, BACKUP_RECOVERY_ADMIN, SUPPORT_ADMIN, SUPER_ADMIN, ORG_ADMIN,
     DISPATCH_OFFICER, PROVIDER, PENDING_PROVIDER, CITIZEN]"

definition role_named :: "string \<Rightarrow> user_role option" where
  "role_named t = find (\<lambda>r. user_role_name r = t) all_user_roles"

definition all_plans :: "subscription_plan list" where
  "all_plans = [FREE, DEMO, STARTER, PROFESSIONAL, GOVERNMENT, ENTERPRISE]"

definition plan_named :: "string \<Rightarrow> subscription_plan option" where
  "plan_named t = find (\<lambda>p. subscription_plan_name p = t) all_plans"

definition profileEmail :: "string \<Rightarrow> ('s, string option) svc" where
  "profileEmail value =
     (let email = trim (toLowerCase value) in
      if email = [] then ret None
      else sq (throw_if (\<not> email_shape email) (BadRequest ''Enter a valid email address'')) (ret (Some email)))"

section \<open>Recording\<close>

definition user_audit :: "string \<Rightarrow> jwt_user \<Rightarrow> (string \<times> json) list \<Rightarrow> unit handler" where
  "user_audit action user metadata =
     (case nonempty (actor_id user) of
        None \<Rightarrow> ret ()
      | Some i \<Rightarrow> modify (demoAuditLogs_update (\<lambda>rows. rows @
          [\<lparr> d_action = action, d_actorUserId = i, d_metadata = metadata \<rparr>])))"

lemma quiet_user_audit [quiet_rules]: "quiet business (user_audit action user metadata)"
  unfolding user_audit_def by (intro quiet_rules quiet_log)

definition user_notice :: "string \<Rightarrow> string \<Rightarrow> string \<Rightarrow> string \<Rightarrow> unit handler" where
  "user_notice userId type title message =
     modify (notifications_update (\<lambda>rows. rows @
       [\<lparr> n_userId = userId, n_reportId = None, n_type = type, n_title = title, n_message = message \<rparr>]))"

lemma quiet_user_notice [quiet_rules]: "quiet business (user_notice userId type title message)"
  unfolding user_notice_def by (rule quiet_log)

section \<open>Scope\<close>

text \<open>The users an administrator may touch: all of them for a super admin, otherwise those of the organization
  and the providers with an active membership of it.\<close>

definition in_scope :: "jwt_user \<Rightarrow> 's tables_scheme \<Rightarrow> user \<Rightarrow> bool" where
  "in_scope user s u \<longleftrightarrow>
     j_role user = SUPER_ADMIN \<or>
     (case j_organizationId user of
        None \<Rightarrow> False
      | Some x \<Rightarrow> u_organizationId u = Some x \<or> u_role u = PROVIDER \<and> linked_to (u_id u) x s)"

definition buildAdminScope :: "jwt_user \<Rightarrow> ('s, unit) svc" where
  "buildAdminScope user =
     sq (throw_if (j_role user \<notin> {SUPER_ADMIN, ORG_ADMIN, DISPATCH_OFFICER}) (Forbidden ''Not allowed''))
        (throw_if (j_role user \<noteq> SUPER_ADMIN \<and> \<not> truthy (j_organizationId user)) (Forbidden ''No organization assigned''))"

definition getUser :: "string \<Rightarrow> jwt_user \<Rightarrow> user handler" where
  "getUser i user =
     sq (buildAdminScope user)
    (bnd (gets (\<lambda>s. find (\<lambda>u. u_id u = i \<and> in_scope user s u) (users s))) (\<lambda>found.
       require (Forbidden ''User not found in your scope'') found))"

lemma reads_getUser [reads_rules]: "reads (getUser i user)"
  unfolding getUser_def buildAdminScope_def by (intro reads_rules)

section \<open>Editing a profile\<close>

text \<open>
  The database client refuses a connection to an organization that does not exist, a value outside an
  enumeration, and a second row with the same phone or provider id.
\<close>

definition taken :: "(user \<Rightarrow> string option) \<Rightarrow> string \<Rightarrow> string option \<Rightarrow> 's tables_scheme \<Rightarrow> bool" where
  "taken column i value s \<longleftrightarrow> value \<noteq> None \<and> list_ex (\<lambda>u. u_id u \<noteq> i \<and> column u = value) (users s)"

definition string_items :: "string \<Rightarrow> payload \<Rightarrow> json option" where
  "string_items k dto =
     (case map_of dto k of Some (JArr xs) \<Rightarrow> Some (JArr (map (JStr \<circ> js_String) xs)) | _ \<Rightarrow> None)"

text \<open>The email part of an edit: the new address and whether the edit has one.\<close>

definition edited_email :: "string \<Rightarrow> payload \<Rightarrow> user \<Rightarrow> string option option handler" where
  "edited_email i dto existing =
     (case text_field ''email'' dto of
        None \<Rightarrow> ret None
      | Some value \<Rightarrow>
          if u_role existing \<noteq> PROVIDER then ret None
          else bnd (profileEmail value) (\<lambda>email.
               sq (case email of
                     None \<Rightarrow> ret ()
                   | Some e \<Rightarrow> bnd (gets (\<lambda>s. find (\<lambda>u. u_email u = Some e) (users s))) (\<lambda>duplicate.
                       throw_if (case duplicate of None \<Rightarrow> False | Some d \<Rightarrow> u_id d \<noteq> i)
                         (Conflict ''IDENTITY_EMAIL_CONFLICT'')))
                  (ret (Some email))))"

definition edit_email :: "string option \<Rightarrow> user \<Rightarrow> user" where
  "edit_email email u =
     (case email of
        None \<Rightarrow> u\<lparr> u_email := None, u_emailVerifiedAt := None \<rparr>
      | Some e \<Rightarrow> u\<lparr> u_email := Some e, u_emailVerifiedAt := None, u_identityVerificationStatus := IS_UNVERIFIED \<rparr>)"

definition edited_role :: "payload \<Rightarrow> jwt_user \<Rightarrow> user_role option handler" where
  "edited_role dto user =
     (case (text_field ''role'' dto, j_role user = SUPER_ADMIN) of
        (Some t, True) \<Rightarrow> bnd (require (PrismaError ''validation'') (role_named t)) (\<lambda>r. ret (Some r))
      | _ \<Rightarrow> ret None)"

definition edited_plan :: "payload \<Rightarrow> user \<Rightarrow> subscription_plan option handler" where
  "edited_plan dto existing =
     (case (text_field ''subscriptionPlan'' dto, u_role existing = PROVIDER) of
        (Some t, True) \<Rightarrow> bnd (require (PrismaError ''validation'') (plan_named t)) (\<lambda>p. ret (Some p))
      | _ \<Rightarrow> ret None)"

definition edited_organization :: "payload \<Rightarrow> jwt_user \<Rightarrow> string option option" where
  "edited_organization dto user =
     (if j_role user = SUPER_ADMIN then map_option (\<lambda>t. nonempty (Some (trim t))) (text_field ''organizationId'' dto)
      else None)"

definition profile_edit ::
    "payload \<Rightarrow> jwt_user \<Rightarrow> user \<Rightarrow> string option option \<Rightarrow> user_role option \<Rightarrow> subscription_plan option \<Rightarrow> user \<Rightarrow> user" where
  "profile_edit dto user existing email role plan u =
     (let u1 = (case text_field ''phone'' dto of None \<Rightarrow> u | Some t \<Rightarrow> u\<lparr> u_phone := nonempty (Some (trim t)) \<rparr>);
          u2 = (case email of None \<Rightarrow> u1 | Some e \<Rightarrow> edit_email e u1);
          u3 = (case trimmed (text_field ''fullName'' dto) of None \<Rightarrow> u2 | Some n \<Rightarrow> u2\<lparr> u_fullName := n \<rparr>);
          u4 = (case edited_organization dto user of None \<Rightarrow> u3 | Some x \<Rightarrow> u3\<lparr> u_organizationId := x \<rparr>);
          u5 = (case role of None \<Rightarrow> u4 | Some r \<Rightarrow> u4\<lparr> u_role := r \<rparr>);
          u6 = (case (text_field ''providerId'' dto, u_role existing = PROVIDER) of
                  (Some t, True) \<Rightarrow> u5\<lparr> u_providerId := nonempty (Some (trim t)) \<rparr>
                | _ \<Rightarrow> u5);
          u7 = (case string_items ''serviceCategories'' dto of None \<Rightarrow> u6 | Some j \<Rightarrow> u6\<lparr> u_serviceCategories := Some j \<rparr>);
          u8 = (case string_items ''coverageAreas'' dto of None \<Rightarrow> u7 | Some j \<Rightarrow> u7\<lparr> u_coverageAreas := Some j \<rparr>)
      in (case plan of None \<Rightarrow> u8 | Some p \<Rightarrow> u8\<lparr> u_subscriptionPlan := Some p \<rparr>))"

text \<open>The client's own checks of the edited row, before it writes.\<close>

definition edit_constraints :: "string \<Rightarrow> payload \<Rightarrow> jwt_user \<Rightarrow> user \<Rightarrow> user \<Rightarrow> (db, unit) svc" where
  "edit_constraints i dto user existing edited =
     bnd (gets (\<lambda>s. text_field ''phone'' dto \<noteq> None \<and> taken u_phone i (u_phone edited) s \<or>
                    text_field ''providerId'' dto \<noteq> None \<and> u_role existing = PROVIDER \<and>
                      taken u_providerId i (u_providerId edited) s)) (\<lambda>duplicate.
     sq (throw_if duplicate (PrismaError ''P2002''))
    (case edited_organization dto user of
       Some (Some x) \<Rightarrow> bnd (gets (find_organization x)) (\<lambda>found. throw_if (found = None) (PrismaError ''P2025''))
     | _ \<Rightarrow> ret ()))"

definition edit_keys :: "payload \<Rightarrow> jwt_user \<Rightarrow> user \<Rightarrow> string option option \<Rightarrow> string list" where
  "edit_keys dto user existing email =
     (let key_if = (\<lambda>c k. if c then [k] else []) in
      key_if (text_field ''phone'' dto \<noteq> None) ''phone'' @
      (case email of None \<Rightarrow> [] | Some None \<Rightarrow> [''email'', ''emailVerifiedAt'']
       | Some (Some e) \<Rightarrow> [''email'', ''emailVerifiedAt'', ''identityVerificationStatus'']) @
      key_if (trimmed (text_field ''fullName'' dto) \<noteq> None) ''fullName'' @
      key_if (edited_organization dto user \<noteq> None) ''organization'' @
      key_if (text_field ''role'' dto \<noteq> None \<and> j_role user = SUPER_ADMIN) ''role'' @
      key_if (text_field ''providerId'' dto \<noteq> None \<and> u_role existing = PROVIDER) ''providerId'' @
      key_if (string_items ''serviceCategories'' dto \<noteq> None) ''serviceCategories'' @
      key_if (string_items ''coverageAreas'' dto \<noteq> None) ''coverageAreas'' @
      key_if (text_field ''subscriptionPlan'' dto \<noteq> None \<and> u_role existing = PROVIDER) ''subscriptionPlan'')"

definition updateUser :: "string \<Rightarrow> payload \<Rightarrow> jwt_user \<Rightarrow> user handler" where
  "updateUser i dto user =
     bnd (getUser i user) (\<lambda>existing.
     sq (throw_if (j_role user \<noteq> SUPER_ADMIN \<and> u_role existing = SUPER_ADMIN)
           (Forbidden ''Only Super Admin can edit Super Admin users''))
    (bnd (edited_email i dto existing) (\<lambda>email.
     bnd (edited_role dto user) (\<lambda>role.
     bnd (edited_plan dto existing) (\<lambda>plan.
     sq (edit_constraints i dto user existing (profile_edit dto user existing email role plan existing))
    (bnd (update_user i (profile_edit dto user existing email role plan)) (\<lambda>updated.
     sq (user_audit (if u_role existing = PROVIDER then ''Provider Profile Updated'' else ''User Profile Updated'') user
           [(''targetUserId'', JStr i), (''changes'', JArr (map JStr (edit_keys dto user existing email)))])
        (ret updated))))))))"

section \<open>Suspension\<close>

definition setUserStatus :: "string \<Rightarrow> account_status \<Rightarrow> jwt_user \<Rightarrow> user handler" where
  "setUserStatus i status user =
     sq (throw_if (actor_id user = Some i) (Forbidden ''You cannot suspend or activate yourself''))
    (bnd (getUser i user) (\<lambda>existing.
     sq (throw_if (j_role user \<noteq> SUPER_ADMIN \<and> u_role existing = SUPER_ADMIN)
           (Forbidden ''Only Super Admin can manage Super Admin users''))
    (sq (if u_role existing = SUPER_ADMIN \<and> status \<noteq> ACTIVE
         then bnd (gets (\<lambda>s. length (filter (\<lambda>u. u_role u = SUPER_ADMIN \<and> u_accountStatus u = ACTIVE \<and> u_id u \<noteq> i) (users s))))
           (\<lambda>activeSuperAdmins. throw_if (activeSuperAdmins = 0) (Forbidden ''Cannot deactivate the final active Super Admin''))
         else ret ())
    (bnd (update_user i (\<lambda>u. u\<lparr> u_accountStatus := status \<rparr>)) (\<lambda>updated.
     sq (user_audit
           (if status = SUSPENDED
            then (if u_role existing = PROVIDER then ''Provider Suspended'' else ''User Suspended'')
            else (if u_role existing = PROVIDER then ''Provider Activated'' else ''User Activated''))
           user [(''targetUserId'', JStr i), (''role'', jrole (u_role existing))])
        (ret updated))))))"

definition resendUserInvitation :: "string \<Rightarrow> jwt_user \<Rightarrow> user handler" where
  "resendUserInvitation i user =
     bnd (getUser i user) (\<lambda>existing.
     sq (throw_if (u_role existing = SUPER_ADMIN \<and> j_role user \<noteq> SUPER_ADMIN)
           (Forbidden ''Only Super Admin can invite Super Admin users''))
    (sq (user_audit ''User Invitation Resent'' user
           [(''targetUserId'', JStr i), (''role'', jrole (u_role existing)), (''email'', jopt JStr (u_email existing)),
            (''phone'', jopt JStr (u_phone existing))])
        (ret existing)))"

section \<open>Provider memberships and requests\<close>

definition find_membership :: "string \<Rightarrow> string \<Rightarrow> 's tables_scheme \<Rightarrow> provider_link option" where
  "find_membership providerId organizationId s =
     find (\<lambda>l. l_providerId l = providerId \<and> l_organizationId l = organizationId) (providerOrganizations s)"

definition upsert_membership :: "string \<Rightarrow> string \<Rightarrow> bool \<Rightarrow> ('s tables_scheme, unit) svc" where
  "upsert_membership providerId organizationId primary =
     bnd (gets (find_membership providerId organizationId)) (\<lambda>existing.
     case existing of
       Some l \<Rightarrow> modify (providerOrganizations_update
         (upd_rows (\<lambda>l. l_providerId l = providerId \<and> l_organizationId l = organizationId)
            (\<lambda>l. l\<lparr> l_active := True, l_isPrimary := primary \<rparr>)))
     | None \<Rightarrow> modify (providerOrganizations_update (\<lambda>rows. rows @
         [\<lparr> l_providerId = providerId, l_organizationId = organizationId, l_isPrimary = primary, l_active = True \<rparr>])))"

text \<open>The generated provider id takes six digits of the runtime's random bytes for those of the UUID.\<close>

definition generated_provider_id :: "env \<Rightarrow> string" where
  "generated_provider_id env =
     ''PRV-'' @ (case civil_date (now env div 86400000) of (y, m, d) \<Rightarrow> int_text y) @ ''-'' @
     toUpperCase (take 6 (randomHex env))"

definition approved_provider :: "env \<Rightarrow> string \<Rightarrow> user \<Rightarrow> user" where
  "approved_provider env providerId u =
     u\<lparr> u_role := PROVIDER, u_accountStatus := ACTIVE, u_providerId := Some providerId,
        u_subscriptionPlan := Some (or_else (u_subscriptionPlan u) FREE) \<rparr>"

definition approveProviderRequest :: "env \<Rightarrow> string \<Rightarrow> jwt_user \<Rightarrow> user handler" where
  "approveProviderRequest env i user =
     bnd (getUser i user) (\<lambda>existing.
     sq (throw_if (u_role existing \<noteq> PENDING_PROVIDER) (Forbidden ''User is not a pending provider request''))
    (let providerId = or_else (u_providerId existing) (generated_provider_id env) in
     bnd (update_user i (approved_provider env providerId)) (\<lambda>updated.
     sq (case nonempty (u_organizationId updated) of
           None \<Rightarrow> ret ()
         | Some x \<Rightarrow> upsert_membership (u_id updated) x True)
    (sq (user_audit ''Provider Request Approved'' user [(''targetUserId'', JStr i), (''providerId'', JStr providerId)])
        (ret updated)))))"

definition rejectProviderRequest :: "string \<Rightarrow> jwt_user \<Rightarrow> user handler" where
  "rejectProviderRequest i user =
     bnd (getUser i user) (\<lambda>existing.
     sq (throw_if (u_role existing \<noteq> PENDING_PROVIDER) (Forbidden ''User is not a pending provider request''))
    (bnd (update_user i (\<lambda>u. u\<lparr> u_accountStatus := DEACTIVATED \<rparr>)) (\<lambda>updated.
     sq (user_audit ''Provider Request Rejected'' user [(''targetUserId'', JStr i)])
        (ret updated))))"

section \<open>Quotas\<close>

definition organization_users :: "string \<Rightarrow> 's tables_scheme \<Rightarrow> user list" where
  "organization_users x s = filter (\<lambda>u. u_organizationId u = Some x) (users s)"

definition organization_providers :: "string \<Rightarrow> 's tables_scheme \<Rightarrow> user list" where
  "organization_providers x s = filter (\<lambda>u. u_role u = PROVIDER \<and> belongs_to u x s) (users s)"

definition within_limit :: "int option \<Rightarrow> nat \<Rightarrow> bool" where
  "within_limit limit n \<longleftrightarrow> (case limit of None \<Rightarrow> True | Some q \<Rightarrow> int n < q)"

definition enforceUserQuota :: "string option \<Rightarrow> ('s tables_scheme, unit) svc" where
  "enforceUserQuota organizationId =
     (case nonempty organizationId of
        None \<Rightarrow> ret ()
      | Some x \<Rightarrow>
     bnd (gets (find_organization x)) (\<lambda>organization.
     bnd (gets (\<lambda>s. length (organization_users x s))) (\<lambda>n.
       throw_if (\<not> within_limit (Option.bind organization o_allowedUsers) n) (Conflict ''USER_QUOTA_EXCEEDED''))))"

definition enforceProviderQuota :: "string option \<Rightarrow> ('s tables_scheme, unit) svc" where
  "enforceProviderQuota organizationId =
     (case nonempty organizationId of
        None \<Rightarrow> ret ()
      | Some x \<Rightarrow>
     bnd (gets (find_organization x)) (\<lambda>organization.
     bnd (gets (\<lambda>s. length (organization_providers x s))) (\<lambda>n.
       throw_if (\<not> within_limit (Option.bind organization o_allowedProviders) n) (Conflict ''PROVIDER_QUOTA_EXCEEDED''))))"

end
