(* ===== verification/Invitations.thy ===== *)
theory Invitations imports Users Business_Logic "HOL-Library.Product_Lexorder" "HOL-Library.List_Lexorder" "HOL-Library.Char_ord" begin

text \<open>
  Invitations to an organization (\<open>users/users.service.ts\<close>, lines 197-311, 518-1057, 1147-1215,
  1533-1565 and 1652-1740): an administrator invites a contact in a role, the invited account accepts or
  declines, the inviter cancels or reminds, and an invitation nobody took up expires. The table is the one
  of internal administration.
\<close>

section \<open>Who may invite whom\<close>

definition parseInvitableRole :: "json option \<Rightarrow> ('s, user_role) svc" where
  "parseInvitableRole raw =
     require (Forbidden ''Invalid role'') (role_named (toUpperCase (trim (json_text (or_else raw JNull)))))"

definition isGovernanceAdminRole :: "user_role \<Rightarrow> bool" where
  "isGovernanceAdminRole role \<longleftrightarrow>
     role \<in> {PLATFORM_OWNER, EXECUTIVE_SUPER_ADMIN, TECHNICAL_ADMIN, BILLING_ADMIN, LEGAL_ADMIN, ASSIGNMENT_ADMIN,
              ASSET_ADMIN, COMPLIANCE_ADMIN, REGULATORY_ADMIN, SUPPORT_ADMIN}"

definition resolveInvitationOrganization :: "payload \<Rightarrow> jwt_user \<Rightarrow> ('s, string option) svc" where
  "resolveInvitationOrganization dto user =
     (if j_role user = SUPER_ADMIN
      then ret (case trimmed (text_field ''organizationId'' dto) of Some x \<Rightarrow> Some x | None \<Rightarrow> j_organizationId user)
      else sq (throw_if (\<not> truthy (j_organizationId user)) (Forbidden ''No organization assigned''))
              (ret (j_organizationId user)))"

definition resolveDiscoveryOrganization :: "payload \<Rightarrow> jwt_user \<Rightarrow> ('s, string) svc" where
  "resolveDiscoveryOrganization dto user =
     (if j_role user = SUPER_ADMIN
      then require (Forbidden ''Organization is required for discovery'')
             (coalesce (trimmed (text_field ''organizationId'' dto)) (trimmed (j_organizationId user)))
      else sq (throw_if (j_role user \<noteq> ORG_ADMIN) (Forbidden ''Provider discovery requires org admin''))
              (require (Forbidden ''Provider discovery requires org admin'') (nonempty (j_organizationId user))))"

definition buildInvitationScope :: "jwt_user \<Rightarrow> ('s, unit) svc" where
  "buildInvitationScope user =
     throw_if (j_role user \<noteq> SUPER_ADMIN \<and> (j_role user \<noteq> ORG_ADMIN \<or> \<not> truthy (j_organizationId user)))
       (Forbidden ''Not allowed'')"

definition invitation_in_scope :: "jwt_user \<Rightarrow> invitation \<Rightarrow> bool" where
  "invitation_in_scope user v \<longleftrightarrow> j_role user = SUPER_ADMIN \<or> iv_organizationId v = j_organizationId user"

section \<open>Contacts\<close>

text \<open>A row is reached by an email or a phone that is given and not empty.\<close>

definition matches_contact :: "string option \<Rightarrow> string option \<Rightarrow> string option \<Rightarrow> string option \<Rightarrow> bool" where
  "matches_contact email phone rowEmail rowPhone \<longleftrightarrow>
     truthy email \<and> rowEmail = email \<or> truthy phone \<and> rowPhone = phone"

definition find_contact :: "string option \<Rightarrow> string option \<Rightarrow> 's tables_scheme \<Rightarrow> user option" where
  "find_contact email phone s = find (\<lambda>u. matches_contact email phone (u_email u) (u_phone u)) (users s)"

definition open_at :: "int \<Rightarrow> invitation \<Rightarrow> bool" where
  "open_at t v \<longleftrightarrow> iv_status v = IV_PENDING \<and> (case iv_expiresAt v of None \<Rightarrow> False | Some e \<Rightarrow> t < e)"

definition expired_at :: "int \<Rightarrow> invitation \<Rightarrow> bool" where
  "expired_at t v \<longleftrightarrow> (case iv_expiresAt v of None \<Rightarrow> False | Some e \<Rightarrow> e \<le> t)"

definition humanRole :: "user_role \<Rightarrow> string" where
  "humanRole role = join '' '' (map capitalize (split_underscore (toLowerCase (user_role_name role))))"

definition notifyInvitedIdentity :: "invitation \<Rightarrow> string \<Rightarrow> string \<Rightarrow> string \<Rightarrow> unit handler" where
  "notifyInvitedIdentity v type title message =
     (if \<not> truthy (iv_email v) \<and> \<not> truthy (iv_phone v) then ret ()
      else bnd (gets (find_contact (iv_email v) (iv_phone v))) (\<lambda>found.
        case found of None \<Rightarrow> ret () | Some u \<Rightarrow> user_notice (u_id u) type title message))"

lemma quiet_notifyInvitedIdentity [quiet_rules]: "quiet business (notifyInvitedIdentity v type title message)"
  unfolding notifyInvitedIdentity_def by (intro quiet_rules)

text \<open>The organization's name in a message.\<close>

definition organization_label :: "string option \<Rightarrow> string \<Rightarrow> 's tables_scheme \<Rightarrow> string" where
  "organization_label organizationId otherwise s =
     (case Option.bind organizationId (\<lambda>x. find_organization x s) of None \<Rightarrow> otherwise | Some x \<Rightarrow> o_name x)"

section \<open>What the caller sees\<close>

record invitation_view =
  vw_id :: string
  vw_inviteCode :: string
  vw_email :: "string option"
  vw_phone :: "string option"
  vw_fullName :: string
  vw_role :: user_role
  vw_status :: invitation_status
  vw_organizationId :: "string option"
  vw_expiresAt :: "int option"
  vw_acceptedAt :: "int option"
  vw_declinedAt :: "int option"
  vw_revokedAt :: "int option"
  vw_cancelledAt :: "int option"
  vw_resentAt :: "int option"
  vw_createdAt :: int
  vw_deliveryStatus :: json

text \<open>\<open>metadata.delivery ?? 'EMAIL_NOT_CONFIGURED'\<close>: null and a missing field give the default.\<close>

definition delivery_status :: "json option \<Rightarrow> json" where
  "delivery_status metadata =
     (case map_of (objectRecord metadata) ''delivery'' of
        None \<Rightarrow> JStr ''EMAIL_NOT_CONFIGURED''
      | Some j \<Rightarrow> if j = JNull then JStr ''EMAIL_NOT_CONFIGURED'' else j)"

definition serializeInvitation :: "env \<Rightarrow> invitation \<Rightarrow> invitation_view" where
  "serializeInvitation env v =
     \<lparr> vw_id = iv_id v, vw_inviteCode = iv_inviteCode v, vw_email = iv_email v, vw_phone = iv_phone v,
       vw_fullName = iv_fullName v, vw_role = iv_role v,
       vw_status = (if iv_status v = IV_PENDING \<and> expired_at (now env) v then IV_EXPIRED else iv_status v),
       vw_organizationId = iv_organizationId v, vw_expiresAt = iv_expiresAt v, vw_acceptedAt = iv_acceptedAt v,
       vw_declinedAt = iv_declinedAt v, vw_revokedAt = iv_revokedAt v,
       vw_cancelledAt = (if iv_status v = IV_CANCELLED then iv_revokedAt v else None),
       vw_resentAt = iv_resentAt v, vw_createdAt = iv_createdAt v,
       vw_deliveryStatus = delivery_status (iv_metadata v) \<rparr>"

datatype invite_reply =
    Membership_active user
  | Already_member user
  | Confirmation_required user
  | Invited invitation_view

section \<open>Inviting\<close>

definition invited_row ::
    "env \<Rightarrow> user_role \<Rightarrow> string option \<Rightarrow> string option \<Rightarrow> string option \<Rightarrow> string \<Rightarrow> string \<Rightarrow> user option \<Rightarrow> bool \<Rightarrow> invitation" where
  "invited_row env role organizationId email phone fullName actorId existing membershipInvite =
     \<lparr> iv_id = freshId env 0, iv_email = email, iv_phone = phone, iv_fullName = fullName, iv_role = role,
       iv_status = IV_PENDING,
       iv_inviteCode = ''INV-'' @ toUpperCase (take 8 (randomHex env) @ ''-'' @ take 1 (drop 8 (randomHex env))),
       iv_organizationId = organizationId, iv_invitedById = actorId, iv_acceptedUserId = None,
       iv_metadata = Some (JObj
         [(''delivery'', JStr ''EMAIL_NOT_CONFIGURED''), (''existingUserId'', jopt JStr (map_option u_id existing)),
          (''invitationPurpose'', JStr (if membershipInvite then ''PROVIDER_MEMBERSHIP_ACTIVATION'' else ''USER_ONBOARDING''))]),
       iv_expiresAt = Some (now env + 7 * day_ms), iv_acceptedAt = None, iv_declinedAt = None, iv_revokedAt = None,
       iv_tokenHash = Some (sha256 env (randomToken env)), iv_resentAt = None, iv_lastNotificationAt = None,
       iv_createdAt = now env \<rparr>"

definition invited_organization :: "string option \<Rightarrow> ('s tables_scheme, organization option) svc" where
  "invited_organization organizationId =
     (case nonempty organizationId of
        None \<Rightarrow> ret None
      | Some x \<Rightarrow> bnd (gets (find_organization x)) (\<lambda>found.
          bnd (require (Forbidden ''Organization not found'') found) (\<lambda>organization. ret (Some organization))))"

text \<open>An account that is already there: the reply when it belongs to the organization, None otherwise.\<close>

definition existing_reply :: "user option \<Rightarrow> string option \<Rightarrow> user_role \<Rightarrow> ('s tables_scheme, invite_reply option) svc" where
  "existing_reply found organizationId role =
     (case (found, nonempty organizationId) of
        (Some existing, Some x) \<Rightarrow>
          bnd (gets (find_membership (u_id existing) x)) (\<lambda>membership.
            case (if role = PROVIDER \<and> u_role existing = PROVIDER then membership else None) of
              Some l \<Rightarrow> if l_active l then ret (Some (Membership_active existing))
                        else throw (Conflict ''MEMBERSHIP_SUSPENDED'')
            | None \<Rightarrow> ret
                (if u_organizationId existing = Some x \<and> u_role existing = role \<and> u_accountStatus existing \<noteq> DEACTIVATED
                 then Some (Already_member existing) else None))
      | _ \<Rightarrow> ret None)"

definition membership_invite :: "user option \<Rightarrow> string option \<Rightarrow> user_role \<Rightarrow> bool" where
  "membership_invite found organizationId role \<longleftrightarrow>
     (case found of None \<Rightarrow> False
      | Some existing \<Rightarrow> truthy organizationId \<and> role = PROVIDER \<and> u_role existing = PROVIDER)"

definition confirmed_existing :: "payload \<Rightarrow> bool" where
  "confirmed_existing dto \<longleftrightarrow>
     map_of dto ''confirmExistingUser'' = Some (JBool True) \<or>
     toUpperCase (json_text (or_else (map_of dto ''existingUserAction'') JNull)) = ''ADD_MEMBERSHIP''"

definition invitation_quotas :: "bool \<Rightarrow> string option \<Rightarrow> user_role \<Rightarrow> ('s tables_scheme, unit) svc" where
  "invitation_quotas membershipInvite organizationId role =
     (if membershipInvite then enforceProviderQuota organizationId
      else sq (enforceUserQuota organizationId)
              (when_do (role = PROVIDER) (enforceProviderQuota organizationId)))"

definition invite_effects ::
    "jwt_user \<Rightarrow> invitation \<Rightarrow> user option \<Rightarrow> organization option \<Rightarrow> unit handler" where
  "invite_effects user invitation existing organization =
     sq (case existing of
           None \<Rightarrow> ret ()
         | Some u \<Rightarrow> user_notice (u_id u) ''ORGANIZATION_INVITATION_RECEIVED'' ''Organization invitation received''
             (or_else (map_option o_name organization) ''SecureZone'' @ '' invited you as '' @ humanRole (iv_role invitation) @ ''.''))
        (user_audit ''User Invited'' user
           [(''invitationId'', JStr (iv_id invitation)), (''role'', jrole (iv_role invitation)),
            (''organizationId'', jopt JStr (iv_organizationId invitation)),
            (''hasInvitedEmail'', JBool (truthy (iv_email invitation))),
            (''hasInvitedPhone'', JBool (truthy (iv_phone invitation))),
            (''existingUserId'', jopt JStr (map_option u_id existing))])"

lemma quiet_invite_effects [quiet_rules]: "quiet business (invite_effects user invitation existing organization)"
  unfolding invite_effects_def by (intro quiet_rules)

text \<open>What \<open>inviteUser\<close> does once the role, the organization and the contact of the invitation are known.\<close>

definition invite_contact ::
    "env \<Rightarrow> payload \<Rightarrow> jwt_user \<Rightarrow> string \<Rightarrow> user_role \<Rightarrow> string option \<Rightarrow> string option \<Rightarrow> string option \<Rightarrow> invite_reply handler" where
  "invite_contact env dto user actorId role organizationId email phone =
     bnd (invited_organization organizationId) (\<lambda>organization.
     bnd (gets (find_contact email phone)) (\<lambda>existing.
     bnd (existing_reply existing organizationId role) (\<lambda>reply. case reply of Some r \<Rightarrow> ret r | None \<Rightarrow>
     bnd (gets (\<lambda>s. find (\<lambda>v. open_at (now env) v \<and> iv_organizationId v = organizationId \<and> iv_role v = role \<and>
            matches_contact email phone (iv_email v) (iv_phone v)) (invitations s))) (\<lambda>duplicate.
     sq (throw_if (duplicate \<noteq> None) (Conflict ''DUPLICATE_PENDING_INVITATION''))
    (case (if membership_invite existing organizationId role \<and> \<not> confirmed_existing dto then existing else None) of
       Some u \<Rightarrow> ret (Confirmation_required u)
     | None \<Rightarrow>
     sq (invitation_quotas (membership_invite existing organizationId role) organizationId role)
    (let invitation = invited_row env role organizationId email phone
           (or_else (trimmed (text_field ''fullName'' dto)) ''Invited User'') actorId existing
           (membership_invite existing organizationId role) in
     sq (modify (invitations_update (\<lambda>rows. rows @ [invitation])))
    (sq (invite_effects user invitation existing organization)
        (ret (Invited (serializeInvitation env invitation))))))))))"

definition inviteUser :: "env \<Rightarrow> payload \<Rightarrow> jwt_user \<Rightarrow> invite_reply handler" where
  "inviteUser env dto user =
     bnd (parseInvitableRole (map_of dto ''role'')) (\<lambda>role.
     bnd (require (Forbidden ''Actor missing'') (nonempty (actor_id user))) (\<lambda>actorId.
     sq (throw_if (isGovernanceAdminRole role)
           (Forbidden ''Delegated admin roles must be created from governance administration''))
    (sq (throw_if (role = SUPER_ADMIN) (Forbidden ''This role cannot be invited''))
    (sq (throw_if (j_role user \<noteq> SUPER_ADMIN \<and> role = ORG_ADMIN)
           (Forbidden ''Organization Admin cannot invite other Organization Admins''))
    (bnd (resolveInvitationOrganization dto user) (\<lambda>organizationId.
     let email = map_option (\<lambda>t. trim (toLowerCase t)) (text_field ''email'' dto);
         phone = map_option trim (text_field ''phone'' dto) in
     sq (throw_if (\<not> truthy email \<and> \<not> truthy phone) (Forbidden ''Email or phone is required''))
        (invite_contact env dto user actorId role organizationId email phone)))))))"

section \<open>Inviting a discovered provider\<close>

datatype discovery_reply = Discovery_member | Discovery_invited invite_reply user

definition discovery_payload :: "string \<Rightarrow> user \<Rightarrow> payload" where
  "discovery_payload organizationId provider =
     [(''role'', JStr ''PROVIDER''), (''organizationId'', JStr organizationId), (''email'', jopt JStr (u_email provider)),
      (''phone'', jopt JStr (u_phone provider)), (''fullName'', JStr (u_fullName provider)),
      (''confirmExistingUser'', JBool True), (''existingUserAction'', JStr ''ADD_MEMBERSHIP''),
      (''discoveryInvite'', JBool True)]"

text \<open>
  The invitation in the reply of \<open>inviteUser\<close> has no metadata, so the two fields written here are all the
  metadata that is left.
\<close>

definition discovered_invitation :: "string \<Rightarrow> invitation \<Rightarrow> invitation" where
  "discovered_invitation providerId v =
     v\<lparr> iv_metadata := Some (JObj [(''discoveredProviderId'', JStr providerId),
       (''invitationSource'', JStr ''SMART_PROVIDER_DISCOVERY'')]) \<rparr>"

definition reply_invitation :: "invite_reply \<Rightarrow> string option" where
  "reply_invitation reply = (case reply of Invited w \<Rightarrow> nonempty (Some (vw_id w)) | _ \<Rightarrow> None)"

definition inviteDiscoveredProvider :: "env \<Rightarrow> string \<Rightarrow> payload \<Rightarrow> jwt_user \<Rightarrow> discovery_reply handler" where
  "inviteDiscoveredProvider env providerId dto user =
     bnd (resolveDiscoveryOrganization dto user) (\<lambda>x.
     bnd (gets (\<lambda>s. find (\<lambda>u. u_id u = providerId \<and> u_role u = PROVIDER \<and> u_accountStatus u = ACTIVE) (users s))) (\<lambda>found.
     bnd (require (NotFound ''Provider not found'') found) (\<lambda>provider.
     bnd (gets (find_membership providerId x)) (\<lambda>membership.
     if (case membership of None \<Rightarrow> False | Some l \<Rightarrow> l_active l) then ret Discovery_member
     else
     bnd (gets (\<lambda>s. find (\<lambda>v. open_at (now env) v \<and> iv_organizationId v = Some x \<and> iv_role v = PROVIDER \<and>
            (matches_contact (u_email provider) (u_phone provider) (iv_email v) (iv_phone v) \<or>
             map_of (objectRecord (iv_metadata v)) ''discoveredProviderId'' = Some (JStr providerId))) (invitations s))) (\<lambda>duplicate.
     sq (throw_if (duplicate \<noteq> None) (Conflict ''DUPLICATE_PENDING_INVITATION''))
    (sq (throw_if (\<not> truthy (u_email provider) \<and> \<not> truthy (u_phone provider)) (Forbidden ''PROVIDER_CONTACT_UNAVAILABLE''))
    (bnd (inviteUser env (discovery_payload x provider) user) (\<lambda>reply.
     sq (case reply_invitation reply of
           None \<Rightarrow> ret ()
         | Some k \<Rightarrow> bnd (update_invitation k (discovered_invitation providerId)) (\<lambda>w. ret ()))
    (sq (user_audit ''Provider Discovery Invitation Created'' user
           [(''providerId'', JStr providerId), (''organizationId'', JStr x),
            (''invitationId'', jopt JStr (reply_invitation reply))])
        (ret (Discovery_invited reply provider)))))))))))"

section \<open>Cancelling and reminding\<close>

definition scoped_invitation :: "string \<Rightarrow> jwt_user \<Rightarrow> invitation handler" where
  "scoped_invitation i user =
     sq (buildInvitationScope user)
    (bnd (gets (find_invitation i)) (\<lambda>found.
     bnd (require (Forbidden ''INVITATION_NOT_FOUND'') found) (\<lambda>v.
     sq (throw_if (\<not> invitation_in_scope user v) (Forbidden ''INVITATION_NOT_FOUND''))
    (sq (throw_if (iv_status v \<noteq> IV_PENDING) (Conflict ''INVITATION_ALREADY_RESOLVED''))
        (ret v)))))"

primrec invitation_status_name :: "invitation_status \<Rightarrow> string" where
  "invitation_status_name IV_PENDING = ''PENDING''"
| "invitation_status_name IV_ACCEPTED = ''ACCEPTED''"
| "invitation_status_name IV_DECLINED = ''DECLINED''"
| "invitation_status_name IV_CANCELLED = ''CANCELLED''"
| "invitation_status_name IV_REVOKED = ''REVOKED''"
| "invitation_status_name IV_EXPIRED = ''EXPIRED''"

definition cancelInvitation :: "env \<Rightarrow> string \<Rightarrow> jwt_user \<Rightarrow> invitation_status \<Rightarrow> invitation_view handler" where
  "cancelInvitation env i user status =
     bnd (scoped_invitation i user) (\<lambda>v.
     bnd (update_invitation i (\<lambda>w. w\<lparr> iv_status := status, iv_revokedAt := Some (now env) \<rparr>)) (\<lambda>revoked.
     bnd (gets (organization_label (iv_organizationId v) ''An organization'')) (\<lambda>name.
     sq (notifyInvitedIdentity v ''ORGANIZATION_INVITATION_CANCELLED'' ''Organization invitation cancelled''
           (name @ '' cancelled an invitation.''))
    (sq (user_audit ''Invitation Cancelled'' user
           [(''invitationId'', JStr i), (''role'', jrole (iv_role v)), (''organizationId'', jopt JStr (iv_organizationId v)),
            (''status'', JStr (invitation_status_name status))])
        (ret (serializeInvitation env revoked))))))"

definition revokeInvitation :: "env \<Rightarrow> string \<Rightarrow> jwt_user \<Rightarrow> invitation_view handler" where
  "revokeInvitation env i user = cancelInvitation env i user IV_REVOKED"

text \<open>
  \<open>Number(metadata.resendCount ?? 0) + 1\<close>; a count that is no number (no operation writes one) makes the sum
  not a number, which a JSON column stores as null.
\<close>

definition next_resend_count :: "json option \<Rightarrow> json" where
  "next_resend_count count =
     (case or_else count JNull of
        JNull \<Rightarrow> jint 1
      | JNum r \<Rightarrow> JNum (r + 1)
      | _ \<Rightarrow> JNull)"

definition resend_data :: "env \<Rightarrow> invitation \<Rightarrow> invitation \<Rightarrow> invitation" where
  "resend_data env v w =
     w\<lparr> iv_resentAt := Some (now env), iv_lastNotificationAt := Some (now env),
        iv_metadata := Some (JObj (spread (objectRecord (iv_metadata v))
          [(''delivery'', JStr ''EMAIL_NOT_CONFIGURED''),
           (''resendCount'', next_resend_count (map_of (objectRecord (iv_metadata v)) ''resendCount''))])) \<rparr>"

text \<open>The mark a late request leaves before it is refused.\<close>

definition refuse_expired :: "env \<Rightarrow> invitation \<Rightarrow> unit handler" where
  "refuse_expired env v =
     (if expired_at (now env) v
      then sq (update_invitation (iv_id v) (\<lambda>w. w\<lparr> iv_status := IV_EXPIRED \<rparr>)) (throw (Conflict ''INVITATION_EXPIRED''))
      else ret ())"

definition resendInvitation :: "env \<Rightarrow> string \<Rightarrow> jwt_user \<Rightarrow> invitation_view handler" where
  "resendInvitation env i user =
     bnd (scoped_invitation i user) (\<lambda>v.
     sq (refuse_expired env v)
    (bnd (update_invitation i (resend_data env v)) (\<lambda>updated.
     bnd (gets (organization_label (iv_organizationId v) ''SecureZone'')) (\<lambda>name.
     sq (notifyInvitedIdentity v ''ORGANIZATION_INVITATION_RECEIVED'' ''Organization invitation reminder''
           (name @ '' reminded you about a pending '' @ humanRole (iv_role v) @ '' invitation.''))
    (sq (user_audit ''Invitation Resent'' user [(''invitationId'', JStr i), (''role'', jrole (iv_role v))])
        (ret (serializeInvitation env updated)))))))"

section \<open>The invited account\<close>

definition getMyInvitations :: "env \<Rightarrow> jwt_user \<Rightarrow> invitation_view list handler" where
  "getMyInvitations env user =
     (let email = map_option (\<lambda>t. trim (toLowerCase t)) (j_email user); phone = map_option trim (j_phone user) in
      if \<not> truthy email \<and> \<not> truthy phone then ret []
      else bnd (gets (\<lambda>s. rev (sort_key (\<lambda>v. (iv_createdAt v, iv_id v))
              (filter (\<lambda>v. iv_status v = IV_PENDING \<and> matches_contact email phone (iv_email v) (iv_phone v)) (invitations s)))))
        (\<lambda>rows. let expiredIds = map iv_id (filter (expired_at (now env)) rows) in
          sq (modify (invitations_update (upd_rows (\<lambda>v. iv_id v \<in> set expiredIds) (\<lambda>v. v\<lparr> iv_status := IV_EXPIRED \<rparr>))))
             (ret (map (serializeInvitation env) (filter (\<lambda>v. iv_id v \<notin> set expiredIds) rows)))))"

definition invitee_matches :: "invitation \<Rightarrow> jwt_user \<Rightarrow> bool" where
  "invitee_matches v user \<longleftrightarrow>
     truthy (iv_email v) \<and> truthy (j_email user) \<and> map_option toLowerCase (iv_email v) = map_option toLowerCase (j_email user) \<or>
     truthy (iv_phone v) \<and> truthy (j_phone user) \<and> iv_phone v = j_phone user"

text \<open>The error for an invitation that is no longer pending.\<close>

definition resolved_error :: "invitation_status \<Rightarrow> exn" where
  "resolved_error status =
     Conflict (if status = IV_CANCELLED \<or> status = IV_REVOKED then ''INVITATION_CANCELLED''
       else if status = IV_EXPIRED then ''INVITATION_EXPIRED'' else ''INVITATION_ALREADY_RESOLVED'')"

text \<open>A provider who joins another organization as provider keeps role and organization.\<close>

definition membership_only :: "user \<Rightarrow> invitation \<Rightarrow> bool" where
  "membership_only u v \<longleftrightarrow>
     u_role u = PROVIDER \<and> iv_role v = PROVIDER \<and> truthy (iv_organizationId v) \<and> u_organizationId u \<noteq> iv_organizationId v"

definition accepted_account :: "invitation \<Rightarrow> user \<Rightarrow> user" where
  "accepted_account v u =
     (let joined = u\<lparr> u_accountStatus := (if u_accountStatus u = SUSPENDED then SUSPENDED else ACTIVE) \<rparr>;
          moved = (if truthy (iv_organizationId v) \<and> \<not> membership_only u v
                   then joined\<lparr> u_organizationId := iv_organizationId v \<rparr> else joined)
      in (if u_role u \<noteq> SUPER_ADMIN \<and> \<not> membership_only u v then moved\<lparr> u_role := iv_role v \<rparr> else moved))"

definition accepted_invitation :: "env \<Rightarrow> invitation \<Rightarrow> string \<Rightarrow> user_role \<Rightarrow> invitation \<Rightarrow> invitation" where
  "accepted_invitation env v actorId role w =
     w\<lparr> iv_status := IV_ACCEPTED, iv_acceptedAt := Some (now env), iv_acceptedUserId := Some actorId,
        iv_metadata := Some (JObj (jset ''acceptedUserRole'' (jrole role) (objectRecord (iv_metadata v)))) \<rparr>"

definition accepted_membership :: "invitation \<Rightarrow> string \<Rightarrow> user \<Rightarrow> unit handler" where
  "accepted_membership v actorId current =
     (case nonempty (iv_organizationId v) of
        None \<Rightarrow> ret ()
      | Some x \<Rightarrow> when_do (iv_role v = PROVIDER) (upsert_membership actorId x (u_organizationId current = Some x)))"

definition acceptance_transaction :: "env \<Rightarrow> string \<Rightarrow> invitation \<Rightarrow> string \<Rightarrow> invitation handler" where
  "acceptance_transaction env i v actorId = transaction
     (bnd (gets (find_invitation i)) (\<lambda>found.
      bnd (require (PrismaError ''P2025'') found) (\<lambda>fresh.
      sq (throw_if (iv_status fresh \<noteq> IV_PENDING) (Conflict ''INVITATION_ALREADY_RESOLVED''))
     (sq (refuse_expired env fresh)
     (bnd (gets (find_user actorId)) (\<lambda>account.
      bnd (require (PrismaError ''P2025'') account) (\<lambda>current.
      bnd (gets (\<lambda>s. Option.bind (iv_organizationId v) (\<lambda>x. find_organization x s))) (\<lambda>organization.
      sq (throw_if (truthy (iv_organizationId v) \<and> \<not> membership_only current v \<and> organization = None) (PrismaError ''P2025''))
     (bnd (update_user actorId (accepted_account v)) (\<lambda>accepted.
      sq (accepted_membership v actorId current)
         (update_invitation i (accepted_invitation env v actorId (u_role accepted)))))))))))))"

definition acceptance_effects :: "string \<Rightarrow> jwt_user \<Rightarrow> invitation \<Rightarrow> string \<Rightarrow> unit handler" where
  "acceptance_effects i user v actorId =
     sq (user_notice (iv_invitedById v) ''ORGANIZATION_INVITATION_ACCEPTED'' ''Invitation accepted''
           (or_else (j_fullName user) (iv_fullName v) @ '' accepted the '' @ humanRole (iv_role v) @ '' invitation.''))
    (sq (user_audit ''Invitation Accepted'' user
           [(''invitationId'', JStr i), (''role'', jrole (iv_role v)), (''organizationId'', jopt JStr (iv_organizationId v))])
        (when_do (iv_role v = PROVIDER \<and> truthy (iv_organizationId v))
           (user_audit ''Provider Membership Activated'' user
              [(''invitationId'', JStr i), (''providerId'', JStr actorId), (''organizationId'', jopt JStr (iv_organizationId v))])))"

lemma quiet_acceptance_effects [quiet_rules]: "quiet business (acceptance_effects i user v actorId)"
  unfolding acceptance_effects_def by (intro quiet_rules)

definition acceptUserInvitation :: "env \<Rightarrow> string \<Rightarrow> jwt_user \<Rightarrow> invitation_view handler" where
  "acceptUserInvitation env i user =
     bnd (require (Forbidden ''Actor missing'') (nonempty (actor_id user))) (\<lambda>actorId.
     bnd (gets (find_invitation i)) (\<lambda>found.
     bnd (require (NotFound ''INVITATION_NOT_FOUND'') found) (\<lambda>v.
     sq (throw_if (\<not> invitee_matches v user) (Forbidden ''INVITATION_NOT_OWNED''))
    (if iv_status v = IV_ACCEPTED \<and> iv_acceptedUserId v = Some actorId then ret (serializeInvitation env v)
     else
     sq (throw_if (iv_status v \<noteq> IV_PENDING) (resolved_error (iv_status v)))
    (sq (refuse_expired env v)
    (bnd (acceptance_transaction env i v actorId) (\<lambda>updated.
     sq (acceptance_effects i user v actorId)
        (ret (serializeInvitation env updated)))))))))"

definition declined_invitation :: "env \<Rightarrow> invitation \<Rightarrow> invitation" where
  "declined_invitation env v = v\<lparr> iv_status := IV_DECLINED, iv_declinedAt := Some (now env) \<rparr>"

definition declineInvitation :: "env \<Rightarrow> string \<Rightarrow> jwt_user \<Rightarrow> invitation_view handler" where
  "declineInvitation env i user =
     bnd (gets (find_invitation i)) (\<lambda>found.
     bnd (require (NotFound ''INVITATION_NOT_FOUND'') found) (\<lambda>v.
     sq (throw_if (\<not> invitee_matches v user) (Forbidden ''INVITATION_NOT_OWNED''))
    (if iv_status v = IV_DECLINED then ret (serializeInvitation env v)
     else
     sq (throw_if (iv_status v \<noteq> IV_PENDING) (resolved_error (iv_status v)))
    (sq (refuse_expired env v)
    (bnd (update_invitation i (declined_invitation env)) (\<lambda>updated.
     sq (user_notice (iv_invitedById v) ''ORGANIZATION_INVITATION_DECLINED'' ''Invitation declined''
           (or_else (j_fullName user) (iv_fullName v) @ '' declined the '' @ humanRole (iv_role v) @ '' invitation.''))
    (sq (user_audit ''Invitation Declined'' user
           [(''invitationId'', JStr i), (''role'', jrole (iv_role v)), (''organizationId'', jopt JStr (iv_organizationId v))])
        (ret (serializeInvitation env updated)))))))))"

end
