(* ===== verification/Invitation_Theorems.thy ===== *)
theory Invitation_Theorems imports Invitations Admin_Theorems Example_Data begin

text \<open>
  What account administration guarantees: an invitation is taken up at most once and by whom it names, what an
  acceptance changes, and who can gain which role through it; and where it breaks its own rules.
\<close>

section \<open>Tools\<close>

interpretation invitation_table:
  keyed_table invitations "\<lambda>rs. invitations_update (\<lambda>_. rs)" iv_id
  rewrites "row_find invitations iv_id = find_invitation"
    and "row_update invitations (\<lambda>rs. invitations_update (\<lambda>_. rs)) iv_id = update_invitation"
  by unfold_locales (simp_all add: find_invitation_def update_invitation_def)

lemma bnd_runs:
  "\<not> c \<Longrightarrow> bnd (throw_if c e) f s = f () s"
  "c \<Longrightarrow> bnd (throw_if c e) f s = (Inl e, s)"
  "bnd (require e (Some y)) g s = g y s"
  "bnd (require e None) g s = (Inl e, s)"
  "bnd (gets h) k s = k (h s) s"
  "bnd (ret x) g s = g x s"
  by (simp_all add: bnd_def)

lemma bnd_guard: "bnd (throw_if c e) f s = (if c then (Inl e, s) else f () s)"
  by (simp add: bnd_def)

lemma find_append_new: "find P xs = None \<Longrightarrow> find P (xs @ ys) = find P ys"
  by (induction xs) (auto split: if_splits)

text \<open>\<open>yields Q m\<close>: whatever the computation returns satisfies \<open>Q\<close>.\<close>

definition yields :: "('a \<Rightarrow> bool) \<Rightarrow> ('s, 'a) svc \<Rightarrow> bool" where
  "yields Q m \<longleftrightarrow> (\<forall>s x t. m s = (Inr x, t) \<longrightarrow> Q x)"

named_theorems yields_rules \<open>what computations return\<close>

lemma yieldsD: "yields Q m \<Longrightarrow> m s = (Inr x, t) \<Longrightarrow> Q x"
  unfolding yields_def by blast

lemma yields_basic [yields_rules]: "Q x \<Longrightarrow> yields Q (ret x)" "yields Q (throw e)"
  by (simp_all add: yields_def)

lemma yields_bnd [yields_rules]: "(\<And>x. yields Q (f x)) \<Longrightarrow> yields Q (bnd m f)"
  by (auto simp: yields_def elim!: bnd_InrE)

lemma yields_bnd_post: "yields P m \<Longrightarrow> (\<And>x. P x \<Longrightarrow> yields Q (f x)) \<Longrightarrow> yields Q (bnd m f)"
  unfolding yields_def by (blast elim: bnd_InrE)

lemma yields_split [yields_rules]:
  "yields Q a \<Longrightarrow> yields Q b \<Longrightarrow> yields Q (if c then a else b)"
  "yields Q a \<Longrightarrow> (\<And>x. yields Q (g x)) \<Longrightarrow> yields Q (case y of None \<Rightarrow> a | Some x \<Rightarrow> g x)"
  by (auto split: option.split)

lemma yields_case_option:
  "(y = None \<Longrightarrow> yields Q a) \<Longrightarrow> (\<And>x. y = Some x \<Longrightarrow> yields Q (g x)) \<Longrightarrow> yields Q (case y of None \<Rightarrow> a | Some x \<Rightarrow> g x)"
  by (simp split: option.split)

lemma keeps_bnd_yields: "keeps I m \<Longrightarrow> yields Q m \<Longrightarrow> (\<And>x. Q x \<Longrightarrow> keeps I (f x)) \<Longrightarrow> keeps I (bnd m f)"
  by (rule keeps_bnd_post) (auto dest: yieldsD)

section \<open>Requests\<close>

datatype account_request =
    Update_user string payload
  | Set_user_status string account_status
  | Resend_user_invitation string
  | Approve_provider string
  | Reject_provider string
  | Invite_user payload
  | Invite_discovered string payload
  | Cancel_invitation string
  | Revoke_invitation string
  | Resend_invitation string
  | My_invitations
  | Accept_invitation_of string
  | Decline_invitation_of string

primrec perform_account :: "env \<Rightarrow> jwt_user \<Rightarrow> account_request \<Rightarrow> unit handler" where
  "perform_account env user (Update_user i dto) = ignore_result (updateUser i dto user)"
| "perform_account env user (Set_user_status i status) = ignore_result (setUserStatus i status user)"
| "perform_account env user (Resend_user_invitation i) = ignore_result (resendUserInvitation i user)"
| "perform_account env user (Approve_provider i) = ignore_result (approveProviderRequest env i user)"
| "perform_account env user (Reject_provider i) = ignore_result (rejectProviderRequest i user)"
| "perform_account env user (Invite_user dto) = ignore_result (inviteUser env dto user)"
| "perform_account env user (Invite_discovered i dto) = ignore_result (inviteDiscoveredProvider env i dto user)"
| "perform_account env user (Cancel_invitation i) = ignore_result (cancelInvitation env i user IV_CANCELLED)"
| "perform_account env user (Revoke_invitation i) = ignore_result (revokeInvitation env i user)"
| "perform_account env user (Resend_invitation i) = ignore_result (resendInvitation env i user)"
| "perform_account env user My_invitations = ignore_result (getMyInvitations env user)"
| "perform_account env user (Accept_invitation_of i) = ignore_result (acceptUserInvitation env i user)"
| "perform_account env user (Decline_invitation_of i) = ignore_result (declineInvitation env i user)"

definition account_perform :: "env \<times> jwt_user \<times> account_request \<Rightarrow> unit handler" where
  "account_perform = (\<lambda>(env, user, req). perform_account env user req)"

section \<open>An invitation is settled once\<close>

text \<open>The only invitation with this id is this settled row.\<close>

definition settled_as :: "string \<Rightarrow> invitation \<Rightarrow> 's tables_scheme \<Rightarrow> bool" where
  "settled_as i v s \<longleftrightarrow> filter (\<lambda>w. iv_id w = i) (invitations s) = [v] \<and> iv_status v \<noteq> IV_PENDING"

lemma settled_as_row:
  assumes "settled_as i v s" and "w \<in> set (invitations s)" and "iv_id w = i"
  shows "w = v \<and> iv_status w \<noteq> IV_PENDING"
proof -
  have rows: "filter (\<lambda>w. iv_id w = i) (invitations s) = [v]" and settled: "iv_status v \<noteq> IV_PENDING"
    using assms(1) by (simp_all add: settled_as_def)
  have "w \<in> set (filter (\<lambda>w. iv_id w = i) (invitations s))"
    using assms(2,3) by simp
  then show ?thesis
    using settled unfolding rows by simp
qed

lemma settled_as_leaves: "leaves invitations m \<Longrightarrow> keeps (settled_as i v) (m :: 'a handler)"
  by (erule keeps_leaves) (simp add: settled_as_def)

lemma leaves_invitations: "leaves business m \<Longrightarrow> leaves invitations (m :: 'a handler)"
  by (rule leavesI) (metis leavesD business_fields(12))

lemma settled_as_quiet: "quiet business m \<Longrightarrow> keeps (settled_as i v) (m :: 'a handler)"
  by (intro settled_as_leaves leaves_invitations leaves_quiet)

lemma settled_as_reads: "reads m \<Longrightarrow> keeps (settled_as i v) (m :: 'a handler)"
  by (metis keepsI readsD)

lemma settled_as_append:
  "iv_id w \<noteq> i \<Longrightarrow> keeps (settled_as i v) (modify (invitations_update (\<lambda>rows. rows @ [w])) :: unit handler)"
  by (rule keeps_modify) (simp add: settled_as_def)

lemma filter_upd_rows_other:
  "(\<And>w. P w \<Longrightarrow> \<not> K w) \<Longrightarrow> (\<And>w. K w \<Longrightarrow> P (f w) = P w) \<Longrightarrow> filter P (upd_rows K f rows) = filter P rows"
  by (induction rows) auto

lemma settled_as_update:
  assumes "k \<noteq> i" and "\<And>w. iv_id (f w) = iv_id w"
  shows "keeps (settled_as i v) (update_invitation k f :: invitation handler)"
  unfolding update_invitation_def
  by (rule keeps_row_update) (use assms in \<open>simp add: settled_as_def filter_upd_rows_other\<close>)

lemma settled_as_modify_rows:
  assumes "\<And>w. K w \<Longrightarrow> iv_id w \<noteq> i" and "\<And>w. iv_id (f w) = iv_id w"
  shows "keeps (settled_as i v) (modify (invitations_update (upd_rows K f)) :: unit handler)"
proof -
  have "filter (\<lambda>w. iv_id w = i) (upd_rows K f rows) = filter (\<lambda>w. iv_id w = i) rows" for rows
    by (rule filter_upd_rows_other) (use assms in auto)
  then show ?thesis
    by (intro keeps_modify) (simp add: settled_as_def)
qed

lemma keeps_past_guard: "(\<not> c \<Longrightarrow> keeps I m) \<Longrightarrow> keeps I (sq (throw_if c e) m)"
  by (auto simp: keeps_def bnd_def split: if_splits)

text \<open>What a handler that read the invitation knows of it: it is not the settled one.\<close>

lemma settled_as_found:
  assumes "\<And>w. iv_id w = k \<Longrightarrow> k = i \<longrightarrow> iv_status w \<noteq> IV_PENDING \<Longrightarrow> keeps (settled_as i v) (f w :: 'a handler)"
  shows "keeps (settled_as i v) (bnd (gets (find_invitation k)) (\<lambda>found. bnd (require e found) f))"
  by (rule keeps_gets_found[where Q = "\<lambda>w. iv_id w = k \<and> (k = i \<longrightarrow> iv_status w \<noteq> IV_PENDING)"])
    (use assms in \<open>auto dest!: find_invitation_SomeD dest: settled_as_row\<close>)

lemma leaves_invitations_tables [leaves_rules]:
  "leaves invitations (update_user k f :: user handler)"
  "leaves invitations (upsert_membership p x b :: unit handler)"
  by (auto simp: leaves_def update_user_def row_update_def row_put_def upsert_membership_def bnd_def
      split: option.splits)

lemma settled_as_refuse: "iv_id w \<noteq> i \<Longrightarrow> keeps (settled_as i v) (refuse_expired env w)"
  unfolding refuse_expired_def by (intro keeps_rules settled_as_update) simp_all

lemma settled_as_scoped:
  assumes "\<And>w. iv_id w = k \<Longrightarrow> k \<noteq> i \<Longrightarrow> keeps (settled_as i v) (f w :: 'a handler)"
  shows "keeps (settled_as i v) (bnd (scoped_invitation k user) f)"
  unfolding scoped_invitation_def bnd_assoc buildInvitationScope_def
  by (intro keeps_past_guard settled_as_found) (use assms in \<open>auto simp: bnd_def ret_def keeps_def\<close>)

lemma leaves_accepted_membership: "leaves invitations (accepted_membership w a u)"
  unfolding accepted_membership_def by (intro leaves_rules)

lemma settled_as_acceptance:
  "k \<noteq> i \<Longrightarrow> keeps (settled_as i v) (acceptance_transaction env k w a)"
  unfolding acceptance_transaction_def
  apply (rule keeps_transaction)
  apply (rule settled_as_found)
  apply (rule keeps_past_guard)
  apply (rule keeps_bnd, rule settled_as_refuse, simp)
  apply (intro keeps_bnd settled_as_update)
         apply (intro keeps_rules settled_as_leaves leaves_invitations_tables leaves_accepted_membership)+
   apply (simp_all add: accepted_invitation_def)
  done

lemma leaves_invitations_getUser: "leaves invitations (getUser k user)"
  by (rule leaves_reads[OF reads_getUser])

lemmas settled_as_steps = keeps_rules settled_as_leaves[OF leaves_invitations_tables(1)]
  settled_as_leaves[OF leaves_invitations_tables(2)] settled_as_leaves[OF leaves_invitations_getUser]
  settled_as_quiet[OF quiet_user_audit] settled_as_quiet[OF quiet_user_notice] settled_as_quiet[OF quiet_invite_effects]
  settled_as_quiet[OF quiet_acceptance_effects] settled_as_quiet[OF quiet_notifyInvitedIdentity]

lemma reads_account_input [reads_rules]:
  "reads (profileEmail e :: (string option) handler)"
  "reads (edited_email k dto u)" "reads (edited_role dto user)" "reads (edited_plan dto u)"
  "reads (edit_constraints k dto user u w)"
  unfolding profileEmail_def edited_email_def edited_role_def edited_plan_def edit_constraints_def Let_def
  by (auto intro!: reads_rules split: option.split bool.split prod.split)

lemma settled_as_accounts:
  "keeps (settled_as i v) (updateUser k dto user)"
  "keeps (settled_as i v) (setUserStatus k status user)"
  "keeps (settled_as i v) (resendUserInvitation k user)"
  "keeps (settled_as i v) (approveProviderRequest env k user)"
  "keeps (settled_as i v) (rejectProviderRequest k user)"
  unfolding updateUser_def setUserStatus_def resendUserInvitation_def approveProviderRequest_def
    rejectProviderRequest_def Let_def
  by (intro settled_as_steps settled_as_reads[OF reads_account_input(2)] settled_as_reads[OF reads_account_input(3)]
      settled_as_reads[OF reads_account_input(4)] settled_as_reads[OF reads_account_input(5)])+

lemma reads_invitation_input [reads_rules]:
  "reads (parseInvitableRole raw :: user_role handler)"
  "reads (resolveInvitationOrganization dto user :: (string option) handler)"
  "reads (resolveDiscoveryOrganization dto user :: string handler)"
  "reads (invited_organization x :: (organization option) handler)"
  "reads (existing_reply u x role :: (invite_reply option) handler)"
  "reads (invitation_quotas m x role :: unit handler)"
  unfolding parseInvitableRole_def resolveInvitationOrganization_def resolveDiscoveryOrganization_def
    invited_organization_def existing_reply_def invitation_quotas_def enforceUserQuota_def enforceProviderQuota_def
  by (auto intro!: reads_rules split: option.split)

lemmas settled_as_invites = settled_as_steps settled_as_reads[OF reads_invitation_input(1)]
  settled_as_reads[OF reads_invitation_input(2)] settled_as_reads[OF reads_invitation_input(3)]
  settled_as_reads[OF reads_invitation_input(4)] settled_as_reads[OF reads_invitation_input(5)]
  settled_as_reads[OF reads_invitation_input(6)]

lemma settled_as_invite:
  "freshId env 0 \<noteq> i \<Longrightarrow> keeps (settled_as i v) (inviteUser env dto user)"
  unfolding inviteUser_def invite_contact_def Let_def
  by (intro settled_as_invites settled_as_append) (simp add: invited_row_def)

lemma settled_as_decisions:
  "keeps (settled_as i v) (cancelInvitation env k user status)"
  "keeps (settled_as i v) (revokeInvitation env k user)"
  "keeps (settled_as i v) (resendInvitation env k user)"
  unfolding revokeInvitation_def cancelInvitation_def resendInvitation_def
  by (rule settled_as_scoped, intro settled_as_steps settled_as_refuse settled_as_update; simp add: resend_data_def)+

lemma settled_as_accept: "keeps (settled_as i v) (acceptUserInvitation env k user)"
  unfolding acceptUserInvitation_def
  apply (rule keeps_bnd, rule keeps_require)
  apply (rule settled_as_found)
  apply (rule keeps_past_guard)
  apply (rule keeps_if, rule keeps_ret)
  apply (rule keeps_past_guard)
  apply (intro settled_as_steps settled_as_refuse settled_as_acceptance; simp)
  done

lemma settled_as_decline: "keeps (settled_as i v) (declineInvitation env k user)"
  unfolding declineInvitation_def
  apply (rule settled_as_found)
  apply (rule keeps_past_guard)
  apply (rule keeps_if, rule keeps_ret)
  apply (rule keeps_past_guard)
  apply (intro settled_as_steps settled_as_refuse settled_as_update; simp add: declined_invitation_def)
  done

lemma settled_as_mine: "keeps (settled_as i v) (getMyInvitations env user)"
  unfolding getMyInvitations_def Let_def
  apply (rule keeps_if, rule keeps_ret)
  apply (rule keeps_bnd_post[where Q = "\<lambda>rows. \<forall>w\<in>set rows. iv_id w \<noteq> i"])
    apply (rule keeps_gets)
   apply (auto dest: settled_as_row)[1]
  apply (intro keeps_bnd keeps_ret settled_as_modify_rows)
   apply auto
  done

lemma existing_reply_id: "yields (\<lambda>r. case r of None \<Rightarrow> True | Some reply \<Rightarrow> reply_invitation reply = None) (existing_reply u x role)"
  unfolding existing_reply_def
  by (auto intro!: yields_rules simp: reply_invitation_def split: option.split prod.split)

abbreviation names_invitation :: "env \<Rightarrow> invite_reply \<Rightarrow> bool" where
  "names_invitation env reply \<equiv> reply_invitation reply = None \<or> reply_invitation reply = Some (freshId env 0)"

lemma invite_contact_id:
  "yields (names_invitation env) (invite_contact env dto user a role x email phone)"
  unfolding invite_contact_def Let_def
  apply (rule yields_bnd, rule yields_bnd)
  apply (rule yields_bnd_post[OF existing_reply_id])
  apply (rule yields_case_option)
   apply (intro yields_rules)
    apply (simp_all add: yields_def)
   apply (simp_all add: reply_invitation_def serializeInvitation_def invited_row_def)
  done

lemma invite_reply_id: "yields (names_invitation env) (inviteUser env dto user)"
  unfolding inviteUser_def Let_def
  by (intro yields_bnd invite_contact_id)

lemma settled_as_discovered:
  assumes "freshId env 0 \<noteq> i"
  shows "keeps (settled_as i v) (inviteDiscoveredProvider env p dto user)"
  unfolding inviteDiscoveredProvider_def
  apply (rule keeps_bnd, rule settled_as_reads, rule reads_invitation_input)
  apply (rule keeps_bnd, rule keeps_gets)
  apply (rule keeps_bnd, rule keeps_require)
  apply (rule keeps_bnd, rule keeps_gets)
  apply (rule keeps_if, rule keeps_ret)
  apply (rule keeps_bnd, rule keeps_gets)
  apply (rule keeps_bnd, rule keeps_throw_if)+
  apply (rule keeps_bnd_yields[OF settled_as_invite[OF assms] invite_reply_id])
  apply (erule disjE; simp del: bnd_Inr)
   apply (intro settled_as_invites)
  apply (intro settled_as_invites settled_as_update assms)
  apply (simp add: discovered_invitation_def)
  done

text \<open>An invitation of either service: the requests of account administration, whose ids are new.\<close>

interpretation settled: service_invariant account_perform "settled_as i v" "\<lambda>(env, user, req). freshId env 0 \<noteq> i"
proof
  show "keeps (settled_as i v) (account_perform q)" if "case q of (env, user, req) \<Rightarrow> freshId env 0 \<noteq> i" for q
    using that by (cases q; cases "snd (snd q)")
      (simp_all add: account_perform_def keeps_ignore_result settled_as_accounts settled_as_invite settled_as_discovered
        settled_as_decisions settled_as_mine settled_as_accept settled_as_decline)
qed

lemma leaves_invitations_admin_tables [leaves_rules]:
  "leaves invitations (update_role_assignment k g :: internal_role_assignment handler)"
  "leaves invitations (update_approval k h :: privileged_approval handler)"
  "leaves invitations (modify (internalRoleAssignments_update l) :: unit handler)"
  "leaves invitations (modify (approvalRequests_update m) :: unit handler)"
  by (auto simp: leaves_def update_role_assignment_def update_approval_def row_update_def row_put_def split: option.split)

lemmas leaves_invitations_rules = leaves_rules leaves_invitations[OF leaves_admin_audit]
  leaves_invitations[OF leaves_auditDenied] leaves_invitations[OF leaves_assertPermission]
  leaves_invitations[OF leaves_notifyActor] leaves_reads[OF reads_admin_input(1)]
  leaves_reads[OF reads_admin_input(2)] leaves_reads[OF reads_admin_input(3)] leaves_reads[OF reads_admin_input(4)]
  leaves_reads[OF reads_admin_input(5)] leaves_reads[OF reads_admin_input(6)] leaves_reads[OF reads_admin_input(7)]
  leaves_reads[OF reads_admin_input(8)] leaves_reads[OF reads_admin_input(9)] leaves_reads[OF reads_admin_input(10)]
  leaves_reads[OF reads_admin_input(11)]

lemma leaves_invitations_createApproval: "leaves invitations (createApprovalRequest env dto user ctx reason)"
  unfolding createApprovalRequest_def Let_def by (intro leaves_invitations_rules)

lemma leaves_invitations_operations:
  "leaves invitations (assignRole env k asg user ctx)" "leaves invitations (removeRole env k reason user ctx)"
  "leaves invitations (decideApprovalRequest env k de user ctx)"
  "leaves invitations (suspendAdministrator env k reason user ctx)"
  "leaves invitations (reactivateAdministrator env k reason user ctx)"
  "leaves invitations (revokeSessions env k reason user ctx)"
  unfolding assignRole_def removeRole_def decideApprovalRequest_def suspendAdministrator_def
    reactivateAdministrator_def revokeSessions_def Let_def
  by (intro leaves_invitations_rules leaves_invitations_createApproval)+

lemma settled_as_inviteAdministrator:
  "freshId env 0 \<noteq> i \<Longrightarrow> keeps (settled_as i v) (inviteAdministrator env dto user ctx)"
  unfolding inviteAdministrator_def Let_def
  by (rule settled_as_append keeps_bnd keeps_if keeps_ret keeps_case_option
        | (rule settled_as_leaves, intro leaves_invitations_rules leaves_invitations_createApproval; fail)
        | (simp add: new_invitation_def; fail))+

lemma settled_as_accept_internal: "keeps (settled_as i v) (acceptInvitation env k user ctx)"
  unfolding acceptInvitation_def Let_def
  apply (rule keeps_bnd, rule settled_as_leaves, (intro leaves_invitations_rules)[1])
  apply (rule settled_as_found)
  apply (rule keeps_past_guard)
  apply ((rule settled_as_update keeps_bnd keeps_if keeps_ret keeps_throw
        | (rule settled_as_leaves, intro leaves_invitations_rules; fail)
        | (simp only: accept_transaction_def, rule keeps_transaction) | (simp; fail))+)
  done

type_synonym account_step = "env \<times> jwt_user \<times> account_request"

text \<open>An invitation of either service, among the requests of both.\<close>

definition invitation_perform :: "account_step + admin_step \<Rightarrow> unit handler" where
  "invitation_perform = case_sum account_perform admin_perform"

definition new_id_of :: "account_step + admin_step \<Rightarrow> string" where
  "new_id_of q = freshId (case q of Inl a \<Rightarrow> fst a | Inr b \<Rightarrow> fst b) 0"

interpretation settled_once: service_invariant invitation_perform "settled_as i v" "\<lambda>q. new_id_of q \<noteq> i"
proof
  show "keeps (settled_as i v) (invitation_perform q)" if "new_id_of q \<noteq> i" for q
  proof (cases q)
    case (Inl a)
    then show ?thesis
      using that settled.kept[where i = i and q = a] by (cases a) (simp add: invitation_perform_def new_id_of_def)
  next
    case (Inr b)
    then show ?thesis
      using that by (cases b; cases "snd (snd (snd b))") (simp_all add: invitation_perform_def new_id_of_def
        admin_perform_def keeps_ignore_result settled_as_inviteAdministrator settled_as_accept_internal
        settled_as_leaves leaves_invitations_operations leaves_invitations_createApproval)
  qed
qed

text \<open>
  C19: An invitation is settled once: along every history of both services, an invitation that was accepted,
  declined, cancelled, revoked or found expired stays the row it is, with its acceptance; whoever asks for it.
\<close>

theorem invitation_settled_once:
  assumes "history_of invitation_perform (\<lambda>q. new_id_of q \<noteq> i) s t" and "settled_as i v s"
  shows "settled_as i v t"
  by (rule settled_once.along[OF assms])

section \<open>What an acceptance does\<close>

text \<open>The acceptance a request stands for: the account, the invitation and the stored user, if it goes through.\<close>

definition acceptance :: "env \<Rightarrow> string \<Rightarrow> jwt_user \<Rightarrow> 's tables_scheme \<Rightarrow> (string \<times> invitation \<times> user) option" where
  "acceptance env i user s =
     (case (nonempty (actor_id user), find_invitation i s) of
        (Some a, Some v) \<Rightarrow>
          (case find_user a s of
             None \<Rightarrow> None
           | Some u \<Rightarrow>
               if invitee_matches v user \<and> iv_status v = IV_PENDING \<and> \<not> expired_at (now env) v \<and>
                  (truthy (iv_organizationId v) \<and> \<not> membership_only u v \<longrightarrow>
                     Option.bind (iv_organizationId v) (\<lambda>x. find_organization x s) \<noteq> None)
               then Some (a, v, u) else None)
      | _ \<Rightarrow> None)"

definition with_membership :: "invitation \<Rightarrow> string \<Rightarrow> user \<Rightarrow> provider_link list \<Rightarrow> provider_link list" where
  "with_membership v a u links =
     (case nonempty (iv_organizationId v) of
        None \<Rightarrow> links
      | Some x \<Rightarrow>
          let mine = (\<lambda>l. l_providerId l = a \<and> l_organizationId l = x); primary = u_organizationId u = Some x in
          if iv_role v \<noteq> PROVIDER then links
          else if list_ex mine links then upd_rows mine (\<lambda>l. l\<lparr> l_active := True, l_isPrimary := primary \<rparr>) links
          else links @ [\<lparr> l_providerId = a, l_organizationId = x, l_isPrimary = primary, l_active = True \<rparr>])"

definition after_acceptance :: "env \<Rightarrow> string \<Rightarrow> string \<times> invitation \<times> user \<Rightarrow> 's tables_scheme \<Rightarrow> 's tables_scheme" where
  "after_acceptance env i = (\<lambda>(a, v, u) s.
     s\<lparr> users := upd_rows (\<lambda>r. u_id r = a) (accepted_account v) (users s),
        providerOrganizations := with_membership v a u (providerOrganizations s),
        invitations := upd_rows (\<lambda>r. iv_id r = i) (accepted_invitation env v a (u_role (accepted_account v u)))
          (invitations s) \<rparr>)"

lemma business_after_acceptance: "business (after_acceptance env i x s) = after_acceptance env i x (business s)"
  by (cases x) (simp add: after_acceptance_def tables.defs)

lemma upsert_run:
  "upsert_membership a x primary s = (Inr (), s\<lparr> providerOrganizations :=
     (let mine = (\<lambda>l. l_providerId l = a \<and> l_organizationId l = x) in
      if list_ex mine (providerOrganizations s)
      then upd_rows mine (\<lambda>l. l\<lparr> l_active := True, l_isPrimary := primary \<rparr>) (providerOrganizations s)
      else providerOrganizations s @
        [\<lparr> l_providerId = a, l_organizationId = x, l_isPrimary = primary, l_active = True \<rparr>]) \<rparr>)"
  by (auto simp: upsert_membership_def find_membership_def bnd_runs Let_def list_ex_iff find_None_iff find_Some_iff
      split: option.split dest: find_SomeD)

lemma membership_run:
  "accepted_membership v a u s = (Inr (), s\<lparr> providerOrganizations := with_membership v a u (providerOrganizations s) \<rparr>)"
  by (auto simp: accepted_membership_def with_membership_def upsert_run Let_def split: option.split)

lemma accepted_keys [simp]: "u_id (accepted_account v u) = u_id u" "iv_id (accepted_invitation env v a r w) = iv_id w"
  by (simp_all add: accepted_account_def accepted_invitation_def Let_def)

lemma transaction_run:
  assumes "acceptance env i user s = Some (a, v, u)"
  shows "acceptance_transaction env i v a s =
    (Inr (accepted_invitation env v a (u_role (accepted_account v u)) v), after_acceptance env i (a, v, u) s)"
proof -
  have found: "find_invitation i s = Some v" "find_user a s = Some u" and pending: "iv_status v = IV_PENDING"
      "\<not> expired_at (now env) v" and org: "\<not> (truthy (iv_organizationId v) \<and> \<not> membership_only u v \<and>
        Option.bind (iv_organizationId v) (\<lambda>x. find_organization x s) = None)"
    using assms unfolding acceptance_def by (auto split: option.splits if_splits)
  let ?s = "put_user a (accepted_account v) s"
  let ?t = "?s\<lparr> providerOrganizations := with_membership v a u (providerOrganizations ?s) \<rparr>"
  have "invitations ?t = invitations s"
    by (simp add: put_user_def row_put_def)
  then have "find_invitation i ?t = Some v"
    using found by (simp add: find_invitation_def row_find_def)
  then have update: "update_invitation i (accepted_invitation env v a (u_role (accepted_account v u))) ?t =
      (Inr (accepted_invitation env v a (u_role (accepted_account v u)) v), after_acceptance env i (a, v, u) s)"
    by (subst invitation_table.update_runs) (simp_all add: row_put_def after_acceptance_def put_user_def)
  have "refuse_expired env v s = (Inr (), s)"
    using pending by (simp add: refuse_expired_def)
  then show ?thesis
    using found pending update user_table.update_runs[OF found(2), of "accepted_account v"]
    by (simp add: acceptance_transaction_def transaction_def bnd_runs(3-) bnd_runs(1)[OF org] membership_run
        del: not_None_eq)
qed

text \<open>What a request that is refused leaves behind: nothing, or the mark of an invitation that ran out.\<close>

definition at_most_expired :: "string \<Rightarrow> 's tables_scheme \<Rightarrow> 's tables_scheme \<Rightarrow> bool" where
  "at_most_expired i s t \<longleftrightarrow> t = s \<or>
     t = s\<lparr> invitations := upd_rows (\<lambda>v. iv_id v = i) (\<lambda>v. v\<lparr> iv_status := IV_EXPIRED \<rparr>) (invitations s) \<rparr>"

lemma refuse_expired_run:
  assumes "find_invitation i s = Some v"
  shows "refuse_expired env v s = (if expired_at (now env) v
    then (Inl (Conflict ''INVITATION_EXPIRED''),
      s\<lparr> invitations := upd_rows (\<lambda>w. iv_id w = i) (\<lambda>w. w\<lparr> iv_status := IV_EXPIRED \<rparr>) (invitations s) \<rparr>)
    else (Inr (), s))"
proof -
  have "iv_id v = i" using assms by (auto dest: find_invitation_SomeD)
  then show ?thesis
    using assms invitation_table.update_runs[OF assms, of "\<lambda>w. w\<lparr> iv_status := IV_EXPIRED \<rparr>"]
    by (simp add: refuse_expired_def row_put_def)
qed

lemma transaction_refused:
  assumes "find_invitation i s = Some v" and "iv_status v = IV_PENDING" and "\<not> expired_at (now env) v"
    and "nonempty (actor_id user) = Some a" and "invitee_matches v user" and "acceptance env i user s = None"
  shows "\<exists>e. acceptance_transaction env i v a s = (Inl e, s)"
proof (cases "find_user a s")
  case None
  then show ?thesis
    using assms(1-3) refuse_expired_run[OF assms(1), of env]
    by (simp add: acceptance_transaction_def transaction_def bnd_runs)
next
  case (Some u)
  then have refused: "truthy (iv_organizationId v) \<and> \<not> membership_only u v \<and>
      Option.bind (iv_organizationId v) (\<lambda>x. find_organization x s) = None"
    using assms by (auto simp: acceptance_def split: if_splits)
  show ?thesis
    using Some assms(1-3) refuse_expired_run[OF assms(1), of env]
    by (simp add: acceptance_transaction_def transaction_def bnd_runs(1,3-) bnd_runs(2)[OF refused])
qed

text \<open>The reply to a second acceptance by the same account.\<close>

definition accepted_before :: "string \<Rightarrow> jwt_user \<Rightarrow> 's tables_scheme \<Rightarrow> bool" where
  "accepted_before i user s \<longleftrightarrow>
     (case (nonempty (actor_id user), find_invitation i s) of
        (Some a, Some v) \<Rightarrow> invitee_matches v user \<and> iv_status v = IV_ACCEPTED \<and> iv_acceptedUserId v = Some a
      | _ \<Rightarrow> False)"

lemma accept_refused:
  assumes "acceptUserInvitation env i user s = (res, t)" and "acceptance env i user s = None"
  shows "at_most_expired i s t \<and> (if accepted_before i user s then t = s else \<exists>e. res = Inl e)"
proof (cases "nonempty (actor_id user)")
  case None
  then show ?thesis
    using assms(1) by (auto simp: acceptUserInvitation_def bnd_runs at_most_expired_def accepted_before_def)
next
  case (Some a)
  show ?thesis
  proof (cases "find_invitation i s")
    case None
    then show ?thesis
      using assms(1) Some by (auto simp: acceptUserInvitation_def bnd_runs at_most_expired_def accepted_before_def)
  next
    case (Some v)
    note found = Some \<open>nonempty (actor_id user) = Some a\<close>
    show ?thesis
    proof (cases "invitee_matches v user \<and> iv_status v = IV_PENDING \<and> \<not> expired_at (now env) v")
      case True
      then obtain e where "acceptance_transaction env i v a s = (Inl e, s)"
        using transaction_refused[OF found(1) _ _ found(2) _ assms(2)] by blast
      then show ?thesis
        using assms(1) found True refuse_expired_run[OF found(1), of env]
        by (auto simp: acceptUserInvitation_def bnd_runs at_most_expired_def accepted_before_def)
    next
      case False
      then consider (stranger) "\<not> invitee_matches v user"
        | (settled) "invitee_matches v user" "iv_status v \<noteq> IV_PENDING"
        | (late) "invitee_matches v user" "iv_status v = IV_PENDING" "expired_at (now env) v"
        by blast
      then show ?thesis
      proof cases
        case stranger
        then show ?thesis
          using assms(1) found by (auto simp: acceptUserInvitation_def bnd_runs at_most_expired_def accepted_before_def)
      next
        case settled
        then show ?thesis
          using assms(1) found
          by (cases "iv_status v = IV_ACCEPTED \<and> iv_acceptedUserId v = Some a")
            (auto simp: acceptUserInvitation_def bnd_runs at_most_expired_def accepted_before_def)
      next
        case late
        then show ?thesis
          using assms(1) found refuse_expired_run[OF found(1), of env]
          by (auto simp: acceptUserInvitation_def bnd_runs at_most_expired_def accepted_before_def)
      qed
    qed
  qed
qed

lemma accept_goes_through:
  assumes "acceptUserInvitation env i user s = (res, t)" and "acceptance env i user s = Some (a, v, u)"
  shows "res = Inr (serializeInvitation env (accepted_invitation env v a (u_role (accepted_account v u)) v)) \<and>
    business t = after_acceptance env i (a, v, u) (business s)"
proof -
  have found: "find_invitation i s = Some v" "nonempty (actor_id user) = Some a"
    and ok: "invitee_matches v user" "iv_status v = IV_PENDING" "\<not> expired_at (now env) v"
    using assms(2) unfolding acceptance_def by (auto split: option.splits if_splits)
  have "sq (acceptance_effects i user v a)
      (ret (serializeInvitation env (accepted_invitation env v a (u_role (accepted_account v u)) v)))
      (after_acceptance env i (a, v, u) s) = (res, t)"
    using assms(1) found ok refuse_expired_run[OF found(1), of env] transaction_run[OF assms(2)]
    by (simp add: acceptUserInvitation_def bnd_runs)
  from quiet_tail[OF quiet_acceptance_effects this] show ?thesis
    by (simp add: business_after_acceptance)
qed

text \<open>
  C18: An acceptance goes through exactly for the account the invitation names by email or phone, while it is
  pending and unexpired and its organization exists; then the account joins the organization in the invited role
  (a super admin keeps the role, a suspended account stays suspended, a provider of another organization only
  gains a membership) and the invitation is accepted by it. Otherwise at most an expired invitation is marked.
\<close>

theorem acceptance_exact:
  assumes "acceptUserInvitation env i user s = (res, t)"
  shows "case acceptance env i user s of
      Some (a, v, u) \<Rightarrow> (\<exists>w. res = Inr w \<and> vw_status w = IV_ACCEPTED) \<and> business t = after_acceptance env i (a, v, u) (business s)
    | None \<Rightarrow> at_most_expired i s t \<and> (if accepted_before i user s then t = s else \<exists>e. res = Inl e)"
proof (cases "acceptance env i user s")
  case None
  then show ?thesis using accept_refused[OF assms] by simp
next
  case (Some x)
  then show ?thesis
    using accept_goes_through[OF assms] by (cases x) (simp add: serializeInvitation_def accepted_invitation_def)
qed

section \<open>The hole in the roles that can be invited\<close>

lemma role_named_name: "role_named (toUpperCase (trim (user_role_name r))) = Some r"
proof -
  have "list_all (\<lambda>r. role_named (toUpperCase (trim (user_role_name r))) = Some r) all_user_roles"
    by code_simp
  moreover have "r \<in> set all_user_roles"
    by (cases r) (simp_all add: all_user_roles_def)
  ultimately show ?thesis by (simp add: list_all_iff)
qed

text \<open>The body of a request that invites an email in a role.\<close>

definition role_payload :: "user_role \<Rightarrow> string \<Rightarrow> payload" where
  "role_payload role email = [(''role'', JStr (user_role_name role)), (''email'', JStr email)]"

lemma invite_runs:
  assumes "j_role user = ORG_ADMIN" and "actor_id user = Some a" and "a \<noteq> []"
    and "j_organizationId user = Some x" and "x \<noteq> []" and "trim (toLowerCase e) = e" and "e \<noteq> []"
    and "\<not> isGovernanceAdminRole role" and "role \<notin> {SUPER_ADMIN, ORG_ADMIN, PROVIDER}"
    and "find_organization x s = Some org" and "within_limit (o_allowedUsers org) (length (organization_users x s))"
    and "find_contact (Some e) None s = Some u" and "u_role u \<noteq> role"
    and "\<forall>v\<in>set (invitations s). iv_role v \<noteq> role"
  shows "\<exists>t. inviteUser env (role_payload role e) user s =
      (Inr (Invited (serializeInvitation env (invited_row env role (Some x) (Some e) None ''Invited User'' a (Some u) False))), t) \<and>
    business t = (business s)\<lparr> invitations := invitations s @
      [invited_row env role (Some x) (Some e) None ''Invited User'' a (Some u) False] \<rparr>"
proof -
  let ?row = "invited_row env role (Some x) (Some e) None ''Invited User'' a (Some u) False"
  let ?s = "invitations_update (\<lambda>rows. rows @ [?row]) s"
  have fields: "map_of (role_payload role e) ''role'' = Some (JStr (user_role_name role))"
      "text_field ''email'' (role_payload role e) = Some e" "text_field ''phone'' (role_payload role e) = None"
      "text_field ''fullName'' (role_payload role e) = None"
    by (simp_all add: role_payload_def text_field_def)
  have parse: "parseInvitableRole (Some (JStr (user_role_name role))) s = (Inr role, s)"
    by (simp add: parseInvitableRole_def role_named_name)
  have none: "find (\<lambda>v. open_at (now env) v \<and> iv_organizationId v = Some x \<and> iv_role v = role \<and>
      matches_contact (Some e) None (iv_email v) (iv_phone v)) (invitations s) = None"
    using assms(14) by (auto simp: find_None_iff)
  have reply: "existing_reply (Some u) (Some x) role s = (Inr None, s)"
    using assms(5,9,13) by (simp add: existing_reply_def bnd_runs)
  have quota: "invitation_quotas False (Some x) role s = (Inr (), s)"
    using assms(5,9-11) by (simp add: invitation_quotas_def enforceUserQuota_def bnd_runs)
  have org: "invited_organization (Some x) s = (Inr (Some org), s)"
    using assms(5,10) by (simp add: invited_organization_def bnd_runs)
  have plain: "\<not> membership_invite (Some u) (Some x) role"
    using assms(9) by (simp add: membership_invite_def)
  obtain res t where tail: "sq (invite_effects user ?row (Some u) (Some org)) (ret (Invited (serializeInvitation env ?row))) ?s = (res, t)"
    by fastforce
  have "inviteUser env (role_payload role e) user s = (res, t)"
    using assms(1-9) fields parse none reply quota org plain tail assms(12)
    by (simp add: inviteUser_def invite_contact_def bnd_runs resolveInvitationOrganization_def trimmed_def Let_def)
  with quiet_tail[OF quiet_invite_effects tail] show ?thesis
    by (auto simp: tables.defs)
qed

text \<open>
  C21: An organization admin can make the own account a platform super admin, alone and in two requests: for every
  role that is not on the list of governance roles - and the platform super admin, the security and the
  operations admins are not on it - the admin invites the own email in that role and accepts.
\<close>

theorem organization_admin_takes_any_unlisted_role:
  assumes "j_role user = ORG_ADMIN" and "actor_id user = Some a" and "a \<noteq> []"
    and "j_organizationId user = Some x" and "x \<noteq> []"
    and "j_email user = Some e" and "trim (toLowerCase e) = e" and "e \<noteq> []"
    and "\<not> isGovernanceAdminRole role" and "role \<notin> {SUPER_ADMIN, ORG_ADMIN, PROVIDER}"
    and "find_organization x s = Some org" and "within_limit (o_allowedUsers org) (length (organization_users x s))"
    and "find_user a s = Some u" and "u_role u = ORG_ADMIN" and "find_contact (Some e) None s = Some u"
    and "\<forall>v\<in>set (invitations s). iv_role v \<noteq> role \<and> iv_id v \<noteq> freshId env 0"
  shows "\<exists>w t w' t' u'. inviteUser env (role_payload role e) user s = (Inr (Invited w), t) \<and>
    acceptUserInvitation env (vw_id w) user t = (Inr w', t') \<and> find_user a t' = Some u' \<and> u_role u' = role"
proof -
  let ?row = "invited_row env role (Some x) (Some e) None ''Invited User'' a (Some u) False"
  obtain t where t: "inviteUser env (role_payload role e) user s = (Inr (Invited (serializeInvitation env ?row)), t)"
      "business t = (business s)\<lparr> invitations := invitations s @ [?row] \<rparr>"
    using invite_runs[OF assms(1-5,7-12,15), of env] assms(10,14,16) by auto
  have rows: "invitations t = invitations s @ [?row]" "users t = users s" "organizations t = organizations s"
    using arg_cong[OF t(2), of invitations] arg_cong[OF t(2), of users] arg_cong[OF t(2), of organizations] by simp_all
  have i: "vw_id (serializeInvitation env ?row) = freshId env 0" "iv_id ?row = freshId env 0"
    by (simp_all add: serializeInvitation_def invited_row_def)
  have "find_invitation (freshId env 0) t = Some ?row"
    using assms(16) i(2) by (auto simp: find_invitation_def row_find_def rows find_None_iff find_append_new)
  moreover have "find_user a t = Some u" "find_organization x t = Some org"
    using assms(11,13) rows by (simp_all add: find_user_def find_organization_def row_find_def)
  moreover have "invitee_matches ?row user" "iv_status ?row = IV_PENDING" "\<not> expired_at (now env) ?row"
      "iv_organizationId ?row = Some x" "iv_role ?row = role"
    using assms(6,8) by (simp_all add: invitee_matches_def invited_row_def expired_at_def day_ms_def)
  ultimately have accepted: "acceptance env (freshId env 0) user t = Some (a, ?row, u)"
    using assms(2,3) by (simp add: acceptance_def)
  obtain res t' where run: "acceptUserInvitation env (freshId env 0) user t = (res, t')" by fastforce
  note after = accept_goes_through[OF run accepted]
  have "users t' = upd_rows (\<lambda>r. u_id r = a) (accepted_account ?row) (users t)"
    using arg_cong[OF conjunct2[OF after], of users] by (simp add: after_acceptance_def)
  then have "find_user a t' = Some (accepted_account ?row u)"
    using assms(13) rows(2) unfolding find_user_def row_find_def by (simp add: find_upd_rows_same)
  moreover have "u_role (accepted_account ?row u) = role"
    using assms(14) \<open>iv_role ?row = role\<close> by (simp add: accepted_account_def membership_only_def Let_def)
  ultimately show ?thesis
    using t(1) run after i(1) by metis
qed

definition organization_admin :: user where
  "organization_admin = sample_user\<lparr> u_id := ''a1'', u_role := ORG_ADMIN, u_email := Some ''ada@works.org'' \<rparr>"

definition account_db :: db where
  "account_db = (sample_db [])\<lparr> users := [organization_admin] \<rparr>"

definition account_session :: "user \<Rightarrow> jwt_user" where
  "account_session u = jwt_user.truncate (session_of u)"

theorem organization_admin_takes_any_unlisted_role_witness:
  "\<exists>w t w' t' u'. inviteUser sample_env (role_payload PLATFORM_SUPER_ADMIN ''ada@works.org'') (account_session organization_admin)
       account_db = (Inr (Invited w), t) \<and>
     acceptUserInvitation sample_env (vw_id w) (account_session organization_admin) t = (Inr w', t') \<and>
     find_user ''a1'' t' = Some u' \<and> u_role u' = PLATFORM_SUPER_ADMIN"
proof (rule organization_admin_takes_any_unlisted_role[where x = "''org1''"])
  show "find_organization ''org1'' account_db = Some sample_organization" by code_simp
  show "find_user ''a1'' account_db = Some organization_admin" by code_simp
  show "find_contact (Some ''ada@works.org'') None account_db = Some organization_admin" by code_simp
  show "\<forall>v\<in>set (invitations account_db). iv_role v \<noteq> PLATFORM_SUPER_ADMIN \<and> iv_id v \<noteq> freshId sample_env 0"
    by (simp add: account_db_def sample_db_def)
qed (code_simp+)

section \<open>Invitations at work\<close>

definition sample_invitation :: "user_role \<Rightarrow> invitation" where
  "sample_invitation role =
     (invited_row sample_env role (Some ''org1'') (Some ''ada@works.org'') None ''Ada'' ''s1'' None False)\<lparr> iv_id := ''i1'' \<rparr>"

definition invitation_db :: "user_role \<Rightarrow> db" where
  "invitation_db role = account_db\<lparr> invitations := [sample_invitation role] \<rparr>"

text \<open>The admin accepts, then tries to decline and to revoke what was accepted.\<close>

definition settled_db :: db where
  "settled_db = snd (perform_account sample_env (account_session organization_admin) (Accept_invitation_of ''i1'')
     (invitation_db PROVIDER))"

definition after_settling :: db where
  "after_settling = foldl (\<lambda>s req. snd (invitation_perform (Inl (sample_env, account_session organization_admin, req)) s))
     settled_db [Decline_invitation_of ''i1'', Revoke_invitation ''i1'']"

definition settled_row :: invitation where
  "settled_row = accepted_invitation sample_env (sample_invitation PROVIDER) ''a1'' PROVIDER (sample_invitation PROVIDER)"

theorem invitation_settled_once_witness: "settled_as ''i1'' settled_row after_settling"
proof (rule invitation_settled_once)
  show "history_of invitation_perform (\<lambda>q. new_id_of q \<noteq> ''i1'') settled_db after_settling"
    unfolding after_settling_def foldl.simps
    by (rule history_next[OF history_next[OF history_start _ surjective_pairing] _ surjective_pairing]) code_simp+
  show "settled_as ''i1'' settled_row settled_db" by code_simp
qed

theorem acceptance_exact_witness:
  "business settled_db = after_acceptance sample_env ''i1'' (''a1'', sample_invitation PROVIDER, organization_admin)
     (business (invitation_db PROVIDER))"
proof -
  let ?run = "acceptUserInvitation sample_env ''i1'' (account_session organization_admin) (invitation_db PROVIDER)"
  have "acceptance sample_env ''i1'' (account_session organization_admin) (invitation_db PROVIDER) =
      Some (''a1'', sample_invitation PROVIDER, organization_admin)" by code_simp
  moreover have "settled_db = snd ?run"
    by (cases ?run; cases "fst ?run") (simp_all add: settled_db_def ignore_result_def)
  ultimately show ?thesis
    using acceptance_exact[OF surjective_pairing, where env = sample_env and i = "''i1''"
      and user = "account_session organization_admin" and s = "invitation_db PROVIDER"]
    by simp
qed

end
