(* ===== verification/Account_Theorems.thy ===== *)
theory Account_Theorems imports Invitation_Theorems Assignment_Theorems begin

text \<open>
  Who gains what through account administration: only a super admin makes super admins, an organization admin
  stays within the organization, and the cases in which the rules of one service are not those of another
  (the last super admin, seats, roles behind a switch).
\<close>

section \<open>Super admins\<close>

definition ordinary_accounts :: "string set \<Rightarrow> 's tables_scheme \<Rightarrow> bool" where
  "ordinary_accounts U s \<longleftrightarrow>
     list_all (\<lambda>v. iv_role v \<notin> super_admin_roles) (invitations s) \<and>
     list_all (\<lambda>u. u_id u \<in> U \<or> u_role u \<notin> super_admin_roles) (users s)"

abbreviation accounts :: "'s tables_scheme \<Rightarrow> user list \<times> invitation list" where
  "accounts s \<equiv> (users s, invitations s)"

lemma ordinary_leaves: "leaves accounts m \<Longrightarrow> keeps (ordinary_accounts U) (m :: 'a handler)"
  by (erule keeps_leaves) (simp add: ordinary_accounts_def)

lemma leaves_accounts: "leaves business m \<Longrightarrow> leaves accounts (m :: 'a handler)"
  by (rule leavesI) (metis leavesD business_fields(2,12))

lemma ordinary_quiet: "quiet business m \<Longrightarrow> keeps (ordinary_accounts U) (m :: 'a handler)"
  by (intro ordinary_leaves leaves_accounts leaves_quiet)

lemma ordinary_reads: "reads m \<Longrightarrow> keeps (ordinary_accounts U) (m :: 'a handler)"
  by (metis keepsI readsD)

lemma ordinary_update_user:
  assumes "\<And>u. u_id (f u) = u_id u" and "\<And>u. u_role (f u) \<in> super_admin_roles \<Longrightarrow> u_role u \<in> super_admin_roles"
  shows "keeps (ordinary_accounts U) (update_user i f :: user handler)"
  unfolding update_user_def
  by (rule keeps_row_update) (use assms in \<open>auto simp: ordinary_accounts_def intro!: list_all_upd_rows\<close>)

lemma ordinary_update_invitation:
  "(\<And>v. iv_role (f v) = iv_role v) \<Longrightarrow> keeps (ordinary_accounts U) (update_invitation i f :: invitation handler)"
  unfolding update_invitation_def
  by (rule keeps_row_update) (auto simp: ordinary_accounts_def intro!: list_all_upd_rows)

lemma ordinary_modify:
  "iv_role v \<notin> super_admin_roles \<Longrightarrow>
     keeps (ordinary_accounts U) (modify (invitations_update (\<lambda>rows. rows @ [v])) :: unit handler)"
  "(\<And>v. iv_role (f v) = iv_role v) \<Longrightarrow> keeps (ordinary_accounts U) (modify (invitations_update (upd_rows K f)) :: unit handler)"
  by (rule keeps_modify; auto simp: ordinary_accounts_def intro!: list_all_upd_rows)+

lemma ordinary_membership:
  "keeps (ordinary_accounts U) (upsert_membership p x b :: unit handler)"
  "keeps (ordinary_accounts U) (accepted_membership v a u)"
  by (auto intro!: ordinary_leaves simp: leaves_def upsert_run membership_run)

lemmas ordinary_steps = keeps_rules ordinary_membership ordinary_reads[OF reads_getUser]
  ordinary_quiet[OF quiet_user_audit] ordinary_quiet[OF quiet_user_notice] ordinary_quiet[OF quiet_invite_effects]
  ordinary_quiet[OF quiet_acceptance_effects] ordinary_quiet[OF quiet_notifyInvitedIdentity]
  ordinary_reads[OF reads_account_input(2)] ordinary_reads[OF reads_account_input(4)]
  ordinary_reads[OF reads_account_input(5)] ordinary_reads[OF reads_invitation_input(1)]
  ordinary_reads[OF reads_invitation_input(2)] ordinary_reads[OF reads_invitation_input(3)]
  ordinary_reads[OF reads_invitation_input(4)] ordinary_reads[OF reads_invitation_input(5)]
  ordinary_reads[OF reads_invitation_input(6)]

lemma edit_fields [simp]: "u_id (edit_email e u) = u_id u" "u_role (edit_email e u) = u_role u"
  by (simp_all add: edit_email_def split: option.split)

lemma profile_edit_fields:
  "u_id (profile_edit dto user existing email role plan u) = u_id u"
  "u_role (profile_edit dto user existing email role plan u) = or_else role (u_role u)"
  unfolding profile_edit_def Let_def
  by (simp_all split: option.split bool.split)

lemma edited_role_none: "j_role user \<noteq> SUPER_ADMIN \<Longrightarrow> yields (\<lambda>r. r = None) (edited_role dto user)"
  unfolding edited_role_def by (auto intro!: yields_rules split: option.split bool.split)

lemma ordinary_update: "j_role user \<noteq> SUPER_ADMIN \<Longrightarrow> keeps (ordinary_accounts U) (updateUser i dto user)"
  unfolding updateUser_def
  apply (rule keeps_bnd, rule ordinary_reads, rule reads_getUser)
  apply (rule keeps_bnd, rule keeps_throw_if)
  apply (rule keeps_bnd, rule ordinary_reads, rule reads_account_input)
  apply (rule keeps_bnd_yields[OF _ edited_role_none], rule ordinary_reads, rule reads_account_input, assumption)
  apply (intro ordinary_steps ordinary_update_user)
   apply (simp_all add: profile_edit_fields)
  done

lemma ordinary_status:
  "keeps (ordinary_accounts U) (setUserStatus i status user)"
  "keeps (ordinary_accounts U) (resendUserInvitation i user)"
  "keeps (ordinary_accounts U) (approveProviderRequest env i user)"
  "keeps (ordinary_accounts U) (rejectProviderRequest i user)"
  unfolding setUserStatus_def resendUserInvitation_def approveProviderRequest_def rejectProviderRequest_def Let_def
  by (intro ordinary_steps ordinary_update_user; simp add: approved_provider_def super_admin_roles_def)+

text \<open>The body of an invitation asks for the platform's super role.\<close>

definition asks_for_super :: "payload \<Rightarrow> bool" where
  "asks_for_super dto \<longleftrightarrow>
     role_named (toUpperCase (trim (json_text (or_else (map_of dto ''role'') JNull)))) = Some PLATFORM_SUPER_ADMIN"

lemma ordinary_invite:
  assumes "\<not> asks_for_super dto"
  shows "keeps (ordinary_accounts U) (inviteUser env dto user)"
proof -
  have parsed: "yields (\<lambda>role. role \<noteq> PLATFORM_SUPER_ADMIN) (parseInvitableRole (map_of dto ''role'') :: user_role handler)"
    using assms by (auto simp: yields_def parseInvitableRole_def asks_for_super_def split: option.splits)
  have contact: "keeps (ordinary_accounts U) (invite_contact env dto user a role x email phone)"
    if "role \<notin> super_admin_roles" for a role x email phone
    unfolding invite_contact_def Let_def
    by (intro ordinary_steps ordinary_modify) (use that in \<open>simp add: invited_row_def\<close>)
  show ?thesis
    unfolding inviteUser_def Let_def
    apply (rule keeps_bnd_yields[OF _ parsed], rule ordinary_reads, rule reads_invitation_input)
    apply (rule keeps_bnd, rule keeps_require)
    apply (rule keeps_past_guard)
    apply (rule keeps_past_guard)
    apply (intro ordinary_steps contact)
    apply (simp add: super_admin_roles_def)
    done
qed

lemma ordinary_discovered: "keeps (ordinary_accounts U) (inviteDiscoveredProvider env p dto user)"
proof -
  have "\<not> asks_for_super (discovery_payload x u)" for x u
  proof -
    have "role_named (toUpperCase (trim ''PROVIDER'')) = Some PROVIDER" by code_simp
    then show ?thesis by (simp add: asks_for_super_def discovery_payload_def)
  qed
  then show ?thesis
    unfolding inviteDiscoveredProvider_def
    by (intro ordinary_steps ordinary_invite ordinary_update_invitation) (simp_all add: discovered_invitation_def)
qed

lemma ordinary_refuse: "keeps (ordinary_accounts U) (refuse_expired env v)"
  unfolding refuse_expired_def by (intro ordinary_steps ordinary_update_invitation) simp

lemma ordinary_scoped: "keeps (ordinary_accounts U) (scoped_invitation i user)"
  unfolding scoped_invitation_def buildInvitationScope_def by (intro ordinary_steps)

lemma ordinary_decisions:
  "keeps (ordinary_accounts U) (cancelInvitation env i user status)"
  "keeps (ordinary_accounts U) (revokeInvitation env i user)"
  "keeps (ordinary_accounts U) (resendInvitation env i user)"
  "keeps (ordinary_accounts U) (getMyInvitations env user)"
  "keeps (ordinary_accounts U) (declineInvitation env i user)"
  unfolding revokeInvitation_def cancelInvitation_def resendInvitation_def getMyInvitations_def declineInvitation_def Let_def
  by (intro ordinary_steps ordinary_scoped ordinary_refuse ordinary_update_invitation ordinary_modify;
      simp add: resend_data_def declined_invitation_def)+

lemma accepted_role: "u_role (accepted_account v u) = u_role u \<or> u_role (accepted_account v u) = iv_role v"
  by (simp add: accepted_account_def Let_def)

lemma ordinary_acceptance:
  "iv_role v \<notin> super_admin_roles \<Longrightarrow> keeps (ordinary_accounts U) (acceptance_transaction env i v a)"
  unfolding acceptance_transaction_def
  apply (intro ordinary_steps ordinary_refuse ordinary_update_user ordinary_update_invitation)
    apply simp
  using accepted_role apply metis
  apply (simp add: accepted_invitation_def)
  done

lemma ordinary_accept: "keeps (ordinary_accounts U) (acceptUserInvitation env i user)"
  unfolding acceptUserInvitation_def
  apply (rule keeps_bnd, rule keeps_require)
  apply (rule keeps_gets_found[where Q = "\<lambda>v. iv_role v \<notin> super_admin_roles"])
   apply (auto simp: ordinary_accounts_def list_all_iff dest!: find_invitation_SomeD)[1]
  apply (intro ordinary_steps ordinary_refuse ordinary_acceptance)
  apply assumption
  done

definition below_super :: "account_step \<Rightarrow> bool" where
  "below_super = (\<lambda>(env, user, req). j_role user \<noteq> SUPER_ADMIN \<and>
     (case req of Invite_user dto \<Rightarrow> \<not> asks_for_super dto | _ \<Rightarrow> True))"

interpretation ordinary: service_invariant account_perform "ordinary_accounts U" below_super
proof
  show "keeps (ordinary_accounts U) (account_perform q)" if "below_super q" for q
    using that by (cases q; cases "snd (snd q)") (simp_all add: below_super_def account_perform_def keeps_ignore_result
      ordinary_update ordinary_status ordinary_invite ordinary_discovered ordinary_decisions ordinary_accept)
qed

text \<open>
  C20: Only super admins make super admins: along every history of requests by anyone else in which nobody is
  invited as platform super admin, the accounts in a super role are among those there were before.
\<close>

theorem super_roles_only_by_super_admins:
  assumes "history_of account_perform below_super s t" and "list_all (\<lambda>v. iv_role v \<notin> super_admin_roles) (invitations s)"
  shows "super_admin_ids t \<subseteq> super_admin_ids s"
proof -
  have "ordinary_accounts (super_admin_ids s) s"
    using assms(2) by (auto simp: ordinary_accounts_def super_admin_ids_def list_all_iff)
  from ordinary.along[OF assms(1) this] show ?thesis
    by (auto simp: ordinary_accounts_def super_admin_ids_def list_all_iff)
qed


definition promotion_attempt :: db where
  "promotion_attempt = foldl (\<lambda>s req. snd (account_perform (sample_env, account_session organization_admin, req) s))
     (invitation_db PROVIDER)
     [Update_user ''a1'' [(''role'', JStr ''SUPER_ADMIN'')], Invite_user (role_payload SUPER_ADMIN ''eve@works.org''),
      Accept_invitation_of ''i1'']"

theorem super_roles_only_by_super_admins_witness:
  "super_admin_ids promotion_attempt \<subseteq> super_admin_ids (invitation_db PROVIDER) \<and>
   map u_role (users promotion_attempt) = [PROVIDER]"
proof (intro conjI super_roles_only_by_super_admins)
  show "history_of account_perform below_super (invitation_db PROVIDER) promotion_attempt"
    unfolding promotion_attempt_def foldl.simps
    by (rule history_next[OF history_next[OF history_next[OF history_start _ surjective_pairing] _ surjective_pairing]
          _ surjective_pairing]) code_simp+
qed code_simp+

section \<open>The scope of an administrator\<close>

text \<open>What an administrator other than a super admin may do to an account.\<close>

definition scoped_edit :: "jwt_user \<Rightarrow> 's tables_scheme \<Rightarrow> user \<Rightarrow> user \<Rightarrow> bool" where
  "scoped_edit user s u u' \<longleftrightarrow>
     in_scope user s u \<and> u_role u \<noteq> SUPER_ADMIN \<and> u_id u' = u_id u \<and> u_organizationId u' = u_organizationId u \<and>
     (u_role u' = u_role u \<or> u_role u = PENDING_PROVIDER \<and> u_role u' = PROVIDER)"

definition edits_in_scope :: "jwt_user \<Rightarrow> 's tables_scheme \<Rightarrow> 's tables_scheme \<Rightarrow> bool" where
  "edits_in_scope user s t \<longleftrightarrow>
     users t = users s \<or>
     (\<exists>u f. u \<in> set (users s) \<and> scoped_edit user s u (f u) \<and> users t = upd_rows (\<lambda>r. u_id r = u_id u) f (users s))"

text \<open>\<open>scoped_run user s m\<close>: run on \<open>s\<close>, the operation edits at most one account, and that within the scope.\<close>

definition scoped_run :: "jwt_user \<Rightarrow> 's tables_scheme \<Rightarrow> ('s tables_scheme, 'a) svc \<Rightarrow> bool" where
  "scoped_run user s m \<longleftrightarrow> edits_in_scope user s (snd (m s))"

lemma scoped_leaves: "leaves users m \<Longrightarrow> scoped_run user s m"
  by (simp add: scoped_run_def edits_in_scope_def leaves_def)

lemma scoped_guard: "(\<not> c \<Longrightarrow> scoped_run user s m) \<Longrightarrow> scoped_run user s (sq (throw_if c e) m)"
  by (simp add: scoped_run_def bnd_guard edits_in_scope_def)

lemma scoped_reads: "reads m \<Longrightarrow> (\<And>x. scoped_run user s (f x)) \<Longrightarrow> scoped_run user s (bnd m f)"
  unfolding scoped_run_def
  by (cases "m s"; cases "fst (m s)") (auto simp: edits_in_scope_def dest: readsD)

lemma scoped_post:
  assumes "reads m" and "yields Q m" and "\<And>x. Q x \<Longrightarrow> scoped_run user s (f x)"
  shows "scoped_run user s (bnd m f)"
proof (cases "m s")
  case (Pair x w)
  then have "w = s" using readsD[OF assms(1)] by simp
  then show ?thesis
    using Pair assms(3) yieldsD[OF assms(2)] by (cases x) (auto simp: scoped_run_def edits_in_scope_def)
qed

lemma scoped_getUser:
  fixes s :: db
  assumes "\<And>u. u \<in> set (users s) \<Longrightarrow> u_id u = i \<Longrightarrow> in_scope user s u \<Longrightarrow> scoped_run user s (f u)"
  shows "scoped_run user s (bnd (getUser i user) f)"
proof (cases "getUser i user s")
  case (Pair x w)
  have w: "w = s" using readsD[OF reads_getUser Pair] .
  show ?thesis
  proof (cases x)
    case (Inl e)
    then show ?thesis using Pair w by (simp add: scoped_run_def edits_in_scope_def)
  next
    case (Inr u)
    then have "u \<in> set (users s) \<and> u_id u = i \<and> in_scope user s u"
      using Pair unfolding getUser_def buildAdminScope_def
      by (auto simp: bnd_assoc bnd_guard bnd_runs(5) split: if_splits option.splits dest: find_SomeD)
    then show ?thesis using assms[of u] Pair w Inr by (simp add: scoped_run_def)
  qed
qed

lemma scoped_update:
  assumes "u \<in> set (users s)" and "scoped_edit user s u (f u)" and "\<And>w. leaves users (h w)"
  shows "scoped_run user s (bnd (update_user (u_id u) f) h)"
proof (cases "find_user (u_id u) s")
  case None
  then show ?thesis
    using user_table.update_missing[OF None, of f] by (simp add: scoped_run_def edits_in_scope_def)
next
  case (Some v)
  obtain r t where run: "h (f v) (put_user (u_id u) f s) = (r, t)" by fastforce
  have "users t = upd_rows (\<lambda>r. u_id r = u_id u) f (users s)"
    using leavesD[OF assms(3) run] by (simp add: put_user_def row_put_def)
  then show ?thesis
    using user_table.update_runs[OF Some, of f] run assms(1,2) unfolding scoped_run_def edits_in_scope_def by auto
qed

lemma leaves_users_effects [leaves_rules]:
  "leaves users (user_audit action user metadata)"
  "leaves users (upsert_membership p x b :: unit handler)"
  by (intro leaves_users leaves_quiet quiet_rules) (auto simp: leaves_def upsert_run)

lemma profile_edit_organization:
  "j_role user \<noteq> SUPER_ADMIN \<Longrightarrow> u_organizationId (profile_edit dto user existing email role plan u) = u_organizationId u"
  unfolding profile_edit_def edited_organization_def edit_email_def Let_def
  by (simp split: option.split bool.split)

lemma scoped_accounts:
  fixes s :: db
  assumes "j_role user \<noteq> SUPER_ADMIN"
  shows "scoped_run user s (updateUser i dto user)" "scoped_run user s (setUserStatus i status user)"
    "scoped_run user s (approveProviderRequest env i user)" "scoped_run user s (rejectProviderRequest i user)"
    "scoped_run user s (resendUserInvitation i user)"
proof -
  show "scoped_run user s (setUserStatus i status user)"
    unfolding setUserStatus_def
    apply (rule scoped_guard, rule scoped_getUser, rule scoped_guard, rule scoped_reads)
     apply (intro reads_rules)
    apply (hypsubst, rule scoped_update, assumption)
    using assms by (auto simp: scoped_edit_def intro!: leaves_rules)
  show "scoped_run user s (approveProviderRequest env i user)" "scoped_run user s (rejectProviderRequest i user)"
    unfolding approveProviderRequest_def rejectProviderRequest_def Let_def
    by (rule scoped_getUser, rule scoped_guard, hypsubst, rule scoped_update, assumption,
        (auto simp: scoped_edit_def approved_provider_def)[1], intro leaves_rules)+
  show "scoped_run user s (resendUserInvitation i user)"
    unfolding resendUserInvitation_def
    by (rule scoped_leaves) (intro leaves_rules leaves_reads[OF reads_getUser])
  show "scoped_run user s (updateUser i dto user)"
    unfolding updateUser_def
    apply (rule scoped_getUser, rule scoped_guard, rule scoped_reads, rule reads_account_input)
    apply (rule scoped_post[OF _ edited_role_none[OF assms]], rule reads_account_input)
    apply (rule scoped_reads, rule reads_account_input, rule scoped_reads, rule reads_account_input)
    apply (hypsubst, rule scoped_update, assumption)
    using assms by (auto simp: scoped_edit_def profile_edit_fields profile_edit_organization intro!: leaves_rules)
qed

lemma leaves_users_invitations:
  "leaves users (inviteUser env dto user)" "leaves users (inviteDiscoveredProvider env p dto user)"
  "leaves users (cancelInvitation env i user status)" "leaves users (revokeInvitation env i user)"
  "leaves users (resendInvitation env i user)" "leaves users (getMyInvitations env user)"
  "leaves users (declineInvitation env i user)"
proof -
  have effects: "leaves users (invite_effects user v u x)" "leaves users (notifyInvitedIdentity v type title message)"
      "leaves users (user_notice k type title message)" for user v u x type title message k
    by (intro leaves_users leaves_quiet quiet_rules)+
  have refuse: "leaves users (refuse_expired env v)" for v
    unfolding refuse_expired_def by (intro leaves_rules leaves_users_tables)
  have scoped: "leaves users (scoped_invitation k user)" for k
    unfolding scoped_invitation_def buildInvitationScope_def by (intro leaves_rules)
  show invite: "leaves users (inviteUser env dto user)" for dto
    unfolding inviteUser_def invite_contact_def Let_def
    by (intro leaves_rules leaves_users_tables effects leaves_reads[OF reads_invitation_input(1)]
        leaves_reads[OF reads_invitation_input(2)] leaves_reads[OF reads_invitation_input(4)]
        leaves_reads[OF reads_invitation_input(5)] leaves_reads[OF reads_invitation_input(6)])
  show "leaves users (inviteDiscoveredProvider env p dto user)"
    unfolding inviteDiscoveredProvider_def
    by (intro leaves_rules leaves_users_tables invite leaves_users_effects leaves_reads[OF reads_invitation_input(3)])
  show "leaves users (cancelInvitation env i user status)" "leaves users (revokeInvitation env i user)"
    "leaves users (resendInvitation env i user)"
    unfolding revokeInvitation_def cancelInvitation_def resendInvitation_def
    by (intro leaves_rules leaves_users_tables effects leaves_users_effects scoped refuse)+
  show "leaves users (getMyInvitations env user)" "leaves users (declineInvitation env i user)"
    unfolding getMyInvitations_def declineInvitation_def Let_def
    by (intro leaves_rules leaves_users_tables effects leaves_users_effects refuse)+
qed

definition no_acceptance_of :: "account_request \<Rightarrow> bool" where
  "no_acceptance_of req \<longleftrightarrow> (case req of Accept_invitation_of i \<Rightarrow> False | _ \<Rightarrow> True)"

lemma perform_in_scope:
  assumes "perform_account env user req s = (res, t)" and "j_role user \<noteq> SUPER_ADMIN" and "no_acceptance_of req"
  shows "edits_in_scope user s t"
proof -
  have ignored: "scoped_run user s (ignore_result m)" if "scoped_run user s m" for m :: "'a handler"
    using that by (cases "m s"; cases "fst (m s)") (simp_all add: ignore_result_def scoped_run_def)
  have "scoped_run user s (perform_account env user req)"
    using assms(2,3) by (cases req) (auto simp: no_acceptance_of_def intro!: ignored scoped_accounts
      scoped_leaves[OF leaves_users_invitations(1)] scoped_leaves[OF leaves_users_invitations(2)]
      scoped_leaves[OF leaves_users_invitations(3)] scoped_leaves[OF leaves_users_invitations(4)]
      scoped_leaves[OF leaves_users_invitations(5)] scoped_leaves[OF leaves_users_invitations(6)]
      scoped_leaves[OF leaves_users_invitations(7)])
  then show ?thesis
    using assms(1) by (simp add: scoped_run_def)
qed

text \<open>An account takes an open invitation that names the one who asks, for the own account.\<close>

definition takes_invitation :: "jwt_user \<Rightarrow> account_request \<Rightarrow> 's tables_scheme \<Rightarrow> user \<Rightarrow> user \<Rightarrow> bool" where
  "takes_invitation user req s u u' \<longleftrightarrow> actor_id user = Some (u_id u) \<and> u_id u' = u_id u \<and>
     list_ex (\<lambda>v. req = Accept_invitation_of (iv_id v) \<and> iv_status v = IV_PENDING \<and> invitee_matches v user \<and>
       (u_role u' = u_role u \<or> u_role u' = iv_role v) \<and>
       (u_organizationId u' = u_organizationId u \<or> u_organizationId u' = iv_organizationId v)) (invitations s)"

lemma accept_own_account:
  assumes "acceptUserInvitation env i user s = (res, t)" and "distinct (map u_id (users s))"
  shows "list_all2 (\<lambda>u u'. u' = u \<or> takes_invitation user (Accept_invitation_of i) s u u') (users s) (users t)"
proof (cases "acceptance env i user s")
  case None
  from accept_refused[OF assms(1) this] have "users t = users s" by (auto simp: at_most_expired_def)
  then show ?thesis by (simp add: list.rel_refl)
next
  case (Some x)
  then obtain a v u where x: "acceptance env i user s = Some (a, v, u)" by (cases x) simp
  have t: "users t = upd_rows (\<lambda>r. u_id r = a) (accepted_account v) (users s)"
    using arg_cong[OF conjunct2[OF accept_goes_through[OF assms(1) x]], of users] by (simp add: after_acceptance_def)
  note found = find_invitation_SomeD[of i s v] find_user_SomeD[of a s u]
  have facts: "find_invitation i s = Some v" "find_user a s = Some u" "actor_id user = Some a" "iv_status v = IV_PENDING"
      "invitee_matches v user"
    using x unfolding acceptance_def by (auto simp: nonempty_def split: option.splits if_splits)
  have "takes_invitation user (Accept_invitation_of i) s r (accepted_account v r)" if "u_id r = a" for r
    using facts found that by (auto simp: takes_invitation_def list_ex_iff accepted_account_def Let_def)
  then show ?thesis
    unfolding t upd_rows_def list_all2_map2 by (auto intro!: list.rel_refl_strong)
qed

text \<open>
  C22: An administrator below super admin stays in the organization: where account ids are unique, whatever request of
  account administration one makes, each account stays as it is, or it is no super admin, belongs to the
  organization (or is a provider with an active membership of it) and keeps its id, its organization and its role,
  except that a provider request can become a provider; or it is the requester's own account, and the request accepts
  a pending invitation that names the requester, and then role and organization stay or become the invited ones.
\<close>

theorem administrators_stay_in_scope:
  assumes "perform_account env user req s = (res, t)" and "j_role user \<noteq> SUPER_ADMIN" and "distinct (map u_id (users s))"
  shows "list_all2 (\<lambda>u u'. u' = u \<or> scoped_edit user s u u' \<or> takes_invitation user req s u u') (users s) (users t)"
proof (cases "no_acceptance_of req")
  case True
  from perform_in_scope[OF assms(1,2) this] show ?thesis unfolding edits_in_scope_def
  proof (elim disjE exE conjE)
    assume "users t = users s"
    then show ?thesis by (simp add: list.rel_refl)
  next
    fix u f
    assume u: "u \<in> set (users s)" "scoped_edit user s u (f u)" and t: "users t = upd_rows (\<lambda>r. u_id r = u_id u) f (users s)"
    have "r = u" if "r \<in> set (users s)" "u_id r = u_id u" for r
      using that u(1) assms(3) by (auto simp: distinct_map dest: inj_onD)
    then show ?thesis
      unfolding t upd_rows_def list_all2_map2 using u(2) by (auto intro!: list.rel_refl_strong)
  qed
next
  case False
  then obtain i where i: "req = Accept_invitation_of i" by (cases req) (auto simp: no_acceptance_of_def)
  with assms(1) obtain res' where "acceptUserInvitation env i user s = (res', t)"
    by (auto simp: ignore_result_def elim!: bndE)
  from accept_own_account[OF this assms(3)] show ?thesis
    unfolding i by (rule list.rel_mono_strong) blast
qed

definition citizen_db :: db where
  "citizen_db = account_db\<lparr> users := [organization_admin, sample_user] \<rparr>"

theorem administrators_stay_in_scope_witness:
  "list_all2 (\<lambda>u u'. u' = u \<or> scoped_edit (account_session organization_admin) citizen_db u u' \<or>
       takes_invitation (account_session organization_admin) (Set_user_status ''u1'' SUSPENDED) citizen_db u u') (users citizen_db)
     (users (snd (perform_account sample_env (account_session organization_admin) (Set_user_status ''u1'' SUSPENDED) citizen_db)))"
  by (rule administrators_stay_in_scope[OF surjective_pairing]) code_simp+

lemma filter_upd_rows_gone:
  "(\<And>r. \<not> P (f r)) \<Longrightarrow> filter P (upd_rows K f rows) = filter (\<lambda>r. P r \<and> \<not> K r) rows"
  by (induction rows) simp_all

section \<open>The last super admin\<close>

definition active_super_admins :: "'s tables_scheme \<Rightarrow> user list" where
  "active_super_admins s = filter (\<lambda>u. u_role u = SUPER_ADMIN \<and> u_accountStatus u = ACTIVE) (users s)"

lemma getUser_super:
  assumes "j_role user = SUPER_ADMIN" and "find_user i s = Some u"
  shows "getUser i user s = (Inr u, s)"
  using assms by (simp add: getUser_def buildAdminScope_def bnd_runs(5) in_scope_def find_user_def row_find_def)

text \<open>
  The final active super admin cannot be suspended, but can be demoted: no request to set another status
  succeeds, and yet an edit of the role - by the super admin's own request - leaves no active super admin.
\<close>

theorem last_super_admin_demoted:
  assumes "j_role user = SUPER_ADMIN" and "find_user i s = Some u" and "active_super_admins s = [u]"
    and "distinct (map u_id (users s))"
  shows "(\<forall>status\<in>{SUSPENDED, DEACTIVATED}. \<forall>admin. \<exists>e. setUserStatus i status admin s = (Inl e, s)) \<and>
    (\<exists>t u'. updateUser i [(''role'', JStr ''CITIZEN'')] user s = (Inr u', t) \<and> active_super_admins t = [])"
proof (intro conjI ballI allI)
  have i: "u_id u = i" and super: "u_role u = SUPER_ADMIN" "u \<in> set (users s)"
  proof -
    have "u \<in> set (active_super_admins s)" using assms(3) by simp
    then show "u_role u = SUPER_ADMIN" by (simp add: active_super_admins_def)
  qed (use find_user_SomeD[OF assms(2)] in auto)
  have only: "r = u" if "r \<in> set (users s)" "u_id r = i" for r
    using that i super(2) assms(4) by (auto simp: distinct_map dest: inj_onD)
  have others: "filter (\<lambda>r. u_role r = SUPER_ADMIN \<and> u_accountStatus r = ACTIVE \<and> u_id r \<noteq> i) (users s) = []"
  proof -
    have "filter (\<lambda>r. u_role r = SUPER_ADMIN \<and> u_accountStatus r = ACTIVE \<and> u_id r \<noteq> i) (users s) =
        filter (\<lambda>r. u_id r \<noteq> i) (active_super_admins s)"
      by (simp add: active_super_admins_def conj_ac)
    then show ?thesis by (simp add: assms(3) i)
  qed
  show "\<exists>e. setUserStatus i status admin s = (Inl e, s)" if "status \<in> {SUSPENDED, DEACTIVATED}" for status admin
  proof (cases "getUser i admin s")
    case (Pair x w)
    have w: "w = s" using readsD[OF reads_getUser Pair] .
    show ?thesis
    proof (cases x)
      case (Inl e)
      then show ?thesis using Pair w by (simp add: setUserStatus_def bnd_guard)
    next
      case (Inr v)
      then have "v \<in> set (users s)" "u_id v = i"
        using Pair unfolding getUser_def buildAdminScope_def
        by (auto simp: bnd_assoc bnd_guard bnd_runs(5) split: if_splits option.splits dest: find_SomeD)
      then have "v = u" by (rule only)
      then show ?thesis
        using Pair Inr w super that others by (auto simp: setUserStatus_def bnd_guard bnd_runs(5))
    qed
  qed
  let ?f = "profile_edit [(''role'', JStr ''CITIZEN'')] user u None (Some CITIZEN) None"
  have edit: "?f = (\<lambda>v. v\<lparr>u_role := CITIZEN\<rparr>)"
    by (rule ext) (simp add: profile_edit_def text_field_def trimmed_def edited_organization_def string_items_def Let_def)
  have named: "role_named ''CITIZEN'' = Some CITIZEN" by code_simp
  obtain r t where tail: "sq (user_audit ''User Profile Updated'' user [(''targetUserId'', JStr i),
      (''changes'', JArr (map JStr (edit_keys [(''role'', JStr ''CITIZEN'')] user u None)))]) (ret (u\<lparr>u_role := CITIZEN\<rparr>))
      (put_user i ?f s) = (r, t)"
    by fastforce
  have "updateUser i [(''role'', JStr ''CITIZEN'')] user s = (r, t)"
    using assms(1) super named tail getUser_super[OF assms(1,2)] user_table.update_runs[OF assms(2), of ?f]
    by (simp add: updateUser_def bnd_runs edited_email_def edited_role_def edited_plan_def edit_constraints_def
        text_field_def edited_organization_def edit)
  moreover have "r = Inr (u\<lparr>u_role := CITIZEN\<rparr>) \<and> users t = upd_rows (\<lambda>r. u_id r = i) (\<lambda>v. v\<lparr>u_role := CITIZEN\<rparr>) (users s)"
    using quiet_tail[OF quiet_user_audit tail] business_eq_fields(2)[of t "put_user i ?f s"]
    by (simp add: put_user_def row_put_def edit)
  moreover have "filter (\<lambda>r. u_role r = SUPER_ADMIN \<and> u_accountStatus r = ACTIVE)
      (upd_rows (\<lambda>r. u_id r = i) (\<lambda>v. v\<lparr>u_role := CITIZEN\<rparr>) (users s)) = []"
    using others by (subst filter_upd_rows_gone) simp_all
  ultimately show "\<exists>t u'. updateUser i [(''role'', JStr ''CITIZEN'')] user s = (Inr u', t) \<and> active_super_admins t = []"
    by (auto simp: active_super_admins_def)
qed

definition sole_super_admin :: user where
  "sole_super_admin = sample_user\<lparr> u_id := ''s1'', u_role := SUPER_ADMIN \<rparr>"

definition super_db :: db where
  "super_db = account_db\<lparr> users := [sole_super_admin, organization_admin] \<rparr>"

theorem last_super_admin_demoted_witness:
  "\<exists>t u'. updateUser ''s1'' [(''role'', JStr ''CITIZEN'')] (account_session sole_super_admin) super_db = (Inr u', t) \<and>
    active_super_admins t = []"
  by (rule conjunct2, rule last_super_admin_demoted[where u = sole_super_admin]) code_simp+

section \<open>Where the services disagree\<close>

lemma acceptance_facts:
  assumes "acceptance env i user s = Some (a, v, u)"
  shows "find_invitation i s = Some v" "find_user a s = Some u" "actor_id user = Some a" "iv_status v = IV_PENDING"
    "\<not> expired_at (now env) v" "invitee_matches v user"
  using assms unfolding acceptance_def by (auto simp: nonempty_def split: option.splits if_splits)

lemma accepted_run:
  assumes "acceptance env i user s = Some (a, v, u)"
  obtains w t where "acceptUserInvitation env i user s = (Inr w, t)"
    and "business t = after_acceptance env i (a, v, u) (business s)"
    and "users t = upd_rows (\<lambda>r. u_id r = a) (accepted_account v) (users s)"
proof -
  obtain res t where run: "acceptUserInvitation env i user s = (res, t)" by fastforce
  note after = accept_goes_through[OF run assms]
  have "users t = upd_rows (\<lambda>r. u_id r = a) (accepted_account v) (users s)"
    using arg_cong[OF conjunct2[OF after], of users] by (simp add: after_acceptance_def)
  then show thesis using run after that by blast
qed

text \<open>
  Seats are counted when an invitation is sent, never when it is accepted: an account that accepts an open
  invitation joins the organization also when the organization has no seat left, and overruns its quota.
\<close>

theorem acceptance_overruns_seats:
  assumes "acceptance env i user s = Some (a, v, u)" and "iv_organizationId v = Some x" and "x \<noteq> []"
    and "\<not> membership_only u v" and "u_organizationId u \<noteq> Some x" and "distinct (map u_id (users s))"
    and "find_organization x s = Some org" and "o_allowedUsers org = Some q" and "q \<le> int (length (organization_users x s))"
  shows "\<exists>w t. acceptUserInvitation env i user s = (Inr w, t) \<and> find_organization x t = Some org \<and>
    int (length (organization_users x t)) > q"
proof -
  obtain w t where run: "acceptUserInvitation env i user s = (Inr w, t)"
      "business t = after_acceptance env i (a, v, u) (business s)"
      and t: "users t = upd_rows (\<lambda>r. u_id r = a) (accepted_account v) (users s)"
    by (rule accepted_run[OF assms(1)])
  have "organizations t = organizations s"
    using arg_cong[OF run(2), of organizations] by (simp add: after_acceptance_def)
  then have org: "find_organization x t = Some org"
    using assms(7) by (simp add: find_organization_def row_find_def)
  have u: "u \<in> set (users s)" "u_id u = a"
    using find_user_SomeD[OF acceptance_facts(2)[OF assms(1)]] by simp_all
  have joins: "u_organizationId (accepted_account v u) = Some x"
    using assms(2-4) by (simp add: accepted_account_def Let_def)
  have only: "r = u" if "r \<in> set (users s)" "u_id r = a" for r
    using that u assms(6) by (auto simp: distinct_map dest: inj_onD)
  have "length (filter (\<lambda>r. u_organizationId r = Some x) (upd_rows (\<lambda>r. u_id r = a) (accepted_account v) rows)) =
      length (filter (\<lambda>r. u_organizationId r = Some x) rows) + (if u \<in> set rows then 1 else 0)"
    if "set rows \<subseteq> set (users s)" "distinct (map u_id rows)" for rows
    using that
  proof (induction rows)
    case (Cons r rows)
    show ?case
    proof (cases "u_id r = a")
      case True
      then have "r = u" "u \<notin> set rows" using Cons.prems only by (auto simp: u(2)[symmetric])
      then show ?thesis using Cons joins assms(5) True by simp
    next
      case False
      then show ?thesis using Cons u(2) by auto
    qed
  qed simp
  from this[of "users s"] have "length (organization_users x t) = length (organization_users x s) + 1"
    using u(1) assms(6) by (simp add: organization_users_def t)
  then show ?thesis using run(1) org assms(9) by auto
qed

definition joining_admin :: user where
  "joining_admin = organization_admin\<lparr> u_organizationId := None \<rparr>"

definition full_db :: db where
  "full_db = (invitation_db INVESTIGATION_ADMIN)\<lparr> users := [joining_admin, sample_user],
     organizations := [sample_organization\<lparr> o_allowedUsers := Some 1 \<rparr>] \<rparr>"

lemma full_db_acceptance:
  "acceptance sample_env ''i1'' (account_session joining_admin) full_db =
     Some (''a1'', sample_invitation INVESTIGATION_ADMIN, joining_admin)"
  by code_simp

theorem acceptance_overruns_seats_witness:
  "\<exists>w t. acceptUserInvitation sample_env ''i1'' (account_session joining_admin) full_db = (Inr w, t) \<and>
     find_organization ''org1'' t = Some (sample_organization\<lparr> o_allowedUsers := Some 1 \<rparr>) \<and>
     int (length (organization_users ''org1'' t)) > 1"
  by (rule acceptance_overruns_seats[OF full_db_acceptance]) code_simp+

text \<open>
  A role behind a feature switch is out of reach of an invited administrator in internal administration, but
  not through account administration: the same invitation, refused there while its role is switched off, is
  accepted here, and gives the account the role without a grant.
\<close>

theorem switched_off_role_accepted:
  assumes "acceptance env i user s = Some (a, v, u)" and "u_role u \<noteq> SUPER_ADMIN" and "\<not> membership_only u v"
    and "resolveInternalRoleDefinition (iv_role v) = Some d" and "\<not> roleDefinitionEnabled env d"
  shows "(\<exists>e. acceptInvitation env i session ctx s = (Inl e, s)) \<and>
    (\<exists>w t u'. acceptUserInvitation env i user s = (Inr w, t) \<and> find_user a t = Some u' \<and> u_role u' = iv_role v \<and>
      internalRoleAssignments t = internalRoleAssignments s)"
proof
  have "\<not> (case iv_expiresAt v of None \<Rightarrow> False | Some e \<Rightarrow> e \<le> now env)"
    using acceptance_facts(5)[OF assms(1)] by (simp add: expired_at_def)
  then show "\<exists>e. acceptInvitation env i session ctx s = (Inl e, s)"
    using acceptance_facts(1,4)[OF assms(1)] assms(4,5)
    by (cases "admin_actor session s"; cases "fst (admin_actor session s)")
      (auto simp: acceptInvitation_def bnd_guard bnd_runs(3-) requireEnabledRole_def
        dest: readsD[OF reads_admin_input(1)])
  obtain w t where run: "acceptUserInvitation env i user s = (Inr w, t)"
      "business t = after_acceptance env i (a, v, u) (business s)"
      and t: "users t = upd_rows (\<lambda>r. u_id r = a) (accepted_account v) (users s)"
    by (rule accepted_run[OF assms(1)])
  have "find_user a t = Some (accepted_account v u)"
    using acceptance_facts(2)[OF assms(1)] unfolding find_user_def row_find_def t by (simp add: find_upd_rows_same)
  moreover have "u_role (accepted_account v u) = iv_role v"
    using assms(2,3) by (simp add: accepted_account_def Let_def)
  moreover have "internalRoleAssignments t = internalRoleAssignments s"
    using arg_cong[OF run(2), of internalRoleAssignments] by (simp add: after_acceptance_def)
  ultimately show "\<exists>w t u'. acceptUserInvitation env i user s = (Inr w, t) \<and> find_user a t = Some u' \<and>
      u_role u' = iv_role v \<and> internalRoleAssignments t = internalRoleAssignments s"
    using run(1) by blast
qed

theorem switched_off_role_accepted_witness:
  "(\<exists>e. acceptInvitation sample_env ''i1'' (admin_session ''a1'' ORG_ADMIN) None full_db = (Inl e, full_db)) \<and>
   (\<exists>w t u'. acceptUserInvitation sample_env ''i1'' (account_session joining_admin) full_db = (Inr w, t) \<and>
     find_user ''a1'' t = Some u' \<and> u_role u' = INVESTIGATION_ADMIN)"
proof -
  let ?d = "the (resolveInternalRoleDefinition INVESTIGATION_ADMIN)"
  have "resolveInternalRoleDefinition INVESTIGATION_ADMIN = Some ?d" "\<not> roleDefinitionEnabled sample_env ?d"
    by code_simp+
  moreover have "u_role joining_admin \<noteq> SUPER_ADMIN" "\<not> membership_only joining_admin (sample_invitation INVESTIGATION_ADMIN)"
      "iv_role (sample_invitation INVESTIGATION_ADMIN) = INVESTIGATION_ADMIN"
    by code_simp+
  ultimately show ?thesis
    using switched_off_role_accepted[OF full_db_acceptance] by metis
qed

section \<open>From request to assignment\<close>

abbreviation users_reports :: "'s tables_scheme \<Rightarrow> user list \<times> report list" where
  "users_reports s \<equiv> (users s, reports s)"

lemma leaves_users_reports: "leaves business m \<Longrightarrow> leaves users_reports (m :: 'a handler)"
  by (rule leavesI) (metis leavesD business_fields(1,2))

definition approval_tail :: "string \<Rightarrow> string \<Rightarrow> jwt_user \<Rightarrow> user \<Rightarrow> unit handler" where
  "approval_tail i providerId user updated =
     sq (case nonempty (u_organizationId updated) of None \<Rightarrow> ret () | Some x \<Rightarrow> upsert_membership (u_id updated) x True)
        (user_audit ''Provider Request Approved'' user [(''targetUserId'', JStr i), (''providerId'', JStr providerId)])"

lemma leaves_approval_tail: "leaves users_reports (approval_tail i providerId user updated)"
proof -
  have "leaves users_reports (upsert_membership k x b :: unit handler)" for k x b
    by (simp add: leaves_def upsert_run)
  then show ?thesis
    unfolding approval_tail_def
    by (intro leaves_rules leaves_users_reports[OF leaves_quiet[OF quiet_user_audit]])
qed

lemma approve_run:
  assumes "approveProviderRequest env i user s = (Inr p, t)"
  shows "\<exists>x old. find_user i s = Some old \<and> p = approved_provider env x old \<and>
    users t = upd_rows (\<lambda>r. u_id r = i) (approved_provider env x) (users s) \<and> reports t = reports s"
proof -
  from assms obtain u w where u: "getUser i user s = (Inr u, w)"
      and after: "sq (throw_if (u_role u \<noteq> PENDING_PROVIDER) (Forbidden ''User is not a pending provider request''))
        (bnd (update_user i (approved_provider env (or_else (u_providerId u) (generated_provider_id env))))
          (\<lambda>updated. sq (approval_tail i (or_else (u_providerId u) (generated_provider_id env)) user updated) (ret updated))) w =
        (Inr p, t)"
    unfolding approveProviderRequest_def approval_tail_def bnd_assoc Let_def by (rule bnd_InrE)
  have w: "w = s" using readsD[OF reads_getUser u] .
  have rest: "bnd (update_user i (approved_provider env (or_else (u_providerId u) (generated_provider_id env))))
      (\<lambda>updated. sq (approval_tail i (or_else (u_providerId u) (generated_provider_id env)) user updated) (ret updated)) s = (Inr p, t)"
    using after unfolding w bnd_guard by (simp split: if_splits)
  let ?f = "approved_provider env (or_else (u_providerId u) (generated_provider_id env))"
  from rest obtain updated v where v: "update_user i ?f s = (Inr updated, v)"
      and tail: "sq (approval_tail i (or_else (u_providerId u) (generated_provider_id env)) user updated) (ret updated) v = (Inr p, t)"
    by (rule bnd_InrE)
  from tail have "p = updated" and "users_reports t = users_reports v"
    using leavesD[OF leaves_approval_tail] by (auto elim!: bnd_InrE)
  with v show ?thesis
    by (elim user_table.updateE) (auto simp: put_user_def row_put_def)
qed

text \<open>
  C23: An approved provider can be put to work: once a provider request of an organization is approved, a
  dispatcher of that organization can assign a pending report of it to the new provider.
\<close>

theorem approved_provider_can_be_assigned:
  assumes "approveProviderRequest env i user s = (Inr p, t)"
    and "find_report k s = Some r" and "r_status r = PENDING" and "\<not> truthy (r_assignedProviderId r)"
    and "u_organizationId p = Some (r_organizationId r)"
    and "j_role operator \<in> {ORG_ADMIN, DISPATCH_OFFICER}" and "j_organizationId operator = Some (r_organizationId r)"
  shows "\<exists>v. assignProviderById env' k i operator no_options t = (Inr (assign_data env' i r), v)"
proof -
  obtain x old where u: "find_user i s = Some old" "p = approved_provider env x old"
      "users t = upd_rows (\<lambda>r. u_id r = i) (approved_provider env x) (users s)" "reports t = reports s"
    using approve_run[OF assms(1)] by blast
  have "find_user i t = Some p"
    using u(1) unfolding u(2) find_user_def row_find_def u(3)
    by (subst find_upd_rows_same) (auto simp: approved_provider_def)
  moreover have "u_role p = PROVIDER" "u_accountStatus p = ACTIVE"
    by (simp_all add: u(2) approved_provider_def)
  moreover have "find_report k t = Some r"
    using assms(2) u(4) by (simp add: find_report_def row_find_def)
  ultimately show ?thesis
    using assms(3-7) by (elim assign_complete[where s = t and options = no_options])
      (auto simp: assign_accepts_def dispatcher_def belongs_to_def)
qed

definition provider_request :: user where
  "provider_request = sample_user\<lparr> u_id := ''p2'', u_role := PENDING_PROVIDER, u_accountStatus := PENDING_INVITE \<rparr>"

definition request_db :: db where
  "request_db = (sample_db [sample_pending])\<lparr> users := [organization_admin, provider_request] \<rparr>"

theorem approved_provider_can_be_assigned_witness:
  "\<exists>v. assignProviderById sample_env ''r1'' ''p2'' (account_session organization_admin) no_options
      (snd (approveProviderRequest sample_env ''p2'' (account_session organization_admin) request_db)) =
    (Inr (assign_data sample_env ''p2'' sample_pending), v)"
proof -
  let ?run = "approveProviderRequest sample_env ''p2'' (account_session organization_admin) request_db"
  have "fst ?run = Inr (approved_provider sample_env (generated_provider_id sample_env) provider_request)" by code_simp
  then have "?run = (Inr (approved_provider sample_env (generated_provider_id sample_env) provider_request), snd ?run)"
    by (metis prod.collapse)
  from approved_provider_can_be_assigned[OF this, of "''r1''" sample_pending "account_session organization_admin" sample_env]
  show ?thesis
    by (rule meta_mp) code_simp+
qed

end
