(* ===== verification/Totp.thy ===== *)
theory Totp imports Prelude "HOL-Library.Word" begin

text \<open>
  One-time codes (\<open>auth/privileged-mfa.service.ts\<close>, lines 59-63 and 603-659): the base 32 text of a secret,
  its decoding, and the six digits of a time step. Bitwise operations of the source work on 32-bit integers,
  which are words here; the keyed digest is a parameter.
\<close>

unbundle bit_operations_syntax

section \<open>Bytes and 32-bit integers\<close>

type_synonym byte = "8 word"
type_synonym int32 = "32 word"

text \<open>\<open>v << n\<close> and \<open>v >>> n\<close>: the shift count is taken modulo 32.\<close>

definition js_shl :: "int32 \<Rightarrow> nat \<Rightarrow> int32" where
  "js_shl v n = push_bit (n mod 32) v"

definition js_shr :: "int32 \<Rightarrow> nat \<Rightarrow> int32" where
  "js_shr v n = drop_bit (n mod 32) v"

section \<open>Base 32\<close>

definition base32Alphabet :: string where
  "base32Alphabet = ''ABCDEFGHIJKLMNOPQRSTUVWXYZ234567''"

text \<open>\<open>base32Alphabet[v & 31]\<close>.\<close>

definition base32_char :: "int32 \<Rightarrow> char" where
  "base32_char v = base32Alphabet ! unat (v AND 31)"

text \<open>The loop \<open>while (bits >= 5)\<close>; None would be a loop that does not end.\<close>

partial_function (option) encode_groups :: "nat \<Rightarrow> int32 \<Rightarrow> string \<Rightarrow> (nat \<times> string) option" where
  "encode_groups bits value output =
     (if bits \<ge> 5 then encode_groups (bits - 5) value (output @ [base32_char (js_shr value (bits - 5))])
      else Some (bits, output))"

declare encode_groups.simps [code]

fun encode_bytes :: "byte list \<Rightarrow> nat \<Rightarrow> int32 \<Rightarrow> string \<Rightarrow> (nat \<times> int32 \<times> string) option" where
  "encode_bytes [] bits value output = Some (bits, value, output)"
| "encode_bytes (b # input) bits value output =
     (case encode_groups (bits + 8) (js_shl value 8 OR ucast b) output of
        None \<Rightarrow> None
      | Some (bits', output') \<Rightarrow> encode_bytes input bits' (js_shl value 8 OR ucast b) output')"

definition base32Encode :: "byte list \<Rightarrow> string option" where
  "base32Encode input =
     (case encode_bytes input 0 0 [] of
        None \<Rightarrow> None
      | Some (bits, value, output) \<Rightarrow>
          Some (if bits > 0 then output @ [base32_char (js_shl value (5 - bits))] else output))"

fun index_of :: "char \<Rightarrow> string \<Rightarrow> nat option" where
  "index_of c [] = None"
| "index_of c (d # ds) = (if d = c then Some 0 else map_option Suc (index_of c ds))"

text \<open>The loop over the characters; None is the exception for a character outside the alphabet.\<close>

fun decode_chars :: "string \<Rightarrow> nat \<Rightarrow> int32 \<Rightarrow> byte list \<Rightarrow> byte list option" where
  "decode_chars [] bits value bytes = Some bytes"
| "decode_chars (c # input) bits value bytes =
     (case index_of c base32Alphabet of
        None \<Rightarrow> None
      | Some index \<Rightarrow>
          if bits + 5 \<ge> 8
          then decode_chars input (bits + 5 - 8) (js_shl value 5 OR of_nat index)
                 (bytes @ [ucast (js_shr (js_shl value 5 OR of_nat index) (bits + 5 - 8) AND 255)])
          else decode_chars input (bits + 5) (js_shl value 5 OR of_nat index) bytes)"

definition without_padding :: "string \<Rightarrow> string" where
  "without_padding t = rev (dropWhile (\<lambda>c. c = CHR ''='') (rev t))"

definition base32Decode :: "string \<Rightarrow> byte list option" where
  "base32Decode input = decode_chars (toUpperCase (without_padding input)) 0 0 []"

section \<open>Codes\<close>

text \<open>\<open>writeBigUInt64BE\<close>: the eight bytes of a counter, the highest first; out of range it throws.\<close>

definition counter_bytes :: "int \<Rightarrow> byte list option" where
  "counter_bytes counter =
     (if counter < 0 \<or> counter \<ge> 2 ^ 64 then None
      else Some (map (\<lambda>k. word_of_int (counter div 2 ^ (8 * k))) [7, 6, 5, 4, 3, 2, 1, 0]))"

text \<open>\<open>bytes[k]\<close> in a bitwise operation: beyond the end \<open>undefined\<close> counts as 0.\<close>

definition byte_at :: "byte list \<Rightarrow> nat \<Rightarrow> byte" where
  "byte_at bytes k = (if k < length bytes then bytes ! k else 0)"

definition truncated_digest :: "byte list \<Rightarrow> int32" where
  "truncated_digest hmac =
     (let offset = unat (byte_at hmac (length hmac - 1) AND 0x0F) in
      js_shl (ucast (byte_at hmac offset AND 0x7F)) 24 OR js_shl (ucast (byte_at hmac (offset + 1))) 16 OR
      js_shl (ucast (byte_at hmac (offset + 2))) 8 OR ucast (byte_at hmac (offset + 3)))"

text \<open>\<open>padStart(6, '0')\<close>.\<close>

definition six_digits :: "int \<Rightarrow> string" where
  "six_digits n = (let t = int_text n in replicate (6 - length t) CHR ''0'' @ t)"

text \<open>None is an exception: a secret that is no base 32 text, or a counter that does not fit.\<close>

definition generateTotpCodeForStep :: "(byte list \<Rightarrow> byte list \<Rightarrow> byte list) \<Rightarrow> string \<Rightarrow> int \<Rightarrow> string option" where
  "generateTotpCodeForStep hmacSha1 secret counter =
     (case base32Decode secret of
        None \<Rightarrow> None
      | Some key \<Rightarrow>
          (case counter_bytes counter of
             None \<Rightarrow> None
           | Some buffer \<Rightarrow> Some (six_digits (sint (truncated_digest (hmacSha1 key buffer)) mod 1000000))))"

definition totpStepSeconds :: int where
  "totpStepSeconds = 30"

definition step_of_time :: "int \<Rightarrow> int" where
  "step_of_time timeMs = timeMs div (1000 * totpStepSeconds)"

definition generateTotpCode :: "(byte list \<Rightarrow> byte list \<Rightarrow> byte list) \<Rightarrow> string \<Rightarrow> int \<Rightarrow> string option" where
  "generateTotpCode hmacSha1 secret timeMs = generateTotpCodeForStep hmacSha1 secret (step_of_time timeMs)"

end
