(* ===== verification/Mfa.thy ===== *)
theory Mfa imports Totp Payments Internal_Admin begin

text \<open>
  The second factor of privileged accounts (\<open>auth/privileged-mfa.service.ts\<close>, \<open>auth/privileged-mfa.policy.ts\<close>):
  after the password a session of ten minutes asks for enrollment or for a code; a code is one of the time steps
  around now, used in increasing order, or a recovery code, used once; five failures lock the session.
\<close>

section \<open>What the runtime gives\<close>

text \<open>
  Beyond \<open>env\<close>: the \<open>k\<close>-th call of \<open>randomBytes(n)\<close> of a request, the keyed digest of RFC 2104 over SHA-1, the
  SHA-256 digest as bytes, and the authenticated cipher: encryption gives the cipher text and the tag, decryption
  None when the platform refuses key, initialization vector or tag.
\<close>

record mfa_env = env +
  randomBytes :: "nat \<Rightarrow> nat \<Rightarrow> byte list"
  hmacSha1 :: "byte list \<Rightarrow> byte list \<Rightarrow> byte list"
  sha256Bytes :: "string \<Rightarrow> byte list"
  aesEncrypt :: "byte list \<Rightarrow> byte list \<Rightarrow> byte list \<Rightarrow> byte list \<times> byte list"
  aesDecrypt :: "byte list \<Rightarrow> byte list \<Rightarrow> byte list \<Rightarrow> byte list \<Rightarrow> byte list option"

definition text_bytes :: "string \<Rightarrow> byte list" where
  "text_bytes = map of_char"

definition bytes_text :: "byte list \<Rightarrow> string" where
  "bytes_text = map (\<lambda>b. char_of (unat b))"

text \<open>\<open>toString('base64url')\<close> and \<open>Buffer.from(text, 'base64')\<close>, which reads both alphabets and skips the rest.\<close>

definition base64urlAlphabet :: string where
  "base64urlAlphabet = ''ABCDEFGHIJKLMNOPQRSTUVWXYZabcdefghijklmnopqrstuvwxyz0123456789-_''"

definition base64_char :: "nat \<Rightarrow> char" where
  "base64_char n = base64urlAlphabet ! n"

fun sextets :: "nat list \<Rightarrow> nat list" where
  "sextets [] = []"
| "sextets [a] = [a div 4, a mod 4 * 16]"
| "sextets [a, b] = [a div 4, a mod 4 * 16 + b div 16, b mod 16 * 4]"
| "sextets (a # b # c # rest) =
     (a div 4) # (a mod 4 * 16 + b div 16) # (b mod 16 * 4 + c div 64) # (c mod 64) # sextets rest"

definition base64url :: "byte list \<Rightarrow> string" where
  "base64url bytes = map base64_char (sextets (map unat bytes))"

definition base64_index :: "char \<Rightarrow> nat option" where
  "base64_index c =
     index_of (if c = CHR ''+'' then CHR ''-'' else if c = CHR ''/'' then CHR ''_'' else c) base64urlAlphabet"

fun octets :: "nat list \<Rightarrow> nat list" where
  "octets (p # q # r # s # rest) =
     (p * 4 + q div 16) # (q mod 16 * 16 + r div 4) # (r mod 4 * 64 + s) # octets rest"
| "octets [p, q, r] = [p * 4 + q div 16, q mod 16 * 16 + r div 4]"
| "octets [p, q] = [p * 4 + q div 16]"
| "octets _ = []"

definition base64_bytes :: "string \<Rightarrow> byte list" where
  "base64_bytes t = map of_nat (octets (List.map_filter base64_index t))"

section \<open>Keeping the secret\<close>

definition is_hex_key :: "string \<Rightarrow> bool" where
  "is_hex_key t \<longleftrightarrow> length t = 64 \<and> list_all (\<lambda>c. hex_digit c \<noteq> None) t"

definition parseEncryptionKey :: "string \<Rightarrow> byte list option" where
  "parseEncryptionKey raw =
     (let fromHex = map of_nat (hex_bytes raw) in
      if is_hex_key raw \<and> length fromHex = 32 then Some fromHex
      else if length (base64_bytes raw) = 32 then Some (base64_bytes raw) else None)"

text \<open>None is the exception for a missing configuration.\<close>

definition encryptionKey :: "mfa_env \<Rightarrow> byte list option" where
  "encryptionKey env =
     (case Option.bind (trimmed (envVar env ''PRIVILEGED_MFA_ENCRYPTION_KEY'')) parseEncryptionKey of
        Some key \<Rightarrow> Some key
      | None \<Rightarrow> if envVar env ''NODE_ENV'' = Some ''test'' then Some (sha256Bytes env ''fixzone-test-mfa-key'') else None)"

definition not_configured :: exn where
  "not_configured = InternalServerError ''Privileged MFA encryption is not configured''"

definition encrypt :: "mfa_env \<Rightarrow> string \<Rightarrow> ('s, string) svc" where
  "encrypt env plaintext =
     bnd (require not_configured (encryptionKey env)) (\<lambda>key.
     let iv = randomBytes env 1 12; (ciphertext, tag) = aesEncrypt env key iv (text_bytes plaintext) in
       ret (''v1:'' @ base64url iv @ '':'' @ base64url tag @ '':'' @ base64url ciphertext))"

fun split_colon :: "string \<Rightarrow> string list" where
  "split_colon [] = [[]]"
| "split_colon (c # cs) =
     (if c = CHR 0x3A then [] # split_colon cs
      else (case split_colon cs of [] \<Rightarrow> [[c]] | w # ws \<Rightarrow> (c # w) # ws))"

definition decrypt :: "mfa_env \<Rightarrow> string \<Rightarrow> ('s, string) svc" where
  "decrypt env payload =
     (case split_colon payload of
        version # iv # tag # ciphertext # _ \<Rightarrow>
          if version \<noteq> ''v1'' \<or> iv = [] \<or> tag = [] \<or> ciphertext = [] then throw (InternalServerError ''MFA secret payload is invalid'')
          else bnd (require not_configured (encryptionKey env)) (\<lambda>key.
               bnd (require (InternalServerError ''Unsupported state or unable to authenticate data'')
                      (aesDecrypt env key (base64_bytes iv) (base64_bytes tag) (base64_bytes ciphertext))) (\<lambda>plaintext.
               ret (bytes_text plaintext)))
      | _ \<Rightarrow> throw (InternalServerError ''MFA secret payload is invalid''))"

section \<open>Codes\<close>

definition preAuthTtlMs :: int where "preAuthTtlMs = 10 * 60000"
definition maxAttempts :: int where "maxAttempts = 5"
definition backupCodeCount :: nat where "backupCodeCount = 10"

definition invalid_mfa :: exn where
  "invalid_mfa = Unauthorized ''MFA verification failed''"

definition currentTotpStep :: "mfa_env \<Rightarrow> int" where
  "currentTotpStep env = step_of_time (now env)"

text \<open>
  The loop over the steps before, at and after now. \<open>timingSafeEqual\<close> throws when the lengths differ, the code of a
  step when the secret is no base 32 text.
\<close>

primrec match_steps :: "mfa_env \<Rightarrow> string \<Rightarrow> string \<Rightarrow> int list \<Rightarrow> ('s, int option) svc" where
  "match_steps env normalized secret [] = ret None"
| "match_steps env normalized secret (offset # offsets) =
     (if currentTotpStep env + offset < 0 then match_steps env normalized secret offsets
      else bnd (require (InternalServerError ''Invalid TOTP secret'')
                  (generateTotpCodeForStep (hmacSha1 env) secret (currentTotpStep env + offset))) (\<lambda>candidate.
        sq (throw_if (length candidate \<noteq> length normalized) (InternalServerError ''Input buffers must have the same byte length''))
       (if candidate = normalized then ret (Some (currentTotpStep env + offset))
        else match_steps env normalized secret offsets)))"

definition matchTotpStep :: "mfa_env \<Rightarrow> string \<Rightarrow> string \<Rightarrow> ('s, int option) svc" where
  "matchTotpStep env code secret =
     (let normalized = trim code in
      if length normalized \<noteq> 6 \<or> \<not> list_all is_digit normalized then ret None
      else match_steps env normalized secret [-1, 0, 1])"

definition verifyTotp :: "mfa_env \<Rightarrow> string \<Rightarrow> string \<Rightarrow> ('s, bool) svc" where
  "verifyTotp env code secret = bnd (matchTotpStep env code secret) (\<lambda>step. ret (step \<noteq> None))"

definition is_alnum :: "char \<Rightarrow> bool" where
  "is_alnum c \<longleftrightarrow> (let n = of_char c :: nat in
     48 \<le> n \<and> n \<le> 57 \<or> 65 \<le> n \<and> n \<le> 90 \<or> 97 \<le> n \<and> n \<le> 122)"

definition recovery_groups :: "string \<Rightarrow> string" where
  "recovery_groups t =
     (if length t < 12 then t else take 4 t @ ''-'' @ take 4 (drop 4 t) @ ''-'' @ take 4 (drop 8 t) @ drop 12 t)"

definition generateRecoveryCodes :: "mfa_env \<Rightarrow> string list" where
  "generateRecoveryCodes env =
     map (\<lambda>k. recovery_groups (take 12 (toUpperCase (filter is_alnum (base64url (randomBytes env k 10)))))) [0..<backupCodeCount]"

definition digestRecoveryCode :: "mfa_env \<Rightarrow> string \<Rightarrow> string" where
  "digestRecoveryCode env code = sha256 env (toUpperCase (filter is_alnum code))"

definition provisioningUri :: "string \<Rightarrow> string \<Rightarrow> string" where
  "provisioningUri accountName secret =
     (let issuer = encodeURIComponent ''SecureZone FixZone Administration'' in
      ''otpauth://totp/'' @ issuer @ '':'' @ encodeURIComponent accountName @ ''?secret='' @ encodeURIComponent secret @
      ''&issuer='' @ issuer @ ''&algorithm=SHA1&digits=6&period='' @ int_text totpStepSeconds)"

section \<open>Sessions\<close>

definition privilegedMfaRoles :: "user_role set" where
  "privilegedMfaRoles =
     {SUPER_ADMIN, PLATFORM_SUPER_ADMIN, PLATFORM_OWNER, EXECUTIVE_SUPER_ADMIN, TECHNICAL_ADMIN, OPERATIONS_ADMIN,
      ORGANIZATION_ONBOARDING_ADMIN, PROVIDER_ADMIN, FINANCE_BILLING_ADMIN, BILLING_ADMIN, LEGAL_ADMIN, ASSIGNMENT_ADMIN,
      ASSET_ADMIN, ASSET_INTELLIGENCE_ADMIN, COMPLIANCE_ADMIN, COMPLIANCE_AUDIT_ADMIN, REGULATORY_ADMIN, SECURITY_ADMIN,
      INVESTIGATION_ADMIN, RELEASE_OPERATIONS_ADMIN, BACKUP_RECOVERY_ADMIN, SUPPORT_ADMIN}"

definition requiresPrivilegedMfa :: "user_role \<Rightarrow> bool" where
  "requiresPrivilegedMfa role \<longleftrightarrow> role \<in> privilegedMfaRoles"

definition find_session :: "string \<Rightarrow> 's tables_scheme \<Rightarrow> mfa_session option" where
  "find_session = row_find mfaSessions ms_id"

definition update_session :: "string \<Rightarrow> (mfa_session \<Rightarrow> mfa_session) \<Rightarrow> ('s tables_scheme, mfa_session) svc" where
  "update_session = row_update mfaSessions (\<lambda>rs. mfaSessions_update (\<lambda>_. rs)) ms_id"

definition update_enrollment :: "string \<Rightarrow> (mfa_enrollment \<Rightarrow> mfa_enrollment) \<Rightarrow> ('s tables_scheme, mfa_enrollment) svc" where
  "update_enrollment = row_update mfaEnrollments (\<lambda>rs. mfaEnrollments_update (\<lambda>_. rs)) me_id"

definition request_of :: "request_context option \<Rightarrow> (string \<times> json) list" where
  "request_of context =
     [(''ipAddress'', jopt JStr (Option.bind context rq_ipAddress)), (''userAgent'', jopt JStr (Option.bind context rq_userAgent))]"

definition mfa_audit :: "string \<Rightarrow> user \<Rightarrow> (string \<times> json) list \<Rightarrow> unit handler" where
  "mfa_audit action user metadata =
     modify (complianceAuditLogs_update (\<lambda>rows. rows @
       [\<lparr> c_action = action, c_actorId = Some (u_id user), c_actorRole = Some (u_role user),
          c_organizationId = u_organizationId user, c_entityType = Some ''PrivilegedMfa'', c_entityId = Some (u_id user),
          c_metadata = metadata \<rparr>]))"

lemma quiet_mfa_audit [quiet_rules]: "quiet business (mfa_audit action user metadata)"
  unfolding mfa_audit_def by (rule quiet_log)

text \<open>The newest by \<open>enabledAt\<close>, descending: an empty column comes first.\<close>

definition activeEnrollment :: "string \<Rightarrow> 's tables_scheme \<Rightarrow> mfa_enrollment option" where
  "activeEnrollment userId s =
     (let rows = filter (\<lambda>e. me_userId e = userId \<and> me_status e = ME_ACTIVE \<and> me_disabledAt e = None) (mfaEnrollments s) in
      case find (\<lambda>e. me_enabledAt e = None) rows of
        Some e \<Rightarrow> Some e
      | None \<Rightarrow> newest (\<lambda>e. (or_else (me_enabledAt e) 0, [])) rows)"

definition pendingEnrollment :: "string \<Rightarrow> 's tables_scheme \<Rightarrow> mfa_enrollment option" where
  "pendingEnrollment userId s =
     newest (\<lambda>e. (me_createdAt e, []))
       (filter (\<lambda>e. me_userId e = userId \<and> me_status e = ME_PENDING \<and> me_disabledAt e = None) (mfaEnrollments s))"

definition recordFailedAttempt :: "mfa_env \<Rightarrow> string \<Rightarrow> int \<Rightarrow> unit handler" where
  "recordFailedAttempt env sessionId failedAttempts =
     bnd (update_session sessionId (\<lambda>v. v\<lparr> ms_failedAttempts := ms_failedAttempts v + 1,
            ms_lockedAt := (if failedAttempts + 1 \<ge> maxAttempts then Some (now env) else ms_lockedAt v) \<rparr>)) (\<lambda>_. ret ())"

definition usable_session :: "mfa_env \<Rightarrow> mfa_purpose \<Rightarrow> mfa_session \<Rightarrow> user \<Rightarrow> bool" where
  "usable_session env purpose session user \<longleftrightarrow>
     ms_purpose session = purpose \<and> ms_consumedAt session = None \<and> ms_lockedAt session = None \<and>
     now env < ms_expiresAt session \<and> ms_failedAttempts session < maxAttempts \<and>
     u_accountStatus user = ACTIVE \<and> requiresPrivilegedMfa (u_role user)"

text \<open>The user of a session is there by the foreign key.\<close>

definition validatePreAuth :: "mfa_env \<Rightarrow> string \<Rightarrow> mfa_purpose \<Rightarrow> (mfa_session \<times> user) handler" where
  "validatePreAuth env preAuthToken purpose =
     bnd (gets (\<lambda>s. find (\<lambda>v. ms_tokenDigest v = sha256 env (trim preAuthToken)) (mfaSessions s))) (\<lambda>found.
     bnd (require invalid_mfa found) (\<lambda>session.
     bnd (gets (find_user (ms_userId session))) (\<lambda>account.
     bnd (require (InternalServerError ''user'') account) (\<lambda>user.
     sq (throw_if (\<not> usable_session env purpose session user) invalid_mfa)
        (ret (session, user))))))"

record preauth_reply =
  pre_status :: string
  pre_preAuthToken :: string
  pre_expiresAt :: int

definition mfa_purpose_name :: "mfa_purpose \<Rightarrow> string" where
  "mfa_purpose_name p = (case p of ENROLLMENT \<Rightarrow> ''ENROLLMENT'' | CHALLENGE \<Rightarrow> ''CHALLENGE'')"

definition createPreAuthSession :: "mfa_env \<Rightarrow> user \<Rightarrow> request_context option \<Rightarrow> preauth_reply handler" where
  "createPreAuthSession env user context =
     sq (throw_if (\<not> requiresPrivilegedMfa (u_role user)) invalid_mfa)
    (bnd (gets (activeEnrollment (u_id user))) (\<lambda>active.
     let purpose = (if active \<noteq> None then CHALLENGE else ENROLLMENT);
         session = \<lparr> ms_id = freshId env 0, ms_userId = u_id user, ms_tokenDigest = sha256 env (randomToken env),
           ms_purpose = purpose, ms_expiresAt = now env + preAuthTtlMs, ms_consumedAt = None, ms_failedAttempts = 0,
           ms_lockedAt = None \<rparr> in
     sq (create_row mfaSessions mfaSessions_update (\<lambda>a b. ms_id a = ms_id b \<or> ms_tokenDigest a = ms_tokenDigest b) session)
    (sq (mfa_audit ''Privileged Login Password Accepted MFA Pending'' user
           ((''purpose'', JStr (mfa_purpose_name purpose)) # request_of context))
        (ret \<lparr> pre_status = (if purpose = ENROLLMENT then ''MFA_ENROLLMENT_REQUIRED'' else ''MFA_CHALLENGE_REQUIRED''),
               pre_preAuthToken = randomToken env, pre_expiresAt = now env + preAuthTtlMs \<rparr>))))"

section \<open>Enrollment\<close>

definition new_enrollment :: "mfa_env \<Rightarrow> user \<Rightarrow> string \<Rightarrow> mfa_enrollment" where
  "new_enrollment env user encryptedSecret =
     \<lparr> me_id = freshId env 0, me_userId = u_id user, me_status = ME_PENDING, me_encryptedTotpSecret = encryptedSecret,
       me_enabledAt = None, me_enforcedAt = None, me_lastVerifiedAt = None, me_lastVerifiedStep = None,
       me_disabledAt = None, me_createdAt = now env \<rparr>"

definition disabled_pending :: "mfa_env \<Rightarrow> string \<Rightarrow> mfa_enrollment list \<Rightarrow> mfa_enrollment list" where
  "disabled_pending env userId =
     upd_rows (\<lambda>e. me_userId e = userId \<and> me_status e = ME_PENDING)
       (\<lambda>e. e\<lparr> me_status := ME_DISABLED, me_disabledAt := Some (now env) \<rparr>)"

text \<open>The secret of a new enrollment: \<open>generateTotpSecret\<close>; its base 32 text is always there.\<close>

definition generateTotpSecret :: "mfa_env \<Rightarrow> string option" where
  "generateTotpSecret env = base32Encode (randomBytes env 0 20)"

definition startEnrollment :: "mfa_env \<Rightarrow> string \<Rightarrow> request_context option \<Rightarrow> (string \<times> string) handler" where
  "startEnrollment env preAuthToken context =
     bnd (validatePreAuth env preAuthToken ENROLLMENT) (\<lambda>(session, user).
     bnd (require (InternalServerError ''secret'') (generateTotpSecret env)) (\<lambda>secret.
     bnd (encrypt env secret) (\<lambda>encryptedSecret.
     sq (transaction
          (sq (modify (mfaEnrollments_update (disabled_pending env (u_id user))))
              (create_row mfaEnrollments mfaEnrollments_update (\<lambda>a b. me_id a = me_id b) (new_enrollment env user encryptedSecret))))
    (sq (mfa_audit ''Privileged MFA Enrollment Started'' user ((''preAuthSessionId'', JStr (ms_id session)) # request_of context))
        (ret (secret, provisioningUri (or_else (u_email user) (u_id user)) secret))))))"

definition enabled_enrollment :: "mfa_env \<Rightarrow> mfa_enrollment \<Rightarrow> mfa_enrollment" where
  "enabled_enrollment env e =
     e\<lparr> me_status := ME_ACTIVE, me_enabledAt := Some (now env), me_enforcedAt := Some (now env),
        me_lastVerifiedAt := Some (now env), me_lastVerifiedStep := None \<rparr>"

definition backup_row :: "mfa_env \<Rightarrow> string \<Rightarrow> string \<Rightarrow> nat \<times> string \<Rightarrow> mfa_backup_code" where
  "backup_row env enrollmentId userId = (\<lambda>(k, code).
     \<lparr> mb_id = freshId env k, mb_enrollmentId = enrollmentId, mb_userId = userId,
       mb_codeDigest = digestRecoveryCode env code, mb_usedAt = None \<rparr>)"

definition used_session :: "mfa_env \<Rightarrow> mfa_session \<Rightarrow> mfa_session" where
  "used_session env v = v\<lparr> ms_consumedAt := Some (now env) \<rparr>"

definition same_code :: "mfa_backup_code \<Rightarrow> mfa_backup_code \<Rightarrow> bool" where
  "same_code a b \<longleftrightarrow> mb_id a = mb_id b \<or> mb_codeDigest a = mb_codeDigest b"

definition confirm_transaction :: "mfa_env \<Rightarrow> mfa_session \<Rightarrow> user \<Rightarrow> mfa_enrollment \<Rightarrow> string list \<Rightarrow> unit handler" where
  "confirm_transaction env session user enrollment recoveryCodes = transaction
     (bnd (update_enrollment (me_id enrollment) (enabled_enrollment env)) (\<lambda>_.
      sq (modify (mfaBackupCodes_update (filter (\<lambda>b. mb_userId b \<noteq> u_id user))))
     (sq (for_each (map (backup_row env (me_id enrollment) (u_id user)) (enumerate 0 recoveryCodes))
            (\<lambda>row. sq (create_row mfaBackupCodes mfaBackupCodes_update same_code row) (ret ())))
     (bnd (update_session (ms_id session) (used_session env)) (\<lambda>_. ret ())))))"

definition confirmEnrollment :: "mfa_env \<Rightarrow> string \<Rightarrow> string \<Rightarrow> request_context option \<Rightarrow> (user \<times> string list) handler" where
  "confirmEnrollment env preAuthToken code context =
     bnd (validatePreAuth env preAuthToken ENROLLMENT) (\<lambda>(session, user).
     bnd (gets (pendingEnrollment (u_id user))) (\<lambda>found. case found of
       None \<Rightarrow> sq (recordFailedAttempt env (ms_id session) (ms_failedAttempts session)) (throw invalid_mfa)
     | Some enrollment \<Rightarrow>
     bnd (decrypt env (me_encryptedTotpSecret enrollment)) (\<lambda>secret.
     bnd (verifyTotp env code secret) (\<lambda>ok.
     if \<not> ok then
       sq (recordFailedAttempt env (ms_id session) (ms_failedAttempts session))
      (sq (mfa_audit ''Privileged MFA Enrollment Confirmation Failed'' user
             ((''preAuthSessionId'', JStr (ms_id session)) # request_of context))
          (throw invalid_mfa))
     else
     (let recoveryCodes = generateRecoveryCodes env in
      sq (confirm_transaction env session user enrollment recoveryCodes)
     (sq (mfa_audit ''Privileged MFA Enrollment Completed'' user
            ([(''preAuthSessionId'', JStr (ms_id session)), (''recoveryCodeCount'', jint (int (length recoveryCodes)))] @
             request_of context))
         (ret (user, recoveryCodes))))))))"

section \<open>The challenge\<close>

datatype mfa_method = TOTP | RECOVERY_CODE

text \<open>What a failed challenge of either method leaves, before it throws.\<close>

definition challenge_failed :: "mfa_env \<Rightarrow> string \<Rightarrow> mfa_session \<Rightarrow> user \<Rightarrow> request_context option \<Rightarrow> unit handler" where
  "challenge_failed env chosen session user context =
     sq (recordFailedAttempt env (ms_id session) (ms_failedAttempts session))
    (sq (mfa_audit ''Privileged MFA Challenge Failed'' user
           ([(''method'', JStr chosen), (''preAuthSessionId'', JStr (ms_id session))] @ request_of context))
        (throw invalid_mfa))"

definition earlier_step :: "int \<Rightarrow> mfa_enrollment \<Rightarrow> bool" where
  "earlier_step step e \<longleftrightarrow> (case me_lastVerifiedStep e of None \<Rightarrow> True | Some l \<Rightarrow> l < step)"

definition consume_step :: "mfa_env \<Rightarrow> mfa_session \<Rightarrow> mfa_enrollment \<Rightarrow> int \<Rightarrow> bool handler" where
  "consume_step env session enrollment step = transaction
     (let chosen = (\<lambda>e. me_id e = me_id enrollment \<and> earlier_step step e) in
      bnd (gets (\<lambda>s. length (filter chosen (mfaEnrollments s)))) (\<lambda>count.
      sq (modify (mfaEnrollments_update (upd_rows chosen
            (\<lambda>e. e\<lparr> me_lastVerifiedAt := Some (now env), me_lastVerifiedStep := Some step \<rparr>))))
     (if count \<noteq> 1 then ret False
      else bnd (update_session (ms_id session) (used_session env)) (\<lambda>_. ret True))))"

definition completeTotpChallenge ::
    "mfa_env \<Rightarrow> mfa_session \<Rightarrow> user \<Rightarrow> mfa_enrollment \<Rightarrow> string \<Rightarrow> request_context option \<Rightarrow> unit handler" where
  "completeTotpChallenge env session user enrollment code context =
     bnd (decrypt env (me_encryptedTotpSecret enrollment)) (\<lambda>secret.
     bnd (matchTotpStep env code secret) (\<lambda>matchedStep.
     case matchedStep of
       None \<Rightarrow> challenge_failed env ''totp'' session user context
     | Some step \<Rightarrow>
         if \<not> earlier_step step enrollment then
           sq (recordFailedAttempt env (ms_id session) (ms_failedAttempts session)) (throw invalid_mfa)
         else
           bnd (consume_step env session enrollment step) (\<lambda>consumed.
             if \<not> consumed then
               sq (recordFailedAttempt env (ms_id session) (ms_failedAttempts session)) (throw invalid_mfa)
             else mfa_audit ''Privileged MFA Challenge Succeeded'' user
               ([(''method'', JStr ''totp''), (''preAuthSessionId'', JStr (ms_id session))] @ request_of context))))"

definition consume_code :: "mfa_env \<Rightarrow> mfa_session \<Rightarrow> mfa_backup_code \<Rightarrow> bool handler" where
  "consume_code env session backup = transaction
     (let chosen = (\<lambda>b. mb_id b = mb_id backup \<and> mb_codeDigest b = mb_codeDigest backup \<and> mb_userId b = mb_userId backup \<and>
            mb_enrollmentId b = mb_enrollmentId backup \<and> mb_usedAt b = None) in
      bnd (gets (\<lambda>s. length (filter chosen (mfaBackupCodes s)))) (\<lambda>count.
      sq (modify (mfaBackupCodes_update (upd_rows chosen (\<lambda>b. b\<lparr> mb_usedAt := Some (now env) \<rparr>))))
     (if count \<noteq> 1 then ret False
      else bnd (update_session (ms_id session) (used_session env)) (\<lambda>_. ret True))))"

definition completeRecoveryCodeChallenge ::
    "mfa_env \<Rightarrow> mfa_session \<Rightarrow> user \<Rightarrow> string \<Rightarrow> string \<Rightarrow> request_context option \<Rightarrow> unit handler" where
  "completeRecoveryCodeChallenge env session user enrollmentId code context =
     bnd (gets (\<lambda>s. find (\<lambda>b. mb_codeDigest b = digestRecoveryCode env code) (mfaBackupCodes s))) (\<lambda>found.
     case (case found of None \<Rightarrow> None
           | Some b \<Rightarrow> if mb_userId b \<noteq> u_id user \<or> mb_enrollmentId b \<noteq> enrollmentId \<or> mb_usedAt b \<noteq> None then None else Some b) of
       None \<Rightarrow> challenge_failed env ''recovery_code'' session user context
     | Some backup \<Rightarrow>
         bnd (consume_code env session backup) (\<lambda>consumed.
           if \<not> consumed then challenge_failed env ''recovery_code'' session user context
           else mfa_audit ''Privileged MFA Recovery Code Used'' user
             ([(''preAuthSessionId'', JStr (ms_id session)), (''backupCodeId'', JStr (mb_id backup))] @ request_of context)))"

definition completeChallenge ::
    "mfa_env \<Rightarrow> string \<Rightarrow> mfa_method \<Rightarrow> string \<Rightarrow> request_context option \<Rightarrow> (user \<times> bool) handler" where
  "completeChallenge env preAuthToken chosen code context =
     bnd (validatePreAuth env preAuthToken CHALLENGE) (\<lambda>(session, user).
     bnd (gets (activeEnrollment (u_id user))) (\<lambda>found. case found of
       None \<Rightarrow> sq (recordFailedAttempt env (ms_id session) (ms_failedAttempts session)) (throw invalid_mfa)
     | Some enrollment \<Rightarrow>
         (case chosen of
            TOTP \<Rightarrow> sq (completeTotpChallenge env session user enrollment code context) (ret (user, False))
          | RECOVERY_CODE \<Rightarrow>
              sq (completeRecoveryCodeChallenge env session user (me_id enrollment) code context) (ret (user, True)))))"

end
