(* ===== verification/Totp_Theorems.thy ===== *)
theory Totp_Theorems imports Totp begin

text \<open>
  The base 32 text of a secret: its loops end, and decoding it gives the secret back. Both are proved over the
  bits that the 32-bit accumulator of the source still holds.
\<close>

section \<open>Bits\<close>

text \<open>The lowest \<open>n\<close> bits of a word, the highest first.\<close>

primrec low :: "nat \<Rightarrow> 'a::len word \<Rightarrow> bool list" where
  "low 0 v = []"
| "low (Suc n) v = bit v n # low n v"

lemma length_low [simp]: "length (low n v) = n"
  by (induction n) simp_all

lemma low_cong: "(\<And>k. k < n \<Longrightarrow> bit v k = bit w k) \<Longrightarrow> low n v = low n w"
  by (induction n) simp_all

lemma low_split: "low (n + m) v = low n (drop_bit m v) @ low m v"
  by (induction n) (simp_all add: bit_simps add.commute)

lemma low_inject: "low LENGTH('a) v = low LENGTH('a) w \<longleftrightarrow> v = (w :: 'a::len word)"
proof
  have "low n v = low n w \<Longrightarrow> k < n \<Longrightarrow> bit v k = bit w k" for n k
    by (induction n) (auto simp: less_Suc_eq)
  then show "low LENGTH('a) v = low LENGTH('a) w \<Longrightarrow> v = w"
    by (intro bit_word_eqI) blast
qed simp

lemma shifts: "n < 32 \<Longrightarrow> js_shl v n = push_bit n v" "n < 32 \<Longrightarrow> js_shr v n = drop_bit n v"
  by (simp_all add: js_shl_def js_shr_def)

lemma low_append_byte: "n \<le> 24 \<Longrightarrow> low (n + 8) (js_shl v 8 OR ucast (b :: byte)) = low n v @ low 8 b"
proof -
  assume n: "n \<le> 24"
  have "low n (drop_bit 8 (push_bit 8 v OR ucast b)) = low n v"
    using n by (intro low_cong) (auto simp: bit_simps dest: bit_imp_le_length)
  moreover have "low 8 (push_bit 8 v OR ucast b :: int32) = low 8 b"
    by (intro low_cong) (auto simp: bit_simps)
  ultimately show ?thesis
    by (simp add: low_split shifts)
qed

lemma low_append_five: "n \<le> 27 \<Longrightarrow> low (n + 5) (js_shl v 5 OR w) = low n v @ low 5 w" if "w AND 31 = (w :: int32)"
proof -
  assume n: "n \<le> 27"
  have high: "\<not> bit w k" if "k \<ge> 5" for k
  proof
    assume "bit w k"
    then have "bit (w AND 31) k" using \<open>w AND 31 = w\<close> by simp
    then have "bit (31 :: int32) k" by (simp add: bit_simps)
    moreover have "(31 :: int32) = mask 5" by (simp add: mask_eq_exp_minus_1)
    ultimately show False using that by (simp add: bit_simps)
  qed
  have "low n (drop_bit 5 (push_bit 5 v OR w)) = low n v"
    using n high by (intro low_cong) (auto simp: bit_simps)
  moreover have "low 5 (push_bit 5 v OR w) = low 5 w"
    by (intro low_cong) (auto simp: bit_simps)
  ultimately show ?thesis
    by (simp add: low_split shifts)
qed

section \<open>The alphabet\<close>

definition char_bits :: "char \<Rightarrow> bool list" where
  "char_bits c = low 5 (of_nat (the (index_of c base32Alphabet)) :: int32)"

definition in_alphabet :: "char \<Rightarrow> bool" where
  "in_alphabet c \<longleftrightarrow> c \<in> set base32Alphabet"

lemma index_of_char: "index_of (base32_char v) base32Alphabet = Some (unat (v AND 31))"
proof -
  have "unat (v AND 31) < 32"
    using word_and_le1[of v 31] by (simp add: word_le_nat_alt)
  moreover have "list_all (\<lambda>i. index_of (base32Alphabet ! i) base32Alphabet = Some i) [0..<32]"
    by code_simp
  ultimately show ?thesis
    by (simp add: list_all_iff base32_char_def)
qed

lemma char_bits_char: "char_bits (base32_char v) = low 5 v"
proof -
  have "low 5 (v AND 31) = low 5 v"
  proof (rule low_cong)
    fix k :: nat assume "k < 5"
    then show "bit (v AND 31) k = bit v k"
      using bit_mask_iff[where 'a = int32, of 5 k] by (simp add: bit_simps mask_eq_exp_minus_1)
  qed
  then show ?thesis
    by (simp add: char_bits_def index_of_char)
qed

lemma alphabet_char: "in_alphabet (base32_char v)"
proof -
  have "unat (v AND 31) < length base32Alphabet"
    using word_and_le1[of v 31] by (simp add: word_le_nat_alt base32Alphabet_def)
  then show ?thesis
    by (simp add: in_alphabet_def base32_char_def)
qed

lemma alphabet_plain: "in_alphabet c \<Longrightarrow> upper_char c = c \<and> c \<noteq> CHR ''=''"
proof -
  assume "in_alphabet c"
  moreover have "list_all (\<lambda>c. upper_char c = c \<and> c \<noteq> CHR ''='') base32Alphabet" by code_simp
  ultimately show ?thesis by (simp add: in_alphabet_def list_all_iff)
qed

lemma index_in_alphabet:
  assumes "in_alphabet c"
  obtains k where "index_of c base32Alphabet = Some k" "(of_nat k :: int32) AND 31 = of_nat k"
    "low 5 (of_nat k :: int32) = char_bits c"
proof -
  have "list_all (\<lambda>c. case index_of c base32Alphabet of None \<Rightarrow> False
      | Some k \<Rightarrow> (of_nat k :: int32) AND 31 = of_nat k) base32Alphabet" by code_simp
  with assms have "case index_of c base32Alphabet of None \<Rightarrow> False | Some k \<Rightarrow> (of_nat k :: int32) AND 31 = of_nat k"
    by (simp add: in_alphabet_def list_all_iff)
  then show thesis
    using that by (auto simp: char_bits_def split: option.splits)
qed

section \<open>Encoding and decoding\<close>

definition text_bits :: "string \<Rightarrow> bool list" where
  "text_bits t = concat (map char_bits t)"

definition byte_bits :: "byte list \<Rightarrow> bool list" where
  "byte_bits bytes = concat (map (low 8) bytes)"

lemma bits_simps [simp]:
  "text_bits [] = []" "text_bits (c # t) = char_bits c @ text_bits t" "text_bits (t @ u) = text_bits t @ text_bits u"
  "byte_bits [] = []" "byte_bits (b # bs) = low 8 b @ byte_bits bs" "byte_bits (bs @ cs) = byte_bits bs @ byte_bits cs"
  by (simp_all add: text_bits_def byte_bits_def)

lemma length_byte_bits [simp]: "length (byte_bits bytes) = 8 * length bytes"
  by (induction bytes) simp_all

lemma length_text_bits [simp]: "length (text_bits t) = 5 * length t"
  by (induction t) (simp_all add: char_bits_def)

lemma byte_bits_inject: "byte_bits xs = byte_bits ys \<longleftrightarrow> xs = ys"
proof (induction xs arbitrary: ys)
  case Nil
  then show ?case by (cases ys) (auto dest: arg_cong[of _ _ length])
next
  case (Cons x xs)
  then show ?case
    using low_inject[where 'a = 8, of x] by (cases ys) (auto dest: arg_cong[of _ _ length])
qed

lemma encode_groups_run:
  assumes "bits \<le> 32"
  shows "\<exists>out. encode_groups bits val acc = Some (bits mod 5, acc @ out) \<and>
    text_bits out @ low (bits mod 5) val = low bits val \<and> list_all in_alphabet out"
  using assms
proof (induction bits arbitrary: acc rule: less_induct)
  case (less bits)
  show ?case
  proof (cases "bits \<ge> 5")
    case False
    then show ?thesis by (subst encode_groups.simps) simp
  next
    case True
    let ?c = "base32_char (js_shr val (bits - 5))"
    have "bits - 5 < bits" "bits - 5 \<le> 32" using True less.prems by simp_all
    from less.IH[OF this, of "acc @ [?c]"]
    obtain out where out: "encode_groups (bits - 5) val (acc @ [?c]) = Some ((bits - 5) mod 5, (acc @ [?c]) @ out)"
        "text_bits out @ low ((bits - 5) mod 5) val = low (bits - 5) val" "list_all in_alphabet out"
      by blast
    have "(bits - 5) mod 5 = bits mod 5" using True by (metis le_mod_geq)
    moreover have "low bits val = char_bits ?c @ low (bits - 5) val"
      using low_split[of 5 "bits - 5" val] True less.prems by (simp add: char_bits_char shifts)
    ultimately show ?thesis
      using out True alphabet_char by (subst encode_groups.simps) (intro exI[of _ "?c # out"], simp)
  qed
qed

lemma encode_bytes_run:
  assumes "bits < 5"
  shows "\<exists>out bits' val'. encode_bytes input bits val acc = Some (bits', val', acc @ out) \<and> bits' < 5 \<and>
    text_bits out @ low bits' val' = low bits val @ byte_bits input \<and> list_all in_alphabet out"
  using assms
proof (induction input arbitrary: bits val acc)
  case Nil
  then show ?case by simp
next
  case (Cons b input)
  let ?v = "js_shl val 8 OR ucast b"
  obtain out where out: "encode_groups (bits + 8) ?v acc = Some ((bits + 8) mod 5, acc @ out)"
      "text_bits out @ low ((bits + 8) mod 5) ?v = low (bits + 8) ?v" "list_all in_alphabet out"
    using encode_groups_run[of "bits + 8" ?v acc] Cons.prems by auto
  moreover have "(bits + 8) mod 5 < 5" by simp
  from Cons.IH[OF this, of ?v "acc @ out"] obtain more' bits' val' where
      "encode_bytes input ((bits + 8) mod 5) ?v (acc @ out) = Some (bits', val', (acc @ out) @ more')" "bits' < 5"
      "text_bits more' @ low bits' val' = low ((bits + 8) mod 5) ?v @ byte_bits input" "list_all in_alphabet more'"
    by blast
  moreover have "low (bits + 8) ?v = low bits val @ low 8 b"
    using Cons.prems by (intro low_append_byte) simp
  moreover from calculation have "text_bits (out @ more') @ low bits' val' = low bits val @ byte_bits (b # input)"
    unfolding bits_simps by (metis append_assoc)
  ultimately show ?case
    by (intro exI[of _ "out @ more'"] exI[of _ bits'] exI[of _ val']) simp
qed

lemma base32Encode_bits:
  "\<exists>t pad. base32Encode input = Some t \<and> list_all in_alphabet t \<and> text_bits t = byte_bits input @ pad \<and> length pad < 5"
proof -
  obtain out bits val where run: "encode_bytes input 0 0 [] = Some (bits, val, out)" "bits < 5"
      "text_bits out @ low bits val = byte_bits input" "list_all in_alphabet out"
    using encode_bytes_run[of 0 input 0 "[]"] by auto
  show ?thesis
  proof (cases "bits > 0")
    case False
    then show ?thesis using run by (simp add: base32Encode_def)
  next
    case True
    have "low bits (drop_bit (5 - bits) (push_bit (5 - bits) val)) = low bits val"
      using run(2) by (intro low_cong) (auto simp: bit_simps)
    then have "low 5 (js_shl val (5 - bits)) = low bits val @ low (5 - bits) (js_shl val (5 - bits))"
      using low_split[of bits "5 - bits" "js_shl val (5 - bits)"] run(2) by (simp add: shifts)
    then show ?thesis
      using run True alphabet_char
      by (intro exI[of _ "out @ [base32_char (js_shl val (5 - bits))]"] exI[of _ "low (5 - bits) (js_shl val (5 - bits))"])
        (auto simp: base32Encode_def char_bits_char)
  qed
qed

lemma decode_chars_run:
  assumes "bits < 8" and "list_all in_alphabet t"
  shows "\<exists>out bits' val'. decode_chars t bits val bytes = Some (bytes @ out) \<and> bits' < 8 \<and>
    byte_bits out @ low bits' (val' :: int32) = low bits val @ text_bits t"
  using assms
proof (induction t arbitrary: bits val bytes)
  case Nil
  then show ?case by (auto intro!: exI[of _ bits] exI[of _ val])
next
  case (Cons c t)
  from Cons.prems(2) have "in_alphabet c" by simp
  then obtain k where k: "index_of c base32Alphabet = Some k" "(of_nat k :: int32) AND 31 = of_nat k"
      "low 5 (of_nat k :: int32) = char_bits c"
    by (rule index_in_alphabet)
  let ?v = "js_shl val 5 OR of_nat k"
  have grown: "low (bits + 5) ?v = low bits val @ char_bits c"
    using low_append_five[OF k(2), of bits val] Cons.prems(1) k(3) by simp
  show ?case
  proof (cases "bits + 5 \<ge> 8")
    case False
    then have "bits + 5 < 8" "list_all in_alphabet t" using Cons.prems(2) by simp_all
    from Cons.IH[OF this, of ?v bytes] show ?thesis
      using k(1) False grown by auto
  next
    case True
    let ?b = "ucast (js_shr ?v (bits + 5 - 8) AND 255) :: byte"
    have "low 8 ?b = low 8 (drop_bit (bits + 5 - 8) ?v)"
    proof (rule low_cong)
      fix j :: nat assume "j < 8"
      then show "bit ?b j = bit (drop_bit (bits + 5 - 8) ?v) j"
        using bit_mask_iff[where 'a = int32, of 8 j] Cons.prems(1)
        by (simp add: bit_simps mask_eq_exp_minus_1 js_shr_def)
    qed
    moreover have "8 + (bits + 5 - 8) = bits + 5" using True by simp
    ultimately have "low (bits + 5) ?v = low 8 ?b @ low (bits + 5 - 8) ?v"
      using low_split[of 8 "bits + 5 - 8" ?v] by metis
    moreover have "bits + 5 - 8 < 8" "list_all in_alphabet t" using Cons.prems by simp_all
    from Cons.IH[OF this, of ?v "bytes @ [?b]"] obtain out bits' val' where
        "decode_chars t (bits + 5 - 8) ?v (bytes @ [?b]) = Some ((bytes @ [?b]) @ out)" "bits' < 8"
        "byte_bits out @ low bits' (val' :: int32) = low (bits + 5 - 8) ?v @ text_bits t"
      by blast
    ultimately show ?thesis
      using k(1) True grown by (intro exI[of _ "?b # out"] exI[of _ bits'] exI[of _ val']) simp
  qed
qed

lemma plain_text:
  assumes "list_all in_alphabet t"
  shows "toUpperCase (without_padding t) = t"
proof -
  have "map upper_char u = u" "dropWhile (\<lambda>c. c = CHR ''='') u = u" if "list_all in_alphabet u" for u
    using that by (induction u) (auto dest: alphabet_plain)
  then show ?thesis
    using assms by (simp add: without_padding_def toUpperCase_def list_all_rev)
qed

text \<open>
  C34: The encoder always returns: for every secret the inner loop of the base 32 encoding ends, and the text has a
  character for every five bits, the last group filled up.
\<close>

theorem base32Encode_returns: "\<exists>t. base32Encode input = Some t \<and> length t = (8 * length input + 4) div 5"
proof -
  obtain t pad where "base32Encode input = Some t" "text_bits t = byte_bits input @ pad" "length pad < 5"
    using base32Encode_bits by blast
  moreover from this have "5 * length t = 8 * length input + length pad"
    by (metis length_append length_byte_bits length_text_bits)
  then have "8 * length input + 4 = 5 * length t + (4 - length pad)"
    using \<open>length pad < 5\<close> by linarith
  then have "length t = (8 * length input + 4) div 5" by simp
  ultimately show ?thesis by blast
qed

text \<open>
  C33: Decoding the base 32 text of a secret gives the secret back, whatever its length.
\<close>

theorem base32_roundtrip: "Option.bind (base32Encode input) base32Decode = Some input"
proof -
  obtain t pad where t: "base32Encode input = Some t" "list_all in_alphabet t" "text_bits t = byte_bits input @ pad" "length pad < 5"
    using base32Encode_bits by blast
  obtain out bits val where run: "decode_chars t 0 0 [] = Some out" "bits < 8"
      "byte_bits out @ low bits (val :: int32) = text_bits t"
    using decode_chars_run[OF _ t(2), of 0 0 "[]"] by auto
  have "8 * length out + bits = 8 * length input + length pad"
    using arg_cong[OF run(3)[unfolded t(3)], of length] by simp
  then have "length out = length input" using run(2) t(4) by linarith
  then have "byte_bits out = byte_bits input" using run(3) t(3) by (simp add: append_eq_append_conv)
  then show ?thesis
    using t(1,2) run(1) by (simp add: base32Decode_def plain_text byte_bits_inject)
qed

end
