(* ===== verification/Mfa_Theorems.thy ===== *)
theory Mfa_Theorems imports Mfa Totp_Theorems Invitation_Theorems begin

text \<open>
  What the second factor guarantees: a code of a step or a recovery code authenticates once, a session that is used
  up stays so, and where the code that confirmed an enrollment counts again.
\<close>

section \<open>Requests\<close>

datatype mfa_request =
    Password_accepted user "request_context option"
  | Start_enrollment string "request_context option"
  | Confirm_enrollment string string "request_context option"
  | Complete_challenge string mfa_method string "request_context option"

primrec perform_mfa :: "mfa_env \<Rightarrow> mfa_request \<Rightarrow> unit handler" where
  "perform_mfa env (Password_accepted user ctx) = ignore_result (createPreAuthSession env user ctx)"
| "perform_mfa env (Start_enrollment token ctx) = ignore_result (startEnrollment env token ctx)"
| "perform_mfa env (Confirm_enrollment token code ctx) = ignore_result (confirmEnrollment env token code ctx)"
| "perform_mfa env (Complete_challenge token chosen code ctx) = ignore_result (completeChallenge env token chosen code ctx)"

type_synonym mfa_step = "mfa_env \<times> mfa_request"

definition mfa_perform :: "mfa_step \<Rightarrow> unit handler" where
  "mfa_perform = (\<lambda>(env, req). perform_mfa env req)"

section \<open>What the steps of a handler touch\<close>

lemma reads_validatePreAuth [reads_rules]: "reads (validatePreAuth env token purpose)"
  unfolding validatePreAuth_def by (intro reads_rules)

lemma reads_match_steps [reads_rules]: "reads (match_steps env normalized secret offsets :: ('s, int option) svc)"
  by (induction offsets) (simp only: match_steps.simps, intro reads_rules; assumption?)+

lemma reads_codes [reads_rules]:
  "reads (encrypt env t :: ('s, string) svc)" "reads (decrypt env t :: ('s, string) svc)"
  "reads (matchTotpStep env code secret :: ('s, int option) svc)" "reads (verifyTotp env code secret :: ('s, bool) svc)"
  unfolding encrypt_def decrypt_def matchTotpStep_def verifyTotp_def Let_def
  by (auto intro!: reads_rules split: list.split prod.split)

abbreviation mfa_tables :: "'s tables_scheme \<Rightarrow> mfa_enrollment list \<times> mfa_backup_code list \<times> mfa_session list" where
  "mfa_tables s \<equiv> (mfaEnrollments s, mfaBackupCodes s, mfaSessions s)"

lemma leaves_mfa_audit: "leaves mfa_tables (mfa_audit action user metadata)"
  by (simp add: leaves_def mfa_audit_def)


section \<open>The contract of an invariant\<close>

lemma keeps_case_method:
  "keeps I a \<Longrightarrow> keeps I b \<Longrightarrow> keeps I (case m of TOTP \<Rightarrow> a | RECOVERY_CODE \<Rightarrow> b)"
  by (simp split: mfa_method.split)

lemma keeps_case_some:
  "keeps I a \<Longrightarrow> (\<And>x. y = Some x \<Longrightarrow> keeps I (b x)) \<Longrightarrow> keeps I (case y of None \<Rightarrow> a | Some x \<Rightarrow> b x)"
  by (simp split: option.split)

text \<open>
  An invariant of the three tables that every write of a handler keeps is kept by every request. \<open>fresh\<close> is what
  the invariant asks of the random values of a request, \<open>Q\<close> what it says of an enrollment that is pending.
\<close>

locale mfa_invariant =
  fixes I :: "db \<Rightarrow> bool" and fresh :: "mfa_env \<Rightarrow> bool" and Q :: "mfa_enrollment \<Rightarrow> bool"
  assumes tables: "mfa_tables t = mfa_tables s \<Longrightarrow> I s \<Longrightarrow> I t"
    and failed: "keeps I (recordFailedAttempt env i failures)"
    and used: "keeps I (update_session i (used_session env))"
    and opened: "fresh env \<Longrightarrow> ms_tokenDigest v = sha256 env (randomToken env) \<Longrightarrow>
      keeps I (create_row mfaSessions mfaSessions_update clash v)"
    and disabled: "keeps I (modify (mfaEnrollments_update (disabled_pending env k)))"
    and started: "fresh env \<Longrightarrow> keeps I (create_row mfaEnrollments mfaEnrollments_update other (new_enrollment env u x))"
    and pending: "I s \<Longrightarrow> pendingEnrollment k s = Some e \<Longrightarrow> Q e"
    and enabled: "Q e \<Longrightarrow> keeps I (update_enrollment (me_id e) (enabled_enrollment env))"
    and removed: "keeps I (modify (mfaBackupCodes_update (filter (\<lambda>b. mb_userId b \<noteq> k))))"
    and stored: "fresh env \<Longrightarrow> code \<in> set (generateRecoveryCodes env) \<Longrightarrow>
      keeps I (create_row mfaBackupCodes mfaBackupCodes_update same_code (backup_row env i k (n, code)))"
    and stepped: "keeps I (modify (mfaEnrollments_update (upd_rows (\<lambda>e. me_id e = i \<and> earlier_step step e)
      (\<lambda>e. e\<lparr> me_lastVerifiedAt := verifiedAt, me_lastVerifiedStep := Some step \<rparr>))))"
    and spent: "keeps I (modify (mfaBackupCodes_update (upd_rows C (\<lambda>b. b\<lparr> mb_usedAt := Some m \<rparr>))))"
begin

lemma reading: "reads m \<Longrightarrow> keeps I (m :: 'a handler)"
  by (metis keepsI readsD)

lemma auditing: "keeps I (mfa_audit action user metadata)"
  by (rule keeps_leaves[OF leaves_mfa_audit]) (rule tables)

lemmas steps = keeps_rules failed used opened disabled started enabled removed stepped spent auditing
  reading[OF reads_validatePreAuth] reading[OF reads_codes(1)] reading[OF reads_codes(2)] reading[OF reads_codes(3)]
  reading[OF reads_codes(4)]

lemma confirming:
  assumes "fresh env" and "Q e" and "codes = generateRecoveryCodes env"
  shows "keeps I (confirm_transaction env session user e codes)"
proof -
  have storing: "keeps I (for_each (map (backup_row env i k) (enumerate n cs))
      (\<lambda>row. sq (create_row mfaBackupCodes mfaBackupCodes_update same_code row) (ret ())))"
    if "set cs \<subseteq> set (generateRecoveryCodes env)" for i k n cs
    using that
  proof (induction cs arbitrary: n)
    case (Cons c cs)
    have "keeps I (create_row mfaBackupCodes mfaBackupCodes_update same_code (backup_row env i k (n, c)))"
      using Cons.prems by (intro stored assms(1)) simp
    then show ?case
      unfolding enumerate_simps list.map for_each.simps using Cons.prems by (intro keeps_bnd keeps_ret Cons.IH) simp_all
  qed (unfold enumerate_simps list.map for_each.simps, rule keeps_ret)
  show ?thesis
    unfolding confirm_transaction_def assms(3)
    by (intro keeps_transaction keeps_bnd enabled assms(2) removed storing used keeps_ret subset_refl)
qed

lemma request: "fresh env \<Longrightarrow> keeps I (perform_mfa env req)"
proof (induction req)
  case (Password_accepted user ctx)
  then show ?case
    unfolding perform_mfa.simps createPreAuthSession_def Let_def
    by (intro keeps_ignore_result steps) simp_all
next
  case (Start_enrollment token ctx)
  then show ?case
    unfolding perform_mfa.simps startEnrollment_def Let_def by (intro keeps_ignore_result steps)
next
  case (Confirm_enrollment token code ctx)
  have "keeps I (confirmEnrollment env token code ctx)"
    unfolding confirmEnrollment_def Let_def
    apply (rule keeps_bnd, rule steps, rule keeps_case_admin)
    apply (rule keeps_bnd_post[where Q = "\<lambda>found. \<forall>e. found = Some e \<longrightarrow> Q e"])
      apply (rule steps)
     apply (auto dest: pending)[1]
    subgoal for p session user found
      apply (rule keeps_case_some)
       apply (intro steps)
      apply (intro steps confirming[OF Confirm_enrollment])
       apply auto
      done
    done
  then show ?case by (simp add: keeps_ignore_result)
next
  case (Complete_challenge token chosen code ctx)
  have consume: "keeps I (consume_step env session e step)" "keeps I (consume_code env session b)" for session e step b
    unfolding consume_step_def consume_code_def Let_def by (intro steps)+
  have fail: "keeps I (challenge_failed env m session user ctx)" for m session user
    unfolding challenge_failed_def by (intro steps)
  show ?case
    unfolding perform_mfa.simps completeChallenge_def completeTotpChallenge_def completeRecoveryCodeChallenge_def
    by (intro keeps_ignore_result keeps_case_method steps consume fail)
qed

sublocale service_invariant mfa_perform I "\<lambda>q. fresh (fst q)"
  by unfold_locales (auto simp: mfa_perform_def intro: request)

end


lemma keeps_create_row:
  assumes "\<And>s. I s \<Longrightarrow> I (upd (\<lambda>rs. rs @ [row]) s)"
  shows "keeps I (create_row get upd clash row)"
  unfolding create_row_def by (intro keeps_rules keeps_modify assms)

lemma keeps_table_update:
  "(\<And>s. I s \<Longrightarrow> I (put (upd_rows (\<lambda>r. key r = k) f (get s)) s)) \<Longrightarrow> keeps I (bnd (row_update get put key k f) (\<lambda>_. ret ()))"
  by (intro keeps_bnd keeps_row_update keeps_ret)

section \<open>Three invariants\<close>

text \<open>An enrollment is active and has verified a step not before \<open>n\<close>.\<close>

definition step_row :: "string \<Rightarrow> int \<Rightarrow> mfa_enrollment \<Rightarrow> bool" where
  "step_row e n r \<longleftrightarrow>
     me_id r = e \<longrightarrow> me_status r = ME_ACTIVE \<and> (case me_lastVerifiedStep r of None \<Rightarrow> False | Some l \<Rightarrow> n \<le> l)"

definition step_used :: "string \<Rightarrow> int \<Rightarrow> 's tables_scheme \<Rightarrow> bool" where
  "step_used e n s \<longleftrightarrow> list_all (step_row e n) (mfaEnrollments s)"

text \<open>No code with this digest is left.\<close>

definition code_spent :: "string \<Rightarrow> 's tables_scheme \<Rightarrow> bool" where
  "code_spent d s \<longleftrightarrow> list_all (\<lambda>b. mb_codeDigest b = d \<longrightarrow> mb_usedAt b \<noteq> None) (mfaBackupCodes s)"

text \<open>The session of a token has authenticated or failed too often.\<close>

definition token_over :: "string \<Rightarrow> 's tables_scheme \<Rightarrow> bool" where
  "token_over d s \<longleftrightarrow>
     list_all (\<lambda>v. ms_tokenDigest v = d \<longrightarrow> ms_consumedAt v \<noteq> None \<or> ms_failedAttempts v \<ge> maxAttempts) (mfaSessions s)"

lemma newest_mem: "newest key rows = Some r \<Longrightarrow> r \<in> set rows"
  by (auto simp: newest_def split: if_splits) (metis last_in_set set_sort sort_key_simps(1) set_empty)

lemma pendingEnrollment_row:
  "pendingEnrollment k s = Some e \<Longrightarrow> e \<in> set (mfaEnrollments s) \<and> me_status e = ME_PENDING \<and> me_userId e = k"
  unfolding pendingEnrollment_def by (drule newest_mem) simp

lemma activeEnrollment_row:
  "activeEnrollment k s = Some e \<Longrightarrow> e \<in> set (mfaEnrollments s) \<and> me_status e = ME_ACTIVE \<and> me_userId e = k"
  unfolding activeEnrollment_def Let_def by (auto split: option.splits dest!: newest_mem find_SomeD)

lemmas mfa_writes = recordFailedAttempt_def update_session_def update_enrollment_def

lemma list_all_upd_matching: "list_all P rows \<Longrightarrow> (\<And>r. P r \<Longrightarrow> K r \<Longrightarrow> P (f r)) \<Longrightarrow> list_all P (upd_rows K f rows)"
  by (auto simp: list_all_iff in_upd_rows)

lemma step_row_writes:
  "step_row e n r \<Longrightarrow> me_status r = ME_PENDING \<Longrightarrow> step_row e n (r\<lparr> me_status := ME_DISABLED, me_disabledAt := x \<rparr>)"
  "me_id r \<noteq> e \<Longrightarrow> step_row e n r" "me_id r \<noteq> e \<Longrightarrow> step_row e n (enabled_enrollment env r)"
  "step_row e n r \<Longrightarrow> earlier_step k r \<Longrightarrow> step_row e n (r\<lparr> me_lastVerifiedAt := y, me_lastVerifiedStep := Some k \<rparr>)"
  by (auto simp: step_row_def enabled_enrollment_def earlier_step_def split: option.splits)

interpretation step: mfa_invariant "step_used e n" "\<lambda>env. freshId env 0 \<noteq> e" "\<lambda>r. me_id r \<noteq> e"
proof
  show "step_used e n t" if "mfa_tables t = mfa_tables s" "step_used e n s" for s t
    using that by (simp add: step_used_def)
  show "me_id r \<noteq> e" if "step_used e n s" "pendingEnrollment k s = Some r" for s k r
    using that by (auto simp: step_used_def step_row_def list_all_iff dest!: pendingEnrollment_row)
qed (auto simp: mfa_writes step_used_def disabled_pending_def new_enrollment_def step_row_writes
  intro!: keeps_table_update keeps_row_update keeps_create_row keeps_modify list_all_upd_matching)

interpretation code: mfa_invariant "code_spent d" "\<lambda>env. d \<notin> digestRecoveryCode env ` set (generateRecoveryCodes env)" "\<lambda>_. True"
  by unfold_locales (auto simp: mfa_writes code_spent_def backup_row_def list_all_iff
    intro!: keeps_table_update keeps_row_update keeps_create_row keeps_modify dest!: in_upd_rows[THEN iffD1])

interpretation token: mfa_invariant "token_over d" "\<lambda>env. sha256 env (randomToken env) \<noteq> d" "\<lambda>_. True"
  by unfold_locales (auto simp: mfa_writes token_over_def used_session_def
    intro!: keeps_table_update keeps_row_update keeps_create_row keeps_modify list_all_upd_rows)

section \<open>What a challenge did\<close>

lemma validatePreAuth_InrD:
  assumes "validatePreAuth env token purpose s = (Inr (session, user), t)"
  shows "t = s \<and> find (\<lambda>v. ms_tokenDigest v = sha256 env (trim token)) (mfaSessions s) = Some session \<and>
    find_user (ms_userId session) s = Some user \<and> usable_session env purpose session user"
  using assms unfolding validatePreAuth_def
  by (auto simp: bnd_runs(5) bnd_guard svc_run split: option.splits if_splits)

lemma case_require: "(case x of None \<Rightarrow> sq m (throw e) | Some y \<Rightarrow> f y) s = (Inr r, t) \<Longrightarrow> \<exists>y. x = Some y \<and> f y s = (Inr r, t)"
  by (cases x) (auto elim: bnd_InrE)

lemma challengeE:
  assumes "completeChallenge env token chosen code ctx s = (Inr (user, b), t)"
  obtains session e where "validatePreAuth env token CHALLENGE s = (Inr (session, user), s)"
    "activeEnrollment (u_id user) s = Some e"
    "case chosen of TOTP \<Rightarrow> completeTotpChallenge env session user e code ctx s = (Inr (), t)
     | RECOVERY_CODE \<Rightarrow> completeRecoveryCodeChallenge env session user (me_id e) code ctx s = (Inr (), t)"
proof -
  from assms obtain session u w where v: "validatePreAuth env token CHALLENGE s = (Inr (session, u), w)"
      and rest: "bnd (gets (activeEnrollment (u_id u))) (\<lambda>found. case found of
          None \<Rightarrow> sq (recordFailedAttempt env (ms_id session) (ms_failedAttempts session)) (throw invalid_mfa)
        | Some enrollment \<Rightarrow>
            (case chosen of
               TOTP \<Rightarrow> sq (completeTotpChallenge env session u enrollment code ctx) (ret (u, False))
             | RECOVERY_CODE \<Rightarrow>
                 sq (completeRecoveryCodeChallenge env session u (me_id enrollment) code ctx) (ret (u, True)))) w = (Inr (user, b), t)"
    unfolding completeChallenge_def by (elim bnd_InrE) auto
  have w: "w = s" using validatePreAuth_InrD[OF v] by simp
  from rest[unfolded bnd_runs(5)] obtain e where e: "activeEnrollment (u_id u) s = Some e"
      "(case chosen of
          TOTP \<Rightarrow> sq (completeTotpChallenge env session u e code ctx) (ret (u, False))
        | RECOVERY_CODE \<Rightarrow> sq (completeRecoveryCodeChallenge env session u (me_id e) code ctx) (ret (u, True))) s = (Inr (user, b), t)"
    unfolding w by (blast dest: case_require)
  have "u = user" and "case chosen of TOTP \<Rightarrow> completeTotpChallenge env session u e code ctx s = (Inr (), t)
     | RECOVERY_CODE \<Rightarrow> completeRecoveryCodeChallenge env session u (me_id e) code ctx s = (Inr (), t)"
    using e(2) by (cases chosen; auto elim!: bnd_InrE)+
  then show thesis using that v e(1) w by blast
qed

lemma failed_never_returns: "challenge_failed env m session user ctx s \<noteq> (Inr x, t)"
  "sq (recordFailedAttempt env i n) (throw e) s \<noteq> (Inr y, t)"
  unfolding challenge_failed_def by (auto elim!: bnd_InrE)

definition verified_at :: "mfa_env \<Rightarrow> int \<Rightarrow> mfa_enrollment \<Rightarrow> mfa_enrollment" where
  "verified_at env step e = e\<lparr> me_lastVerifiedAt := Some (now env), me_lastVerifiedStep := Some step \<rparr>"

lemma totpE:
  assumes "completeTotpChallenge env session user e code ctx s = (Inr (), t)"
  obtains secret step where "decrypt env (me_encryptedTotpSecret e) s = (Inr secret, s)"
    "matchTotpStep env code secret s = (Inr (Some step), s)" "earlier_step step e"
    "mfaEnrollments t = upd_rows (\<lambda>r. me_id r = me_id e \<and> earlier_step step r) (verified_at env step) (mfaEnrollments s)"
    "mfaSessions t = upd_rows (\<lambda>v. ms_id v = ms_id session) (used_session env) (mfaSessions s)"
proof -
  from assms obtain secret matched where secret: "decrypt env (me_encryptedTotpSecret e) s = (Inr secret, s)"
      and matched: "matchTotpStep env code secret s = (Inr matched, s)"
      and rest: "(case matched of
         None \<Rightarrow> challenge_failed env ''totp'' session user ctx
       | Some step \<Rightarrow>
           if \<not> earlier_step step e then sq (recordFailedAttempt env (ms_id session) (ms_failedAttempts session)) (throw invalid_mfa)
           else bnd (consume_step env session e step) (\<lambda>consumed.
             if \<not> consumed then sq (recordFailedAttempt env (ms_id session) (ms_failedAttempts session)) (throw invalid_mfa)
             else mfa_audit ''Privileged MFA Challenge Succeeded'' user
               ([(''method'', JStr ''totp''), (''preAuthSessionId'', JStr (ms_id session))] @ request_of ctx))) s = (Inr (), t)"
    unfolding completeTotpChallenge_def by (elim reads_bnd_InrE[OF _ reads_codes(2)] reads_bnd_InrE[OF _ reads_codes(3)]) 
  obtain step where step: "matched = Some step" "earlier_step step e"
      "bnd (consume_step env session e step) (\<lambda>consumed.
             if \<not> consumed then sq (recordFailedAttempt env (ms_id session) (ms_failedAttempts session)) (throw invalid_mfa)
             else mfa_audit ''Privileged MFA Challenge Succeeded'' user
               ([(''method'', JStr ''totp''), (''preAuthSessionId'', JStr (ms_id session))] @ request_of ctx)) s = (Inr (), t)"
    using rest by (auto simp: failed_never_returns split: option.splits if_splits)
  from step(3) obtain w where w: "consume_step env session e step s = (Inr True, w)" "mfa_tables t = mfa_tables w"
    using leavesD[OF leaves_mfa_audit] by (elim bnd_InrE) (auto simp: failed_never_returns split: if_splits)
  from w(1) have "mfaEnrollments w = upd_rows (\<lambda>r. me_id r = me_id e \<and> earlier_step step r) (verified_at env step) (mfaEnrollments s) \<and>
      mfaSessions w = upd_rows (\<lambda>v. ms_id v = ms_id session) (used_session env) (mfaSessions s)"
    unfolding consume_step_def Let_def transaction_def update_session_def row_update_def row_put_def verified_at_def
    by (auto simp: svc_run split: prod.splits sum.splits if_splits option.splits)
  then show thesis
    using that secret matched step(1,2) w(2) by simp
qed


lemma recoveryE:
  assumes "completeRecoveryCodeChallenge env session user k code ctx s = (Inr (), t)"
  obtains backup where "find (\<lambda>b. mb_codeDigest b = digestRecoveryCode env code) (mfaBackupCodes s) = Some backup"
    "mb_usedAt backup = None"
    "mfaBackupCodes t = upd_rows (\<lambda>b. mb_id b = mb_id backup \<and> mb_codeDigest b = mb_codeDigest backup \<and>
       mb_userId b = mb_userId backup \<and> mb_enrollmentId b = mb_enrollmentId backup \<and> mb_usedAt b = None)
       (\<lambda>b. b\<lparr> mb_usedAt := Some (now env) \<rparr>) (mfaBackupCodes s)"
    "mfaSessions t = upd_rows (\<lambda>v. ms_id v = ms_id session) (used_session env) (mfaSessions s)"
proof -
  from assms obtain backup where backup: "find (\<lambda>b. mb_codeDigest b = digestRecoveryCode env code) (mfaBackupCodes s) = Some backup"
      "mb_usedAt backup = None"
      "bnd (consume_code env session backup) (\<lambda>consumed.
           if \<not> consumed then challenge_failed env ''recovery_code'' session user ctx
           else mfa_audit ''Privileged MFA Recovery Code Used'' user
             ([(''preAuthSessionId'', JStr (ms_id session)), (''backupCodeId'', JStr (mb_id backup))] @ request_of ctx)) s = (Inr (), t)"
    unfolding completeRecoveryCodeChallenge_def bnd_runs(5)
    by (auto simp: failed_never_returns split: option.splits if_splits)
  from backup(3) obtain w where w: "consume_code env session backup s = (Inr True, w)" "mfa_tables t = mfa_tables w"
    using leavesD[OF leaves_mfa_audit] by (elim bnd_InrE) (auto simp: failed_never_returns split: if_splits)
  from w(1) have "mfaBackupCodes w = upd_rows (\<lambda>b. mb_id b = mb_id backup \<and> mb_codeDigest b = mb_codeDigest backup \<and>
       mb_userId b = mb_userId backup \<and> mb_enrollmentId b = mb_enrollmentId backup \<and> mb_usedAt b = None)
       (\<lambda>b. b\<lparr> mb_usedAt := Some (now env) \<rparr>) (mfaBackupCodes s) \<and>
      mfaSessions w = upd_rows (\<lambda>v. ms_id v = ms_id session) (used_session env) (mfaSessions s)"
    unfolding consume_code_def Let_def transaction_def update_session_def row_update_def row_put_def
    by (auto simp: svc_run split: prod.splits sum.splits if_splits option.splits)
  then show thesis
    using that backup(1,2) w(2) by simp
qed

section \<open>Once only\<close>

text \<open>The step a code stands for, under the secret of an enrollment.\<close>

definition code_step :: "mfa_env \<Rightarrow> string \<Rightarrow> mfa_enrollment \<Rightarrow> db \<Rightarrow> int option" where
  "code_step env code e s =
     (case fst (bnd (decrypt env (me_encryptedTotpSecret e)) (matchTotpStep env code) s) of Inr found \<Rightarrow> found | Inl _ \<Rightarrow> None)"

lemma distinct_key_unique: "distinct (map key rows) \<Longrightarrow> x \<in> set rows \<Longrightarrow> y \<in> set rows \<Longrightarrow> key x = key y \<Longrightarrow> x = y"
  by (auto simp: distinct_map dest: inj_onD)

text \<open>
  C29: A code of the authenticator is good once: after an account has authenticated with the code of a time step,
  every later success with an authenticator code under the same enrollment is for a later step, whatever requests
  to the second factor come between, so the code itself, a code that was overlooked and an older one are all refused.
\<close>

theorem totp_step_once:
  assumes "completeChallenge env token TOTP code ctx s = (Inr (user, b), t)" and "activeEnrollment (u_id user) s = Some e"
    and "distinct (map me_id (mfaEnrollments s))"
    and "history_of mfa_perform (\<lambda>q. freshId (fst q) 0 \<noteq> me_id e) t v"
    and "completeChallenge env' token' TOTP code' ctx' v = (Inr (user', b'), w)" and "activeEnrollment (u_id user') v = Some e'"
    and "me_id e' = me_id e"
  shows "\<exists>step step'. code_step env code e s = Some step \<and> code_step env' code' e' v = Some step' \<and> step < step'"
proof -
  obtain secret step where first: "decrypt env (me_encryptedTotpSecret e) s = (Inr secret, s)"
      "matchTotpStep env code secret s = (Inr (Some step), s)" "earlier_step step e"
      "mfaEnrollments t = upd_rows (\<lambda>r. me_id r = me_id e \<and> earlier_step step r) (verified_at env step) (mfaEnrollments s)"
    using assms(1,2) by (elim challengeE) (auto elim: totpE)
  have e: "e \<in> set (mfaEnrollments s)" "me_status e = ME_ACTIVE"
    using activeEnrollment_row[OF assms(2)] by auto
  have "step_row (me_id e) step (if me_id r = me_id e \<and> earlier_step step r then verified_at env step r else r)"
    if "r \<in> set (mfaEnrollments s)" for r
    using that e first(3) distinct_key_unique[OF assms(3), of r e] by (cases "r = e") (auto simp: step_row_def verified_at_def)
  then have "step_used (me_id e) step t"
    by (auto simp: step_used_def first(4) list_all_iff in_upd_rows)
  then have "step_used (me_id e) step v"
    by (rule step.along[OF assms(4)])
  then have last: "case me_lastVerifiedStep e' of None \<Rightarrow> False | Some l \<Rightarrow> step \<le> l"
    using activeEnrollment_row[OF assms(6)] assms(7) by (auto simp: step_used_def list_all_iff step_row_def)
  obtain secret' step' where "decrypt env' (me_encryptedTotpSecret e') v = (Inr secret', v)"
      "matchTotpStep env' code' secret' v = (Inr (Some step'), v)" "earlier_step step' e'"
    using assms(5,6) by (elim challengeE) (auto elim: totpE)
  then show ?thesis
    using first(1,2) last by (auto simp: code_step_def earlier_step_def split: option.splits)
qed

text \<open>
  C30: A recovery code is good once: after an account has authenticated with it, no request accepts it again in any
  spelling, unless a later enrollment happens to issue the same code.
\<close>

theorem recovery_code_once:
  assumes "completeChallenge env token RECOVERY_CODE code ctx s = (Inr r, t)"
    and "distinct (map mb_codeDigest (mfaBackupCodes s))"
    and "history_of mfa_perform
      (\<lambda>q. digestRecoveryCode env code \<notin> digestRecoveryCode (fst q) ` set (generateRecoveryCodes (fst q))) t v"
    and "digestRecoveryCode env' code' = digestRecoveryCode env code"
  shows "\<exists>x w. completeChallenge env' token' RECOVERY_CODE code' ctx' v = (Inl x, w)"
proof (rule ccontr)
  obtain backup where first: "find (\<lambda>b. mb_codeDigest b = digestRecoveryCode env code) (mfaBackupCodes s) = Some backup"
      "mb_usedAt backup = None"
      "mfaBackupCodes t = upd_rows (\<lambda>b. mb_id b = mb_id backup \<and> mb_codeDigest b = mb_codeDigest backup \<and>
         mb_userId b = mb_userId backup \<and> mb_enrollmentId b = mb_enrollmentId backup \<and> mb_usedAt b = None)
         (\<lambda>b. b\<lparr> mb_usedAt := Some (now env) \<rparr>) (mfaBackupCodes s)"
    using assms(1) by (cases r) (auto elim!: challengeE recoveryE)
  have backup: "backup \<in> set (mfaBackupCodes s)" "mb_codeDigest backup = digestRecoveryCode env code"
    using find_SomeD[OF first(1)] by auto
  have "mb_usedAt b \<noteq> None" if "b \<in> set (mfaBackupCodes t)" "mb_codeDigest b = digestRecoveryCode env code" for b
  proof -
    let ?C = "\<lambda>b. mb_id b = mb_id backup \<and> mb_codeDigest b = mb_codeDigest backup \<and> mb_userId b = mb_userId backup \<and>
        mb_enrollmentId b = mb_enrollmentId backup \<and> mb_usedAt b = None"
    note b = that
    obtain r where r: "r \<in> set (mfaBackupCodes s)" "b = (if ?C r then r\<lparr> mb_usedAt := Some (now env) \<rparr> else r)"
      using b(1) unfolding first(3) in_upd_rows by blast
    then have "mb_codeDigest r = mb_codeDigest backup" using b(2) backup(2) by (simp split: if_splits)
    then have "r = backup" using distinct_key_unique[OF assms(2) r(1) backup(1)] by simp
    then show ?thesis using r(2) first(2) by simp
  qed
  then have "code_spent (digestRecoveryCode env code) t"
    by (simp add: code_spent_def list_all_iff)
  then have over: "code_spent (digestRecoveryCode env code) v"
    by (rule code.along[OF assms(3)])
  assume "\<nexists>x w. completeChallenge env' token' RECOVERY_CODE code' ctx' v = (Inl x, w)"
  then obtain r' w where "completeChallenge env' token' RECOVERY_CODE code' ctx' v = (Inr r', w)"
    by (cases "completeChallenge env' token' RECOVERY_CODE code' ctx' v"; cases "fst (completeChallenge env' token' RECOVERY_CODE code' ctx' v)") auto
  then obtain b where "find (\<lambda>b. mb_codeDigest b = digestRecoveryCode env' code') (mfaBackupCodes v) = Some b" "mb_usedAt b = None"
    by (cases r') (auto elim!: challengeE recoveryE)
  with over assms(4) show False
    by (auto simp: code_spent_def list_all_iff dest!: find_SomeD)
qed


section \<open>Which codes count\<close>

lemma nat_text_digits: "list_all is_digit (nat_text n)"
proof (induction n rule: nat_text.induct)
  case (1 n)
  have "is_digit (char_of (48 + d))" if "d < 10" for d :: nat
    using that by (simp add: is_digit_def Let_def)
  with 1 show ?case
    by (subst nat_text.simps) auto
qed

lemma nat_text_length: "n < 10 ^ Suc k \<Longrightarrow> length (nat_text n) \<le> Suc k"
proof (induction k arbitrary: n)
  case 0
  then show ?case by (subst nat_text.simps) simp
next
  case (Suc k)
  then have "n div 10 < 10 ^ Suc k" by (simp add: div_less_iff_less_mult mult.commute)
  then have "length (nat_text (n div 10)) \<le> Suc k" by (rule Suc.IH)
  then show ?case by (subst nat_text.simps) simp
qed

lemma six_digits_shape: "0 \<le> n \<Longrightarrow> n < 1000000 \<Longrightarrow> length (six_digits n) = 6 \<and> list_all is_digit (six_digits n)"
  using nat_text_digits[of "nat n"] nat_text_length[of "nat n" 5]
  by (auto simp: six_digits_def int_text_def Let_def is_digit_def list_all_iff)

lemma code_shape:
  assumes "generateTotpCodeForStep hmac secret n = Some t"
  shows "length t = 6 \<and> list_all is_digit t"
  using assms unfolding generateTotpCodeForStep_def
  by (auto simp del: six_digits_def intro!: six_digits_shape split: option.splits)

lemma match_steps_runs:
  assumes "base32Decode secret = Some key" and "length normalized = 6"
    and "\<forall>offset\<in>set offsets. currentTotpStep env + offset < 2 ^ 64"
  shows "match_steps env normalized secret offsets s =
    (Inr (find (\<lambda>n. 0 \<le> n \<and> generateTotpCodeForStep (hmacSha1 env) secret n = Some normalized)
       (map (\<lambda>offset. currentTotpStep env + offset) offsets)), s)"
  using assms(3)
proof (induction offsets)
  case (Cons offset offsets)
  show ?case
  proof (cases "currentTotpStep env + offset < 0")
    case True
    then show ?thesis using Cons by (simp only: match_steps.simps) simp
  next
    case False
    then obtain candidate where c: "generateTotpCodeForStep (hmacSha1 env) secret (currentTotpStep env + offset) = Some candidate"
      using assms(1) Cons.prems by (simp add: generateTotpCodeForStep_def counter_bytes_def)
    then show ?thesis
      using False Cons code_shape[OF c] assms(2) by (simp only: match_steps.simps) (simp add: bnd_runs(3) bnd_guard)
  qed
qed simp

text \<open>
  C32: The check of an authenticator code never fails with an error and accepts exactly the codes of the time step
  before now, of now and of the next one, and of the first that fits gives the step; a text that is not six digits
  is the code of no step.
\<close>

theorem totp_window:
  assumes "base32Decode secret \<noteq> None" and "0 \<le> now env" and "now env < 2 ^ 63"
  shows "matchTotpStep env code secret s =
    (Inr (find (\<lambda>n. 0 \<le> n \<and> generateTotpCodeForStep (hmacSha1 env) secret n = Some (trim code))
       [currentTotpStep env - 1, currentTotpStep env, currentTotpStep env + 1]), s)"
proof -
  obtain key where key: "base32Decode secret = Some key" using assms(1) by blast
  have "currentTotpStep env \<le> now env"
    using assms(2) by (simp add: currentTotpStep_def step_of_time_def totpStepSeconds_def)
  then have small: "\<forall>offset\<in>set [-1, 0, 1]. currentTotpStep env + offset < 2 ^ 64"
    using assms(3) by simp
  show ?thesis
  proof (cases "length (trim code) = 6 \<and> list_all is_digit (trim code)")
    case True
    then show ?thesis
      using match_steps_runs[OF key _ small, of "trim code" s] by (simp add: matchTotpStep_def Let_def)
  next
    case False
    then have "generateTotpCodeForStep (hmacSha1 env) secret n \<noteq> Some (trim code)" for n
      using code_shape by blast
    then show ?thesis
      using False by (auto simp: matchTotpStep_def Let_def)
  qed
qed

section \<open>Sessions end\<close>

lemma token_over_invalid:
  assumes "token_over (sha256 env (trim token)) s"
  shows "\<exists>x. validatePreAuth env token purpose s = (Inl x, s)"
proof (cases "find (\<lambda>v. ms_tokenDigest v = sha256 env (trim token)) (mfaSessions s)")
  case None
  then show ?thesis by (simp add: validatePreAuth_def bnd_runs)
next
  case (Some v)
  then have v: "v \<in> set (mfaSessions s)" "ms_tokenDigest v = sha256 env (trim token)" by (auto dest: find_SomeD)
  have "\<not> usable_session env purpose v u" for u
    using assms v by (auto simp: token_over_def list_all_iff usable_session_def)
  then show ?thesis
    using Some by (cases "find_user (ms_userId v) s") (simp_all add: validatePreAuth_def bnd_runs(3-) bnd_guard)
qed

text \<open>A write to the session of a token that ends it.\<close>

lemma ended_session:
  assumes "find (\<lambda>v. ms_tokenDigest v = d) (mfaSessions s) = Some session" and "distinct (map ms_tokenDigest (mfaSessions s))"
    and "mfaSessions t = upd_rows (\<lambda>v. ms_id v = ms_id session) f (mfaSessions s)"
    and "\<And>v. ms_tokenDigest (f v) = ms_tokenDigest v"
    and "ms_consumedAt (f session) \<noteq> None \<or> ms_failedAttempts (f session) \<ge> maxAttempts"
  shows "token_over d t"
proof -
  have session: "session \<in> set (mfaSessions s)" "ms_tokenDigest session = d"
    using find_SomeD[OF assms(1)] by auto
  have "ms_consumedAt v \<noteq> None \<or> ms_failedAttempts v \<ge> maxAttempts" if "v \<in> set (mfaSessions t)" "ms_tokenDigest v = d" for v
  proof -
    note v = that
    obtain r where r: "r \<in> set (mfaSessions s)" "v = (if ms_id r = ms_id session then f r else r)"
      using v(1) unfolding assms(3) in_upd_rows by blast
    then have "ms_tokenDigest r = ms_tokenDigest session" using v(2) session(2) assms(4) by (simp split: if_splits)
    then have "r = session" using distinct_key_unique[OF assms(2) r(1) session(1)] by simp
    then show ?thesis using r(2) assms(5) by simp
  qed
  then show ?thesis by (simp add: token_over_def list_all_iff)
qed

lemma confirmE:
  assumes "confirmEnrollment env token code ctx s = (Inr (user, codes), t)"
  obtains session e secret step where "validatePreAuth env token ENROLLMENT s = (Inr (session, user), s)"
    "pendingEnrollment (u_id user) s = Some e" "decrypt env (me_encryptedTotpSecret e) s = (Inr secret, s)"
    "matchTotpStep env code secret s = (Inr (Some step), s)"
    "mfaEnrollments t = upd_rows (\<lambda>r. me_id r = me_id e) (enabled_enrollment env) (mfaEnrollments s)"
    "mfaSessions t = upd_rows (\<lambda>v. ms_id v = ms_id session) (used_session env) (mfaSessions s)"
    "users t = users s"
proof -
  from assms obtain session u w where v: "validatePreAuth env token ENROLLMENT s = (Inr (session, u), w)"
      and rest: "bnd (gets (pendingEnrollment (u_id u))) (\<lambda>found. case found of
       None \<Rightarrow> sq (recordFailedAttempt env (ms_id session) (ms_failedAttempts session)) (throw invalid_mfa)
     | Some enrollment \<Rightarrow>
     bnd (decrypt env (me_encryptedTotpSecret enrollment)) (\<lambda>secret.
     bnd (verifyTotp env code secret) (\<lambda>ok.
     if \<not> ok then
       sq (recordFailedAttempt env (ms_id session) (ms_failedAttempts session))
      (sq (mfa_audit ''Privileged MFA Enrollment Confirmation Failed'' u
             ((''preAuthSessionId'', JStr (ms_id session)) # request_of ctx))
          (throw invalid_mfa))
     else
      sq (confirm_transaction env session u enrollment (generateRecoveryCodes env))
     (sq (mfa_audit ''Privileged MFA Enrollment Completed'' u
            ([(''preAuthSessionId'', JStr (ms_id session)), (''recoveryCodeCount'', jint (int (length (generateRecoveryCodes env))))] @
             request_of ctx))
         (ret (u, generateRecoveryCodes env)))))) w = (Inr (user, codes), t)"
    unfolding confirmEnrollment_def Let_def by (elim bnd_InrE) auto
  have w: "w = s" using validatePreAuth_InrD[OF v] by simp
  from rest[unfolded bnd_runs(5) w] obtain e where e: "pendingEnrollment (u_id u) s = Some e"
      "bnd (decrypt env (me_encryptedTotpSecret e)) (\<lambda>secret.
     bnd (verifyTotp env code secret) (\<lambda>ok.
     if \<not> ok then
       sq (recordFailedAttempt env (ms_id session) (ms_failedAttempts session))
      (sq (mfa_audit ''Privileged MFA Enrollment Confirmation Failed'' u
             ((''preAuthSessionId'', JStr (ms_id session)) # request_of ctx))
          (throw invalid_mfa))
     else
      sq (confirm_transaction env session u e (generateRecoveryCodes env))
     (sq (mfa_audit ''Privileged MFA Enrollment Completed'' u
            ([(''preAuthSessionId'', JStr (ms_id session)), (''recoveryCodeCount'', jint (int (length (generateRecoveryCodes env))))] @
             request_of ctx))
         (ret (u, generateRecoveryCodes env))))) s = (Inr (user, codes), t)"
    by (blast dest: case_require)
  from e(2) obtain secret ok where secret: "decrypt env (me_encryptedTotpSecret e) s = (Inr secret, s)"
      "verifyTotp env code secret s = (Inr ok, s)"
      and after: "(if \<not> ok then
       sq (recordFailedAttempt env (ms_id session) (ms_failedAttempts session))
      (sq (mfa_audit ''Privileged MFA Enrollment Confirmation Failed'' u
             ((''preAuthSessionId'', JStr (ms_id session)) # request_of ctx))
          (throw invalid_mfa))
     else
      sq (confirm_transaction env session u e (generateRecoveryCodes env))
     (sq (mfa_audit ''Privileged MFA Enrollment Completed'' u
            ([(''preAuthSessionId'', JStr (ms_id session)), (''recoveryCodeCount'', jint (int (length (generateRecoveryCodes env))))] @
             request_of ctx))
         (ret (u, generateRecoveryCodes env)))) s = (Inr (user, codes), t)"
    by (elim reads_bnd_InrE[OF _ reads_codes(2)] reads_bnd_InrE[OF _ reads_codes(4)])
  have ok: "ok" using after by (auto elim!: bnd_InrE split: if_splits)
  with after obtain v1 where v1: "confirm_transaction env session u e (generateRecoveryCodes env) s = (Inr (), v1)"
      and tail: "sq (mfa_audit ''Privileged MFA Enrollment Completed'' u
            ([(''preAuthSessionId'', JStr (ms_id session)), (''recoveryCodeCount'', jint (int (length (generateRecoveryCodes env))))] @
             request_of ctx)) (ret (u, generateRecoveryCodes env)) v1 = (Inr (user, codes), t)"
    by (auto elim!: bnd_InrE)
  have last: "u = user" "business t = business v1"
    using quiet_tail[OF quiet_mfa_audit tail] by auto
  have other: "leaves (\<lambda>s. (mfaEnrollments s, mfaSessions s, users s))
      (for_each rows (\<lambda>row. sq (create_row mfaBackupCodes mfaBackupCodes_update same_code row) (ret () :: unit handler)))" for rows
  proof -
    have created: "leaves (\<lambda>s. (mfaEnrollments s, mfaSessions s, users s))
        (create_row mfaBackupCodes mfaBackupCodes_update same_code row)" for row
      unfolding create_row_def by (intro leaves_rules leaves_modify) simp
    show ?thesis
    proof (induction rows)
      case (Cons row rows)
      then show ?case unfolding for_each.simps by (intro leaves_rules created)
    qed (simp only: for_each.simps leaves_rules)
  qed
  from v1 have "mfaEnrollments v1 = upd_rows (\<lambda>r. me_id r = me_id e) (enabled_enrollment env) (mfaEnrollments s) \<and>
      mfaSessions v1 = upd_rows (\<lambda>v. ms_id v = ms_id session) (used_session env) (mfaSessions s) \<and> users v1 = users s"
    unfolding confirm_transaction_def transaction_def update_enrollment_def update_session_def
    by (auto simp: row_update_def row_put_def split: prod.splits sum.splits option.splits elim!: bnd_InrE dest!: leavesD[OF other])
  then show thesis
    using that[of session e secret] v e(1) secret ok last business_eq_fields[OF last(2)] w
    by (auto simp: verifyTotp_def elim!: reads_bnd_InrE[OF _ reads_codes(3)])
qed

text \<open>
  C31: A session of the second factor ends with its success: once its token has completed a challenge or confirmed an
  enrollment, no request accepts the token again, unless another session happens to get the same token.
\<close>

theorem session_ends:
  assumes "completeChallenge env token chosen code ctx s = (Inr r, t) \<or> confirmEnrollment env token code ctx s = (Inr r', t)"
    and "distinct (map ms_tokenDigest (mfaSessions s))"
    and "history_of mfa_perform (\<lambda>q. sha256 (fst q) (randomToken (fst q)) \<noteq> sha256 env (trim token)) t v"
    and "sha256 env' (trim token') = sha256 env (trim token)"
  shows "(\<exists>x. completeChallenge env' token' chosen' code' ctx' v = (Inl x, v)) \<and>
    (\<exists>x. confirmEnrollment env' token' code' ctx' v = (Inl x, v)) \<and> (\<exists>x. startEnrollment env' token' ctx' v = (Inl x, v))"
proof -
  obtain session p u where session: "validatePreAuth env token p s = (Inr (session, u), s)"
      "mfaSessions t = upd_rows (\<lambda>v. ms_id v = ms_id session) (used_session env) (mfaSessions s)"
    using assms(1)
  proof
    assume "completeChallenge env token chosen code ctx s = (Inr r, t)"
    then show thesis
      using that by (cases r; cases chosen) (auto elim!: challengeE totpE recoveryE)
  next
    assume "confirmEnrollment env token code ctx s = (Inr r', t)"
    then show thesis
      using that by (cases r') (auto elim!: confirmE)
  qed
  have "token_over (sha256 env (trim token)) t"
    using validatePreAuth_InrD[OF session(1)] by (intro ended_session[OF _ assms(2) session(2)]) (auto simp: used_session_def)
  then have "token_over (sha256 env' (trim token')) v"
    unfolding assms(4) by (rule token.along[OF assms(3)])
  then obtain x y where "validatePreAuth env' token' CHALLENGE v = (Inl x, v)" "validatePreAuth env' token' ENROLLMENT v = (Inl y, v)"
    using token_over_invalid by metis
  then show ?thesis
    by (simp add: completeChallenge_def confirmEnrollment_def startEnrollment_def)
qed

end
