(* ===== verification/Mfa_Scenarios.thy ===== *)
theory Mfa_Scenarios imports Mfa_Theorems begin

text \<open>
  Whole logins with the second factor, and the instances of the properties on a small database.
\<close>

section \<open>Computations that do not look at the database\<close>

definition stateless :: "('s, 'a) svc \<Rightarrow> bool" where
  "stateless m \<longleftrightarrow> (\<exists>r. \<forall>s. m s = (r, s))"

named_theorems stateless_rules \<open>computations without the database\<close>

lemma statelessD: "stateless m \<Longrightarrow> m s = (x, s') \<Longrightarrow> m t = (x, t)"
  unfolding stateless_def by (metis prod.inject)

lemma stateless_basic [stateless_rules]:
  "stateless (ret x)" "stateless (throw e)" "stateless (require e y)" "stateless (throw_if c e)"
  by (auto simp: stateless_def) (cases y; simp)

lemma stateless_bnd [stateless_rules]:
  assumes "stateless m" and "\<And>x. stateless (f x)"
  shows "stateless (bnd m f)"
proof -
  obtain r where r: "\<forall>s. m s = (r, s)" using assms(1) unfolding stateless_def by blast
  show ?thesis
  proof (cases r)
    case (Inl e)
    then show ?thesis using r by (simp add: stateless_def bnd_def)
  next
    case (Inr x)
    then obtain r' where "\<forall>s. f x s = (r', s)" using assms(2) unfolding stateless_def by blast
    then show ?thesis using r Inr by (simp add: stateless_def bnd_def)
  qed
qed

lemma stateless_if [stateless_rules]: "stateless a \<Longrightarrow> stateless b \<Longrightarrow> stateless (if c then a else b)"
  by simp

lemma stateless_match_steps [stateless_rules]: "stateless (match_steps env normalized secret offsets)"
proof (induction offsets)
  case Nil
  show ?case by (simp only: match_steps.simps stateless_basic)
next
  case (Cons offset offsets)
  then show ?case unfolding match_steps.simps by (intro stateless_rules)
qed

lemma stateless_decrypt: "stateless (decrypt env payload)"
  unfolding decrypt_def by (auto intro!: stateless_rules split: list.split)

lemma stateless_match: "stateless (matchTotpStep env code secret)"
  unfolding matchTotpStep_def Let_def by (intro stateless_rules)

section \<open>The code that confirmed the enrollment\<close>

lemma filter_upd_unique:
  assumes "distinct (map key rows)" and "e \<in> set rows" and "filter P rows = []" and "P (f e)"
  shows "filter P (upd_rows (\<lambda>r. key r = key e) f rows) = [f e]"
  using assms(1-3)
proof (induction rows)
  case (Cons r rows)
  show ?case
  proof (cases "r = e")
    case True
    then have "key q \<noteq> key e" if "q \<in> set rows" for q
      using Cons.prems(1) that by (auto simp: image_iff)
    then have "upd_rows (\<lambda>r. key r = key e) f rows = rows"
      by (simp add: upd_rows_def map_idI)
    then show ?thesis using True Cons.prems(3) assms(4) by (simp split: if_splits)
  next
    case False
    then have "key r \<noteq> key e" using Cons.prems(1,2) by (auto simp: image_iff)
    then show ?thesis using Cons False by (simp split: if_splits)
  qed
qed simp

lemma activeEnrollment_None: "activeEnrollment k s = None \<Longrightarrow>
    filter (\<lambda>e. me_userId e = k \<and> me_status e = ME_ACTIVE \<and> me_disabledAt e = None) (mfaEnrollments s) = []"
  by (auto simp: activeEnrollment_def newest_def Let_def split: option.splits if_splits)

lemma activeEnrollment_only:
  assumes "filter (\<lambda>e. me_userId e = k \<and> me_status e = ME_ACTIVE \<and> me_disabledAt e = None) (mfaEnrollments s) = [e]"
  shows "activeEnrollment k s = Some e"
  using assms by (simp add: activeEnrollment_def newest_def Let_def)

lemma filter_unique_key: "distinct (map key rows) \<Longrightarrow> e \<in> set rows \<Longrightarrow> filter (\<lambda>r. key r = key e) rows = [e]"
  by (induction rows) (auto simp: image_iff filter_empty_conv)

lemma consume_step_runs:
  assumes "length (filter (\<lambda>r. me_id r = me_id e \<and> earlier_step step r) (mfaEnrollments s)) = 1"
    and "find_session (ms_id session) s = Some x"
  shows "\<exists>t. consume_step env session e step s = (Inr True, t)"
  using assms
  by (simp add: consume_step_def Let_def transaction_def bnd_runs(5) update_session_def row_update_def find_session_def
      row_find_def svc_run)

lemma step_same: "currentTotpStep (env\<lparr> randomToken := r, freshId := f \<rparr>) = currentTotpStep env"
  by (simp add: currentTotpStep_def)

lemma match_same: "match_steps (env\<lparr> randomToken := r, freshId := f \<rparr>) t u xs = match_steps env t u xs"
  by (induction xs) (simp_all add: step_same cong: if_cong)

lemma key_same: "encryptionKey (env\<lparr> randomToken := r, freshId := f \<rparr>) = encryptionKey env"
  "aesDecrypt (env\<lparr> randomToken := r, freshId := f \<rparr>) = aesDecrypt env"
  by (simp_all add: encryptionKey_def split: option.split)

lemma crypto_same:
  "decrypt (env\<lparr> randomToken := r, freshId := f \<rparr>) payload = decrypt env payload"
  "matchTotpStep (env\<lparr> randomToken := r, freshId := f \<rparr>) code secret = matchTotpStep env code secret"
  by (simp_all only: decrypt_def key_same matchTotpStep_def match_same)

text \<open>
  The code that confirmed an enrollment counts again: with it the account can at once complete a challenge,
  although a code is meant to be good once, because the confirmation does not record its step.
\<close>

theorem enrollment_code_again:
  assumes "confirmEnrollment env token code ctx s = (Inr (user, codes), t)"
    and "activeEnrollment (u_id user) s = None" and "distinct (map me_id (mfaEnrollments s))"
    and "trim r = r" and "\<forall>v\<in>set (mfaSessions t). ms_tokenDigest v \<noteq> sha256 env r \<and> ms_id v \<noteq> f 0"
  shows "\<exists>reply v w. createPreAuthSession (env\<lparr> randomToken := r, freshId := f \<rparr>) user ctx' t = (Inr reply, v) \<and>
    completeChallenge (env\<lparr> randomToken := r, freshId := f \<rparr>) (pre_preAuthToken reply) TOTP code ctx' v = (Inr (user, False), w)"
proof -
  let ?env = "env\<lparr> randomToken := r, freshId := f \<rparr>"
  obtain session e secret step where run: "validatePreAuth env token ENROLLMENT s = (Inr (session, user), s)"
      "pendingEnrollment (u_id user) s = Some e" "decrypt env (me_encryptedTotpSecret e) s = (Inr secret, s)"
      "matchTotpStep env code secret s = (Inr (Some step), s)"
      "mfaEnrollments t = upd_rows (\<lambda>r. me_id r = me_id e) (enabled_enrollment env) (mfaEnrollments s)" "users t = users s"
    using assms(1) by (rule confirmE)
  let ?e = "enabled_enrollment env e"
  have user: "find_user (ms_userId session) s = Some user" "usable_session env ENROLLMENT session user"
    using validatePreAuth_InrD[OF run(1)] by simp_all
  then have stored: "find_user (u_id user) t = Some user"
    using find_user_SomeD[OF user(1)] run(6) by (simp add: find_user_def row_find_def)
  have e: "e \<in> set (mfaEnrollments s)" "me_userId e = u_id user" "me_disabledAt e = None"
    using run(2) unfolding pendingEnrollment_def by (auto dest: newest_mem)
  have "filter (\<lambda>r. me_userId r = u_id user \<and> me_status r = ME_ACTIVE \<and> me_disabledAt r = None) (mfaEnrollments t) = [?e]"
    unfolding run(5) using e
    by (intro filter_upd_unique[OF assms(3) _ activeEnrollment_None[OF assms(2)]]) (simp_all add: enabled_enrollment_def)
  then have active: "activeEnrollment (u_id user) t = Some ?e" by (rule activeEnrollment_only)
  let ?session = "\<lparr> ms_id = f 0, ms_userId = u_id user, ms_tokenDigest = sha256 env r, ms_purpose = CHALLENGE,
      ms_expiresAt = now env + preAuthTtlMs, ms_consumedAt = None, ms_failedAttempts = 0, ms_lockedAt = None \<rparr>"
  let ?reply = "\<lparr> pre_status = ''MFA_CHALLENGE_REQUIRED'', pre_preAuthToken = r, pre_expiresAt = now env + preAuthTtlMs \<rparr>"
  obtain res v where tail: "sq (mfa_audit ''Privileged Login Password Accepted MFA Pending'' user
      ((''purpose'', JStr (mfa_purpose_name CHALLENGE)) # request_of ctx')) (ret ?reply)
      (mfaSessions_update (\<lambda>rs. rs @ [?session]) t) = (res, v)"
    by fastforce
  have "\<not> list_ex (\<lambda>b. ms_id ?session = ms_id b \<or> ms_tokenDigest ?session = ms_tokenDigest b) (mfaSessions t)"
    using assms(5) by (auto simp: list_ex_iff)
  then have opened: "createPreAuthSession ?env user ctx' t = (res, v)"
    using active user(2) tail
    by (simp add: createPreAuthSession_def bnd_runs usable_session_def create_row_def bnd_assoc Let_def svc_run)
  from quiet_tail[OF quiet_mfa_audit tail] have "res = Inr ?reply"
      and v: "business v = business (mfaSessions_update (\<lambda>rs. rs @ [?session]) t)" by simp_all
  have tables: "mfaEnrollments v = mfaEnrollments t" "mfaSessions v = mfaSessions t @ [?session]" "users v = users t"
    using arg_cong[OF v, of mfaEnrollments] arg_cong[OF v, of mfaSessions] arg_cong[OF v, of users] by simp_all
  have "find (\<lambda>v. ms_tokenDigest v = sha256 env r) (mfaSessions t) = None"
    using assms(5) by (auto simp: find_None_iff)
  then have "find (\<lambda>v. ms_tokenDigest v = sha256 env r) (mfaSessions v) = Some ?session"
    unfolding tables(2) by (simp add: find_append_new)
  moreover have "find_user (u_id user) v = Some user"
    using stored tables(3) by (simp add: find_user_def row_find_def)
  ultimately have valid: "validatePreAuth ?env r CHALLENGE v = (Inr (?session, user), v)"
    using user(2) assms(4) by (simp add: validatePreAuth_def bnd_runs usable_session_def preAuthTtlMs_def maxAttempts_def)
  have active': "activeEnrollment (u_id user) v = Some ?e"
    using active tables(1) by (simp add: activeEnrollment_def)
  have secret: "decrypt ?env (me_encryptedTotpSecret ?e) v = (Inr secret, v)" "matchTotpStep ?env code secret v = (Inr (Some step), v)"
    using statelessD[OF stateless_decrypt run(3)] statelessD[OF stateless_match run(4)]
    by (simp_all add: crypto_same enabled_enrollment_def)
  have "map me_id (mfaEnrollments v) = map me_id (mfaEnrollments s)"
    unfolding tables(1) run(5) by (rule map_upd_rows) (simp add: enabled_enrollment_def)
  then have "filter (\<lambda>r. me_id r = me_id ?e) (mfaEnrollments v) = [?e]"
    using assms(3) e(1) tables(1) run(5) by (intro filter_unique_key) (auto simp: in_upd_rows)
  moreover have "earlier_step step ?e" by (simp add: earlier_step_def enabled_enrollment_def)
  moreover have "filter (\<lambda>r. me_id r = me_id ?e \<and> earlier_step step r) (mfaEnrollments v) =
      filter (earlier_step step) (filter (\<lambda>r. me_id r = me_id ?e) (mfaEnrollments v))"
    by (simp only: filter_filter)
  ultimately have "length (filter (\<lambda>r. me_id r = me_id ?e \<and> earlier_step step r) (mfaEnrollments v)) = 1"
    by simp
  moreover have "find_session (ms_id ?session) v = Some ?session"
    using assms(5) tables(2) by (auto simp: find_session_def row_find_def find_None_iff find_append_new)
  ultimately obtain w where consumed: "consume_step ?env ?session ?e step v = (Inr True, w)"
    using consume_step_runs by blast
  obtain x where "completeTotpChallenge ?env ?session user ?e code ctx' v = (Inr (), x)"
    using secret consumed \<open>earlier_step step ?e\<close> by (simp add: completeTotpChallenge_def mfa_audit_def)
  then have "completeChallenge ?env r TOTP code ctx' v = (Inr (user, False), x)"
    using valid active' by (simp add: completeChallenge_def bnd_runs(5))
  then show ?thesis using opened \<open>res = Inr ?reply\<close> by auto
qed


section \<open>The secret that was shown\<close>

lemma regrouped:
  "n < 256 \<Longrightarrow> n div 16 div 16 = (0 :: nat)" "n < 256 \<Longrightarrow> n div 64 div 4 = (0 :: nat)"
  "n < 256 \<Longrightarrow> n div 16 mod 16 * 16 + n mod 16 = (n :: nat)" "n < 256 \<Longrightarrow> n div 64 mod 4 * 64 + n mod 64 = (n :: nat)"
  by simp_all

lemma octets_sextets: "list_all (\<lambda>n. n < 256) ns \<Longrightarrow> octets (sextets ns) = ns"
  by (induction ns rule: sextets.induct) (simp_all add: regrouped)

lemma bytes_small: "list_all (\<lambda>n. n < 256) (map unat (bytes :: byte list))"
proof -
  have "unat b < 256" for b :: byte
  proof -
    have "unat b < 2 ^ LENGTH(8)" by (rule unsigned_less)
    then show ?thesis by simp
  qed
  then show ?thesis by (simp add: list_all_iff)
qed

lemma sextets_small: "list_all (\<lambda>n. n < 256) ns \<Longrightarrow> list_all (\<lambda>n. n < 64) (sextets ns)"
proof (induction ns rule: sextets.induct)
  case (4 a b c rest)
  then show ?case by simp linarith
qed (simp_all, linarith+)

lemma base64_index_char:
  assumes "n < 64"
  shows "base64_index (base64_char n) = Some n" "base64_char n \<noteq> CHR 0x3A"
proof -
  have "list_all (\<lambda>n. base64_index (base64_char n) = Some n \<and> base64_char n \<noteq> CHR 0x3A) [0..<64]" by code_simp
  with assms show "base64_index (base64_char n) = Some n" "base64_char n \<noteq> CHR 0x3A" by (simp_all add: list_all_iff)
qed

lemma base64_roundtrip: "base64_bytes (base64url bytes) = bytes"
proof -
  note small = bytes_small[of bytes]
  have "List.map_filter base64_index (map base64_char ns) = ns" if "list_all (\<lambda>n. n < 64) ns" for ns
    using that by (induction ns) (simp_all add: map_filter_simps base64_index_char)
  from this[OF sextets_small[OF small]] show ?thesis
    by (simp add: base64_bytes_def base64url_def octets_sextets[OF small] comp_def)
qed

lemma base64url_plain: "CHR 0x3A \<notin> set (base64url bytes)" "base64url bytes = [] \<longleftrightarrow> bytes = []"
proof -
  note small = bytes_small[of bytes]
  show "CHR 0x3A \<notin> set (base64url bytes)"
  proof
    assume "CHR 0x3A \<in> set (base64url bytes)"
    then obtain n where "n \<in> set (sextets (map unat bytes))" "base64_char n = CHR 0x3A"
      by (auto simp: base64url_def)
    then show False
      using sextets_small[OF small] base64_index_char(2)[of n] by (simp add: list_all_iff)
  qed
  show "base64url bytes = [] \<longleftrightarrow> bytes = []"
    using octets_sextets[OF small] by (auto simp: base64url_def)
qed

lemma split_colon_plain:
  "CHR 0x3A \<notin> set w \<Longrightarrow> split_colon (w @ CHR 0x3A # rest) = w # split_colon rest"
  "CHR 0x3A \<notin> set w \<Longrightarrow> split_colon w = [w]"
  by (induction w) auto

lemma bytes_text_roundtrip: "bytes_text (text_bytes t) = t"
proof -
  have "unat (of_nat n :: byte) = n" if "n < 256" for n
    using that by (simp add: unsigned_of_nat take_bit_nat_eq_self)
  from this[of "of_char c" for c] have "char_of (unat (of_char c :: byte)) = c" for c :: char
    by (simp add: of_nat_of_char)
  then show ?thesis by (simp add: bytes_text_def text_bytes_def comp_def)
qed

text \<open>
  A stored secret is recovered exactly: the text an encryption makes of it is decrypted into it under the same
  configuration, for every cipher that decrypts what it encrypted.
\<close>

theorem secret_roundtrip:
  assumes "encryptionKey env = Some key" and "aesEncrypt env key (randomBytes env 1 12) (text_bytes secret) = (ciphertext, tag)"
    and "aesDecrypt env key (randomBytes env 1 12) tag ciphertext = Some (text_bytes secret)"
    and "randomBytes env 1 12 \<noteq> []" and "tag \<noteq> []" and "ciphertext \<noteq> []"
  shows "bnd (encrypt env secret) (decrypt env) s = (Inr secret, s)"
  using assms
  by (simp add: encrypt_def decrypt_def bnd_runs base64url_plain split_colon_plain base64_roundtrip bytes_text_roundtrip)


section \<open>An account logs in\<close>

text \<open>An environment with a digest and a cipher that can be computed, at a time with a token, and an empty secret.\<close>

definition mfa_at :: "int \<Rightarrow> string \<Rightarrow> mfa_env" where
  "mfa_at t token = env.extend
     (sample_env\<lparr> now := t, randomToken := token, freshId := (\<lambda>k. token @ nat_text k),
        envVar := (\<lambda>k. if k = ''NODE_ENV'' then Some ''test'' else None) \<rparr>)
     (mfa_env.fields (\<lambda>k n. [of_nat k]) (\<lambda>key msg. [0, 0, 0] @ take 1 (rev msg) @ replicate 16 0) (\<lambda>t. [])
        (\<lambda>key iv plaintext. (0 # plaintext, [1])) (\<lambda>key iv tag ciphertext. Some (tl ciphertext)))"

definition mfa_admin :: user where
  "mfa_admin = sample_user\<lparr> u_id := ''s1'', u_role := SUPER_ADMIN \<rparr>"

definition sample_session :: "string \<Rightarrow> mfa_purpose \<Rightarrow> mfa_session" where
  "sample_session token purpose = \<lparr> ms_id = token, ms_userId = ''s1'', ms_tokenDigest = rev token, ms_purpose = purpose,
     ms_expiresAt = 5000000, ms_consumedAt = None, ms_failedAttempts = 0, ms_lockedAt = None \<rparr>"

definition sample_enrollment :: mfa_enrollment where
  "sample_enrollment = \<lparr> me_id = ''e1'', me_userId = ''s1'', me_status = ME_PENDING, me_encryptedTotpSecret = ''v1:AA:AQ:AA'',
     me_enabledAt = None, me_enforcedAt = None, me_lastVerifiedAt = None, me_lastVerifiedStep = None, me_disabledAt = None,
     me_createdAt = 0 \<rparr>"

definition enrolling_db :: db where
  "enrolling_db = (sample_db [])\<lparr> users := [mfa_admin], mfaEnrollments := [sample_enrollment],
     mfaSessions := [sample_session ''A'' ENROLLMENT] \<rparr>"

definition enrolled_db :: db where
  "enrolled_db = enrolling_db\<lparr> mfaEnrollments := [enabled_enrollment (mfa_at 1000 []) sample_enrollment],
     mfaBackupCodes := [\<lparr> mb_id = ''b1'', mb_enrollmentId = ''e1'', mb_userId = ''s1'', mb_codeDigest = ''321ZYX'', mb_usedAt = None \<rparr>],
     mfaSessions := [sample_session ''D'' CHALLENGE, sample_session ''F'' CHALLENGE] \<rparr>"

theorem totp_window_witness:
  "matchTotpStep (mfa_at 1000000 []) '' 000033 '' [] enrolled_db = (Inr (Some 33), enrolled_db)"
proof -
  have "find (\<lambda>n. 0 \<le> n \<and> generateTotpCodeForStep (hmacSha1 (mfa_at 1000000 [])) [] n = Some (trim '' 000033 ''))
      [currentTotpStep (mfa_at 1000000 []) - 1, currentTotpStep (mfa_at 1000000 []), currentTotpStep (mfa_at 1000000 []) + 1] =
      Some 33" by code_simp
  moreover have "base32Decode [] \<noteq> None" "0 \<le> now (mfa_at 1000000 [])" "now (mfa_at 1000000 []) < 2 ^ 63"
    by code_simp+
  ultimately show ?thesis
    using totp_window[of "[]" "mfa_at 1000000 []" "'' 000033 ''" enrolled_db] by simp
qed

theorem secret_roundtrip_witness:
  "bnd (encrypt (mfa_at 0 []) ''MFRGG'') (decrypt (mfa_at 0 [])) enrolled_db = (Inr ''MFRGG'', enrolled_db)"
  by (rule secret_roundtrip[where key = "[]" and ciphertext = "0 # text_bytes ''MFRGG''" and tag = "[1]"]) code_simp+

text \<open>The recovery codes of the environment, and the database after the confirmation.\<close>

definition sample_codes :: "string list" where
  "sample_codes = [''AA'', ''AQ'', ''AG'', ''AW'', ''BA'', ''BQ'', ''BG'', ''BW'', ''CA'', ''CQ'']"

definition code_of :: "byte list \<Rightarrow> string" where
  "code_of bytes = recovery_groups (take 12 (toUpperCase (filter is_alnum (base64url bytes))))"

lemma generated: "generateRecoveryCodes (mfa_at t token) = sample_codes"
proof -
  have "generateRecoveryCodes (mfa_at t token) = map (\<lambda>k. code_of (randomBytes (mfa_at t token) k 10)) [0..<10]"
    unfolding generateRecoveryCodes_def code_of_def backupCodeCount_def ..
  also have "\<dots> = map (\<lambda>k. code_of [of_nat k]) [0..<10]" by (simp add: mfa_at_def env.defs mfa_env.defs)
  also have "\<dots> = map code_of [[0], [1], [2], [3], [4], [5], [6], [7], [8], [9]]" by (simp add: upt_rec)
  also have "\<dots> = sample_codes" by code_simp
  finally show ?thesis .
qed

definition confirmed_db :: db where
  "confirmed_db = snd (sq (confirm_transaction (mfa_at 1000000 ''C'') (sample_session ''A'' ENROLLMENT) mfa_admin sample_enrollment
       sample_codes)
     (mfa_audit ''Privileged MFA Enrollment Completed'' mfa_admin
       ([(''preAuthSessionId'', JStr ''A''), (''recoveryCodeCount'', jint (int (length sample_codes)))] @ request_of None)) enrolling_db)"

lemma confirmed: "confirmEnrollment (mfa_at 1000000 ''C'') ''A'' ''000033'' None enrolling_db = (Inr (mfa_admin, sample_codes), confirmed_db)"
proof -
  let ?env = "mfa_at 1000000 ''C''" and ?session = "sample_session ''A'' ENROLLMENT"
  have steps: "validatePreAuth ?env ''A'' ENROLLMENT enrolling_db = (Inr (?session, mfa_admin), enrolling_db)"
      "pendingEnrollment (u_id mfa_admin) enrolling_db = Some sample_enrollment"
      "decrypt ?env (me_encryptedTotpSecret sample_enrollment) enrolling_db = (Inr [], enrolling_db)"
      "verifyTotp ?env ''000033'' [] enrolling_db = (Inr True, enrolling_db)"
    by code_simp+
  let ?set = "confirm_transaction ?env ?session mfa_admin sample_enrollment sample_codes"
  have "fst (?set enrolling_db) = Inr ()" by code_simp
  then have stored: "?set enrolling_db = (Inr (), snd (?set enrolling_db))" by (metis prod.collapse)
  have names: "ms_id ?session = ''A''" by (simp add: sample_session_def)
  show ?thesis
    unfolding confirmEnrollment_def Let_def generated confirmed_db_def
    using steps stored names by (simp add: bnd_runs(5) mfa_audit_def)
qed

theorem enrollment_code_again_witness:
  "\<exists>reply v w. createPreAuthSession ((mfa_at 1000000 ''C'')\<lparr> randomToken := ''D'', freshId := (\<lambda>k. ''D'') \<rparr>) mfa_admin None
      confirmed_db = (Inr reply, v) \<and>
    completeChallenge ((mfa_at 1000000 ''C'')\<lparr> randomToken := ''D'', freshId := (\<lambda>k. ''D'') \<rparr>) (pre_preAuthToken reply) TOTP
      ''000033'' None v = (Inr (mfa_admin, False), w)"
proof (rule enrollment_code_again[OF confirmed, where f = "\<lambda>k. ''D''"])
  have "map ms_tokenDigest (mfaSessions confirmed_db) = [''A'']" "map ms_id (mfaSessions confirmed_db) = [''A'']"
      "sha256 (mfa_at 1000000 ''C'') ''D'' = ''D''"
    by code_simp+
  then show "\<forall>v\<in>set (mfaSessions confirmed_db). ms_tokenDigest v \<noteq> sha256 (mfa_at 1000000 ''C'') ''D'' \<and> ms_id v \<noteq> (\<lambda>k :: nat. ''D'') 0"
    by auto
qed code_simp+

text \<open>A challenge with the code of now, and one with a recovery code.\<close>

definition challenged_db :: db where
  "challenged_db = snd (completeChallenge (mfa_at 1000000 ''E'') ''D'' TOTP ''000033'' None enrolled_db)"

definition recovered_db :: db where
  "recovered_db = snd (completeChallenge (mfa_at 1000000 ''E'') ''D'' RECOVERY_CODE ''xyz-123'' None enrolled_db)"

lemma challenged: "completeChallenge (mfa_at 1000000 ''E'') ''D'' TOTP ''000033'' None enrolled_db = (Inr (mfa_admin, False), challenged_db)"
proof -
  have "fst (completeChallenge (mfa_at 1000000 ''E'') ''D'' TOTP ''000033'' None enrolled_db) = Inr (mfa_admin, False)" by code_simp
  then show ?thesis unfolding challenged_db_def by (metis prod.collapse)
qed

theorem totp_step_once_witness:
  "\<exists>e e' step step'. activeEnrollment ''s1'' enrolled_db = Some e \<and> activeEnrollment ''s1'' challenged_db = Some e' \<and>
     code_step (mfa_at 1000000 ''E'') ''000033'' e enrolled_db = Some step \<and>
     code_step (mfa_at 2000000 ''G'') ''000066'' e' challenged_db = Some step' \<and> step < step'"
proof -
  let ?second = "completeChallenge (mfa_at 2000000 ''G'') ''F'' TOTP ''000066'' None challenged_db"
  let ?e = "the (activeEnrollment ''s1'' enrolled_db)" and ?e' = "the (activeEnrollment ''s1'' challenged_db)"
  have "fst ?second = Inr (mfa_admin, False)" by code_simp
  then have second: "?second = (Inr (mfa_admin, False), snd ?second)" by (metis prod.collapse)
  have found: "activeEnrollment (u_id mfa_admin) enrolled_db = Some ?e" "activeEnrollment (u_id mfa_admin) challenged_db = Some ?e'"
      "me_id ?e' = me_id ?e" "distinct (map me_id (mfaEnrollments enrolled_db))"
    by code_simp+
  from totp_step_once[OF challenged found(1,4) history_start second found(2,3)] found(1,2) show ?thesis
    by (auto simp: mfa_admin_def)
qed

theorem recovery_code_once_witness:
  "\<exists>x w. completeChallenge (mfa_at 2000000 ''G'') ''F'' RECOVERY_CODE ''XYZ123'' None recovered_db = (Inl x, w)"
proof (rule recovery_code_once[OF _ _ history_start])
  let ?run = "completeChallenge (mfa_at 1000000 ''E'') ''D'' RECOVERY_CODE ''xyz-123'' None enrolled_db"
  have "fst ?run = Inr (mfa_admin, True)" by code_simp
  then show "?run = (Inr (mfa_admin, True), recovered_db)" unfolding recovered_db_def by (metis prod.collapse)
qed code_simp+

theorem session_ends_witness:
  "(\<exists>x. completeChallenge (mfa_at 1000000 ''G'') '' D '' RECOVERY_CODE ''XYZ123'' None challenged_db = (Inl x, challenged_db))"
  by (rule conjunct1, rule session_ends[OF disjI1[OF challenged] _ history_start]) code_simp+

end
