(* ===== verification/Auth.thy ===== *)
theory Auth imports Mfa Trust Users begin

text \<open>
  Logging in (\<open>auth/auth.service.ts\<close>, lines 75-735, 869-975; \<open>auth/firebase-auth-verifier.service.ts\<close>, lines 24-54;
  \<open>trust/trust.service.ts\<close>, lines 197-215): with a password, which for privileged roles only opens a session of the
  second factor; with a code of that factor; and, for citizens, with an identity the provider Firebase has
  verified. An access token carries the version of the account that the token strategy compares.
\<close>

section \<open>What the runtime gives\<close>

text \<open>
  Beyond \<open>mfa_env\<close>: the comparison of a password with a hash and the hash of a password (\<open>bcrypt\<close>), the signature of an
  access token, and the identity provider's answer about a token, None when it refuses the token or is not configured.
\<close>

record decoded_token =
  dt_uid :: string
  dt_phone_number :: "json option"
  dt_email :: "json option"
  dt_email_verified :: "json option"
  dt_name :: "json option"
  dt_sign_in_provider :: "json option"

record auth_env = mfa_env +
  bcryptCompare :: "string \<Rightarrow> string \<Rightarrow> bool"
  bcryptHash :: "string \<Rightarrow> string"
  signToken :: "(string \<times> json) list \<Rightarrow> string"
  firebaseSdk :: "string \<Rightarrow> decoded_token option"

definition auth_failure :: exn where
  "auth_failure = Unauthorized ''Authentication failed''"

section \<open>Recording\<close>

definition auth_audit :: "string \<Rightarrow> string \<Rightarrow> (string \<times> json) list \<Rightarrow> unit handler" where
  "auth_audit action actorUserId metadata =
     modify (demoAuditLogs_update (\<lambda>rows. rows @
       [\<lparr> d_action = action, d_actorUserId = actorUserId, d_metadata = metadata \<rparr>]))"

definition recordLogin :: "string option \<Rightarrow> bool \<Rightarrow> string option \<Rightarrow> request_context option \<Rightarrow> unit handler" where
  "recordLogin userId success failureReason context =
     modify (loginHistory_update (\<lambda>rows. rows @
       [\<lparr> lh_userId = userId, lh_email = None, lh_ipAddress = Option.bind context rq_ipAddress,
          lh_userAgent = Option.bind context rq_userAgent, lh_success = success, lh_failureReason = failureReason \<rparr>]))"

lemma quiet_auth [quiet_rules]:
  "quiet business (auth_audit action actor metadata)"
  "quiet business (recordLogin userId success reason context)"
  by (simp_all add: auth_audit_def recordLogin_def quiet_log)

section \<open>Tokens\<close>

primrec account_status_name :: "account_status \<Rightarrow> string" where
  "account_status_name PENDING_INVITE = ''PENDING_INVITE''"
| "account_status_name PENDING_APPROVAL = ''PENDING_APPROVAL''"
| "account_status_name ACTIVE = ''ACTIVE''"
| "account_status_name SUSPENDED = ''SUSPENDED''"
| "account_status_name DEACTIVATED = ''DEACTIVATED''"

record token_reply =
  tk_user :: user
  tk_accessToken :: string

definition token_version :: "user \<Rightarrow> int" where
  "token_version u = (if u_tokenVersion u \<ge> 0 then u_tokenVersion u else 0)"

text \<open>The payload that is signed; dates become their ISO texts.\<close>

definition access_claims :: "user \<Rightarrow> (string \<times> json) list" where
  "access_claims u =
     [(''id'', JStr (u_id u)), (''sub'', JStr (u_id u)), (''email'', jopt JStr (u_email u)), (''phone'', jopt JStr (u_phone u)),
      (''fullName'', JStr (u_fullName u)), (''role'', jrole (u_role u)), (''organizationId'', jopt JStr (u_organizationId u)),
      (''providerId'', jopt JStr (u_providerId u)), (''accountStatus'', JStr (account_status_name (u_accountStatus u))),
      (''tokenVersion'', jint (token_version u)), (''phoneVerifiedAt'', jopt (JStr \<circ> toISOString) (u_phoneVerifiedAt u)),
      (''emailVerifiedAt'', jopt (JStr \<circ> toISOString) (u_emailVerifiedAt u)), (''secureZoneId'', jopt JStr (u_secureZoneId u))]"

definition issueTokens :: "auth_env \<Rightarrow> user \<Rightarrow> token_reply" where
  "issueTokens env u =
     \<lparr> tk_user = u\<lparr> u_tokenVersion := token_version u \<rparr>, tk_accessToken = signToken env (access_claims u) \<rparr>"

text \<open>What the token strategy reads of a payload.\<close>

definition payload_of :: "(string \<times> json) list \<Rightarrow> jwt_payload" where
  "payload_of claims =
     \<lparr> jp_sub = (case map_of claims ''sub'' of Some (JStr i) \<Rightarrow> i | _ \<Rightarrow> []), jp_tokenVersion = map_of claims ''tokenVersion'' \<rparr>"

section \<open>With a password\<close>

record register_dto =
  rg_email :: "string option"
  rg_phone :: "string option"
  rg_role :: "json option"

definition json_type :: "json \<Rightarrow> string" where
  "json_type j = (case j of JNull \<Rightarrow> ''null'' | JArr _ \<Rightarrow> ''array'' | JObj _ \<Rightarrow> ''object'' | JStr _ \<Rightarrow> ''string''
     | JNum _ \<Rightarrow> ''number'' | JBool _ \<Rightarrow> ''boolean'')"

definition register :: "register_dto \<Rightarrow> unit handler" where
  "register dto =
     (case rg_role dto of
        Some role \<Rightarrow>
          sq (auth_audit ''Public Registration Role Selection Rejected'' ''anonymous''
                ((''requestedRoleType'', JStr (json_type role)) #
                 (case role of JStr r \<Rightarrow> [(''requestedRole'', JStr (take 64 (trim r)))] | _ \<Rightarrow> [])))
             (throw (BadRequest ''Role cannot be selected during public registration''))
      | None \<Rightarrow>
          sq (auth_audit ''Public Citizen Registration Denied'' ''anonymous''
                [(''reason'', JStr ''firebase_identity_required''), (''hasEmail'', JBool (truthy (rg_email dto))),
                 (''hasPhone'', JBool (truthy (rg_phone dto)))])
             (throw (BadRequest ''Citizen registration requires verified Firebase authentication'')))"

record login_dto =
  lg_email :: "string option"
  lg_phone :: "string option"
  lg_password :: string
  lg_providerId :: "string option"

definition login_matches :: "login_dto \<Rightarrow> user \<Rightarrow> bool" where
  "login_matches dto u \<longleftrightarrow>
     (if truthy (lg_email dto) \<or> truthy (lg_phone dto)
      then truthy (lg_email dto) \<and> u_email u = map_option (trim \<circ> toLowerCase) (lg_email dto) \<or>
           truthy (lg_phone dto) \<and> u_phone u = map_option trim (lg_phone dto)
      else lg_providerId dto \<noteq> None \<and> u_providerId u = map_option trim (lg_providerId dto))"

text \<open>Every refusal after the lookup is recorded twice and answers the same.\<close>

definition login_refused ::
    "string \<Rightarrow> string \<Rightarrow> (string \<times> json) list \<Rightarrow> string option \<Rightarrow> string \<Rightarrow> request_context option \<Rightarrow> 'a handler" where
  "login_refused action actor metadata userId reason context =
     sq (auth_audit action actor metadata) (sq (recordLogin userId False (Some reason) context) (throw auth_failure))"

definition auth_user :: "user \<Rightarrow> user \<Rightarrow> user" where
  "auth_user user identity =
     user\<lparr> u_secureZoneId := u_secureZoneId identity, u_identityVerificationStatus := u_identityVerificationStatus identity,
           u_identityVerificationLevel := u_identityVerificationLevel identity, u_trustScore := u_trustScore identity,
           u_identityType := u_identityType identity \<rparr>"

datatype login_reply = Tokens token_reply | Second_factor preauth_reply | Recovery_required

definition login :: "auth_env \<Rightarrow> login_dto \<Rightarrow> request_context option \<Rightarrow> login_reply handler" where
  "login env dto context =
     sq (throw_if (\<not> truthy (lg_email dto) \<and> \<not> truthy (lg_phone dto) \<and> \<not> truthy (lg_providerId dto))
           (BadRequest ''Email, phone or provider ID is required''))
    (bnd (gets (\<lambda>s. find (login_matches dto) (users s))) (\<lambda>found.
     case Option.bind found (\<lambda>u. map_option (\<lambda>h. (u, h)) (nonempty (u_passwordHash u))) of
       None \<Rightarrow> login_refused ''Failed Login'' ''anonymous'' [(''reason'', JStr ''user_not_found'')] None ''user_not_found'' context
     | Some (user, passwordHash) \<Rightarrow>
         if \<not> bcryptCompare env (lg_password dto) passwordHash then
           login_refused ''Failed Login'' (u_id user) [(''reason'', JStr ''invalid_password'')] (Some (u_id user))
             ''invalid_password'' context
         else if u_accountStatus user \<noteq> ACTIVE then
           login_refused ''Inactive Login Blocked'' (u_id user)
             [(''role'', jrole (u_role user)), (''accountStatus'', JStr (account_status_name (u_accountStatus user)))]
             (Some (u_id user)) (''account_'' @ toLowerCase (account_status_name (u_accountStatus user))) context
         else if trimmed (lg_providerId dto) \<noteq> None \<and>
             (u_role user \<noteq> PROVIDER \<or> u_providerId user \<noteq> trimmed (lg_providerId dto)) then
           login_refused ''Provider Login ID Mismatch'' (u_id user)
             [(''role'', jrole (u_role user)), (''reason'', JStr ''provider_id_mismatch'')] (Some (u_id user))
             ''provider_id_mismatch'' context
         else
           bnd (ensureIdentity (env.truncate env) (u_id user)) (\<lambda>identity.
           if requiresPrivilegedMfa (u_role user) then
             sq (recordLogin (Some (u_id user)) False (Some ''mfa_pending'') context)
            (bnd (createPreAuthSession (mfa_env.truncate env) (auth_user user identity) context) (\<lambda>reply.
               ret (Second_factor reply)))
           else
             sq (auth_audit ''Login'' (u_id user) [(''role'', jrole (u_role user))])
            (sq (recordLogin (Some (u_id user)) True None context)
                (ret (Tokens (issueTokens env (auth_user user identity))))))))"

section \<open>With the second factor\<close>

definition startMfaEnrollment :: "auth_env \<Rightarrow> string \<Rightarrow> request_context option \<Rightarrow> (string \<times> string) handler" where
  "startMfaEnrollment env preAuthToken context = startEnrollment (mfa_env.truncate env) preAuthToken context"

definition confirmMfaEnrollment ::
    "auth_env \<Rightarrow> string \<Rightarrow> string \<Rightarrow> request_context option \<Rightarrow> (token_reply \<times> string list) handler" where
  "confirmMfaEnrollment env preAuthToken code context =
     bnd (confirmEnrollment (mfa_env.truncate env) preAuthToken code context) (\<lambda>(user, recoveryCodes).
     sq (auth_audit ''Login'' (u_id user) [(''role'', jrole (u_role user)), (''mfa'', JStr ''enrollment_confirmed'')])
    (sq (recordLogin (Some (u_id user)) True None context)
        (ret (issueTokens env user, recoveryCodes))))"

definition completeMfaChallenge ::
    "auth_env \<Rightarrow> string \<Rightarrow> mfa_method \<Rightarrow> string \<Rightarrow> request_context option \<Rightarrow> token_reply handler" where
  "completeMfaChallenge env preAuthToken chosen code context =
     bnd (completeChallenge (mfa_env.truncate env) preAuthToken chosen code context) (\<lambda>(user, recoveryCodeUsed).
     sq (auth_audit ''Login'' (u_id user)
           [(''role'', jrole (u_role user)), (''mfa'', JStr (if recoveryCodeUsed then ''recovery_code'' else ''totp''))])
    (sq (recordLogin (Some (u_id user)) True None context)
        (ret (issueTokens env user))))"

section \<open>The own profile\<close>

definition lower_trimmed :: "string option \<Rightarrow> string option" where
  "lower_trimmed x = nonempty (map_option (trim \<circ> toLowerCase) x)"

text \<open>\<open>{ [key]: value.trim() || null }\<close> for the texts of the body, then locale and notification preferences.\<close>

definition profile_changes :: "payload \<Rightarrow> string option \<Rightarrow> (string \<times> json) list" where
  "profile_changes dto locale =
     concat (map (\<lambda>k. case text_field k dto of None \<Rightarrow> [] | Some v \<Rightarrow> [(k, jopt JStr (trimmed (Some v)))])
       [''address'', ''state'', ''lga'', ''emergencyContact'']) @
     jfield ''preferredLanguage'' JStr locale @
     (case map_of dto ''notificationPreferences'' of Some (JObj kvs) \<Rightarrow> [(''notificationPreferences'', JObj kvs)] | _ \<Rightarrow> [])"

text \<open>\<open>dto.preferredLocale ?? dto.preferredLanguage\<close>, looked at when either is in the body.\<close>

definition requested_locale :: "payload \<Rightarrow> json option option" where
  "requested_locale dto =
     (if map_of dto ''preferredLanguage'' = None \<and> map_of dto ''preferredLocale'' = None then None
      else Some (case map_of dto ''preferredLocale'' of None \<Rightarrow> map_of dto ''preferredLanguage''
        | Some j \<Rightarrow> if j = JNull then map_of dto ''preferredLanguage'' else Some j))"

definition assertSupportedLocale :: "json option \<Rightarrow> ('s, string) svc" where
  "assertSupportedLocale value = require (BadRequest ''UNSUPPORTED_LOCALE'') (normalizeLocale value)"

definition new_full_name :: "payload \<Rightarrow> string option" where
  "new_full_name dto =
     (case text_field ''fullName'' dto of
        None \<Rightarrow> None
      | Some v \<Rightarrow> if length (trim v) \<ge> 2 then Some (trim v) else None)"

definition own_profile :: "string option \<Rightarrow> (string \<times> json) list \<Rightarrow> user \<Rightarrow> user" where
  "own_profile fullName changes u =
     u\<lparr> u_fullName := or_else fullName (u_fullName u),
        u_profileData := (if changes = [] then u_profileData u else Some (JObj (spread (objectRecord (u_profileData u)) changes))) \<rparr>"

definition updateMe :: "string \<Rightarrow> user_role \<Rightarrow> payload \<Rightarrow> user handler" where
  "updateMe userId role dto =
     bnd (gets (find_user userId)) (\<lambda>found.
     bnd (require (Unauthorized ''User no longer exists'') found) (\<lambda>existing.
     sq (throw_if (case text_field ''phone'' dto of None \<Rightarrow> False | Some v \<Rightarrow> trimmed (Some v) \<noteq> trimmed (u_phone existing))
           (BadRequest ''Phone changes require secure verification''))
    (sq (throw_if (case text_field ''email'' dto of None \<Rightarrow> False | Some v \<Rightarrow> lower_trimmed (Some v) \<noteq> lower_trimmed (u_email existing))
           (BadRequest ''Email changes require secure verification''))
    (bnd (case requested_locale dto of
            None \<Rightarrow> ret None
          | Some value \<Rightarrow> bnd (assertSupportedLocale value) (\<lambda>l. ret (Some l))) (\<lambda>locale.
     let fullName = new_full_name dto; changes = profile_changes dto locale in
     sq (throw_if (fullName = None \<and> changes = []) (BadRequest ''No supported profile fields provided''))
    (bnd (update_user userId (own_profile fullName changes)) (\<lambda>updated.
     sq (auth_audit ''Profile Updated'' userId
           [(''role'', jrole role),
            (''changes'', JArr ((if fullName = None then [] else [JStr ''fullName'']) @
               (if changes = [] then [] else [JStr ''profileData''])))])
        (ret updated))))))))"

section \<open>With a verified identity\<close>

record firebase_identity =
  fi_uid :: string
  fi_phoneNumber :: "string option"
  fi_email :: "string option"
  fi_emailVerified :: bool
  fi_fullName :: "string option"
  fi_signInProvider :: "string option"

definition json_string :: "json option \<Rightarrow> string option" where
  "json_string x = (case x of Some (JStr t) \<Rightarrow> Some t | _ \<Rightarrow> None)"

definition verifyIdToken :: "auth_env \<Rightarrow> string \<Rightarrow> ('s, firebase_identity) svc" where
  "verifyIdToken env idToken =
     sq (throw_if (trim idToken = []) (Unauthorized ''Firebase ID token is required''))
    (bnd (require (Unauthorized ''Firebase ID token could not be verified'') (firebaseSdk env (trim idToken))) (\<lambda>decoded.
     ret \<lparr> fi_uid = dt_uid decoded,
           fi_phoneNumber = map_option trim (json_string (dt_phone_number decoded)),
           fi_email = map_option (trim \<circ> toLowerCase) (json_string (dt_email decoded)),
           fi_emailVerified = (dt_email_verified decoded = Some (JBool True)),
           fi_fullName = map_option trim (json_string (dt_name decoded)),
           fi_signInProvider = map_option trim (json_string (dt_sign_in_provider decoded)) \<rparr>))"

definition safeHash :: "auth_env \<Rightarrow> string \<Rightarrow> string" where
  "safeHash env value = take 24 (sha256 env value)"

text \<open>Every conflict is recorded and answers the same.\<close>

definition firebase_conflict :: "auth_env \<Rightarrow> firebase_identity \<Rightarrow> string \<Rightarrow> unit handler" where
  "firebase_conflict env identity reason =
     auth_audit ''Firebase Login Rejected'' ''anonymous''
       [(''reason'', JStr reason), (''uidHash'', JStr (safeHash env (fi_uid identity))),
        (''hasPhoneClaim'', JBool (truthy (fi_phoneNumber identity))), (''hasEmailClaim'', JBool (truthy (fi_email identity))),
        (''emailVerified'', JBool (fi_emailVerified identity)),
        (''providerTypePresent'', JBool (truthy (fi_signInProvider identity)))]"

definition conflict_if :: "auth_env \<Rightarrow> firebase_identity \<Rightarrow> bool \<Rightarrow> string \<Rightarrow> unit handler" where
  "conflict_if env identity c reason = (if c then sq (firebase_conflict env identity reason) (throw auth_failure) else ret ())"

definition default_organization :: "string \<Rightarrow> string \<Rightarrow> int \<Rightarrow> organization" where
  "default_organization i name createdAt =
     \<lparr> o_id = i, o_name = name, o_type = OT_LOCAL_GOVERNMENT, o_status = O_ACTIVE, o_parentId = None, o_tenantCode = None,
       o_contactEmail = None, o_contactPhone = None, o_address = None, o_state = None, o_lga = None,
       o_country = Some ''Nigeria'', o_profileData = None, o_subscriptionPlan = FREE, o_billingStatus = B_TRIAL,
       o_subscriptionStartAt = None, o_subscriptionEndAt = None, o_allowedUsers = None, o_allowedProviders = None,
       o_allowedReportsPerMonth = None, o_allowedStorageMb = None, o_enabledModules = None, o_createdAt = createdAt \<rparr>"

definition defaultOrganizationName :: "auth_env \<Rightarrow> string" where
  "defaultOrganizationName env = or_else (nonempty (envVar env ''DEFAULT_ORGANIZATION_NAME'')) ''FixZone Demo LGA''"

definition getDefaultCitizenOrganizationId :: "auth_env \<Rightarrow> string handler" where
  "getDefaultCitizenOrganizationId env =
     bnd (gets (\<lambda>s. sort_key o_createdAt (filter (\<lambda>g. o_name g = defaultOrganizationName env) (organizations s)))) (\<lambda>rows.
     case rows of
       g # _ \<Rightarrow> ret (o_id g)
     | [] \<Rightarrow> bnd (create_row organizations organizations_update (\<lambda>a b. o_id a = o_id b)
                (default_organization (freshId env 0) (defaultOrganizationName env) (now env))) (\<lambda>created. ret (o_id created)))"

text \<open>The first account found, and the first one after it that is another account.\<close>

definition assertSameFirebaseCitizen ::
    "auth_env \<Rightarrow> firebase_identity \<Rightarrow> (string \<times> user option) list \<Rightarrow> unit handler" where
  "assertSameFirebaseCitizen env identity matches =
     (case List.map_filter (\<lambda>(k, u). map_option (Pair k) u) matches of
        [] \<Rightarrow> ret ()
      | (name, first) # later \<Rightarrow>
          (case find (\<lambda>(k, u). u_id u \<noteq> u_id first) later of
             None \<Rightarrow> ret ()
           | Some (other, _) \<Rightarrow> conflict_if env identity True (name @ ''_'' @ other)))"

definition nextFirebaseIdentityStatus :: "user option \<Rightarrow> bool \<Rightarrow> bool \<Rightarrow> identity_status" where
  "nextFirebaseIdentityStatus existing hasVerifiedEmail hasVerifiedPhone =
     (let current = (case existing of None \<Rightarrow> IS_UNVERIFIED | Some u \<Rightarrow> u_identityVerificationStatus u) in
      if current \<noteq> IS_UNVERIFIED then current
      else if hasVerifiedPhone then IS_PHONE_VERIFIED
      else if hasVerifiedEmail then IS_EMAIL_VERIFIED
      else IS_UNVERIFIED)"

definition nextFirebaseIdentityLevel :: "user option \<Rightarrow> bool \<Rightarrow> bool \<Rightarrow> int" where
  "nextFirebaseIdentityLevel existing hasVerifiedEmail hasVerifiedPhone =
     max (case existing of None \<Rightarrow> 0 | Some u \<Rightarrow> u_identityVerificationLevel u)
         (if hasVerifiedPhone then 2 else if hasVerifiedEmail then 1 else 0)"

record firebase_login_dto =
  fb_idToken :: string
  fb_fullName :: "string option"
  fb_intent :: "string option"

text \<open>What the login writes into the account it found, and the account it creates.\<close>

definition linked_citizen ::
    "auth_env \<Rightarrow> firebase_login_dto \<Rightarrow> string \<Rightarrow> string option \<Rightarrow> string option \<Rightarrow> string \<Rightarrow> string \<Rightarrow> user \<Rightarrow> user" where
  "linked_citizen env dto uid phone verifiedEmail fullName organizationId u =
     u\<lparr> u_firebaseUid := coalesce (u_firebaseUid u) (Some uid),
        u_phone := coalesce phone (u_phone u),
        u_phoneVerifiedAt := (if phone \<noteq> None then coalesce (u_phoneVerifiedAt u) (Some (now env)) else u_phoneVerifiedAt u),
        u_identityVerificationStatus := nextFirebaseIdentityStatus (Some u) (verifiedEmail \<noteq> None) (phone \<noteq> None),
        u_identityVerificationLevel := nextFirebaseIdentityLevel (Some u) (verifiedEmail \<noteq> None) (phone \<noteq> None),
        u_email := coalesce verifiedEmail (u_email u),
        u_emailVerifiedAt := (if verifiedEmail \<noteq> None then coalesce (u_emailVerifiedAt u) (Some (now env)) else u_emailVerifiedAt u),
        u_fullName := or_else (trimmed (fb_fullName dto)) (if u_fullName u \<noteq> [] then u_fullName u else fullName),
        u_role := CITIZEN,
        u_organizationId := coalesce (u_organizationId u) (Some organizationId) \<rparr>"

definition new_citizen :: "auth_env \<Rightarrow> string \<Rightarrow> string option \<Rightarrow> string option \<Rightarrow> string \<Rightarrow> string \<Rightarrow> user" where
  "new_citizen env uid phone verifiedEmail fullName organizationId =
     \<lparr> u_id = freshId env 1, u_email = verifiedEmail, u_phone = phone, u_firebaseUid = Some uid, u_providerId = None,
       u_passwordHash = None, u_fullName = fullName, u_role = CITIZEN, u_accountStatus = ACTIVE,
       u_organizationId = Some organizationId, u_serviceCategories = None, u_coverageAreas = None, u_profileData = None,
       u_subscriptionPlan = None, u_providerEngagementType = None, u_secureZoneId = None,
       u_identityVerificationStatus = nextFirebaseIdentityStatus None (verifiedEmail \<noteq> None) (phone \<noteq> None),
       u_identityVerificationLevel = nextFirebaseIdentityLevel None (verifiedEmail \<noteq> None) (phone \<noteq> None),
       u_trustScore = 0, u_identityType = INDIVIDUAL, u_phoneVerifiedAt = (if phone \<noteq> None then Some (now env) else None),
       u_emailVerifiedAt = (if verifiedEmail \<noteq> None then Some (now env) else None), u_tokenVersion = 0, u_createdAt = now env \<rparr>"

definition same_account :: "user \<Rightarrow> user \<Rightarrow> bool" where
  "same_account a b \<longleftrightarrow> u_id a = u_id b \<or> u_email a \<noteq> None \<and> u_email a = u_email b \<or>
     u_phone a \<noteq> None \<and> u_phone a = u_phone b \<or> u_firebaseUid a \<noteq> None \<and> u_firebaseUid a = u_firebaseUid b"

text \<open>Another account that owns a number or an address the login is about to write.\<close>

definition owned_by_other :: "(user \<Rightarrow> string option) \<Rightarrow> string option \<Rightarrow> user \<Rightarrow> 's tables_scheme \<Rightarrow> bool" where
  "owned_by_other col value u s \<longleftrightarrow>
     truthy (col u) \<and> value \<noteq> None \<and> col u \<noteq> value \<and>
     (case find (\<lambda>v. col v = value) (users s) of None \<Rightarrow> False | Some v \<Rightarrow> u_id v \<noteq> u_id u)"

text \<open>The login of an account that was found, and of one that is new; then the decision between them.\<close>

definition firebase_existing ::
    "auth_env \<Rightarrow> firebase_login_dto \<Rightarrow> firebase_identity \<Rightarrow> string \<Rightarrow> string option \<Rightarrow> string option \<Rightarrow> string \<Rightarrow> string \<Rightarrow>
      user option \<Rightarrow> user option \<Rightarrow> user \<Rightarrow> login_reply handler" where
  "firebase_existing env dto identity uid phone verifiedEmail fullName organizationId byUid byEmail existing =
     sq (conflict_if env identity (u_role existing \<noteq> CITIZEN) ''role_boundary'')
    (sq (conflict_if env identity (u_accountStatus existing \<noteq> ACTIVE)
           (''account_'' @ toLowerCase (account_status_name (u_accountStatus existing))))
    (sq (conflict_if env identity (truthy (u_firebaseUid existing) \<and> u_firebaseUid existing \<noteq> Some uid) ''uid_mismatch'')
    (if fb_intent dto = Some ''registration'' \<and> verifiedEmail \<noteq> None \<and> byUid = None \<and>
        (\<exists>u\<in>set_option byEmail. u_id u = u_id existing \<and> \<not> truthy (u_firebaseUid u))
     then sq (firebase_conflict env identity ''registration_email_recovery_required'') (ret Recovery_required)
     else
       bnd (gets (owned_by_other u_phone phone existing)) (\<lambda>phoneTaken.
       sq (conflict_if env identity phoneTaken ''phone_owner'')
      (bnd (gets (owned_by_other u_email verifiedEmail existing)) (\<lambda>emailTaken.
       sq (conflict_if env identity emailTaken ''email_owner'')
      (bnd (update_user (u_id existing) (linked_citizen env dto uid phone verifiedEmail fullName organizationId)) (\<lambda>user.
       bnd (ensureIdentity (env.truncate env) (u_id user)) (\<lambda>_. ret (Tokens (issueTokens env user)))))))))))"

definition firebase_new ::
    "auth_env \<Rightarrow> string \<Rightarrow> string option \<Rightarrow> string option \<Rightarrow> string \<Rightarrow> string \<Rightarrow> login_reply handler" where
  "firebase_new env uid phone verifiedEmail fullName organizationId =
     bnd (create_row users users_update same_account (new_citizen env uid phone verifiedEmail fullName organizationId)) (\<lambda>user.
     bnd (ensureIdentity (env.truncate env) (u_id user)) (\<lambda>_. ret (Tokens (issueTokens env user))))"

definition firebase_account ::
    "auth_env \<Rightarrow> firebase_login_dto \<Rightarrow> firebase_identity \<Rightarrow> string \<Rightarrow> string option \<Rightarrow> string option \<Rightarrow> string \<Rightarrow> string \<Rightarrow>
      login_reply handler" where
  "firebase_account env dto identity uid phone verifiedEmail fullName organizationId =
     bnd (gets (\<lambda>s. (find (\<lambda>u. u_firebaseUid u = Some uid) (users s),
                     if phone = None then None else find (\<lambda>u. u_phone u = phone) (users s),
                     if verifiedEmail = None then None else find (\<lambda>u. u_email u = verifiedEmail) (users s))))
       (\<lambda>(byUid, byPhone, byEmail).
     sq (assertSameFirebaseCitizen env identity [(''uid'', byUid), (''phone'', byPhone), (''email'', byEmail)])
    (case coalesce byUid (coalesce byPhone byEmail) of
       None \<Rightarrow> firebase_new env uid phone verifiedEmail fullName organizationId
     | Some existing \<Rightarrow>
         firebase_existing env dto identity uid phone verifiedEmail fullName organizationId byUid byEmail existing))"

text \<open>The verified claims of an identity: its number, and its address when the provider has verified it.\<close>

definition verified_phone :: "firebase_identity \<Rightarrow> string option" where
  "verified_phone identity = trimmed (fi_phoneNumber identity)"

definition verified_email :: "firebase_identity \<Rightarrow> string option" where
  "verified_email identity = (if fi_emailVerified identity then lower_trimmed (fi_email identity) else None)"

definition firebaseLogin :: "auth_env \<Rightarrow> firebase_login_dto \<Rightarrow> login_reply handler" where
  "firebaseLogin env dto =
     bnd (catch (verifyIdToken env (fb_idToken dto))
       (\<lambda>_. sq (auth_audit ''Firebase Login Rejected'' ''anonymous'' [(''reason'', JStr ''firebase_token_invalid'')])
              (throw auth_failure))) (\<lambda>identity.
     let uid = trim (fi_uid identity); phone = verified_phone identity; verifiedEmail = verified_email identity;
         fullName = or_else (trimmed (fb_fullName dto)) (or_else (trimmed (fi_fullName identity)) ''Citizen User'') in
     sq (throw_if (uid = []) auth_failure)
    (sq (conflict_if env identity (phone = None \<and> verifiedEmail = None) ''unverified'')
    (bnd (getDefaultCitizenOrganizationId env) (\<lambda>organizationId.
     firebase_account env dto identity uid phone verifiedEmail fullName organizationId))))"

end
