(* ===== verification/Password_Reset.thy ===== *)
theory Password_Reset imports Auth begin

text \<open>
  The reset of a password (\<open>auth/auth.service.ts\<close>, lines 737-866 and 977-1134; \<open>auth/password-reset-delivery.service.ts\<close>
  and \<open>.config.ts\<close>; \<open>users/users.service.ts\<close>, lines 453-491): a token of limited life is mailed to the account, a
  newer one replaces it, it works once, and with it the version of the account advances, which ends its sessions.
\<close>

section \<open>What the runtime gives\<close>

text \<open>
  Beyond \<open>auth_env\<close>: the parts \<open>new URL\<close> reads of an address (None when it throws), the address it writes for the
  reset page with a token and a return page, and the mail client: how the \<open>n\<close>-th attempt to send a mail fails, None
  when it is accepted.
\<close>

record url_parts =
  url_username :: string
  url_password :: string
  url_hash :: string
  url_search :: string
  url_pathname :: string
  url_protocol :: string
  url_hostname :: string
  url_origin :: string

record reset_mail =
  rm_from :: string
  rm_to :: string
  rm_replyTo :: "string option"
  rm_subject :: string
  rm_text :: string
  rm_html :: string

datatype mail_failure = Timed_out | Mail_error (mail_code: string) (mail_response: int)

record reset_env = auth_env +
  parseUrl :: "string \<Rightarrow> url_parts option"
  resetPageUrl :: "string \<Rightarrow> string \<Rightarrow> string \<Rightarrow> string option \<Rightarrow> string"
  sendMail :: "reset_mail \<Rightarrow> nat \<Rightarrow> mail_failure option"

section \<open>Configuration\<close>

record delivery_config =
  dc_enabled :: bool
  dc_provider :: string
  dc_host :: string
  dc_port :: nat
  dc_secure :: bool
  dc_username :: string
  dc_password :: string
  dc_from :: string
  dc_replyTo :: "string option"
  dc_resetOrigin :: string
  dc_resetPath :: string
  dc_timeoutMs :: nat
  dc_retryAttempts :: nat
  dc_cooldownSeconds :: nat
  dc_dailyLimit :: nat
  dc_testMode :: bool

definition supportedProviders :: "string list" where
  "supportedProviders = [''smtp'', ''amazon-ses-smtp'', ''brevo-smtp'']"

definition localHosts :: "string list" where
  "localHosts = [''localhost'', ''127.0.0.1'', ''::1'']"

definition configError :: "string \<Rightarrow> exn" where
  "configError name = InternalServerError (''Password reset delivery configuration is invalid: '' @ name)"

definition hasControlCharacters :: "string \<Rightarrow> bool" where
  "hasControlCharacters v \<longleftrightarrow> list_ex (\<lambda>c. let n = of_char c :: nat in n \<le> 31 \<or> n = 127) v"

definition isPlaceholder :: "string \<Rightarrow> bool" where
  "isPlaceholder v \<longleftrightarrow>
     toLowerCase v \<in> set [''changeme'', ''change-me'', ''placeholder'', ''replace'', ''example'', ''test'']"

definition requiredName :: "reset_env \<Rightarrow> string \<Rightarrow> ('s, string) svc" where
  "requiredName env name =
     bnd (require (configError name) (trimmed (envVar env name))) (\<lambda>v.
     sq (throw_if (isPlaceholder v) (configError name))
    (sq (throw_if (hasControlCharacters v) (configError name))
        (ret v)))"

definition numberInRange :: "reset_env \<Rightarrow> string \<Rightarrow> nat \<Rightarrow> nat \<Rightarrow> nat option \<Rightarrow> ('s, nat) svc" where
  "numberInRange env name low high fallback =
     (case trimmed (envVar env name) of
        None \<Rightarrow> require (configError name) fallback
      | Some raw \<Rightarrow>
          sq (throw_if (\<not> list_all is_digit raw) (configError name))
         (sq (throw_if (digits_value raw > 9007199254740991 \<or> digits_value raw < low \<or> digits_value raw > high) (configError name))
             (ret (digits_value raw))))"

definition booleanValue :: "reset_env \<Rightarrow> string \<Rightarrow> ('s, bool) svc" where
  "booleanValue env name =
     (let raw = map_option (toLowerCase \<circ> trim) (envVar env name) in
      if raw = Some ''true'' then ret True else if raw = Some ''false'' then ret False else throw (configError name))"

definition safeHost :: "string \<Rightarrow> ('s, string) svc" where
  "safeHost v =
     sq (throw_if (list_ex (\<lambda>c. c = CHR ''/'' \<or> c = CHR 0x5C \<or> c = CHR 0x40) v) (configError ''PASSWORD_RESET_SMTP_HOST''))
        (ret (toLowerCase v))"

definition safeHeader :: "string \<Rightarrow> ('s, string) svc" where
  "safeHeader v = sq (throw_if (hasControlCharacters v) (configError ''PASSWORD_RESET_SMTP_FROM'')) (ret v)"

definition optionalHeader :: "string option \<Rightarrow> ('s, string option) svc" where
  "optionalHeader value =
     (case trimmed value of
        None \<Rightarrow> ret None
      | Some v \<Rightarrow> sq (throw_if (hasControlCharacters v \<or> isPlaceholder v) (configError ''PASSWORD_RESET_SMTP_REPLY_TO''))
                  (ret (Some v)))"

definition normalizePublicOrigin :: "reset_env \<Rightarrow> string \<Rightarrow> ('s, string) svc" where
  "normalizePublicOrigin env v =
     (let bad = configError ''PASSWORD_RESET_PUBLIC_ORIGIN'' in
      sq (throw_if (v = [] \<or> hasControlCharacters v) bad)
     (bnd (require bad (parseUrl env v)) (\<lambda>parsed.
      sq (throw_if (url_username parsed \<noteq> [] \<or> url_password parsed \<noteq> [] \<or> url_hash parsed \<noteq> [] \<or> url_search parsed \<noteq> []) bad)
     (sq (throw_if (url_pathname parsed \<noteq> [] \<and> url_pathname parsed \<noteq> ''/'') bad)
     (sq (throw_if (if url_protocol parsed = ''http:'' then url_hostname parsed \<notin> set localHosts
                    else url_protocol parsed \<noteq> ''https:'') bad)
         (ret (url_origin parsed)))))))"

definition disabledConfig :: delivery_config where
  "disabledConfig =
     \<lparr> dc_enabled = False, dc_provider = ''smtp'', dc_host = [], dc_port = 587, dc_secure = False, dc_username = [],
       dc_password = [], dc_from = [], dc_replyTo = None, dc_resetOrigin = [], dc_resetPath = ''/reset-password'',
       dc_timeoutMs = 5000, dc_retryAttempts = 0, dc_cooldownSeconds = 120, dc_dailyLimit = 5, dc_testMode = False \<rparr>"

fun split_comma :: "string \<Rightarrow> string list" where
  "split_comma [] = [[]]"
| "split_comma (c # cs) =
     (if c = CHR 0x2C then [] # split_comma cs
      else (case split_comma cs of [] \<Rightarrow> [[c]] | w # ws \<Rightarrow> (c # w) # ws))"

primrec map_svc :: "('a \<Rightarrow> ('s, 'b) svc) \<Rightarrow> 'a list \<Rightarrow> ('s, 'b list) svc" where
  "map_svc f [] = ret []"
| "map_svc f (x # xs) = bnd (f x) (\<lambda>y. bnd (map_svc f xs) (\<lambda>ys. ret (y # ys)))"

definition loadPasswordResetDeliveryConfig :: "reset_env \<Rightarrow> ('s, delivery_config) svc" where
  "loadPasswordResetDeliveryConfig env =
     (if envVar env ''PASSWORD_RESET_DELIVERY_ENABLED'' \<noteq> Some ''true'' then ret disabledConfig
      else
        bnd (requiredName env ''PASSWORD_RESET_DELIVERY_PROVIDER'') (\<lambda>named.
        let provider = toLowerCase named in
        sq (throw_if (provider \<notin> set supportedProviders) (configError ''PASSWORD_RESET_DELIVERY_PROVIDER''))
       (bnd (requiredName env ''PASSWORD_RESET_PUBLIC_ORIGIN'') (\<lambda>public.
        bnd (normalizePublicOrigin env public) (\<lambda>publicOrigin.
        bnd (requiredName env ''PASSWORD_RESET_ALLOWED_ORIGINS'') (\<lambda>listed.
        bnd (map_svc (\<lambda>v. normalizePublicOrigin env (trim v)) (split_comma listed)) (\<lambda>origins.
        sq (throw_if (publicOrigin \<notin> set (filter (\<lambda>o'. o' \<noteq> []) origins)) (configError ''PASSWORD_RESET_ALLOWED_ORIGINS''))
       (bnd (requiredName env ''PASSWORD_RESET_SMTP_HOST'') (\<lambda>rawHost.
        bnd (safeHost rawHost) (\<lambda>host.
        bnd (numberInRange env ''PASSWORD_RESET_SMTP_PORT'' 1 65535 None) (\<lambda>port.
        bnd (booleanValue env ''PASSWORD_RESET_SMTP_SECURE'') (\<lambda>secure.
        bnd (requiredName env ''PASSWORD_RESET_SMTP_USERNAME'') (\<lambda>username.
        bnd (requiredName env ''PASSWORD_RESET_SMTP_PASSWORD'') (\<lambda>password.
        bnd (requiredName env ''PASSWORD_RESET_SMTP_FROM'') (\<lambda>rawSender.
        bnd (safeHeader rawSender) (\<lambda>sender.
        bnd (optionalHeader (envVar env ''PASSWORD_RESET_SMTP_REPLY_TO'')) (\<lambda>replyTo.
        bnd (numberInRange env ''PASSWORD_RESET_DELIVERY_TIMEOUT_MS'' 1000 20000 (Some 5000)) (\<lambda>timeoutMs.
        bnd (numberInRange env ''PASSWORD_RESET_DELIVERY_RETRY_ATTEMPTS'' 0 2 (Some 1)) (\<lambda>retryAttempts.
        bnd (numberInRange env ''PASSWORD_RESET_REQUEST_COOLDOWN_SECONDS'' 30 900 (Some 120)) (\<lambda>cooldownSeconds.
        bnd (numberInRange env ''PASSWORD_RESET_REQUEST_DAILY_LIMIT'' 1 10 (Some 5)) (\<lambda>dailyLimit.
        ret \<lparr> dc_enabled = True, dc_provider = provider, dc_host = host, dc_port = port, dc_secure = secure,
              dc_username = username, dc_password = password, dc_from = sender, dc_replyTo = replyTo,
              dc_resetOrigin = publicOrigin, dc_resetPath = ''/reset-password'', dc_timeoutMs = timeoutMs,
              dc_retryAttempts = retryAttempts, dc_cooldownSeconds = cooldownSeconds, dc_dailyLimit = dailyLimit,
              dc_testMode = (envVar env ''PASSWORD_RESET_DELIVERY_TEST_MODE'' = Some ''true'') \<rparr>)))))))))))))))))))))"

section \<open>Delivery\<close>

definition escapeHtml :: "string \<Rightarrow> string" where
  "escapeHtml t = concat (map (\<lambda>c.
     if c = CHR 0x26 then ''&amp;'' else if c = CHR 0x3C then ''&lt;'' else if c = CHR 0x3E then ''&gt;''
     else if c = CHR 0x22 then ''&quot;'' else if c = CHR 0x27 then ''&#39;'' else [c]) t)"

definition buildResetLink :: "reset_env \<Rightarrow> delivery_config \<Rightarrow> string \<Rightarrow> string option \<Rightarrow> string" where
  "buildResetLink env config token returnTo = resetPageUrl env (dc_resetOrigin config) (dc_resetPath config) token (nonempty returnTo)"

definition line_break :: string where "line_break = [CHR 0x0A]"

definition recovery_mail :: "reset_env \<Rightarrow> delivery_config \<Rightarrow> string \<Rightarrow> string \<Rightarrow> int \<Rightarrow> string option \<Rightarrow> reset_mail" where
  "recovery_mail env config recipientEmail token expiresAt returnTo =
     (let link = buildResetLink env config token returnTo in
      \<lparr> rm_from = dc_from config, rm_to = recipientEmail, rm_replyTo = dc_replyTo config,
        rm_subject = ''SecureZone account recovery instructions'',
        rm_text = join line_break
          [''SecureZone received a request to recover access to an account.'', [],
           ''Use this link to set a new password before '' @ toISOString expiresAt @ '':'', link, [],
           ''If you did not request this, ignore this message.''],
        rm_html =
          ''<p>SecureZone received a request to recover access to an account.</p>'' @
          ''<p>Use the recovery link to set a new password before it expires.</p>'' @
          ''<p><a href='' @ quoted (escapeHtml link) @ ''>Recover account access</a></p>'' @
          ''<p>If you did not request this, ignore this message.</p>'' \<rparr>)"

datatype error_category = Cat_timeout | Cat_configuration | Cat_transient | Cat_permanent | Cat_unknown

primrec error_category_name :: "error_category \<Rightarrow> string" where
  "error_category_name Cat_timeout = ''timeout''"
| "error_category_name Cat_configuration = ''configuration''"
| "error_category_name Cat_transient = ''transient''"
| "error_category_name Cat_permanent = ''permanent''"
| "error_category_name Cat_unknown = ''unknown''"

primrec deliveryErrorCategory :: "mail_failure \<Rightarrow> error_category" where
  "deliveryErrorCategory Timed_out = Cat_timeout"
| "deliveryErrorCategory (Mail_error code responseCode) =
     (if code = ''EAUTH'' \<or> code = ''ECONFIG'' \<or> responseCode = 535 then Cat_configuration
      else if code \<in> set [''ETIMEDOUT'', ''ECONNRESET'', ''ESOCKET'', ''ECONNECTION''] \<or> responseCode \<in> set [421, 450, 451, 452]
      then Cat_transient else Cat_permanent)"

record delivery_result =
  dr_delivered :: bool
  dr_status :: string
  dr_attempts :: nat
  dr_errorCategory :: "error_category option"

definition delivery_failure :: "error_category \<Rightarrow> nat \<Rightarrow> delivery_result" where
  "delivery_failure category attempt =
     \<lparr> dr_delivered = False,
       dr_status = (if category = Cat_timeout then ''DELIVERY_TIMEOUT''
                    else if category = Cat_configuration then ''DELIVERY_CONFIGURATION_ERROR'' else ''DELIVERY_FAILED''),
       dr_attempts = attempt, dr_errorCategory = Some category \<rparr>"

text \<open>The loop over the attempts: the number of those that remain, and the number of this one.\<close>

primrec send_attempts :: "reset_env \<Rightarrow> reset_mail \<Rightarrow> nat \<Rightarrow> nat \<Rightarrow> delivery_result" where
  "send_attempts env mail 0 attempt = delivery_failure Cat_unknown (attempt - 1)"
| "send_attempts env mail (Suc remaining) attempt =
     (case sendMail env mail attempt of
        None \<Rightarrow> \<lparr> dr_delivered = True, dr_status = ''DELIVERY_ACCEPTED'', dr_attempts = attempt, dr_errorCategory = None \<rparr>
      | Some failure \<Rightarrow>
          let category = deliveryErrorCategory failure in
          if (category = Cat_timeout \<or> category = Cat_transient) \<and> remaining > 0
          then send_attempts env mail remaining (attempt + 1)
          else delivery_failure category attempt)"

definition deliver ::
    "reset_env \<Rightarrow> delivery_config \<Rightarrow> string option \<Rightarrow> string \<Rightarrow> int \<Rightarrow> string option \<Rightarrow> delivery_result" where
  "deliver env config recipientEmail token expiresAt returnTo =
     (let unavailable = \<lparr> dr_delivered = False, dr_status = ''DELIVERY_UNAVAILABLE'', dr_attempts = 0, dr_errorCategory = None \<rparr> in
      case nonempty recipientEmail of
        None \<Rightarrow> unavailable
      | Some recipient \<Rightarrow>
          if \<not> dc_enabled config \<or> dc_testMode config then unavailable
          else send_attempts env (recovery_mail env config recipient token expiresAt returnTo) (dc_retryAttempts config + 1) 1)"

section \<open>Asking for a reset\<close>

definition isFirebaseOwnedCitizen :: "user \<Rightarrow> bool" where
  "isFirebaseOwnedCitizen u \<longleftrightarrow> u_role u = CITIZEN \<and> truthy (u_firebaseUid u)"

definition reset_eligible :: "user \<Rightarrow> bool" where
  "reset_eligible u \<longleftrightarrow> truthy (u_passwordHash u) \<and> u_accountStatus u = ACTIVE \<and> \<not> isFirebaseOwnedCitizen u"

definition hashResetToken :: "reset_env \<Rightarrow> string \<Rightarrow> string" where
  "hashResetToken env token = sha256 env token"

definition redactedResetIdentifier :: "reset_env \<Rightarrow> string option \<Rightarrow> string option" where
  "redactedResetIdentifier env value = map_option (\<lambda>v. take 24 (sha256 env (toLowerCase (trim v)))) (nonempty value)"

definition safePasswordResetReturnTo :: "string option \<Rightarrow> string option" where
  "safePasswordResetReturnTo route =
     (case map_option trim route of
        None \<Rightarrow> None
      | Some r \<Rightarrow> if r \<in> set [''/citizen-login'', ''/provider-login'', ''/admin-login''] then Some r else None)"

text \<open>\<open>Number(process.env... ?? 15)\<close> minutes within an hour, otherwise 15; a date keeps whole milliseconds.\<close>

definition passwordResetTtlMs :: "reset_env \<Rightarrow> rat" where
  "passwordResetTtlMs env =
     (case envVar env ''PASSWORD_RESET_TOKEN_TTL_MINUTES'' of
        None \<Rightarrow> 15
      | Some t \<Rightarrow> (case number_of_text t of None \<Rightarrow> 15 | Some m \<Rightarrow> if 0 < m \<and> m \<le> 60 then m else 15)) * 60000"

definition recent_resets :: "string \<Rightarrow> int \<Rightarrow> 's tables_scheme \<Rightarrow> nat" where
  "recent_resets userId since s = length (filter (\<lambda>p. pr_userId p = userId \<and> pr_createdAt p \<ge> since) (passwordResetTokens s))"

definition passwordResetRateLimited :: "reset_env \<Rightarrow> delivery_config \<Rightarrow> string \<Rightarrow> 's tables_scheme \<Rightarrow> string option" where
  "passwordResetRateLimited env config userId s =
     (if recent_resets userId (now env - int (dc_cooldownSeconds config) * 1000) s > 0 then Some ''cooldown_limited''
      else if recent_resets userId (now env - 24 * 60 * 60 * 1000) s \<ge> dc_dailyLimit config then Some ''daily_limited''
      else None)"

definition reset_response :: string where
  "reset_response = ''If the account is eligible and delivery is available, recovery instructions will be sent. No password was changed.''"

definition superseded :: "reset_env \<Rightarrow> string \<Rightarrow> password_reset list \<Rightarrow> password_reset list" where
  "superseded env userId =
     upd_rows (\<lambda>p. pr_userId p = userId \<and> pr_usedAt p = None \<and> pr_supersededAt p = None \<and> pr_expiresAt p > now env)
       (\<lambda>p. p\<lparr> pr_supersededAt := Some (now env) \<rparr>)"

definition new_reset :: "reset_env \<Rightarrow> string \<Rightarrow> string option \<Rightarrow> password_reset" where
  "new_reset env userId actorUserId =
     \<lparr> pr_id = freshId env 0, pr_userId = userId, pr_tokenDigest = hashResetToken env (randomToken env),
       pr_expiresAt = \<lfloor>of_int (now env) + passwordResetTtlMs env\<rfloor>, pr_usedAt = None, pr_supersededAt = None,
       pr_requestedById = actorUserId, pr_deliveryStatus = ''DELIVERY_PENDING'', pr_createdAt = now env \<rparr>"

definition update_reset :: "string \<Rightarrow> (password_reset \<Rightarrow> password_reset) \<Rightarrow> ('s tables_scheme, password_reset) svc" where
  "update_reset = row_update passwordResetTokens (\<lambda>rs. passwordResetTokens_update (\<lambda>_. rs)) pr_id"

definition delivered_reset :: "reset_env \<Rightarrow> delivery_result \<Rightarrow> password_reset \<Rightarrow> password_reset" where
  "delivered_reset env delivery p =
     p\<lparr> pr_deliveryStatus := dr_status delivery,
        pr_supersededAt := (if dr_delivered delivery then pr_supersededAt p else Some (now env)) \<rparr>"

definition reset_unavailable :: "string \<Rightarrow> string option \<Rightarrow> string \<Rightarrow> string handler" where
  "reset_unavailable targetUserId actorUserId outcome =
     sq (auth_audit ''Password Reset Requested'' (or_else actorUserId targetUserId)
           [(''targetUserId'', JStr targetUserId), (''administrativeActor'', JBool (actorUserId \<noteq> None)),
            (''deliveryStatus'', JStr ''DELIVERY_UNAVAILABLE''), (''outcome'', JStr outcome)])
        (ret reset_response)"

definition createPasswordResetToken ::
    "reset_env \<Rightarrow> delivery_config \<Rightarrow> string \<Rightarrow> string option \<Rightarrow> string option \<Rightarrow> string handler" where
  "createPasswordResetToken env config targetUserId actorUserId returnTo =
     bnd (gets (find_user targetUserId)) (\<lambda>found. case found of
       None \<Rightarrow> reset_unavailable targetUserId actorUserId ''identity_not_found''
     | Some target \<Rightarrow>
     if \<not> reset_eligible target then
       reset_unavailable targetUserId actorUserId
         (if isFirebaseOwnedCitizen target then ''firebase_owned_citizen'' else ''ineligible_account'')
     else if \<not> dc_enabled config \<or> \<not> truthy (u_email target) then
       reset_unavailable targetUserId actorUserId (if truthy (u_email target) then ''delivery_disabled'' else ''email_unavailable'')
     else
     bnd (gets (passwordResetRateLimited env config targetUserId)) (\<lambda>limited. case limited of
       Some reason \<Rightarrow> reset_unavailable targetUserId actorUserId reason
     | None \<Rightarrow>
     bnd (transaction
            (sq (modify (passwordResetTokens_update (superseded env targetUserId)))
                (create_row passwordResetTokens passwordResetTokens_update
                   (\<lambda>a b. pr_id a = pr_id b \<or> pr_tokenDigest a = pr_tokenDigest b) (new_reset env targetUserId actorUserId))))
       (\<lambda>created.
     let delivery = deliver env config (u_email target) (randomToken env) (pr_expiresAt created) (safePasswordResetReturnTo returnTo);
         who = or_else actorUserId targetUserId in
     bnd (update_reset (pr_id created) (delivered_reset env delivery)) (\<lambda>_.
     sq (auth_audit ''Password Reset Delivery Attempted'' who
           [(''targetUserId'', JStr targetUserId), (''administrativeActor'', JBool (actorUserId \<noteq> None)),
            (''deliveryStatus'', JStr (dr_status delivery)), (''attempts'', jint (int (dr_attempts delivery))),
            (''errorCategory'', jopt (JStr \<circ> error_category_name) (dr_errorCategory delivery)),
            (''recipientHash'', jopt JStr (redactedResetIdentifier env (u_email target)))])
    (sq (auth_audit ''Password Reset Requested'' who
           [(''targetUserId'', JStr targetUserId), (''administrativeActor'', JBool (actorUserId \<noteq> None)),
            (''deliveryStatus'', JStr (dr_status delivery)), (''expiresAt'', JStr (toISOString (pr_expiresAt created)))])
        (ret reset_response))))))"

record reset_request_dto =
  rq_email :: "string option"
  rq_phone :: "string option"
  rq_returnTo :: "string option"

definition requestPasswordReset :: "reset_env \<Rightarrow> delivery_config \<Rightarrow> reset_request_dto \<Rightarrow> string handler" where
  "requestPasswordReset env config dto =
     sq (throw_if (\<not> truthy (rq_email dto) \<and> \<not> truthy (rq_phone dto)) (BadRequest ''Email or phone is required''))
    (bnd (gets (\<lambda>s. find (\<lambda>u. truthy (rq_email dto) \<and> u_email u = map_option (trim \<circ> toLowerCase) (rq_email dto) \<or>
            truthy (rq_phone dto) \<and> u_phone u = map_option trim (rq_phone dto)) (users s))) (\<lambda>found.
     let refuse = (\<lambda>actor reason. sq (auth_audit ''Password Reset Request'' actor
           [(''outcome'', JStr ''accepted_without_delivery''), (''reason'', JStr reason),
            (''identifierHash'', jopt JStr (redactedResetIdentifier env (coalesce (rq_email dto) (rq_phone dto))))])
           (ret reset_response)) in
     case found of
       None \<Rightarrow> refuse ''anonymous'' ''identity_not_found''
     | Some user \<Rightarrow>
         if \<not> reset_eligible user then
           refuse (u_id user) (if isFirebaseOwnedCitizen user then ''firebase_owned_citizen'' else ''ineligible_account'')
         else createPasswordResetToken env config (u_id user) None (rq_returnTo dto)))"

definition issueAdministrativePasswordReset :: "reset_env \<Rightarrow> delivery_config \<Rightarrow> string \<Rightarrow> string \<Rightarrow> string handler" where
  "issueAdministrativePasswordReset env config targetUserId actorUserId =
     createPasswordResetToken env config targetUserId (Some actorUserId) None"

text \<open>The administrators' operation of the user service.\<close>

definition resetPassword :: "reset_env \<Rightarrow> delivery_config \<Rightarrow> string \<Rightarrow> jwt_user \<Rightarrow> user handler" where
  "resetPassword env config i user =
     bnd (getUser i user) (\<lambda>existing.
     sq (throw_if (j_role user \<noteq> SUPER_ADMIN \<and> u_role existing \<noteq> PROVIDER \<and> u_role existing \<noteq> CITIZEN)
           (Forbidden ''Only Super Admin can reset administrator passwords''))
    (bnd (require (Forbidden ''Actor missing'') (nonempty (actor_id user))) (\<lambda>actorId.
     sq (issueAdministrativePasswordReset env config i actorId)
    (sq (user_audit ''User Password Reset'' user
           [(''targetUserId'', JStr i), (''role'', jrole (u_role existing)), (''outcome'', JStr ''secure_reset_requested'')])
        (ret existing)))))"

section \<open>Completing a reset\<close>

record complete_reset_dto =
  cr_token :: string
  cr_password :: string

definition isCompliantPassword :: "string \<Rightarrow> bool" where
  "isCompliantPassword password \<longleftrightarrow> length password \<ge> 8 \<and>
     list_ex (\<lambda>c. let n = of_char c :: nat in 97 \<le> n \<and> n \<le> 122) password \<and>
     list_ex (\<lambda>c. let n = of_char c :: nat in 65 \<le> n \<and> n \<le> 90) password \<and> list_ex is_digit password"

text \<open>The reason that is recorded for a token that is refused, by the order of the source; None for a usable one.\<close>

definition reset_refusal :: "reset_env \<Rightarrow> password_reset \<Rightarrow> user \<Rightarrow> string option" where
  "reset_refusal env p owner =
     (if pr_usedAt p \<noteq> None then Some ''token_reuse''
      else if pr_supersededAt p \<noteq> None then Some ''token_superseded''
      else if pr_expiresAt p \<le> now env then Some ''token_expired''
      else if isFirebaseOwnedCitizen owner then Some ''firebase_owned_citizen''
      else if u_accountStatus owner \<noteq> ACTIVE then Some ''ineligible_account''
      else None)"

definition reset_rejected :: "string \<Rightarrow> string \<Rightarrow> 'a handler" where
  "reset_rejected actor reason =
     sq (auth_audit ''Password Reset Rejected'' actor [(''reason'', JStr reason)]) (throw auth_failure)"

definition password_changed :: "string \<Rightarrow> user \<Rightarrow> user" where
  "password_changed passwordHash u = u\<lparr> u_passwordHash := Some passwordHash, u_tokenVersion := u_tokenVersion u + 1 \<rparr>"

definition used_reset :: "reset_env \<Rightarrow> password_reset \<Rightarrow> password_reset" where
  "used_reset env p = p\<lparr> pr_usedAt := Some (now env) \<rparr>"

text \<open>The owner of a token is there by the foreign key.\<close>

definition completePasswordReset :: "reset_env \<Rightarrow> complete_reset_dto \<Rightarrow> unit handler" where
  "completePasswordReset env dto =
     (let password = trim (cr_password dto) in
      sq (throw_if (\<not> isCompliantPassword password) (BadRequest ''Password does not meet requirements''))
     (bnd (gets (\<lambda>s. find (\<lambda>p. pr_tokenDigest p = hashResetToken env (trim (cr_token dto))) (passwordResetTokens s))) (\<lambda>found.
      case found of
        None \<Rightarrow> reset_rejected ''anonymous'' ''token_not_found''
      | Some record \<Rightarrow>
      bnd (gets (find_user (pr_userId record))) (\<lambda>account.
      bnd (require (InternalServerError ''user'') account) (\<lambda>owner.
      case reset_refusal env record owner of
        Some reason \<Rightarrow> reset_rejected (pr_userId record) reason
      | None \<Rightarrow>
          sq (transaction
                (sq (update_reset (pr_id record) (used_reset env))
                    (update_user (pr_userId record) (password_changed (bcryptHash env password)))))
             (auth_audit ''Password Reset Completed'' (pr_userId record)
                [(''resetTokenId'', JStr (pr_id record)), (''sessionVersionAdvanced'', JBool True)]))))))"

end
