(* ===== verification/Auth_Theorems.thy ===== *)
theory Auth_Theorems imports Password_Reset Mfa_Theorems begin

text \<open>
  What logging in guarantees: no access token without every proof the account's role asks for, and the boundary of the
  identity provider's logins.
\<close>

section \<open>Tools\<close>

lemma truncated [simp]:
  "now (env.truncate env) = now env" "now (mfa_env.truncate menv) = now menv" "now (auth_env.truncate aenv) = now aenv"
  by (simp_all add: env.defs mfa_env.defs auth_env.defs)

lemma leaves_case_prod: "(\<And>x y. leaves v (f x y)) \<Longrightarrow> leaves v (case p of (x, y) \<Rightarrow> f x y)"
  by (simp split: prod.split)

lemma leaves_transaction: "leaves v m \<Longrightarrow> leaves v (transaction m)"
  by (auto simp: leaves_def transaction_def split: prod.splits sum.splits) (metis snd_conv)

lemma leaves_for_each: "(\<And>x. leaves v (f x)) \<Longrightarrow> leaves v (for_each xs f)"
  by (induction xs) (auto intro: leaves_rules)

lemma leaves_parts: "leaves (\<lambda>s. (v s, w s)) m \<Longrightarrow> leaves v m \<and> leaves w m"
  by (simp add: leaves_def)

text \<open>The second factor leaves the accounts and the tokens of resets alone.\<close>

abbreviation accounts_tokens :: "'s tables_scheme \<Rightarrow> user list \<times> password_reset list" where
  "accounts_tokens s \<equiv> (users s, passwordResetTokens s)"

lemma leaves_mfa_tables:
  "leaves accounts_tokens (update_session k f :: mfa_session handler)"
  "leaves accounts_tokens (update_enrollment k g :: mfa_enrollment handler)"
  "leaves accounts_tokens (mfa_audit action user metadata)" "leaves accounts_tokens (recordFailedAttempt menv i n)"
  "leaves accounts_tokens (create_row mfaSessions mfaSessions_update c1 r1 :: mfa_session handler)"
  "leaves accounts_tokens (create_row mfaBackupCodes mfaBackupCodes_update c2 r2 :: mfa_backup_code handler)"
  "leaves accounts_tokens (create_row mfaEnrollments mfaEnrollments_update c3 r3 :: mfa_enrollment handler)"
  "leaves accounts_tokens (modify (mfaEnrollments_update f1) :: unit handler)"
  "leaves accounts_tokens (modify (mfaBackupCodes_update f2) :: unit handler)"
  by (auto simp: leaves_def update_session_def update_enrollment_def row_update_def row_put_def mfa_audit_def create_row_def
      recordFailedAttempt_def run_bnd split: option.split)

lemmas leaves_mfa_steps = leaves_rules leaves_mfa_tables leaves_transaction leaves_for_each leaves_case_prod
  leaves_reads[OF reads_validatePreAuth] leaves_reads[OF reads_codes(1)] leaves_reads[OF reads_codes(2)]
  leaves_reads[OF reads_codes(3)] leaves_reads[OF reads_codes(4)]

lemma leaves_mfa:
  "leaves accounts_tokens (completeChallenge menv token chosen code ctx)" "leaves accounts_tokens (createPreAuthSession menv user ctx)"
  "leaves accounts_tokens (startEnrollment menv token ctx)" "leaves accounts_tokens (confirmEnrollment menv token code ctx)"
proof -
  show "leaves accounts_tokens (createPreAuthSession menv user ctx)"
    unfolding createPreAuthSession_def Let_def by (intro leaves_mfa_steps)
  show "leaves accounts_tokens (startEnrollment menv token ctx)"
    unfolding startEnrollment_def by (intro leaves_mfa_steps)
  show "leaves accounts_tokens (confirmEnrollment menv token code ctx)"
    unfolding confirmEnrollment_def confirm_transaction_def Let_def by (intro leaves_mfa_steps)
  have "leaves accounts_tokens (completeTotpChallenge menv session user e code ctx)" for session user e
    unfolding completeTotpChallenge_def challenge_failed_def consume_step_def Let_def by (intro leaves_mfa_steps)
  moreover have "leaves accounts_tokens (completeRecoveryCodeChallenge menv session user k code ctx)" for session user k
    unfolding completeRecoveryCodeChallenge_def challenge_failed_def consume_code_def Let_def by (intro leaves_mfa_steps)
  ultimately show "leaves accounts_tokens (completeChallenge menv token chosen code ctx)"
    unfolding completeChallenge_def by (auto intro!: leaves_mfa_steps split: mfa_method.split)
qed

lemmas users_after_mfa = leavesD[OF conjunct1[OF leaves_parts[OF leaves_mfa(1)]]]

section \<open>Identity numbers\<close>

text \<open>What the first use of an account writes into it.\<close>

definition identified :: "(user \<Rightarrow> user) \<Rightarrow> bool" where
  "identified f \<longleftrightarrow> f = id \<or> (\<exists>z k. f = (\<lambda>u. u\<lparr> u_secureZoneId := z, u_identityType := k \<rparr>))"

lemma identified_keeps:
  assumes "identified f"
  shows "u_id (f u) = u_id u" "u_role (f u) = u_role u" "u_accountStatus (f u) = u_accountStatus u"
    "u_tokenVersion (f u) = u_tokenVersion u" "u_passwordHash (f u) = u_passwordHash u" "u_firebaseUid (f u) = u_firebaseUid u"
    "u_email (f u) = u_email u" "u_phone (f u) = u_phone u"
  using assms by (auto simp: identified_def)

lemma ensureIdentityE:
  assumes "ensureIdentity env i s = (Inr v, t)"
  obtains u f where "find_user i s = Some u" "v = f u" "identified f" "t = put_user i f s"
proof -
  from assms obtain u where u: "find_user i s = Some u"
    by (auto simp: ensureIdentity_def run_bnd split: option.splits)
  show thesis
  proof (cases "truthy (u_secureZoneId u)")
    case True
    have "put_user i id s = s" by (simp add: put_user_def row_put_def upd_rows_def cong: if_cong)
    with True assms u show thesis
      by (intro that[of u id]) (simp_all add: ensureIdentity_def run_bnd identified_def)
  next
    case False
    let ?f = "\<lambda>w. w\<lparr> u_secureZoneId := Some (nextSecureZoneId env s), u_identityType := identityTypeForRole (u_role u) \<rparr>"
    have "v = ?f u" "t = put_user i ?f s"
      using False assms u by (auto simp: ensureIdentity_def run_bnd elim!: user_table.updateE)
    then show thesis by (intro that[OF u]) (auto simp: identified_def)
  qed
qed

lemma find_user_put: "(\<And>u. u_id (f u) = u_id u) \<Longrightarrow> find_user i s = Some u \<Longrightarrow> find_user i (put_user i f s) = Some (f u)"
  by (rule user_table.find_put_same)

definition accounts_unique :: "'s tables_scheme \<Rightarrow> bool" where
  "accounts_unique s \<longleftrightarrow> list_all (\<lambda>v. list_all (\<lambda>w. same_account v w \<longrightarrow> v = w) (users s)) (users s)"

lemma accounts_uniqueD: "accounts_unique s \<Longrightarrow> v \<in> set (users s) \<Longrightarrow> w \<in> set (users s) \<Longrightarrow> same_account v w \<Longrightarrow> v = w"
  by (auto simp: accounts_unique_def list_all_iff)

lemma find_unique_user:
  assumes "accounts_unique s" and "u \<in> set (users s)"
  shows "find_user (u_id u) s = Some u"
proof -
  obtain v where "find (\<lambda>v. u_id v = u_id u) (users s) = Some v"
    using assms(2) by (metis (mono_tags, lifting) find_None_iff option.exhaust)
  moreover from this have "v = u"
    using assms find_SomeD by (intro accounts_uniqueD[OF assms(1)]) (auto simp: same_account_def dest: find_SomeD)
  ultimately show ?thesis by (simp add: find_user_def row_find_def)
qed

section \<open>Requests\<close>

datatype auth_request =
    Log_in login_dto "request_context option"
  | Start_factor string "request_context option"
  | Confirm_factor string string "request_context option"
  | Answer_factor string mfa_method string "request_context option"
  | Firebase_log_in firebase_login_dto
  | Edit_profile string user_role payload
  | Ask_reset reset_request_dto
  | Admin_reset string jwt_user
  | Complete_reset complete_reset_dto

definition tokens_of :: "login_reply \<Rightarrow> token_reply option" where
  "tokens_of reply = (case reply of Tokens r \<Rightarrow> Some r | _ \<Rightarrow> None)"

text \<open>A request answers with tokens or without.\<close>

primrec perform_auth :: "reset_env \<Rightarrow> delivery_config \<Rightarrow> auth_request \<Rightarrow> token_reply option handler" where
  "perform_auth env config (Log_in dto ctx) = bnd (login (auth_env.truncate env) dto ctx) (\<lambda>r. ret (tokens_of r))"
| "perform_auth env config (Start_factor token ctx) = bnd (startMfaEnrollment (auth_env.truncate env) token ctx) (\<lambda>_. ret None)"
| "perform_auth env config (Confirm_factor token code ctx) =
     bnd (confirmMfaEnrollment (auth_env.truncate env) token code ctx) (\<lambda>r. ret (Some (fst r)))"
| "perform_auth env config (Answer_factor token chosen code ctx) =
     bnd (completeMfaChallenge (auth_env.truncate env) token chosen code ctx) (\<lambda>r. ret (Some r))"
| "perform_auth env config (Firebase_log_in dto) = bnd (firebaseLogin (auth_env.truncate env) dto) (\<lambda>r. ret (tokens_of r))"
| "perform_auth env config (Edit_profile i role dto) = bnd (updateMe i role dto) (\<lambda>_. ret None)"
| "perform_auth env config (Ask_reset dto) = bnd (requestPasswordReset env config dto) (\<lambda>_. ret None)"
| "perform_auth env config (Admin_reset i user) = bnd (resetPassword env config i user) (\<lambda>_. ret None)"
| "perform_auth env config (Complete_reset dto) = bnd (completePasswordReset env dto) (\<lambda>_. ret None)"

section \<open>Tokens\<close>

text \<open>
  What a request has to show for the account whose tokens it gets: the session of the second factor is one that a login
  with the password opened.
\<close>

definition open_session :: "reset_env \<Rightarrow> mfa_purpose \<Rightarrow> string \<Rightarrow> user \<Rightarrow> db \<Rightarrow> bool" where
  "open_session env purpose token u s \<longleftrightarrow> (\<exists>v\<in>set (mfaSessions s). ms_tokenDigest v = sha256 env (trim token) \<and>
     ms_userId v = u_id u \<and> ms_purpose v = purpose \<and> ms_consumedAt v = None \<and> ms_lockedAt v = None \<and> now env < ms_expiresAt v)"

definition shows_proof :: "reset_env \<Rightarrow> auth_request \<Rightarrow> db \<Rightarrow> user \<Rightarrow> bool" where
  "shows_proof env req s u = (case req of
     Log_in dto ctx \<Rightarrow> u_role u \<in> {CITIZEN, PROVIDER, PENDING_PROVIDER, ORG_ADMIN, DISPATCH_OFFICER} \<and>
       (\<exists>h. u_passwordHash u = Some h \<and> bcryptCompare env (lg_password dto) h)
   | Confirm_factor token code ctx \<Rightarrow> open_session env ENROLLMENT token u s \<and>
       (\<exists>e\<in>set (mfaEnrollments s). me_userId e = u_id u \<and> me_status e = ME_PENDING \<and>
          code_step (mfa_env.truncate env) code e s \<noteq> None)
   | Answer_factor token chosen code ctx \<Rightarrow> open_session env CHALLENGE token u s \<and>
       (case chosen of
          TOTP \<Rightarrow> \<exists>e\<in>set (mfaEnrollments s). me_userId e = u_id u \<and> me_status e = ME_ACTIVE \<and>
            code_step (mfa_env.truncate env) code e s \<noteq> None
        | RECOVERY_CODE \<Rightarrow> \<exists>b\<in>set (mfaBackupCodes s). mb_userId b = u_id u \<and> mb_usedAt b = None \<and>
            mb_codeDigest b = digestRecoveryCode (mfa_env.truncate env) code)
   | Firebase_log_in dto \<Rightarrow> u_role u = CITIZEN \<and>
       (\<exists>d. firebaseSdk env (trim (fb_idToken dto)) = Some d \<and>
          (truthy (u_firebaseUid u) \<longrightarrow> u_firebaseUid u = Some (trim (dt_uid d))))
   | _ \<Rightarrow> False)"

lemma single_factor: "\<not> requiresPrivilegedMfa r \<Longrightarrow> r \<in> {CITIZEN, PROVIDER, PENDING_PROVIDER, ORG_ADMIN, DISPATCH_OFFICER}"
  by (cases r) (simp_all add: requiresPrivilegedMfa_def privilegedMfaRoles_def)

lemma open_sessionI:
  assumes "validatePreAuth (mfa_env.truncate env) token purpose s = (Inr (session, user), s')"
  shows "open_session env purpose token user s"
  unfolding open_session_def
  using validatePreAuth_InrD[OF assms] find_user_SomeD[of "ms_userId session" s user]
  by (intro bexI[of _ session]) (auto simp: usable_session_def mfa_env.defs dest: find_SomeD)

text \<open>The token is that of the stored account, which the token strategy accepts.\<close>

definition token_accepted :: "reset_env \<Rightarrow> token_reply \<Rightarrow> user \<Rightarrow> db \<Rightarrow> bool" where
  "token_accepted env r u t \<longleftrightarrow>
     (\<exists>claims. tk_accessToken r = signToken env claims \<and> jp_sub (payload_of claims) = u_id u \<and>
        validate_token (payload_of claims) t = (Inr (session_of u), t))"

lemma payload_of_access_claims: "payload_of (access_claims u) = \<lparr> jp_sub = u_id u, jp_tokenVersion = Some (jint (token_version u)) \<rparr>"
  by (simp add: payload_of_def access_claims_def)

lemma token_acceptedI:
  assumes "find_user (u_id u) t = Some u" and "u_accountStatus u = ACTIVE" and "0 \<le> u_tokenVersion u"
    and "u_id v = u_id u" and "u_tokenVersion v = u_tokenVersion u"
  shows "token_accepted env (issueTokens (auth_env.truncate env) v) u t"
proof -
  have "validate_token (payload_of (access_claims v)) t = (Inr (session_of u), t)"
    using assms by (simp add: payload_of_access_claims validate_token_def bnd_runs isCurrentTokenVersion_def token_version_def)
  moreover have "tk_accessToken (issueTokens (auth_env.truncate env) v) = signToken env (access_claims v)"
    by (simp add: issueTokens_def auth_env.defs)
  moreover have "jp_sub (payload_of (access_claims v)) = u_id u"
    using assms(4) by (simp add: payload_of_access_claims)
  ultimately show ?thesis unfolding token_accepted_def by blast
qed

lemma refused_never_returns:
  "login_refused action actor metadata i reason ctx s \<noteq> (Inr x, t)"
  "conflict_if aenv identity c reason s = (Inr y, t) \<Longrightarrow> \<not> c \<and> t = s"
  by (auto simp: login_refused_def conflict_if_def split: if_splits elim!: bnd_InrE)

lemma business_eq_users: "business t = business s \<Longrightarrow> users t = users s \<and> find_user i t = find_user i s"
  by (metis business_fields(2) find_user_business)

lemma login_recorded:
  assumes "sq (auth_audit action i metadata) (sq (recordLogin j success reason ctx) (ret x)) s = (res, t)"
  shows "res = Inr x \<and> business t = business s"
proof -
  have "quiet business (sq (auth_audit action i metadata) (recordLogin j success reason ctx))" by (intro quiet_rules)
  from quiet_tail[OF this, of x s res t] assms show ?thesis by (simp add: bnd_assoc)
qed

lemma loginE:
  assumes "login aenv dto ctx s = (Inr (Tokens r), t)"
  obtains user h v w where "user \<in> set (users s)" "u_passwordHash user = Some h" "bcryptCompare aenv (lg_password dto) h"
    "u_accountStatus user = ACTIVE" "\<not> requiresPrivilegedMfa (u_role user)"
    "ensureIdentity (env.truncate aenv) (u_id user) s = (Inr v, w)" "business t = business w"
    "r = issueTokens aenv (auth_user user v)"
proof -
  from assms obtain user h where found: "find (login_matches dto) (users s) = Some user" "nonempty (u_passwordHash user) = Some h"
      and active: "bcryptCompare aenv (lg_password dto) h" "u_accountStatus user = ACTIVE"
      and rest: "bnd (ensureIdentity (env.truncate aenv) (u_id user)) (\<lambda>identity.
           if requiresPrivilegedMfa (u_role user) then
             sq (recordLogin (Some (u_id user)) False (Some ''mfa_pending'') ctx)
            (bnd (createPreAuthSession (mfa_env.truncate aenv) (auth_user user identity) ctx) (\<lambda>reply.
               ret (Second_factor reply)))
           else
             sq (auth_audit ''Login'' (u_id user) [(''role'', jrole (u_role user))])
            (sq (recordLogin (Some (u_id user)) True None ctx)
                (ret (Tokens (issueTokens aenv (auth_user user identity)))))) s = (Inr (Tokens r), t)"
    unfolding login_def bnd_guard bnd_runs(5)
    by (auto simp: refused_never_returns(1) bind_eq_Some_conv split: option.splits if_splits)
  from rest obtain v w where identity: "ensureIdentity (env.truncate aenv) (u_id user) s = (Inr v, w)"
      and after: "(if requiresPrivilegedMfa (u_role user) then
             sq (recordLogin (Some (u_id user)) False (Some ''mfa_pending'') ctx)
            (bnd (createPreAuthSession (mfa_env.truncate aenv) (auth_user user v) ctx) (\<lambda>reply.
               ret (Second_factor reply)))
           else
             sq (auth_audit ''Login'' (u_id user) [(''role'', jrole (u_role user))])
            (sq (recordLogin (Some (u_id user)) True None ctx)
                (ret (Tokens (issueTokens aenv (auth_user user v)))))) w = (Inr (Tokens r), t)"
    by (rule bnd_InrE)
  have ordinary: "\<not> requiresPrivilegedMfa (u_role user)"
    using after by (auto elim!: bnd_InrE split: if_splits)
  have "r = issueTokens aenv (auth_user user v) \<and> business t = business w"
    using login_recorded[OF after[unfolded if_not_P[OF ordinary]]] by simp
  then show thesis
    using that[OF _ _ active ordinary identity] find_SomeD[OF found(1)] found(2)
    by (cases "u_passwordHash user") (auto split: if_splits)
qed

lemma token_for_stored:
  assumes "find_user (u_id u) s = Some u" and "identified f" and "find_user (u_id u) t = find_user (u_id u) (put_user (u_id u) f s)"
    and "u_accountStatus u = ACTIVE" and "0 \<le> u_tokenVersion u" and "u_id v = u_id u" and "u_tokenVersion v = u_tokenVersion u"
  shows "find_user (u_id u) t = Some (f u) \<and> token_accepted env (issueTokens (auth_env.truncate env) v) (f u) t"
proof -
  have stored: "find_user (u_id u) t = Some (f u)"
    unfolding assms(3) by (rule find_user_put[OF identified_keeps(1)[OF assms(2)] assms(1)])
  then have "token_accepted env (issueTokens (auth_env.truncate env) v) (f u) t"
    using assms identified_keeps[OF assms(2), of u] by (intro token_acceptedI) simp_all
  with stored show ?thesis ..
qed

lemma tokens_with_password:
  assumes "perform_auth env config (Log_in dto ctx) s = (Inr (Some r), t)" and "accounts_unique s"
    and "list_all (\<lambda>u. 0 \<le> u_tokenVersion u) (users s)"
  shows "\<exists>u. find_user (u_id (tk_user r)) t = Some u \<and> u_accountStatus u = ACTIVE \<and> token_accepted env r u t \<and>
    shows_proof env (Log_in dto ctx) s u"
proof -
  from assms(1) have "login (auth_env.truncate env) dto ctx s = (Inr (Tokens r), t)"
    by (auto simp: tokens_of_def elim!: bnd_InrE split: login_reply.splits)
  then obtain user h v w where user: "user \<in> set (users s)" "u_passwordHash user = Some h"
      "bcryptCompare env (lg_password dto) h" "u_accountStatus user = ACTIVE" "\<not> requiresPrivilegedMfa (u_role user)"
      and identity: "ensureIdentity (env.truncate (auth_env.truncate env)) (u_id user) s = (Inr v, w)" "business t = business w"
      and r: "r = issueTokens (auth_env.truncate env) (auth_user user v)"
    by (elim loginE) (auto simp: auth_env.defs)
  have stored: "find_user (u_id user) s = Some user"
    by (rule find_unique_user[OF assms(2) user(1)])
  from identity(1) obtain f where f: "identified f" "v = f user" "w = put_user (u_id user) f s"
    by (elim ensureIdentityE) (use stored in auto)
  have version: "0 \<le> u_tokenVersion user" using assms(3) user(1) by (simp add: list_all_iff)
  have "find_user (u_id user) t = find_user (u_id user) (put_user (u_id user) f s)"
    using business_eq_users[OF identity(2)] f(3) by simp
  note result = token_for_stored[OF stored f(1) this user(4) version, where v = "auth_user user v" and env = env]
  have "u_id (tk_user r) = u_id user" by (simp add: r issueTokens_def auth_user_def)
  then show ?thesis
    using result identified_keeps[OF f(1), of user] user(2-4) single_factor[OF user(5)] unfolding r
    by (simp add: auth_user_def shows_proof_def)
qed

lemma truncate_twice [simp]:
  "mfa_env.truncate (auth_env.truncate env) = mfa_env.truncate env" "env.truncate (auth_env.truncate env) = env.truncate env"
  by (simp_all add: auth_env.defs mfa_env.defs env.defs)

lemma factor_user:
  assumes "validatePreAuth menv token purpose s = (Inr (session, user), s')"
  shows "find_user (u_id user) s = Some user" "u_accountStatus user = ACTIVE" "user \<in> set (users s)"
  using validatePreAuth_InrD[OF assms] find_user_SomeD[of "ms_userId session" s user] by (auto simp: usable_session_def)

text \<open>The account behind a session of the second factor is left as it is.\<close>

lemma token_after_factor:
  assumes "validatePreAuth menv token purpose s = (Inr (session, user), s')" and "users t = users s"
    and "list_all (\<lambda>u. 0 \<le> u_tokenVersion u) (users s)"
  shows "find_user (u_id user) t = Some user \<and> u_accountStatus user = ACTIVE \<and>
    token_accepted env (issueTokens (auth_env.truncate env) user) user t"
proof -
  have stored: "find_user (u_id user) t = Some user" "u_accountStatus user = ACTIVE"
    using factor_user[OF assms(1)] assms(2) by (simp_all add: find_user_def row_find_def)
  then show ?thesis
    using factor_user(3)[OF assms(1)] assms(3) by (simp add: token_acceptedI list_all_iff)
qed

lemma code_stepI:
  assumes "decrypt menv (me_encryptedTotpSecret e) s = (Inr secret, s)" and "matchTotpStep menv code secret s = (Inr (Some step), s)"
  shows "code_step menv code e s = Some step"
  using assms by (simp add: code_step_def)

lemma tokens_with_confirmation:
  assumes "perform_auth env config (Confirm_factor token code ctx) s = (Inr (Some r), t)"
    and "list_all (\<lambda>u. 0 \<le> u_tokenVersion u) (users s)"
  shows "\<exists>u. find_user (u_id (tk_user r)) t = Some u \<and> u_accountStatus u = ACTIVE \<and> token_accepted env r u t \<and>
    shows_proof env (Confirm_factor token code ctx) s u"
proof -
  from assms(1) obtain user codes w where run: "confirmEnrollment (mfa_env.truncate env) token code ctx s = (Inr (user, codes), w)"
      and tail: "sq (auth_audit ''Login'' (u_id user) [(''role'', jrole (u_role user)), (''mfa'', JStr ''enrollment_confirmed'')])
        (sq (recordLogin (Some (u_id user)) True None ctx) (ret (issueTokens (auth_env.truncate env) user, codes))) w = (Inr (r, codes), t)"
    by (fastforce simp: confirmMfaEnrollment_def elim!: bnd_InrE dest: login_recorded)
  from login_recorded[OF tail] have r: "r = issueTokens (auth_env.truncate env) user" and "business t = business w" by simp_all
  moreover obtain session e secret step where factor: "validatePreAuth (mfa_env.truncate env) token ENROLLMENT s = (Inr (session, user), s)"
      "pendingEnrollment (u_id user) s = Some e" "decrypt (mfa_env.truncate env) (me_encryptedTotpSecret e) s = (Inr secret, s)"
      "matchTotpStep (mfa_env.truncate env) code secret s = (Inr (Some step), s)" "users w = users s"
    using run by (rule confirmE)
  ultimately have "users t = users s" using business_eq_users by metis
  note result = token_after_factor[OF factor(1) this assms(2), where env = env]
  have "shows_proof env (Confirm_factor token code ctx) s user"
    using pendingEnrollment_row[OF factor(2)] code_stepI[OF factor(3,4)] open_sessionI[OF factor(1)] by (auto simp: shows_proof_def)
  then show ?thesis using result by (auto simp: r issueTokens_def)
qed

lemma recovery_owner:
  assumes "completeRecoveryCodeChallenge menv session user k code ctx s = (Inr (), t)"
  shows "\<exists>b\<in>set (mfaBackupCodes s). mb_userId b = u_id user \<and> mb_usedAt b = None \<and> mb_codeDigest b = digestRecoveryCode menv code"
  using assms unfolding completeRecoveryCodeChallenge_def bnd_runs(5)
  by (auto simp: failed_never_returns split: option.splits if_splits dest!: find_SomeD)

lemma tokens_with_challenge:
  assumes "perform_auth env config (Answer_factor token chosen code ctx) s = (Inr (Some r), t)"
    and "list_all (\<lambda>u. 0 \<le> u_tokenVersion u) (users s)"
  shows "\<exists>u. find_user (u_id (tk_user r)) t = Some u \<and> u_accountStatus u = ACTIVE \<and> token_accepted env r u t \<and>
    shows_proof env (Answer_factor token chosen code ctx) s u"
proof -
  let ?menv = "mfa_env.truncate env"
  from assms(1) obtain user recovered w where run: "completeChallenge ?menv token chosen code ctx s = (Inr (user, recovered), w)"
      and tail: "sq (auth_audit ''Login'' (u_id user)
           [(''role'', jrole (u_role user)), (''mfa'', JStr (if recovered then ''recovery_code'' else ''totp''))])
        (sq (recordLogin (Some (u_id user)) True None ctx) (ret (issueTokens (auth_env.truncate env) user))) w = (Inr r, t)"
    by (fastforce simp: completeMfaChallenge_def elim!: bnd_InrE dest: login_recorded)
  from login_recorded[OF tail] have r: "r = issueTokens (auth_env.truncate env) user" and "business t = business w" by simp_all
  moreover have "users w = users s" using users_after_mfa[OF run] .
  ultimately have users: "users t = users s" using business_eq_users by metis
  from run obtain session e where factor: "validatePreAuth ?menv token CHALLENGE s = (Inr (session, user), s)"
      "activeEnrollment (u_id user) s = Some e"
      "case chosen of TOTP \<Rightarrow> completeTotpChallenge ?menv session user e code ctx s = (Inr (), w)
       | RECOVERY_CODE \<Rightarrow> completeRecoveryCodeChallenge ?menv session user (me_id e) code ctx s = (Inr (), w)"
    by (rule challengeE)
  have "shows_proof env (Answer_factor token chosen code ctx) s user"
    using activeEnrollment_row[OF factor(2)] factor(3) open_sessionI[OF factor(1)]
    by (cases chosen) (auto simp: shows_proof_def elim!: totpE dest: code_stepI recovery_owner)
  then show ?thesis using token_after_factor[OF factor(1) users assms(2), where env = env] by (auto simp: r issueTokens_def)
qed

section \<open>Logins with a verified identity\<close>

lemma conflict_run:
  "users (snd (firebase_conflict aenv identity reason s)) = users s"
  "firebase_conflict aenv identity reason s = (r, t) \<Longrightarrow> r = Inr () \<and> users t = users s"
  by (auto simp: firebase_conflict_def auth_audit_def)

lemma conflict_if_run:
  "bnd (conflict_if aenv identity c reason) k s =
     (if c then (Inl auth_failure, snd (firebase_conflict aenv identity reason s)) else k () s)"
  by (simp add: conflict_if_def firebase_conflict_def auth_audit_def bnd_def)

text \<open>Nothing happened to the accounts, and there is no token.\<close>

definition turned_away :: "exn + login_reply \<Rightarrow> db \<Rightarrow> db \<Rightarrow> bool" where
  "turned_away res s t \<longleftrightarrow> users t = users s \<and> (\<forall>r. res \<noteq> Inr (Tokens r))"

lemma ensured_after:
  assumes "find_user i s = Some u" and "bnd (ensureIdentity env i) (\<lambda>_. ret x) s = (res, t)"
  shows "res = Inr x \<and> (\<exists>f. identified f \<and> t = put_user i f s)"
proof -
  obtain v w where run: "ensureIdentity env i s = (Inr v, w)"
    using assms(1) by (fastforce simp: ensureIdentity_def bnd_runs(3,5) user_table.update_runs)
  then have "res = Inr x" "t = w" using assms(2) by simp_all
  moreover from run obtain u' f where "identified f" "w = put_user i f s" by (rule ensureIdentityE)
  ultimately show ?thesis by blast
qed

lemma firebase_existing_cases:
  assumes "firebase_existing aenv dto identity uid phone email fullName orgId byUid byEmail u s = (res, t)"
    and "find_user (u_id u) s = Some u"
  shows "turned_away res s t \<or>
    (u_role u = CITIZEN \<and> u_accountStatus u = ACTIVE \<and> (truthy (u_firebaseUid u) \<longrightarrow> u_firebaseUid u = Some uid) \<and>
     (\<exists>f. identified f \<and> res = Inr (Tokens (issueTokens aenv (linked_citizen aenv dto uid phone email fullName orgId u))) \<and>
        t = put_user (u_id u) (f \<circ> linked_citizen aenv dto uid phone email fullName orgId) s))"
proof -
  let ?g = "linked_citizen aenv dto uid phone email fullName orgId"
  have keep: "u_id (?g r) = u_id r" for r by (simp add: linked_citizen_def)
  have "turned_away res s t \<or> (u_role u = CITIZEN \<and> u_accountStatus u = ACTIVE \<and> (truthy (u_firebaseUid u) \<longrightarrow> u_firebaseUid u = Some uid) \<and>
      bnd (update_user (u_id u) ?g) (\<lambda>user. bnd (ensureIdentity (env.truncate aenv) (u_id user)) (\<lambda>_. ret (Tokens (issueTokens aenv user)))) s
      = (res, t))"
    using assms(1) unfolding firebase_existing_def bnd_runs(5) conflict_if_run
    by (auto simp: turned_away_def conflict_run(1) split: if_splits elim!: bndE dest!: conflict_run(2))
  moreover have "(\<exists>f. identified f \<and> res = Inr (Tokens (issueTokens aenv (?g u))) \<and> t = put_user (u_id u) (f \<circ> ?g) s)"
    if "bnd (update_user (u_id u) ?g) (\<lambda>user. bnd (ensureIdentity (env.truncate aenv) (u_id user)) (\<lambda>_. ret (Tokens (issueTokens aenv user)))) s
      = (res, t)"
  proof -
    have "update_user (u_id u) ?g s = (Inr (?g u), put_user (u_id u) ?g s)"
      by (rule user_table.update_runs[OF assms(2)])
    with that have "bnd (ensureIdentity (env.truncate aenv) (u_id u)) (\<lambda>_. ret (Tokens (issueTokens aenv (?g u)))) (put_user (u_id u) ?g s)
        = (res, t)"
      by (simp add: keep)
    from ensured_after[OF find_user_put[OF keep assms(2)] this] show ?thesis
      by (auto simp: user_table.put_twice[OF keep])
  qed
  ultimately show ?thesis by blast
qed

lemma firebase_new_cases:
  assumes "firebase_new aenv uid phone email fullName orgId s = (res, t)"
  shows "turned_away res s t \<or>
    (let new = new_citizen aenv uid phone email fullName orgId in
     list_all (\<lambda>v. \<not> same_account new v) (users s) \<and> res = Inr (Tokens (issueTokens aenv new)) \<and>
     (\<exists>f. identified f \<and> users t = users s @ [f new] \<and> find_user (u_id new) t = Some (f new)))"
proof (cases "list_ex (same_account (new_citizen aenv uid phone email fullName orgId)) (users s)")
  case True
  then have "turned_away res s t"
    using assms by (auto simp: firebase_new_def create_row_def bnd_runs bnd_assoc turned_away_def)
  then show ?thesis ..
next
  case False
  let ?new = "new_citizen aenv uid phone email fullName orgId" and ?s = "users_update (\<lambda>rs. rs @ [new_citizen aenv uid phone email fullName orgId]) s"
  have fresh: "list_all (\<lambda>v. \<not> same_account ?new v) (users s)"
    using False by (auto simp: list_ex_iff list_all_iff)
  then have other: "find (\<lambda>v. u_id v = u_id ?new) (users s) = None"
    by (auto simp: find_None_iff list_all_iff same_account_def)
  then have stored: "find_user (u_id ?new) ?s = Some ?new"
    by (simp add: find_user_def row_find_def find_append_new)
  have "bnd (ensureIdentity (env.truncate aenv) (u_id ?new)) (\<lambda>_. ret (Tokens (issueTokens aenv ?new))) ?s = (res, t)"
    using assms False by (simp add: firebase_new_def create_row_def bnd_runs bnd_assoc)
  from ensured_after[OF stored this] obtain f where f: "res = Inr (Tokens (issueTokens aenv ?new))" "identified f"
      "t = put_user (u_id ?new) f ?s" by blast
  have "upd_rows (\<lambda>v. u_id v = u_id ?new) f (users s) = users s"
    unfolding upd_rows_def by (rule map_idI) (use fresh in \<open>fastforce simp: list_all_iff same_account_def\<close>)
  then have "users t = users s @ [f ?new]"
    by (simp add: f(3) put_user_def row_put_def upd_rows_def)
  moreover have "find_user (u_id ?new) t = Some (f ?new)"
    unfolding f(3) by (rule find_user_put[OF identified_keeps(1)[OF f(2)] stored])
  ultimately show ?thesis using f(1,2) fresh unfolding Let_def by blast
qed

lemma assertSame_passes:
  assumes "assertSameFirebaseCitizen aenv identity [(a, x), (b, y), (c, z)] s = (Inr u, s')"
  shows "s' = s \<and> (\<forall>v \<in> set_option x \<union> set_option y \<union> set_option z. map_option u_id (coalesce x (coalesce y z)) = Some (u_id v))"
  using assms
  by (cases x; cases y; cases z)
    (auto simp: assertSameFirebaseCitizen_def map_filter_simps conflict_if_def firebase_conflict_def auth_audit_def split: if_splits elim!: bnd_InrE)

lemma assertSame_users: "assertSameFirebaseCitizen aenv identity ms s = (r, s') \<Longrightarrow> users s' = users s"
  by (auto simp: assertSameFirebaseCitizen_def conflict_if_def firebase_conflict_def auth_audit_def split: list.splits option.splits if_splits elim!: bndE)

text \<open>An account with the identity's number at the provider, its verified phone or its verified address.\<close>

definition claims_account :: "firebase_identity \<Rightarrow> user \<Rightarrow> bool" where
  "claims_account identity u \<longleftrightarrow> u_firebaseUid u = Some (trim (fi_uid identity)) \<or>
     verified_phone identity \<noteq> None \<and> u_phone u = verified_phone identity \<or>
     verified_email identity \<noteq> None \<and> u_email u = verified_email identity"

lemma find_shared: "u \<in> set xs \<Longrightarrow> P u \<Longrightarrow> \<exists>v. find P xs = Some v \<and> P v"
  by (induction xs) auto

lemma firebase_account_cases:
  assumes "firebase_account aenv dto identity (trim (fi_uid identity)) (verified_phone identity) (verified_email identity) fullName orgId s = (res, t)"
    and "accounts_unique s"
  shows "turned_away res s t \<or>
    (\<exists>u\<in>set (users s). (\<forall>v\<in>set (users s). claims_account identity v \<longrightarrow> v = u) \<and> claims_account identity u \<and>
      (\<exists>bu be. firebase_existing aenv dto identity (trim (fi_uid identity)) (verified_phone identity) (verified_email identity) fullName orgId bu be u s
        = (res, t))) \<or>
    ((\<forall>v\<in>set (users s). \<not> claims_account identity v) \<and>
      firebase_new aenv (trim (fi_uid identity)) (verified_phone identity) (verified_email identity) fullName orgId s = (res, t))"
proof -
  let ?uid = "find (\<lambda>u. u_firebaseUid u = Some (trim (fi_uid identity))) (users s)"
  let ?phone = "if verified_phone identity = None then None else find (\<lambda>u. u_phone u = verified_phone identity) (users s)"
  let ?email = "if verified_email identity = None then None else find (\<lambda>u. u_email u = verified_email identity) (users s)"
  let ?rest = "case coalesce ?uid (coalesce ?phone ?email) of
       None \<Rightarrow> firebase_new aenv (trim (fi_uid identity)) (verified_phone identity) (verified_email identity) fullName orgId
     | Some existing \<Rightarrow> firebase_existing aenv dto identity (trim (fi_uid identity)) (verified_phone identity)
         (verified_email identity) fullName orgId ?uid ?email existing"
  have run: "bnd (assertSameFirebaseCitizen aenv identity [(''uid'', ?uid), (''phone'', ?phone), (''email'', ?email)]) (\<lambda>_. ?rest) s = (res, t)"
    using assms(1) by (simp add: firebase_account_def bnd_runs(5))
  have found: "\<exists>v\<in>set_option ?uid \<union> set_option ?phone \<union> set_option ?email. same_account v u" if "u \<in> set (users s)" "claims_account identity u" for u
  proof -
    consider "u_firebaseUid u = Some (trim (fi_uid identity))" | "verified_phone identity \<noteq> None" "u_phone u = verified_phone identity"
      | "verified_email identity \<noteq> None" "u_email u = verified_email identity"
      using \<open>claims_account identity u\<close> unfolding claims_account_def by blast
    then show ?thesis
    proof cases
      case 1
      then show ?thesis
        using find_shared[OF that(1), of "\<lambda>u. u_firebaseUid u = Some (trim (fi_uid identity))"] by (auto simp: same_account_def)
    next
      case 2
      then show ?thesis
        using find_shared[OF that(1), of "\<lambda>u. u_phone u = verified_phone identity"] by (auto simp: same_account_def)
    next
      case 3
      then show ?thesis
        using find_shared[OF that(1), of "\<lambda>u. u_email u = verified_email identity"] by (auto simp: same_account_def)
    qed
  qed
  have members: "v \<in> set (users s) \<and> claims_account identity v" if "v \<in> set_option ?uid \<union> set_option ?phone \<union> set_option ?email" for v
    using that by (auto simp: claims_account_def split: if_splits dest!: find_SomeD)
  from run show ?thesis
  proof (cases rule: bndE)
    case (err e)
    then show ?thesis using assertSame_users by (auto simp: turned_away_def)
  next
    case (ok x s')
    from assertSame_passes[OF ok(1)] have s': "s' = s"
      and same: "v \<in> set_option ?uid \<union> set_option ?phone \<union> set_option ?email \<Longrightarrow> map_option u_id (coalesce ?uid (coalesce ?phone ?email)) = Some (u_id v)" for v
      by blast+
    show ?thesis
    proof (cases "coalesce ?uid (coalesce ?phone ?email)")
      case None
      then have "v \<notin> set_option ?uid \<union> set_option ?phone \<union> set_option ?email" for v using same by force
      then have "\<forall>v\<in>set (users s). \<not> claims_account identity v" using found by blast
      moreover have "firebase_new aenv (trim (fi_uid identity)) (verified_phone identity) (verified_email identity) fullName orgId s = (res, t)"
        using ok(2) None s' by simp
      ultimately show ?thesis by blast
    next
      case (Some u)
      then have "u \<in> set_option ?uid \<union> set_option ?phone \<union> set_option ?email"
        by (cases ?uid; cases ?phone) (auto split: if_splits)
      then have u: "u \<in> set (users s)" "claims_account identity u" using members by blast+
      have "v = u" if "v \<in> set (users s)" "claims_account identity v" for v
      proof -
        from found[OF that] obtain w where w: "w \<in> set_option ?uid \<union> set_option ?phone \<union> set_option ?email" "same_account w v" by blast
        then have "u_id w = u_id u" using same Some by simp
        then have "w = u" using members[OF w(1)] u(1) by (intro accounts_uniqueD[OF assms(2)]) (auto simp: same_account_def)
        then show ?thesis using w(2) u(1) that(1) accounts_uniqueD[OF assms(2)] by blast
      qed
      moreover have "firebase_existing aenv dto identity (trim (fi_uid identity)) (verified_phone identity)
         (verified_email identity) fullName orgId ?uid ?email u s = (res, t)"
        using ok(2) Some s' by simp
      ultimately show ?thesis using u by blast
    qed
  qed
qed

lemma leaves_default_organization: "leaves users (getDefaultCitizenOrganizationId aenv)"
  unfolding getDefaultCitizenOrganizationId_def create_row_def
  by (auto intro!: leaves_rules leaves_modify split: list.split)

lemma firebaseLogin_cases:
  assumes "firebaseLogin aenv dto s = (res, t)" and "accounts_unique s"
  shows "turned_away res s t \<or>
    (\<exists>identity fullName orgId w. verifyIdToken aenv (fb_idToken dto) s = (Inr identity, s) \<and> users w = users s \<and>
      trim (fi_uid identity) \<noteq> [] \<and> (verified_phone identity \<noteq> None \<or> verified_email identity \<noteq> None) \<and>
      firebase_account aenv dto identity (trim (fi_uid identity)) (verified_phone identity) (verified_email identity) fullName orgId w = (res, t))"
proof -
  have reads: "reads (verifyIdToken aenv (fb_idToken dto))" unfolding verifyIdToken_def by (intro reads_rules)
  show ?thesis
  proof (cases "fst (verifyIdToken aenv (fb_idToken dto) s)")
    case (Inl e)
    then have "turned_away res s t"
      using assms(1) reads
      by (cases "verifyIdToken aenv (fb_idToken dto) s")
        (auto simp: firebaseLogin_def catch_def bnd_def auth_audit_def turned_away_def dest: readsD)
    then show ?thesis ..
  next
    case (Inr identity)
    then have verified: "verifyIdToken aenv (fb_idToken dto) s = (Inr identity, s)"
      using reads by (metis prod.collapse readsD)
    then have caught: "catch (verifyIdToken aenv (fb_idToken dto)) h s = (Inr identity, s)" for h by (simp add: catch_def)
    let ?name = "or_else (trimmed (fb_fullName dto)) (or_else (trimmed (fi_fullName identity)) ''Citizen User'')"
    have run: "(if trim (fi_uid identity) = [] then (Inl auth_failure, s)
       else if verified_phone identity = None \<and> verified_email identity = None then
         (Inl auth_failure, snd (firebase_conflict aenv identity ''unverified'' s))
       else bnd (getDefaultCitizenOrganizationId aenv) (\<lambda>organizationId.
         firebase_account aenv dto identity (trim (fi_uid identity)) (verified_phone identity) (verified_email identity) ?name organizationId) s)
       = (res, t)"
      using assms(1) by (simp add: firebaseLogin_def caught Let_def bnd_guard conflict_if_run cong: if_cong)
    show ?thesis
    proof (cases "trim (fi_uid identity) = [] \<or> verified_phone identity = None \<and> verified_email identity = None")
      case True
      then have "turned_away res s t" using run by (auto simp: turned_away_def conflict_run split: if_splits)
      then show ?thesis ..
    next
      case False
      then have "bnd (getDefaultCitizenOrganizationId aenv) (\<lambda>organizationId.
         firebase_account aenv dto identity (trim (fi_uid identity)) (verified_phone identity) (verified_email identity) ?name organizationId) s
         = (res, t)" using run by auto
      then show ?thesis
      proof (cases rule: bndE)
        case (err e)
        then show ?thesis using leavesD[OF leaves_default_organization err(1)] by (simp add: turned_away_def)
      next
        case (ok orgId w)
        then show ?thesis using leavesD[OF leaves_default_organization ok(1)] verified False by blast
      qed
    qed
  qed
qed

lemma firebaseE:
  assumes "firebaseLogin aenv dto s = (res, t)" and "accounts_unique s"
  obtains (away) "turned_away res s t"
  | (linked) identity fullName orgId u g f where "verifyIdToken aenv (fb_idToken dto) s = (Inr identity, s)"
      "u \<in> set (users s)" "\<forall>v\<in>set (users s). claims_account identity v \<longleftrightarrow> v = u" "u_role u = CITIZEN" "u_accountStatus u = ACTIVE"
      "truthy (u_firebaseUid u) \<longrightarrow> u_firebaseUid u = Some (trim (fi_uid identity))" "identified f"
      "g = linked_citizen aenv dto (trim (fi_uid identity)) (verified_phone identity) (verified_email identity) fullName orgId"
      "res = Inr (Tokens (issueTokens aenv (g u)))" "users t = upd_rows (\<lambda>v. u_id v = u_id u) (f \<circ> g) (users s)"
  | (added) identity fullName orgId new f where "verifyIdToken aenv (fb_idToken dto) s = (Inr identity, s)"
      "\<forall>v\<in>set (users s). \<not> claims_account identity v" "identified f"
      "new = new_citizen aenv (trim (fi_uid identity)) (verified_phone identity) (verified_email identity) fullName orgId"
      "res = Inr (Tokens (issueTokens aenv new))" "users t = users s @ [f new]" "find_user (u_id new) t = Some (f new)"
proof (cases "turned_away res s t")
  case False
  then obtain identity fullName orgId w where identity: "verifyIdToken aenv (fb_idToken dto) s = (Inr identity, s)" "users w = users s"
      and run: "firebase_account aenv dto identity (trim (fi_uid identity)) (verified_phone identity) (verified_email identity) fullName orgId w = (res, t)"
    using firebaseLogin_cases[OF assms] by blast
  have unique: "accounts_unique w" using assms(2) identity(2) by (simp add: accounts_unique_def)
  have "\<not> turned_away res w t" using False identity(2) by (simp add: turned_away_def)
  with firebase_account_cases[OF run unique] consider
      (old) u bu be where "u \<in> set (users w)" "\<forall>v\<in>set (users w). claims_account identity v \<longrightarrow> v = u" "claims_account identity u"
        "firebase_existing aenv dto identity (trim (fi_uid identity)) (verified_phone identity) (verified_email identity) fullName orgId bu be u w = (res, t)"
    | (fresh) "\<forall>v\<in>set (users w). \<not> claims_account identity v"
        "firebase_new aenv (trim (fi_uid identity)) (verified_phone identity) (verified_email identity) fullName orgId w = (res, t)"
    by blast
  then show thesis
  proof cases
    case old
    let ?g = "linked_citizen aenv dto (trim (fi_uid identity)) (verified_phone identity) (verified_email identity) fullName orgId"
    from firebase_existing_cases[OF old(4) find_unique_user[OF unique old(1)]] \<open>\<not> turned_away res w t\<close>
    obtain f where f: "u_role u = CITIZEN" "u_accountStatus u = ACTIVE" "truthy (u_firebaseUid u) \<longrightarrow> u_firebaseUid u = Some (trim (fi_uid identity))"
        "identified f" "res = Inr (Tokens (issueTokens aenv (?g u)))" "t = put_user (u_id u) (f \<circ> ?g) w"
      by blast
    have "users t = upd_rows (\<lambda>v. u_id v = u_id u) (f \<circ> ?g) (users s)"
      by (simp add: f(6) put_user_def row_put_def identity(2))
    moreover have "\<forall>v\<in>set (users s). claims_account identity v \<longleftrightarrow> v = u" "u \<in> set (users s)"
      using old(1-3) unfolding identity(2) by blast+
    ultimately show thesis by (intro linked[OF identity(1) _ _ f(1-4) refl f(5)])
  next
    case fresh
    let ?new = "new_citizen aenv (trim (fi_uid identity)) (verified_phone identity) (verified_email identity) fullName orgId"
    from firebase_new_cases[OF fresh(2)] \<open>\<not> turned_away res w t\<close> obtain f where f: "res = Inr (Tokens (issueTokens aenv ?new))"
        "identified f" "users t = users w @ [f ?new]" "find_user (u_id ?new) t = Some (f ?new)"
      by (auto simp: Let_def)
    then show thesis using added[OF identity(1) _ f(2) refl f(1)] fresh(1) identity(2) by simp
  qed
qed (rule away)




lemma verified_token:
  "verifyIdToken (auth_env.truncate env) token s = (Inr identity, s) \<Longrightarrow>
     \<exists>d. firebaseSdk env (trim token) = Some d \<and> fi_uid identity = dt_uid d"
  by (auto simp: verifyIdToken_def bnd_guard auth_env.defs run_bnd split: if_splits option.splits)

lemma tokens_with_identity:
  assumes "perform_auth env config (Firebase_log_in dto) s = (Inr (Some r), t)" and "accounts_unique s"
    and "list_all (\<lambda>u. 0 \<le> u_tokenVersion u) (users s)"
  shows "\<exists>u. find_user (u_id (tk_user r)) t = Some u \<and> u_accountStatus u = ACTIVE \<and> token_accepted env r u t \<and>
    shows_proof env (Firebase_log_in dto) s u"
proof -
  let ?aenv = "auth_env.truncate env"
  from assms(1) have run: "firebaseLogin ?aenv dto s = (Inr (Tokens r), t)"
    by (auto simp: tokens_of_def elim!: bnd_InrE split: login_reply.splits)
  from run assms(2) show ?thesis
  proof (cases rule: firebaseE)
    case away
    then show ?thesis by (simp add: turned_away_def)
  next
    case (linked identity fullName orgId u g f)
    have g: "u_id (g v) = u_id v" "u_role (g u) = CITIZEN" "u_accountStatus (g u) = u_accountStatus u" "u_tokenVersion (g u) = u_tokenVersion u"
        "u_firebaseUid (g u) = coalesce (u_firebaseUid u) (Some (trim (fi_uid identity)))" for v
      by (simp_all add: linked(8) linked_citizen_def)
    note fg = identified_keeps[OF linked(7), of "g u"]
    have "find_user (u_id u) t = find_user (u_id u) (put_user (u_id u) (f \<circ> g) s)"
      using linked(10) by (simp add: find_user_def row_find_def put_user_def row_put_def)
    also have "\<dots> = Some (f (g u))"
      using find_user_put[of "f \<circ> g", OF _ find_unique_user[OF assms(2) linked(2)]] g(1) identified_keeps(1)[OF linked(7)] by simp
    finally have stored: "find_user (u_id u) t = Some (f (g u))" .
    have "token_accepted env (issueTokens ?aenv (g u)) (f (g u)) t"
      using stored g fg linked(2,5) assms(3) by (intro token_acceptedI) (simp_all add: list_all_iff)
    moreover have "shows_proof env (Firebase_log_in dto) s (f (g u))"
      using verified_token[OF linked(1)] g(2,5) fg(2,6) linked(6) by (cases "u_firebaseUid u") (auto simp: shows_proof_def)
    moreover have "r = issueTokens ?aenv (g u)" using linked(9) by simp
    ultimately show ?thesis using stored g(1,3) fg(3) linked(5) by (auto simp: issueTokens_def)
  next
    case (added identity fullName orgId new f)
    have new: "u_role new = CITIZEN" "u_accountStatus new = ACTIVE" "u_tokenVersion new = 0"
        "u_firebaseUid new = Some (trim (fi_uid identity))"
      by (simp_all add: added(4) new_citizen_def)
    note fn = identified_keeps[OF added(3), of new]
    have "token_accepted env (issueTokens ?aenv new) (f new) t"
      using added(7) new fn by (intro token_acceptedI) simp_all
    moreover have "shows_proof env (Firebase_log_in dto) s (f new)"
      using verified_token[OF added(1)] new fn by (auto simp: shows_proof_def)
    moreover have "r = issueTokens ?aenv new" using added(5) by simp
    ultimately show ?thesis using added(7) new fn by (auto simp: issueTokens_def)
  qed
qed

text \<open>
  C24: No access token without the proofs its account asks for. Where no two accounts share an id, an address, a number
  or an identity and no session version is negative: whatever request is answered with a token, its account is stored
  and active and the token strategy accepts the token right away, and the request showed the account's password, for
  the five roles that need no second factor; or an open session of the second factor and with it a code of the
  account's authenticator or one of its unused recovery codes; or, for a citizen only, a token that the identity
  provider verified, of the identity the account is linked to.
\<close>

theorem tokens_need_proof:
  assumes "perform_auth env config req s = (Inr (Some r), t)" and "accounts_unique s"
    and "list_all (\<lambda>u. 0 \<le> u_tokenVersion u) (users s)"
  shows "\<exists>u. find_user (u_id (tk_user r)) t = Some u \<and> u_accountStatus u = ACTIVE \<and> token_accepted env r u t \<and>
    shows_proof env req s u"
proof (cases req)
  case (Log_in dto ctx)
  then show ?thesis using tokens_with_password assms by simp
next
  case (Confirm_factor token code ctx)
  then show ?thesis using tokens_with_confirmation assms by simp
next
  case (Answer_factor token chosen code ctx)
  then show ?thesis using tokens_with_challenge assms by simp
next
  case (Firebase_log_in dto)
  then show ?thesis using tokens_with_identity assms by simp
qed (use assms(1) in \<open>auto elim!: bnd_InrE\<close>)

end
