(* ===== verification/Reset_Theorems.thy ===== *)
theory Reset_Theorems imports Auth_Theorems Invitation_Theorems begin

text \<open>
  The reset of a password: when it happens and what it ends, what any request does to the tokens of resets, that a
  token works once along every history of requests, and how many may be asked for.
\<close>

section \<open>Completing a reset\<close>

text \<open>
  The token and the account a completion is for, if it is one that must be accepted, and the database afterwards;
  stated over the rows, without the service's own guards and updates.
\<close>

definition strong_password :: "string \<Rightarrow> bool" where
  "strong_password p \<longleftrightarrow> 8 \<le> length p \<and> (\<exists>c\<in>set p. c \<in> set ''abcdefghijklmnopqrstuvwxyz'') \<and>
     (\<exists>c\<in>set p. c \<in> set ''ABCDEFGHIJKLMNOPQRSTUVWXYZ'') \<and> (\<exists>c\<in>set p. c \<in> set ''0123456789'')"

definition usable_token :: "reset_env \<Rightarrow> complete_reset_dto \<Rightarrow> 's tables_scheme \<Rightarrow> (password_reset \<times> user) option" where
  "usable_token env dto s =
     (if \<not> strong_password (trim (cr_password dto)) then None
      else case find (\<lambda>p. pr_tokenDigest p = sha256 env (trim (cr_token dto))) (passwordResetTokens s) of
        None \<Rightarrow> None
      | Some p \<Rightarrow>
          (case find_user (pr_userId p) s of
             None \<Rightarrow> None
           | Some u \<Rightarrow>
               if pr_usedAt p = None \<and> pr_supersededAt p = None \<and> now env < pr_expiresAt p \<and> u_accountStatus u = ACTIVE \<and>
                  (u_role u = CITIZEN \<longrightarrow> u_firebaseUid u \<in> {None, Some []})
               then Some (p, u) else None))"

definition after_reset :: "reset_env \<Rightarrow> string \<Rightarrow> password_reset \<Rightarrow> user \<Rightarrow> 's tables_scheme \<Rightarrow> 's tables_scheme" where
  "after_reset env password p u s = s
     \<lparr> passwordResetTokens := map (\<lambda>q. if pr_id q = pr_id p then q\<lparr> pr_usedAt := Some (now env) \<rparr> else q) (passwordResetTokens s),
       users := map (\<lambda>v. if u_id v = u_id u
         then v\<lparr> u_passwordHash := Some (bcryptHash env password), u_tokenVersion := u_tokenVersion v + 1 \<rparr> else v) (users s) \<rparr>"

lemma set_by_code: "c \<in> set cs \<longleftrightarrow> (of_char c :: nat) \<in> set (map of_char cs)"
  by (auto simp: image_iff)

lemma letter_ranges:
  "c \<in> set ''abcdefghijklmnopqrstuvwxyz'' \<longleftrightarrow> (let n = of_char c :: nat in 97 \<le> n \<and> n \<le> 122)"
  "c \<in> set ''ABCDEFGHIJKLMNOPQRSTUVWXYZ'' \<longleftrightarrow> (let n = of_char c :: nat in 65 \<le> n \<and> n \<le> 90)"
  "c \<in> set ''0123456789'' \<longleftrightarrow> is_digit c"
  unfolding set_by_code is_digit_def Let_def by (simp; presburger)+

lemma strong_password_iff: "strong_password p \<longleftrightarrow> isCompliantPassword p"
  unfolding strong_password_def isCompliantPassword_def letter_ranges by (simp add: list_ex_iff)

lemma linked_citizen_iff: "(u_role u = CITIZEN \<longrightarrow> u_firebaseUid u \<in> {None, Some []}) \<longleftrightarrow> \<not> isFirebaseOwnedCitizen u"
  by (cases "u_firebaseUid u") (auto simp: isFirebaseOwnedCitizen_def truthy_def)

lemma after_reset_rows: "after_reset env password p u s = s
    \<lparr> passwordResetTokens := upd_rows (\<lambda>q. pr_id q = pr_id p) (used_reset env) (passwordResetTokens s),
      users := upd_rows (\<lambda>v. u_id v = u_id u) (password_changed (bcryptHash env password)) (users s) \<rparr>"
  by (simp add: after_reset_def upd_rows_def used_reset_def password_changed_def)

lemma reset_refusal_None: "reset_refusal env p u = None \<longleftrightarrow>
    pr_usedAt p = None \<and> pr_supersededAt p = None \<and> now env < pr_expiresAt p \<and> u_accountStatus u = ACTIVE \<and> \<not> isFirebaseOwnedCitizen u"
  by (auto simp: reset_refusal_def)

lemma usable_token_by_refusal:
  "usable_token env dto s =
     (if \<not> isCompliantPassword (trim (cr_password dto)) then None
      else case find (\<lambda>p. pr_tokenDigest p = sha256 env (trim (cr_token dto))) (passwordResetTokens s) of
        None \<Rightarrow> None
      | Some p \<Rightarrow> (case find_user (pr_userId p) s of
          None \<Rightarrow> None | Some u \<Rightarrow> if reset_refusal env p u = None then Some (p, u) else None))"
  unfolding usable_token_def strong_password_iff linked_citizen_iff reset_refusal_None ..

lemma usable_tokenD:
  assumes "usable_token env dto s = Some (p, u)"
  shows "find (\<lambda>p. pr_tokenDigest p = sha256 env (trim (cr_token dto))) (passwordResetTokens s) = Some p"
    "find_user (pr_userId p) s = Some u" "isCompliantPassword (trim (cr_password dto))" "reset_refusal env p u = None"
  using assms by (auto simp: usable_token_by_refusal split: if_splits option.splits)

lemma reset_rejected_run:
  "reset_rejected actor reason s = (Inl auth_failure, snd (auth_audit ''Password Reset Rejected'' actor [(''reason'', JStr reason)] s))"
  by (simp add: reset_rejected_def auth_audit_def bnd_def)

lemma business_auth_audit: "business (snd (auth_audit action actor metadata s)) = business s"
  by (simp add: auth_audit_def tables.defs)

lemma completion_runs:
  assumes "completePasswordReset env dto s = (res, t)"
  shows "case usable_token env dto s of
      None \<Rightarrow> (\<exists>e. res = Inl e) \<and> business t = business s
    | Some (p, u) \<Rightarrow> res = Inr () \<and> business t = business (s
        \<lparr> passwordResetTokens := upd_rows (\<lambda>q. pr_id q = pr_id p) (used_reset env) (passwordResetTokens s),
          users := upd_rows (\<lambda>v. u_id v = u_id u) (password_changed (bcryptHash env (trim (cr_password dto)))) (users s) \<rparr>)"
proof (cases "usable_token env dto s")
  case None
  have "\<exists>e. res = Inl e \<and> business t = business s"
  proof (cases "isCompliantPassword (trim (cr_password dto))")
    case False
    then show ?thesis using assms by (auto simp: completePasswordReset_def bnd_guard)
  next
    case True
    note run = assms[unfolded completePasswordReset_def Let_def bnd_guard bnd_runs(5) hashResetToken_def, simplified True, simplified]
    show ?thesis
    proof (cases "find (\<lambda>p. pr_tokenDigest p = sha256 env (trim (cr_token dto))) (passwordResetTokens s)")
      case missing: None
      then show ?thesis using run by (auto simp: reset_rejected_run business_auth_audit)
    next
      case (Some p)
      note p = this
      show ?thesis
      proof (cases "find_user (pr_userId p) s")
        case missing: None
        then show ?thesis using run p by (auto simp: bnd_runs)
      next
        case (Some u)
        then have "reset_refusal env p u \<noteq> None"
          using None True p by (simp add: usable_token_by_refusal split: if_splits)
        then obtain reason where "reset_refusal env p u = Some reason" by blast
        then show ?thesis using run p Some by (auto simp: bnd_runs reset_rejected_run business_auth_audit)
      qed
    qed
  qed
  then show ?thesis using None by simp
next
  case (Some pu)
  obtain p u where pu: "pu = (p, u)" by fastforce
  note usable = usable_tokenD[OF Some[unfolded pu]]
  let ?s = "s\<lparr> passwordResetTokens := upd_rows (\<lambda>q. pr_id q = pr_id p) (used_reset env) (passwordResetTokens s) \<rparr>"
  have u: "u_id u = pr_userId p" using find_user_SomeD[OF usable(2)] by simp
  obtain q where q: "find (\<lambda>q. pr_id q = pr_id p) (passwordResetTokens s) = Some q"
    using find_shared[of p "passwordResetTokens s" "\<lambda>q. pr_id q = pr_id p"] find_SomeD[OF usable(1)] by blast
  have first: "update_reset (pr_id p) (used_reset env) s = (Inr (used_reset env q), ?s)"
    using q by (simp add: update_reset_def row_update_def row_find_def row_put_def)
  have "find_user (pr_userId p) ?s = Some u" using usable(2) by (simp add: find_user_def row_find_def)
  note second = user_table.update_runs[OF this]
  have "res = Inr () \<and> t = snd (auth_audit ''Password Reset Completed'' (pr_userId p)
      [(''resetTokenId'', JStr (pr_id p)), (''sessionVersionAdvanced'', JBool True)]
      (put_user (pr_userId p) (password_changed (bcryptHash env (trim (cr_password dto)))) ?s))"
    using assms usable first second
    by (auto simp: completePasswordReset_def bnd_guard bnd_runs hashResetToken_def transaction_def bnd_def auth_audit_def)
  then show ?thesis
    using Some u by (simp add: pu business_auth_audit put_user_def row_put_def)
qed

text \<open>
  C25: A password is reset exactly with a token that is neither used nor replaced nor expired, for an active account
  that the identity provider does not own, and a password that complies; then the token is marked as used, the
  account gets the new password and the next session version, and nothing else changes. In every other case the
  request fails and nothing changes. (Records of the audit aside.)
\<close>

theorem password_reset_exact:
  assumes "completePasswordReset env dto s = (res, t)"
  shows "case usable_token env dto s of
      None \<Rightarrow> (\<exists>e. res = Inl e) \<and> business t = business s
    | Some (p, u) \<Rightarrow> res = Inr () \<and> business t = business (after_reset env (trim (cr_password dto)) p u s)"
  unfolding after_reset_rows by (rule completion_runs[OF assms])

text \<open>
  C26: The reset of a password ends the sessions of its account and of no other: a token of the account that was
  accepted before is refused afterwards, and every other token is accepted as before.
\<close>

theorem reset_ends_sessions:
  assumes "completePasswordReset env dto s = (Inr (), t)" and "validate_token payload s = (Inr session, s')"
  shows "\<exists>p u. usable_token env dto s = Some (p, u) \<and>
    validate_token payload t =
      (if jp_sub payload = u_id u then (Inl (Unauthorized ''Unauthorized''), t) else (Inr session, t))"
proof -
  from completion_runs[OF assms(1)] obtain p u where pu: "usable_token env dto s = Some (p, u)"
      and t: "business t = business (s
        \<lparr> passwordResetTokens := upd_rows (\<lambda>q. pr_id q = pr_id p) (used_reset env) (passwordResetTokens s),
          users := upd_rows (\<lambda>v. u_id v = u_id u) (password_changed (bcryptHash env (trim (cr_password dto)))) (users s) \<rparr>)"
    by (auto split: option.splits)
  let ?f = "password_changed (bcryptHash env (trim (cr_password dto)))"
  have put: "find_user k t = find_user k (put_user (u_id u) ?f s)" for k
    using business_eq_users[OF t, of k] by (simp add: find_user_def row_find_def put_user_def row_put_def)
  have keep: "u_id (?f v) = u_id v" for v by (simp add: password_changed_def)
  have u: "find_user (u_id u) s = Some u"
    using usable_tokenD(2)[OF pu] find_user_SomeD[OF usable_tokenD(2)[OF pu]] by simp
  then have same: "find_user (u_id u) t = Some (?f u)" unfolding put by (rule find_user_put[OF keep])
  have other: "find_user k t = find_user k s" if "k \<noteq> u_id u" for k
    unfolding put using that by (intro user_table.find_put_other[OF keep]) simp
  obtain v where v: "find_user (jp_sub payload) s = Some v" "u_accountStatus v = ACTIVE"
      "isCurrentTokenVersion (jp_tokenVersion payload) (u_tokenVersion v)" "session = session_of v"
    using assms(2) by (auto simp: validate_token_def bnd_runs split: option.splits if_splits)
  have "\<not> isCurrentTokenVersion (jp_tokenVersion payload) (u_tokenVersion (?f v))"
    using v(3) by (auto simp: isCurrentTokenVersion_def password_changed_def jint_def)
  then have "validate_token payload t = (if jp_sub payload = u_id u then (Inl (Unauthorized ''Unauthorized''), t) else (Inr session, t))"
    using v u same other[of "jp_sub payload"] by (auto simp: validate_token_def bnd_runs)
  with pu show ?thesis by blast
qed

section \<open>Asking for a reset\<close>

definition resets_of :: "string \<Rightarrow> 's tables_scheme \<Rightarrow> password_reset list" where
  "resets_of i s = filter (\<lambda>p. pr_userId p = i) (passwordResetTokens s)"

text \<open>A request for a reset leaves the tokens as they are, or adds one within the limits and replaces the older ones.\<close>

definition token_moves :: "(password_reset \<Rightarrow> password_reset) \<Rightarrow> bool" where
  "token_moves f \<longleftrightarrow> (\<forall>p. pr_userId (f p) = pr_userId p \<and> pr_createdAt (f p) = pr_createdAt p \<and> pr_tokenDigest (f p) = pr_tokenDigest p \<and>
     (pr_usedAt p \<noteq> None \<longrightarrow> pr_usedAt (f p) \<noteq> None) \<and> (pr_supersededAt p \<noteq> None \<longrightarrow> pr_supersededAt (f p) \<noteq> None))"

definition reset_added :: "reset_env \<Rightarrow> delivery_config \<Rightarrow> string \<Rightarrow> db \<Rightarrow> db \<Rightarrow> bool" where
  "reset_added env config i s t \<longleftrightarrow> passwordResetRateLimited env config i s = None \<and>
     (\<exists>new f. pr_userId new = i \<and> pr_createdAt new = now env \<and> pr_tokenDigest new = sha256 env (randomToken env) \<and>
        token_moves f \<and>
        passwordResetTokens t = map f (passwordResetTokens s) @ [new])"

lemma leaves_resets_effects:
  "leaves passwordResetTokens (auth_audit action actor metadata)" "leaves passwordResetTokens (reset_unavailable i a outcome)"
  "leaves passwordResetTokens (user_audit action' user metadata')"
  by (auto simp: leaves_def auth_audit_def reset_unavailable_def user_audit_def bnd_def split: option.splits)

lemma createPasswordResetToken_cases:
  assumes "createPasswordResetToken env config i actor returnTo s = (res, t)"
  shows "passwordResetTokens t = passwordResetTokens s \<or> reset_added env config i s t"
proof (cases "\<exists>target. find_user i s = Some target \<and> reset_eligible target \<and> dc_enabled config \<and> truthy (u_email target) \<and>
    passwordResetRateLimited env config i s = None \<and>
    \<not> list_ex (\<lambda>b. pr_id (new_reset env i actor) = pr_id b \<or> pr_tokenDigest (new_reset env i actor) = pr_tokenDigest b)
      (superseded env i (passwordResetTokens s))")
  case False
  then show ?thesis
    using assms leavesD[OF leaves_resets_effects(2)]
    by (auto simp: createPasswordResetToken_def bnd_runs(5) create_row_def transaction_def bnd_def split: option.splits if_splits)
next
  case True
  then obtain target where target: "find_user i s = Some target" "reset_eligible target" "dc_enabled config" "truthy (u_email target)"
      "passwordResetRateLimited env config i s = None"
      "\<not> list_ex (\<lambda>b. pr_id (new_reset env i actor) = pr_id b \<or> pr_tokenDigest (new_reset env i actor) = pr_tokenDigest b)
      (superseded env i (passwordResetTokens s))" by blast
  let ?new = "new_reset env i actor"
  let ?delivery = "deliver env config (u_email target) (randomToken env) (pr_expiresAt ?new) (safePasswordResetReturnTo returnTo)"
  let ?g = "delivered_reset env ?delivery"
  let ?s1 = "passwordResetTokens_update (\<lambda>_. superseded env i (passwordResetTokens s) @ [?new]) s"
  let ?s2 = "passwordResetTokens_update (\<lambda>_. upd_rows (\<lambda>p. pr_id p = pr_id ?new) ?g (superseded env i (passwordResetTokens s) @ [?new])) s"
  have made: "transaction (sq (modify (passwordResetTokens_update (superseded env i)))
      (create_row passwordResetTokens passwordResetTokens_update
        (\<lambda>a b. pr_id a = pr_id b \<or> pr_tokenDigest a = pr_tokenDigest b) ?new)) s = (Inr ?new, ?s1)"
    using target(6) by (simp add: transaction_def create_row_def bnd_def)
  obtain q where "find (\<lambda>p. pr_id p = pr_id ?new) (superseded env i (passwordResetTokens s) @ [?new]) = Some q"
    using find_shared[of ?new "superseded env i (passwordResetTokens s) @ [?new]" "\<lambda>p. pr_id p = pr_id ?new"] by auto
  then have updated: "update_reset (pr_id ?new) ?g ?s1 = (Inr (?g q), ?s2)"
    by (simp add: update_reset_def row_update_def row_find_def row_put_def)
  have "passwordResetTokens t = passwordResetTokens ?s2"
    using assms target(1-5) made updated
    by (auto simp: createPasswordResetToken_def bnd_runs(5) Let_def dest!: leavesD[OF leaves_resets_effects(1)] elim!: bndE)
  also have "\<dots> = map (\<lambda>p. let p' = (if pr_userId p = i \<and> pr_usedAt p = None \<and> pr_supersededAt p = None \<and> pr_expiresAt p > now env
      then p\<lparr> pr_supersededAt := Some (now env) \<rparr> else p) in if pr_id p' = pr_id ?new then ?g p' else p') (passwordResetTokens s) @ [?g ?new]"
    by (simp add: superseded_def upd_rows_def Let_def comp_def)
  finally show ?thesis
    unfolding reset_added_def using target(5)
    by (intro disjI2 conjI exI[of _ "?g ?new"] exI[of _ "\<lambda>p. let p' = (if pr_userId p = i \<and> pr_usedAt p = None \<and> pr_supersededAt p = None \<and>
      pr_expiresAt p > now env then p\<lparr> pr_supersededAt := Some (now env) \<rparr> else p) in if pr_id p' = pr_id ?new then ?g p' else p'"])
      (simp_all add: delivered_reset_def new_reset_def hashResetToken_def token_moves_def Let_def)
qed

lemma leaves_tokens_accounts:
  "leaves passwordResetTokens (update_user i f :: user handler)" "leaves passwordResetTokens (auth_audit action actor metadata)"
  "leaves passwordResetTokens (recordLogin who success reason ctx)"
  "leaves passwordResetTokens (create_row users users_update c u :: user handler)"
  "leaves passwordResetTokens (create_row organizations organizations_update c' org :: organization handler)"
  by (auto simp: leaves_def update_user_def row_update_def row_put_def auth_audit_def recordLogin_def create_row_def run_bnd split: option.split)

lemma leaves_tokens_identity: "leaves passwordResetTokens (ensureIdentity env0 i)"
  unfolding ensureIdentity_def by (intro leaves_rules leaves_tokens_accounts)

lemmas leaves_tokens_steps = leaves_rules leaves_tokens_accounts leaves_tokens_identity leaves_transaction leaves_case_prod

lemma leaves_catch: "leaves v m \<Longrightarrow> (\<And>e. leaves v (h e)) \<Longrightarrow> leaves v (catch m h)"
  by (auto simp: leaves_def catch_def split: prod.splits sum.splits) (metis snd_conv)+

lemma leaves_tokens_logins:
  "leaves passwordResetTokens (login aenv ldto ctx)" "leaves passwordResetTokens (startMfaEnrollment aenv token ctx)"
  "leaves passwordResetTokens (confirmMfaEnrollment aenv token code ctx)" "leaves passwordResetTokens (completeMfaChallenge aenv token chosen code ctx)"
  "leaves passwordResetTokens (updateMe i role body)"
proof -
  note factor = conjunct2[OF leaves_parts[OF leaves_mfa(1)]] conjunct2[OF leaves_parts[OF leaves_mfa(2)]]
    conjunct2[OF leaves_parts[OF leaves_mfa(3)]] conjunct2[OF leaves_parts[OF leaves_mfa(4)]]
  show "leaves passwordResetTokens (login aenv ldto ctx)"
    unfolding login_def login_refused_def by (intro leaves_tokens_steps factor)
  show "leaves passwordResetTokens (startMfaEnrollment aenv token ctx)" unfolding startMfaEnrollment_def by (rule factor)
  show "leaves passwordResetTokens (confirmMfaEnrollment aenv token code ctx)"
    unfolding confirmMfaEnrollment_def by (intro leaves_tokens_steps factor)
  show "leaves passwordResetTokens (completeMfaChallenge aenv token chosen code ctx)"
    unfolding completeMfaChallenge_def by (intro leaves_tokens_steps factor)
  show "leaves passwordResetTokens (updateMe i role body)"
    unfolding updateMe_def assertSupportedLocale_def Let_def by (intro leaves_tokens_steps)
qed

lemma leaves_tokens_firebase: "leaves passwordResetTokens (firebaseLogin aenv dto)"
proof -
  have conflict: "leaves passwordResetTokens (conflict_if aenv identity c reason)" for identity c reason
    unfolding conflict_if_def firebase_conflict_def by (intro leaves_tokens_steps)
  have "leaves passwordResetTokens (firebase_existing aenv dto identity uid phone email fullName orgId bu be u)" for identity uid phone email fullName orgId bu be u
    unfolding firebase_existing_def firebase_conflict_def by (intro leaves_tokens_steps conflict)
  moreover have "leaves passwordResetTokens (firebase_new aenv uid phone email fullName orgId)" for uid phone email fullName orgId
    unfolding firebase_new_def by (intro leaves_tokens_steps)
  moreover have "leaves passwordResetTokens (assertSameFirebaseCitizen aenv identity ms)" for identity ms
    unfolding assertSameFirebaseCitizen_def by (auto intro!: leaves_tokens_steps conflict split: list.split)
  ultimately have "leaves passwordResetTokens (firebase_account aenv dto identity uid phone email fullName orgId)" for identity uid phone email fullName orgId
    unfolding firebase_account_def by (intro leaves_tokens_steps)
  moreover have "leaves passwordResetTokens (getDefaultCitizenOrganizationId aenv)"
    unfolding getDefaultCitizenOrganizationId_def by (auto intro!: leaves_tokens_steps split: list.split)
  moreover have "leaves passwordResetTokens (verifyIdToken aenv token)" for token
    unfolding verifyIdToken_def by (intro leaves_tokens_steps)
  ultimately show ?thesis
    unfolding firebaseLogin_def Let_def by (intro leaves_tokens_steps leaves_catch conflict)
qed

lemma token_moves_id: "token_moves id"
  by (simp add: token_moves_def)

lemma tokens_kept: "passwordResetTokens t = passwordResetTokens s \<Longrightarrow> \<exists>f. token_moves f \<and> passwordResetTokens t = map f (passwordResetTokens s)"
  using token_moves_id by (intro exI[of _ id]) simp

lemma used_reset_moves: "token_moves (\<lambda>q. if pr_id q = i then used_reset env q else q)"
  by (auto simp: token_moves_def used_reset_def)

text \<open>The two ways to ask: they come to the common operation, or leave the tokens alone.\<close>

lemma requestPasswordReset_cases:
  assumes "requestPasswordReset env config dto s = (res, t)"
  shows "passwordResetTokens t = passwordResetTokens s \<or>
    (\<exists>i. createPasswordResetToken env config i None (rq_returnTo dto) s = (res, t))"
proof (cases "\<not> truthy (rq_email dto) \<and> \<not> truthy (rq_phone dto)")
  case True
  then show ?thesis using assms by (simp add: requestPasswordReset_def bnd_guard)
next
  case False
  let ?found = "find (\<lambda>u. truthy (rq_email dto) \<and> u_email u = map_option (trim \<circ> toLowerCase) (rq_email dto) \<or>
            truthy (rq_phone dto) \<and> u_phone u = map_option trim (rq_phone dto)) (users s)"
  note run = assms[unfolded requestPasswordReset_def bnd_guard bnd_runs(5) Let_def if_not_P[OF False]]
  show ?thesis
  proof (cases ?found)
    case None
    then show ?thesis using run leavesD[OF leaves_resets_effects(1)] by (auto simp: bnd_assoc elim!: bndE)
  next
    case (Some user)
    show ?thesis
    proof (cases "reset_eligible user")
      case True
      then have "createPasswordResetToken env config (u_id user) None (rq_returnTo dto) s = (res, t)"
        using run Some by simp
      then show ?thesis by blast
    next
      case False
      then show ?thesis using run Some leavesD[OF leaves_resets_effects(1)] by (auto elim!: bndE)
    qed
  qed
qed

lemma resetPassword_cases:
  assumes "resetPassword env config i user s = (res, t)"
  shows "passwordResetTokens t = passwordResetTokens s \<or>
    (\<exists>actor res' w. createPasswordResetToken env config i (Some actor) None s = (res', w) \<and> passwordResetTokens t = passwordResetTokens w)"
  using assms leavesD[OF leaves_resets_effects(3)] unfolding resetPassword_def issueAdministrativePasswordReset_def
  by (auto simp: bnd_guard run_require split: if_splits option.splits elim!: bndE dest!: readsD[OF reads_getUser]) metis+

text \<open>What any request does to the tokens.\<close>

lemma tokens_step:
  assumes "perform_auth env config req s = (res, t)"
  shows "(\<exists>f. token_moves f \<and> passwordResetTokens t = map f (passwordResetTokens s)) \<or> (\<exists>i. reset_added env config i s t)"
proof -
  have asked: "passwordResetTokens t = passwordResetTokens s \<or> reset_added env config i s t"
    if "createPasswordResetToken env config i actor returnTo s = (res', w)" "passwordResetTokens t = passwordResetTokens w"
    for i actor returnTo res' w
    using createPasswordResetToken_cases[OF that(1)] that(2) by (simp add: reset_added_def)
  have kept: "passwordResetTokens t = passwordResetTokens s"
    if "leaves passwordResetTokens m" "bnd m (\<lambda>r. ret (g r)) s = (res, t)" for m :: "'b handler" and g :: "'b \<Rightarrow> token_reply option"
    by (rule leavesD[OF leaves_bnd[OF that(1) leaves_basic(1)] that(2)])
  have "passwordResetTokens t = passwordResetTokens s \<or>
     (\<exists>k. passwordResetTokens t = map (\<lambda>q. if pr_id q = k then used_reset env q else q) (passwordResetTokens s)) \<or>
     (\<exists>i. reset_added env config i s t)"
  proof (cases req)
    case (Log_in dto ctx)
    show ?thesis using kept[OF leaves_tokens_logins(1) assms[unfolded Log_in perform_auth.simps]] by simp
  next
    case (Start_factor token ctx)
    show ?thesis using kept[OF leaves_tokens_logins(2) assms[unfolded Start_factor perform_auth.simps]] by simp
  next
    case (Confirm_factor token code ctx)
    show ?thesis using kept[OF leaves_tokens_logins(3) assms[unfolded Confirm_factor perform_auth.simps]] by simp
  next
    case (Answer_factor token chosen code ctx)
    show ?thesis using kept[OF leaves_tokens_logins(4) assms[unfolded Answer_factor perform_auth.simps]] by simp
  next
    case (Firebase_log_in dto)
    show ?thesis using kept[OF leaves_tokens_firebase assms[unfolded Firebase_log_in perform_auth.simps]] by simp
  next
    case (Edit_profile i role dto)
    show ?thesis using kept[OF leaves_tokens_logins(5) assms[unfolded Edit_profile perform_auth.simps]] by simp
  next
    case (Ask_reset dto)
    from assms obtain res' where "requestPasswordReset env config dto s = (res', t)"
      unfolding Ask_reset by (auto elim!: bndE)
    then show ?thesis using requestPasswordReset_cases asked by blast
  next
    case (Admin_reset i user)
    from assms obtain res' where "resetPassword env config i user s = (res', t)"
      unfolding Admin_reset by (auto elim!: bndE)
    then show ?thesis using resetPassword_cases asked by blast
  next
    case (Complete_reset dto)
    from assms obtain res' where run: "completePasswordReset env dto s = (res', t)"
      unfolding Complete_reset by (auto elim!: bndE)
    show ?thesis
    proof (cases "usable_token env dto s")
      case None
      then have "business t = business s" using completion_runs[OF run] by simp
      then show ?thesis by (metis business_fields(22))
    next
      case (Some pu)
      then obtain p u where "usable_token env dto s = Some (p, u)" by (cases pu) simp
      then have "passwordResetTokens t = upd_rows (\<lambda>q. pr_id q = pr_id p) (used_reset env) (passwordResetTokens s)"
        using completion_runs[OF run] by (auto dest!: arg_cong[of _ _ passwordResetTokens])
      then show ?thesis by (auto simp: upd_rows_def)
    qed
  qed
  then show ?thesis using tokens_kept used_reset_moves by blast
qed

section \<open>Along every history\<close>

definition auth_performed :: "reset_env \<times> delivery_config \<times> auth_request \<Rightarrow> (db, unit) svc" where
  "auth_performed q = (case q of (env, config, req) \<Rightarrow> ignore_result (perform_auth env config req))"

text \<open>The token that a digest stands for is there, and is used or replaced.\<close>

definition spent_digest :: "string \<Rightarrow> 's tables_scheme \<Rightarrow> bool" where
  "spent_digest d s \<longleftrightarrow> (case find (\<lambda>p. pr_tokenDigest p = d) (passwordResetTokens s) of
     None \<Rightarrow> False | Some p \<Rightarrow> pr_usedAt p \<noteq> None \<or> pr_supersededAt p \<noteq> None)"

lemma find_map_moves: "token_moves f \<Longrightarrow>
    find (\<lambda>p. pr_tokenDigest p = d) (map f ps) = map_option f (find (\<lambda>p. pr_tokenDigest p = d) ps)"
  by (induction ps) (auto simp: token_moves_def)

lemma find_append: "find P (xs @ ys) = (case find P xs of None \<Rightarrow> find P ys | Some x \<Rightarrow> Some x)"
  by (induction xs) auto

lemma spent_moves:
  assumes "spent_digest d s" and "token_moves f" and "passwordResetTokens t = map f (passwordResetTokens s) @ new"
  shows "spent_digest d t"
  using assms by (auto simp: spent_digest_def find_append find_map_moves token_moves_def split: option.splits)

lemma spent_kept: "keeps (spent_digest d) (auth_performed q)"
proof (rule keepsI)
  fix s res t
  assume spent: "spent_digest d s" and run: "auth_performed q s = (res, t)"
  obtain env config req where q: "q = (env, config, req)" by (cases q)
  from run obtain res' where "perform_auth env config req s = (res', t)"
    unfolding q auth_performed_def ignore_result_def by (auto elim!: bndE)
  from tokens_step[OF this] show "spent_digest d t"
    using spent_moves[OF spent, of _ t] unfolding reset_added_def by (metis append_Nil2)
qed

interpretation resets: service_invariant auth_performed "spent_digest d" "\<lambda>_. True"
  by unfold_locales (rule spent_kept)

lemma spent_unusable: "spent_digest (sha256 env (trim (cr_token dto))) s \<Longrightarrow> usable_token env dto s = None"
  by (auto simp: spent_digest_def usable_token_def split: option.splits)

lemma completion_spends:
  assumes "completePasswordReset env dto s = (Inr (), t)"
  shows "spent_digest (sha256 env (trim (cr_token dto))) t"
proof -
  obtain p u where pu: "usable_token env dto s = Some (p, u)"
      and t: "passwordResetTokens t = upd_rows (\<lambda>q. pr_id q = pr_id p) (used_reset env) (passwordResetTokens s)"
    using completion_runs[OF assms] by (auto split: option.splits dest!: arg_cong[of _ _ passwordResetTokens])
  have "find (\<lambda>q. pr_tokenDigest q = sha256 env (trim (cr_token dto))) (passwordResetTokens t) = Some (used_reset env p)"
    unfolding t upd_rows_def find_map_moves[OF used_reset_moves] usable_tokenD(1)[OF pu] by simp
  then show ?thesis by (simp add: spent_digest_def used_reset_def)
qed

text \<open>
  C27: A reset token works once: after it has changed a password, whatever requests for logins, second factors, profiles
  and resets follow, at whatever times, a completion with a token of the same digest is refused and changes nothing
  (the record of the audit aside).
\<close>

theorem reset_once:
  assumes "completePasswordReset env dto s = (Inr (), t)"
    and "history_of auth_performed (\<lambda>_. True) t u"
    and "sha256 env' (trim (cr_token dto')) = sha256 env (trim (cr_token dto))"
  shows "\<exists>e w. completePasswordReset env' dto' u = (Inl e, w) \<and> business w = business u"
proof -
  have "spent_digest (sha256 env' (trim (cr_token dto'))) u"
    using resets.along[OF assms(2) completion_spends[OF assms(1)]] assms(3) by simp
  from spent_unusable[OF this] show ?thesis
    using completion_runs[of env' dto' u] by (cases "completePasswordReset env' dto' u") auto
qed

section \<open>Limits\<close>

lemma numberInRange_bounds:
  assumes "lo \<le> n0" and "n0 \<le> hi"
  shows "yields (\<lambda>n. lo \<le> n \<and> n \<le> hi) (numberInRange env name lo hi (Some n0))"
  using assms by (auto simp: yields_def numberInRange_def bnd_guard run_require split: option.splits if_splits)

lemmas cooldown_bounds = yields_bnd_post[OF numberInRange_bounds[of 30 120 900]]
lemmas daily_bounds = yields_bnd_post[OF numberInRange_bounds[of 1 5 10]]

lemma config_limits: "yields (\<lambda>c. 30 \<le> dc_cooldownSeconds c \<and> dc_dailyLimit c \<le> 10) (loadPasswordResetDeliveryConfig env)"
  unfolding loadPasswordResetDeliveryConfig_def Let_def
  apply (rule yields_split)
   apply (simp add: yields_def disabledConfig_def)
  apply (rule cooldown_bounds daily_bounds yields_bnd | simp only: order_refl numeral_le_iff one_le_numeral semiring_norm)+
  apply (simp add: yields_def)
  done

lemma recent_resets_map: "token_moves f \<Longrightarrow> passwordResetTokens t = map f (passwordResetTokens s) @ ns \<Longrightarrow>
    recent_resets i since t = recent_resets i since s + length (filter (\<lambda>p. pr_userId p = i \<and> since \<le> pr_createdAt p) ns)"
  by (simp add: recent_resets_def filter_map comp_def token_moves_def)

lemma length_filter_mono: "(\<And>x. P x \<Longrightarrow> Q x) \<Longrightarrow> length (filter P xs) \<le> length (filter Q xs)"
  by (induction xs) auto

lemma recent_resets_mono: "since' \<le> since \<Longrightarrow> recent_resets i since s \<le> recent_resets i since' s"
  unfolding recent_resets_def by (rule length_filter_mono) auto

text \<open>
  Tokens for resets are rationed: with any configuration the server accepts, a request for a login, a second factor, a
  profile or a reset either leaves the count of an account's tokens since any time as it is, or adds one token for it;
  and then none was made for it in the last thirty seconds, and with the new one at most ten in the last day.
\<close>

theorem reset_rate_bound:
  assumes "loadPasswordResetDeliveryConfig env s0 = (Inr config, s1)" and "perform_auth env config req s = (res, t)"
  shows "(\<forall>since. recent_resets i since t = recent_resets i since s) \<or>
    recent_resets i (now env - 30 * 1000) s = 0 \<and> recent_resets i (now env - 24 * 60 * 60 * 1000) t \<le> 10 \<and>
    length (resets_of i t) = length (resets_of i s) + 1"
  using tokens_step[OF assms(2)]
proof (elim disjE exE)
  fix f
  assume "token_moves f \<and> passwordResetTokens t = map f (passwordResetTokens s)"
  then show ?thesis using recent_resets_map[of f t s "[]"] by simp
next
  fix k
  assume added: "reset_added env config k s t"
  then obtain new f where new: "pr_userId new = k" "pr_createdAt new = now env" "token_moves f"
      "passwordResetTokens t = map f (passwordResetTokens s) @ [new]"
    unfolding reset_added_def by blast
  note counted = recent_resets_map[OF new(3,4)]
  show ?thesis
  proof (cases "k = i")
    case False
    then show ?thesis using counted new(1) by simp
  next
    case True
    have free: "recent_resets i (now env - int (dc_cooldownSeconds config) * 1000) s = 0"
        "recent_resets i (now env - 24 * 60 * 60 * 1000) s < dc_dailyLimit config"
      using added True by (simp_all add: reset_added_def passwordResetRateLimited_def split: if_splits)
    have "recent_resets i (now env - 30 * 1000) s = 0"
      using recent_resets_mono[of "now env - int (dc_cooldownSeconds config) * 1000" "now env - 30 * 1000" i s] free(1) yieldsD[OF config_limits assms(1)]
      by simp
    moreover have "recent_resets i (now env - 24 * 60 * 60 * 1000) t \<le> 10"
      using counted[of i "now env - 24 * 60 * 60 * 1000"] new(1,2) True free(2) yieldsD[OF config_limits assms(1)] by simp
    moreover have "length (resets_of i t) = length (resets_of i s) + 1"
      using new True by (simp add: resets_of_def token_moves_def filter_map comp_def)
    ultimately show ?thesis by simp
  qed
qed

end
