(* ===== verification/Auth_Scenarios.thy ===== *)
theory Auth_Scenarios imports Reset_Theorems begin

text \<open>
  The instances of the properties of logins and resets, in an environment in which a password is its own hash and the
  digest of a token is its reversal.
\<close>

definition sample_identity :: decoded_token where
  "sample_identity = \<lparr> dt_uid = ''F1'', dt_phone_number = Some (JStr ''+234''), dt_email = None, dt_email_verified = None,
     dt_name = Some (JStr ''Ada Obi''), dt_sign_in_provider = Some (JStr ''phone'') \<rparr>"

definition auth_at :: "int \<Rightarrow> string \<Rightarrow> reset_env" where
  "auth_at t token = auth_env.extend
     (mfa_env.extend
       (env.extend (sample_env\<lparr> now := t, randomToken := token, freshId := (\<lambda>k. token @ nat_text k) \<rparr>)
         (mfa_env.fields (\<lambda>k n. []) (\<lambda>key msg. []) (\<lambda>text. []) (\<lambda>key iv plaintext. (plaintext, [])) (\<lambda>key iv tag ciphertext. None)))
       (auth_env.fields (\<lambda>password h. password = h) (\<lambda>password. password) (\<lambda>claims. ''jwt'')
         (\<lambda>token. if token = ''id-token'' then Some sample_identity else None)))
     (reset_env.fields (\<lambda>text. None) (\<lambda>site path token returnTo. path) (\<lambda>mail n. None))"

definition working_config :: delivery_config where
  "working_config = disabledConfig\<lparr> dc_enabled := True \<rparr>"

definition password_citizen :: user where
  "password_citizen = sample_user\<lparr> u_email := Some ''ada@example.org'', u_passwordHash := Some ''Secret123'', u_secureZoneId := Some ''SZ-1'' \<rparr>"

definition open_reset :: password_reset where
  "open_reset = \<lparr> pr_id = ''t1'', pr_userId = ''u1'', pr_tokenDigest = ''nekot'', pr_expiresAt = 900000000, pr_usedAt = None,
     pr_supersededAt = None, pr_requestedById = None, pr_deliveryStatus = ''DELIVERY_ACCEPTED'', pr_createdAt = 0 \<rparr>"

definition login_db :: db where
  "login_db = (sample_db [])\<lparr> users := [password_citizen], passwordResetTokens := [open_reset] \<rparr>"

definition login_body :: login_dto where
  "login_body = \<lparr> lg_email = Some '' Ada@example.org'', lg_phone = None, lg_password = ''Secret123'', lg_providerId = None \<rparr>"

theorem tokens_need_proof_witness:
  "\<exists>r u. fst (perform_auth (auth_at 5 ''A'') disabledConfig (Log_in login_body None) login_db) = Inr (Some r) \<and>
     find_user (u_id (tk_user r)) (snd (perform_auth (auth_at 5 ''A'') disabledConfig (Log_in login_body None) login_db)) = Some u \<and>
     u_accountStatus u = ACTIVE \<and> shows_proof (auth_at 5 ''A'') (Log_in login_body None) login_db u"
proof -
  let ?run = "perform_auth (auth_at 5 ''A'') disabledConfig (Log_in login_body None) login_db"
  have "(case fst ?run of Inr (Some r) \<Rightarrow> True | _ \<Rightarrow> False)" by code_simp
  then obtain r t where run: "?run = (Inr (Some r), t)"
    by (cases ?run; cases "fst ?run"; cases "projr (fst ?run)") auto
  have "accounts_unique login_db" "list_all (\<lambda>u. 0 \<le> u_tokenVersion u) (users login_db)" by code_simp+
  from tokens_need_proof[OF run this] show ?thesis unfolding run fst_conv snd_conv by blast
qed



section \<open>A reset\<close>

definition completion :: complete_reset_dto where
  "completion = \<lparr> cr_token = '' token '', cr_password = ''NewSecret1'' \<rparr>"

definition reset_db :: db where
  "reset_db = snd (completePasswordReset (auth_at 5 ''A'') completion login_db)"

lemma reset_run: "completePasswordReset (auth_at 5 ''A'') completion login_db = (Inr (), reset_db)"
proof -
  have "fst (completePasswordReset (auth_at 5 ''A'') completion login_db) = Inr ()" by code_simp
  then show ?thesis unfolding reset_db_def by (metis prod.collapse)
qed

theorem password_reset_exact_witness:
  "users reset_db = [password_citizen\<lparr> u_passwordHash := Some ''NewSecret1'', u_tokenVersion := 1 \<rparr>] \<and>
   passwordResetTokens reset_db = [open_reset\<lparr> pr_usedAt := Some 5 \<rparr>]"
proof -
  have "usable_token (auth_at 5 ''A'') completion login_db = Some (open_reset, password_citizen)" by code_simp
  with password_reset_exact[OF reset_run] have "business reset_db =
      business (after_reset (auth_at 5 ''A'') (trim (cr_password completion)) open_reset password_citizen login_db)" by simp
  moreover have
    "users (after_reset (auth_at 5 ''A'') (trim (cr_password completion)) open_reset password_citizen login_db) =
       [password_citizen\<lparr> u_passwordHash := Some ''NewSecret1'', u_tokenVersion := 1 \<rparr>]"
    "passwordResetTokens (after_reset (auth_at 5 ''A'') (trim (cr_password completion)) open_reset password_citizen login_db) =
       [open_reset\<lparr> pr_usedAt := Some 5 \<rparr>]"
    by code_simp+
  ultimately show ?thesis
    by (auto dest: arg_cong[where f = users] arg_cong[where f = passwordResetTokens])
qed

definition citizen_session :: jwt_payload where
  "citizen_session = \<lparr> jp_sub = ''u1'', jp_tokenVersion = Some (jint 0) \<rparr>"

theorem reset_ends_sessions_witness:
  "succeeds (validate_token citizen_session) login_db \<and>
   validate_token citizen_session reset_db = (Inl (Unauthorized ''Unauthorized''), reset_db)"
proof -
  have ok: "succeeds (validate_token citizen_session) login_db" by code_simp
  then obtain session s' where run: "validate_token citizen_session login_db = (Inr session, s')" by (rule succeedsE)
  have "usable_token (auth_at 5 ''A'') completion login_db = Some (open_reset, password_citizen)"
    "jp_sub citizen_session = u_id password_citizen" by code_simp+
  with reset_ends_sessions[OF reset_run run] ok show ?thesis by auto
qed

definition again_db :: db where
  "again_db = snd (auth_performed (auth_at 999999 ''B'', working_config,
     Ask_reset \<lparr> rq_email = Some ''ada@example.org'', rq_phone = None, rq_returnTo = None \<rparr>) reset_db)"

theorem reset_once_witness:
  "\<exists>e w. completePasswordReset (auth_at 999999 ''C'') \<lparr> cr_token = ''token'', cr_password = ''Another99'' \<rparr> again_db = (Inl e, w) \<and>
     business w = business again_db"
proof (rule reset_once[OF reset_run])
  show "history_of auth_performed (\<lambda>_. True) reset_db again_db"
    unfolding again_db_def by (rule history_next[OF history_start _ surjective_pairing]) simp
  show "sha256 (auth_at 999999 ''C'') (trim (cr_token \<lparr> cr_token = ''token'', cr_password = ''Another99'' \<rparr>)) =
      sha256 (auth_at 5 ''A'') (trim (cr_token completion))" by code_simp
qed

end
