(* ===== verification/Spec2Isabelle.thy ===== *)
theory Spec2Isabelle imports Assignment_Theorems Review_Theorems Rule_Theorems Admin_Theorems Payment_Theorems Routing_Theorems Account_Theorems Mfa_Scenarios Auth_Scenarios begin

text \<open>
  Verification of the FixZone Enterprise API, a NestJS service over a Prisma database
  (the server is \<open>src/src\<close>, the tables \<open>src/prisma/schema.prisma\<close>).

  The program. Citizens report problems; the report service finds the organization that is responsible,
  the organization takes the report in, a dispatcher assigns a provider, the provider works and submits
  evidence, and a completion review by citizen and organization, with the platform as the last instance
  and a deadline behind it, closes the report. Around this core there are accounts and invitations, the
  administration of the platform by delegated roles, organization payments that buy the modules and quotas
  the report service asks for, and the logins: with a password, with a second factor for privileged accounts, with
  an identity provider for citizens, and the reset of a password. Components call each other as methods in
  one process and share the database; there are no messages and no shared memory, so a request is a run from one database to the next, and an interleaving of clients is a sequence of runs.

  The model. A handler is a computation \<open>'a handler\<close> on the record \<open>db\<close> of the tables (\<open>Prelude\<close>, \<open>Schema\<close>): it
  returns an exception (\<open>Inl\<close>) or a value (\<open>Inr\<close>) and the database it leaves, which keeps what was written
  before an exception; only \<open>transaction\<close> takes its writes back. Rows are records with the columns of the
  schema that some modelled operation reads or writes (a one-letter prefix for the table, then the column's
  name), enumerations are datatypes with the source's constants, JSON columns are the datatype \<open>json\<close>,
  numbers of the source are \<open>int\<close> except where the source works on 32 bits, which are words. Logs (activities,
  notices, audits) are tables that nothing reads; \<open>business\<close> forgets them, and a computation that only
  writes logs is \<open>quiet\<close>. What a request reads from outside is an argument: \<open>env\<close> (the clock, with one
  reading for a request, the environment variables, and the library functions described at its
  declaration in \<open>Schema\<close>) and its extensions \<open>mfa_env\<close> (cryptography, in \<open>Mfa\<close>), \<open>auth_env\<close> (password hashes,
  signatures and the identity provider, in \<open>Auth\<close>) and \<open>reset_env\<close> (addresses and mail, in \<open>Password_Reset\<close>). Nothing is assumed of them
  except where a property says so.

  Which theory models what.

    \<^item> \<open>Prelude\<close>: exceptions, the service monad, table operations of the database client, text and JSON, and
      the collections of facts shared by the proofs. \<open>Schema\<close>: rows, enumerations, requests' users. \<open>Tables\<close>: the
      contract of a keyed table (locale \<open>keyed_table\<close>) and its instances. \<open>Calendar\<close>: civil dates.
      \<open>Histories\<close>: sequences of requests and the contract of an invariant (\<open>service_invariant\<close>).
    \<^item> \<open>Report_Workflow\<close> (\<open>report/report-workflow.ts\<close>), \<open>Recording\<close>, \<open>Category\<close>, \<open>Completion_Policy\<close>,
      \<open>Completion_Handlers\<close>, \<open>Governance\<close>, \<open>Category_Admin\<close>, \<open>Review_Deadlines\<close>, \<open>Assignment\<close>, \<open>Status_Update\<close>,
      \<open>Organization_Intake\<close>, \<open>Evidence_Paths\<close>, \<open>Candidates\<close>, \<open>Routing\<close>: the parts of
      \<open>report/report.service.ts\<close>, in the order in which a report meets them when read from the end.
      \<open>Jurisdiction\<close> is \<open>organization/routing-jurisdiction.ts\<close>, \<open>Geo_Trust\<close> the location part of
      \<open>report/services/geo-trust.service.ts\<close>. \<open>Report_Handler\<close> is the contract every handler on a report
      meets (locales \<open>row_contract\<close> and \<open>report_handler\<close>), interpreted on each of them.
    \<^item> \<open>Platform_Modules\<close> (\<open>platform-modules\<close>), \<open>Business_Logic\<close> (\<open>business-logic\<close>), \<open>Trust\<close> (\<open>trust\<close>): what report
      handlers consult and tell.
    \<^item> \<open>Plan_Catalog\<close>, \<open>Paystack\<close>, \<open>Payments\<close>: \<open>payments/plan-catalog.ts\<close>, \<open>payments/paystack.adapter.ts\<close>,
      \<open>payments/payments.service.ts\<close>.
    \<^item> \<open>Users\<close>, \<open>Invitations\<close>: \<open>users/users.service.ts\<close>. \<open>Internal_Roles\<close>, \<open>Internal_Admin\<close>:
      \<open>internal-admin\<close> and the token strategy of \<open>auth/strategies\<close>.
    \<^item> \<open>Totp\<close>, \<open>Mfa\<close>: \<open>auth/privileged-mfa.service.ts\<close> and its policy of roles. \<open>Auth\<close>: \<open>auth/auth.service.ts\<close>
      without the reset, and \<open>auth/firebase-auth-verifier.service.ts\<close>. \<open>Password_Reset\<close>: the reset in
      \<open>auth/auth.service.ts\<close> and \<open>users/users.service.ts\<close>, with \<open>auth/password-reset-delivery.*\<close>.
    \<^item> \<open>Lifecycle\<close>: all requests on a report as one state machine. \<open>Example_Data\<close>: small databases for the
      instances of the properties.

  What the lemmas show.

    \<^item> \<open>Lifecycle\<close>, \<open>Completion_Theorems\<close>, \<open>Review_Theorems\<close> and this theory: every request moves reports along
      one table of moves; what closes, reopens, holds and delays a report; that the review refines an
      abstract quorum of approvals and can always reach closure.
    \<^item> \<open>Assignment_Theorems\<close>: when a provider is assigned, and the runs that leave a report where nobody asked.
    \<^item> \<open>Routing_Theorems\<close>: the resolution refines a specification over sets of organizations; intake, quota and
      the account of every report; the comparison of places as a comparison of words.
    \<^item> \<open>Rule_Theorems\<close>: normal forms of categories, policies of categories, stored references, module access.
    \<^item> \<open>Payment_Theorems\<close>: the books balance, only confirmed payments are booked, paid is final, webhooks are
      authentic, periods are bounded.
    \<^item> \<open>Admin_Theorems\<close>, \<open>Invitation_Theorems\<close>, \<open>Account_Theorems\<close>: who can gain which role along every history of
      requests, what stays inside an organization, when an invitation is settled, when sessions end.
    \<^item> \<open>Totp_Theorems\<close>, \<open>Mfa_Theorems\<close>, \<open>Mfa_Scenarios\<close>: base 32 round trip and termination of its loop, the window
      of a code, and that codes, recovery codes and sessions are good once.
    \<^item> \<open>Auth_Theorems\<close>, \<open>Reset_Theorems\<close>, \<open>Auth_Scenarios\<close>: over all requests of logins, second factors, profiles
      and resets (\<open>auth_request\<close>), no access token without the proofs its account asks for; the boundary of the
      identity provider; exactly when a password is reset, that it ends the sessions, works once and is rationed.

  Several theorems show behaviour the code does not mean: their names and texts say so, and the
  instance below each is a run in which it happens.

  Bounds. No definition has fuel. Loops over lists and attempts are structural recursion; the search for a
  place in a text and other recursions carry a measure; the inner loop of the base 32 encoding is a partial
  function whose termination is a property.

  Not modelled. Operations that only read and format rows (lists, queues, dashboards, billing overviews,
  analytics), because they have no effect and their content is the database's query engine. The administration of organizations and zones
  (\<open>organization/organization.service.ts\<close>), onboarding, platform configuration,
  platform tools, governance and asset records, disputes and evidence records of the trust service: record
  keeping beside the core. The branches of the authentication service for a missing second factor or mail service,
  which its module always provides. Demo data and fixtures. Distances and the assessment of completion evidence,
  which are floating point. Uploads, rate limits, controllers, guards and wiring, which are decorators of the
  framework.
\<close>

section \<open>The life of a report\<close>

text \<open>
  C10: Whatever request is performed, a report that becomes closed had an authority behind it: an
  unblocked review whose approvals contain a quorum of the policy, a platform resolution without
  a hold, the expired review window of an unblocked report, or a direct status change by an
  operator of its organization or a super admin on a completed report.
\<close>

theorem closing_requires_authority:
  assumes "perform env req s = (res, t)" and "authenticated req" and "report_ids_ok s"
    and "find_report i s = Some r" and "find_report i t = Some r'"
    and "r_status r \<noteq> CLOSED" and "r_status r' = CLOSED"
  shows "closing_authority env req r"
proof -
  have "r' = r \<or> row_step env s req r r'"
    using life.row_future[of "(env, req)" s res t i r] assms(1-5) by auto
  then show ?thesis
    using row_step_closing assms(6,7) by blast
qed

text \<open>The request every witness of this section performs: a confirmation, after the organization has verified.\<close>

definition sample_verified :: report where
  "sample_verified = sample_report\<lparr> r_organizationCompletionDecision := Some VERIFIED \<rparr>"

definition sample_confirmation :: request where
  "sample_confirmation = Confirm_completion ''r1'' \<lparr> cd_rating = 5, cd_feedback = None \<rparr> (request_user CITIZEN ''c1'')"

theorem closing_requires_authority_witness: "closing_authority sample_env sample_confirmation sample_verified"
proof -
  obtain res t where run: "perform sample_env sample_confirmation (sample_db [sample_verified]) = (res, t)"
    by (cases "perform sample_env sample_confirmation (sample_db [sample_verified])")
  have "map_option r_status (find_report ''r1'' (snd (perform sample_env sample_confirmation (sample_db [sample_verified])))) =
      Some CLOSED" by code_simp
  then obtain r' where "find_report ''r1'' t = Some r'" "r_status r' = CLOSED"
    using run by auto
  then show ?thesis
    by (intro closing_requires_authority[OF run, of "''r1''"]) (auto, code_simp+)
qed

text \<open>
  A closed report leaves that status only when a super admin reopens it with a reason, or when
  a dispatcher cancels or replaces its provider.
\<close>

theorem reopening_requires_authority:
  assumes "perform env req s = (res, t)" and "authenticated req" and "report_ids_ok s"
    and "find_report i s = Some r" and "find_report i t = Some r'"
    and "r_status r = CLOSED" and "r_status r' \<noteq> CLOSED"
  shows "reopening_authority req r"
proof -
  have "r' = r \<or> row_step env s req r r'"
    using life.row_future[of "(env, req)" s res t i r] assms(1-5) by auto
  then show ?thesis
    using row_step_reopening assms(6,7) by blast
qed

definition sample_closed :: report where
  "sample_closed = sample_report\<lparr> r_status := CLOSED, r_citizenCompletionDecision := Some CONFIRMED,
     r_organizationCompletionDecision := Some VERIFIED, r_completionReviewState := Some ''CLOSED'',
     r_completionFinalizedAt := Some 5, r_completionFinalizedByRole := Some CITIZEN \<rparr>"

definition sample_reopening :: request where
  "sample_reopening = Admin_reopen ''r1'' (Some ''New evidence'') (request_user SUPER_ADMIN ''s1'')"

theorem reopening_requires_authority_witness: "reopening_authority sample_reopening sample_closed"
proof -
  obtain res t where run: "perform sample_env sample_reopening (sample_db [sample_closed]) = (res, t)"
    by (cases "perform sample_env sample_reopening (sample_db [sample_closed])")
  have "map_option r_status (find_report ''r1'' (snd (perform sample_env sample_reopening (sample_db [sample_closed])))) =
      Some COMPLETED_BY_PROVIDER" by code_simp
  then obtain r' where "find_report ''r1'' t = Some r'" "r_status r' = COMPLETED_BY_PROVIDER"
    using run by auto
  then show ?thesis
    by (intro reopening_requires_authority[OF run, of "''r1''"]) (auto, code_simp+)
qed

text \<open>
  C11: Every request moves a report only along its row of the table of moves, and no request adds,
  removes, reorders or renames reports.
\<close>

theorem requests_follow_moves:
  assumes "perform env req s = (res, t)" and "authenticated req" and "report_ids_ok s"
  shows "list_all2 (\<lambda>r r'. r_id r' = r_id r \<and> (r' = r \<or> r_status r' \<in> set (moves req (r_status r))))
    (reports s) (reports t)"
  using perform_rows[OF assms] by (rule list_all2_mono) (auto dest: row_step_moves row_step_id)

theorem requests_follow_moves_witness:
  "list_all2 (\<lambda>r r'. r_id r' = r_id r \<and> (r' = r \<or> r_status r' \<in> set (moves sample_confirmation (r_status r))))
    [sample_verified] (reports (snd (perform sample_env sample_confirmation (sample_db [sample_verified]))))"
  using requests_follow_moves[of sample_env sample_confirmation "sample_db [sample_verified]"]
  by (simp add: prod_eq_iff) (simp add: sample_confirmation_def sample_verified_def sample_defs authenticated_def
      has_user_id_def actor_id_def truthy_def report_ids_ok_def)

text \<open>
  Along every history in which the platform resolves or returns only reports already in work, a
  report has a provider exactly from assignment to closure.
\<close>

theorem provider_while_in_work:
  assumes "history governed_in_work s0 t" and "report_ids_ok s0"
    and "\<forall>r\<in>set (reports s0). provider_matches_status r"
  shows "\<forall>r\<in>set (reports t). provider_matches_status r"
  by (rule provider.holds_along[OF assms])

theorem provider_while_in_work_witness:
  "list_all provider_matches_status (reports (snd (perform sample_env sample_confirmation (sample_db [sample_verified]))))"
  unfolding list_all_iff
proof (rule provider_while_in_work)
  show "history governed_in_work (sample_db [sample_verified])
      (snd (perform sample_env sample_confirmation (sample_db [sample_verified])))"
    by (rule history.next_request[OF history.start, where req = sample_confirmation and env = sample_env
          and res = "fst (perform sample_env sample_confirmation (sample_db [sample_verified]))"])
      (auto simp: sample_confirmation_def authenticated_def has_user_id_def sample_defs actor_id_def truthy_def)
qed (code_simp+)

text \<open>
  Along every history without direct closing by a status change, every closed report shows the
  closed review state and names when and by which role it was finalized.
\<close>

theorem closed_reports_are_recorded:
  assumes "history closes_through_review s0 t" and "report_ids_ok s0"
    and "\<forall>r\<in>set (reports s0). closure_recorded r"
  shows "\<forall>r\<in>set (reports t). closure_recorded r"
  by (rule recorded.holds_along[OF assms])

theorem closed_reports_are_recorded_witness:
  "list_all closure_recorded (reports (snd (perform sample_env sample_confirmation (sample_db [sample_verified]))))"
  unfolding list_all_iff
proof (rule closed_reports_are_recorded)
  show "history closes_through_review (sample_db [sample_verified])
      (snd (perform sample_env sample_confirmation (sample_db [sample_verified])))"
    by (rule history.next_request[OF history.start, where req = sample_confirmation and env = sample_env
          and res = "fst (perform sample_env sample_confirmation (sample_db [sample_verified]))"])
      (auto simp: sample_confirmation_def authenticated_def has_user_id_def sample_defs actor_id_def truthy_def)
qed (code_simp+)

end
